(* ===== verification/Prelude.thy ===== *)
theory Prelude
  imports Main
begin

text \<open>
  Shared vocabulary of the development: fallible results, the sequencing of checks the
  Rust code writes with \<open>?\<close>, and generic facts on lists and options. Every component
  theory imports this one.

  A Rust \<open>Result<T, E>\<close> is a value of \<open>'e + 'a\<close>: \<open>Inl\<close> carries the error and
  \<open>Inr\<close> the result. The collection \<open>result_simps\<close> characterises when a sequence of
  checks succeeds and with which error it stops.
\<close>

named_theorems result_simps \<open>when a sequence of fallible steps succeeds or fails\<close>

section \<open>Results\<close>

type_synonym ('e, 'a) result = "'e + 'a"

fun and_then :: "('e, 'a) result \<Rightarrow> ('a \<Rightarrow> ('e, 'b) result) \<Rightarrow> ('e, 'b) result" where
  "and_then (Inl e) f = Inl e"
| "and_then (Inr x) f = f x"

definition ok_or :: "'a option \<Rightarrow> 'e \<Rightarrow> ('e, 'a) result" where
  "ok_or x e = (case x of None \<Rightarrow> Inl e | Some y \<Rightarrow> Inr y)"

definition map_err :: "('e \<Rightarrow> 'f) \<Rightarrow> ('e, 'a) result \<Rightarrow> ('f, 'a) result" where
  "map_err f r = (case r of Inl e \<Rightarrow> Inl (f e) | Inr x \<Rightarrow> Inr x)"

definition is_ok :: "('e, 'a) result \<Rightarrow> bool" where
  "is_ok r = (case r of Inl _ \<Rightarrow> False | Inr _ \<Rightarrow> True)"

definition reject_if :: "bool \<Rightarrow> 'e \<Rightarrow> ('e, unit) result" where
  "reject_if b e = (if b then Inl e else Inr ())"

lemma and_then_Inr_iff [result_simps]:
  "and_then r f = Inr y \<longleftrightarrow> (\<exists>x. r = Inr x \<and> f x = Inr y)"
  by (cases r) auto

lemma and_then_Inl_iff [result_simps]:
  "and_then r f = Inl e \<longleftrightarrow> r = Inl e \<or> (\<exists>x. r = Inr x \<and> f x = Inl e)"
  by (cases r) auto

lemma and_then_unit_Inr_iff [result_simps]:
  "and_then (r :: ('e, unit) result) f = Inr y \<longleftrightarrow> r = Inr () \<and> f () = Inr y"
  by (cases r) auto

lemma ok_or_Inr_iff [result_simps]: "ok_or x e = Inr y \<longleftrightarrow> x = Some y"
  by (cases x) (auto simp: ok_or_def)

lemma ok_or_Inl_iff [result_simps]: "ok_or x e = Inl d \<longleftrightarrow> x = None \<and> d = e"
  by (cases x) (auto simp: ok_or_def)

lemma map_err_Inr_iff [result_simps]: "map_err f r = Inr y \<longleftrightarrow> r = Inr y"
  by (cases r) (auto simp: map_err_def)

lemma map_err_Inl_iff [result_simps]: "map_err f r = Inl d \<longleftrightarrow> (\<exists>e. r = Inl e \<and> d = f e)"
  by (cases r) (auto simp: map_err_def)

lemma reject_if_Inr_iff [result_simps]: "reject_if b e = Inr u \<longleftrightarrow> \<not> b"
  by (auto simp: reject_if_def)

lemma reject_if_Inl_iff [result_simps]: "reject_if b e = Inl d \<longleftrightarrow> b \<and> d = e"
  by (auto simp: reject_if_def)

lemma is_ok_iff [result_simps]: "is_ok r \<longleftrightarrow> (\<exists>x. r = Inr x)"
  by (cases r) (auto simp: is_ok_def)

lemma is_ok_simps [simp]: "is_ok (Inr x)" "\<not> is_ok (Inl e)"
  by (simp_all add: is_ok_def)

lemma ok_or_simps [simp]: "ok_or (Some y) e = Inr y" "ok_or None e = Inl e"
  by (simp_all add: ok_or_def)

lemma map_err_simps [simp]: "map_err f (Inr y) = Inr y" "map_err f (Inl e) = Inl (f e)"
  by (simp_all add: map_err_def)

lemma reject_if_simps [simp]: "reject_if True e = Inl e" "reject_if False e = Inr ()"
  by (simp_all add: reject_if_def)

section \<open>Loops of checks\<close>

text \<open>
  A \<open>for\<close> loop whose body is a fallible check stops at the first error;
  \<open>check_all\<close> is that loop.
\<close>

fun check_all :: "('a \<Rightarrow> ('e, unit) result) \<Rightarrow> 'a list \<Rightarrow> ('e, unit) result" where
  "check_all f [] = Inr ()"
| "check_all f (x # xs) = and_then (f x) (\<lambda>_. check_all f xs)"

lemma check_all_Inr_iff [result_simps]: "check_all f xs = Inr u \<longleftrightarrow> (\<forall>x \<in> set xs. f x = Inr ())"
  by (induction xs) (auto simp: result_simps)

lemma check_all_append: "check_all f (xs @ ys) = and_then (check_all f xs) (\<lambda>_. check_all f ys)"
proof (induction xs)
  case Nil
  then show ?case by simp
next
  case (Cons x xs)
  then show ?case by (cases "f x") auto
qed

fun collect_results :: "('a \<Rightarrow> ('e, 'b) result) \<Rightarrow> 'a list \<Rightarrow> ('e, 'b list) result" where
  "collect_results f [] = Inr []"
| "collect_results f (x # xs) =
     and_then (f x) (\<lambda>y. and_then (collect_results f xs) (\<lambda>ys. Inr (y # ys)))"

lemma collect_results_Inr_iff [result_simps]:
  "collect_results f xs = Inr ys \<longleftrightarrow> list_all2 (\<lambda>x y. f x = Inr y) xs ys"
proof (induction xs arbitrary: ys)
  case Nil
  then show ?case by auto
next
  case (Cons x xs)
  then show ?case by (cases ys) (auto simp: result_simps)
qed

lemma collect_results_map:
  "(\<And>x. x \<in> set xs \<Longrightarrow> f x = Inr (g x)) \<Longrightarrow> collect_results f xs = Inr (map g xs)"
  by (induction xs) auto

section \<open>Lists and options\<close>

fun find_first :: "('a \<Rightarrow> bool) \<Rightarrow> 'a list \<Rightarrow> 'a option" where
  "find_first p [] = None"
| "find_first p (x # xs) = (if p x then Some x else find_first p xs)"

lemma find_first_None_iff: "find_first p xs = None \<longleftrightarrow> (\<forall>x \<in> set xs. \<not> p x)"
  by (induction xs) auto

lemma find_first_SomeD: "find_first p xs = Some x \<Longrightarrow> x \<in> set xs \<and> p x"
  by (induction xs) (auto split: if_splits)

lemma find_first_unique:
  assumes "x \<in> set xs" "p x" "\<And>y. y \<in> set xs \<Longrightarrow> p y \<Longrightarrow> y = x"
  shows "find_first p xs = Some x"
  using assms
proof (induction xs)
  case Nil
  then show ?case by simp
next
  case (Cons y ys)
  show ?case
  proof (cases "p y")
    case True
    with Cons.prems(3) [of y] show ?thesis by simp
  next
    case False
    with Cons.prems(1,2) have "x \<in> set ys" by auto
    then have "find_first p ys = Some x"
      using Cons.prems(2,3) by (intro Cons.IH) (simp_all only: list.set_intros(2))
    with False show ?thesis by simp
  qed
qed

definition is_some_and :: "('a \<Rightarrow> bool) \<Rightarrow> 'a option \<Rightarrow> bool" where
  "is_some_and p x = (case x of None \<Rightarrow> False | Some y \<Rightarrow> p y)"

definition is_none_or :: "('a \<Rightarrow> bool) \<Rightarrow> 'a option \<Rightarrow> bool" where
  "is_none_or p x = (case x of None \<Rightarrow> True | Some y \<Rightarrow> p y)"

lemma is_some_and_simps [simp]: "\<not> is_some_and p None" "is_some_and p (Some y) = p y"
  by (simp_all add: is_some_and_def)

lemma is_none_or_simps [simp]: "is_none_or p None" "is_none_or p (Some y) = p y"
  by (simp_all add: is_none_or_def)

definition filter_opt :: "('a \<Rightarrow> bool) \<Rightarrow> 'a option \<Rightarrow> 'a option" where
  "filter_opt p x = (case x of None \<Rightarrow> None | Some y \<Rightarrow> (if p y then Some y else None))"

lemma filter_opt_Some_iff [simp]: "filter_opt p x = Some y \<longleftrightarrow> x = Some y \<and> p y"
  by (cases x) (auto simp: filter_opt_def)

lemma filter_opt_None_iff [simp]: "filter_opt p x = None \<longleftrightarrow> (\<forall>y. x = Some y \<longrightarrow> \<not> p y)"
  by (cases x) (auto simp: filter_opt_def)

lemma takeWhile_all_length:
  "length (take n (takeWhile p xs)) = n \<longleftrightarrow> n \<le> length xs \<and> (\<forall>x \<in> set (take n xs). p x)"
proof (induction xs arbitrary: n)
  case Nil
  then show ?case by simp
next
  case (Cons x xs)
  then show ?case by (cases n) auto
qed

end
