(* ===== verification/Text.thy ===== *)
theory Text
  imports Prelude "HOL-Library.Sublist" "HOL-Library.List_Lexorder" "HOL-Library.Char_ord"
begin

text \<open>
  The part of Rust's \<open>str\<close>, \<open>char\<close> and \<open>u8\<close> that the program uses. A \<open>&str\<close> is the
  list of its UTF-8 bytes (\<open>string\<close>, one \<open>char\<close> of HOL per byte), so \<open>len()\<close> is
  \<open>length\<close>; the operations that look at Unicode scalar values go through \<open>chars\<close>, which
  cuts the bytes into their UTF-8 groups.
\<close>

named_theorems text_simps \<open>evaluation of byte-string operations on literals\<close>

section \<open>Bytes\<close>

definition byte :: "char \<Rightarrow> nat" where
  "byte c = of_char c"

definition is_ascii_digit :: "char \<Rightarrow> bool" where
  "is_ascii_digit c \<longleftrightarrow> 48 \<le> byte c \<and> byte c \<le> 57"

definition is_ascii_uppercase :: "char \<Rightarrow> bool" where
  "is_ascii_uppercase c \<longleftrightarrow> 65 \<le> byte c \<and> byte c \<le> 90"

definition is_ascii_lowercase :: "char \<Rightarrow> bool" where
  "is_ascii_lowercase c \<longleftrightarrow> 97 \<le> byte c \<and> byte c \<le> 122"

definition is_ascii_alphabetic :: "char \<Rightarrow> bool" where
  "is_ascii_alphabetic c \<longleftrightarrow> is_ascii_uppercase c \<or> is_ascii_lowercase c"

definition is_ascii_alphanumeric :: "char \<Rightarrow> bool" where
  "is_ascii_alphanumeric c \<longleftrightarrow> is_ascii_alphabetic c \<or> is_ascii_digit c"

definition is_ascii_graphic :: "char \<Rightarrow> bool" where
  "is_ascii_graphic c \<longleftrightarrow> 33 \<le> byte c \<and> byte c \<le> 126"

definition is_ascii_whitespace :: "char \<Rightarrow> bool" where
  "is_ascii_whitespace c \<longleftrightarrow> byte c \<in> {9, 10, 12, 13, 32}"

definition lower_byte :: "char \<Rightarrow> char" where
  "lower_byte c = (if is_ascii_uppercase c then char_of (byte c + 32) else c)"

definition upper_byte :: "char \<Rightarrow> char" where
  "upper_byte c = (if is_ascii_lowercase c then char_of (byte c - 32) else c)"

definition to_ascii_lowercase :: "string \<Rightarrow> string" where
  "to_ascii_lowercase = map lower_byte"

definition to_ascii_uppercase :: "string \<Rightarrow> string" where
  "to_ascii_uppercase = map upper_byte"

definition eq_ignore_ascii_case :: "string \<Rightarrow> string \<Rightarrow> bool" where
  "eq_ignore_ascii_case a b \<longleftrightarrow> to_ascii_lowercase a = to_ascii_lowercase b"

lemmas ascii_defs [text_simps] =
  byte_def is_ascii_digit_def is_ascii_uppercase_def is_ascii_lowercase_def
  is_ascii_alphabetic_def is_ascii_alphanumeric_def is_ascii_graphic_def
  is_ascii_whitespace_def

lemma byte_less_256 [simp]: "byte c < 256"
  by (simp add: byte_def)

lemma byte_char_of [simp]: "byte (char_of n) = n mod 256"
  by (simp add: byte_def)

lemma byte_inject [simp]: "byte c = byte d \<longleftrightarrow> c = d"
  by (simp add: byte_def)

lemma byte_lower: "byte (lower_byte c) = (if is_ascii_uppercase c then byte c + 32 else byte c)"
  by (auto simp: lower_byte_def is_ascii_uppercase_def)

lemma lower_byte_not_upper [simp]: "\<not> is_ascii_uppercase (lower_byte c)"
  by (auto simp: is_ascii_uppercase_def byte_lower)

lemma lower_byte_idem [simp]: "lower_byte (lower_byte c) = lower_byte c"
  by (subst lower_byte_def) simp

lemma length_case [simp]:
  "length (to_ascii_lowercase s) = length s" "length (to_ascii_uppercase s) = length s"
  by (simp_all add: to_ascii_lowercase_def to_ascii_uppercase_def)

section \<open>Searching and splitting\<close>

definition starts_with :: "string \<Rightarrow> string \<Rightarrow> bool" where
  "starts_with p s \<longleftrightarrow> take (length p) s = p"

definition ends_with :: "string \<Rightarrow> string \<Rightarrow> bool" where
  "ends_with p s \<longleftrightarrow> length p \<le> length s \<and> drop (length s - length p) s = p"

definition strip_prefix :: "string \<Rightarrow> string \<Rightarrow> string option" where
  "strip_prefix p s = (if starts_with p s then Some (drop (length p) s) else None)"

definition strip_suffix :: "string \<Rightarrow> string \<Rightarrow> string option" where
  "strip_suffix p s = (if ends_with p s then Some (take (length s - length p) s) else None)"

fun contains :: "string \<Rightarrow> string \<Rightarrow> bool" where
  "contains p [] = (p = [])"
| "contains p (c # cs) = (starts_with p (c # cs) \<or> contains p cs)"

fun split_on :: "'a \<Rightarrow> 'a list \<Rightarrow> 'a list list" where
  "split_on d [] = [[]]"
| "split_on d (c # cs) =
     (if c = d then [] # split_on d cs
      else (case split_on d cs of [] \<Rightarrow> [[c]] | w # ws \<Rightarrow> (c # w) # ws))"

fun split_once :: "'a \<Rightarrow> 'a list \<Rightarrow> ('a list \<times> 'a list) option" where
  "split_once d [] = None"
| "split_once d (c # cs) =
     (if c = d then Some ([], cs)
      else map_option (\<lambda>(a, b). (c # a, b)) (split_once d cs))"

text \<open>
  \<open>match_contexts p rpre s\<close> lists the non-overlapping occurrences of a non-empty pattern
  \<open>p\<close> in \<open>s\<close> from the left, each as the reversed text before it and the text after it;
  \<open>rpre\<close> is the reversed text already passed. It is \<open>str::match_indices\<close>.
\<close>

function match_contexts :: "string \<Rightarrow> string \<Rightarrow> string \<Rightarrow> (string \<times> string) list" where
  "match_contexts p rpre [] = []"
| "match_contexts p rpre (c # cs) =
     (if p \<noteq> [] \<and> starts_with p (c # cs)
      then (rpre, drop (length p) (c # cs))
             # match_contexts p (rev p @ rpre) (drop (length p) (c # cs))
      else match_contexts p (c # rpre) cs)"
  by pat_completeness auto
termination
  by (relation "measure (\<lambda>(p, rpre, s). length s)") auto

lemma starts_with_prefix: "starts_with p s \<longleftrightarrow> prefix p s"
  by (metis append_take_drop_id append_eq_conv_conj prefix_def starts_with_def)

lemma starts_with_append [simp]: "starts_with p (p @ s)"
  by (simp add: starts_with_def)

lemma starts_with_Nil [simp]: "starts_with [] s"
  by (simp add: starts_with_def)

lemma starts_with_Cons [simp]:
  "starts_with (a # p) (b # s) \<longleftrightarrow> a = b \<and> starts_with p s"
  "\<not> starts_with (a # p) []"
  by (auto simp: starts_with_def)

lemma ends_with_suffix: "ends_with p s \<longleftrightarrow> suffix p s"
proof
  assume "ends_with p s"
  then show "suffix p s"
    by (metis append_take_drop_id ends_with_def suffix_def)
next
  assume "suffix p s"
  then show "ends_with p s" by (auto simp: suffix_def ends_with_def)
qed

lemma contains_sublist: "contains p s \<longleftrightarrow> sublist p s"
proof (induction s)
  case Nil
  then show ?case by auto
next
  case (Cons c cs)
  then show ?case by (auto simp: starts_with_prefix sublist_Cons_right)
qed

lemma containsI: "contains p (a @ p @ b)"
  by (auto simp: contains_sublist)

lemma contains_append: "contains p s \<Longrightarrow> contains p (a @ s @ b)"
  by (meson contains_sublist sublist_appendI sublist_order.order.trans)

lemma strip_prefix_Some_iff: "strip_prefix p s = Some r \<longleftrightarrow> s = p @ r"
  by (auto simp: strip_prefix_def starts_with_def) (metis append_take_drop_id)

lemma strip_suffix_Some_iff: "strip_suffix p s = Some r \<longleftrightarrow> s = r @ p"
  by (auto simp: strip_suffix_def ends_with_def) (metis append_take_drop_id)

lemma strip_prefix_None_iff: "strip_prefix p s = None \<longleftrightarrow> \<not> starts_with p s"
  by (simp add: strip_prefix_def)

lemma split_on_not_Nil [simp]: "split_on d s \<noteq> []"
  by (induction s) (auto split: list.splits)

lemma split_on_no_sep: "d \<notin> set s \<Longrightarrow> split_on d s = [s]"
  by (induction s) auto

lemma split_on_append_sep:
  "d \<notin> set a \<Longrightarrow> split_on d (a @ d # s) = a # split_on d s"
  by (induction a) auto

lemma split_on_parts: "w \<in> set (split_on d s) \<Longrightarrow> d \<notin> set w"
  by (induction s arbitrary: w) (auto split: if_splits list.splits)

lemma split_on_part_subset: "w \<in> set (split_on d s) \<Longrightarrow> set w \<subseteq> set s"
proof (induction s arbitrary: w)
  case Nil
  then show ?case by simp
next
  case (Cons c cs)
  then show ?case
    by (cases "split_on d cs") (auto split: if_splits, fastforce)
qed

fun join_with :: "'a \<Rightarrow> 'a list list \<Rightarrow> 'a list" where
  "join_with d [] = []"
| "join_with d [w] = w"
| "join_with d (w # v # ws) = w @ d # join_with d (v # ws)"

lemma join_with_Cons: "ws \<noteq> [] \<Longrightarrow> join_with d (w # ws) = w @ d # join_with d ws"
  by (cases ws) auto

lemma join_split [simp]: "join_with d (split_on d s) = s"
proof (induction s)
  case Nil
  then show ?case by simp
next
  case (Cons c cs)
  show ?case
  proof (cases "split_on d cs")
    case Nil
    then show ?thesis by simp
  next
    case (Cons w ws)
    with Cons.IH show ?thesis
      by (cases ws) (auto simp: join_with_Cons)
  qed
qed

lemma split_join: "ws \<noteq> [] \<Longrightarrow> \<forall>w \<in> set ws. d \<notin> set w \<Longrightarrow> split_on d (join_with d ws) = ws"
  by (induction d ws rule: join_with.induct) (auto simp: split_on_no_sep split_on_append_sep)

lemma split_once_Some_iff: "split_once d s = Some (a, b) \<longleftrightarrow> d \<notin> set a \<and> s = a @ d # b"
proof (induction s arbitrary: a)
  case Nil
  then show ?case by simp
next
  case (Cons c cs)
  then show ?case
    by (cases a) (auto split: if_splits)
qed

lemma split_once_None_iff: "split_once d s = None \<longleftrightarrow> d \<notin> set s"
  by (induction s) auto

lemma match_contexts_sound:
  "(before, after) \<in> set (match_contexts p rpre s) \<Longrightarrow> rev rpre @ s = rev before @ p @ after"
proof (induction p rpre s rule: match_contexts.induct)
  case (1 p rpre)
  then show ?case by simp
next
  case (2 p rpre c cs)
  show ?case
  proof (cases "p \<noteq> [] \<and> starts_with p (c # cs)")
    case True
    then have split: "c # cs = p @ drop (length p) (c # cs)"
      by (metis append_take_drop_id starts_with_def)
    show ?thesis
    proof (cases "(before, after) = (rpre, drop (length p) (c # cs))")
      case True
      with split show ?thesis by simp
    next
      case False
      then have "(before, after) \<in> set (match_contexts p (rev p @ rpre) (drop (length p) (c # cs)))"
        using "2.prems" True by auto
      then have "rev (rev p @ rpre) @ drop (length p) (c # cs) = rev before @ p @ after"
        by (rule "2.IH"(1) [OF True])
      with split show ?thesis by (metis append.assoc rev_append rev_rev_ident)
    qed
  next
    case False
    with 2 show ?thesis by auto
  qed
qed

section \<open>Unicode scalar values\<close>

text \<open>
  The number of bytes of the UTF-8 group a lead byte opens. On valid UTF-8 \<open>chars\<close> is
  \<open>str::chars\<close>, each scalar value kept as its bytes.
\<close>

definition utf8_width :: "char \<Rightarrow> nat" where
  "utf8_width c = (if byte c < 128 then 1 else if byte c < 224 then 2
                   else if byte c < 240 then 3 else 4)"

fun chars :: "string \<Rightarrow> string list" where
  "chars [] = []"
| "chars (c # cs) = (c # take (utf8_width c - 1) cs) # chars (drop (utf8_width c - 1) cs)"

definition is_control :: "string \<Rightarrow> bool" where
  "is_control g =
     (case map byte g of
        [b] \<Rightarrow> b < 32 \<or> b = 127
      | [b, d] \<Rightarrow> b = 194 \<and> 128 \<le> d \<and> d \<le> 159
      | _ \<Rightarrow> False)"

definition is_whitespace :: "string \<Rightarrow> bool" where
  "is_whitespace g =
     (case map byte g of
        [b] \<Rightarrow> (9 \<le> b \<and> b \<le> 13) \<or> b = 32
      | [b, d] \<Rightarrow> b = 194 \<and> (d = 133 \<or> d = 160)
      | [b, d, e] \<Rightarrow>
          (b = 225 \<and> d = 154 \<and> e = 128)
          \<or> (b = 226 \<and> d = 128 \<and> (128 \<le> e \<and> e \<le> 138 \<or> e = 168 \<or> e = 169 \<or> e = 175))
          \<or> (b = 226 \<and> d = 129 \<and> e = 159)
          \<or> (b = 227 \<and> d = 128 \<and> e = 128)
      | _ \<Rightarrow> False)"

definition any_control :: "string \<Rightarrow> bool" where
  "any_control s \<longleftrightarrow> list_ex is_control (chars s)"

definition trim_start_matches :: "(string \<Rightarrow> bool) \<Rightarrow> string \<Rightarrow> string" where
  "trim_start_matches p s = concat (dropWhile p (chars s))"

definition trim_end_matches :: "(string \<Rightarrow> bool) \<Rightarrow> string \<Rightarrow> string" where
  "trim_end_matches p s = concat (rev (dropWhile p (rev (chars s))))"

definition trim_matches :: "(string \<Rightarrow> bool) \<Rightarrow> string \<Rightarrow> string" where
  "trim_matches p s = trim_end_matches p (trim_start_matches p s)"

definition trim_start :: "string \<Rightarrow> string" where
  "trim_start = trim_start_matches is_whitespace"

definition trim :: "string \<Rightarrow> string" where
  "trim = trim_matches is_whitespace"

text \<open>Words between separators, the empty ones dropped.\<close>

fun words_by :: "('a \<Rightarrow> bool) \<Rightarrow> 'a list \<Rightarrow> 'a list \<Rightarrow> 'a list list" where
  "words_by p acc [] = (if acc = [] then [] else [rev acc])"
| "words_by p acc (x # xs) =
     (if p x then (if acc = [] then words_by p [] xs else rev acc # words_by p [] xs)
      else words_by p (x # acc) xs)"

definition split_whitespace :: "string \<Rightarrow> string list" where
  "split_whitespace s = map concat (words_by is_whitespace [] (chars s))"

definition split_ascii_whitespace :: "string \<Rightarrow> string list" where
  "split_ascii_whitespace s = words_by is_ascii_whitespace [] s"

text \<open>
  \<open>str::lines\<close>: a line ends at a line feed, with a carriage return before it taken off; a
  last line without its line feed keeps its carriage return, and an empty one is no line.
\<close>

definition strip_cr :: "string \<Rightarrow> string" where
  "strip_cr w = (if ends_with [CHR 0x0D] w then butlast w else w)"

definition lines :: "string \<Rightarrow> string list" where
  "lines s =
     (let parts = split_on (CHR 0x0A) s
      in map strip_cr (butlast parts) @ (if last parts = [] then [] else [last parts]))"

lemma concat_chars [simp]: "concat (chars s) = s"
  by (induction s rule: chars.induct) auto

lemma chars_ne: "g \<in> set (chars s) \<Longrightarrow> g \<noteq> []"
  by (induction s rule: chars.induct) auto

lemma utf8_width_ascii [simp]: "byte c < 128 \<Longrightarrow> utf8_width c = 1"
  by (simp add: utf8_width_def)

lemma chars_ascii: "\<forall>c \<in> set s. byte c < 128 \<Longrightarrow> chars s = map (\<lambda>c. [c]) s"
  by (induction s) auto

lemma chars_ascii_prefix:
  "\<forall>c \<in> set a. byte c < 128 \<Longrightarrow> chars (a @ s) = map (\<lambda>c. [c]) a @ chars s"
  by (induction a) auto

lemma ascii_not_control_iff:
  "\<forall>c \<in> set s. byte c < 128 \<Longrightarrow> any_control s \<longleftrightarrow> (\<exists>c \<in> set s. byte c < 32 \<or> byte c = 127)"
  by (auto simp: any_control_def chars_ascii list_ex_iff is_control_def)

lemma printable_no_control:
  assumes "\<forall>c \<in> set s. 32 \<le> byte c \<and> byte c \<le> 126"
  shows "\<not> any_control s"
proof -
  have "byte c < 128 \<and> \<not> (byte c < 32 \<or> byte c = 127)" if "c \<in> set s" for c
  proof -
    from assms that have "32 \<le> byte c \<and> byte c \<le> 126" by blast
    then show ?thesis by linarith
  qed
  then show ?thesis by (simp add: ascii_not_control_iff)
qed

lemma any_control_append_ascii:
  "\<forall>c \<in> set a. byte c < 128 \<Longrightarrow> any_control (a @ s) \<longleftrightarrow> any_control a \<or> any_control s"
  by (simp add: any_control_def chars_ascii chars_ascii_prefix)

lemma trim_start_suffix: "suffix (trim_start_matches p s) s"
proof -
  have "s = concat (takeWhile p (chars s)) @ trim_start_matches p s"
    unfolding trim_start_matches_def by (metis concat_append concat_chars takeWhile_dropWhile_id)
  then show ?thesis by (metis suffixI)
qed

lemma words_by_nonempty: "[] \<notin> set (words_by p acc xs)"
  by (induction xs arbitrary: acc) simp_all

lemma words_by_no_sep:
  "\<forall>x \<in> set acc. \<not> p x \<Longrightarrow> \<forall>w \<in> set (words_by p acc xs). \<forall>x \<in> set w. \<not> p x"
proof (induction xs arbitrary: acc)
  case Nil
  then show ?case by simp
next
  case (Cons y ys)
  have "\<forall>w \<in> set (words_by p [] ys). \<forall>x \<in> set w. \<not> p x"
    by (rule Cons.IH) simp
  moreover have "\<not> p y \<Longrightarrow> \<forall>w \<in> set (words_by p (y # acc) ys). \<forall>x \<in> set w. \<not> p x"
    using Cons.prems by (intro Cons.IH) simp
  ultimately show ?case using Cons.prems by simp
qed

lemma words_by_skip:
  "\<forall>x \<in> set xs. \<not> p x \<Longrightarrow> words_by p acc (xs @ ys) = words_by p (rev xs @ acc) ys"
  by (induction xs arbitrary: acc) auto

lemma split_ascii_whitespace_two:
  assumes "a \<noteq> []" "b \<noteq> []" "\<forall>c \<in> set a. \<not> is_ascii_whitespace c"
    and "\<forall>c \<in> set b. \<not> is_ascii_whitespace c"
  shows "split_ascii_whitespace (a @ CHR 0x20 # b) = [a, b]"
proof -
  have sp: "is_ascii_whitespace (CHR 0x20)"
    by (simp add: is_ascii_whitespace_def byte_def)
  have "words_by is_ascii_whitespace [] b = [b]"
    using words_by_skip [of b is_ascii_whitespace "[]" "[]"] assms(2,4) by simp
  then show ?thesis
    using words_by_skip [of a is_ascii_whitespace "[]" "CHR 0x20 # b"] assms(1,3) sp
    by (simp add: split_ascii_whitespace_def)
qed

lemma split_ascii_whitespace_Cons:
  assumes "a \<noteq> []" "\<forall>c \<in> set a. \<not> is_ascii_whitespace c"
  shows "split_ascii_whitespace (a @ CHR 0x20 # b) = a # split_ascii_whitespace b"
proof -
  have sp: "is_ascii_whitespace (CHR 0x20)"
    by (simp add: is_ascii_whitespace_def byte_def)
  show ?thesis
    using words_by_skip [of a is_ascii_whitespace "[]" "CHR 0x20 # b"] assms sp
    by (simp add: split_ascii_whitespace_def)
qed

lemma split_ascii_whitespace_one:
  assumes "a \<noteq> []" "\<forall>c \<in> set a. \<not> is_ascii_whitespace c"
  shows "split_ascii_whitespace a = [a]"
  using words_by_skip [of a is_ascii_whitespace "[]" "[]"] assms
  by (simp add: split_ascii_whitespace_def)

lemma split_ascii_whitespace_parts:
  "w \<in> set (split_ascii_whitespace s) \<Longrightarrow> w \<noteq> [] \<and> (\<forall>c \<in> set w. \<not> is_ascii_whitespace c)"
  using words_by_nonempty [of is_ascii_whitespace "[]" s] words_by_no_sep [of "[]" is_ascii_whitespace s]
  by (auto simp: split_ascii_whitespace_def)

lemma lines_one:
  assumes "CHR 0x0A \<notin> set s" "\<not> ends_with [CHR 0x0D] s"
  shows "lines (s @ [CHR 0x0A]) = [s]"
  using split_on_append_sep [of "CHR 0x0A" s "[]"] assms
  by (simp add: lines_def strip_cr_def)

section \<open>Decimal numbers\<close>

text \<open>
  \<open>show_nat\<close> is \<open>to_string()\<close> of an unsigned integer, \<open>parse_unsigned m\<close> is
  \<open>parse()\<close> into an unsigned type with maximum \<open>m\<close>: an optional plus sign, at least one
  digit, no overflow.
\<close>

definition digit_char :: "nat \<Rightarrow> char" where
  "digit_char d = char_of (48 + d)"

fun show_nat :: "nat \<Rightarrow> string" where
  "show_nat n = (if n < 10 then [digit_char n] else show_nat (n div 10) @ [digit_char (n mod 10)])"

declare show_nat.simps [simp del]

definition digits_value :: "string \<Rightarrow> nat" where
  "digits_value = foldl (\<lambda>v c. 10 * v + (byte c - 48)) 0"

definition parse_unsigned :: "nat \<Rightarrow> string \<Rightarrow> nat option" where
  "parse_unsigned m s =
     (let body = (if starts_with ''+'' s then tl s else s)
      in if body \<noteq> [] \<and> list_all is_ascii_digit body \<and> digits_value body \<le> m
         then Some (digits_value body) else None)"

lemma byte_digit_char [simp]: "d < 10 \<Longrightarrow> byte (digit_char d) = 48 + d"
  by (simp add: digit_char_def)

lemma show_nat_digits: "list_all is_ascii_digit (show_nat n)"
proof (induction n rule: show_nat.induct)
  case (1 n)
  then show ?case
    by (cases "n < 10") (simp_all add: show_nat.simps [of n] is_ascii_digit_def [of "digit_char _"])
qed

lemma show_nat_not_Nil [simp]: "show_nat n \<noteq> []"
  by (subst show_nat.simps) simp

lemma digits_value_snoc [simp]: "digits_value (s @ [c]) = 10 * digits_value s + (byte c - 48)"
  by (simp add: digits_value_def)

lemma digits_value_show [simp]: "digits_value (show_nat n) = n"
proof (induction n rule: show_nat.induct)
  case (1 n)
  show ?case
  proof (cases "n < 10")
    case True
    then show ?thesis by (simp add: show_nat.simps [of n] digits_value_def)
  next
    case False
    with 1 have "digits_value (show_nat (n div 10)) = n div 10" by simp
    with False show ?thesis by (simp add: show_nat.simps [of n])
  qed
qed

lemma show_nat_inject [simp]: "show_nat m = show_nat n \<longleftrightarrow> m = n"
  by (metis digits_value_show)

lemma show_nat_hd: "is_ascii_digit (hd (show_nat n))"
  using show_nat_digits [of n] by (cases "show_nat n") auto

lemma show_nat_hd_not_zero: "0 < n \<Longrightarrow> hd (show_nat n) \<noteq> CHR ''0''"
proof (induction n rule: show_nat.induct)
  case (1 n)
  show ?case
  proof (cases "n < 10")
    case True
    with 1 have "byte (digit_char n) \<noteq> 48" by simp
    then have "digit_char n \<noteq> CHR ''0''" by (auto simp: byte_def)
    with True show ?thesis by (simp add: show_nat.simps [of n])
  next
    case False
    with 1 have "hd (show_nat (n div 10)) \<noteq> CHR ''0''" by simp
    with False show ?thesis by (simp add: show_nat.simps [of n])
  qed
qed

lemma parse_show_nat: "n \<le> m \<Longrightarrow> parse_unsigned m (show_nat n) = Some n"
proof -
  assume n: "n \<le> m"
  have "\<not> is_ascii_digit (CHR ''+'')" by (simp add: is_ascii_digit_def byte_def)
  then have "hd (show_nat n) \<noteq> CHR ''+''" using show_nat_hd [of n] by auto
  then have "\<not> starts_with ''+'' (show_nat n)"
    by (cases "show_nat n") (auto simp: starts_with_def)
  with n show ?thesis by (simp add: parse_unsigned_def show_nat_digits)
qed

lemma parse_unsigned_bound: "parse_unsigned m s = Some n \<Longrightarrow> n \<le> m"
  by (auto simp: parse_unsigned_def Let_def split: if_splits)

end
