(* ===== verification/Json.thy ===== *)
theory Json
  imports Text Complex_Main
begin

text \<open>
  JSON values (\<open>serde_json::Value\<close>). An object is its list of fields; the crate keeps
  objects in a map ordered by key, so a value the code builds has strictly sorted fields
  (\<open>wf_json\<close>), while the syntax tree a parser reports may repeat a key. Integers cover the
  crate's \<open>u64\<close> and \<open>i64\<close> numbers, finite floating-point numbers are rationals.

  The theory also holds the field accessors the derived deserialisers use: a missing field
  of an \<open>Option\<close> type is \<open>None\<close>, and so is a field whose value is \<open>null\<close>.
\<close>

section \<open>Values\<close>

datatype json =
    JNull
  | JBool bool
  | JInt int
  | JFloat rat
  | JString string
  | JArray "json list"
  | JObject "(string \<times> json) list"

type_synonym fields = "(string \<times> json) list"

definition is_object :: "json \<Rightarrow> bool" where
  "is_object v = (case v of JObject _ \<Rightarrow> True | _ \<Rightarrow> False)"

definition is_array :: "json \<Rightarrow> bool" where
  "is_array v = (case v of JArray _ \<Rightarrow> True | _ \<Rightarrow> False)"

lemma is_object_simps [simp]:
  "is_object (JObject kvs)" "\<not> is_object JNull" "\<not> is_object (JBool b)" "\<not> is_object (JInt i)"
  "\<not> is_object (JFloat q)" "\<not> is_object (JString s)" "\<not> is_object (JArray xs)"
  by (simp_all add: is_object_def)

lemma is_object_iff: "is_object v \<longleftrightarrow> (\<exists>kvs. v = JObject kvs)"
  by (cases v) auto

lemma is_array_iff: "is_array v \<longleftrightarrow> (\<exists>xs. v = JArray xs)"
  by (cases v) (auto simp: is_array_def)

section \<open>Ordered objects\<close>

definition field :: "string \<Rightarrow> fields \<Rightarrow> json option" where
  "field k kvs = map_of kvs k"

definition has_field :: "string \<Rightarrow> fields \<Rightarrow> bool" where
  "has_field k kvs \<longleftrightarrow> field k kvs \<noteq> None"

fun insert_field :: "string \<Rightarrow> json \<Rightarrow> fields \<Rightarrow> fields" where
  "insert_field k v [] = [(k, v)]"
| "insert_field k v ((l, w) # kvs) =
     (if k < l then (k, v) # (l, w) # kvs
      else if k = l then (k, v) # kvs
      else (l, w) # insert_field k v kvs)"

definition object_of :: "fields \<Rightarrow> fields" where
  "object_of kvs = foldl (\<lambda>acc (k, v). insert_field k v acc) [] kvs"

definition sorted_fields :: "fields \<Rightarrow> bool" where
  "sorted_fields kvs \<longleftrightarrow> sorted_wrt (<) (map fst kvs)"

lemma field_insert_field [simp]:
  "field j (insert_field k v kvs) = (if j = k then Some v else field j kvs)"
  by (induction kvs) (auto simp: field_def)

lemma set_insert_field: "fst ` set (insert_field k v kvs) = insert k (fst ` set kvs)"
  by (induction k v kvs rule: insert_field.induct) (simp_all add: insert_commute)

lemma sorted_insert_field: "sorted_fields kvs \<Longrightarrow> sorted_fields (insert_field k v kvs)"
proof (induction kvs)
  case Nil
  then show ?case by (simp add: sorted_fields_def)
next
  case (Cons kv kvs)
  obtain l w where kv: "kv = (l, w)" by force
  have tail: "sorted_fields kvs" "\<forall>y \<in> fst ` set kvs. l < y"
    using Cons.prems kv by (auto simp: sorted_fields_def)
  have ins: "sorted_fields (insert_field k v kvs)" using Cons.IH tail(1) .
  consider "k < l" | "k = l" | "l < k" by fastforce
  then show ?case
  proof cases
    case 1
    with Cons.prems kv tail(2) show ?thesis
      by (auto simp: sorted_fields_def)
  next
    case 2
    with Cons.prems kv show ?thesis by (simp add: sorted_fields_def)
  next
    case 3
    have "\<forall>y \<in> fst ` set (insert_field k v kvs). l < y"
      using tail(2) 3 by (simp add: set_insert_field)
    with 3 ins kv show ?thesis
      by (auto simp: sorted_fields_def)
  qed
qed

lemma insert_field_last:
  "\<forall>l \<in> fst ` set kvs. l < k \<Longrightarrow> insert_field k v kvs = kvs @ [(k, v)]"
  by (induction kvs) auto

lemma object_of_snoc: "object_of (kvs @ [(k, v)]) = insert_field k v (object_of kvs)"
  by (simp add: object_of_def)

lemma sorted_object_of: "sorted_fields (object_of kvs)"
proof (induction kvs rule: rev_induct)
  case Nil
  then show ?case by (simp add: object_of_def sorted_fields_def)
next
  case (snoc kv kvs)
  then show ?case by (cases kv) (simp add: object_of_snoc sorted_insert_field)
qed

lemma object_of_sorted: "sorted_fields kvs \<Longrightarrow> object_of kvs = kvs"
proof (induction kvs rule: rev_induct)
  case Nil
  then show ?case by (simp add: object_of_def)
next
  case (snoc kv kvs)
  obtain k v where kv: "kv = (k, v)" by force
  have "sorted_fields kvs" "\<forall>l \<in> fst ` set kvs. l < k"
    using snoc.prems kv by (auto simp: sorted_fields_def sorted_wrt_append)
  with snoc.IH kv show ?case by (simp add: object_of_snoc insert_field_last)
qed

lemma field_object_of: "field k (object_of kvs) = map_of (rev kvs) k"
proof (induction kvs rule: rev_induct)
  case Nil
  then show ?case by (simp add: object_of_def field_def)
next
  case (snoc kv kvs)
  then show ?case by (cases kv) (simp add: object_of_snoc)
qed

lemma has_field_object_of: "has_field k (object_of kvs) \<longleftrightarrow> k \<in> fst ` set kvs"
proof -
  have "map_of (rev kvs) k = None \<longleftrightarrow> k \<notin> fst ` set (rev kvs)"
    by (rule map_of_eq_None_iff)
  then show ?thesis by (simp add: has_field_def field_object_of)
qed

lemma field_object_of_distinct:
  "distinct (map fst kvs) \<Longrightarrow> field k (object_of kvs) = map_of kvs k"
proof -
  assume d: "distinct (map fst kvs)"
  have "map_of (rev kvs) k = Some v \<longleftrightarrow> map_of kvs k = Some v" for v
    using d by (simp add: rev_map [symmetric])
  then have "map_of (rev kvs) k = map_of kvs k"
    by (metis option.exhaust)
  then show ?thesis by (simp add: field_object_of)
qed

fun wf_json :: "json \<Rightarrow> bool" where
  "wf_json (JArray xs) = list_all wf_json xs"
| "wf_json (JObject kvs) = (sorted_fields kvs \<and> list_all (\<lambda>kv. wf_json (snd kv)) kvs)"
| "wf_json _ = True"

lemma wf_insert_field:
  "list_all (\<lambda>kv. P (snd kv)) kvs \<Longrightarrow> P v \<Longrightarrow> list_all (\<lambda>kv. P (snd kv)) (insert_field k v kvs)"
  by (induction kvs) auto

lemma wf_object_of: "list_all (\<lambda>kv. wf_json (snd kv)) kvs \<Longrightarrow> wf_json (JObject (object_of kvs))"
proof -
  assume "list_all (\<lambda>kv. wf_json (snd kv)) kvs"
  then have "list_all (\<lambda>kv. wf_json (snd kv)) (object_of kvs)"
  proof (induction kvs rule: rev_induct)
    case Nil
    then show ?case by (simp add: object_of_def)
  next
    case (snoc kv kvs)
    then show ?case
      by (cases kv) (simp add: object_of_snoc wf_insert_field [where P = wf_json])
  qed
  then show ?thesis by (simp add: sorted_object_of)
qed

section \<open>Derived deserialisation of fields\<close>

definition u32_max :: nat where
  "u32_max = 4294967295"

definition u64_max :: nat where
  "u64_max = 18446744073709551615"

definition as_str :: "json \<Rightarrow> string option" where
  "as_str v = (case v of JString s \<Rightarrow> Some s | _ \<Rightarrow> None)"

definition as_bool :: "json \<Rightarrow> bool option" where
  "as_bool v = (case v of JBool b \<Rightarrow> Some b | _ \<Rightarrow> None)"

definition as_unsigned :: "nat \<Rightarrow> json \<Rightarrow> nat option" where
  "as_unsigned m v =
     (case v of JInt i \<Rightarrow> (if 0 \<le> i \<and> i \<le> int m then Some (nat i) else None) | _ \<Rightarrow> None)"

definition as_i32 :: "json \<Rightarrow> int option" where
  "as_i32 v =
     (case v of JInt i \<Rightarrow> (if - 2147483648 \<le> i \<and> i \<le> 2147483647 then Some i else None)
      | _ \<Rightarrow> None)"

text \<open>
  The outer option is the failure of the deserialiser, the inner one the \<open>Option\<close> of the
  field: \<open>opt_field\<close> gives \<open>Some None\<close> for a field that is absent or \<open>null\<close>.
\<close>

definition opt_field :: "(json \<Rightarrow> 'a option) \<Rightarrow> string \<Rightarrow> fields \<Rightarrow> 'a option option" where
  "opt_field conv k kvs =
     (case field k kvs of
        None \<Rightarrow> Some None
      | Some JNull \<Rightarrow> Some None
      | Some v \<Rightarrow> map_option Some (conv v))"

definition req_field :: "(json \<Rightarrow> 'a option) \<Rightarrow> string \<Rightarrow> fields \<Rightarrow> 'a option" where
  "req_field conv k kvs = Option.bind (field k kvs) conv"

lemma as_str_simps [simp]: "as_str (JString s) = Some s"
  by (simp add: as_str_def)

lemma as_bool_simps [simp]: "as_bool (JBool b) = Some b"
  by (simp add: as_bool_def)

lemma as_unsigned_int [simp]: "n \<le> m \<Longrightarrow> as_unsigned m (JInt (int n)) = Some n"
  by (simp add: as_unsigned_def)

lemma opt_field_absent [simp]: "field k kvs = None \<Longrightarrow> opt_field conv k kvs = Some None"
  by (simp add: opt_field_def)

lemma opt_field_present:
  "field k kvs = Some v \<Longrightarrow> v \<noteq> JNull \<Longrightarrow> opt_field conv k kvs = map_option Some (conv v)"
  by (cases v) (auto simp: opt_field_def)

end
