(* ===== verification/Crates.thy ===== *)
theory Crates
  imports Json "HOL-Library.Word"
begin

text \<open>
  The third-party crates the modelled code calls (\<open>uuid\<close>, \<open>base64\<close>, \<open>serde_json\<close>,
  \<open>sha2\<close>, \<open>chrono\<close>) are not part of the repository. Their functions are the fields of one
  record, an argument of every definition that uses one of them; a lemma that relies on a
  documented law of a crate names that law as a hypothesis.

  \<^item> \<open>uuid_parse\<close>, \<open>uuid_text\<close>: \<open>Uuid::parse_str\<close> and the lowercase hyphenated
    \<open>to_string\<close>; \<open>uuid_parse_error\<close>: the text of the parser's error; \<open>uuid_version\<close>, \<open>uuid_rfc4122\<close>: \<open>get_version_num\<close> and
    \<open>get_variant() == Variant::RFC4122\<close>;
  \<^item> \<open>b64_std\<close>, \<open>b64_std_nopad\<close>, \<open>b64_url_nopad\<close>, \<open>b64_url\<close>: the base64 engines
    (\<open>STANDARD\<close>, \<open>STANDARD_NO_PAD\<close>, \<open>URL_SAFE_NO_PAD\<close>, \<open>URL_SAFE\<close>), decoders and encoders;
  \<^item> \<open>json_parse\<close>: the syntax tree \<open>serde_json\<close> reports to a visitor for a byte string,
    fields in source order and possibly repeated; \<open>json_text\<close>: \<open>to_string\<close>/\<open>to_vec\<close>;
  \<^item> \<open>sha256\<close>: \<open>Sha256::digest\<close>;
  \<^item> \<open>rfc3339_parse\<close>: \<open>DateTime::parse_from_rfc3339\<close>, and \<open>rfc3339_text\<close> the
    rendering with \<open>SecondsFormat::AutoSi\<close>; a time is an opaque natural number.
\<close>

type_synonym uuid = "128 word"

record crates =
  uuid_parse :: "string \<Rightarrow> uuid option"
  uuid_parse_error :: "string \<Rightarrow> string"
  uuid_text :: "uuid \<Rightarrow> string"
  uuid_version :: "uuid \<Rightarrow> nat"
  uuid_rfc4122 :: "uuid \<Rightarrow> bool"
  b64_std_decode :: "string \<Rightarrow> string option"
  b64_std_encode :: "string \<Rightarrow> string"
  b64_std_nopad_decode :: "string \<Rightarrow> string option"
  b64_std_nopad_encode :: "string \<Rightarrow> string"
  b64_url_nopad_decode :: "string \<Rightarrow> string option"
  b64_url_decode :: "string \<Rightarrow> string option"
  json_parse :: "string \<Rightarrow> json option"
  json_text :: "json \<Rightarrow> string"
  sha256 :: "string \<Rightarrow> string"
  rfc3339_parse :: "string \<Rightarrow> nat option"
  rfc3339_text :: "nat \<Rightarrow> string"

definition is_uuid_v7 :: "crates \<Rightarrow> uuid \<Rightarrow> bool" where
  "is_uuid_v7 C u \<longleftrightarrow> uuid_version C u = 7 \<and> uuid_rfc4122 C u"

text \<open>
  A concrete instance for witnesses. UUID text is the fixed-width hexadecimal form, the
  version and variant bits are read where RFC 9562 puts them; the base64 engines accept
  nothing, the JSON functions know one literal, and digests are the identity. It is an
  instance of the parameter, not a model of the crates.
\<close>

definition hex_digit :: "nat \<Rightarrow> char" where
  "hex_digit d = (if d < 10 then char_of (48 + d) else char_of (87 + d))"

definition hex_value :: "char \<Rightarrow> nat" where
  "hex_value c = (if byte c < 58 then byte c - 48 else byte c - 87)"

fun to_hex :: "nat \<Rightarrow> nat \<Rightarrow> string" where
  "to_hex 0 n = []"
| "to_hex (Suc k) n = to_hex k (n div 16) @ [hex_digit (n mod 16)]"

definition from_hex :: "string \<Rightarrow> nat" where
  "from_hex = foldl (\<lambda>v c. 16 * v + hex_value c) 0"

definition demo_crates :: crates where
  "demo_crates =
     \<lparr>uuid_parse = (\<lambda>s. Some (of_nat (from_hex s))),
      uuid_parse_error = (\<lambda>_. ''invalid''),
      uuid_text = (\<lambda>u. to_hex 32 (unat u)),
      uuid_version = (\<lambda>u. unat (drop_bit 76 u) mod 16),
      uuid_rfc4122 = (\<lambda>u. unat (drop_bit 62 u) mod 4 = 2),
      b64_std_decode = (\<lambda>_. None), b64_std_encode = id,
      b64_std_nopad_decode = (\<lambda>_. None), b64_std_nopad_encode = id,
      b64_url_nopad_decode = (\<lambda>_. None), b64_url_decode = (\<lambda>_. None),
      json_parse = (\<lambda>s. if s = ''{}'' then Some (JObject []) else None),
      json_text = (\<lambda>_. ''{}''),
      sha256 = id,
      rfc3339_parse = (\<lambda>s. if s = [] then None else Some (length s)),
      rfc3339_text = (\<lambda>n. replicate n (CHR ''0''))\<rparr>"

lemma demo_crates_sel [simp]:
  "uuid_parse demo_crates s = Some (of_nat (from_hex s))"
  "uuid_text demo_crates u = to_hex 32 (unat u)"
  "uuid_version demo_crates u = unat (drop_bit 76 u) mod 16"
  "uuid_rfc4122 demo_crates u \<longleftrightarrow> unat (drop_bit 62 u) mod 4 = 2"
  "b64_std_decode demo_crates s = None"
  "b64_std_nopad_decode demo_crates s = None"
  "b64_url_nopad_decode demo_crates s = None"
  "b64_url_decode demo_crates s = None"
  "b64_std_encode demo_crates s = s"
  "b64_std_nopad_encode demo_crates s = s"
  "json_parse demo_crates s = (if s = ''{}'' then Some (JObject []) else None)"
  "json_text demo_crates v = ''{}''"
  "sha256 demo_crates s = s"
  "rfc3339_parse demo_crates s = (if s = [] then None else Some (length s))"
  "rfc3339_text demo_crates n = replicate n (CHR ''0'')"
  by (simp_all add: demo_crates_def)

text \<open>The identifier \<open>01890a5d-ac96-774b-bcce-b302099a8057\<close> of RFC 9562, version 7.\<close>

definition demo_uuid :: uuid where
  "demo_uuid = 0x01890a5dac96774bbcceb302099a8057"

lemma demo_uuid_v7: "is_uuid_v7 demo_crates demo_uuid"
  by (simp add: is_uuid_v7_def demo_uuid_def drop_bit_eq_div unat_div)

lemma hex_value_digit [simp]: "d < 16 \<Longrightarrow> hex_value (hex_digit d) = d"
  by (auto simp: hex_value_def hex_digit_def)

lemma from_hex_snoc: "from_hex (s @ [c]) = 16 * from_hex s + hex_value c"
  by (simp add: from_hex_def)

lemma from_to_hex: "from_hex (to_hex k n) = n mod 16 ^ k"
proof (induction k arbitrary: n)
  case 0
  then show ?case by (simp add: from_hex_def)
next
  case (Suc k)
  then show ?case by (simp add: from_hex_snoc mod_mult2_eq [of n 16 "16 ^ k"])
qed

lemma to_hex_length [simp]: "length (to_hex k n) = k"
  by (induction k arbitrary: n) auto

lemma hex_digit_range:
  "d < 16 \<Longrightarrow> (48 \<le> byte (hex_digit d) \<and> byte (hex_digit d) \<le> 57) \<or>
     (97 \<le> byte (hex_digit d) \<and> byte (hex_digit d) \<le> 102)"
  by (cases "d < 10") (auto simp: hex_digit_def)

lemma to_hex_bytes: "c \<in> set (to_hex k n) \<Longrightarrow> (48 \<le> byte c \<and> byte c \<le> 57) \<or> (97 \<le> byte c \<and> byte c \<le> 102)"
proof (induction k arbitrary: n)
  case (Suc k)
  then consider "c \<in> set (to_hex k (n div 16))" | "c = hex_digit (n mod 16)" by auto
  then show ?case
  proof cases
    case 1
    then show ?thesis by (rule Suc.IH)
  next
    case 2
    then show ?thesis using hex_digit_range [of "n mod 16"] by simp
  qed
qed simp

lemma demo_uuid_text_parses: "uuid_parse demo_crates (uuid_text demo_crates u) = Some u"
proof -
  have "unat u < 16 ^ 32" using unsigned_less [of u] by simp
  then show ?thesis by (simp add: from_to_hex)
qed

end
