(* ===== verification/Output.thy ===== *)
theory Output
  imports Crates
begin

text \<open>
  The output contract of \<open>src/output/mod.rs\<close>: the process exit codes, the error codes and
  their names, diagnostics, and the command envelope every finite command prints, with the
  four ways the code builds one. A \<open>Result\<close> constructor is a function into
  \<open>output_error + _\<close>; the panic of an \<open>expect\<close> is a value of \<open>run\<close>.
\<close>

section \<open>Exit codes\<close>

datatype styrn_exit =
    ExitSuccess
  | ExitInternalError
  | ExitUsage
  | ExitUnreachable
  | ExitAuthentication
  | ExitRemoteExecution
  | ExitResourceAdmission
  | ExitCapabilityUnavailable
  | ExitProtocol
  | ExitPartialFleet
  | ExitTimeout
  | ExitAgentHarness
  | ExitWorkflow
  | ExitSetup

definition all_exits :: "styrn_exit list" where
  "all_exits =
     [ExitSuccess,
      ExitInternalError,
      ExitUsage,
      ExitUnreachable,
      ExitAuthentication,
      ExitRemoteExecution,
      ExitResourceAdmission,
      ExitCapabilityUnavailable,
      ExitProtocol,
      ExitPartialFleet,
      ExitTimeout,
      ExitAgentHarness,
      ExitWorkflow,
      ExitSetup]"

primrec as_i32 :: "styrn_exit \<Rightarrow> int" where
  "as_i32 ExitSuccess = 0"
| "as_i32 ExitInternalError = 1"
| "as_i32 ExitUsage = 2"
| "as_i32 ExitUnreachable = 3"
| "as_i32 ExitAuthentication = 4"
| "as_i32 ExitRemoteExecution = 5"
| "as_i32 ExitResourceAdmission = 6"
| "as_i32 ExitCapabilityUnavailable = 7"
| "as_i32 ExitProtocol = 8"
| "as_i32 ExitPartialFleet = 9"
| "as_i32 ExitTimeout = 10"
| "as_i32 ExitAgentHarness = 11"
| "as_i32 ExitWorkflow = 12"
| "as_i32 ExitSetup = 13"

definition exit_from_i32 :: "int \<Rightarrow> styrn_exit option" where
  "exit_from_i32 value = find_first (\<lambda>e. as_i32 e = value) all_exits"

section \<open>Error codes\<close>

datatype error_code =
    UsageInvalidArgument
  | UsageConfigInvalid
  | TransportUnreachable
  | TransportAuthFailed
  | TransportSessionLost
  | ProtocolIncompatible
  | ProtocolMalformed
  | RemoteExecutionFailed
  | MachineManifestInvalid
  | ResourceMemoryAdmissionDenied
  | ResourceCpuAdmissionDenied
  | ResourceDiskAdmissionDenied
  | ResourceHeavyExclusivityDenied
  | ResourceJobDiskLimitExceeded
  | ResourceHostDiskFloor
  | CapabilityUnsatisfied
  | CapabilitySubstrateUnregistered
  | JobNotFound
  | JobTimeout
  | JobCancelled
  | JobWorkflowFailed
  | JobSupervisorLost
  | AgentNotFound
  | AgentHarnessError
  | ProjectProfileInvalid
  | ProjectWorkflowNotDeclared
  | ProjectRevisionUnresolved
  | ProjectWorktreeDirty
  | FleetPartial
  | InternalError
  | SetupProbeFailed
  | SetupPlanInvalid
  | SetupConfirmationRequired
  | SetupElevationRequired
  | SetupApplyFailed
  | SetupNeedsHuman
  | SetupUnsupportedOs
  | SetupReceiptConflict
  | SetupAdoptMismatch

definition all_codes :: "error_code list" where
  "all_codes =
     [UsageInvalidArgument,
      UsageConfigInvalid,
      TransportUnreachable,
      TransportAuthFailed,
      TransportSessionLost,
      ProtocolIncompatible,
      ProtocolMalformed,
      RemoteExecutionFailed,
      MachineManifestInvalid,
      ResourceMemoryAdmissionDenied,
      ResourceCpuAdmissionDenied,
      ResourceDiskAdmissionDenied,
      ResourceHeavyExclusivityDenied,
      ResourceJobDiskLimitExceeded,
      ResourceHostDiskFloor,
      CapabilityUnsatisfied,
      CapabilitySubstrateUnregistered,
      JobNotFound,
      JobTimeout,
      JobCancelled,
      JobWorkflowFailed,
      JobSupervisorLost,
      AgentNotFound,
      AgentHarnessError,
      ProjectProfileInvalid,
      ProjectWorkflowNotDeclared,
      ProjectRevisionUnresolved,
      ProjectWorktreeDirty,
      FleetPartial,
      InternalError,
      SetupProbeFailed,
      SetupPlanInvalid,
      SetupConfirmationRequired,
      SetupElevationRequired,
      SetupApplyFailed,
      SetupNeedsHuman,
      SetupUnsupportedOs,
      SetupReceiptConflict,
      SetupAdoptMismatch]"

primrec code_str :: "error_code \<Rightarrow> string" where
  "code_str UsageInvalidArgument = ''usage.invalid_argument''"
| "code_str UsageConfigInvalid = ''usage.config_invalid''"
| "code_str TransportUnreachable = ''transport.unreachable''"
| "code_str TransportAuthFailed = ''transport.auth_failed''"
| "code_str TransportSessionLost = ''transport.session_lost''"
| "code_str ProtocolIncompatible = ''protocol.incompatible''"
| "code_str ProtocolMalformed = ''protocol.malformed''"
| "code_str RemoteExecutionFailed = ''remote.execution_failed''"
| "code_str MachineManifestInvalid = ''machine.manifest_invalid''"
| "code_str ResourceMemoryAdmissionDenied = ''resource.memory_admission_denied''"
| "code_str ResourceCpuAdmissionDenied = ''resource.cpu_admission_denied''"
| "code_str ResourceDiskAdmissionDenied = ''resource.disk_admission_denied''"
| "code_str ResourceHeavyExclusivityDenied = ''resource.heavy_exclusivity_denied''"
| "code_str ResourceJobDiskLimitExceeded = ''resource.job_disk_limit_exceeded''"
| "code_str ResourceHostDiskFloor = ''resource.host_disk_floor''"
| "code_str CapabilityUnsatisfied = ''capability.unsatisfied''"
| "code_str CapabilitySubstrateUnregistered = ''capability.substrate_unregistered''"
| "code_str JobNotFound = ''job.not_found''"
| "code_str JobTimeout = ''job.timeout''"
| "code_str JobCancelled = ''job.cancelled''"
| "code_str JobWorkflowFailed = ''job.workflow_failed''"
| "code_str JobSupervisorLost = ''job.supervisor_lost''"
| "code_str AgentNotFound = ''agent.not_found''"
| "code_str AgentHarnessError = ''agent.harness_error''"
| "code_str ProjectProfileInvalid = ''project.profile_invalid''"
| "code_str ProjectWorkflowNotDeclared = ''project.workflow_not_declared''"
| "code_str ProjectRevisionUnresolved = ''project.revision_unresolved''"
| "code_str ProjectWorktreeDirty = ''project.worktree_dirty''"
| "code_str FleetPartial = ''fleet.partial''"
| "code_str InternalError = ''internal.error''"
| "code_str SetupProbeFailed = ''setup.probe_failed''"
| "code_str SetupPlanInvalid = ''setup.plan_invalid''"
| "code_str SetupConfirmationRequired = ''setup.confirmation_required''"
| "code_str SetupElevationRequired = ''setup.elevation_required''"
| "code_str SetupApplyFailed = ''setup.apply_failed''"
| "code_str SetupNeedsHuman = ''setup.needs_human''"
| "code_str SetupUnsupportedOs = ''setup.unsupported_os''"
| "code_str SetupReceiptConflict = ''setup.receipt_conflict''"
| "code_str SetupAdoptMismatch = ''setup.adopt_mismatch''"

primrec code_exit :: "error_code \<Rightarrow> styrn_exit" where
  "code_exit UsageInvalidArgument = ExitUsage"
| "code_exit UsageConfigInvalid = ExitUsage"
| "code_exit TransportUnreachable = ExitUnreachable"
| "code_exit TransportAuthFailed = ExitAuthentication"
| "code_exit TransportSessionLost = ExitUnreachable"
| "code_exit ProtocolIncompatible = ExitProtocol"
| "code_exit ProtocolMalformed = ExitProtocol"
| "code_exit RemoteExecutionFailed = ExitRemoteExecution"
| "code_exit MachineManifestInvalid = ExitUsage"
| "code_exit ResourceMemoryAdmissionDenied = ExitResourceAdmission"
| "code_exit ResourceCpuAdmissionDenied = ExitResourceAdmission"
| "code_exit ResourceDiskAdmissionDenied = ExitResourceAdmission"
| "code_exit ResourceHeavyExclusivityDenied = ExitResourceAdmission"
| "code_exit ResourceJobDiskLimitExceeded = ExitWorkflow"
| "code_exit ResourceHostDiskFloor = ExitWorkflow"
| "code_exit CapabilityUnsatisfied = ExitCapabilityUnavailable"
| "code_exit CapabilitySubstrateUnregistered = ExitCapabilityUnavailable"
| "code_exit JobNotFound = ExitUsage"
| "code_exit JobTimeout = ExitTimeout"
| "code_exit JobCancelled = ExitWorkflow"
| "code_exit JobWorkflowFailed = ExitWorkflow"
| "code_exit JobSupervisorLost = ExitWorkflow"
| "code_exit AgentNotFound = ExitUsage"
| "code_exit AgentHarnessError = ExitAgentHarness"
| "code_exit ProjectProfileInvalid = ExitUsage"
| "code_exit ProjectWorkflowNotDeclared = ExitUsage"
| "code_exit ProjectRevisionUnresolved = ExitUsage"
| "code_exit ProjectWorktreeDirty = ExitUsage"
| "code_exit FleetPartial = ExitPartialFleet"
| "code_exit InternalError = ExitInternalError"
| "code_exit SetupProbeFailed = ExitSetup"
| "code_exit SetupPlanInvalid = ExitSetup"
| "code_exit SetupConfirmationRequired = ExitSetup"
| "code_exit SetupElevationRequired = ExitSetup"
| "code_exit SetupApplyFailed = ExitSetup"
| "code_exit SetupNeedsHuman = ExitSetup"
| "code_exit SetupUnsupportedOs = ExitSetup"
| "code_exit SetupReceiptConflict = ExitSetup"
| "code_exit SetupAdoptMismatch = ExitSetup"

definition code_from_str :: "string \<Rightarrow> error_code option" where
  "code_from_str value = find_first (\<lambda>c. code_str c = value) all_codes"

lemma all_exits_complete: "e \<in> set all_exits"
  by (cases e) (simp_all add: all_exits_def)

lemma all_codes_complete: "c \<in> set all_codes"
  by (cases c) (simp_all add: all_codes_def)

lemma all_codes_distinct_names: "distinct (map code_str all_codes)"
  by code_simp

lemma code_str_inject: "code_str c = code_str d \<longleftrightarrow> c = d"
  using all_codes_distinct_names all_codes_complete [of c] all_codes_complete [of d]
  by (auto simp: distinct_map inj_on_def)

lemma code_from_code_str: "code_from_str (code_str c) = Some c"
  unfolding code_from_str_def
  by (rule find_first_unique) (simp_all add: all_codes_complete code_str_inject)

lemma code_from_str_Some_iff: "code_from_str s = Some c \<longleftrightarrow> s = code_str c"
  using code_from_code_str [of c]
  by (auto simp: code_from_str_def dest: find_first_SomeD)

lemma exit_from_as_i32: "exit_from_i32 (as_i32 e) = Some e"
  by (cases e) (simp_all add: exit_from_i32_def all_exits_def)

section \<open>Diagnostics\<close>

datatype output_error =
    EmptyCommand
  | InvalidSuccessData
  | MissingFailureError
  | InvalidDiagnosticCode
  | EmptyDiagnosticMessage
  | InvalidDiagnosticDetails
  | InvalidWorkflowCommand

record diagnostic =
  diag_code :: string
  diag_message :: string
  diag_details :: "json option"

record error_diagnostic =
  err_code :: error_code
  err_message :: string
  err_details :: "json option"

definition valid_code_segment :: "string \<Rightarrow> bool" where
  "valid_code_segment segment =
     (case segment of
        [] \<Rightarrow> False
      | c # cs \<Rightarrow> is_ascii_lowercase c
          \<and> list_all (\<lambda>d. is_ascii_lowercase d \<or> is_ascii_digit d \<or> d = CHR ''_'') cs)"

definition is_diagnostic_code :: "string \<Rightarrow> bool" where
  "is_diagnostic_code code =
     (case split_on (CHR ''.'') code of
        [] \<Rightarrow> False
      | first # rest \<Rightarrow> rest \<noteq> [] \<and> first \<noteq> [] \<and> list_all valid_code_segment (first # rest))"

definition new_diagnostic ::
  "string \<Rightarrow> string \<Rightarrow> json option \<Rightarrow> output_error + diagnostic" where
  "new_diagnostic code message details =
     (if \<not> is_diagnostic_code code then Inl InvalidDiagnosticCode
      else if message = [] then Inl EmptyDiagnosticMessage
      else if is_some_and (\<lambda>d. \<not> is_object d) details then Inl InvalidDiagnosticDetails
      else Inr \<lparr>diag_code = code, diag_message = message, diag_details = details\<rparr>)"

definition validate_diagnostic_parts :: "string \<Rightarrow> json option \<Rightarrow> output_error + unit" where
  "validate_diagnostic_parts message details =
     (if message = [] then Inl EmptyDiagnosticMessage
      else if is_some_and (\<lambda>d. \<not> is_object d) details then Inl InvalidDiagnosticDetails
      else Inr ())"

definition new_error_diagnostic ::
  "error_code \<Rightarrow> string \<Rightarrow> json option \<Rightarrow> output_error + error_diagnostic" where
  "new_error_diagnostic code message details =
     and_then (validate_diagnostic_parts message details)
       (\<lambda>_. Inr \<lparr>err_code = code, err_message = message, err_details = details\<rparr>)"

section \<open>Envelopes\<close>

record envelope =
  env_schema :: string
  env_ok :: bool
  env_command :: string
  env_timestamp :: string
  env_data :: json
  env_warnings :: "diagnostic list"
  env_errors :: "error_diagnostic list"

definition command_schema :: string where
  "command_schema = ''styrn.command.v1''"

definition validate_command :: "string \<Rightarrow> output_error + string" where
  "validate_command command = (if trim command = [] then Inl EmptyCommand else Inr command)"

definition envelope_success ::
  "crates \<Rightarrow> string \<Rightarrow> nat \<Rightarrow> json \<Rightarrow> diagnostic list \<Rightarrow> output_error + envelope" where
  "envelope_success C command timestamp data warnings =
     and_then (validate_command command) (\<lambda>command.
       if \<not> (is_object data \<or> is_array data \<or> data = JNull) then Inl InvalidSuccessData
       else Inr \<lparr>env_schema = command_schema, env_ok = True, env_command = command,
                  env_timestamp = rfc3339_text C timestamp, env_data = data,
                  env_warnings = warnings, env_errors = []\<rparr>)"

definition envelope_failure ::
  "crates \<Rightarrow> string \<Rightarrow> nat \<Rightarrow> error_diagnostic list \<Rightarrow> diagnostic list
     \<Rightarrow> output_error + envelope" where
  "envelope_failure C command timestamp errors warnings =
     and_then (validate_command command) (\<lambda>command.
       if errors = [] then Inl MissingFailureError
       else Inr \<lparr>env_schema = command_schema, env_ok = False, env_command = command,
                  env_timestamp = rfc3339_text C timestamp, env_data = JNull,
                  env_warnings = warnings, env_errors = errors\<rparr>)"

record command_failure =
  cf_envelope :: envelope
  cf_exit_code :: styrn_exit

definition new_command_failure ::
  "crates \<Rightarrow> string \<Rightarrow> nat \<Rightarrow> error_code \<Rightarrow> string \<Rightarrow> output_error + command_failure" where
  "new_command_failure C command timestamp code message =
     and_then (new_error_diagnostic code message None) (\<lambda>diagnostic.
     and_then (envelope_failure C command timestamp [diagnostic] []) (\<lambda>envelope.
       Inr \<lparr>cf_envelope = envelope, cf_exit_code = code_exit code\<rparr>))"

definition new_workflow_failure ::
  "crates \<Rightarrow> string \<Rightarrow> nat \<Rightarrow> int \<Rightarrow> output_error + envelope" where
  "new_workflow_failure C command timestamp inner_exit_code =
     (if command \<noteq> ''workflow run'' \<and> command \<noteq> ''matrix run'' then Inl InvalidWorkflowCommand
      else and_then
        (new_error_diagnostic JobWorkflowFailed ''workflow command exited with a non-zero status'' None)
        (\<lambda>diagnostic.
          Inr \<lparr>env_schema = command_schema, env_ok = False, env_command = command,
               env_timestamp = rfc3339_text C timestamp,
               env_data = JObject [(''exit_code'', JInt inner_exit_code)],
               env_warnings = [], env_errors = [diagnostic]\<rparr>))"

definition workflow_failure_exit :: styrn_exit where
  "workflow_failure_exit = ExitWorkflow"

record exec_outcome =
  eo_envelope :: envelope
  eo_process_exit_code :: int

definition exec_outcome_sanitized ::
  "crates \<Rightarrow> nat \<Rightarrow> int \<Rightarrow> string \<Rightarrow> string \<Rightarrow> nat \<Rightarrow> bool \<Rightarrow> bool \<Rightarrow> bool \<Rightarrow> bool
     \<Rightarrow> output_error + exec_outcome" where
  "exec_outcome_sanitized C timestamp remote_exit_code stdout stderr duration_ms
       stdout_lossy stderr_lossy stdout_redacted stderr_redacted =
     (let data = JObject (object_of
            [(''exit_code'', JInt remote_exit_code),
             (''stdout'', JString stdout),
             (''stderr'', JString stderr),
             (''duration_ms'', JInt (int duration_ms)),
             (''stdout_lossy'', JBool stdout_lossy),
             (''stderr_lossy'', JBool stderr_lossy),
             (''stdout_redacted'', JBool stdout_redacted),
             (''stderr_redacted'', JBool stderr_redacted)])
      in and_then (envelope_success C ''exec'' timestamp data []) (\<lambda>envelope.
           Inr \<lparr>eo_envelope = envelope, eo_process_exit_code = remote_exit_code\<rparr>))"

definition new_exec_outcome ::
  "crates \<Rightarrow> nat \<Rightarrow> int \<Rightarrow> string \<Rightarrow> string \<Rightarrow> nat \<Rightarrow> output_error + exec_outcome" where
  "new_exec_outcome C timestamp remote_exit_code stdout stderr duration_ms =
     exec_outcome_sanitized C timestamp remote_exit_code stdout stderr duration_ms
       False False False False"

text \<open>A run that returns or panics; the guarded operation is given by its outcome.\<close>

datatype 'a run = Returned 'a | Panicked

definition catch_unmapped_panic ::
  "crates \<Rightarrow> string \<Rightarrow> nat \<Rightarrow> 'a run \<Rightarrow> (command_failure + 'a) run" where
  "catch_unmapped_panic C command timestamp operation =
     (case operation of
        Returned x \<Rightarrow> Returned (Inr x)
      | Panicked \<Rightarrow>
          (case new_command_failure C command timestamp InternalError ''unexpected internal error'' of
             Inl _ \<Rightarrow> Panicked
           | Inr failure \<Rightarrow> Returned (Inl failure)))"

section \<open>Serialisation\<close>

text \<open>The derived serialiser writes the fields in the order of the struct and leaves out
  absent details.\<close>

definition details_field :: "json option \<Rightarrow> fields" where
  "details_field details = (case details of None \<Rightarrow> [] | Some d \<Rightarrow> [(''details'', d)])"

definition diagnostic_json :: "diagnostic \<Rightarrow> json" where
  "diagnostic_json d =
     JObject ([(''code'', JString (diag_code d)), (''message'', JString (diag_message d))]
              @ details_field (diag_details d))"

definition error_diagnostic_json :: "error_diagnostic \<Rightarrow> json" where
  "error_diagnostic_json e =
     JObject ([(''code'', JString (code_str (err_code e))), (''message'', JString (err_message e))]
              @ details_field (err_details e))"

definition envelope_json :: "envelope \<Rightarrow> json" where
  "envelope_json e =
     JObject [(''schema'', JString (env_schema e)), (''ok'', JBool (env_ok e)),
              (''command'', JString (env_command e)), (''timestamp'', JString (env_timestamp e)),
              (''data'', env_data e),
              (''warnings'', JArray (map diagnostic_json (env_warnings e))),
              (''errors'', JArray (map error_diagnostic_json (env_errors e)))]"

definition to_json :: "crates \<Rightarrow> envelope \<Rightarrow> string" where
  "to_json C e = json_text C (envelope_json e)"

section \<open>The envelope contract\<close>

definition diagnostic_ok :: "diagnostic \<Rightarrow> bool" where
  "diagnostic_ok d \<longleftrightarrow> is_diagnostic_code (diag_code d) \<and> diag_message d \<noteq> []
     \<and> is_none_or is_object (diag_details d)"

definition error_diagnostic_ok :: "error_diagnostic \<Rightarrow> bool" where
  "error_diagnostic_ok e \<longleftrightarrow> err_message e \<noteq> [] \<and> is_none_or is_object (err_details e)"

definition envelope_ok :: "envelope \<Rightarrow> bool" where
  "envelope_ok e \<longleftrightarrow>
     env_schema e = command_schema \<and> trim (env_command e) \<noteq> []
     \<and> (env_ok e \<longleftrightarrow> env_errors e = [])
     \<and> (is_object (env_data e) \<or> is_array (env_data e) \<or> env_data e = JNull)
     \<and> list_all error_diagnostic_ok (env_errors e)
     \<and> list_all diagnostic_ok (env_warnings e)"

lemma new_diagnostic_ok: "new_diagnostic code message details = Inr d \<Longrightarrow> diagnostic_ok d"
  by (cases details) (auto simp: new_diagnostic_def diagnostic_ok_def split: if_splits)

lemma new_error_diagnostic_ok:
  "new_error_diagnostic code message details = Inr d \<Longrightarrow> error_diagnostic_ok d \<and> err_code d = code"
  by (cases details)
     (auto simp: new_error_diagnostic_def validate_diagnostic_parts_def error_diagnostic_ok_def
           split: if_splits)

lemma envelope_success_ok:
  "envelope_success C command timestamp data warnings = Inr e \<Longrightarrow> list_all diagnostic_ok warnings
     \<Longrightarrow> envelope_ok e \<and> env_ok e \<and> env_data e = data"
  by (auto simp: envelope_success_def validate_command_def envelope_ok_def result_simps split: if_splits)

lemma envelope_failure_ok:
  "envelope_failure C command timestamp errors warnings = Inr e \<Longrightarrow> list_all error_diagnostic_ok errors
     \<Longrightarrow> list_all diagnostic_ok warnings
     \<Longrightarrow> envelope_ok e \<and> \<not> env_ok e \<and> env_data e = JNull \<and> env_errors e = errors"
  by (auto simp: envelope_failure_def validate_command_def envelope_ok_def result_simps split: if_splits)

lemma code_str_diagnostic: "is_diagnostic_code (code_str c)"
proof -
  have "list_all (\<lambda>c. is_diagnostic_code (code_str c)) all_codes" by code_simp
  with all_codes_complete [of c] show ?thesis by (simp add: list_all_iff)
qed

text \<open>
  The error codes are a contract: the name of a code determines it and parses back to
  it and to nothing else, every name is a dot-namespaced diagnostic code, and no error exits
  with the success status; exit codes round-trip through their numbers.
\<close>

theorem error_code_contract:
  "(code_from_str s = Some c \<longleftrightarrow> s = code_str c) \<and> is_diagnostic_code (code_str c)
     \<and> code_exit c \<noteq> ExitSuccess \<and> exit_from_i32 (as_i32 (code_exit c)) = Some (code_exit c)"
proof -
  have "code_exit c \<noteq> ExitSuccess" by (cases c) simp_all
  then show ?thesis
    by (simp add: code_from_str_Some_iff code_str_diagnostic exit_from_as_i32)
qed

lemma new_command_failure_Inr:
  assumes "new_command_failure C command timestamp code message = Inr f"
  obtains d where "error_diagnostic_ok d" "err_code d = code"
    and "envelope_failure C command timestamp [d] [] = Inr (cf_envelope f)"
    and "cf_exit_code f = code_exit code"
  using assms new_error_diagnostic_ok
  by (fastforce simp: new_command_failure_def result_simps)

lemma new_command_failure_total:
  "trim command \<noteq> [] \<Longrightarrow> message \<noteq> [] \<Longrightarrow> \<exists>f. new_command_failure C command timestamp code message = Inr f"
  by (simp add: new_command_failure_def new_error_diagnostic_def validate_diagnostic_parts_def
      envelope_failure_def validate_command_def)

text \<open>
  A command failure that can be built is a well-formed envelope with \<open>ok\<close> false, null
  data and exactly its one error, and the process exit status is the one documented for
  that error, never 0.
\<close>

theorem command_failure_contract:
  assumes "new_command_failure C command timestamp code message = Inr f"
  shows "envelope_ok (cf_envelope f) \<and> \<not> env_ok (cf_envelope f)
     \<and> env_data (cf_envelope f) = JNull \<and> map err_code (env_errors (cf_envelope f)) = [code]
     \<and> cf_exit_code f = code_exit code \<and> as_i32 (cf_exit_code f) \<noteq> 0"
proof -
  from assms obtain d where d: "error_diagnostic_ok d" "err_code d = code"
      and env: "envelope_failure C command timestamp [d] [] = Inr (cf_envelope f)"
      and exit: "cf_exit_code f = code_exit code"
    by (rule new_command_failure_Inr)
  have "as_i32 (code_exit code) \<noteq> 0" by (cases code) simp_all
  with envelope_failure_ok [OF env] d exit show ?thesis by simp
qed

theorem command_failure_contract_witness:
  "\<exists>f. new_command_failure demo_crates ''host list'' 3 UsageConfigInvalid ''bad'' = Inr f
     \<and> as_i32 (cf_exit_code f) \<noteq> 0 \<and> envelope_ok (cf_envelope f)"
proof -
  have "trim ''host list'' \<noteq> []" by code_simp
  then obtain f where f: "new_command_failure demo_crates ''host list'' 3 UsageConfigInvalid ''bad'' = Inr f"
    using new_command_failure_total by blast
  from command_failure_contract [OF f] f show ?thesis by blast
qed

lemma trim_exec: "trim ''exec'' \<noteq> []"
  by code_simp

text \<open>
  An exec outcome is always built: its envelope is a well-formed success whose data
  carries the remote exit code and the captured text unchanged, and the process exits with
  the remote program's own code, whatever it is.
\<close>

theorem exec_outcome_contract:
  "\<exists>outcome kvs.
     exec_outcome_sanitized C timestamp code out err ms ol el ord erd = Inr outcome
     \<and> envelope_ok (eo_envelope outcome) \<and> env_ok (eo_envelope outcome)
     \<and> eo_process_exit_code outcome = code
     \<and> env_data (eo_envelope outcome) = JObject kvs \<and> sorted_fields kvs
     \<and> field ''exit_code'' kvs = Some (JInt code) \<and> field ''stdout'' kvs = Some (JString out)
     \<and> field ''stderr'' kvs = Some (JString err)
     \<and> field ''stdout_redacted'' kvs = Some (JBool ord)
     \<and> field ''stderr_redacted'' kvs = Some (JBool erd)"
proof -
  define kvs where "kvs = object_of
      [(''exit_code'', JInt code), (''stdout'', JString out), (''stderr'', JString err),
       (''duration_ms'', JInt (int ms)), (''stdout_lossy'', JBool ol), (''stderr_lossy'', JBool el),
       (''stdout_redacted'', JBool ord), (''stderr_redacted'', JBool erd)]"
  obtain e where e: "envelope_success C ''exec'' timestamp (JObject kvs) [] = Inr e"
    by (auto simp: envelope_success_def validate_command_def trim_exec)
  have fields: "field ''exit_code'' kvs = Some (JInt code)" "field ''stdout'' kvs = Some (JString out)"
      "field ''stderr'' kvs = Some (JString err)" "field ''stdout_redacted'' kvs = Some (JBool ord)"
      "field ''stderr_redacted'' kvs = Some (JBool erd)"
    unfolding kvs_def field_object_of by simp_all
  have "exec_outcome_sanitized C timestamp code out err ms ol el ord erd
      = Inr \<lparr>eo_envelope = e, eo_process_exit_code = code\<rparr>"
    using e by (simp add: exec_outcome_sanitized_def kvs_def)
  with envelope_success_ok [OF e] fields sorted_object_of show ?thesis
    unfolding kvs_def by auto
qed

end
