(* ===== verification/Principal.thy ===== *)
theory Principal
  imports Crates
begin

unbundle bit_operations_syntax

text \<open>
  Native identities (\<open>src/platform/mod.rs\<close>): the validated worker principal, the
  dedicated-account selector, and the choice of the unprivileged identity that setup runs
  its user phase under, on Unix from the caller ids and the sudo environment, on Windows
  from the token pair. An \<open>io::Error\<close> is its kind and its static message.
\<close>

section \<open>Errors\<close>

datatype io_kind = NotFound | PermissionDenied | AlreadyExists | InvalidInput | InvalidData | OtherIo

datatype io_error = IoError io_kind string

primrec io_error_kind :: "io_error \<Rightarrow> io_kind" where
  "io_error_kind (IoError k m) = k"

primrec io_error_message :: "io_error \<Rightarrow> string" where
  "io_error_message (IoError k m) = m"

definition invalid_principal :: "string \<Rightarrow> io_error + 'a" where
  "invalid_principal message = Inl (IoError InvalidInput message)"

section \<open>Worker principals\<close>

datatype installation_scope = UserScope | SystemScope

definition scope_from_str :: "string \<Rightarrow> string + installation_scope" where
  "scope_from_str value =
     (if value = ''user'' then Inr UserScope
      else if value = ''system'' then Inr SystemScope
      else Inl (''scope must be '' @ [CHR 0x27] @ ''user'' @ [CHR 0x27] @ '' or '' @ [CHR 0x27]
                @ ''system'' @ [CHR 0x27]))"

datatype principal_kind = UnixUid | WindowsSid

datatype account_policy = CurrentUserPolicy | DedicatedPolicy

datatype worker_isolation = SharedUser | DedicatedAccount

record worker_principal =
  wp_kind :: principal_kind
  wp_id :: string
  wp_name :: string
  wp_policy :: account_policy

definition validate_unix_uid :: "string \<Rightarrow> io_error + unit" where
  "validate_unix_uid value =
     (case parse_unsigned u32_max value of
        None \<Rightarrow> invalid_principal ''worker uid must be canonical decimal u32 text''
      | Some uid \<Rightarrow>
          if uid = 0 \<or> show_nat uid \<noteq> value
          then invalid_principal ''worker uid must be canonical non-root decimal text''
          else Inr ())"

definition canonical_decimal :: "string \<Rightarrow> nat \<Rightarrow> io_error + nat" where
  "canonical_decimal value maximum =
     (case parse_unsigned u64_max value of
        None \<Rightarrow> invalid_principal ''native principal identifier is not decimal''
      | Some parsed \<Rightarrow>
          if maximum < parsed \<or> show_nat parsed \<noteq> value
          then invalid_principal ''native principal identifier is not canonical''
          else Inr parsed)"

definition sid_authority_max :: nat where
  "sid_authority_max = 281474976710655"

definition validate_windows_sid :: "string \<Rightarrow> io_error + unit" where
  "validate_windows_sid value =
     (case strip_prefix ''S-1-'' value of
        None \<Rightarrow> invalid_principal ''worker SID must use canonical S-1 text''
      | Some rest \<Rightarrow>
          (let components = split_on (CHR ''-'') rest
           in if \<not> (2 \<le> length components \<and> length components \<le> 16)
              then invalid_principal ''worker SID has an invalid component count''
              else and_then (canonical_decimal (components ! 0) u64_max) (\<lambda>authority.
                if sid_authority_max < authority
                then invalid_principal ''worker SID authority is out of range''
                else and_then (check_all (\<lambda>component.
                       and_then (canonical_decimal component u32_max) (\<lambda>_. Inr ())) (tl components))
                  (\<lambda>_. if value = ''S-1-5-18''
                       then invalid_principal ''SYSTEM cannot be a worker principal''
                       else Inr ()))))"

definition validate_principal_name :: "string \<Rightarrow> io_error + unit" where
  "validate_principal_name value =
     (if value = [] \<or> 256 < length value \<or> trim value \<noteq> value \<or> any_control value
      then invalid_principal ''worker account name is invalid''
      else if list_ex (\<lambda>b. b \<in> {CHR 0x5C, CHR ''/'', CHR '':''}) value
      then invalid_principal ''worker account name is ambiguous''
      else Inr ())"

definition new_worker_principal ::
  "principal_kind \<Rightarrow> string \<Rightarrow> string \<Rightarrow> account_policy \<Rightarrow> io_error + worker_principal" where
  "new_worker_principal kind pid name policy =
     and_then (validate_principal_name name) (\<lambda>_.
     and_then (case kind of UnixUid \<Rightarrow> validate_unix_uid pid | WindowsSid \<Rightarrow> validate_windows_sid pid)
       (\<lambda>_. Inr \<lparr>wp_kind = kind, wp_id = pid, wp_name = name, wp_policy = policy\<rparr>))"

definition wp_isolation :: "worker_principal \<Rightarrow> worker_isolation" where
  "wp_isolation p =
     (case wp_policy p of CurrentUserPolicy \<Rightarrow> SharedUser | DedicatedPolicy \<Rightarrow> DedicatedAccount)"

definition unix_uid :: "worker_principal \<Rightarrow> io_error + nat" where
  "unix_uid p =
     (if wp_kind p \<noteq> UnixUid then invalid_principal ''worker principal is not a Unix uid''
      else ok_or (parse_unsigned u32_max (wp_id p)) (IoError InvalidInput ''worker uid is invalid''))"

text \<open>The native adapter's own name rule is the last argument.\<close>

definition new_dedicated_account_spec :: "(string \<Rightarrow> bool) \<Rightarrow> string \<Rightarrow> io_error + string" where
  "new_dedicated_account_spec native_name_is_valid name =
     (if name \<noteq> [] \<and> length name \<le> 256 \<and> name \<noteq> ''.'' \<and> name \<noteq> ''..''
         \<and> hd name \<notin> {CHR ''-'', CHR ''.''} \<and> last name \<notin> {CHR ''.'', CHR '' ''}
         \<and> list_all (\<lambda>b. is_ascii_alphanumeric b \<or> b \<in> {CHR ''_'', CHR ''-'', CHR ''.''}) name
         \<and> native_name_is_valid name
      then Inr name
      else Inl (IoError InvalidInput ''dedicated account name is invalid or ambiguous''))"

definition linux_account_name_is_valid :: "string \<Rightarrow> bool" where
  "linux_account_name_is_valid name \<longleftrightarrow> length name \<le> 32"

definition macos_account_name_is_valid :: "string \<Rightarrow> bool" where
  "macos_account_name_is_valid name \<longleftrightarrow> length name \<le> 255"

section \<open>Accepted principals\<close>

lemma validate_unix_uid_iff:
  "validate_unix_uid value = Inr () \<longleftrightarrow> (\<exists>n. 0 < n \<and> n \<le> u32_max \<and> value = show_nat n)"
proof
  assume "validate_unix_uid value = Inr ()"
  then obtain n where "parse_unsigned u32_max value = Some n" "n \<noteq> 0" "show_nat n = value"
    by (auto simp: validate_unix_uid_def invalid_principal_def split: option.splits if_splits)
  then show "\<exists>n. 0 < n \<and> n \<le> u32_max \<and> value = show_nat n"
    using parse_unsigned_bound by blast
next
  assume "\<exists>n. 0 < n \<and> n \<le> u32_max \<and> value = show_nat n"
  then show "validate_unix_uid value = Inr ()"
    by (auto simp: validate_unix_uid_def parse_show_nat)
qed

lemma canonical_decimal_iff:
  "maximum \<le> u64_max \<Longrightarrow>
     canonical_decimal value maximum = Inr n \<longleftrightarrow> n \<le> maximum \<and> value = show_nat n"
  by (auto simp: canonical_decimal_def invalid_principal_def parse_show_nat
      split: option.splits if_splits)

lemma u32_le_u64 [simp]: "u32_max \<le> u64_max"
  by (simp add: u32_max_def u64_max_def)

definition valid_principal_name :: "string \<Rightarrow> bool" where
  "valid_principal_name name \<longleftrightarrow>
     name \<noteq> [] \<and> length name \<le> 256 \<and> trim name = name \<and> \<not> any_control name
     \<and> list_all (\<lambda>b. b \<notin> {CHR 0x5C, CHR ''/'', CHR '':''}) name"

lemma validate_principal_name_iff:
  "validate_principal_name name = Inr () \<longleftrightarrow> valid_principal_name name"
proof -
  have bytes: "list_ex (\<lambda>b. b \<in> {CHR 0x5C, CHR ''/'', CHR '':''}) name
      \<longleftrightarrow> \<not> list_all (\<lambda>b. b \<notin> {CHR 0x5C, CHR ''/'', CHR '':''}) name"
    unfolding list_ex_iff list_all_iff by blast
  have chain: "(if a then Inl x else if b then Inl y else Inr ()) = (Inr () :: io_error + unit)
      \<longleftrightarrow> \<not> a \<and> \<not> b" for a b x y
    by simp
  show ?thesis
    unfolding validate_principal_name_def valid_principal_name_def invalid_principal_def bytes
      chain not_less [symmetric]
    by blast
qed

definition canonical_sid :: "string \<Rightarrow> bool" where
  "canonical_sid value \<longleftrightarrow>
     (\<exists>authority subs. value = ''S-1-'' @ join_with (CHR ''-'') (map show_nat (authority # subs))
        \<and> authority \<le> sid_authority_max \<and> list_all (\<lambda>n. n \<le> u32_max) subs
        \<and> 1 \<le> length subs \<and> length subs \<le> 15)
     \<and> value \<noteq> ''S-1-5-18''"

lemma show_nat_no_dash: "CHR ''-'' \<notin> set (show_nat n)"
proof -
  have "\<not> is_ascii_digit (CHR ''-'')" by (simp add: is_ascii_digit_def byte_def)
  then show ?thesis using show_nat_digits [of n] by (auto simp: list_all_iff)
qed

lemma canonical_components:
  "(\<forall>c \<in> set cs. \<exists>n. canonical_decimal c u32_max = Inr n)
     \<longleftrightarrow> (\<exists>ns. cs = map show_nat ns \<and> list_all (\<lambda>n. n \<le> u32_max) ns)"
proof (induction cs)
  case Nil
  then show ?case by simp
next
  case (Cons c cs)
  have "(\<exists>ns. c # cs = map show_nat ns \<and> list_all (\<lambda>n. n \<le> u32_max) ns) \<longleftrightarrow>
      (\<exists>n. c = show_nat n \<and> n \<le> u32_max) \<and> (\<exists>ns. cs = map show_nat ns \<and> list_all (\<lambda>n. n \<le> u32_max) ns)"
    (is "?l \<longleftrightarrow> ?r")
  proof
    assume ?r
    then obtain n ns where "c # cs = map show_nat (n # ns)" "list_all (\<lambda>n. n \<le> u32_max) (n # ns)"
      by auto
    then show ?l by (intro exI [of _ "n # ns"] conjI)
  qed (auto simp: Cons_eq_map_conv)
  with Cons show ?case by (auto simp: canonical_decimal_iff)
qed

lemma validate_windows_sid_iff: "validate_windows_sid value = Inr () \<longleftrightarrow> canonical_sid value"
proof
  assume ok: "validate_windows_sid value = Inr ()"
  then obtain rest where rest: "strip_prefix ''S-1-'' value = Some rest"
    by (auto simp: validate_windows_sid_def invalid_principal_def split: option.splits)
  define cs where "cs = split_on (CHR ''-'') rest"
  from ok rest have len: "2 \<le> length cs" "length cs \<le> 16"
    and auth: "\<exists>a. canonical_decimal (cs ! 0) u64_max = Inr a \<and> a \<le> sid_authority_max"
    and subs: "\<forall>c \<in> set (tl cs). \<exists>n. canonical_decimal c u32_max = Inr n"
    and sys: "value \<noteq> ''S-1-5-18''"
    by (auto simp: validate_windows_sid_def invalid_principal_def cs_def [symmetric] Let_def
        result_simps split: if_splits)
  obtain a where a: "cs ! 0 = show_nat a" "a \<le> sid_authority_max"
    using auth by (auto simp: canonical_decimal_iff)
  obtain ns where ns: "tl cs = map show_nat ns" "list_all (\<lambda>n. n \<le> u32_max) ns"
    using subs by (auto simp only: canonical_components)
  have cs: "cs = map show_nat (a # ns)"
    using len a ns by (cases cs) auto
  have "value = ''S-1-'' @ join_with (CHR ''-'') (map show_nat (a # ns))"
    using rest cs by (metis cs_def join_split strip_prefix_Some_iff)
  moreover have "1 \<le> length ns \<and> length ns \<le> 15" using len cs by simp
  ultimately show "canonical_sid value"
    unfolding canonical_sid_def using a(2) ns(2) sys by blast
next
  assume "canonical_sid value"
  then obtain a ns where val: "value = ''S-1-'' @ join_with (CHR ''-'') (map show_nat (a # ns))"
      and a: "a \<le> sid_authority_max" and ns: "list_all (\<lambda>n. n \<le> u32_max) ns"
      and len: "1 \<le> length ns" "length ns \<le> 15" and sys: "value \<noteq> ''S-1-5-18''"
    by (auto simp: canonical_sid_def)
  have split: "split_on (CHR ''-'') (join_with (CHR ''-'') (map show_nat (a # ns))) = map show_nat (a # ns)"
    by (rule split_join) (auto simp: show_nat_no_dash)
  have strip: "strip_prefix ''S-1-'' value = Some (join_with (CHR ''-'') (map show_nat (a # ns)))"
    using val by (simp only: strip_prefix_Some_iff)
  have "a \<le> u64_max" using a by (simp add: sid_authority_max_def u64_max_def)
  then have auth: "canonical_decimal (show_nat a) u64_max = Inr a"
    by (simp add: canonical_decimal_iff)
  have "\<forall>c \<in> set (map show_nat ns). \<exists>n. canonical_decimal c u32_max = Inr n"
    using ns canonical_components by blast
  then have "check_all (\<lambda>component. and_then (canonical_decimal component u32_max) (\<lambda>_. Inr ()))
      (map show_nat ns) = Inr ()"
    by (auto simp: result_simps)
  with strip split auth a len sys show "validate_windows_sid value = Inr ()"
    by (simp add: validate_windows_sid_def Let_def del: join_with.simps)
qed

text \<open>
  The principals that can be constructed are exactly the ones with an unambiguous name
  and a canonical identifier: a positive decimal \<open>u32\<close> without leading zeros for a Unix uid
  (never root), and for a Windows SID \<open>S-1-\<close> with a 48-bit authority and 1 to 15 canonical
  \<open>u32\<close> sub-authorities (never SYSTEM).
\<close>

theorem worker_principal_exact:
  "new_worker_principal kind pid name policy = Inr p \<longleftrightarrow>
     valid_principal_name name
     \<and> (case kind of UnixUid \<Rightarrow> \<exists>n. 0 < n \<and> n \<le> u32_max \<and> pid = show_nat n
        | WindowsSid \<Rightarrow> canonical_sid pid)
     \<and> p = \<lparr>wp_kind = kind, wp_id = pid, wp_name = name, wp_policy = policy\<rparr>"
  by (cases kind)
     (auto simp: new_worker_principal_def result_simps validate_principal_name_iff
        validate_unix_uid_iff validate_windows_sid_iff)

section \<open>The identity of the user phase on Unix\<close>

datatype host_privilege = Ordinary | RootHost | Administrator

record unix_caller_ids =
  real_uid :: nat
  effective_uid :: nat
  real_gid :: nat
  effective_gid :: nat

record unix_original_identity =
  orig_uid :: nat
  orig_gid :: nat

record unix_execution_selection =
  sel_privilege :: host_privilege
  sel_uid :: nat
  sel_gid :: nat

definition select_unix_execution ::
  "unix_caller_ids \<Rightarrow> (io_error + unix_original_identity) \<Rightarrow> io_error + unix_execution_selection" where
  "select_unix_execution caller elevated_origin =
     (if real_uid caller = effective_uid caller \<and> real_uid caller \<noteq> 0
         \<and> real_gid caller = effective_gid caller \<and> real_gid caller \<noteq> 0
      then Inr \<lparr>sel_privilege = Ordinary, sel_uid = real_uid caller, sel_gid = real_gid caller\<rparr>
      else if real_uid caller = 0 \<and> effective_uid caller = 0
              \<and> real_gid caller = 0 \<and> effective_gid caller = 0
      then and_then elevated_origin (\<lambda>original.
             if orig_uid original = 0 \<or> orig_gid original = 0
             then Inl (IoError PermissionDenied
                        ''elevated setup requires an original non-root user and group'')
             else Inr \<lparr>sel_privilege = RootHost, sel_uid = orig_uid original,
                       sel_gid = orig_gid original\<rparr>)
      else Inl (IoError PermissionDenied ''ambiguous Unix setup caller identity''))"

definition validate_unix_caller_ids :: "nat \<Rightarrow> nat \<Rightarrow> io_error + nat" where
  "validate_unix_caller_ids ruid euid =
     (if ruid = 0 \<or> euid = 0 \<or> ruid \<noteq> euid
      then Inl (IoError PermissionDenied
        ''privileged or mismatched caller identity requires an authenticated elevation handoff'')
      else Inr ruid)"

text \<open>
  The sudo origin is read from the environment entries; a repeated field is refused. The
  value of an entry is a byte string here, so the refusal of a value that is not Unicode is
  the function \<open>into_string\<close>.
\<close>

record sudo_slots =
  slot_uid :: "string option"
  slot_gid :: "string option"
  slot_user :: "string option"

definition permission_denied :: "string \<Rightarrow> io_error + 'a" where
  "permission_denied message = Inl (IoError PermissionDenied message)"

definition ambiguous_sudo_origin :: "io_error + 'a" where
  "ambiguous_sudo_origin = permission_denied ''elevated setup has ambiguous sudo origin fields''"

fun scan_sudo_entries :: "sudo_slots \<Rightarrow> (string \<times> string) list \<Rightarrow> io_error + sudo_slots" where
  "scan_sudo_entries slots [] = Inr slots"
| "scan_sudo_entries slots ((key, entry) # entries) =
     (if key = ''SUDO_UID''
      then (if slot_uid slots \<noteq> None then ambiguous_sudo_origin
            else scan_sudo_entries (slots\<lparr>slot_uid := Some entry\<rparr>) entries)
      else if key = ''SUDO_GID''
      then (if slot_gid slots \<noteq> None then ambiguous_sudo_origin
            else scan_sudo_entries (slots\<lparr>slot_gid := Some entry\<rparr>) entries)
      else if key = ''SUDO_USER''
      then (if slot_user slots \<noteq> None then ambiguous_sudo_origin
            else scan_sudo_entries (slots\<lparr>slot_user := Some entry\<rparr>) entries)
      else scan_sudo_entries slots entries)"

definition parse_sudo_id :: "(string \<Rightarrow> string option) \<Rightarrow> string option \<Rightarrow> io_error + nat" where
  "parse_sudo_id into_string entry =
     (case Option.bind entry into_string of
        None \<Rightarrow> permission_denied ''elevated setup is missing a valid sudo origin''
      | Some text \<Rightarrow>
          (case parse_unsigned u32_max text of
             None \<Rightarrow> permission_denied ''elevated setup has malformed sudo origin ids''
           | Some n \<Rightarrow>
               if show_nat n \<noteq> text
               then permission_denied ''elevated setup has non-canonical sudo origin ids''
               else Inr n))"

definition parse_sudo_origin_entries ::
  "(string \<Rightarrow> string option) \<Rightarrow> (string \<times> string) list
     \<Rightarrow> io_error + unix_original_identity \<times> string" where
  "parse_sudo_origin_entries into_string entries =
     and_then (scan_sudo_entries \<lparr>slot_uid = None, slot_gid = None, slot_user = None\<rparr> entries)
       (\<lambda>slots. and_then (parse_sudo_id into_string (slot_uid slots)) (\<lambda>uid.
        and_then (parse_sudo_id into_string (slot_gid slots)) (\<lambda>gid.
        and_then (ok_or (Option.bind (slot_user slots) into_string)
                   (IoError PermissionDenied ''elevated setup is missing a valid sudo original user''))
          (\<lambda>user. and_then (validate_principal_name user) (\<lambda>_.
            Inr (\<lparr>orig_uid = uid, orig_gid = gid\<rparr>, user))))))"

text \<open>
  C10. Setup never runs its user phase as root: whatever the caller ids and the reported
  sudo origin, a selected identity has a non-zero uid and gid; it is the caller's own when
  the caller is ordinary, and the sudo origin's only when all four ids are root's. Mixed ids
  select nothing.
\<close>

theorem unix_execution_never_root:
  "(\<forall>sel. select_unix_execution caller origin = Inr sel \<longrightarrow>
      sel_uid sel \<noteq> 0 \<and> sel_gid sel \<noteq> 0
      \<and> (sel_privilege sel = Ordinary \<and> sel_uid sel = real_uid caller
           \<and> sel_uid sel = effective_uid caller \<and> sel_gid sel = real_gid caller
           \<and> sel_gid sel = effective_gid caller
         \<or> sel_privilege sel = RootHost
           \<and> origin = Inr \<lparr>orig_uid = sel_uid sel, orig_gid = sel_gid sel\<rparr>
           \<and> real_uid caller = 0 \<and> effective_uid caller = 0
           \<and> real_gid caller = 0 \<and> effective_gid caller = 0))
   \<and> (real_uid caller \<noteq> effective_uid caller \<or> real_gid caller \<noteq> effective_gid caller
        \<or> (real_uid caller = 0) \<noteq> (real_gid caller = 0)
      \<longrightarrow> select_unix_execution caller origin
            = Inl (IoError PermissionDenied ''ambiguous Unix setup caller identity''))"
  by (cases origin) (auto simp: select_unix_execution_def split: if_splits)

theorem unix_execution_never_root_witness:
  "\<exists>sel. select_unix_execution
      \<lparr>real_uid = 0, effective_uid = 0, real_gid = 0, effective_gid = 0\<rparr>
      (Inr \<lparr>orig_uid = 501, orig_gid = 20\<rparr>) = Inr sel \<and> sel_uid sel = 501 \<and> sel_gid sel \<noteq> 0
    \<and> select_unix_execution
      \<lparr>real_uid = 501, effective_uid = 0, real_gid = 20, effective_gid = 20\<rparr>
      (Inr \<lparr>orig_uid = 501, orig_gid = 20\<rparr>)
      = Inl (IoError PermissionDenied ''ambiguous Unix setup caller identity'')"
proof -
  let ?root = "\<lparr>real_uid = 0, effective_uid = 0, real_gid = 0, effective_gid = 0\<rparr>"
  let ?mixed = "\<lparr>real_uid = 501, effective_uid = 0, real_gid = 20, effective_gid = 20\<rparr>"
  let ?origin = "Inr \<lparr>orig_uid = 501, orig_gid = 20\<rparr>"
  obtain sel where sel: "select_unix_execution ?root ?origin = Inr sel"
    by (simp add: select_unix_execution_def)
  have "sel_uid sel = 501" using sel by (auto simp: select_unix_execution_def)
  moreover have "sel_gid sel \<noteq> 0"
    using unix_execution_never_root [of ?root ?origin] sel by simp
  moreover have "select_unix_execution ?mixed ?origin
      = Inl (IoError PermissionDenied ''ambiguous Unix setup caller identity'')"
    using unix_execution_never_root [of ?mixed ?origin] by simp
  ultimately show ?thesis using sel by blast
qed

lemma scan_sudo_other:
  "key \<notin> {''SUDO_UID'', ''SUDO_GID'', ''SUDO_USER''} \<Longrightarrow>
     scan_sudo_entries slots ((key, entry) # entries) = scan_sudo_entries slots entries"
  by simp

lemma scan_sudo_filled:
  "scan_sudo_entries slots entries = Inr slots' \<Longrightarrow>
     slot_uid slots' = (case slot_uid slots of Some u \<Rightarrow> Some u | None \<Rightarrow> map_of entries ''SUDO_UID'')
     \<and> slot_gid slots' = (case slot_gid slots of Some g \<Rightarrow> Some g | None \<Rightarrow> map_of entries ''SUDO_GID'')
     \<and> slot_user slots' = (case slot_user slots of Some u \<Rightarrow> Some u | None \<Rightarrow> map_of entries ''SUDO_USER'')"
  by (induction slots entries rule: scan_sudo_entries.induct)
     (auto simp: ambiguous_sudo_origin_def permission_denied_def split: if_splits option.splits)

section \<open>The identity of the user phase on Windows\<close>

datatype token_elevation = ElevationDefault | ElevationFull | ElevationLimited

datatype integrity_level = LowIntegrity | MediumIntegrity | HighIntegrity | SystemIntegrity

record token_posture =
  elevation_type :: token_elevation
  integrity_level :: integrity_level
  administrators_group_attributes :: "32 word option"

datatype user_token_choice = CurrentToken | LinkedLimitedToken

definition se_group_enabled :: "32 word" where
  "se_group_enabled = 4"

definition se_group_use_for_deny_only :: "32 word" where
  "se_group_use_for_deny_only = 16"

definition token_posture_from_native ::
  "nat \<Rightarrow> nat \<Rightarrow> 32 word option \<Rightarrow> io_error + token_posture" where
  "token_posture_from_native elevation rid attributes =
     and_then (if elevation = 1 then Inr ElevationDefault
               else if elevation = 2 then Inr ElevationFull
               else if elevation = 3 then Inr ElevationLimited
               else Inl (IoError InvalidData ''Windows returned an unknown token elevation type''))
     (\<lambda>elevation. and_then
        (if rid \<le> 0x1fff then Inr LowIntegrity
         else if 0x2000 \<le> rid \<and> rid \<le> 0x2fff then Inr MediumIntegrity
         else if 0x3000 \<le> rid \<and> rid \<le> 0x3fff then Inr HighIntegrity
         else if 0x4000 \<le> rid \<and> rid \<le> 0x4fff then Inr SystemIntegrity
         else Inl (IoError PermissionDenied ''Windows token has an unsupported integrity level''))
     (\<lambda>integrity. Inr \<lparr>elevation_type = elevation, integrity_level = integrity,
                       administrators_group_attributes = attributes\<rparr>))"

definition admin_enabled :: "token_posture \<Rightarrow> bool" where
  "admin_enabled posture =
     is_some_and (\<lambda>a. a AND se_group_enabled \<noteq> 0) (administrators_group_attributes posture)"

definition admin_deny_only :: "token_posture \<Rightarrow> bool" where
  "admin_deny_only posture =
     is_some_and (\<lambda>a. a AND se_group_use_for_deny_only \<noteq> 0 \<and> a AND se_group_enabled = 0)
       (administrators_group_attributes posture)"

definition safe_limited :: "token_posture \<Rightarrow> bool" where
  "safe_limited posture \<longleftrightarrow> elevation_type posture = ElevationLimited
     \<and> integrity_level posture = MediumIntegrity \<and> admin_deny_only posture"

definition safe_full :: "token_posture \<Rightarrow> bool" where
  "safe_full posture \<longleftrightarrow> elevation_type posture = ElevationFull
     \<and> integrity_level posture = HighIntegrity \<and> admin_enabled posture"

definition select_windows_user_token ::
  "token_posture \<Rightarrow> token_posture option \<Rightarrow> io_error + user_token_choice" where
  "select_windows_user_token current linked =
     (let denied = Inl (IoError PermissionDenied
                         ''Windows has no safe non-elevated medium user token'')
      in (case elevation_type current of
            ElevationDefault \<Rightarrow>
              if integrity_level current = MediumIntegrity
                 \<and> administrators_group_attributes current = None
              then Inr CurrentToken else denied
          | ElevationLimited \<Rightarrow>
              if safe_limited current \<and> is_some_and safe_full linked
              then Inr CurrentToken else denied
          | ElevationFull \<Rightarrow>
              if safe_full current \<and> is_some_and safe_limited linked
              then Inr LinkedLimitedToken else denied))"

definition chosen_token :: "token_posture \<Rightarrow> token_posture option \<Rightarrow> user_token_choice \<Rightarrow> token_posture option" where
  "chosen_token current linked choice =
     (case choice of CurrentToken \<Rightarrow> Some current | LinkedLimitedToken \<Rightarrow> linked)"

text \<open>
  C24. On Windows the user phase runs under a token of medium integrity in which the
  Administrators group is not enabled: whichever token the selection picks exists, has
  medium integrity, and carries the group either not at all or for deny checks only.
\<close>

theorem windows_user_token_unprivileged:
  assumes "select_windows_user_token current linked = Inr choice"
  shows "\<exists>token. chosen_token current linked choice = Some token
     \<and> integrity_level token = MediumIntegrity \<and> \<not> admin_enabled token
     \<and> (administrators_group_attributes token = None \<or> admin_deny_only token)"
  using assms
  by (cases linked)
     (auto simp: select_windows_user_token_def chosen_token_def safe_limited_def admin_enabled_def
        admin_deny_only_def is_some_and_def Let_def
      split: token_elevation.splits if_splits option.splits)

theorem windows_user_token_unprivileged_witness:
  "\<exists>token. chosen_token
      \<lparr>elevation_type = ElevationFull, integrity_level = HighIntegrity,
       administrators_group_attributes = Some 7\<rparr>
      (Some \<lparr>elevation_type = ElevationLimited, integrity_level = MediumIntegrity,
             administrators_group_attributes = Some 16\<rparr>) LinkedLimitedToken = Some token
     \<and> \<not> admin_enabled token"
proof -
  let ?full = "\<lparr>elevation_type = ElevationFull, integrity_level = HighIntegrity,
       administrators_group_attributes = Some 7\<rparr>"
  let ?limited = "\<lparr>elevation_type = ElevationLimited, integrity_level = MediumIntegrity,
       administrators_group_attributes = Some 16\<rparr>"
  have "select_windows_user_token ?full (Some ?limited) = Inr LinkedLimitedToken"
    by (simp add: select_windows_user_token_def safe_full_def safe_limited_def admin_enabled_def
        admin_deny_only_def se_group_enabled_def se_group_use_for_deny_only_def)
  from windows_user_token_unprivileged [OF this] show ?thesis by blast
qed

end
