(* ===== verification/WindowsText.thy ===== *)
theory WindowsText
  imports Text "HOL-Library.Word"
begin

text \<open>
  The policy on Windows text of \<open>src/platform/mod.rs\<close> that every host compiles: quoting one
  argument of the elevated command line, and the normal form of a worker root. Text is a
  list of UTF-16 code units (\<open>16 word\<close>). The contract of the quoting is the documented
  parser of \<open>CommandLineToArgvW\<close>, given here as \<open>unquote\<close>.
\<close>

type_synonym u16 = "16 word"

abbreviation backslash_unit :: u16 where
  "backslash_unit \<equiv> 0x5C"

abbreviation quote_unit :: u16 where
  "quote_unit \<equiv> 0x22"

section \<open>Quoting a command-line argument\<close>

datatype quote_error = NulCodeUnit

text \<open>The loop over the units, with the number of backslashes read since the last other unit.\<close>

fun quote_units :: "nat \<Rightarrow> u16 list \<Rightarrow> u16 list" where
  "quote_units backslashes [] = replicate (backslashes * 2) backslash_unit @ [quote_unit]"
| "quote_units backslashes (unit # rest) =
     (if unit = backslash_unit then quote_units (backslashes + 1) rest
      else (if unit = quote_unit then replicate (backslashes * 2 + 1) backslash_unit
            else replicate backslashes backslash_unit) @ unit # quote_units 0 rest)"

definition windows_quote_command_argument :: "u16 list \<Rightarrow> quote_error + u16 list" where
  "windows_quote_command_argument argument =
     (if 0 \<in> set argument then Inl NulCodeUnit
      else Inr (quote_unit # quote_units 0 argument))"

text \<open>
  How a program's argument parser reads a quoted argument, after its opening quote: an even
  run of backslashes before a quote is halved and the quote ends the argument, an odd run is
  halved and the quote is literal, other backslashes stand for themselves.
\<close>

fun unquote :: "nat \<Rightarrow> u16 list \<Rightarrow> (u16 list \<times> u16 list) option" where
  "unquote n [] = None"
| "unquote n (unit # rest) =
     (if unit = backslash_unit then unquote (n + 1) rest
      else if unit = quote_unit then
        (if even n then Some (replicate (n div 2) backslash_unit, rest)
         else map_option (\<lambda>(arg, after). (replicate (n div 2) backslash_unit @ quote_unit # arg, after))
                (unquote 0 rest))
      else map_option (\<lambda>(arg, after). (replicate n backslash_unit @ unit # arg, after))
             (unquote 0 rest))"

lemma unquote_backslashes: "unquote n (replicate k backslash_unit @ rest) = unquote (n + k) rest"
  by (induction k arbitrary: n) auto

lemma unquote_quote_units:
  "unquote 0 (quote_units n argument @ rest) = Some (replicate n backslash_unit @ argument, rest)"
proof (induction n argument rule: quote_units.induct)
  case (1 n)
  then show ?case by (simp add: unquote_backslashes)
next
  case (2 n unit us)
  show ?case
  proof (cases "unit = backslash_unit")
    case True
    with 2 show ?thesis by (simp add: replicate_append_same)
  next
    case False
    with 2 have rest: "unquote 0 (quote_units 0 us @ rest) = Some (us, rest)" by simp
    show ?thesis
    proof (cases "unit = quote_unit")
      case True
      have "even (Suc (n * 2)) = False" "Suc (n * 2) div 2 = n" by simp_all
      with True rest show ?thesis
        by (simp add: unquote_backslashes [of 0, simplified] flip: append.assoc)
           (simp add: unquote_backslashes del: replicate.simps)
    next
      case False
      with \<open>unit \<noteq> backslash_unit\<close> rest show ?thesis by (simp add: unquote_backslashes)
    qed
  qed
qed

text \<open>
  Quoting is exact: every argument without a NUL unit is quoted, and the documented
  Windows argument parser reads the quoted text back as that argument, stopping right after
  it, so no unit of an argument can escape into the rest of the elevated command line.
\<close>

theorem windows_quote_roundtrip:
  assumes "0 \<notin> set argument"
  shows "\<exists>body. windows_quote_command_argument argument = Inr (quote_unit # body)
     \<and> unquote 0 (body @ rest) = Some (argument, rest)"
  using assms unquote_quote_units [of 0 argument rest]
  by (simp add: windows_quote_command_argument_def)

theorem windows_quote_roundtrip_witness:
  "\<exists>body. windows_quote_command_argument [0x61, 0x5C, 0x22, 0x5C] = Inr (quote_unit # body)
     \<and> unquote 0 (body @ [0x20]) = Some ([0x61, 0x5C, 0x22, 0x5C], [0x20])"
proof -
  have "(0 :: u16) \<notin> set [0x61, 0x5C, 0x22, 0x5C]" by simp
  from windows_quote_roundtrip [OF this, of "[0x20]"] show ?thesis .
qed

section \<open>The normal form of a worker root\<close>

definition u16_eq_ascii_byte :: "u16 \<Rightarrow> char \<Rightarrow> bool" where
  "u16_eq_ascii_byte actual expected \<longleftrightarrow>
     unat actual < 256 \<and> lower_byte (char_of (unat actual)) = lower_byte expected"

definition windows_utf16_eq_ascii :: "u16 list \<Rightarrow> string \<Rightarrow> bool" where
  "windows_utf16_eq_ascii actual expected \<longleftrightarrow>
     length actual = length expected
     \<and> list_all (\<lambda>(a, e). u16_eq_ascii_byte a e) (zip actual expected)"

definition dos_device_names :: "string list" where
  "dos_device_names = [''CON'', ''PRN'', ''AUX'', ''NUL'', ''CONIN$'', ''CONOUT$'', ''CLOCK$'']"

definition windows_reserved_dos_name :: "u16 list \<Rightarrow> bool" where
  "windows_reserved_dos_name name \<longleftrightarrow>
     list_ex (windows_utf16_eq_ascii name) dos_device_names
     \<or> (length name = 4
        \<and> (windows_utf16_eq_ascii (take 3 name) ''COM'' \<or> windows_utf16_eq_ascii (take 3 name) ''LPT'')
        \<and> (0x31 \<le> name ! 3 \<and> name ! 3 \<le> 0x39 \<or> name ! 3 \<in> {0xB9, 0xB2, 0xB3}))"

definition component_unit_forbidden :: "u16 \<Rightarrow> bool" where
  "component_unit_forbidden unit \<longleftrightarrow>
     unit \<le> 31 \<or> unit \<in> {0x3C, 0x3E, 0x3A, 0x22, 0x2F, 0x7C, 0x3F, 0x2A}"

definition device_base :: "u16 list \<Rightarrow> u16 list" where
  "device_base component =
     rev (dropWhile (\<lambda>u. u = 0x20 \<or> u = 0x2E) (rev (takeWhile (\<lambda>u. u \<noteq> 0x2E) component)))"

definition windows_worker_component_is_normalized :: "u16 list \<Rightarrow> bool" where
  "windows_worker_component_is_normalized component \<longleftrightarrow>
     \<not> (component = [] \<or> last component = 0x2E \<or> last component = 0x20
        \<or> list_ex component_unit_forbidden component)
     \<and> \<not> windows_reserved_dos_name (device_base component)"

definition windows_worker_root_text_is_normalized :: "u16 list \<Rightarrow> bool" where
  "windows_worker_root_text_is_normalized units \<longleftrightarrow>
     \<not> (length units < 4
        \<or> \<not> (0x41 \<le> units ! 0 \<and> units ! 0 \<le> 0x5A \<or> 0x61 \<le> units ! 0 \<and> units ! 0 \<le> 0x7A)
        \<or> units ! 1 \<noteq> 0x3A \<or> units ! 2 \<noteq> backslash_unit \<or> 0 \<in> set units)
     \<and> list_all windows_worker_component_is_normalized (split_on backslash_unit (drop 3 units))"

end
