(* ===== verification/Utf8.thy ===== *)
theory Utf8
  imports Text
begin

text \<open>
  UTF-8 as the Rust standard library checks it: \<open>str::from_utf8\<close> accepts exactly the
  sequences of well-formed groups, and \<open>String::from_utf8_lossy\<close> puts one replacement
  character in the place of every maximal ill-formed prefix.
\<close>

section \<open>One step of the decoder\<close>

definition byte_at :: "nat \<Rightarrow> string \<Rightarrow> nat" where
  "byte_at i s = (if i < length s then byte (s ! i) else 0)"

definition continuation :: "nat \<Rightarrow> bool" where
  "continuation b \<longleftrightarrow> 128 \<le> b \<and> b \<le> 191"

definition second_byte_ok :: "nat \<Rightarrow> nat \<Rightarrow> bool" where
  "second_byte_ok b d \<longleftrightarrow>
     (if b = 224 then 160 \<le> d \<and> d \<le> 191
      else if b = 237 then 128 \<le> d \<and> d \<le> 159
      else if b = 240 then 144 \<le> d \<and> d \<le> 191
      else if b = 244 then 128 \<le> d \<and> d \<le> 143
      else continuation d)"

text \<open>Whether the text after a lead byte completes its group, and how many of those bytes
  the group, or the ill-formed prefix, takes.\<close>

definition utf8_tail :: "char \<Rightarrow> string \<Rightarrow> bool \<times> nat" where
  "utf8_tail c cs =
     (let b = byte c
      in if b < 128 then (True, 0)
         else if 194 \<le> b \<and> b \<le> 223 then
           (if continuation (byte_at 0 cs) then (True, 1) else (False, 0))
         else if 224 \<le> b \<and> b \<le> 239 then
           (if second_byte_ok b (byte_at 0 cs)
            then (if continuation (byte_at 1 cs) then (True, 2) else (False, 1)) else (False, 0))
         else if 240 \<le> b \<and> b \<le> 244 then
           (if second_byte_ok b (byte_at 0 cs)
            then (if continuation (byte_at 1 cs)
                  then (if continuation (byte_at 2 cs) then (True, 3) else (False, 2))
                  else (False, 1)) else (False, 0))
         else (False, 0))"

fun utf8_valid :: "string \<Rightarrow> bool" where
  "utf8_valid [] = True"
| "utf8_valid (c # cs) = (fst (utf8_tail c cs) \<and> utf8_valid (drop (snd (utf8_tail c cs)) cs))"

definition replacement_character :: string where
  "replacement_character = [CHR 0xEF, CHR 0xBF, CHR 0xBD]"

fun from_utf8_lossy :: "string \<Rightarrow> string" where
  "from_utf8_lossy [] = []"
| "from_utf8_lossy (c # cs) =
     (if fst (utf8_tail c cs) then c # take (snd (utf8_tail c cs)) cs else replacement_character)
       @ from_utf8_lossy (drop (snd (utf8_tail c cs)) cs)"

section \<open>Facts\<close>

lemma byte_at_append: "i < length s \<Longrightarrow> byte_at i (s @ t) = byte_at i s"
  by (simp add: byte_at_def nth_append)

lemma lossy_valid: "utf8_valid s \<Longrightarrow> from_utf8_lossy s = s"
  by (induction s rule: utf8_valid.induct) simp_all

lemma length_replacement [simp]: "length replacement_character = 3"
  by (simp add: replacement_character_def)

lemma tail_bound: "fst (utf8_tail c cs) \<Longrightarrow> snd (utf8_tail c cs) \<le> length cs"
proof -
  have at: "0 < byte_at i cs \<Longrightarrow> i < length cs" for i
    by (simp add: byte_at_def split: if_splits)
  have cont: "continuation (byte_at i cs) \<Longrightarrow> Suc i \<le> length cs" for i
    using at [of i] by (auto simp: continuation_def)
  show "fst (utf8_tail c cs) \<Longrightarrow> snd (utf8_tail c cs) \<le> length cs"
    using cont [of 0] cont [of 1] cont [of 2]
    by (auto simp: utf8_tail_def Let_def split: if_splits)
qed

lemma lossy_length: "length (from_utf8_lossy s) \<le> 3 * length s"
proof (induction s rule: from_utf8_lossy.induct)
  case 1
  then show ?case by simp
next
  case (2 c cs)
  show ?case
  proof (cases "fst (utf8_tail c cs)")
    case True
    with 2 tail_bound [OF True] show ?thesis by simp
  next
    case False
    with 2 show ?thesis by simp
  qed
qed

lemma utf8_valid_ascii: "\<forall>c \<in> set s. byte c < 128 \<Longrightarrow> utf8_valid s"
  by (induction s) (auto simp: utf8_tail_def)

lemma lossy_invalid_lead:
  "255 = byte c \<Longrightarrow> from_utf8_lossy (replicate n c) = concat (replicate n replacement_character)"
  by (induction n) (simp_all add: utf8_tail_def)

lemma replacement_valid: "utf8_valid (replacement_character @ s) = utf8_valid s"
  by (simp add: replacement_character_def utf8_tail_def byte_def second_byte_ok_def
      continuation_def byte_at_def)

section \<open>Network addresses\<close>

text \<open>
  \<open>std::net::Ipv6Addr::from_str\<close>, as a recogniser: groups of one to four hexadecimal
  digits, an optional dotted quad in the place of two groups, at most one \<open>::\<close>. Each reader
  returns the rest of the input, or \<open>None\<close> with the input untouched.
\<close>

definition hex_digit_byte :: "char \<Rightarrow> bool" where
  "hex_digit_byte c \<longleftrightarrow> is_ascii_digit c \<or> (65 \<le> byte c \<and> byte c \<le> 70) \<or> (97 \<le> byte c \<and> byte c \<le> 102)"

definition read_char :: "char \<Rightarrow> string \<Rightarrow> string option" where
  "read_char c s = (case s of d # r \<Rightarrow> if d = c then Some r else None | [] \<Rightarrow> None)"

definition read_hex_group :: "string \<Rightarrow> string option" where
  "read_hex_group s =
     (let digits = takeWhile hex_digit_byte s
      in if 1 \<le> length digits \<and> length digits \<le> 4 then Some (drop (length digits) s) else None)"

definition read_octet :: "string \<Rightarrow> string option" where
  "read_octet s =
     (let digits = takeWhile is_ascii_digit s
      in if 1 \<le> length digits \<and> length digits \<le> 3 \<and> digits_value digits \<le> 255
            \<and> (hd digits = CHR ''0'' \<longrightarrow> length digits = 1)
         then Some (drop (length digits) s) else None)"

definition read_ipv4 :: "string \<Rightarrow> string option" where
  "read_ipv4 s =
     Option.bind (read_octet s) (\<lambda>s. Option.bind (read_char (CHR ''.'') s) (\<lambda>s.
     Option.bind (read_octet s) (\<lambda>s. Option.bind (read_char (CHR ''.'') s) (\<lambda>s.
     Option.bind (read_octet s) (\<lambda>s. Option.bind (read_char (CHR ''.'') s) read_octet)))))"

definition after_separator :: "nat \<Rightarrow> (string \<Rightarrow> string option) \<Rightarrow> string \<Rightarrow> string option" where
  "after_separator i reader s =
     (if i = 0 then reader s else Option.bind (read_char (CHR '':'') s) reader)"

text \<open>\<open>read_groups limit i s\<close> gives the number of groups read, whether a dotted quad ended
  them, and the rest; \<open>left\<close> counts the groups still allowed.\<close>

fun read_groups :: "nat \<Rightarrow> nat \<Rightarrow> string \<Rightarrow> nat \<times> bool \<times> string" where
  "read_groups 0 i s = (i, False, s)"
| "read_groups (Suc left) i s =
     (case (if left = 0 then None else after_separator i read_ipv4 s) of
        Some r \<Rightarrow> (i + 2, True, r)
      | None \<Rightarrow>
          (case after_separator i read_hex_group s of
             None \<Rightarrow> (i, False, s)
           | Some r \<Rightarrow> read_groups left (i + 1) r))"

definition is_ipv6_addr :: "string \<Rightarrow> bool" where
  "is_ipv6_addr s =
     (case read_groups 8 0 s of (head_size, head_ipv4, r) \<Rightarrow>
        if head_size = 8 then r = []
        else if head_ipv4 then False
        else (case Option.bind (read_char (CHR '':'') r) (read_char (CHR '':'')) of
                None \<Rightarrow> False
              | Some r \<Rightarrow> (case read_groups (7 - head_size) 0 r of (_, _, r) \<Rightarrow> r = [])))"

end
