(* ===== verification/Transport.thy ===== *)
theory Transport
  imports Utf8 Crates
begin

text \<open>
  The SSH transport's own decisions (\<open>src/transport/mod.rs\<close>, \<open>src/transport/ssh.rs\<close>): which
  destinations are accepted, how a host key is selected from the output of \<open>ssh-keyscan\<close> and
  pinned, when a later scan matches the pin, and the argument vectors given to OpenSSH. A
  path is its bytes; \<open>is_absolute\<close> is the Unix rule. Running the tools is outside the model,
  their output bytes are an input.
\<close>

section \<open>Destinations\<close>

datatype transport_error = CapabilityUnavailable | Unreachable | Authentication

definition destination_byte :: "char \<Rightarrow> bool" where
  "destination_byte b \<longleftrightarrow> is_ascii_alphanumeric b \<or> b \<in> {CHR ''.'', CHR ''-'', CHR ''_''}"

definition validate_host :: "string \<Rightarrow> transport_error + unit" where
  "validate_host host =
     (if host = [] \<or> 255 < length host \<or> starts_with ''-'' host then Inl Authentication
      else (case Option.bind (strip_prefix ''['' host) (strip_suffix '']'') of
              Some inner \<Rightarrow> if is_ipv6_addr inner then Inr () else Inl Authentication
            | None \<Rightarrow> if list_all destination_byte host then Inr () else Inl Authentication))"

definition validate_user :: "string \<Rightarrow> transport_error + unit" where
  "validate_user user =
     (if user \<noteq> [] \<and> length user \<le> 255 \<and> \<not> starts_with ''-'' user \<and> list_all destination_byte user
      then Inr () else Inl Authentication)"

definition validate_ssh_destination :: "string \<Rightarrow> string \<Rightarrow> nat \<Rightarrow> transport_error + unit" where
  "validate_ssh_destination host user port =
     and_then (validate_host host) (\<lambda>_. and_then (validate_user user) (\<lambda>_.
       if port = 0 then Inl Authentication else Inr ()))"

definition is_absolute :: "string \<Rightarrow> bool" where
  "is_absolute path \<longleftrightarrow> starts_with ''/'' path"

definition path_to_str :: "string \<Rightarrow> string option" where
  "path_to_str path = (if utf8_valid path then Some path else None)"

definition validate_transport_path :: "string \<Rightarrow> transport_error + string" where
  "validate_transport_path path =
     and_then (ok_or (path_to_str path) Authentication) (\<lambda>text.
       if is_absolute path \<and> text \<noteq> [] \<and> \<not> any_control text then Inr text
       else Inl Authentication)"

section \<open>Public keys on the wire\<close>

definition be_u32 :: "string \<Rightarrow> nat" where
  "be_u32 = foldl (\<lambda>v c. 256 * v + byte c) 0"

definition take_ssh_string :: "string \<Rightarrow> transport_error + string \<times> string" where
  "take_ssh_string wire =
     (if length wire < 4 then Inl Authentication
      else (let n = be_u32 (take 4 wire)
            in if length wire < 4 + n then Inl Authentication
               else Inr (take n (drop 4 wire), drop (4 + n) wire)))"

definition validate_public_key_wire :: "string \<Rightarrow> string \<Rightarrow> transport_error + unit" where
  "validate_public_key_wire algorithm wire =
     and_then (take_ssh_string wire) (\<lambda>(name, wire).
       if name \<noteq> algorithm then Inl Authentication
       else if algorithm = ''ssh-ed25519'' then
         and_then (take_ssh_string wire) (\<lambda>(key, wire).
           if length key \<noteq> 32 \<or> wire \<noteq> [] then Inl Authentication else Inr ())
       else if algorithm = ''ecdsa-sha2-nistp256'' then
         and_then (take_ssh_string wire) (\<lambda>(curve, wire).
           if curve \<noteq> ''nistp256'' then Inl Authentication
           else and_then (take_ssh_string wire) (\<lambda>(point, wire).
             if length point \<noteq> 65 \<or> map byte (take 1 point) \<noteq> [4] \<or> wire \<noteq> []
             then Inl Authentication else Inr ()))
       else if algorithm = ''ssh-rsa'' then
         and_then (take_ssh_string wire) (\<lambda>(exponent, wire).
         and_then (take_ssh_string wire) (\<lambda>(modulus, wire).
           if exponent = [] \<or> length modulus < 256 \<or> wire \<noteq> []
           then Inl Authentication else Inr ()))
       else Inl Authentication)"

section \<open>Selecting and pinning a host key\<close>

record pinned_host_key =
  key_algorithm :: string
  key_base64 :: string
  key_fingerprint :: string

definition max_keyscan_bytes :: nat where
  "max_keyscan_bytes = 1024 * 1024"

definition max_key_text :: nat where
  "max_key_text = 16 * 1024"

definition key_algorithms :: "string list" where
  "key_algorithms = [''ssh-ed25519'', ''ecdsa-sha2-nistp256'', ''ssh-rsa'']"

definition algorithm_priority :: "string \<Rightarrow> nat" where
  "algorithm_priority algorithm =
     (if algorithm = ''ssh-ed25519'' then 0
      else if algorithm = ''ecdsa-sha2-nistp256'' then 1
      else if algorithm = ''ssh-rsa'' then 2
      else 255)"

definition validate_fingerprint :: "crates \<Rightarrow> string \<Rightarrow> transport_error + string" where
  "validate_fingerprint C text =
     and_then (ok_or (strip_prefix ''SHA256:'' text) Authentication) (\<lambda>encoded.
       if length encoded \<noteq> 43 \<or> CHR ''='' \<in> set encoded then Inl Authentication
       else and_then (ok_or (b64_std_nopad_decode C encoded) Authentication) (\<lambda>decoded.
         if length decoded = 32 \<and> b64_std_nopad_encode C decoded = encoded
         then Inr text else Inl Authentication))"

definition wire_fingerprint :: "crates \<Rightarrow> string \<Rightarrow> string" where
  "wire_fingerprint C wire = ''SHA256:'' @ b64_std_nopad_encode C (sha256 C wire)"

text \<open>One line of a scan: \<open>Inr None\<close> skips it.\<close>

definition scan_line :: "crates \<Rightarrow> string \<Rightarrow> transport_error + pinned_host_key option" where
  "scan_line C line =
     (if line = [] \<or> starts_with ''#'' line then Inr None
      else (let fields = split_ascii_whitespace line
            in if length fields \<noteq> 3 \<or> 512 < length (fields ! 0) then Inl Authentication
               else if fields ! 1 \<notin> set key_algorithms then Inr None
               else if max_key_text < length (fields ! 2) then Inl Authentication
               else and_then (ok_or (b64_std_decode C (fields ! 2)) Authentication) (\<lambda>wire.
                    and_then (validate_public_key_wire (fields ! 1) wire) (\<lambda>_.
                      if b64_std_encode C wire \<noteq> fields ! 2 then Inl Authentication
                      else Inr (Some \<lparr>key_algorithm = fields ! 1, key_base64 = fields ! 2,
                                      key_fingerprint = wire_fingerprint C wire\<rparr>)))))"

definition same_key :: "pinned_host_key \<Rightarrow> pinned_host_key \<Rightarrow> bool" where
  "same_key a b \<longleftrightarrow> key_algorithm a = key_algorithm b \<and> key_base64 a = key_base64 b"

fun scan_lines ::
  "crates \<Rightarrow> pinned_host_key list \<Rightarrow> string list \<Rightarrow> transport_error + pinned_host_key list" where
  "scan_lines C keys [] = Inr keys"
| "scan_lines C keys (line # rest) =
     and_then (scan_line C line) (\<lambda>found.
       scan_lines C (case found of
                       None \<Rightarrow> keys
                     | Some key \<Rightarrow> if list_ex (same_key key) keys then keys else keys @ [key]) rest)"

definition only_one :: "'a list \<Rightarrow> transport_error + 'a" where
  "only_one xs = (case xs of [x] \<Rightarrow> Inr x | _ \<Rightarrow> Inl Authentication)"

definition select_scan ::
  "crates \<Rightarrow> string \<Rightarrow> string option \<Rightarrow> transport_error + pinned_host_key" where
  "select_scan C bytes fingerprint =
     (if bytes = [] \<or> max_keyscan_bytes < length bytes \<or> \<not> utf8_valid bytes
      then Inl Authentication
      else and_then (case fingerprint of
                       None \<Rightarrow> Inr None
                     | Some text \<Rightarrow> and_then (validate_fingerprint C text) (\<lambda>t. Inr (Some t)))
        (\<lambda>requested. and_then (scan_lines C [] (lines bytes)) (\<lambda>keys.
          case requested of
            Some wanted \<Rightarrow> only_one (filter (\<lambda>key. key_fingerprint key = wanted) keys)
          | None \<Rightarrow>
              if keys = [] then Inl Authentication
              else (let best = min_list (map (\<lambda>key. algorithm_priority (key_algorithm key)) keys)
                    in only_one (filter (\<lambda>key. algorithm_priority (key_algorithm key) = best) keys)))))"

definition from_parts ::
  "crates \<Rightarrow> string \<Rightarrow> string \<Rightarrow> string \<Rightarrow> transport_error + pinned_host_key" where
  "from_parts C algorithm base64 fingerprint =
     select_scan C (''host '' @ algorithm @ '' '' @ base64 @ [CHR 0x0A]) (Some fingerprint)"

definition known_hosts_line :: "pinned_host_key \<Rightarrow> string \<Rightarrow> nat \<Rightarrow> transport_error + string" where
  "known_hosts_line key host port =
     and_then (validate_host host) (\<lambda>_.
       if port = 0 then Inl Authentication
       else (let destination = (if port = 22 then host else ''['' @ host @ '']:'' @ show_nat port)
             in Inr (destination @ '' '' @ key_algorithm key @ '' '' @ key_base64 key @ [CHR 0x0A])))"

section \<open>Targets and command lines\<close>

record rpc_target =
  target_host :: string
  target_user :: string
  target_port :: nat
  target_identity :: string
  target_host_key :: pinned_host_key

definition new_rpc_target ::
  "string \<Rightarrow> string \<Rightarrow> nat \<Rightarrow> string \<Rightarrow> pinned_host_key \<Rightarrow> transport_error + rpc_target" where
  "new_rpc_target host user port identity host_key =
     and_then (validate_host host) (\<lambda>_. and_then (validate_user user) (\<lambda>_.
     and_then (validate_transport_path identity) (\<lambda>_.
       if port = 0 then Inl Authentication
       else Inr \<lparr>target_host = host, target_user = user, target_port = port,
                 target_identity = identity, target_host_key = host_key\<rparr>)))"

definition verify_scanned_host_key :: "crates \<Rightarrow> rpc_target \<Rightarrow> string \<Rightarrow> transport_error + unit" where
  "verify_scanned_host_key C target scan =
     and_then (select_scan C scan (Some (key_fingerprint (target_host_key target)))) (\<lambda>observed.
       if observed = target_host_key target then Inr () else Inl Authentication)"

definition ssh_keyscan_arguments :: "string \<Rightarrow> nat \<Rightarrow> transport_error + string list" where
  "ssh_keyscan_arguments host port =
     and_then (validate_host host) (\<lambda>_.
       if port = 0 then Inl Authentication
       else Inr [''-T'', ''10'', ''-p'', show_nat port, ''-t'', ''ed25519,ecdsa,rsa'', ''--'', host])"

definition ssh_arguments :: "rpc_target \<Rightarrow> string \<Rightarrow> transport_error + string list" where
  "ssh_arguments target known_hosts =
     and_then (validate_transport_path (target_identity target)) (\<lambda>identity.
     and_then (validate_transport_path known_hosts) (\<lambda>known_hosts.
       Inr [''-T'', ''-oBatchMode=yes'', ''-oIdentitiesOnly=yes'', ''-oStrictHostKeyChecking=yes'',
            ''-oUserKnownHostsFile='' @ known_hosts, ''-oGlobalKnownHostsFile=none'',
            ''-oCheckHostIP=no'', ''-oConnectTimeout=10'', ''-oConnectionAttempts=1'',
            ''-i'', identity, ''-p'', show_nat (target_port target), ''--'',
            target_user target @ ''@'' @ target_host target, ''styrn rpc serve --stdio'']))"

text \<open>The bounded readers of a tool's output keep a prefix and drain the rest.\<close>

definition drain_bounded :: "nat \<Rightarrow> string list \<Rightarrow> string" where
  "drain_bounded limit chunks =
     foldl (\<lambda>retained chunk. retained @ take (limit - length retained) chunk) [] chunks"

definition read_bounded :: "nat \<Rightarrow> string \<Rightarrow> string \<times> bool" where
  "read_bounded limit stream =
     (let bytes = take (limit + 1) stream in (take limit bytes, limit < length bytes))"

section \<open>What a scan offers\<close>

definition offered_keys :: "crates \<Rightarrow> string \<Rightarrow> pinned_host_key set" where
  "offered_keys C scan = {key. \<exists>line \<in> set (lines scan). scan_line C line = Inr (Some key)}"

definition scan_well_formed :: "crates \<Rightarrow> string \<Rightarrow> bool" where
  "scan_well_formed C scan \<longleftrightarrow>
     scan \<noteq> [] \<and> length scan \<le> max_keyscan_bytes \<and> utf8_valid scan \<and>
     list_all (\<lambda>line. is_ok (scan_line C line)) (lines scan)"

lemma scan_line_Some_iff:
  "scan_line C line = Inr (Some key) \<longleftrightarrow>
     line \<noteq> [] \<and> \<not> starts_with ''#'' line \<and>
     (\<exists>host wire. split_ascii_whitespace line = [host, key_algorithm key, key_base64 key] \<and>
        length host \<le> 512 \<and> key_algorithm key \<in> set key_algorithms \<and>
        length (key_base64 key) \<le> max_key_text \<and>
        b64_std_decode C (key_base64 key) = Some wire \<and>
        validate_public_key_wire (key_algorithm key) wire = Inr () \<and>
        b64_std_encode C wire = key_base64 key \<and> key_fingerprint key = wire_fingerprint C wire)"
proof -
  have three: "length fields = 3 \<longleftrightarrow> (\<exists>a b c. fields = [a, b, c])" for fields :: "string list"
    by (auto simp: numeral_3_eq_3 length_Suc_conv)
  show ?thesis
    by (cases key)
      (auto simp: scan_line_def Let_def result_simps three nth_Cons'
        not_less split: if_splits)
qed

lemma scanned_same_key:
  assumes "scan_line C l = Inr (Some a)" "scan_line C m = Inr (Some b)" "same_key a b"
  shows "a = b"
  using assms by (cases a; cases b) (auto simp: scan_line_Some_iff same_key_def)

lemma scan_lines_keeps:
  assumes "scan_lines C keys ls = Inr ks"
    and "\<forall>k \<in> set keys. \<exists>l. scan_line C l = Inr (Some k)"
  shows "set ks = set keys \<union> {k. \<exists>l \<in> set ls. scan_line C l = Inr (Some k)} \<and>
     (distinct keys \<longrightarrow> distinct ks) \<and> list_all (\<lambda>l. is_ok (scan_line C l)) ls"
  using assms
proof (induction ls arbitrary: keys)
  case Nil
  then show ?case by simp
next
  case (Cons l ls)
  obtain found where f: "scan_line C l = Inr found"
    and rest: "scan_lines C (case found of None \<Rightarrow> keys
        | Some key \<Rightarrow> if list_ex (same_key key) keys then keys else keys @ [key]) ls = Inr ks"
    using Cons.prems(1) by (auto simp: result_simps)
  show ?case
  proof (cases found)
    case None
    with Cons.IH [of keys] rest Cons.prems(2) f show ?thesis by auto
  next
    case (Some k)
    have dup: "list_ex (same_key k) keys \<longleftrightarrow> k \<in> set keys"
    proof
      assume "list_ex (same_key k) keys"
      then obtain q where "q \<in> set keys" "same_key k q" by (auto simp: list_ex_iff)
      moreover obtain m where "scan_line C m = Inr (Some q)"
        using Cons.prems(2) \<open>q \<in> set keys\<close> by blast
      ultimately show "k \<in> set keys"
        using scanned_same_key f Some by blast
    next
      show "k \<in> set keys \<Longrightarrow> list_ex (same_key k) keys"
        by (auto simp: list_ex_iff same_key_def)
    qed
    let ?keys = "if k \<in> set keys then keys else keys @ [k]"
    have "\<forall>k \<in> set ?keys. \<exists>l. scan_line C l = Inr (Some k)"
      using Cons.prems(2) f Some by auto
    moreover have "scan_lines C ?keys ls = Inr ks" using rest Some dup by simp
    ultimately have "set ks = set ?keys \<union> {k. \<exists>l \<in> set ls. scan_line C l = Inr (Some k)} \<and>
       (distinct ?keys \<longrightarrow> distinct ks) \<and> list_all (\<lambda>l. is_ok (scan_line C l)) ls"
      by (rule Cons.IH [rotated])
    then show ?thesis using f Some by auto
  qed
qed

lemma scan_lines_total:
  "list_all (\<lambda>l. is_ok (scan_line C l)) ls \<Longrightarrow> \<exists>ks. scan_lines C keys ls = Inr ks"
  by (induction ls arbitrary: keys) (auto simp: result_simps)

lemma only_one_iff: "only_one xs = Inr x \<longleftrightarrow> xs = [x]"
  by (auto simp: only_one_def split: list.splits)

lemma distinct_singleton: "distinct ys \<Longrightarrow> set ys = {x} \<Longrightarrow> ys = [x]"
  by (cases ys) (auto, metis insert_iff list.set_intros(1) neq_Nil_conv singletonD subset_singletonD set_empty)

lemma filter_singleton_iff:
  "distinct xs \<Longrightarrow> filter P xs = [x] \<longleftrightarrow> x \<in> set xs \<and> P x \<and> (\<forall>y \<in> set xs. P y \<longrightarrow> y = x)"
proof -
  assume "distinct xs"
  then have "filter P xs = [x] \<longleftrightarrow> set (filter P xs) = {x}"
    using distinct_singleton [of "filter P xs" x] by (metis distinct_filter empty_set list.simps(15))
  also have "\<dots> \<longleftrightarrow> x \<in> set xs \<and> P x \<and> (\<forall>y \<in> set xs. P y \<longrightarrow> y = x)" by auto
  finally show ?thesis .
qed

text \<open>The keys a scan holds, as \<open>select_scan\<close> collects them.\<close>

lemma scan_lines_offered:
  assumes "\<And>ks. distinct ks \<Longrightarrow> P ks \<longleftrightarrow> Q (set ks)"
  shows "(\<exists>ks. scan_lines C [] (lines scan) = Inr ks \<and> P ks) \<longleftrightarrow>
     list_all (\<lambda>l. is_ok (scan_line C l)) (lines scan) \<and> Q (offered_keys C scan)"
proof -
  have ks: "set ks = offered_keys C scan \<and> distinct ks \<and> list_all (\<lambda>l. is_ok (scan_line C l)) (lines scan)"
    if "scan_lines C [] (lines scan) = Inr ks" for ks
    using scan_lines_keeps [OF that] by (simp add: offered_keys_def)
  show ?thesis
  proof
    assume "\<exists>ks. scan_lines C [] (lines scan) = Inr ks \<and> P ks"
    with ks assms show "list_all (\<lambda>l. is_ok (scan_line C l)) (lines scan) \<and> Q (offered_keys C scan)"
      by metis
  next
    assume "list_all (\<lambda>l. is_ok (scan_line C l)) (lines scan) \<and> Q (offered_keys C scan)"
    with ks assms scan_lines_total [of C "lines scan" "[]"]
    show "\<exists>ks. scan_lines C [] (lines scan) = Inr ks \<and> P ks"
      by metis
  qed
qed

lemma select_by_fingerprint:
  "select_scan C scan (Some f) = Inr key \<longleftrightarrow>
     scan_well_formed C scan \<and> validate_fingerprint C f = Inr f \<and> key \<in> offered_keys C scan \<and>
     key_fingerprint key = f \<and> (\<forall>other \<in> offered_keys C scan. key_fingerprint other = f \<longrightarrow> other = key)"
proof -
  have v: "validate_fingerprint C f = Inr t \<Longrightarrow> t = f" for t
    by (auto simp: validate_fingerprint_def result_simps split: if_splits)
  have sel: "select_scan C scan (Some f) = Inr key \<longleftrightarrow>
     scan \<noteq> [] \<and> length scan \<le> max_keyscan_bytes \<and> utf8_valid scan \<and> validate_fingerprint C f = Inr f \<and>
     (\<exists>ks. scan_lines C [] (lines scan) = Inr ks \<and> filter (\<lambda>k. key_fingerprint k = f) ks = [key])"
    by (auto simp: select_scan_def result_simps only_one_iff not_less dest: v)
      (metis filter.simps(1) list.discI)
  have "(\<exists>ks. scan_lines C [] (lines scan) = Inr ks \<and> filter (\<lambda>k. key_fingerprint k = f) ks = [key]) \<longleftrightarrow>
     list_all (\<lambda>l. is_ok (scan_line C l)) (lines scan) \<and> key \<in> offered_keys C scan \<and>
     key_fingerprint key = f \<and> (\<forall>other \<in> offered_keys C scan. key_fingerprint other = f \<longrightarrow> other = key)"
    by (rule scan_lines_offered) (rule filter_singleton_iff)
  with sel show ?thesis unfolding scan_well_formed_def by blast
qed

lemma best_priority:
  fixes p :: "'a \<Rightarrow> nat"
  assumes "distinct ks"
  shows "ks \<noteq> [] \<and> filter (\<lambda>k. p k = min_list (map p ks)) ks = [key] \<longleftrightarrow>
     key \<in> set ks \<and> (\<forall>other \<in> set ks. other \<noteq> key \<longrightarrow> p key < p other)"
proof (cases "ks = []")
  case False
  have m: "min_list (map p ks) = Min (p ` set ks)" using False by (simp add: min_list_Min)
  have low: "y \<in> set ks \<Longrightarrow> Min (p ` set ks) \<le> p y" for y by simp
  have att: "\<exists>y \<in> set ks. p y = Min (p ` set ks)"
    using Min_in [of "p ` set ks"] False by (metis (no_types) finite_imageI finite_set imageE image_is_empty set_empty)
  show ?thesis
    unfolding filter_singleton_iff [OF assms] m
  proof safe
    fix other
    assume "\<forall>y \<in> set ks. p y = Min (p ` set ks) \<longrightarrow> y = key" "other \<in> set ks" "other \<noteq> key"
      "p key = Min (p ` set ks)"
    then show "p key < p other" using low [of other] by (metis le_neq_implies_less)
  next
    assume "key \<in> set ks" "\<forall>other \<in> set ks. other \<noteq> key \<longrightarrow> p key < p other"
    then show "p key = Min (p ` set ks)"
      using att low [of key] by (metis leD)
  next
    fix y
    assume "\<forall>other \<in> set ks. other \<noteq> key \<longrightarrow> p key < p other" "y \<in> set ks"
      "p y = Min (p ` set ks)" "key \<in> set ks"
    then show "y = key" using low [of key] by (metis leD)
  qed (use False in auto)
qed simp

lemma select_by_priority:
  "select_scan C scan None = Inr key \<longleftrightarrow>
     scan_well_formed C scan \<and> key \<in> offered_keys C scan \<and>
     (\<forall>other \<in> offered_keys C scan. other \<noteq> key \<longrightarrow>
        algorithm_priority (key_algorithm key) < algorithm_priority (key_algorithm other))"
proof -
  have sel: "select_scan C scan None = Inr key \<longleftrightarrow>
     scan \<noteq> [] \<and> length scan \<le> max_keyscan_bytes \<and> utf8_valid scan \<and>
     (\<exists>ks. scan_lines C [] (lines scan) = Inr ks \<and>
        (ks \<noteq> [] \<and> filter (\<lambda>k. algorithm_priority (key_algorithm k)
            = min_list (map (\<lambda>k. algorithm_priority (key_algorithm k)) ks)) ks = [key]))"
    by (auto simp: select_scan_def result_simps only_one_iff not_less Let_def)
  have "(\<exists>ks. scan_lines C [] (lines scan) = Inr ks \<and>
        (ks \<noteq> [] \<and> filter (\<lambda>k. algorithm_priority (key_algorithm k)
            = min_list (map (\<lambda>k. algorithm_priority (key_algorithm k)) ks)) ks = [key])) \<longleftrightarrow>
     list_all (\<lambda>l. is_ok (scan_line C l)) (lines scan) \<and> key \<in> offered_keys C scan \<and>
     (\<forall>other \<in> offered_keys C scan. other \<noteq> key \<longrightarrow>
        algorithm_priority (key_algorithm key) < algorithm_priority (key_algorithm other))"
    by (rule scan_lines_offered) (rule best_priority)
  with sel show ?thesis unfolding scan_well_formed_def by blast
qed

lemma drain_bounded_take: "drain_bounded limit chunks = take limit (concat chunks)"
proof (induction chunks rule: rev_induct)
  case Nil
  then show ?case by (simp add: drain_bounded_def)
next
  case (snoc chunk chunks)
  then show ?case by (simp add: drain_bounded_def min_def)
qed

definition destination_bytes :: "string \<Rightarrow> bool" where
  "destination_bytes s \<longleftrightarrow> (\<forall>c \<in> set s. 32 < byte c \<and> byte c < 127 \<and> c \<noteq> CHR ''@'')"

lemma validate_user_bytes: "validate_user u = Inr () \<Longrightarrow> u \<noteq> [] \<and> hd u \<noteq> CHR ''-'' \<and> destination_bytes u"
  by (cases u) (auto simp: validate_user_def destination_bytes_def destination_byte_def list_all_iff
      ascii_defs byte_def split: if_splits)

lemma read_char_Some: "read_char c s = Some r \<longleftrightarrow> s = c # r"
  by (auto simp: read_char_def split: list.splits)

definition ipv6_byte :: "char \<Rightarrow> bool" where
  "ipv6_byte c \<longleftrightarrow> hex_digit_byte c \<or> c = CHR '':'' \<or> c = CHR ''.''"

lemma takeWhile_prefix_all:
  "s = takeWhile p s @ drop (length (takeWhile p s)) s \<and> list_all p (takeWhile p s)"
  by (metis append_eq_conv_conj list_all_iff set_takeWhileD takeWhile_dropWhile_id)

lemma read_hex_group_bytes:
  "read_hex_group s = Some r \<Longrightarrow> \<exists>p. s = p @ r \<and> list_all ipv6_byte p"
  using takeWhile_prefix_all [of s hex_digit_byte]
  by (auto simp: read_hex_group_def Let_def ipv6_byte_def list_all_iff split: if_splits intro!: exI)

lemma read_octet_bytes:
  "read_octet s = Some r \<Longrightarrow> \<exists>p. s = p @ r \<and> list_all ipv6_byte p"
  using takeWhile_prefix_all [of s is_ascii_digit]
  by (auto simp: read_octet_def Let_def ipv6_byte_def hex_digit_byte_def list_all_iff split: if_splits intro!: exI)

lemma read_ipv4_bytes:
  assumes "read_ipv4 s = Some r"
  shows "\<exists>p. s = p @ r \<and> list_all ipv6_byte p"
proof -
  obtain s1 s2 s3 s4 s5 s6 where o:
    "read_octet s = Some s1" "s1 = CHR ''.'' # s2" "read_octet s2 = Some s3" "s3 = CHR ''.'' # s4"
    "read_octet s4 = Some s5" "s5 = CHR ''.'' # s6" "read_octet s6 = Some r"
    using assms by (auto simp: read_ipv4_def read_char_Some bind_eq_Some_conv)
  obtain p1 p2 p3 p4 where
    "s = p1 @ s1" "s2 = p2 @ s3" "s4 = p3 @ s5" "s6 = p4 @ r"
    "list_all ipv6_byte p1" "list_all ipv6_byte p2" "list_all ipv6_byte p3" "list_all ipv6_byte p4"
    using o read_octet_bytes by metis
  with o have "s = (p1 @ ''.'' @ p2 @ ''.'' @ p3 @ ''.'' @ p4) @ r"
    "list_all ipv6_byte (p1 @ ''.'' @ p2 @ ''.'' @ p3 @ ''.'' @ p4)"
    by (simp_all add: ipv6_byte_def)
  then show ?thesis by blast
qed

lemma after_separator_bytes:
  assumes "\<And>s r. reader s = Some r \<Longrightarrow> \<exists>p. s = p @ r \<and> list_all ipv6_byte p"
    and "after_separator i reader s = Some r"
  shows "\<exists>p. s = p @ r \<and> list_all ipv6_byte p"
proof (cases "i = 0")
  case True
  with assms show ?thesis by (simp add: after_separator_def)
next
  case False
  then obtain t where t: "s = CHR '':'' # t" "reader t = Some r"
    using assms(2) by (auto simp: after_separator_def read_char_Some bind_eq_Some_conv)
  obtain p where "t = p @ r" "list_all ipv6_byte p" using assms(1) t(2) by blast
  with t(1) have "s = (CHR '':'' # p) @ r" "list_all ipv6_byte (CHR '':'' # p)"
    by (simp_all add: ipv6_byte_def)
  then show ?thesis by blast
qed

lemma read_groups_bytes:
  "read_groups n i s = (k, d, r) \<Longrightarrow> \<exists>p. s = p @ r \<and> list_all ipv6_byte p"
proof (induction n i s rule: read_groups.induct)
  case (1 i s)
  then show ?case by (intro exI [of _ "[]"]) simp
next
  case (2 left i s)
  show ?case
  proof (cases "if left = 0 then None else after_separator i read_ipv4 s")
    case (Some t)
    then have "after_separator i read_ipv4 s = Some t" by (simp split: if_splits)
    moreover have "t = r" using Some 2(2) by simp
    ultimately show ?thesis using after_separator_bytes read_ipv4_bytes by blast
  next
    case None
    show ?thesis
    proof (cases "after_separator i read_hex_group s")
      case N: None
      with None 2(2) show ?thesis by (intro exI [of _ "[]"]) simp
    next
      case (Some t)
      then obtain p where p: "s = p @ t" "list_all ipv6_byte p"
        using after_separator_bytes read_hex_group_bytes by blast
      have "read_groups left (i + 1) t = (k, d, r)" using None Some 2(2) by simp
      then obtain q where "t = q @ r" "list_all ipv6_byte q"
        using 2(1) [OF None Some] by blast
      with p have "s = (p @ q) @ r" "list_all ipv6_byte (p @ q)" by simp_all
      then show ?thesis by blast
    qed
  qed
qed

lemma is_ipv6_addr_bytes:
  assumes "is_ipv6_addr s"
  shows "list_all ipv6_byte s"
proof -
  obtain k d r where g: "read_groups 8 0 s = (k, d, r)" by (metis prod_cases3)
  obtain p where p: "s = p @ r" "list_all ipv6_byte p" using read_groups_bytes [OF g] by blast
  show ?thesis
  proof (cases "k = 8")
    case True
    with g p assms show ?thesis by (simp add: is_ipv6_addr_def)
  next
    case False
    then obtain t where t: "r = CHR '':'' # CHR '':'' # t"
      and rest: "case read_groups (7 - k) 0 t of (_, _, r) \<Rightarrow> r = []"
      using g assms by (auto simp: is_ipv6_addr_def read_char_Some split: if_splits bind_splits option.splits)
    obtain k' d' r' where g': "read_groups (7 - k) 0 t = (k', d', r')" by (metis prod_cases3)
    then obtain q where "t = q @ r'" "list_all ipv6_byte q" using read_groups_bytes by blast
    with rest g' t p show ?thesis by (simp add: ipv6_byte_def)
  qed
qed

lemma validate_host_bytes:
  assumes "validate_host h = Inr ()"
  shows "h \<noteq> [] \<and> hd h \<noteq> CHR ''-'' \<and> destination_bytes h"
proof -
  have v6: "list_all ipv6_byte t \<Longrightarrow> destination_bytes t" for t
    by (auto simp: ipv6_byte_def hex_digit_byte_def list_all_iff destination_bytes_def ascii_defs byte_def)
  have ne: "h \<noteq> [] \<and> hd h \<noteq> CHR ''-''"
    using assms by (cases h) (auto simp: validate_host_def split: if_splits)
  show ?thesis
  proof (cases "Option.bind (strip_prefix ''['' h) (strip_suffix '']'')")
    case None
    then have "list_all destination_byte h" using assms by (auto simp: validate_host_def split: if_splits)
    with ne show ?thesis
      by (auto simp: destination_bytes_def destination_byte_def list_all_iff ascii_defs byte_def)
  next
    case (Some t)
    then have "is_ipv6_addr t" using assms by (auto simp: validate_host_def split: if_splits)
    then have "destination_bytes t" using is_ipv6_addr_bytes v6 by blast
    moreover have "h = ''['' @ t @ '']''"
      using Some by (auto simp: bind_eq_Some_conv strip_prefix_Some_iff strip_suffix_Some_iff)
    ultimately show ?thesis using ne by (auto simp: destination_bytes_def byte_def)
  qed
qed

text \<open>
  The laws of the base64 engine and of the digest that a pinned key relies on: encoded text
  is ASCII, a digest has 32 bytes, and the unpadded encoding of a digest is 43 characters,
  none of them padding, that decode to the digest.
\<close>

definition base64_laws :: "crates \<Rightarrow> bool" where
  "base64_laws C \<longleftrightarrow>
     (\<forall>s w. b64_std_decode C s = Some w \<longrightarrow> (\<forall>c \<in> set s. byte c < 128)) \<and>
     (\<forall>w. length (sha256 C w) = 32 \<and>
          length (b64_std_nopad_encode C (sha256 C w)) = 43 \<and>
          CHR ''='' \<notin> set (b64_std_nopad_encode C (sha256 C w)) \<and>
          b64_std_nopad_decode C (b64_std_nopad_encode C (sha256 C w)) = Some (sha256 C w))"

lemma wire_fingerprint_valid:
  "base64_laws C \<Longrightarrow> validate_fingerprint C (wire_fingerprint C w) = Inr (wire_fingerprint C w)"
proof -
  assume "base64_laws C"
  then have d: "length (sha256 C w) = 32"
    and e: "length (b64_std_nopad_encode C (sha256 C w)) = 43"
      "CHR ''='' \<notin> set (b64_std_nopad_encode C (sha256 C w))"
      "b64_std_nopad_decode C (b64_std_nopad_encode C (sha256 C w)) = Some (sha256 C w)"
    by (auto simp only: base64_laws_def)
  have "strip_prefix ''SHA256:'' (wire_fingerprint C w) = Some (b64_std_nopad_encode C (sha256 C w))"
    by (simp only: strip_prefix_Some_iff wire_fingerprint_def)
  with d e show ?thesis by (simp add: validate_fingerprint_def)
qed

lemma offered_reread:
  assumes laws: "base64_laws C" and key: "key \<in> offered_keys C scan"
  shows "from_parts C (key_algorithm key) (key_base64 key) (key_fingerprint key) = Inr key"
proof -
  let ?line = "''host '' @ key_algorithm key @ '' '' @ key_base64 key"
  let ?scan = "''host '' @ key_algorithm key @ '' '' @ key_base64 key @ [CHR 0x0A]"
  obtain line host wire where f:
    "split_ascii_whitespace line = [host, key_algorithm key, key_base64 key]"
    "key_algorithm key \<in> set key_algorithms" "length (key_base64 key) \<le> max_key_text"
    "b64_std_decode C (key_base64 key) = Some wire"
    "validate_public_key_wire (key_algorithm key) wire = Inr ()"
    "b64_std_encode C wire = key_base64 key" "key_fingerprint key = wire_fingerprint C wire"
    using key by (auto simp: offered_keys_def scan_line_Some_iff)
  have b: "key_base64 key \<noteq> []" "\<forall>c \<in> set (key_base64 key). \<not> is_ascii_whitespace c"
    using split_ascii_whitespace_parts [of "key_base64 key" line] f(1) by auto
  have a: "key_algorithm key \<noteq> []" "\<forall>c \<in> set (key_algorithm key). \<not> is_ascii_whitespace c"
    using split_ascii_whitespace_parts [of "key_algorithm key" line] f(1) by auto
  have ascii: "\<forall>c \<in> set (key_base64 key). byte c < 128"
    using laws f(4) by (auto simp: base64_laws_def)
  have alg: "\<forall>c \<in> set (key_algorithm key). byte c < 128" "length (key_algorithm key) \<le> 19"
    using f(2) by (auto simp: key_algorithms_def byte_def)
  have fields: "split_ascii_whitespace ?line = [''host'', key_algorithm key, key_base64 key]"
    using split_ascii_whitespace_Cons [of "''host''" "key_algorithm key @ '' '' @ key_base64 key"]
      split_ascii_whitespace_Cons [OF a, of "key_base64 key"] split_ascii_whitespace_one [OF b]
    by (simp add: is_ascii_whitespace_def byte_def)
  have head: "?line \<noteq> []" "\<not> starts_with ''#'' ?line" by simp_all
  have "length ''host'' \<le> (512 :: nat)" by simp
  then have sl: "scan_line C ?line = Inr (Some key)"
    using head fields f(2-7) scan_line_Some_iff [THEN iffD2] by metis
  have ws: "is_ascii_whitespace (CHR 0x0A)" "is_ascii_whitespace (CHR 0x0D)"
    by (simp_all add: is_ascii_whitespace_def byte_def)
  have "CHR 0x0A \<notin> set (key_algorithm key)" "CHR 0x0A \<notin> set (key_base64 key)"
    using a(2) b(2) ws(1) by blast+
  then have nl1: "CHR 0x0A \<notin> set ?line" by simp
  have "last ?line = last (key_base64 key)" using b(1) by simp
  then have nl2: "\<not> ends_with [CHR 0x0D] ?line"
    using b ws(2) by (metis ends_with_suffix last_in_set last_snoc suffix_def)
  have ls: "lines ?scan = [?line]"
    using lines_one [OF nl1 nl2] by simp
  have utf8: "utf8_valid ?scan"
    by (rule utf8_valid_ascii) (use ascii alg in \<open>simp add: ball_Un byte_def\<close>)
  have len: "length ?scan \<le> max_keyscan_bytes"
    using alg(2) f(3) by (simp add: max_keyscan_bytes_def max_key_text_def)
  have off: "offered_keys C ?scan = {key}"
    unfolding offered_keys_def ls using sl by auto
  have wf: "scan_well_formed C ?scan"
    unfolding scan_well_formed_def ls using sl utf8 len by simp
  show ?thesis
    unfolding from_parts_def select_by_fingerprint
    using wf off wire_fingerprint_valid [OF laws, of wire] f(7) by simp
qed

definition demo_wire :: string where
  "demo_wire = map char_of [0, 0, 0, 11 :: nat] @ ''ssh-ed25519'' @ map char_of [0, 0, 0, 32 :: nat] @ replicate 32 (CHR ''k'')"

definition demo_scan_crates :: crates where
  "demo_scan_crates = demo_crates
     \<lparr>b64_std_decode := (\<lambda>s. if s = ''AAAA'' then Some demo_wire else None),
      b64_std_encode := (\<lambda>_. ''AAAA''),
      b64_std_nopad_decode := (\<lambda>_. Some (replicate 32 (CHR ''d''))),
      b64_std_nopad_encode := (\<lambda>_. replicate 43 (CHR ''e'')),
      sha256 := (\<lambda>_. replicate 32 (CHR ''d''))\<rparr>"

definition demo_key :: pinned_host_key where
  "demo_key = \<lparr>key_algorithm = ''ssh-ed25519'', key_base64 = ''AAAA'',
     key_fingerprint = ''SHA256:'' @ replicate 43 (CHR ''e'')\<rparr>"

definition demo_scan :: string where
  "demo_scan = ''10.0.0.5 ssh-ed25519 AAAA'' @ [CHR 0x0A]"

lemma demo_scan_crates_sel [simp]:
  "b64_std_decode demo_scan_crates s = (if s = ''AAAA'' then Some demo_wire else None)"
  "b64_std_encode demo_scan_crates s = ''AAAA''"
  "b64_std_nopad_decode demo_scan_crates s = Some (replicate 32 (CHR ''d''))"
  "b64_std_nopad_encode demo_scan_crates s = replicate 43 (CHR ''e'')"
  "sha256 demo_scan_crates s = replicate 32 (CHR ''d'')"
  by (simp_all add: demo_scan_crates_def)

lemma demo_base64_laws: "base64_laws demo_scan_crates"
  by (auto simp: base64_laws_def byte_def)

lemma demo_offered: "demo_key \<in> offered_keys demo_scan_crates demo_scan"
proof -
  have l: "lines demo_scan = [''10.0.0.5 ssh-ed25519 AAAA'']" by code_simp
  have f: "split_ascii_whitespace ''10.0.0.5 ssh-ed25519 AAAA'' = [''10.0.0.5'', ''ssh-ed25519'', ''AAAA'']"
    by code_simp
  have w: "validate_public_key_wire ''ssh-ed25519'' demo_wire = Inr ()" by code_simp
  show ?thesis
    using f w by (simp add: offered_keys_def l scan_line_Some_iff demo_key_def key_algorithms_def
        max_key_text_def wire_fingerprint_def)
qed

lemma demo_offered_only: "other \<in> offered_keys demo_scan_crates demo_scan \<Longrightarrow> other = demo_key"
proof -
  assume o: "other \<in> offered_keys demo_scan_crates demo_scan"
  have l: "lines demo_scan = [''10.0.0.5 ssh-ed25519 AAAA'']" by code_simp
  show ?thesis
    using o demo_offered scanned_same_key by (fastforce simp: offered_keys_def l)
qed

lemma demo_scan_well_formed: "scan_well_formed demo_scan_crates demo_scan"
proof -
  have l: "lines demo_scan = [''10.0.0.5 ssh-ed25519 AAAA'']" by code_simp
  have "utf8_valid demo_scan" by code_simp
  moreover have "is_ok (scan_line demo_scan_crates ''10.0.0.5 ssh-ed25519 AAAA'')"
    using demo_offered by (auto simp: offered_keys_def l)
  ultimately show ?thesis
    by (simp add: scan_well_formed_def l) (simp add: demo_scan_def max_keyscan_bytes_def)
qed

text \<open>
  C21. Host key selection is exact: asked for a fingerprint, a scan yields a key if and only
  if the whole scan is well formed, the fingerprint is canonical and that key is the only one
  offered with it; asked for none, it yields the one key of strictly best algorithm. A key that
  appears twice counts once, and one malformed line fails the whole scan.
\<close>

theorem scan_selection_exact:
  "(select_scan C scan (Some f) = Inr key \<longleftrightarrow>
      scan_well_formed C scan \<and> validate_fingerprint C f = Inr f \<and> key \<in> offered_keys C scan \<and>
      key_fingerprint key = f \<and>
      (\<forall>other \<in> offered_keys C scan. key_fingerprint other = f \<longrightarrow> other = key)) \<and>
   (select_scan C scan None = Inr key \<longleftrightarrow>
      scan_well_formed C scan \<and> key \<in> offered_keys C scan \<and>
      (\<forall>other \<in> offered_keys C scan. other \<noteq> key \<longrightarrow>
         algorithm_priority (key_algorithm key) < algorithm_priority (key_algorithm other)))"
  using select_by_fingerprint select_by_priority by blast

theorem scan_selection_exact_witness:
  "select_scan demo_scan_crates demo_scan None = Inr demo_key"
  using scan_selection_exact [of demo_scan_crates demo_scan "[]" demo_key]
    demo_scan_well_formed demo_offered demo_offered_only by blast

text \<open>
  C19. A selected key survives its storage: rebuilt from its stored parts it is the same key,
  and a later scan passes the check of a target that pins it exactly when that scan is well
  formed, offers this very key and offers no other key under the same fingerprint.
\<close>

theorem pinned_key_lifecycle:
  assumes "base64_laws C" and "select_scan C scan request = Inr key"
  shows "from_parts C (key_algorithm key) (key_base64 key) (key_fingerprint key) = Inr key \<and>
     (verify_scanned_host_key C (target\<lparr>target_host_key := key\<rparr>) later = Inr () \<longleftrightarrow>
        scan_well_formed C later \<and> key \<in> offered_keys C later \<and>
        (\<forall>other \<in> offered_keys C later. key_fingerprint other = key_fingerprint key \<longrightarrow> other = key))"
proof -
  have off: "key \<in> offered_keys C scan"
    using assms(2) by (cases request) (auto simp: select_by_fingerprint select_by_priority)
  have reread: "from_parts C (key_algorithm key) (key_base64 key) (key_fingerprint key) = Inr key"
    by (rule offered_reread [OF assms(1) off])
  then have "validate_fingerprint C (key_fingerprint key) = Inr (key_fingerprint key)"
    by (simp add: from_parts_def select_by_fingerprint)
  with reread show ?thesis
    by (auto simp: verify_scanned_host_key_def result_simps select_by_fingerprint)
qed

theorem pinned_key_lifecycle_witness:
  "from_parts demo_scan_crates ''ssh-ed25519'' ''AAAA'' (key_fingerprint demo_key) = Inr demo_key"
proof -
  have "select_scan demo_scan_crates demo_scan None = Inr demo_key"
    using select_by_priority demo_scan_well_formed demo_offered demo_offered_only by blast
  from conjunct1 [OF pinned_key_lifecycle [OF demo_base64_laws this]]
  show ?thesis by (simp add: demo_key_def)
qed

text \<open>
  C18. The command line of a connection cannot be steered by its target: for every target the
  constructor accepts, the destination is one word that follows \<open>--\<close>, does not start with a
  dash and splits at its only \<open>@\<close> into the given user and host; strict checking against the
  given known-hosts file alone comes before it, and the remote command is fixed.
\<close>

theorem ssh_command_not_steered:
  assumes "new_rpc_target host user port identity key = Inr target"
    and "ssh_arguments target known_hosts = Inr args"
  shows "\<exists>options destination.
     args = options @ [''--'', destination, ''styrn rpc serve --stdio''] \<and> ''--'' \<notin> set options \<and>
     split_on (CHR ''@'') destination = [user, host] \<and> \<not> starts_with ''-'' destination \<and>
     {''-oStrictHostKeyChecking=yes'', ''-oUserKnownHostsFile='' @ known_hosts,
      ''-oGlobalKnownHostsFile=none'', ''-oIdentitiesOnly=yes'', identity} \<subseteq> set options"
proof -
  have t: "validate_host host = Inr ()" "validate_user user = Inr ()"
    "\<exists>p. validate_transport_path identity = Inr p"
    "target = \<lparr>target_host = host, target_user = user, target_port = port,
       target_identity = identity, target_host_key = key\<rparr>"
    using assms(1) by (auto simp: new_rpc_target_def result_simps split: if_splits)
  have path: "validate_transport_path p = Inr q \<Longrightarrow> q = p \<and> starts_with ''/'' p" for p q
    by (auto simp: validate_transport_path_def result_simps path_to_str_def is_absolute_def split: if_splits)
  have id: "validate_transport_path identity = Inr identity" "starts_with ''/'' identity"
    using t(3) path by metis+
  have kh: "validate_transport_path known_hosts = Inr known_hosts"
    using assms(2) path by (auto simp: ssh_arguments_def result_simps)
  let ?dest = "user @ ''@'' @ host"
  let ?options = "[''-T'', ''-oBatchMode=yes'', ''-oIdentitiesOnly=yes'', ''-oStrictHostKeyChecking=yes'',
     ''-oUserKnownHostsFile='' @ known_hosts, ''-oGlobalKnownHostsFile=none'',
     ''-oCheckHostIP=no'', ''-oConnectTimeout=10'', ''-oConnectionAttempts=1'',
     ''-i'', identity, ''-p'', show_nat port]"
  have args: "args = ?options @ [''--'', ?dest, ''styrn rpc serve --stdio'']"
    using assms(2) id kh t(4) by (simp add: ssh_arguments_def)
  have port: "show_nat port \<noteq> ''--''"
    using show_nat_hd [of port] by (auto simp: ascii_defs byte_def)
  have bytes: "user \<noteq> [] \<and> hd user \<noteq> CHR ''-'' \<and> destination_bytes user" "destination_bytes host"
    using validate_user_bytes [OF t(2)] validate_host_bytes [OF t(1)] by blast+
  have not_dash: "identity \<noteq> ''--''" using id(2) by (cases identity) auto
  have "CHR ''@'' \<notin> set user" "CHR ''@'' \<notin> set host"
    using bytes by (auto simp only: destination_bytes_def)
  then have split: "split_on (CHR ''@'') ?dest = [user, host]"
    using split_on_append_sep [of "CHR ''@''" user host] split_on_no_sep [of "CHR ''@''" host]
    by simp
  have dash: "\<not> starts_with ''-'' ?dest" using bytes(1) by (cases user) auto
  show ?thesis
  proof (intro exI conjI)
    show "args = ?options @ [''--'', ?dest, ''styrn rpc serve --stdio'']" by (rule args)
    show "''--'' \<notin> set ?options" using port not_dash by simp
  qed (use split dash in simp_all)
qed

theorem ssh_command_not_steered_witness:
  "\<exists>options destination.
     ssh_arguments \<lparr>target_host = ''10.0.0.5'', target_user = ''styrn'', target_port = 22,
        target_identity = ''/k'', target_host_key = demo_key\<rparr> ''/h''
       = Inr (options @ [''--'', destination, ''styrn rpc serve --stdio'']) \<and>
     split_on (CHR ''@'') destination = [''styrn'', ''10.0.0.5'']"
proof -
  let ?t = "\<lparr>target_host = ''10.0.0.5'', target_user = ''styrn'', target_port = 22,
     target_identity = ''/k'', target_host_key = demo_key\<rparr>"
  have v: "validate_host ''10.0.0.5'' = Inr ()" "validate_user ''styrn'' = Inr ()"
    "validate_transport_path ''/k'' = Inr ''/k''" "validate_transport_path ''/h'' = Inr ''/h''"
    by code_simp+
  have n: "new_rpc_target ''10.0.0.5'' ''styrn'' 22 ''/k'' demo_key = Inr ?t"
    using v by (simp add: new_rpc_target_def)
  obtain args where a: "ssh_arguments ?t ''/h'' = Inr args"
    using v by (simp add: ssh_arguments_def)
  show ?thesis using ssh_command_not_steered [OF n a] a by auto
qed


end
