(* ===== verification/Frame.thy ===== *)
theory Frame
  imports Utf8 Crates
begin

text \<open>
  The framing layer of the RPC protocol (\<open>src/rpc/frame.rs\<close>): one JSON object per line, at
  most four MiB, decoded through a visitor that refuses repeated fields and then checked
  field by field for its frame type. \<open>decode\<close> is the whole decoder, \<open>frame_json\<close> the
  serialiser, \<open>frame_read\<close> and \<open>frame_write\<close> the bounded line reader and writer.
\<close>

section \<open>Frames\<close>

definition max_frame_bytes :: nat where
  "max_frame_bytes = 4 * 1024 * 1024"

definition max_id_bytes :: nat where
  "max_id_bytes = 64"

definition max_version_bytes :: nat where
  "max_version_bytes = 128"

definition max_name_bytes :: nat where
  "max_name_bytes = 255"

definition max_method_bytes :: nat where
  "max_method_bytes = 64"

definition max_diagnostic_bytes :: nat where
  "max_diagnostic_bytes = 1024"

record server_hello =
  hello_protocol_min :: nat
  hello_protocol_max :: nat
  hello_styrn_version :: string
  hello_machine_id :: uuid
  hello_name :: string
  hello_manifest_schema_version :: nat

record client_hello =
  sel_protocol :: nat
  sel_styrn_version :: string

record rpc_diagnostic =
  rpc_code :: string
  rpc_message :: string
  rpc_details :: "json option"

definition new_rpc_diagnostic :: "string \<Rightarrow> string \<Rightarrow> rpc_diagnostic" where
  "new_rpc_diagnostic code message = \<lparr>rpc_code = code, rpc_message = message, rpc_details = None\<rparr>"

datatype frame =
    ServerHelloFrame server_hello
  | ClientHelloFrame client_hello
  | RequestFrame (frame_id: string) (frame_method: string) (frame_params: json)
  | ResponseFrame (frame_id: string) (frame_ok: bool) (frame_data: "json option")
      (frame_errors: "rpc_diagnostic list")
  | ErrorFrame (frame_id: string) (frame_errors: "rpc_diagnostic list")

datatype frame_error =
  FrameIo | FrameOversize | FrameTruncated | FrameInvalidUtf8 | FrameInvalidJson | FrameInvalidId |
  FrameUnsupportedType

section \<open>Values without repeated fields\<close>

fun unique_value :: "json \<Rightarrow> json option"
and unique_list :: "json list \<Rightarrow> json list option"
and unique_fields :: "fields \<Rightarrow> fields \<Rightarrow> fields option" where
  "unique_value (JArray xs) = map_option JArray (unique_list xs)"
| "unique_value (JObject kvs) = map_option JObject (unique_fields [] kvs)"
| "unique_value v = Some v"
| "unique_list [] = Some []"
| "unique_list (x # xs) = Option.bind (unique_value x) (\<lambda>y. map_option ((#) y) (unique_list xs))"
| "unique_fields acc [] = Some acc"
| "unique_fields acc ((k, v) # kvs) =
     (if has_field k acc then None
      else Option.bind (unique_value v) (\<lambda>w. unique_fields (insert_field k w acc) kvs))"

section \<open>Deserialising the fields\<close>

text \<open>A derived struct reads an object by field name and an array by position.\<close>

definition diagnostic_details_of :: "json \<Rightarrow> json option option" where
  "diagnostic_details_of v = (if is_object v then Some (Some v) else None)"

definition rpc_diagnostic_of :: "json \<Rightarrow> rpc_diagnostic option" where
  "rpc_diagnostic_of v =
     (case v of
        JObject kvs \<Rightarrow>
          Option.bind (req_field as_str ''code'' kvs) (\<lambda>code.
          Option.bind (req_field as_str ''message'' kvs) (\<lambda>message.
          Option.bind (case field ''details'' kvs of None \<Rightarrow> Some None
                         | Some d \<Rightarrow> diagnostic_details_of d) (\<lambda>details.
            Some \<lparr>rpc_code = code, rpc_message = message, rpc_details = details\<rparr>)))
      | JArray [JString code, JString message] \<Rightarrow>
          Some \<lparr>rpc_code = code, rpc_message = message, rpc_details = None\<rparr>
      | JArray [JString code, JString message, d] \<Rightarrow>
          map_option (\<lambda>details. \<lparr>rpc_code = code, rpc_message = message, rpc_details = details\<rparr>)
            (diagnostic_details_of d)
      | _ \<Rightarrow> None)"

definition rpc_diagnostics_of :: "json \<Rightarrow> rpc_diagnostic list option" where
  "rpc_diagnostics_of v = (case v of JArray xs \<Rightarrow> those (map rpc_diagnostic_of xs) | _ \<Rightarrow> None)"

record raw_frame =
  raw_id :: string
  raw_kind :: string
  raw_protocol_min :: "nat option"
  raw_protocol_max :: "nat option"
  raw_protocol :: "nat option"
  raw_styrn_version :: "string option"
  raw_machine_id :: "string option"
  raw_name :: "string option"
  raw_manifest_schema_version :: "nat option"
  raw_method :: "string option"
  raw_params :: "json option"
  raw_ok :: "bool option"
  raw_data :: "json option"
  raw_errors :: "rpc_diagnostic list option"

definition raw_frame_of :: "fields \<Rightarrow> raw_frame option" where
  "raw_frame_of kvs =
     Option.bind (req_field as_str ''id'' kvs) (\<lambda>i.
     Option.bind (req_field as_str ''type'' kvs) (\<lambda>kind.
     Option.bind (opt_field (as_unsigned u32_max) ''protocol_min'' kvs) (\<lambda>pmin.
     Option.bind (opt_field (as_unsigned u32_max) ''protocol_max'' kvs) (\<lambda>pmax.
     Option.bind (opt_field (as_unsigned u32_max) ''protocol'' kvs) (\<lambda>protocol.
     Option.bind (opt_field as_str ''styrn_version'' kvs) (\<lambda>version.
     Option.bind (opt_field as_str ''machine_id'' kvs) (\<lambda>machine.
     Option.bind (opt_field as_str ''name'' kvs) (\<lambda>name.
     Option.bind (opt_field (as_unsigned u64_max) ''manifest_schema_version'' kvs) (\<lambda>schema.
     Option.bind (opt_field as_str ''method'' kvs) (\<lambda>method.
     Option.bind (opt_field Some ''params'' kvs) (\<lambda>params.
     Option.bind (opt_field as_bool ''ok'' kvs) (\<lambda>ok.
     Option.bind (opt_field Some ''data'' kvs) (\<lambda>data.
     Option.bind (opt_field rpc_diagnostics_of ''errors'' kvs) (\<lambda>errors.
       Some \<lparr>raw_id = i, raw_kind = kind, raw_protocol_min = pmin, raw_protocol_max = pmax,
             raw_protocol = protocol, raw_styrn_version = version, raw_machine_id = machine,
             raw_name = name, raw_manifest_schema_version = schema, raw_method = method,
             raw_params = params, raw_ok = ok, raw_data = data, raw_errors = errors\<rparr>))))))))))))))"

record raw_frame_presence =
  has_protocol_min :: bool
  has_protocol_max :: bool
  has_protocol :: bool
  has_styrn_version :: bool
  has_machine_id :: bool
  has_name :: bool
  has_manifest_schema_version :: bool
  has_method :: bool
  has_params :: bool
  has_ok :: bool
  has_data :: bool
  has_errors :: bool

definition from_object :: "fields \<Rightarrow> raw_frame_presence" where
  "from_object kvs =
     \<lparr>has_protocol_min = has_field ''protocol_min'' kvs, has_protocol_max = has_field ''protocol_max'' kvs,
      has_protocol = has_field ''protocol'' kvs, has_styrn_version = has_field ''styrn_version'' kvs,
      has_machine_id = has_field ''machine_id'' kvs, has_name = has_field ''name'' kvs,
      has_manifest_schema_version = has_field ''manifest_schema_version'' kvs,
      has_method = has_field ''method'' kvs, has_params = has_field ''params'' kvs,
      has_ok = has_field ''ok'' kvs, has_data = has_field ''data'' kvs,
      has_errors = has_field ''errors'' kvs\<rparr>"

section \<open>Decoding one frame\<close>

definition validate_controller_id :: "string \<Rightarrow> frame_error + unit" where
  "validate_controller_id i =
     and_then (ok_or (filter_opt (\<lambda>digits. digits \<noteq> [] \<and> \<not> starts_with ''0'' digits)
                        (strip_prefix ''c'' i)) FrameInvalidId) (\<lambda>digits.
       if list_all is_ascii_digit digits then Inr () else Inl FrameInvalidId)"

definition valid_diagnostic :: "rpc_diagnostic \<Rightarrow> bool" where
  "valid_diagnostic d \<longleftrightarrow>
     rpc_code d \<noteq> [] \<and> length (rpc_code d) \<le> max_method_bytes \<and>
     rpc_message d \<noteq> [] \<and> length (rpc_message d) \<le> max_diagnostic_bytes \<and>
     is_none_or is_object (rpc_details d)"

definition valid_diagnostics :: "rpc_diagnostic list \<Rightarrow> bool" where
  "valid_diagnostics ds = list_all valid_diagnostic ds"

definition canonical_machine_id :: "crates \<Rightarrow> string option \<Rightarrow> uuid option" where
  "canonical_machine_id C text =
     filter_opt (is_uuid_v7 C)
       (filter_opt (\<lambda>u. uuid_text C u = (case text of None \<Rightarrow> [] | Some t \<Rightarrow> t))
          (Option.bind text (uuid_parse C)))"

definition decode_hello :: "crates \<Rightarrow> raw_frame \<Rightarrow> raw_frame_presence \<Rightarrow> frame_error + frame" where
  "decode_hello C raw p =
     (if raw_id raw \<noteq> ''hello'' \<or> has_method p \<or> has_params p \<or> has_ok p \<or> has_data p \<or> has_errors p
      then Inl FrameInvalidJson
      else and_then (ok_or (filter_opt (\<lambda>v. v \<noteq> [] \<and> length v \<le> max_version_bytes)
                              (raw_styrn_version raw)) FrameInvalidJson) (\<lambda>version.
        case (raw_protocol_min raw, raw_protocol_max raw, raw_protocol raw) of
          (Some pmin, Some pmax, None) \<Rightarrow>
            if 0 < pmin \<and> pmin \<le> pmax \<and> \<not> has_protocol p then
              and_then (ok_or (canonical_machine_id C (raw_machine_id raw)) FrameInvalidJson) (\<lambda>machine.
              and_then (ok_or (filter_opt (\<lambda>v. v \<noteq> [] \<and> length v \<le> max_name_bytes)
                                 (raw_name raw)) FrameInvalidJson) (\<lambda>name.
              and_then (ok_or (raw_manifest_schema_version raw) FrameInvalidJson) (\<lambda>schema.
                Inr (ServerHelloFrame
                  \<lparr>hello_protocol_min = pmin, hello_protocol_max = pmax,
                   hello_styrn_version = version, hello_machine_id = machine, hello_name = name,
                   hello_manifest_schema_version = schema\<rparr>))))
            else Inl FrameInvalidJson
        | (None, None, Some protocol) \<Rightarrow>
            if 0 < protocol \<and> \<not> has_protocol_min p \<and> \<not> has_protocol_max p \<and> \<not> has_machine_id p
               \<and> \<not> has_name p \<and> \<not> has_manifest_schema_version p
            then Inr (ClientHelloFrame \<lparr>sel_protocol = protocol, sel_styrn_version = version\<rparr>)
            else Inl FrameInvalidJson
        | _ \<Rightarrow> Inl FrameInvalidJson))"

definition has_hello_fields :: "raw_frame_presence \<Rightarrow> bool" where
  "has_hello_fields p \<longleftrightarrow>
     has_protocol_min p \<or> has_protocol_max p \<or> has_protocol p \<or> has_styrn_version p \<or>
     has_machine_id p \<or> has_name p \<or> has_manifest_schema_version p"

definition decode_request :: "raw_frame \<Rightarrow> raw_frame_presence \<Rightarrow> frame_error + frame" where
  "decode_request raw p =
     and_then (validate_controller_id (raw_id raw)) (\<lambda>_.
       if has_hello_fields p \<or> has_ok p \<or> has_data p \<or> has_errors p then Inl FrameInvalidJson
       else and_then (ok_or (filter_opt (\<lambda>v. v \<noteq> [] \<and> length v \<le> max_method_bytes)
                               (raw_method raw)) FrameInvalidJson) (\<lambda>method.
            and_then (ok_or (filter_opt is_object (raw_params raw)) FrameInvalidJson) (\<lambda>params.
              Inr (RequestFrame (raw_id raw) method params))))"

definition decode_response :: "raw_frame \<Rightarrow> raw_frame_presence \<Rightarrow> frame_error + frame" where
  "decode_response raw p =
     and_then (validate_controller_id (raw_id raw)) (\<lambda>_.
       if has_hello_fields p \<or> has_method p \<or> has_params p then Inl FrameInvalidJson
       else and_then (ok_or (raw_ok raw) FrameInvalidJson) (\<lambda>ok.
         let errors = (case raw_errors raw of None \<Rightarrow> [] | Some es \<Rightarrow> es)
         in if ok then
              (if raw_data raw = None \<or> has_errors p then Inl FrameInvalidJson
               else Inr (ResponseFrame (raw_id raw) ok (raw_data raw) errors))
            else if has_data p \<or> errors = [] \<or> \<not> valid_diagnostics errors then Inl FrameInvalidJson
            else Inr (ResponseFrame (raw_id raw) ok (raw_data raw) errors)))"

definition decode_error :: "raw_frame \<Rightarrow> raw_frame_presence \<Rightarrow> frame_error + frame" where
  "decode_error raw p =
     (if has_hello_fields p \<or> has_method p \<or> has_params p \<or> has_ok p \<or> has_data p
      then Inl FrameInvalidJson
      else and_then (if raw_id raw \<noteq> ''hello'' then validate_controller_id (raw_id raw) else Inr ()) (\<lambda>_.
           and_then (ok_or (filter_opt (\<lambda>es. es \<noteq> [] \<and> valid_diagnostics es) (raw_errors raw))
                       FrameInvalidJson) (\<lambda>errors.
             Inr (ErrorFrame (raw_id raw) errors))))"

definition decode_value :: "crates \<Rightarrow> json \<Rightarrow> frame_error + frame" where
  "decode_value C tree =
     and_then (ok_or (unique_value tree) FrameInvalidJson) (\<lambda>unique.
     and_then (case unique of JObject kvs \<Rightarrow> Inr kvs | _ \<Rightarrow> Inl FrameInvalidJson) (\<lambda>kvs.
     and_then (ok_or (Option.bind (field ''type'' kvs) as_str) FrameInvalidJson) (\<lambda>kind.
       if kind \<notin> {''hello'', ''request'', ''response'', ''error''} then Inl FrameUnsupportedType
       else and_then (ok_or (raw_frame_of kvs) FrameInvalidJson) (\<lambda>raw.
         let p = from_object kvs
         in if max_id_bytes < length (raw_id raw) then Inl FrameInvalidId
            else if raw_kind raw = ''hello'' then decode_hello C raw p
            else if raw_kind raw = ''request'' then decode_request raw p
            else if raw_kind raw = ''response'' then decode_response raw p
            else decode_error raw p))))"

definition decode :: "crates \<Rightarrow> string \<Rightarrow> frame_error + frame" where
  "decode C text = and_then (ok_or (json_parse C text) FrameInvalidJson) (decode_value C)"

section \<open>Encoding one frame\<close>

definition rpc_diagnostic_json :: "rpc_diagnostic \<Rightarrow> json" where
  "rpc_diagnostic_json d =
     JObject ([(''code'', JString (rpc_code d)), (''message'', JString (rpc_message d))] @
              (case rpc_details d of None \<Rightarrow> [] | Some v \<Rightarrow> [(''details'', v)]))"

definition errors_json :: "rpc_diagnostic list \<Rightarrow> json" where
  "errors_json ds = JArray (map rpc_diagnostic_json ds)"

primrec frame_json :: "crates \<Rightarrow> frame \<Rightarrow> json" where
  "frame_json C (ServerHelloFrame hello) =
     JObject [(''id'', JString ''hello''), (''type'', JString ''hello''),
              (''protocol_min'', JInt (int (hello_protocol_min hello))),
              (''protocol_max'', JInt (int (hello_protocol_max hello))),
              (''styrn_version'', JString (hello_styrn_version hello)),
              (''machine_id'', JString (uuid_text C (hello_machine_id hello))),
              (''name'', JString (hello_name hello)),
              (''manifest_schema_version'', JInt (int (hello_manifest_schema_version hello)))]"
| "frame_json C (ClientHelloFrame hello) =
     JObject [(''id'', JString ''hello''), (''type'', JString ''hello''),
              (''protocol'', JInt (int (sel_protocol hello))),
              (''styrn_version'', JString (sel_styrn_version hello))]"
| "frame_json C (RequestFrame i method params) =
     JObject [(''id'', JString i), (''type'', JString ''request''),
              (''method'', JString method), (''params'', params)]"
| "frame_json C (ResponseFrame i ok data errors) =
     JObject [(''id'', JString i), (''type'', JString ''response''), (''ok'', JBool ok),
              (if ok then (''data'', case data of None \<Rightarrow> JNull | Some v \<Rightarrow> v)
               else (''errors'', errors_json errors))]"
| "frame_json C (ErrorFrame i errors) =
     JObject [(''id'', JString i), (''type'', JString ''error''), (''errors'', errors_json errors)]"

section \<open>Lines\<close>

text \<open>
  The input is the bytes still to come and whether the stream then fails instead of ending.
  A read takes at most \<open>max_frame_bytes + 2\<close> bytes. The output accepts \<open>sink_room\<close> more
  bytes before the peer closes it, \<open>None\<close> for as many as needed.
\<close>

record source =
  source_bytes :: string
  source_broken :: bool

record sink =
  written :: string
  sink_room :: "nat option"

definition line_feed :: char where
  "line_feed = CHR 0x0A"

text \<open>\<open>read_until\<close> on a bounded view of the input.\<close>

definition read_until_newline :: "nat \<Rightarrow> source \<Rightarrow> (frame_error + string) \<times> source" where
  "read_until_newline limit inp =
     (let window = take limit (source_bytes inp);
          body = takeWhile (\<lambda>c. c \<noteq> line_feed) window
      in if length body < length window
         then (Inr (body @ [line_feed]), inp\<lparr>source_bytes := drop (Suc (length body)) (source_bytes inp)\<rparr>)
         else if length window < limit \<and> source_broken inp
         then (Inl FrameIo, inp\<lparr>source_bytes := []\<rparr>)
         else (Inr window, inp\<lparr>source_bytes := drop limit (source_bytes inp)\<rparr>))"

definition frame_read :: "crates \<Rightarrow> source \<Rightarrow> (frame_error + frame option) \<times> source" where
  "frame_read C inp =
     (case read_until_newline (max_frame_bytes + 2) inp of
        (Inl e, rest) \<Rightarrow> (Inl e, rest)
      | (Inr bytes, rest) \<Rightarrow>
          ((if bytes = [] then Inr None
            else if last bytes \<noteq> line_feed then
              Inl (if max_frame_bytes < length bytes then FrameOversize else FrameTruncated)
            else if max_frame_bytes < length (butlast bytes) then Inl FrameOversize
            else if \<not> utf8_valid (butlast bytes) then Inl FrameInvalidUtf8
            else and_then (decode C (butlast bytes)) (\<lambda>frame. Inr (Some frame))), rest))"

definition write_all :: "string \<Rightarrow> sink \<Rightarrow> (frame_error + unit) \<times> sink" where
  "write_all bytes out =
     (case sink_room out of
        None \<Rightarrow> (Inr (), out\<lparr>written := written out @ bytes\<rparr>)
      | Some room \<Rightarrow>
          if length bytes \<le> room
          then (Inr (), out\<lparr>written := written out @ bytes, sink_room := Some (room - length bytes)\<rparr>)
          else (Inl FrameIo, out\<lparr>written := written out @ take room bytes, sink_room := Some 0\<rparr>))"

definition frame_write :: "crates \<Rightarrow> frame \<Rightarrow> sink \<Rightarrow> (frame_error + unit) \<times> sink" where
  "frame_write C frame out =
     (let bytes = json_text C (frame_json C frame)
      in if max_frame_bytes < length bytes then (Inl FrameOversize, out)
         else (case write_all bytes out of
                 (Inl e, out) \<Rightarrow> (Inl e, out)
               | (Inr _, out) \<Rightarrow> write_all [line_feed] out))"

section \<open>The duplicate check against its specification\<close>

fun repeat_free :: "json \<Rightarrow> bool" where
  "repeat_free (JArray xs) = list_all repeat_free xs"
| "repeat_free (JObject kvs) = (distinct (map fst kvs) \<and> list_all (\<lambda>kv. repeat_free (snd kv)) kvs)"
| "repeat_free _ = True"

fun canonical :: "json \<Rightarrow> json" where
  "canonical (JArray xs) = JArray (map canonical xs)"
| "canonical (JObject kvs) = JObject (object_of (map (\<lambda>kv. (fst kv, canonical (snd kv))) kvs))"
| "canonical v = v"

definition insert_all :: "fields \<Rightarrow> fields \<Rightarrow> fields" where
  "insert_all acc kvs = foldl (\<lambda>acc (k, v). insert_field k v acc) acc kvs"

lemma insert_all_simps [simp]:
  "insert_all acc [] = acc" "insert_all acc ((k, v) # kvs) = insert_all (insert_field k v acc) kvs"
  by (simp_all add: insert_all_def)

lemma insert_all_object_of: "insert_all [] kvs = object_of kvs"
  by (simp add: insert_all_def object_of_def)

lemma has_field_insert [simp]: "has_field j (insert_field k v acc) \<longleftrightarrow> j = k \<or> has_field j acc"
  by (simp add: has_field_def)

lemma unique_exact:
  "unique_value v = (if repeat_free v then Some (canonical v) else None)"
  "unique_list xs = (if list_all repeat_free xs then Some (map canonical xs) else None)"
  "unique_fields acc kvs =
     (if distinct (map fst kvs) \<and> (\<forall>k \<in> fst ` set kvs. \<not> has_field k acc) \<and>
         list_all (\<lambda>kv. repeat_free (snd kv)) kvs
      then Some (insert_all acc (map (\<lambda>kv. (fst kv, canonical (snd kv))) kvs)) else None)"
proof (induction v and xs and acc kvs rule: unique_value_unique_list_unique_fields.induct)
  case (2 kvs)
  then show ?case by (simp add: insert_all_object_of has_field_def field_def)
next
  case (7 acc k v kvs)
  show ?case
  proof (cases "has_field k acc")
    case True
    then show ?thesis by simp
  next
    case False
    note IH = 7(1) [OF False] 7(2) [OF False]
    show ?thesis
    proof (cases "repeat_free v")
      case True
      have uv: "unique_value v = Some (canonical v)" using IH(1) True by simp
      then have step: "unique_fields acc ((k, v) # kvs) =
          unique_fields (insert_field k (canonical v) acc) kvs" using False by simp
      have ih: "unique_fields (insert_field k (canonical v) acc) kvs =
        (if distinct (map fst kvs) \<and> (\<forall>j \<in> fst ` set kvs. \<not> has_field j (insert_field k (canonical v) acc)) \<and>
            list_all (\<lambda>kv. repeat_free (snd kv)) kvs
         then Some (insert_all (insert_field k (canonical v) acc)
                     (map (\<lambda>kv. (fst kv, canonical (snd kv))) kvs)) else None)"
        by (rule IH(2) [OF uv])
      have cond: "(\<forall>j \<in> fst ` set kvs. \<not> has_field j (insert_field k (canonical v) acc)) \<longleftrightarrow>
         k \<notin> fst ` set kvs \<and> (\<forall>j \<in> fst ` set kvs. \<not> has_field j acc)"
        by auto
      show ?thesis using False True unfolding step ih cond by auto
    next
      case F: False
      with False IH(1) show ?thesis by simp
    qed
  qed
qed simp_all

lemma repeat_free_wf: "wf_json v \<Longrightarrow> repeat_free v \<and> canonical v = v"
proof (induction v rule: canonical.induct)
  case (1 xs)
  then show ?case by (auto simp: list_all_iff intro: map_idI)
next
  case (2 kvs)
  have d: "distinct (map fst kvs)" and s: "sorted_fields kvs"
    using 2(2) by (auto simp: sorted_fields_def strict_sorted_iff)
  have "map (\<lambda>kv. (fst kv, canonical (snd kv))) kvs = kvs"
    using 2 by (intro map_idI) (auto simp: list_all_iff)
  with d s 2 show ?case by (auto simp: list_all_iff object_of_sorted)
qed simp_all

lemma wf_canonical: "wf_json (canonical v)"
proof (induction v rule: canonical.induct)
  case (2 kvs)
  have "list_all (\<lambda>kv. wf_json (snd kv)) (map (\<lambda>kv. (fst kv, canonical (snd kv))) kvs)"
    using 2 by (auto simp: list_all_iff)
  then show ?case unfolding canonical.simps by (rule wf_object_of)
qed (simp_all add: list_all_iff)

lemma unique_wf: "wf_json v \<Longrightarrow> unique_value v = Some v"
  by (simp add: unique_exact repeat_free_wf)

lemma unique_object:
  assumes "distinct (map fst kvs)" and "\<forall>kv \<in> set kvs. unique_value (snd kv) = Some (g (snd kv))"
  shows "unique_value (JObject kvs) = Some (JObject (object_of (map (\<lambda>kv. (fst kv, g (snd kv))) kvs)))"
proof -
  have "\<forall>kv \<in> set kvs. repeat_free (snd kv) \<and> canonical (snd kv) = g (snd kv)"
    using assms(2) by (auto simp: unique_exact split: if_splits)
  then show ?thesis using assms(1) by (simp add: unique_exact list_all_iff cong: map_cong)
qed

section \<open>Well-formed frames\<close>

definition controller_id :: "string \<Rightarrow> bool" where
  "controller_id i \<longleftrightarrow>
     (\<exists>digits. i = CHR ''c'' # digits \<and> digits \<noteq> [] \<and> hd digits \<noteq> CHR ''0'' \<and>
        list_all is_ascii_digit digits) \<and> length i \<le> max_id_bytes"

lemma validate_controller_id_iff:
  "validate_controller_id i = Inr () \<and> length i \<le> max_id_bytes \<longleftrightarrow> controller_id i"
proof -
  have "\<not> starts_with ''0'' d \<longleftrightarrow> hd d \<noteq> CHR ''0''" if "d \<noteq> []" for d
    using that by (cases d) auto
  then show ?thesis
    by (auto simp: validate_controller_id_def controller_id_def result_simps strip_prefix_Some_iff)
qed

definition wf_details :: "rpc_diagnostic \<Rightarrow> bool" where
  "wf_details d \<longleftrightarrow> is_none_or wf_json (rpc_details d)"

definition text_within :: "nat \<Rightarrow> string \<Rightarrow> bool" where
  "text_within n s \<longleftrightarrow> s \<noteq> [] \<and> length s \<le> n"

primrec valid_frame :: "crates \<Rightarrow> frame \<Rightarrow> bool" where
  "valid_frame C (ServerHelloFrame h) \<longleftrightarrow>
     0 < hello_protocol_min h \<and> hello_protocol_min h \<le> hello_protocol_max h \<and>
     hello_protocol_max h \<le> u32_max \<and> text_within max_version_bytes (hello_styrn_version h) \<and>
     is_uuid_v7 C (hello_machine_id h) \<and>
     uuid_parse C (uuid_text C (hello_machine_id h)) = Some (hello_machine_id h) \<and>
     text_within max_name_bytes (hello_name h) \<and> hello_manifest_schema_version h \<le> u64_max"
| "valid_frame C (ClientHelloFrame h) \<longleftrightarrow>
     0 < sel_protocol h \<and> sel_protocol h \<le> u32_max \<and> text_within max_version_bytes (sel_styrn_version h)"
| "valid_frame C (RequestFrame i method params) \<longleftrightarrow>
     controller_id i \<and> text_within max_method_bytes method \<and> is_object params \<and> wf_json params"
| "valid_frame C (ResponseFrame i ok data errors) \<longleftrightarrow>
     controller_id i \<and>
     (if ok then data \<noteq> None \<and> data \<noteq> Some JNull \<and> is_none_or wf_json data \<and> errors = []
      else data = None \<and> errors \<noteq> [] \<and> valid_diagnostics errors \<and> list_all wf_details errors)"
| "valid_frame C (ErrorFrame i errors) \<longleftrightarrow>
     (i = ''hello'' \<or> controller_id i) \<and> errors \<noteq> [] \<and> valid_diagnostics errors \<and>
     list_all wf_details errors"

section \<open>Every decoded frame is well formed\<close>

lemma wf_field: "wf_json (JObject kvs) \<Longrightarrow> field k kvs = Some v \<Longrightarrow> wf_json v"
  by (auto simp: field_def list_all_iff dest!: map_of_SomeD)

lemma opt_field_Some_SomeD:
  "opt_field conv k kvs = Some (Some x) \<Longrightarrow> \<exists>v. field k kvs = Some v \<and> v \<noteq> JNull \<and> conv v = Some x"
  by (auto simp: opt_field_def split: option.splits json.splits)

lemma as_unsigned_bound: "as_unsigned m v = Some n \<Longrightarrow> n \<le> m"
  by (auto simp: as_unsigned_def split: json.splits if_splits)

lemma diagnostic_of_wf:
  assumes "wf_json v" "rpc_diagnostic_of v = Some d"
  shows "wf_details d"
proof (cases v)
  case (JObject kvs)
  then obtain details where d: "rpc_details d = details"
    "(case field ''details'' kvs of None \<Rightarrow> Some None | Some d \<Rightarrow> diagnostic_details_of d) = Some details"
    using assms(2) by (auto simp: rpc_diagnostic_of_def bind_eq_Some_conv)
  show ?thesis
  proof (cases "field ''details'' kvs")
    case None
    with d show ?thesis by (auto simp: wf_details_def)
  next
    case (Some w)
    with wf_field assms(1) JObject have "wf_json w" by blast
    moreover have "rpc_details d = Some w"
      using d Some by (simp add: diagnostic_details_of_def split: if_splits)
    ultimately show ?thesis by (simp add: wf_details_def)
  qed
next
  case (JArray xs)
  with assms show ?thesis
    by (auto simp: rpc_diagnostic_of_def wf_details_def diagnostic_details_of_def
        split: list.splits json.splits if_splits)
qed (use assms in \<open>auto simp: rpc_diagnostic_of_def\<close>)

lemma those_Some_list_all2: "those ys = Some xs \<Longrightarrow> list_all2 (\<lambda>y x. y = Some x) ys xs"
  by (induction ys arbitrary: xs) (auto split: option.splits)

lemma diagnostics_of_wf:
  assumes "wf_json v" "rpc_diagnostics_of v = Some ds"
  shows "list_all wf_details ds"
proof -
  obtain xs where v: "v = JArray xs" "those (map rpc_diagnostic_of xs) = Some ds"
    using assms(2) by (auto simp: rpc_diagnostics_of_def split: json.splits)
  have "list_all2 (\<lambda>y x. y = Some x) (map rpc_diagnostic_of xs) ds"
    by (rule those_Some_list_all2) (rule v(2))
  then have "list_all2 (\<lambda>v d. rpc_diagnostic_of v = Some d) xs ds"
    by (simp add: list_all2_map1)
  moreover have "list_all wf_json xs" using v(1) assms(1) by simp
  ultimately show ?thesis
    by (induction rule: list_all2_induct) (auto intro: diagnostic_of_wf)
qed

definition raw_bounded :: "raw_frame \<Rightarrow> bool" where
  "raw_bounded raw \<longleftrightarrow>
     is_none_or (\<lambda>n. n \<le> u32_max) (raw_protocol_max raw) \<and>
     is_none_or (\<lambda>n. n \<le> u32_max) (raw_protocol raw) \<and>
     is_none_or (\<lambda>n. n \<le> u64_max) (raw_manifest_schema_version raw) \<and>
     is_none_or wf_json (raw_params raw) \<and>
     is_none_or (\<lambda>v. v \<noteq> JNull \<and> wf_json v) (raw_data raw) \<and>
     is_none_or (list_all wf_details) (raw_errors raw)"

lemma is_none_orI: "(\<And>y. x = Some y \<Longrightarrow> P y) \<Longrightarrow> is_none_or P x"
  by (cases x) auto

lemma raw_frame_of_bounded:
  assumes wf: "wf_json (JObject kvs)" and raw: "raw_frame_of kvs = Some raw"
  shows "raw_bounded raw"
proof -
  have f: "opt_field (as_unsigned u32_max) ''protocol_max'' kvs = Some (raw_protocol_max raw)"
    "opt_field (as_unsigned u32_max) ''protocol'' kvs = Some (raw_protocol raw)"
    "opt_field (as_unsigned u64_max) ''manifest_schema_version'' kvs = Some (raw_manifest_schema_version raw)"
    "opt_field Some ''params'' kvs = Some (raw_params raw)"
    "opt_field Some ''data'' kvs = Some (raw_data raw)"
    "opt_field rpc_diagnostics_of ''errors'' kvs = Some (raw_errors raw)"
    using raw by (auto simp: raw_frame_of_def bind_eq_Some_conv)
  show ?thesis
    unfolding raw_bounded_def
  proof (intro conjI is_none_orI)
    fix n assume "raw_protocol_max raw = Some n"
    with f(1) show "n \<le> u32_max" using opt_field_Some_SomeD as_unsigned_bound by metis
  next
    fix n assume "raw_protocol raw = Some n"
    with f(2) show "n \<le> u32_max" using opt_field_Some_SomeD as_unsigned_bound by metis
  next
    fix n assume "raw_manifest_schema_version raw = Some n"
    with f(3) show "n \<le> u64_max" using opt_field_Some_SomeD as_unsigned_bound by metis
  next
    fix v assume "raw_params raw = Some v"
    with f(4) show "wf_json v" using opt_field_Some_SomeD wf_field [OF wf] by (metis option.inject)
  next
    fix v assume "raw_data raw = Some v"
    with f(5) show "v \<noteq> JNull" using opt_field_Some_SomeD by (metis option.inject)
  next
    fix v assume "raw_data raw = Some v"
    with f(5) show "wf_json v" using opt_field_Some_SomeD wf_field [OF wf] by (metis option.inject)
  next
    fix ds assume "raw_errors raw = Some ds"
    with f(6) obtain v where "field ''errors'' kvs = Some v" "rpc_diagnostics_of v = Some ds"
      using opt_field_Some_SomeD by metis
    then show "list_all wf_details ds" using diagnostics_of_wf wf_field [OF wf] by blast
  qed
qed

lemma canonical_machine_id_iff:
  "canonical_machine_id C text = Some u \<longleftrightarrow>
     text = Some (uuid_text C u) \<and> uuid_parse C (uuid_text C u) = Some u \<and> is_uuid_v7 C u"
  by (cases "text") (auto simp: canonical_machine_id_def)

lemma decode_hello_valid:
  assumes b: "raw_bounded raw" and d: "decode_hello C raw p = Inr f"
  shows "valid_frame C f"
proof -
  have ne: "\<not> (raw_id raw \<noteq> ''hello'' \<or> has_method p \<or> has_params p \<or> has_ok p \<or> has_data p \<or> has_errors p)"
    using d by (auto simp only: decode_hello_def split: if_splits)
  obtain version where v: "raw_styrn_version raw = Some version" "text_within max_version_bytes version"
    using d ne by (auto simp: decode_hello_def result_simps text_within_def)
  consider (server) pmin pmax where "raw_protocol_min raw = Some pmin" "raw_protocol_max raw = Some pmax"
      "raw_protocol raw = None"
    | (client) protocol where "raw_protocol_min raw = None" "raw_protocol_max raw = None"
      "raw_protocol raw = Some protocol"
    using d ne v by (cases "raw_protocol_min raw"; cases "raw_protocol_max raw"; cases "raw_protocol raw")
      (simp_all add: decode_hello_def result_simps)
  then show ?thesis
  proof cases
    case server
    then obtain machine name schema where
      f: "f = ServerHelloFrame \<lparr>hello_protocol_min = pmin, hello_protocol_max = pmax,
             hello_styrn_version = version, hello_machine_id = machine, hello_name = name,
             hello_manifest_schema_version = schema\<rparr>"
        "0 < pmin" "pmin \<le> pmax" "canonical_machine_id C (raw_machine_id raw) = Some machine"
        "text_within max_name_bytes name" "raw_manifest_schema_version raw = Some schema"
      using d ne v by (auto simp: decode_hello_def result_simps text_within_def split: if_splits)
    with b v server show ?thesis by (simp add: raw_bounded_def canonical_machine_id_iff)
  next
    case client
    then have "f = ClientHelloFrame \<lparr>sel_protocol = protocol, sel_styrn_version = version\<rparr>" "0 < protocol"
      using d ne v by (auto simp: decode_hello_def result_simps text_within_def split: if_splits)
    with b v client show ?thesis by (simp add: raw_bounded_def)
  qed
qed

lemma decode_request_valid:
  assumes "raw_bounded raw" "length (raw_id raw) \<le> max_id_bytes" "decode_request raw p = Inr f"
  shows "valid_frame C f"
  using assms
  by (auto simp: decode_request_def result_simps text_within_def raw_bounded_def
      simp flip: validate_controller_id_iff split: if_splits)

lemma decode_response_valid:
  assumes b: "raw_bounded raw" and i: "length (raw_id raw) \<le> max_id_bytes"
    and d: "decode_response raw p = Inr f"
    and p: "\<not> has_data p \<longrightarrow> raw_data raw = None" "\<not> has_errors p \<longrightarrow> raw_errors raw = None"
  shows "valid_frame C f"
proof -
  have v: "validate_controller_id (raw_id raw) = Inr ()"
    using d by (auto simp: decode_response_def result_simps)
  with i have c: "controller_id (raw_id raw)" using validate_controller_id_iff by blast
  obtain ok where ok: "raw_ok raw = Some ok"
    using d by (auto simp: decode_response_def result_simps split: if_splits)
  show ?thesis
  proof (cases ok)
    case True
    with d v ok have f: "f = ResponseFrame (raw_id raw) True (raw_data raw) []" "raw_data raw \<noteq> None"
      using p(2) by (simp_all add: decode_response_def split: if_splits)
    with b c show ?thesis by (cases "raw_data raw") (simp_all add: raw_bounded_def)
  next
    case False
    obtain es where es: "raw_errors raw = Some es"
      using d v ok False by (cases "raw_errors raw") (simp_all add: decode_response_def split: if_splits)
    then have f: "f = ResponseFrame (raw_id raw) False None es" "es \<noteq> []" "valid_diagnostics es"
      using d v ok p(1) False by (auto simp add: decode_response_def split: if_splits)
    note f = f es
    with b c show ?thesis by (simp add: raw_bounded_def)
  qed
qed

lemma decode_error_valid:
  assumes "raw_bounded raw" "length (raw_id raw) \<le> max_id_bytes" "decode_error raw p = Inr f"
  shows "valid_frame C f"
  using assms
  by (auto simp: decode_error_def result_simps raw_bounded_def
      simp flip: validate_controller_id_iff split: if_splits)

lemma decode_value_valid:
  assumes "decode_value C tree = Inr f"
  shows "valid_frame C f"
proof -
  obtain kvs where k: "unique_value tree = Some (JObject kvs)"
  proof (cases "unique_value tree")
    case None
    with assms show ?thesis by (simp add: decode_value_def)
  next
    case (Some u)
    with assms that show ?thesis by (cases u) (simp_all add: decode_value_def)
  qed
  then obtain raw where raw: "raw_frame_of kvs = Some raw" and i: "length (raw_id raw) \<le> max_id_bytes"
    and d: "decode_hello C raw (from_object kvs) = Inr f \<or> decode_request raw (from_object kvs) = Inr f
       \<or> decode_response raw (from_object kvs) = Inr f \<or> decode_error raw (from_object kvs) = Inr f"
    using assms
    by (auto simp: decode_value_def result_simps Let_def not_less split: if_splits)
  have "wf_json (JObject kvs)"
    using k wf_canonical [of tree] unique_exact(1) [of tree] by (metis option.inject option.distinct(1))
  then have b: "raw_bounded raw" using raw raw_frame_of_bounded by blast
  have "\<not> has_data (from_object kvs) \<longrightarrow> raw_data raw = None"
    "\<not> has_errors (from_object kvs) \<longrightarrow> raw_errors raw = None"
    using raw by (auto simp: raw_frame_of_def bind_eq_Some_conv from_object_def has_field_def)
  with b i d show ?thesis
    using decode_hello_valid decode_request_valid decode_response_valid decode_error_valid by blast
qed

section \<open>Every well-formed frame decodes from its encoding\<close>

text \<open>
  The visitor orders the fields of an object; \<open>keyed\<close> is a value whose repeated-field check
  yields it with its top-level fields ordered.
\<close>

definition keyed_diagnostic :: "rpc_diagnostic \<Rightarrow> json" where
  "keyed_diagnostic d = canonical (rpc_diagnostic_json d)"

lemma field_ordered: "distinct (map fst kvs) \<Longrightarrow> field k (object_of kvs) = map_of kvs k"
  by (rule field_object_of_distinct)

lemma diagnostic_unique:
  "wf_details d \<Longrightarrow> repeat_free (rpc_diagnostic_json d)"
  by (cases "rpc_details d") (auto simp: rpc_diagnostic_json_def wf_details_def repeat_free_wf)

lemma diagnostic_roundtrip:
  assumes "wf_details d" "valid_diagnostic d"
  shows "rpc_diagnostic_of (keyed_diagnostic d) = Some d"
proof (cases "rpc_details d")
  case None
  then have "keyed_diagnostic d = JObject (object_of
      [(''code'', JString (rpc_code d)), (''message'', JString (rpc_message d))])"
    by (simp add: keyed_diagnostic_def rpc_diagnostic_json_def)
  with None show ?thesis
    by (cases d) (simp add: rpc_diagnostic_of_def req_field_def field_ordered)
next
  case (Some v)
  then have v: "canonical v = v" "is_object v"
    using assms by (auto simp: wf_details_def repeat_free_wf valid_diagnostic_def)
  then have "keyed_diagnostic d = JObject (object_of
      [(''code'', JString (rpc_code d)), (''message'', JString (rpc_message d)), (''details'', v)])"
    using Some by (simp add: keyed_diagnostic_def rpc_diagnostic_json_def)
  with Some v show ?thesis
    by (cases d) (simp add: rpc_diagnostic_of_def req_field_def field_ordered diagnostic_details_of_def)
qed

lemma those_map_Some: "(\<And>x. x \<in> set xs \<Longrightarrow> f x = Some (g x)) \<Longrightarrow> those (map f xs) = Some (map g xs)"
  by (induction xs) auto

lemma errors_unique:
  "list_all wf_details ds \<Longrightarrow> unique_value (errors_json ds) = Some (JArray (map keyed_diagnostic ds))"
  by (simp add: errors_json_def unique_exact(1) keyed_diagnostic_def list_all_iff diagnostic_unique)

lemma errors_roundtrip:
  "list_all wf_details ds \<Longrightarrow> valid_diagnostics ds \<Longrightarrow>
     rpc_diagnostics_of (JArray (map keyed_diagnostic ds)) = Some ds"
  using those_map_Some [of ds "\<lambda>d. rpc_diagnostic_of (keyed_diagnostic d)" id]
  by (simp add: rpc_diagnostics_of_def comp_def diagnostic_roundtrip list_all_iff valid_diagnostics_def)

lemma controller_idD:
  "controller_id i \<Longrightarrow> validate_controller_id i = Inr () \<and> \<not> max_id_bytes < length i"
  using validate_controller_id_iff [of i] by simp

lemma hello_id_short: "\<not> max_id_bytes < length ''hello''"
  by (simp add: max_id_bytes_def)

lemma unique_literals:
  assumes "distinct (map fst kvs)" "\<forall>kv \<in> set kvs. unique_value (snd kv) = Some (snd kv)"
  shows "unique_value (JObject kvs) = Some (JObject (object_of kvs))"
  using unique_object [of kvs id] assms by simp

lemmas decode_simps =
  decode_value_def req_field_def opt_field_def has_field_def from_object_def raw_frame_of_def
  field_ordered Let_def has_hello_fields_def

lemma decode_server_hello:
  assumes "valid_frame C (ServerHelloFrame h)"
  shows "decode_value C (frame_json C (ServerHelloFrame h)) = Inr (ServerHelloFrame h)"
proof -
  let ?kvs = "[(''id'', JString ''hello''), (''type'', JString ''hello''),
              (''protocol_min'', JInt (int (hello_protocol_min h))),
              (''protocol_max'', JInt (int (hello_protocol_max h))),
              (''styrn_version'', JString (hello_styrn_version h)),
              (''machine_id'', JString (uuid_text C (hello_machine_id h))),
              (''name'', JString (hello_name h)),
              (''manifest_schema_version'', JInt (int (hello_manifest_schema_version h)))]"
  have u: "unique_value (JObject ?kvs) = Some (JObject (object_of ?kvs))"
    by (rule unique_literals) simp_all
  have m: "canonical_machine_id C (Some (uuid_text C (hello_machine_id h))) = Some (hello_machine_id h)"
    using assms by (simp add: canonical_machine_id_iff)
  have o: "ok_or (filter_opt (\<lambda>v. v \<noteq> [] \<and> length v \<le> max_version_bytes) (Some (hello_styrn_version h))) e
      = Inr (hello_styrn_version h)"
    "ok_or (filter_opt (\<lambda>v. v \<noteq> [] \<and> length v \<le> max_name_bytes) (Some (hello_name h))) e
      = Inr (hello_name h)" for e :: frame_error
    using assms by (simp_all add: filter_opt_def text_within_def)
  show ?thesis
    using assms u m o hello_id_short
    by (simp add: decode_simps decode_hello_def)
qed

lemma decode_client_hello:
  assumes "valid_frame C (ClientHelloFrame h)"
  shows "decode_value C (frame_json C (ClientHelloFrame h)) = Inr (ClientHelloFrame h)"
proof -
  let ?kvs = "[(''id'', JString ''hello''), (''type'', JString ''hello''),
              (''protocol'', JInt (int (sel_protocol h))),
              (''styrn_version'', JString (sel_styrn_version h))]"
  have u: "unique_value (JObject ?kvs) = Some (JObject (object_of ?kvs))"
    by (rule unique_literals) simp_all
  have o: "ok_or (filter_opt (\<lambda>v. v \<noteq> [] \<and> length v \<le> max_version_bytes) (Some (sel_styrn_version h))) e
      = Inr (sel_styrn_version h)" for e :: frame_error
    using assms by (simp add: filter_opt_def text_within_def)
  show ?thesis
    using assms u o hello_id_short by (simp add: decode_simps decode_hello_def)
qed

lemma object_not_null: "is_object v \<Longrightarrow> v \<noteq> JNull"
  by auto

lemma opt_field_value:
  "field k kvs = Some v \<Longrightarrow> v \<noteq> JNull \<Longrightarrow> opt_field Some k kvs = Some (Some v)"
  by (simp add: opt_field_present)

lemma decode_request_frame:
  assumes "valid_frame C (RequestFrame i method params)"
  shows "decode_value C (frame_json C (RequestFrame i method params)) = Inr (RequestFrame i method params)"
proof -
  let ?kvs = "[(''id'', JString i), (''type'', JString ''request''),
              (''method'', JString method), (''params'', params)]"
  have u: "unique_value (JObject ?kvs) = Some (JObject (object_of ?kvs))"
    using assms by (intro unique_literals) (simp_all add: unique_wf)
  obtain pkvs where p: "params = JObject pkvs" using assms by (auto simp: is_object_iff)
  have o: "ok_or (filter_opt (\<lambda>v. v \<noteq> [] \<and> length v \<le> max_method_bytes) (Some method)) e = Inr method"
    "ok_or (filter_opt is_object (Some params)) e = Inr params" for e :: frame_error
    using assms by (simp_all add: filter_opt_def text_within_def)
  show ?thesis
    using u o p controller_idD [of i] assms
    by (simp add: decode_simps decode_request_def)
qed

lemma decode_ok_response:
  assumes "valid_frame C (ResponseFrame i True data errors)"
  shows "decode_value C (frame_json C (ResponseFrame i True data errors)) = Inr (ResponseFrame i True data errors)"
proof -
  obtain v where v: "data = Some v" "v \<noteq> JNull" "wf_json v" "errors = []"
    using assms by (cases data) simp_all
  let ?kvs = "[(''id'', JString i), (''type'', JString ''response''), (''ok'', JBool True), (''data'', v)]"
  have u: "unique_value (JObject ?kvs) = Some (JObject (object_of ?kvs))"
    using v by (intro unique_literals) (simp_all add: unique_wf)
  have d: "opt_field Some ''data'' (object_of ?kvs) = Some (Some v)"
    using v(2) by (intro opt_field_value) (simp_all add: field_ordered)
  have o: "opt_field as_bool ''ok'' (object_of ?kvs) = Some (Some True)"
    by (simp add: opt_field_def field_ordered)
  show ?thesis
    using u v controller_idD [of i] assms d o
    by (simp add: decode_value_def raw_frame_of_def req_field_def field_ordered from_object_def
        has_field_def Let_def has_hello_fields_def decode_response_def)
qed

lemma decode_failed_response:
  assumes "valid_frame C (ResponseFrame i False data errors)"
  shows "decode_value C (frame_json C (ResponseFrame i False data errors)) = Inr (ResponseFrame i False data errors)"
proof -
  have v: "data = None" "errors \<noteq> []" "valid_diagnostics errors" "list_all wf_details errors"
    using assms by auto
  let ?keyed = "JArray (map keyed_diagnostic errors)"
  let ?kvs = "[(''id'', JString i), (''type'', JString ''response''), (''ok'', JBool False), (''errors'', ?keyed)]"
  have u: "unique_value (frame_json C (ResponseFrame i False data errors)) = Some (JObject (object_of ?kvs))"
    using unique_object [of "[(''id'', JString i), (''type'', JString ''response''), (''ok'', JBool False),
        (''errors'', errors_json errors)]" "\<lambda>v. if v = errors_json errors then ?keyed else v"]
      errors_unique [OF v(4)] by (simp add: errors_json_def)
  show ?thesis
    using u v controller_idD [of i] assms errors_roundtrip [OF v(4,3)]
    by (simp add: decode_simps decode_response_def)
qed

lemma decode_error_frame:
  assumes "valid_frame C (ErrorFrame i errors)"
  shows "decode_value C (frame_json C (ErrorFrame i errors)) = Inr (ErrorFrame i errors)"
proof -
  have v: "errors \<noteq> []" "valid_diagnostics errors" "list_all wf_details errors"
    using assms by auto
  let ?keyed = "JArray (map keyed_diagnostic errors)"
  let ?kvs = "[(''id'', JString i), (''type'', JString ''error''), (''errors'', ?keyed)]"
  have u: "unique_value (frame_json C (ErrorFrame i errors)) = Some (JObject (object_of ?kvs))"
    using unique_object [of "[(''id'', JString i), (''type'', JString ''error''),
        (''errors'', errors_json errors)]" "\<lambda>v. if v = errors_json errors then ?keyed else v"]
      errors_unique [OF v(3)] by (simp add: errors_json_def)
  have i: "(if i \<noteq> ''hello'' then validate_controller_id i else Inr ()) = Inr ()" "\<not> max_id_bytes < length i"
    using controller_idD [of i] assms hello_id_short by auto
  have o: "ok_or (filter_opt (\<lambda>es. es \<noteq> [] \<and> valid_diagnostics es) (Some errors)) e = Inr errors"
    for e :: frame_error using v by (simp add: filter_opt_def)
  show ?thesis
  proof (cases "i = ''hello''")
    case True
    with u v i o errors_roundtrip [OF v(3,2)] show ?thesis
      by (simp add: decode_simps decode_error_def)
  next
    case False
    with i have "validate_controller_id i = Inr ()" by simp
    with False u v i o errors_roundtrip [OF v(3,2)] show ?thesis
      by (simp add: decode_simps decode_error_def)
  qed
qed

lemma decode_value_encode: "valid_frame C f \<Longrightarrow> decode_value C (frame_json C f) = Inr f"
proof (cases f)
  case (ResponseFrame i ok data errors)
  assume "valid_frame C f"
  with ResponseFrame show ?thesis by (cases ok) (simp_all only: decode_ok_response decode_failed_response)
qed (simp_all only: decode_server_hello decode_client_hello decode_request_frame decode_error_frame)

section \<open>Line protocols\<close>

text \<open>
  Reading values from lines, for any decoder and any limit: \<open>frame_read\<close> is the instance with
  the frame decoder.
\<close>

definition read_value ::
  "(string \<Rightarrow> frame_error + 'a) \<Rightarrow> nat \<Rightarrow> source \<Rightarrow> (frame_error + 'a option) \<times> source" where
  "read_value dec limit inp =
     (case read_until_newline (limit + 2) inp of
        (Inl e, rest) \<Rightarrow> (Inl e, rest)
      | (Inr bytes, rest) \<Rightarrow>
          ((if bytes = [] then Inr None
            else if last bytes \<noteq> line_feed then
              Inl (if limit < length bytes then FrameOversize else FrameTruncated)
            else if limit < length (butlast bytes) then Inl FrameOversize
            else and_then (dec (butlast bytes)) (\<lambda>x. Inr (Some x))), rest))"

fun read_values ::
  "(source \<Rightarrow> (frame_error + 'a option) \<times> source) \<Rightarrow> nat \<Rightarrow> source \<Rightarrow> (frame_error + 'a list) \<times> source"
where
  "read_values reader 0 inp = (Inr [], inp)"
| "read_values reader (Suc n) inp =
     (case reader inp of
        (Inr (Some x), rest) \<Rightarrow>
          (case read_values reader n rest of
             (Inr xs, rest) \<Rightarrow> (Inr (x # xs), rest) | (Inl e, rest) \<Rightarrow> (Inl e, rest))
      | (Inr None, rest) \<Rightarrow> (Inr [], rest)
      | (Inl e, rest) \<Rightarrow> (Inl e, rest))"

definition decode_line :: "crates \<Rightarrow> string \<Rightarrow> frame_error + frame" where
  "decode_line C bytes = (if utf8_valid bytes then decode C bytes else Inl FrameInvalidUtf8)"

lemma frame_read_value: "frame_read C = read_value (decode_line C) max_frame_bytes"
  by (rule ext) (simp add: frame_read_def read_value_def decode_line_def split: prod.splits sum.splits)

text \<open>
  What a reader and a writer of lines agree on: encoded values are single lines of bounded
  length that decode to themselves. This is enough for a stream of written values to be read
  back one by one, whatever follows them.
\<close>

locale line_codec =
  fixes enc :: "'a \<Rightarrow> string"
    and dec :: "string \<Rightarrow> frame_error + 'a"
    and ok :: "'a \<Rightarrow> bool"
    and limit :: nat
  assumes one_line: "ok x \<Longrightarrow> line_feed \<notin> set (enc x)"
    and bounded: "ok x \<Longrightarrow> length (enc x) \<le> limit"
    and decodes: "ok x \<Longrightarrow> dec (enc x) = Inr x"
begin

lemma read_line_exact:
  assumes "line_feed \<notin> set l" "length l \<le> limit"
  shows "read_until_newline (limit + 2) \<lparr>source_bytes = l @ line_feed # rest, source_broken = b\<rparr>
       = (Inr (l @ [line_feed]), \<lparr>source_bytes = rest, source_broken = b\<rparr>)"
proof -
  have "takeWhile (\<lambda>c. c \<noteq> line_feed) (l @ line_feed # take (limit + 1 - length l) rest) = l"
    using assms(1) by (metis (mono_tags, lifting) takeWhile_append2 takeWhile.simps(2) append_Nil2)
  moreover have "take (limit + 2) (l @ line_feed # rest) = l @ line_feed # take (limit + 1 - length l) rest"
    using assms(2) by (simp add: take_Cons' Suc_diff_le)
  ultimately show ?thesis by (simp add: read_until_newline_def Let_def)
qed

lemma read_written:
  assumes "ok x"
  shows "read_value dec limit \<lparr>source_bytes = enc x @ line_feed # rest, source_broken = b\<rparr>
       = (Inr (Some x), \<lparr>source_bytes = rest, source_broken = b\<rparr>)"
  unfolding read_value_def read_line_exact [OF one_line [OF assms] bounded [OF assms]]
  using bounded [OF assms] decodes [OF assms] by simp

lemma read_all_written:
  "list_all ok xs \<Longrightarrow>
     read_values (read_value dec limit) (length xs)
         \<lparr>source_bytes = concat (map (\<lambda>x. enc x @ [line_feed]) xs) @ rest, source_broken = b\<rparr>
       = (Inr xs, \<lparr>source_bytes = rest, source_broken = b\<rparr>)"
  by (induction xs) (simp_all add: read_written)

end

text \<open>
  The frames of the protocol are such a codec: \<open>json_faithful\<close> is what the JSON crate promises
  of a value, that its text is one line of UTF-8 that parses back to it.
\<close>

definition json_faithful :: "crates \<Rightarrow> json \<Rightarrow> bool" where
  "json_faithful C v \<longleftrightarrow>
     json_parse C (json_text C v) = Some v \<and> utf8_valid (json_text C v) \<and>
     line_feed \<notin> set (json_text C v)"

definition frame_text :: "crates \<Rightarrow> frame \<Rightarrow> string" where
  "frame_text C f = json_text C (frame_json C f)"

definition transmissible :: "crates \<Rightarrow> frame \<Rightarrow> bool" where
  "transmissible C f \<longleftrightarrow>
     valid_frame C f \<and> json_faithful C (frame_json C f) \<and> length (frame_text C f) \<le> max_frame_bytes"

interpretation frames: line_codec "frame_text C" "decode_line C" "transmissible C" max_frame_bytes for C
  by unfold_locales
    (auto simp: transmissible_def json_faithful_def frame_text_def decode_line_def decode_def
      decode_value_encode)

section \<open>Errors of the reader\<close>

lemma controller_id_error: "validate_controller_id i = Inl e \<Longrightarrow> e = FrameInvalidId"
  by (auto simp: validate_controller_id_def result_simps split: if_splits)

lemma decode_hello_error: "decode_hello C raw p = Inl e \<Longrightarrow> e = FrameInvalidJson"
  by (auto simp: decode_hello_def result_simps split: if_splits option.splits)

lemma decode_request_error: "decode_request raw p = Inl e \<Longrightarrow> e \<in> {FrameInvalidJson, FrameInvalidId}"
  by (auto simp: decode_request_def result_simps dest!: controller_id_error split: if_splits)

lemma decode_response_error: "decode_response raw p = Inl e \<Longrightarrow> e \<in> {FrameInvalidJson, FrameInvalidId}"
  by (auto simp: decode_response_def result_simps Let_def dest!: controller_id_error split: if_splits)

lemma decode_error_error: "decode_error raw p = Inl e \<Longrightarrow> e \<in> {FrameInvalidJson, FrameInvalidId}"
  by (auto simp: decode_error_def result_simps dest!: controller_id_error split: if_splits)

lemmas decode_errors = decode_hello_error decode_request_error decode_response_error decode_error_error

lemma decode_value_error:
  assumes "decode_value C v = Inl e"
  shows "e \<in> {FrameInvalidJson, FrameInvalidId, FrameUnsupportedType}"
proof (cases "\<exists>kvs. unique_value v = Some (JObject kvs)")
  case False
  then have "e = FrameInvalidJson"
    using assms by (cases "unique_value v") (auto simp: decode_value_def split: json.splits)
  then show ?thesis by simp
next
  case True
  then obtain kvs where k: "unique_value v = Some (JObject kvs)" by blast
  show ?thesis
  proof (cases "Option.bind (field ''type'' kvs) as_str")
    case None
    with k assms show ?thesis by (simp add: decode_value_def)
  next
    case (Some kind)
    show ?thesis
    proof (cases "raw_frame_of kvs")
      case None
      with k Some assms show ?thesis by (simp add: decode_value_def split: if_splits)
    next
      case raw: (Some raw)
      let ?p = "from_object kvs"
      have "e \<in> {FrameUnsupportedType, FrameInvalidId} \<or> decode_hello C raw ?p = Inl e \<or>
         decode_request raw ?p = Inl e \<or> decode_response raw ?p = Inl e \<or> decode_error raw ?p = Inl e"
        using k Some raw assms by (simp add: decode_value_def Let_def split: if_splits)
      then show ?thesis
        using decode_errors by blast
    qed
  qed
qed

lemma decode_line_error: "decode_line C l = Inl e \<Longrightarrow> e \<notin> {FrameIo, FrameOversize, FrameTruncated}"
  using decode_value_error by (fastforce simp: decode_line_def decode_def result_simps split: if_splits)

lemma frame_write_open:
  assumes "length (frame_text C f) \<le> max_frame_bytes"
  shows "frame_write C f \<lparr>written = w, sink_room = None\<rparr>
       = (Inr (), \<lparr>written = w @ frame_text C f @ [line_feed], sink_room = None\<rparr>)"
  using assms by (simp add: frame_write_def frame_text_def write_all_def Let_def)

fun frame_writes :: "crates \<Rightarrow> frame list \<Rightarrow> sink \<Rightarrow> (frame_error + unit) \<times> sink" where
  "frame_writes C [] out = (Inr (), out)"
| "frame_writes C (f # fs) out =
     (case frame_write C f out of (Inl e, out) \<Rightarrow> (Inl e, out) | (Inr _, out) \<Rightarrow> frame_writes C fs out)"

lemma frame_writes_open:
  "list_all (transmissible C) fs \<Longrightarrow>
     frame_writes C fs \<lparr>written = w, sink_room = None\<rparr>
       = (Inr (), \<lparr>written = w @ concat (map (\<lambda>f. frame_text C f @ [line_feed]) fs), sink_room = None\<rparr>)"
  by (induction fs arbitrary: w) (simp_all add: transmissible_def frame_write_open)

lemma read_until_newline_cases:
  assumes "read_until_newline limit inp = (r, rest)" "0 < limit"
  shows "\<exists>n \<le> limit. source_bytes rest = drop n (source_bytes inp) \<and> source_broken rest = source_broken inp \<and>
     (r = Inr [] \<longleftrightarrow> source_bytes inp = [] \<and> \<not> source_broken inp) \<and>
     (\<forall>bytes. r = Inr bytes \<longrightarrow> bytes = take n (source_bytes inp) \<and> line_feed \<notin> set (butlast bytes)) \<and>
     (\<forall>e. r = Inl e \<longrightarrow> e = FrameIo \<and> source_broken inp)"
proof -
  let ?w = "take limit (source_bytes inp)"
  let ?b = "takeWhile (\<lambda>c. c \<noteq> line_feed) ?w"
  show ?thesis
  proof (cases "length ?b < length ?w")
    case True
    have w: "?w ! length ?b = line_feed" using True nth_length_takeWhile by blast
    have pre: "?w = ?b @ ?w ! length ?b # drop (Suc (length ?b)) ?w"
      using True by (metis Cons_nth_drop_Suc append_take_drop_id takeWhile_eq_take)
    have lt: "Suc (length ?b) \<le> limit" using True by (metis Suc_leI length_take min_less_iff_conj)
    have "take (Suc (length ?b)) (source_bytes inp) = take (Suc (length ?b)) ?w"
      using lt by (simp add: min_absorb1)
    also have "\<dots> = ?b @ [line_feed]"
      using pre w by (metis (no_types) append_eq_conv_conj length_append_singleton append_Cons append_Nil append_assoc)
    finally have tk: "take (Suc (length ?b)) (source_bytes inp) = ?b @ [line_feed]" .
    have nf: "line_feed \<notin> set ?b" using set_takeWhileD by metis
    have ne: "source_bytes inp \<noteq> []" using True by auto
    have r: "r = Inr (?b @ [line_feed])" "rest = inp\<lparr>source_bytes := drop (Suc (length ?b)) (source_bytes inp)\<rparr>"
      using assms(1) True by (simp_all add: read_until_newline_def Let_def)
    show ?thesis
      using lt tk nf ne r by (intro exI [of _ "Suc (length ?b)"]) simp
  next
    case False
    then have nf: "line_feed \<notin> set ?w"
      by (metis (mono_tags, lifting) length_takeWhile_le le_antisym not_less set_takeWhileD takeWhile_eq_take take_all_iff)
    have nb: "line_feed \<notin> set (butlast ?w)" using nf in_set_butlastD by metis
    show ?thesis
    proof (cases "length ?w < limit \<and> source_broken inp")
      case True
      have "(Inl FrameIo, inp\<lparr>source_bytes := []\<rparr>) = (r, rest)"
        using assms(1) unfolding read_until_newline_def Let_def
        by (simp only: False True if_True if_False simp_thms)
      then have r: "r = Inl FrameIo" "rest = inp\<lparr>source_bytes := []\<rparr>" by simp_all
      show ?thesis using True by (intro exI [of _ limit]) (auto simp: r)
    next
      case F: False
      have "(Inr ?w, inp\<lparr>source_bytes := drop limit (source_bytes inp)\<rparr>) = (r, rest)"
        using assms(1) unfolding read_until_newline_def Let_def
        by (simp only: False F if_True if_False simp_thms)
      then have r: "r = Inr ?w" "rest = inp\<lparr>source_bytes := drop limit (source_bytes inp)\<rparr>" by simp_all
      have "?w = [] \<longleftrightarrow> source_bytes inp = []" using assms(2) by auto
      moreover have "?w = [] \<Longrightarrow> \<not> source_broken inp" using F assms(2) by auto
      ultimately show ?thesis using nb r by (intro exI [of _ limit]) auto
    qed
  qed
qed

lemma read_value_outcome:
  assumes r: "read_value dec limit inp = (r, rest)"
    and dec: "\<And>l e. dec l = Inl e \<Longrightarrow> e \<notin> {FrameIo, FrameOversize, FrameTruncated}"
  shows "\<exists>n \<le> limit + 2. source_bytes rest = drop n (source_bytes inp) \<and>
     (r = Inr None \<longleftrightarrow> source_bytes inp = [] \<and> \<not> source_broken inp) \<and>
     (\<forall>x. r = Inr (Some x) \<longrightarrow>
        (\<exists>line. source_bytes inp = line @ line_feed # source_bytes rest \<and> line_feed \<notin> set line \<and>
           length line \<le> limit \<and> dec line = Inr x)) \<and>
     (r = Inl FrameOversize \<longrightarrow> limit < n \<and> line_feed \<notin> set (take limit (source_bytes inp))) \<and>
     (r = Inl FrameIo \<longrightarrow> source_broken inp)"
proof -
  obtain s where s: "read_until_newline (limit + 2) inp = (s, rest)"
    using r by (cases "read_until_newline (limit + 2) inp") (auto simp: read_value_def split: sum.splits)
  obtain n where n: "n \<le> limit + 2" "source_bytes rest = drop n (source_bytes inp)"
    "s = Inr [] \<longleftrightarrow> source_bytes inp = [] \<and> \<not> source_broken inp"
    and sok: "\<And>bytes. s = Inr bytes \<Longrightarrow> bytes = take n (source_bytes inp) \<and> line_feed \<notin> set (butlast bytes)"
    and serr: "\<And>e. s = Inl e \<Longrightarrow> e = FrameIo \<and> source_broken inp"
    using read_until_newline_cases [OF s] by auto
  show ?thesis
  proof (cases s)
    case (Inl e)
    with serr have "r = Inl FrameIo" "source_broken inp" using r s by (auto simp: read_value_def)
    then show ?thesis using n Inl by (intro exI [of _ n]) auto
  next
    case (Inr bytes)
    note b = sok [OF Inr]
    have rr: "r = (if bytes = [] then Inr None
            else if last bytes \<noteq> line_feed then
              Inl (if limit < length bytes then FrameOversize else FrameTruncated)
            else if limit < length (butlast bytes) then Inl FrameOversize
            else and_then (dec (butlast bytes)) (\<lambda>x. Inr (Some x)))"
      using r s Inr by (simp add: read_value_def)
    have le: "length bytes \<le> n" using b by simp
    consider (empty) "bytes = []" | (unended) "bytes \<noteq> []" "last bytes \<noteq> line_feed"
      | (long) "bytes \<noteq> []" "last bytes = line_feed" "limit < length (butlast bytes)"
      | (line) "bytes \<noteq> []" "last bytes = line_feed" "length (butlast bytes) \<le> limit"
      by force
    then show ?thesis
    proof cases
      case empty
      then show ?thesis using n rr Inr by (intro exI [of _ n]) simp
    next
      case unended
      then have nf: "line_feed \<notin> set bytes"
        using b by (metis append_butlast_last_id in_set_conv_decomp rotate1.simps(2) set_ConsD set_rotate1)
      have "line_feed \<notin> set (take limit (source_bytes inp))" if "limit < length bytes"
      proof -
        have "take limit (source_bytes inp) = take limit bytes"
          using b that by (simp add: min_absorb1)
        with nf show ?thesis by (metis in_set_takeD)
      qed
      with unended n rr Inr le show ?thesis by (intro exI [of _ n]) auto
    next
      case long
      have "take limit (butlast bytes) = take limit bytes"
        using long(3) by (intro take_butlast) simp
      also have "\<dots> = take limit (source_bytes inp)"
        using b long(3) by (simp add: min_absorb1)
      finally have "take limit (source_bytes inp) = take limit (butlast bytes)" ..
      then have "line_feed \<notin> set (take limit (source_bytes inp))" using b by (metis in_set_takeD)
      with long n rr Inr le show ?thesis by (intro exI [of _ n]) auto
    next
      case line
      have "source_bytes inp = take n (source_bytes inp) @ drop n (source_bytes inp)" by simp
      also have "take n (source_bytes inp) = butlast bytes @ [line_feed]"
        using b line by (metis append_butlast_last_id)
      finally have split: "source_bytes inp = butlast bytes @ line_feed # source_bytes rest"
        using n(2) by simp
      have err: "r \<noteq> Inl FrameOversize" "r \<noteq> Inl FrameIo" "r \<noteq> Inr None"
        using rr line dec by (auto simp: result_simps)
      have "\<exists>l. source_bytes inp = l @ line_feed # source_bytes rest \<and> line_feed \<notin> set l \<and>
           length l \<le> limit \<and> dec l = Inr x" if rx: "r = Inr (Some x)" for x
      proof -
        have "and_then (dec (butlast bytes)) (\<lambda>x. Inr (Some x)) = Inr (Some x)"
          using rr rx line by simp
        then have "dec (butlast bytes) = Inr x" by (auto simp: result_simps)
        with split b line show ?thesis by blast
      qed
      moreover have "source_bytes inp \<noteq> []" using split by simp
      ultimately show ?thesis using n err by (intro exI [of _ n]) auto
    qed
  qed
qed

text \<open>
  C7. Decoding is exact: the encoding of a frame decodes to that frame if and only if the
  frame is well formed, and no text at all decodes to a frame that is not.
\<close>

theorem frame_decoding_exact:
  "(decode_value C (frame_json C f) = Inr f \<longleftrightarrow> valid_frame C f) \<and>
   {g. \<exists>text. decode C text = Inr g} \<subseteq> {g. valid_frame C g}"
proof
  show "decode_value C (frame_json C f) = Inr f \<longleftrightarrow> valid_frame C f"
    using decode_value_valid decode_value_encode by blast
  show "{g. \<exists>text. decode C text = Inr g} \<subseteq> {g. valid_frame C g}"
    by (auto simp: decode_def result_simps dest: decode_value_valid)
qed

text \<open>
  The duplicate check is exact: a parsed value passes the visitor if and only if no object
  in it, at any depth, repeats a field, and then the visitor's value is the same with the
  fields of every object in key order.
\<close>

theorem unique_value_exact:
  "unique_value v = (if repeat_free v then Some (canonical v) else None) \<and> wf_json (canonical v)"
  using unique_exact(1) wf_canonical by simp

text \<open>
  C28. What one side writes the other reads: a sequence of transmissible frames written to an
  open stream is read back as the same sequence, and what follows is left unread.
\<close>

theorem frame_stream_roundtrip:
  assumes "list_all (transmissible C) fs"
  shows "\<exists>bytes. frame_writes C fs \<lparr>written = [], sink_room = None\<rparr> = (Inr (), \<lparr>written = bytes, sink_room = None\<rparr>)
     \<and> read_values (frame_read C) (length fs) \<lparr>source_bytes = bytes @ rest, source_broken = b\<rparr>
         = (Inr fs, \<lparr>source_bytes = rest, source_broken = b\<rparr>)"
  using frame_writes_open [OF assms, of "[]"] frames.read_all_written [OF assms]
  by (simp add: frame_read_value)

definition demo_request :: frame where
  "demo_request = RequestFrame ''c1'' ''machine.status'' (JObject [])"

definition demo_frame_crates :: crates where
  "demo_frame_crates = demo_crates
     \<lparr>json_text := (\<lambda>_. ''F''), json_parse := (\<lambda>_. Some (frame_json demo_crates demo_request))\<rparr>"

theorem frame_stream_roundtrip_witness:
  "fst (read_values (frame_read demo_frame_crates) 1
     \<lparr>source_bytes = ''F'' @ [line_feed] @ ''more'', source_broken = False\<rparr>) = Inr [demo_request]"
proof -
  have ftext: "frame_text demo_frame_crates demo_request = ''F''"
    by (simp add: frame_text_def demo_frame_crates_def)
  have ascii: "utf8_valid ''F''" by code_simp
  have valid: "valid_frame demo_frame_crates demo_request"
    by (simp add: demo_request_def controller_id_def text_within_def max_id_bytes_def max_method_bytes_def
        ascii_defs byte_def sorted_fields_def)
  have faithful: "json_faithful demo_frame_crates (frame_json demo_frame_crates demo_request)"
    using ascii by (simp add: json_faithful_def demo_frame_crates_def demo_request_def line_feed_def)
  have ok: "list_all (transmissible demo_frame_crates) [demo_request]"
    using valid faithful by (simp add: transmissible_def ftext max_frame_bytes_def)
  obtain bytes where w: "frame_writes demo_frame_crates [demo_request] \<lparr>written = [], sink_room = None\<rparr>
       = (Inr (), \<lparr>written = bytes, sink_room = None\<rparr>)"
    and r: "read_values (frame_read demo_frame_crates) (length [demo_request])
       \<lparr>source_bytes = bytes @ ''more'', source_broken = False\<rparr>
       = (Inr [demo_request], \<lparr>source_bytes = ''more'', source_broken = False\<rparr>)"
    using frame_stream_roundtrip [OF ok] by blast
  have "bytes = ''F'' @ [line_feed]"
    using w frame_writes_open [OF ok, of "[]"] ftext by simp
  with r show ?thesis by simp
qed

text \<open>
  C29. The reader is bounded whatever the peer sends: one read takes at most four MiB and two
  bytes off the input; it ends without a frame only at the end of the input; a frame it
  returns is well formed and comes from exactly one line of at most four MiB of UTF-8;
  \<open>Oversize\<close> means that no newline came in the first four MiB, \<open>Io\<close> that the stream broke.
\<close>

theorem frame_reader_bounded:
  assumes "frame_read C inp = (r, rest)"
  shows "\<exists>n \<le> max_frame_bytes + 2. source_bytes rest = drop n (source_bytes inp) \<and>
     (r = Inr None \<longleftrightarrow> source_bytes inp = [] \<and> \<not> source_broken inp) \<and>
     (\<forall>f. r = Inr (Some f) \<longrightarrow>
        valid_frame C f \<and>
        (\<exists>line. source_bytes inp = line @ line_feed # source_bytes rest \<and> line_feed \<notin> set line \<and>
           length line \<le> max_frame_bytes \<and> utf8_valid line \<and> decode C line = Inr f)) \<and>
     (r = Inl FrameOversize \<longrightarrow>
        max_frame_bytes < n \<and> line_feed \<notin> set (take max_frame_bytes (source_bytes inp))) \<and>
     (r = Inl FrameIo \<longrightarrow> source_broken inp)"
proof -
  have line: "decode_line C l = Inr f \<longleftrightarrow> utf8_valid l \<and> decode C l = Inr f" for l f
    by (simp add: decode_line_def)
  have valid: "decode C l = Inr f \<Longrightarrow> valid_frame C f" for l f
    by (auto simp: decode_def result_simps dest: decode_value_valid)
  have err: "decode_line C l = Inl e \<Longrightarrow> e \<notin> {FrameIo, FrameOversize, FrameTruncated}" for l e
    by (rule decode_line_error)
  note read_value_outcome [of "decode_line C" max_frame_bytes inp r rest, OF assms [unfolded frame_read_value] err,
      unfolded line]
  then show ?thesis using valid by fast
qed

theorem frame_reader_bounded_witness:
  "\<exists>n \<le> max_frame_bytes + 2.
     source_bytes (snd (frame_read demo_crates \<lparr>source_bytes = ''x'', source_broken = False\<rparr>)) = drop n ''x'' \<and>
     fst (frame_read demo_crates \<lparr>source_bytes = ''x'', source_broken = False\<rparr>) \<noteq> Inl FrameIo \<and>
     fst (frame_read demo_crates \<lparr>source_bytes = ''x'', source_broken = False\<rparr>) \<noteq> Inr None"
  using frame_reader_bounded [of demo_crates "\<lparr>source_bytes = ''x'', source_broken = False\<rparr>", OF surjective_pairing]
  by auto

end
