(* ===== verification/ManifestTypes.thy ===== *)
theory ManifestTypes
  imports Principal
begin

text \<open>
  The machine manifest as data (\<open>src/manifest/mod.rs\<close>): its tables, the identity-free draft,
  the raw form a TOML text deserialises to, and the value it serialises to. The TOML crate
  with the derived deserialiser is a parameter (\<open>toml_api\<close>): it reads a text into the raw
  form and prints a manifest. Maps are lists of pairs.
\<close>

section \<open>Tables\<close>

datatype machine_role = ControllerRole | WorkerRole

datatype operating_system = Linux | Macos | Windows

datatype architecture = X86_64 | Aarch64

datatype transport_kind = Ssh

datatype tailscale_mode = ServiceMode | GuiMode | TailscaledMode

datatype install_channel =
  DirectChannel | Homebrew | Winget | Scoop | Chocolatey | Apt | Cargo | UnknownChannel

datatype pending_severity = PendingInfo | PendingWarning | PendingError

datatype worker_identity_mode = CurrentUserMode | DedicatedMode

datatype desktop_kind = Rdp | ScreenSharing | Vnc | NoDesktop

record platform_table =
  pl_os :: operating_system
  pl_arch :: architecture
  pl_hostname :: string
  pl_headless :: "bool option"

record installation_table =
  in_scope :: installation_scope

record worker_identity =
  wi_mode :: worker_identity_mode
  wi_principal_kind :: principal_kind
  wi_principal_id :: string
  wi_name :: string
  wi_isolation :: worker_isolation

record transport_table =
  tr_kind :: transport_kind
  tr_host :: string
  tr_port :: "nat option"
  tr_user :: "string option"

record paths_table =
  pa_root :: string
  pa_repos :: string
  pa_jobs :: string
  pa_cache :: string
  pa_artifacts :: string
  pa_logs :: string

record controller_table =
  co_enabled :: "bool option"
  co_inventory :: "string option"

record worker_table =
  wo_enabled :: "bool option"
  wo_accept_jobs :: "bool option"

record detected_resources =
  de_logical_cpus :: "nat option"
  de_memory_bytes :: "nat option"
  de_disk_bytes :: "nat option"

record resource_policy =
  po_reserved_memory_bytes :: "nat option"
  po_reserved_disk_bytes :: "nat option"
  po_reserved_disk_percent :: "nat option"
  po_reserved_cpus :: "nat option"
  po_max_parallel_compile_jobs :: "nat option"
  po_max_parallel_test_jobs :: "nat option"
  po_max_heavy_jobs :: "nat option"
  po_max_job_disk_bytes :: "nat option"

record resources_table =
  re_detected :: "detected_resources option"
  re_policy :: "resource_policy option"

record scheduling_table =
  sc_priority :: "int option"
  sc_prefer_remote_workers :: "bool option"

record tailscale_table =
  ts_installed :: "bool option"
  ts_mode :: "tailscale_mode option"
  ts_unattended :: "bool option"

record ssh_table =
  ssh_installed :: "bool option"
  ssh_server :: "bool option"
  ssh_public_key_auth :: "bool option"
  ssh_host_key_fingerprint :: "string option"

record herdr_table =
  he_installed :: "bool option"
  he_enabled :: "bool option"
  he_session :: "string option"
  he_autostart :: "string option"

record agent_table =
  ag_installed :: "bool option"
  ag_command :: "string option"
  ag_sandbox :: "string option"
  ag_shell :: "string option"

record toolchain_table =
  to_installed :: "bool option"
  to_host :: "string option"
  to_version :: "string option"

record cache_table =
  ca_installed :: "bool option"
  ca_max_bytes :: "nat option"

record install_table =
  is_channel :: install_channel
  is_version :: "string option"
  is_installed_at :: "nat option"

record desktop_table =
  dt_kind :: "desktop_kind option"
  dt_enabled :: "bool option"

record pending_action =
  pe_id :: string
  pe_severity :: pending_severity
  pe_message :: string

section \<open>The manifest, its draft and its raw form\<close>

text \<open>
  The draft holds every table but the machine id; the manifest extends it with the id, the
  raw form with the optional text of the id.
\<close>

record manifest_draft =
  schema_version :: nat
  machine_name :: string
  roles :: "machine_role list"
  platform :: platform_table
  installation :: "installation_table option"
  worker_identity :: "worker_identity option"
  transport :: "transport_table option"
  paths :: paths_table
  controller :: "controller_table option"
  worker :: "worker_table option"
  resources :: "resources_table option"
  capabilities :: "(string \<times> bool) list option"
  scheduling :: "scheduling_table option"
  tailscale :: "tailscale_table option"
  ssh :: "ssh_table option"
  herdr :: "herdr_table option"
  agents :: "(string \<times> agent_table) list option"
  toolchains :: "(string \<times> toolchain_table) list option"
  caches :: "(string \<times> cache_table) list option"
  install :: "install_table option"
  desktop :: "desktop_table option"
  pending_actions :: "pending_action list option"

record machine_manifest = manifest_draft +
  machine_id :: uuid

record raw_machine_manifest = manifest_draft +
  raw_machine_id_text :: "string option"

definition with_machine_id :: "manifest_draft \<Rightarrow> uuid \<Rightarrow> machine_manifest" where
  "with_machine_id d u = manifest_draft.extend d \<lparr>machine_id = u\<rparr>"

definition without_machine_id :: "machine_manifest \<Rightarrow> manifest_draft" where
  "without_machine_id m = manifest_draft.truncate m"

definition into_manifest :: "raw_machine_manifest \<Rightarrow> uuid \<Rightarrow> machine_manifest" where
  "into_manifest raw u = manifest_draft.extend (manifest_draft.truncate raw) \<lparr>machine_id = u\<rparr>"

lemma machine_id_with [simp]: "machine_id (with_machine_id d u) = u"
  by (simp add: with_machine_id_def manifest_draft.defs)

lemma without_with [simp]: "without_machine_id (with_machine_id d u) = d"
  by (simp add: with_machine_id_def without_machine_id_def manifest_draft.defs)

lemma with_without [simp]: "with_machine_id (without_machine_id m) (machine_id m) = m"
  by (simp add: with_machine_id_def without_machine_id_def manifest_draft.defs)

record toml_api =
  toml_from_str :: "string \<Rightarrow> raw_machine_manifest option"
  toml_to_string :: "machine_manifest \<Rightarrow> string option"

datatype manifest_error =
    TomlError
  | TomlSerializeError
  | JsonError
  | ReadError io_error
  | WriteError io_error
  | SecurityError io_error
  | CallerIdentityError io_error
  | UserConfigDirectoryUnavailable
  | PostReplaceSecurityError io_error
  | StagingDirectoryCleanup manifest_error io_error
  | SecretError string string
  | ValidationError string

definition invalid :: "string \<Rightarrow> manifest_error + 'a" where
  "invalid message = Inl (ValidationError message)"

lemma invalid_not_Inr [simp]: "invalid m \<noteq> Inr x" "Inr x \<noteq> invalid m"
  by (simp_all add: invalid_def)

section \<open>Text of the enumerations\<close>

primrec role_text :: "machine_role \<Rightarrow> string" where
  "role_text ControllerRole = ''controller''"
| "role_text WorkerRole = ''worker''"

primrec os_text :: "operating_system \<Rightarrow> string" where
  "os_text Linux = ''linux''"
| "os_text Macos = ''macos''"
| "os_text Windows = ''windows''"

primrec arch_text :: "architecture \<Rightarrow> string" where
  "arch_text X86_64 = ''x86_64''"
| "arch_text Aarch64 = ''aarch64''"

primrec scope_text :: "installation_scope \<Rightarrow> string" where
  "scope_text UserScope = ''user''"
| "scope_text SystemScope = ''system''"

primrec mode_text :: "worker_identity_mode \<Rightarrow> string" where
  "mode_text CurrentUserMode = ''current-user''"
| "mode_text DedicatedMode = ''dedicated''"

primrec principal_kind_text :: "principal_kind \<Rightarrow> string" where
  "principal_kind_text UnixUid = ''unix-uid''"
| "principal_kind_text WindowsSid = ''windows-sid''"

primrec isolation_text :: "worker_isolation \<Rightarrow> string" where
  "isolation_text SharedUser = ''shared-user''"
| "isolation_text DedicatedAccount = ''dedicated-account''"

primrec transport_kind_text :: "transport_kind \<Rightarrow> string" where
  "transport_kind_text Ssh = ''ssh''"

primrec tailscale_mode_text :: "tailscale_mode \<Rightarrow> string" where
  "tailscale_mode_text ServiceMode = ''service''"
| "tailscale_mode_text GuiMode = ''gui''"
| "tailscale_mode_text TailscaledMode = ''tailscaled''"

primrec channel_text :: "install_channel \<Rightarrow> string" where
  "channel_text DirectChannel = ''direct''"
| "channel_text Homebrew = ''homebrew''"
| "channel_text Winget = ''winget''"
| "channel_text Scoop = ''scoop''"
| "channel_text Chocolatey = ''chocolatey''"
| "channel_text Apt = ''apt''"
| "channel_text Cargo = ''cargo''"
| "channel_text UnknownChannel = ''unknown''"

primrec pending_severity_text :: "pending_severity \<Rightarrow> string" where
  "pending_severity_text PendingInfo = ''info''"
| "pending_severity_text PendingWarning = ''warning''"
| "pending_severity_text PendingError = ''error''"

primrec desktop_kind_text :: "desktop_kind \<Rightarrow> string" where
  "desktop_kind_text Rdp = ''rdp''"
| "desktop_kind_text ScreenSharing = ''screen-sharing''"
| "desktop_kind_text Vnc = ''vnc''"
| "desktop_kind_text NoDesktop = ''none''"

section \<open>The serialised value\<close>

definition or_null :: "('a \<Rightarrow> json) \<Rightarrow> 'a option \<Rightarrow> json" where
  "or_null f x = (case x of None \<Rightarrow> JNull | Some y \<Rightarrow> f y)"

definition present :: "string \<Rightarrow> ('a \<Rightarrow> json) \<Rightarrow> 'a option \<Rightarrow> fields" where
  "present key f x = (case x of None \<Rightarrow> [] | Some y \<Rightarrow> [(key, f y)])"

definition table :: "fields \<Rightarrow> json" where
  "table kvs = JObject (object_of kvs)"

definition nat_json :: "nat \<Rightarrow> json" where
  "nat_json n = JInt (int n)"

definition map_json :: "('a \<Rightarrow> json) \<Rightarrow> (string \<times> 'a) list \<Rightarrow> json" where
  "map_json f kvs = table (map (\<lambda>kv. (fst kv, f (snd kv))) kvs)"

definition platform_json :: "platform_table \<Rightarrow> json" where
  "platform_json p = table
     [(''os'', JString (os_text (pl_os p))), (''arch'', JString (arch_text (pl_arch p))),
      (''hostname'', JString (pl_hostname p)), (''headless'', or_null JBool (pl_headless p))]"

definition installation_json :: "installation_table \<Rightarrow> json" where
  "installation_json i = table [(''scope'', JString (scope_text (in_scope i)))]"

definition worker_identity_json :: "worker_identity \<Rightarrow> json" where
  "worker_identity_json w = table
     [(''mode'', JString (mode_text (wi_mode w))),
      (''principal_kind'', JString (principal_kind_text (wi_principal_kind w))),
      (''principal_id'', JString (wi_principal_id w)), (''name'', JString (wi_name w)),
      (''isolation'', JString (isolation_text (wi_isolation w)))]"

definition transport_json :: "transport_table \<Rightarrow> json" where
  "transport_json t = table
     [(''kind'', JString (transport_kind_text (tr_kind t))), (''host'', JString (tr_host t)),
      (''port'', or_null nat_json (tr_port t)), (''user'', or_null JString (tr_user t))]"

definition paths_json :: "paths_table \<Rightarrow> json" where
  "paths_json p = table
     [(''root'', JString (pa_root p)), (''repos'', JString (pa_repos p)), (''jobs'', JString (pa_jobs p)),
      (''cache'', JString (pa_cache p)), (''artifacts'', JString (pa_artifacts p)),
      (''logs'', JString (pa_logs p))]"

definition controller_json :: "controller_table \<Rightarrow> json" where
  "controller_json c = table
     [(''enabled'', or_null JBool (co_enabled c)), (''inventory'', or_null JString (co_inventory c))]"

definition worker_json :: "worker_table \<Rightarrow> json" where
  "worker_json w = table
     [(''enabled'', or_null JBool (wo_enabled w)), (''accept_jobs'', or_null JBool (wo_accept_jobs w))]"

definition detected_json :: "detected_resources \<Rightarrow> json" where
  "detected_json d = table
     [(''logical_cpus'', or_null nat_json (de_logical_cpus d)),
      (''memory_bytes'', or_null nat_json (de_memory_bytes d)),
      (''disk_bytes'', or_null nat_json (de_disk_bytes d))]"

definition policy_json :: "resource_policy \<Rightarrow> json" where
  "policy_json p = table
     [(''reserved_memory_bytes'', or_null nat_json (po_reserved_memory_bytes p)),
      (''reserved_disk_bytes'', or_null nat_json (po_reserved_disk_bytes p)),
      (''reserved_disk_percent'', or_null nat_json (po_reserved_disk_percent p)),
      (''reserved_cpus'', or_null nat_json (po_reserved_cpus p)),
      (''max_parallel_compile_jobs'', or_null nat_json (po_max_parallel_compile_jobs p)),
      (''max_parallel_test_jobs'', or_null nat_json (po_max_parallel_test_jobs p)),
      (''max_heavy_jobs'', or_null nat_json (po_max_heavy_jobs p)),
      (''max_job_disk_bytes'', or_null nat_json (po_max_job_disk_bytes p))]"

definition resources_json :: "resources_table \<Rightarrow> json" where
  "resources_json r = table
     [(''detected'', or_null detected_json (re_detected r)), (''policy'', or_null policy_json (re_policy r))]"

definition scheduling_json :: "scheduling_table \<Rightarrow> json" where
  "scheduling_json s = table
     [(''priority'', or_null JInt (sc_priority s)),
      (''prefer_remote_workers'', or_null JBool (sc_prefer_remote_workers s))]"

definition tailscale_json :: "tailscale_table \<Rightarrow> json" where
  "tailscale_json t = table
     [(''installed'', or_null JBool (ts_installed t)),
      (''mode'', or_null (\<lambda>m. JString (tailscale_mode_text m)) (ts_mode t)),
      (''unattended'', or_null JBool (ts_unattended t))]"

definition ssh_json :: "ssh_table \<Rightarrow> json" where
  "ssh_json s = table
     [(''installed'', or_null JBool (ssh_installed s)), (''server'', or_null JBool (ssh_server s)),
      (''public_key_auth'', or_null JBool (ssh_public_key_auth s)),
      (''host_key_fingerprint'', or_null JString (ssh_host_key_fingerprint s))]"

definition herdr_json :: "herdr_table \<Rightarrow> json" where
  "herdr_json h = table
     [(''installed'', or_null JBool (he_installed h)), (''enabled'', or_null JBool (he_enabled h)),
      (''session'', or_null JString (he_session h)), (''autostart'', or_null JString (he_autostart h))]"

definition agent_json :: "agent_table \<Rightarrow> json" where
  "agent_json a = table
     [(''installed'', or_null JBool (ag_installed a)), (''command'', or_null JString (ag_command a)),
      (''sandbox'', or_null JString (ag_sandbox a)), (''shell'', or_null JString (ag_shell a))]"

definition toolchain_json :: "toolchain_table \<Rightarrow> json" where
  "toolchain_json t = table
     [(''installed'', or_null JBool (to_installed t)), (''host'', or_null JString (to_host t)),
      (''version'', or_null JString (to_version t))]"

definition cache_json :: "cache_table \<Rightarrow> json" where
  "cache_json c = table
     [(''installed'', or_null JBool (ca_installed c)), (''max_bytes'', or_null nat_json (ca_max_bytes c))]"

definition install_json :: "crates \<Rightarrow> install_table \<Rightarrow> json" where
  "install_json C i = table
     [(''channel'', JString (channel_text (is_channel i))), (''version'', or_null JString (is_version i)),
      (''installed_at'', or_null (\<lambda>t. JString (rfc3339_text C t)) (is_installed_at i))]"

definition desktop_json :: "desktop_table \<Rightarrow> json" where
  "desktop_json d = table
     [(''kind'', or_null (\<lambda>k. JString (desktop_kind_text k)) (dt_kind d)),
      (''enabled'', or_null JBool (dt_enabled d))]"

definition pending_action_json :: "pending_action \<Rightarrow> json" where
  "pending_action_json a = table
     [(''id'', JString (pe_id a)), (''severity'', JString (pending_severity_text (pe_severity a))),
      (''message'', JString (pe_message a))]"

definition wire_value :: "crates \<Rightarrow> machine_manifest \<Rightarrow> json" where
  "wire_value C m = table
     ([(''schema_version'', nat_json (schema_version m)),
       (''machine_id'', JString (uuid_text C (machine_id m))),
       (''name'', JString (machine_name m)),
       (''roles'', JArray (map (\<lambda>r. JString (role_text r)) (roles m))),
       (''platform'', platform_json (platform m)),
       (''installation'', or_null installation_json (installation m))] @
      present ''worker_identity'' worker_identity_json (worker_identity m) @
      present ''transport'' transport_json (transport m) @
      [(''paths'', paths_json (paths m))] @
      present ''controller'' controller_json (controller m) @
      present ''worker'' worker_json (worker m) @
      present ''resources'' resources_json (resources m) @
      present ''capabilities'' (map_json JBool) (capabilities m) @
      present ''scheduling'' scheduling_json (scheduling m) @
      present ''tailscale'' tailscale_json (tailscale m) @
      present ''ssh'' ssh_json (ssh m) @
      present ''herdr'' herdr_json (herdr m) @
      present ''agents'' (map_json agent_json) (agents m) @
      present ''toolchains'' (map_json toolchain_json) (toolchains m) @
      present ''caches'' (map_json cache_json) (caches m) @
      present ''install'' (install_json C) (install m) @
      present ''desktop'' desktop_json (desktop m) @
      present ''pending_actions'' (\<lambda>xs. JArray (map pending_action_json xs)) (pending_actions m))"

lemma table_object [simp]: "is_object (table kvs)"
  by (simp add: table_def)

end
