(* ===== verification/WorkerLayout.thy ===== *)
theory WorkerLayout
  imports Manifest Transport
begin

text \<open>
  The worker directory layout and what a manifest takes from it: the layout itself
  (\<open>src/platform/mod.rs\<close>), and the current-user and dedicated projections that fix a draft's
  scope, platform, identity, login and paths from the native principal
  (\<open>src/manifest/mod.rs\<close>). Paths are bytes with Unix separators; the root of a layout and
  the native checks are answers of the host (\<open>host_answers\<close>), which may change with time.
\<close>

section \<open>Paths\<close>

definition join_path :: "string \<Rightarrow> string \<Rightarrow> string" where
  "join_path dir leaf = (if ends_with ''/'' dir \<or> dir = [] then dir @ leaf else dir @ ''/'' @ leaf)"

record worker_layout =
  wl_scope :: installation_scope
  wl_root :: string
  wl_repos :: string
  wl_jobs :: string
  wl_cache :: string
  wl_artifacts :: string
  wl_logs :: string
  wl_anchor :: "string option"
  wl_principal :: worker_principal

text \<open>\<open>wl_anchor\<close> is the anchor of the policy \<open>CreateMissingFrom\<close>, \<open>None\<close> for an existing parent.\<close>

definition new_worker_layout ::
  "installation_scope \<Rightarrow> string \<Rightarrow> string option \<Rightarrow> worker_principal \<Rightarrow> worker_layout" where
  "new_worker_layout scope base anchor pr =
     \<lparr>wl_scope = scope, wl_root = base, wl_repos = join_path base ''repos'', wl_jobs = join_path base ''jobs'',
      wl_cache = join_path base ''cache'', wl_artifacts = join_path base ''artifacts'',
      wl_logs = join_path base ''logs'', wl_anchor = anchor, wl_principal = pr\<rparr>"

datatype worker_node =
  SupportNode nat | RootNode | ReposNode | JobsNode | CacheNode | ArtifactsNode | LogsNode

text \<open>The named components of a Unix path below its root.\<close>

definition normal_components :: "string \<Rightarrow> string list" where
  "normal_components path = filter (\<lambda>c. c \<noteq> [] \<and> c \<noteq> ''.'') (split_on (CHR ''/'') path)"

definition support_paths :: "worker_layout \<Rightarrow> string list" where
  "support_paths l =
     (case wl_anchor l of
        None \<Rightarrow> []
      | Some anchor \<Rightarrow>
          (let a = normal_components anchor; r = normal_components (wl_root l)
           in if prefix a r
              then map (\<lambda>i. foldl join_path anchor (take (Suc i) (drop (length a) r)))
                     [0..<length r - length a - 1]
              else []))"

definition materialization_nodes :: "worker_layout \<Rightarrow> worker_node list" where
  "materialization_nodes l =
     map SupportNode [0..<length (support_paths l)] @
     [RootNode, ReposNode, JobsNode, CacheNode, ArtifactsNode, LogsNode]"

definition path_for_node :: "worker_layout \<Rightarrow> worker_node \<Rightarrow> string option" where
  "path_for_node l node =
     (case node of
        SupportNode i \<Rightarrow> if i < length (support_paths l) then Some (support_paths l ! i) else None
      | RootNode \<Rightarrow> Some (wl_root l)
      | ReposNode \<Rightarrow> Some (wl_repos l)
      | JobsNode \<Rightarrow> Some (wl_jobs l)
      | CacheNode \<Rightarrow> Some (wl_cache l)
      | ArtifactsNode \<Rightarrow> Some (wl_artifacts l)
      | LogsNode \<Rightarrow> Some (wl_logs l))"

section \<open>Answers of the host\<close>

record host_answers =
  host_os :: operating_system
  principal_verified :: "nat \<Rightarrow> worker_principal \<Rightarrow> io_error option"
  current_principal :: "nat \<Rightarrow> io_error + worker_principal"
  root_principal_valid :: "nat \<Rightarrow> installation_scope \<Rightarrow> worker_principal \<Rightarrow> io_error option"
  default_root :: "nat \<Rightarrow> installation_scope \<Rightarrow> worker_principal \<Rightarrow> io_error + string \<times> string option"
  handle_principal :: "nat \<Rightarrow> io_error + worker_principal"
  fresh_uuid :: "nat \<Rightarrow> uuid"

definition answered :: "io_error option \<Rightarrow> io_error + unit" where
  "answered x = (case x of None \<Rightarrow> Inr () | Some e \<Rightarrow> Inl e)"

definition resolve_worker_directory_layout ::
  "host_answers \<Rightarrow> nat \<Rightarrow> installation_scope \<Rightarrow> worker_principal \<Rightarrow> io_error + worker_layout" where
  "resolve_worker_directory_layout H t scope pr =
     (if scope = UserScope \<and> wp_policy pr \<noteq> CurrentUserPolicy
      then Inl (IoError PermissionDenied ''user-scope worker must use the current-user account policy'')
      else and_then (answered (root_principal_valid H t scope pr)) (\<lambda>_.
           and_then (default_root H t scope pr) (\<lambda>(base, anchor).
             Inr (new_worker_layout scope base anchor pr))))"

section \<open>Projections\<close>

definition projection_validation :: "string \<Rightarrow> manifest_error" where
  "projection_validation message = ValidationError message"

definition user_worker_draft_error :: string where
  "user_worker_draft_error = ''current-user worker manifest projection requires a user-scope worker draft''"

definition native_host_platform_error :: string where
  "native_host_platform_error = ''current-user worker manifest projection requires the native host platform''"

definition existing_transport_error :: string where
  "existing_transport_error = ''current-user worker manifest projection requires an existing transport''"

definition current_native_principal_error :: string where
  "current_native_principal_error =
     ''current-user worker manifest projection requires the current native principal''"

definition path_representation_error :: string where
  "path_representation_error = ''worker directory paths cannot be represented exactly in the manifest''"

definition user_worker_paths_error :: string where
  "user_worker_paths_error =
     ''user worker manifest paths do not match the store'' @ [CHR 0x27] @ ''s canonical layout''"

definition user_worker_platform_error :: string where
  "user_worker_platform_error = ''user worker manifest platform does not match the native host''"

definition dedicated_worker_draft_error :: string where
  "dedicated_worker_draft_error = ''dedicated worker manifest projection requires a system-scope worker draft''"

definition dedicated_principal_error :: string where
  "dedicated_principal_error = ''dedicated worker manifest principal does not match the selected account''"

definition dedicated_worker_paths_error :: string where
  "dedicated_worker_paths_error = ''dedicated worker manifest paths do not match the canonical system layout''"

definition dedicated_worker_platform_error :: string where
  "dedicated_worker_platform_error = ''dedicated worker manifest platform does not match the native host''"

record worker_projection =
  pj_os :: operating_system
  pj_principal :: worker_principal
  pj_identity :: worker_identity
  pj_transport_user :: string
  pj_paths :: paths_table

definition worker_identity_for :: "worker_principal \<Rightarrow> worker_identity" where
  "worker_identity_for pr =
     \<lparr>wi_mode = (case wp_policy pr of CurrentUserPolicy \<Rightarrow> CurrentUserMode | DedicatedPolicy \<Rightarrow> DedicatedMode),
      wi_principal_kind = wp_kind pr, wi_principal_id = wp_id pr, wi_name = wp_name pr,
      wi_isolation = wp_isolation pr\<rparr>"

definition exact_path :: "string \<Rightarrow> manifest_error + string" where
  "exact_path path = ok_or (path_to_str path) (projection_validation path_representation_error)"

definition exact_manifest_paths :: "worker_layout \<Rightarrow> manifest_error + paths_table" where
  "exact_manifest_paths l =
     and_then (exact_path (wl_root l)) (\<lambda>r. and_then (exact_path (wl_repos l)) (\<lambda>repos.
     and_then (exact_path (wl_jobs l)) (\<lambda>jobs. and_then (exact_path (wl_cache l)) (\<lambda>cache.
     and_then (exact_path (wl_artifacts l)) (\<lambda>artifacts. and_then (exact_path (wl_logs l)) (\<lambda>logs.
       Inr \<lparr>pa_root = r, pa_repos = repos, pa_jobs = jobs, pa_cache = cache,
             pa_artifacts = artifacts, pa_logs = logs\<rparr>))))))"

definition projection_of :: "host_answers \<Rightarrow> worker_principal \<Rightarrow> worker_layout \<Rightarrow> manifest_error + worker_projection" where
  "projection_of H pr l =
     and_then (exact_manifest_paths l) (\<lambda>ps.
       Inr \<lparr>pj_os = host_os H, pj_principal = pr, pj_identity = worker_identity_for pr,
            pj_transport_user = wp_name pr, pj_paths = ps\<rparr>)"

definition validate_projection_base ::
  "host_answers \<Rightarrow> installation_scope \<Rightarrow> string \<Rightarrow> manifest_draft \<Rightarrow> manifest_error + unit" where
  "validate_projection_base H scope draft_error base =
     (if map_option in_scope (installation base) \<noteq> Some scope \<or> WorkerRole \<notin> set (roles base)
      then Inl (projection_validation draft_error)
      else if pl_os (platform base) \<noteq> host_os H then Inl (projection_validation native_host_platform_error)
      else if transport base = None then Inl (projection_validation existing_transport_error)
      else Inr ())"

definition validate_current_user_projection_base :: "host_answers \<Rightarrow> manifest_draft \<Rightarrow> manifest_error + unit" where
  "validate_current_user_projection_base H = validate_projection_base H UserScope user_worker_draft_error"

definition validate_dedicated_projection_base :: "host_answers \<Rightarrow> manifest_draft \<Rightarrow> manifest_error + unit" where
  "validate_dedicated_projection_base H = validate_projection_base H SystemScope dedicated_worker_draft_error"

definition validate_current_native_principal ::
  "host_answers \<Rightarrow> nat \<Rightarrow> worker_principal \<Rightarrow> manifest_error + unit" where
  "validate_current_native_principal H t pr =
     (if wp_policy pr \<noteq> CurrentUserPolicy \<or> wp_isolation pr \<noteq> SharedUser \<or> principal_verified H t pr \<noteq> None
      then Inl (projection_validation current_native_principal_error)
      else and_then (map_err (\<lambda>_. projection_validation current_native_principal_error) (current_principal H t))
        (\<lambda>current. if current \<noteq> pr then Inl (projection_validation current_native_principal_error) else Inr ()))"

definition derive_from_verified_layout ::
  "host_answers \<Rightarrow> worker_principal \<Rightarrow> worker_layout \<Rightarrow> manifest_error + worker_projection" where
  "derive_from_verified_layout H pr l =
     (if wl_scope l \<noteq> UserScope then Inl (projection_validation user_worker_draft_error)
      else if wl_principal l \<noteq> pr then Inl (projection_validation current_native_principal_error)
      else projection_of H pr l)"

definition derive_current_user ::
  "host_answers \<Rightarrow> nat \<Rightarrow> manifest_draft \<Rightarrow> worker_principal \<Rightarrow> manifest_error + worker_projection" where
  "derive_current_user H t base pr =
     and_then (validate_current_user_projection_base H base) (\<lambda>_.
     and_then (validate_current_native_principal H t pr) (\<lambda>_.
     and_then (map_err (\<lambda>_. projection_validation path_representation_error)
        (resolve_worker_directory_layout H t UserScope pr)) (\<lambda>l.
       derive_from_verified_layout H pr l)))"

definition derive_dedicated ::
  "host_answers \<Rightarrow> worker_principal \<Rightarrow> worker_layout \<Rightarrow> manifest_error + worker_projection" where
  "derive_dedicated H pr l =
     (if wp_policy pr \<noteq> DedicatedPolicy \<or> wp_isolation pr \<noteq> DedicatedAccount \<or> wl_scope l \<noteq> SystemScope
         \<or> wl_principal l \<noteq> pr
      then Inl (projection_validation dedicated_principal_error)
      else projection_of H pr l)"

text \<open>The layout and projection of the principal a dedicated account handle gives.\<close>

definition dedicated_projection_for ::
  "host_answers \<Rightarrow> nat \<Rightarrow> worker_principal \<Rightarrow> manifest_error + worker_projection" where
  "dedicated_projection_for H t pr =
     and_then (map_err (\<lambda>_. projection_validation dedicated_worker_paths_error)
        (resolve_worker_directory_layout H t SystemScope pr)) (derive_dedicated H pr)"

text \<open>The draft a projection fixes; the expectations of the source hold after the base check.\<close>

definition projected_draft :: "installation_scope \<Rightarrow> manifest_draft \<Rightarrow> worker_projection \<Rightarrow> manifest_draft" where
  "projected_draft scope base p =
     base\<lparr>installation := map_option (\<lambda>i. i\<lparr>in_scope := scope\<rparr>) (installation base),
          platform := (platform base)\<lparr>pl_os := pj_os p\<rparr>,
          worker_identity := Some (pj_identity p),
          transport := map_option (\<lambda>x. x\<lparr>tr_user := Some (pj_transport_user p)\<rparr>) (transport base),
          paths := pj_paths p\<rparr>"

definition candidate_draft ::
  "crates \<Rightarrow> host_answers \<Rightarrow> nat \<Rightarrow> installation_scope \<Rightarrow> manifest_draft \<Rightarrow> worker_projection \<Rightarrow>
     manifest_error + manifest_draft" where
  "candidate_draft C H t scope base p =
     (let d = projected_draft scope base p
      in and_then (validate C (with_machine_id d (fresh_uuid H t))) (\<lambda>_. Inr d))"

definition current_user_candidate ::
  "crates \<Rightarrow> host_answers \<Rightarrow> nat \<Rightarrow> manifest_draft \<Rightarrow> worker_principal \<Rightarrow> manifest_error + manifest_draft" where
  "current_user_candidate C H t base pr =
     and_then (derive_current_user H t base pr) (candidate_draft C H t UserScope base)"

definition dedicated_candidate ::
  "crates \<Rightarrow> host_answers \<Rightarrow> nat \<Rightarrow> manifest_draft \<Rightarrow> manifest_error + manifest_draft \<times> worker_projection" where
  "dedicated_candidate C H t base =
     (if host_os H = Windows
      then Inl (projection_validation ''dedicated worker execution readiness is unavailable on this host'')
      else and_then (validate_dedicated_projection_base H base) (\<lambda>_.
           and_then (map_err (\<lambda>_. projection_validation dedicated_principal_error) (handle_principal H t)) (\<lambda>pr.
           and_then (dedicated_projection_for H t pr) (\<lambda>p.
           and_then (candidate_draft C H t SystemScope base p) (\<lambda>d. Inr (d, p))))))"

section \<open>Binding a manifest to a projection\<close>

definition same_paths :: "paths_table \<Rightarrow> paths_table \<Rightarrow> bool" where
  "same_paths a b \<longleftrightarrow>
     \<not> (pa_root a \<noteq> pa_root b \<or> pa_repos a \<noteq> pa_repos b \<or> pa_jobs a \<noteq> pa_jobs b \<or> pa_cache a \<noteq> pa_cache b
        \<or> pa_artifacts a \<noteq> pa_artifacts b \<or> pa_logs a \<noteq> pa_logs b)"

definition validate_user_worker_manifest_projection ::
  "machine_manifest \<Rightarrow> worker_identity \<Rightarrow> worker_projection \<Rightarrow> manifest_error + unit" where
  "validate_user_worker_manifest_projection m w p =
     (if pl_os (platform m) \<noteq> pj_os p then invalid user_worker_platform_error
      else and_then (identity_principal w) (\<lambda>pr.
        if pr \<noteq> pj_principal p \<or> wi_mode w \<noteq> wi_mode (pj_identity p)
           \<or> wi_principal_kind w \<noteq> wi_principal_kind (pj_identity p)
           \<or> wi_principal_id w \<noteq> wi_principal_id (pj_identity p) \<or> wi_name w \<noteq> wi_name (pj_identity p)
           \<or> wi_isolation w \<noteq> wi_isolation (pj_identity p)
        then invalid ''manifest worker identity does not match its store principal''
        else if Option.bind (transport m) tr_user \<noteq> Some (pj_transport_user p)
        then invalid ''transport.user must equal worker_identity.name''
        else if \<not> same_paths (paths m) (pj_paths p) then invalid user_worker_paths_error
        else Inr ()))"

definition validate_dedicated_worker_manifest_projection ::
  "machine_manifest \<Rightarrow> worker_identity \<Rightarrow> worker_projection \<Rightarrow> manifest_error + unit" where
  "validate_dedicated_worker_manifest_projection m w p =
     (if pl_os (platform m) \<noteq> pj_os p then invalid dedicated_worker_platform_error
      else and_then (identity_principal w) (\<lambda>pr.
        if pr \<noteq> pj_principal p \<or> wi_mode w \<noteq> DedicatedMode \<or> wi_isolation w \<noteq> DedicatedAccount
        then invalid dedicated_principal_error
        else if Option.bind (transport m) tr_user \<noteq> Some (pj_transport_user p)
        then invalid ''transport.user must equal worker_identity.name''
        else if \<not> same_paths (paths m) (pj_paths p) then invalid dedicated_worker_paths_error
        else Inr ()))"

definition canonical_current_user_store_projection ::
  "host_answers \<Rightarrow> nat \<Rightarrow> worker_principal \<Rightarrow> manifest_error + worker_projection" where
  "canonical_current_user_store_projection H t pr =
     and_then (validate_current_native_principal H t pr) (\<lambda>_.
     and_then (map_err (\<lambda>_. projection_validation user_worker_paths_error)
        (resolve_worker_directory_layout H t UserScope pr)) (\<lambda>l.
       map_err (\<lambda>_. projection_validation user_worker_paths_error) (derive_from_verified_layout H pr l)))"

definition scope_promotion_canonical ::
  "crates \<Rightarrow> toml_api \<Rightarrow> host_answers \<Rightarrow> nat \<Rightarrow> manifest_draft \<Rightarrow> worker_projection \<Rightarrow> uuid \<Rightarrow> manifest_error + string"
where
  "scope_promotion_canonical C T H t d p u =
     (if \<not> is_uuid_v7 C u then invalid ''scope promotion machine ID is invalid''
      else and_then (map_err (\<lambda>_. projection_validation dedicated_principal_error) (handle_principal H t)) (\<lambda>pr.
        if pr \<noteq> pj_principal p then invalid dedicated_principal_error
        else (let m = with_machine_id d u
              in and_then (validate C m) (\<lambda>_.
                 and_then (ok_or (worker_identity m) (ValidationError ''worker_identity is required'')) (\<lambda>w.
                 and_then (validate_dedicated_worker_manifest_projection m w p) (\<lambda>_.
                   to_toml C T m))))))"

section \<open>Facts\<close>

lemma same_paths_iff [simp]: "same_paths a b \<longleftrightarrow> a = b"
  by (cases a; cases b) (auto simp: same_paths_def)

lemma layout_nodes_paths: "node \<in> set (materialization_nodes l) \<longleftrightarrow> path_for_node l node \<noteq> None"
  by (cases node) (auto simp: materialization_nodes_def path_for_node_def)

lemma worker_identity_for_principal:
  assumes "new_worker_principal (wp_kind pr) (wp_id pr) (wp_name pr) (wp_policy pr) = Inr pr"
  shows "identity_principal (worker_identity_for pr) = Inr pr"
  using assms by (cases "wp_policy pr") (simp_all add: identity_principal_iff worker_identity_for_def)

text \<open>A projected draft passes the store's own binding check for the same projection.\<close>

lemma projected_binding:
  assumes "new_worker_principal (wp_kind pr) (wp_id pr) (wp_name pr) (wp_policy pr) = Inr pr"
    and "projection_of H pr l = Inr p" and "transport base \<noteq> None"
  shows "validate_user_worker_manifest_projection (with_machine_id (projected_draft s base p) u)
           (pj_identity p) p = Inr ()"
proof -
  have p: "pj_principal p = pr" "pj_identity p = worker_identity_for pr" "pj_transport_user p = wp_name pr"
    using assms(2) by (auto simp: projection_of_def result_simps)
  obtain x where "transport base = Some x" using assms(3) by blast
  then show ?thesis
    using p worker_identity_for_principal [OF assms(1)]
    by (simp add: validate_user_worker_manifest_projection_def projected_draft_def with_machine_id_def
        manifest_draft.defs)
qed

end
