(* ===== verification/Disk.thy ===== *)
theory Disk
  imports Principal
begin

text \<open>
  An explicit disk for the components that keep files: files, directories and a clock that
  counts native calls. Every native call asks the host whether it fails at that moment, so a
  check that passes once may fail later. A computation on the disk returns a result or an
  error of its component, and the disk it leaves. Paths are lists of names below the root.
\<close>

section \<open>Disk and native calls\<close>

type_synonym path = "string list"

record disk =
  disk_files :: "path \<Rightarrow> string option"
  disk_dirs :: "path set"
  disk_clock :: nat

datatype native_call =
    CallFileTarget path
  | CallVerifySecurity path
  | CallRead path
  | CallOpenVerified path
  | CallStat path
  | CallOpenLock path
  | CallTakeLock path
  | CallParentChain path
  | CallDirectorySecurity path
  | CallAncestors path path
  | CallHardenDirectory path
  | CallHardenFile path
  | CallCreateStaging path
  | CallPublishDirectory path path
  | CallRemoveDirectory path
  | CallCreateFile path
  | CallWrite path
  | CallSync path
  | CallReplace path path
  | CallRemoveFile path
  | CallSyncParent path
  | CallVerifyDirectory path
  | CallVerifyFile path
  | CallFileIdentity path
  | CallHandleIdentity path
  | CallMetadata path
  | CallAdopt path
  | CallPublishFile path path
  | CallHardLink path path

type_synonym host_calls = "nat \<Rightarrow> native_call \<Rightarrow> io_error option"

type_synonym ('e, 'a) disk_op = "disk \<Rightarrow> ('e + 'a) \<times> disk"

definition ok_op :: "'a \<Rightarrow> ('e, 'a) disk_op" where
  "ok_op x = (\<lambda>d. (Inr x, d))"

definition stop :: "'e \<Rightarrow> ('e, 'a) disk_op" where
  "stop e = (\<lambda>d. (Inl e, d))"

definition bind_op :: "('e, 'a) disk_op \<Rightarrow> ('a \<Rightarrow> ('e, 'b) disk_op) \<Rightarrow> ('e, 'b) disk_op" where
  "bind_op m f = (\<lambda>d. case m d of (Inl e, d) \<Rightarrow> (Inl e, d) | (Inr x, d) \<Rightarrow> f x d)"

text \<open>A match on the error of a computation.\<close>

definition recover_op :: "('e, 'a) disk_op \<Rightarrow> ('e \<Rightarrow> ('f, 'a) disk_op) \<Rightarrow> ('f, 'a) disk_op" where
  "recover_op m f = (\<lambda>d. case m d of (Inl e, d) \<Rightarrow> f e d | (Inr x, d) \<Rightarrow> (Inr x, d))"

definition lift :: "'e + 'a \<Rightarrow> ('e, 'a) disk_op" where
  "lift r = (\<lambda>d. (r, d))"

definition at_clock :: "(nat \<Rightarrow> 'e + 'a) \<Rightarrow> ('e, 'a) disk_op" where
  "at_clock f = (\<lambda>d. (f (disk_clock d), d\<lparr>disk_clock := Suc (disk_clock d)\<rparr>))"

text \<open>One native call: it fails with the host's error, or changes the disk.\<close>

definition native ::
  "host_calls \<Rightarrow> (io_error \<Rightarrow> 'e) \<Rightarrow> native_call \<Rightarrow> (disk \<Rightarrow> disk) \<Rightarrow> ('e, unit) disk_op" where
  "native N wrap call change = (\<lambda>d.
     let now = d\<lparr>disk_clock := Suc (disk_clock d)\<rparr>
     in case N (disk_clock d) call of Some e \<Rightarrow> (Inl (wrap e), now) | None \<Rightarrow> (Inr (), change now))"

definition not_found :: io_error where
  "not_found = IoError NotFound ''entity not found''"

definition exists_on :: "disk \<Rightarrow> path \<Rightarrow> bool" where
  "exists_on d p \<longleftrightarrow> disk_files d p \<noteq> None \<or> p \<in> disk_dirs d"

text \<open>
  \<open>symlink_metadata\<close>: whether the path exists. Absence is a fact of the disk, what the host
  reports for this call is a failure of another kind, which is an error.
\<close>

definition stat_path :: "host_calls \<Rightarrow> (io_error \<Rightarrow> 'e) \<Rightarrow> path \<Rightarrow> ('e, bool) disk_op" where
  "stat_path N wrap p = bind_op (native N wrap (CallStat p) id) (\<lambda>_ d. (Inr (exists_on d p), d))"

section \<open>Changes of the disk\<close>

definition make_dir :: "path \<Rightarrow> disk \<Rightarrow> disk" where
  "make_dir p d = d\<lparr>disk_dirs := insert p (disk_dirs d)\<rparr>"

definition drop_dir :: "path \<Rightarrow> disk \<Rightarrow> disk" where
  "drop_dir p d = d\<lparr>disk_dirs := disk_dirs d - {p}\<rparr>"

definition put_file :: "path \<Rightarrow> string \<Rightarrow> disk \<Rightarrow> disk" where
  "put_file p bytes d = d\<lparr>disk_files := (disk_files d)(p \<mapsto> bytes)\<rparr>"

definition move_file :: "path \<Rightarrow> path \<Rightarrow> disk \<Rightarrow> disk" where
  "move_file a b d = d\<lparr>disk_files := (disk_files d)(b := disk_files d a, a := None)\<rparr>"

definition erase_file :: "path \<Rightarrow> disk \<Rightarrow> disk" where
  "erase_file p d = d\<lparr>disk_files := (disk_files d)(p := None)\<rparr>"

definition copy_file :: "path \<Rightarrow> path \<Rightarrow> disk \<Rightarrow> disk" where
  "copy_file a b d = d\<lparr>disk_files := (disk_files d)(b := disk_files d a)\<rparr>"

text \<open>Creating a file that must not exist yet.\<close>

definition create_new :: "host_calls \<Rightarrow> (io_error \<Rightarrow> 'e) \<Rightarrow> path \<Rightarrow> ('e, unit) disk_op" where
  "create_new N wrap p = (\<lambda>d.
     if exists_on d p
     then (Inl (wrap (IoError AlreadyExists ''file exists'')), d\<lparr>disk_clock := Suc (disk_clock d)\<rparr>)
     else native N wrap (CallCreateFile p) (put_file p []) d)"

section \<open>Sequencing\<close>

lemma bind_op_assoc: "bind_op (bind_op m f) g = bind_op m (\<lambda>x. bind_op (f x) g)"
  by (rule ext) (auto simp: bind_op_def split: prod.splits sum.splits)

lemma bind_op_ok [simp]: "bind_op (ok_op x) f = f x"
  by (simp add: bind_op_def ok_op_def)

lemma bind_op_Inr:
  "bind_op m f d = (Inr y, d'') \<longleftrightarrow> (\<exists>x d'. m d = (Inr x, d') \<and> f x d' = (Inr y, d''))"
  by (auto simp: bind_op_def split: prod.splits sum.splits)

lemma bind_op_InrE:
  assumes "bind_op m f d = (Inr y, d'')"
  obtains x d' where "m d = (Inr x, d')" "f x d' = (Inr y, d'')"
  using assms by (auto simp: bind_op_Inr)

lemma bind_op_Inl:
  "bind_op m f d = (Inl e, d'') \<longleftrightarrow>
     m d = (Inl e, d'') \<or> (\<exists>x d'. m d = (Inr x, d') \<and> f x d' = (Inl e, d''))"
  by (auto simp: bind_op_def split: prod.splits sum.splits)

lemma native_cases:
  assumes "native N wrap call change d = (r, d')"
  shows "(\<exists>e. r = Inl (wrap e) \<and> N (disk_clock d) call = Some e \<and> d' = d\<lparr>disk_clock := Suc (disk_clock d)\<rparr>) \<or>
     (r = Inr () \<and> N (disk_clock d) call = None \<and> d' = change (d\<lparr>disk_clock := Suc (disk_clock d)\<rparr>))"
  using assms by (auto simp: native_def Let_def split: option.splits)

section \<open>Operations that leave a file alone\<close>

named_theorems keeps_rules \<open>operations that do not touch a given file\<close>

definition keeps :: "path \<Rightarrow> ('e, 'a) disk_op \<Rightarrow> bool" where
  "keeps p m \<longleftrightarrow> (\<forall>d. disk_files (snd (m d)) p = disk_files d p)"

lemma keepsD: "keeps p m \<Longrightarrow> m d = (r, d') \<Longrightarrow> disk_files d' p = disk_files d p"
  by (metis keeps_def snd_conv)

lemma keeps_ok [keeps_rules]: "keeps p (ok_op x)"
  by (simp add: keeps_def ok_op_def)

lemma keeps_stop [keeps_rules]: "keeps p (stop e)"
  by (simp add: keeps_def stop_def)

lemma keeps_lift [keeps_rules]: "keeps p (lift r)"
  by (simp add: keeps_def lift_def)

lemma keeps_at_clock [keeps_rules]: "keeps p (at_clock f)"
  by (simp add: keeps_def at_clock_def)

lemma keeps_bind [keeps_rules]: "keeps p m \<Longrightarrow> (\<And>x. keeps p (f x)) \<Longrightarrow> keeps p (bind_op m f)"
  by (auto simp: keeps_def bind_op_def split: prod.splits sum.splits) (metis snd_conv)+

lemma keeps_native [keeps_rules]:
  "(\<And>d. disk_files (change d) p = disk_files d p) \<Longrightarrow> keeps p (native N wrap call change)"
  by (simp add: keeps_def native_def Let_def split: option.splits)

lemma keeps_stat [keeps_rules]: "keeps p (stat_path N wrap q)"
  unfolding stat_path_def by (intro keeps_bind keeps_native) (simp_all add: keeps_def)

lemma files_dirs [simp]:
  "disk_files (make_dir q d) = disk_files d" "disk_files (drop_dir q d) = disk_files d"
  by (simp_all add: make_dir_def drop_dir_def)

lemma keeps_create_new [keeps_rules]: "q \<noteq> p \<Longrightarrow> keeps q (create_new N wrap p)"
  by (auto simp: keeps_def create_new_def native_def put_file_def Let_def split: option.splits)

lemma keeps_recover [keeps_rules]:
  "keeps p m \<Longrightarrow> (\<And>e. keeps p (f e)) \<Longrightarrow> keeps p (recover_op m f)"
  by (auto simp: keeps_def recover_op_def split: prod.splits sum.splits) (metis snd_conv)+

lemma keeps_if [keeps_rules]: "keeps p a \<Longrightarrow> keeps p b \<Longrightarrow> keeps p (if c then a else b)"
  by simp

lemma file_changes [simp]:
  "p \<noteq> b \<Longrightarrow> disk_files (put_file b x d) p = disk_files d p"
  "p \<noteq> b \<Longrightarrow> disk_files (copy_file a b d) p = disk_files d p"
  "p \<noteq> a \<Longrightarrow> p \<noteq> b \<Longrightarrow> disk_files (move_file a b d) p = disk_files d p"
  "p \<noteq> b \<Longrightarrow> disk_files (erase_file b d) p = disk_files d p"
  by (simp_all add: put_file_def copy_file_def move_file_def erase_file_def)

text \<open>Published files never have a name that starts with a dot, staging and lock files always do.\<close>

definition identity_file :: "path \<Rightarrow> bool" where
  "identity_file p \<longleftrightarrow> p \<noteq> [] \<and> \<not> starts_with ''.'' (last p)"

definition dotted :: "path \<Rightarrow> bool" where
  "dotted p \<longleftrightarrow> p \<noteq> [] \<and> starts_with ''.'' (last p)"

lemma dotted_differs: "identity_file p \<Longrightarrow> dotted q \<Longrightarrow> p \<noteq> q"
  by (auto simp: identity_file_def dotted_def)

section \<open>Files replaced as a whole\<close>

text \<open>
  The contract of a writer that replaces a file: whatever happens the file is the old one or
  the rendered value, and it is the rendered value when the writer succeeds. The client reads,
  decides and writes under a lock.
\<close>

definition update_with ::
  "('e, 'x) disk_op \<Rightarrow> ('x \<Rightarrow> 'e + 'y \<times> 'v option) \<Rightarrow> ('v \<Rightarrow> ('e, unit) disk_op) \<Rightarrow> ('e, 'y) disk_op" where
  "update_with get decide put =
     bind_op get (\<lambda>x. bind_op (lift (decide x)) (\<lambda>(y, v).
       bind_op (case v of None \<Rightarrow> ok_op () | Some v \<Rightarrow> put v) (\<lambda>_. ok_op y)))"

locale atomic_file =
  fixes target :: path
    and put :: "'v \<Rightarrow> ('e, unit) disk_op"
    and render :: "'v \<Rightarrow> string option"
  assumes write_atomic: "put v d = (r, d') \<Longrightarrow>
      disk_files d' target = disk_files d target \<or> (\<exists>t. render v = Some t \<and> disk_files d' target = Some t)"
    and write_done: "put v d = (Inr (), d') \<Longrightarrow> \<exists>t. render v = Some t \<and> disk_files d' target = Some t"
begin

lemma update_atomic:
  assumes "keeps target get" "update_with get decide put d = (r, d')"
  shows "disk_files d' target = disk_files d target \<or>
    (\<exists>x d1 y v t. get d = (Inr x, d1) \<and> decide x = Inr (y, Some v) \<and> render v = Some t \<and> disk_files d' target = Some t)"
proof (cases "get d")
  case (Pair q d1)
  have d1: "disk_files d1 target = disk_files d target" using keepsD [OF assms(1) Pair] .
  show ?thesis
  proof (cases q)
    case (Inl e)
    then show ?thesis using assms(2) Pair d1 by (simp add: update_with_def bind_op_def)
  next
    case (Inr x)
    show ?thesis
    proof (cases "decide x")
      case (Inl e)
      then show ?thesis using assms(2) Pair Inr d1 by (simp add: update_with_def bind_op_def lift_def)
    next
      case dec: (Inr yv)
      then obtain y v where yv: "decide x = Inr (y, v)" by (cases yv) auto
      show ?thesis
      proof (cases v)
        case None
        then show ?thesis using assms(2) Pair Inr d1 yv by (simp add: update_with_def bind_op_def lift_def ok_op_def)
      next
        case (Some w)
        obtain s d2 where w: "put w d1 = (s, d2)" by force
        then have "d' = d2" using assms(2) Pair Inr yv Some
          by (auto simp: update_with_def bind_op_def lift_def ok_op_def split: sum.splits)
        then show ?thesis using write_atomic [OF w] d1 Pair Inr yv Some by auto
      qed
    qed
  qed
qed

lemma update_done:
  assumes "keeps target get" "update_with get decide put d = (Inr y, d')"
  shows "\<exists>x d1 v. get d = (Inr x, d1) \<and> decide x = Inr (y, v) \<and>
    (case v of None \<Rightarrow> disk_files d' target = disk_files d target
     | Some v \<Rightarrow> (\<exists>t. render v = Some t \<and> disk_files d' target = Some t))"
proof -
  obtain x d1 where x: "get d = (Inr x, d1)"
    and rest: "bind_op (lift (decide x)) (\<lambda>(y, v). bind_op (case v of None \<Rightarrow> ok_op () | Some v \<Rightarrow> put v) (\<lambda>_. ok_op y)) d1 = (Inr y, d')"
    using assms(2) unfolding update_with_def by (rule bind_op_InrE)
  then obtain v where v: "decide x = Inr (y, v)" "bind_op (case v of None \<Rightarrow> ok_op () | Some v \<Rightarrow> put v) (\<lambda>_. ok_op y) d1 = (Inr y, d')"
    by (auto simp: bind_op_Inr lift_def ok_op_def)
  show ?thesis
  proof (cases v)
    case None
    then show ?thesis using x v keepsD [OF assms(1) x] by (auto simp: ok_op_def bind_op_def)
  next
    case (Some w)
    then have "put w d1 = (Inr (), d')" using v(2) by (auto simp: bind_op_Inr ok_op_def)
    from write_done [OF this] show ?thesis using x v(1) Some by auto
  qed
qed

end

end
