(* ===== verification/ManifestStore.thy ===== *)
theory ManifestStore
  imports WorkerLayout Disk
begin

text \<open>
  The manifest store (\<open>MachineManifestStore\<close> in \<open>src/manifest/mod.rs\<close>) on an explicit disk:
  directories, files and a clock that counts native calls. Every native call asks the host
  (\<open>host_calls\<close>) whether it fails now, so a check that passes once may fail later. Paths are
  lists of names below the root; only the destination policy looks at the path's text.
  The operations are the Unix build's.
\<close>

type_synonym 'a op = "(manifest_error, 'a) disk_op"

definition read_text :: "host_calls \<Rightarrow> path \<Rightarrow> string op" where
  "read_text N p = bind_op (native N ReadError (CallRead p) id) (\<lambda>_ d.
     (case disk_files d p of
        None \<Rightarrow> (Inl (ReadError not_found), d)
      | Some bytes \<Rightarrow>
          if utf8_valid bytes then (Inr bytes, d)
          else (Inl (ReadError (IoError InvalidData ''stream did not contain valid UTF-8'')), d)))"

section \<open>The store\<close>

datatype destination_origin = CanonicalDestination | OverrideDestination

datatype layout_binding = PrincipalOnly | CanonicalCurrentUser | CanonicalDedicated

record manifest_store =
  st_scope :: installation_scope
  st_principal :: worker_principal
  st_path_text :: string
  st_path :: path
  st_trusted_root :: path
  st_origin :: destination_origin
  st_binding :: layout_binding

text \<open>What the model runs against: crates, TOML, host answers and host calls.\<close>

record world =
  w_crates :: crates
  w_toml :: toml_api
  w_host :: host_answers
  w_calls :: host_calls

definition no_parent_error :: manifest_error where
  "no_parent_error = ValidationError ''manifest path has no parent directory''"

definition destination_error :: manifest_error where
  "destination_error = ValidationError
     ''manifest destination must be a normalized dedicated directory for its installation scope''"

definition render_path :: "path \<Rightarrow> string" where
  "render_path p = CHR ''/'' # join_with (CHR ''/'') p"

definition is_broad_system_root :: "operating_system \<Rightarrow> path \<Rightarrow> bool" where
  "is_broad_system_root os dir \<longleftrightarrow>
     os = Macos \<and> eq_ignore_ascii_case (render_path dir) ''/Library/Application Support''"

text \<open>
  A path is normalized when it is absolute, has no dot components and prints as it is
  written, which is that it is the text of its names.
\<close>

definition validate_destination_policy :: "world \<Rightarrow> manifest_store \<Rightarrow> manifest_error + path" where
  "validate_destination_policy W s =
     (if st_path s = [] then Inl no_parent_error
      else (let dir = butlast (st_path s);
                invalid_common = (\<not> starts_with ''/'' (st_path_text s)
                  \<or> list_ex (\<lambda>c. c \<in> {''.'', ''..''}) (st_path s)
                  \<or> render_path (st_path s) \<noteq> st_path_text s \<or> length dir < 2);
                invalid_scope_root = (case st_scope s of
                    SystemScope \<Rightarrow> dir \<noteq> st_trusted_root s
                  | UserScope \<Rightarrow>
                      if st_origin s = OverrideDestination then dir \<noteq> st_trusted_root s
                      else butlast dir \<noteq> st_trusted_root s);
                invalid_system = (st_scope s = SystemScope \<and> is_broad_system_root (host_os (w_host W)) dir)
            in if invalid_common \<or> invalid_scope_root \<or> invalid_system then Inl destination_error
               else Inr dir))"

definition not_current_caller :: manifest_error where
  "not_current_caller =
     CallerIdentityError (IoError PermissionDenied ''user manifest principal is not the current caller'')"

definition verify_bound_principal :: "world \<Rightarrow> manifest_store \<Rightarrow> nat \<Rightarrow> manifest_error + unit" where
  "verify_bound_principal W s t =
     and_then (map_err CallerIdentityError (answered (principal_verified (w_host W) t (st_principal s)))) (\<lambda>_.
       if st_scope s = UserScope
       then and_then (map_err CallerIdentityError (current_principal (w_host W) t)) (\<lambda>current.
              if current \<noteq> st_principal s then Inl not_current_caller else Inr ())
       else Inr ())"

definition dedicated_binding ::
  "world \<Rightarrow> nat \<Rightarrow> machine_manifest \<Rightarrow> worker_identity \<Rightarrow> manifest_error + unit" where
  "dedicated_binding W t m w =
     and_then (map_err (\<lambda>_. projection_validation dedicated_principal_error) (handle_principal (w_host W) t)) (\<lambda>pr.
     and_then (dedicated_projection_for (w_host W) t pr) (\<lambda>p.
       validate_dedicated_worker_manifest_projection m w p))"

definition validate_manifest_binding ::
  "world \<Rightarrow> manifest_store \<Rightarrow> nat \<Rightarrow> machine_manifest \<Rightarrow> manifest_error + unit" where
  "validate_manifest_binding W s t m =
     and_then (ok_or (installation m) (ValidationError ''installation is required'')) (\<lambda>inst.
       if in_scope inst \<noteq> st_scope s
       then invalid ''manifest installation scope does not match its store''
       else if WorkerRole \<notin> set (roles m) then Inr ()
       else and_then (ok_or (worker_identity m) (ValidationError ''worker_identity is required'')) (\<lambda>w.
         case st_binding s of
           PrincipalOnly \<Rightarrow>
             and_then (identity_principal w) (\<lambda>pr.
               if pr \<noteq> st_principal s
               then invalid ''manifest worker identity does not match its store principal''
               else Inr ())
         | CanonicalCurrentUser \<Rightarrow>
             and_then (canonical_current_user_store_projection (w_host W) t (st_principal s)) (\<lambda>p.
               validate_user_worker_manifest_projection m w p)
         | CanonicalDedicated \<Rightarrow> dedicated_binding W t m w))"

text \<open>The constructors of a store; the destination and the principal are checked at once.\<close>

definition checked_store :: "world \<Rightarrow> manifest_store \<Rightarrow> nat \<Rightarrow> manifest_error + manifest_store" where
  "checked_store W s t =
     and_then (validate_destination_policy W s) (\<lambda>_. and_then (verify_bound_principal W s t) (\<lambda>_. Inr s))"

definition store_at ::
  "installation_scope \<Rightarrow> worker_principal \<Rightarrow> string \<Rightarrow> path \<Rightarrow> destination_origin \<Rightarrow> layout_binding \<Rightarrow> manifest_store"
where
  "store_at scope pr path_text trusted origin binding =
     \<lparr>st_scope = scope, st_principal = pr, st_path_text = path_text,
      st_path = normal_components path_text, st_trusted_root = trusted, st_origin = origin,
      st_binding = binding\<rparr>"

definition new_system :: "world \<Rightarrow> nat \<Rightarrow> string \<Rightarrow> worker_principal \<Rightarrow> manifest_error + manifest_store" where
  "new_system W t path_text pr =
     (if wp_policy pr = DedicatedPolicy then invalid dedicated_principal_error
      else checked_store W (store_at SystemScope pr path_text (butlast (normal_components path_text))
             OverrideDestination PrincipalOnly) t)"

definition canonical_system_path :: "operating_system \<Rightarrow> string" where
  "canonical_system_path os =
     (case os of
        Linux \<Rightarrow> ''/etc/styrn/machine.toml''
      | Macos \<Rightarrow> ''/Library/Application Support/Styrn/machine.toml''
      | Windows \<Rightarrow> ''C:'' @ [CHR 0x5C] @ ''ProgramData'' @ [CHR 0x5C] @ ''Styrn'' @ [CHR 0x5C] @ ''machine.toml'')"

definition new_system_dedicated :: "world \<Rightarrow> nat \<Rightarrow> worker_projection \<Rightarrow> manifest_error + manifest_store" where
  "new_system_dedicated W t p =
     (let path_text = canonical_system_path (host_os (w_host W))
      in checked_store W (store_at SystemScope (pj_principal p) path_text
           (butlast (normal_components path_text)) CanonicalDestination CanonicalDedicated) t)"

definition new_user :: "world \<Rightarrow> nat \<Rightarrow> string \<Rightarrow> worker_principal \<Rightarrow> manifest_error + manifest_store" where
  "new_user W t path_text pr =
     checked_store W (store_at UserScope pr path_text (butlast (butlast (normal_components path_text)))
       CanonicalDestination CanonicalCurrentUser) t"

definition new_user_override :: "world \<Rightarrow> nat \<Rightarrow> string \<Rightarrow> worker_principal \<Rightarrow> manifest_error + manifest_store" where
  "new_user_override W t path_text pr =
     checked_store W (store_at UserScope pr path_text (butlast (normal_components path_text))
       OverrideDestination CanonicalCurrentUser) t"

section \<open>Preparing the destination\<close>

definition leaf_name :: "string \<Rightarrow> path \<Rightarrow> string" where
  "leaf_name fallback p = (if p = [] then fallback else if utf8_valid (last p) then last p else fallback)"

definition harden_directory :: "world \<Rightarrow> path \<Rightarrow> unit op" where
  "harden_directory W p = native (w_calls W) WriteError (CallHardenDirectory p) id"

text \<open>The walk up from the trusted root to the first directory that exists, outermost last.\<close>

fun missing_ancestors :: "world \<Rightarrow> nat \<Rightarrow> path \<Rightarrow> path list op" where
  "missing_ancestors W 0 p =
     bind_op (stat_path (w_calls W) ReadError p) (\<lambda>there.
       if there then bind_op (native (w_calls W) SecurityError (CallAncestors p p) id) (\<lambda>_. ok_op [])
       else stop (ValidationError ''user manifest trusted root has no existing ancestor''))"
| "missing_ancestors W (Suc n) p =
     bind_op (stat_path (w_calls W) ReadError p) (\<lambda>there.
       if there then bind_op (native (w_calls W) SecurityError (CallAncestors p p) id) (\<lambda>_. ok_op [])
       else bind_op (missing_ancestors W n (butlast p)) (\<lambda>more. ok_op (p # more)))"

text \<open>A directory another process made meanwhile is verified instead.\<close>

definition create_root_directory :: "world \<Rightarrow> path \<Rightarrow> unit op" where
  "create_root_directory W p = (\<lambda>d.
     case (if exists_on d p then Some (IoError AlreadyExists ''file exists'')
           else w_calls W (disk_clock d) (CallCreateStaging p)) of
       Some e \<Rightarrow>
         (if io_error_kind e = AlreadyExists
          then native (w_calls W) SecurityError (CallAncestors p p) id
          else stop (WriteError e)) (d\<lparr>disk_clock := Suc (disk_clock d)\<rparr>)
     | None \<Rightarrow>
         bind_op (harden_directory W p) (\<lambda>_. native (w_calls W) WriteError (CallSyncParent (butlast p)) id)
           (make_dir p (d\<lparr>disk_clock := Suc (disk_clock d)\<rparr>)))"

fun run_all :: "('a \<Rightarrow> unit op) \<Rightarrow> 'a list \<Rightarrow> unit op" where
  "run_all f [] = ok_op ()"
| "run_all f (x # xs) = bind_op (f x) (\<lambda>_. run_all f xs)"

definition prepare_user_trusted_root :: "world \<Rightarrow> manifest_store \<Rightarrow> unit op" where
  "prepare_user_trusted_root W s =
     bind_op (missing_ancestors W (length (st_trusted_root s)) (st_trusted_root s)) (\<lambda>missing.
       run_all (create_root_directory W) (rev missing))"

definition staging_name :: "world \<Rightarrow> path \<Rightarrow> string \<Rightarrow> nat \<Rightarrow> path" where
  "staging_name W dir leaf t =
     dir @ [''.'' @ leaf @ ''.'' @ uuid_text (w_crates W) (fresh_uuid (w_host W) t) @ ''.tmp'']"

definition create_and_publish_directory :: "world \<Rightarrow> path \<Rightarrow> unit op" where
  "create_and_publish_directory W dest =
     (if dest = [] then stop (ValidationError ''manifest directory must be below an existing parent'')
      else bind_op (at_clock (\<lambda>t. Inr (staging_name W (butlast dest) (leaf_name ''styrn'' dest) t))) (\<lambda>staging.
        bind_op (native (w_calls W) WriteError (CallCreateStaging staging) (make_dir staging)) (\<lambda>_ d.
          case bind_op (harden_directory W staging) (\<lambda>_.
                 native (w_calls W) WriteError (CallPublishDirectory staging dest)
                   (make_dir dest \<circ> drop_dir staging)) d of
            (Inr _, d) \<Rightarrow> (Inr (), d)
          | (Inl operation, d) \<Rightarrow>
              (case native (w_calls W) WriteError (CallRemoveDirectory staging) (drop_dir staging) d of
                 (Inr _, d) \<Rightarrow> (Inl operation, d)
               | (Inl (WriteError cleanup), d) \<Rightarrow> (Inl (StagingDirectoryCleanup operation cleanup), d)
               | (Inl e, d) \<Rightarrow> (Inl e, d)))))"

definition prepare_destination :: "world \<Rightarrow> manifest_store \<Rightarrow> path \<Rightarrow> unit op" where
  "prepare_destination W s dir =
     bind_op (if st_scope s = UserScope then prepare_user_trusted_root W s else ok_op ()) (\<lambda>_.
     bind_op (stat_path (w_calls W) WriteError dir) (\<lambda>there.
       if st_scope s = SystemScope
       then bind_op (native (w_calls W) WriteError (CallParentChain (butlast dir)) id) (\<lambda>_.
              if \<not> there then create_and_publish_directory W dir
              else if st_origin s = OverrideDestination
              then native (w_calls W) WriteError (CallDirectorySecurity dir) id
              else harden_directory W dir)
       else bind_op (if \<not> there then create_and_publish_directory W dir else ok_op ()) (\<lambda>_.
            bind_op (native (w_calls W) WriteError (CallAncestors dir (st_trusted_root s)) id) (\<lambda>_.
              if st_origin s = OverrideDestination \<and> there
              then native (w_calls W) WriteError (CallDirectorySecurity dir) id
              else if there then harden_directory W dir else ok_op ()))))"

definition acquire_mutation_lock :: "world \<Rightarrow> manifest_store \<Rightarrow> unit op" where
  "acquire_mutation_lock W s =
     bind_op (lift (validate_destination_policy W s)) (\<lambda>dir.
     bind_op (at_clock (verify_bound_principal W s)) (\<lambda>_.
     bind_op (prepare_destination W s dir) (\<lambda>_.
       let lock = dir @ [''.'' @ leaf_name ''machine.toml'' (st_path s) @ ''.lock'']
       in bind_op (native (w_calls W) WriteError (CallOpenLock lock)
            (\<lambda>d. if disk_files d lock = None then d\<lparr>disk_files := (disk_files d)(lock \<mapsto> [])\<rparr> else d)) (\<lambda>_.
          native (w_calls W) WriteError (CallTakeLock lock) id))))"

section \<open>Writing\<close>

definition revalidate_manifest_before_replace ::
  "world \<Rightarrow> manifest_store \<Rightarrow> machine_manifest \<Rightarrow> nat \<Rightarrow> manifest_error + unit" where
  "revalidate_manifest_before_replace W s m t =
     and_then (case st_binding s of
                 PrincipalOnly \<Rightarrow> verify_bound_principal W s t
               | CanonicalCurrentUser \<Rightarrow>
                   map_err (\<lambda>_. projection_validation current_native_principal_error) (verify_bound_principal W s t)
               | CanonicalDedicated \<Rightarrow>
                   map_err (\<lambda>_. projection_validation dedicated_principal_error) (verify_bound_principal W s t))
       (\<lambda>_. validate_manifest_binding W s t m)"

definition temporary_name :: "world \<Rightarrow> manifest_store \<Rightarrow> nat \<Rightarrow> path" where
  "temporary_name W s t =
     staging_name W (butlast (st_path s)) (leaf_name ''machine.toml'' (st_path s)) t"

definition create_private_file :: "world \<Rightarrow> path \<Rightarrow> unit op" where
  "create_private_file W p = create_new (w_calls W) WriteError p"

definition write_manifest :: "world \<Rightarrow> manifest_store \<Rightarrow> machine_manifest \<Rightarrow> unit op" where
  "write_manifest W s m =
     (if st_path s = [] then stop no_parent_error
      else bind_op (at_clock (\<lambda>t. Inr (temporary_name W s t))) (\<lambda>tmp d.
        case bind_op (create_private_file W tmp) (\<lambda>_.
             bind_op (lift (to_toml (w_crates W) (w_toml W) m)) (\<lambda>text.
             bind_op (native (w_calls W) WriteError (CallWrite tmp) (put_file tmp text)) (\<lambda>_.
             bind_op (native (w_calls W) WriteError (CallSync tmp) id) (\<lambda>_.
             bind_op (native (w_calls W) WriteError (CallHardenFile tmp) id) (\<lambda>_.
             bind_op (at_clock (revalidate_manifest_before_replace W s m)) (\<lambda>_.
             bind_op (native (w_calls W) WriteError (CallReplace tmp (st_path s)) (move_file tmp (st_path s))) (\<lambda>_.
               native (w_calls W) PostReplaceSecurityError (CallVerifySecurity (st_path s)) id))))))) d of
          (Inr _, d) \<Rightarrow> (Inr (), d)
        | (Inl e, d) \<Rightarrow>
            (Inl e, snd (native (w_calls W) WriteError (CallRemoveFile tmp) (erase_file tmp) d))))"

section \<open>Reading\<close>

record read_outcome =
  ro_manifest :: machine_manifest
  ro_minted :: bool

definition parse_id :: "crates \<Rightarrow> raw_machine_manifest \<Rightarrow> manifest_error + uuid option" where
  "parse_id C raw =
     (case raw_machine_id_text raw of
        None \<Rightarrow> Inr None
      | Some t \<Rightarrow> and_then (parse_canonical_uuid C t) (\<lambda>u. Inr (Some u)))"

text \<open>Validation and binding of a candidate, at one moment.\<close>

definition accept :: "world \<Rightarrow> manifest_store \<Rightarrow> machine_manifest \<Rightarrow> unit op" where
  "accept W s m =
     bind_op (lift (validate (w_crates W) m)) (\<lambda>_. at_clock (\<lambda>t. validate_manifest_binding W s t m))"

text \<open>The raw manifest in the file, after the checks every reader of the text makes.\<close>

definition checked_raw ::
  "world \<Rightarrow> manifest_store \<Rightarrow> (io_error \<Rightarrow> manifest_error) \<Rightarrow> raw_machine_manifest op" where
  "checked_raw W s wrap =
     bind_op (native (w_calls W) wrap (CallFileTarget (st_path s)) id) (\<lambda>_.
     bind_op (native (w_calls W) SecurityError (CallVerifySecurity (st_path s)) id) (\<lambda>_.
     bind_op (read_text (w_calls W) (st_path s)) (\<lambda>text. lift (parse_raw (w_toml W) text))))"

definition entry_checks :: "world \<Rightarrow> manifest_store \<Rightarrow> unit op" where
  "entry_checks W s =
     bind_op (lift (validate_destination_policy W s)) (\<lambda>_. at_clock (verify_bound_principal W s))"

definition read_manifest :: "world \<Rightarrow> manifest_store \<Rightarrow> read_outcome op" where
  "read_manifest W s =
     bind_op (entry_checks W s) (\<lambda>_.
     bind_op (checked_raw W s SecurityError) (\<lambda>raw.
     bind_op (lift (parse_id (w_crates W) raw)) (\<lambda>i.
     bind_op (lift (ok_or i (ValidationError machine_id_required))) (\<lambda>u.
       let m = into_manifest raw u
       in bind_op (accept W s m) (\<lambda>_. ok_op \<lparr>ro_manifest = m, ro_minted = False\<rparr>)))))"

definition is_missing_machine_id_error :: "manifest_error \<Rightarrow> bool" where
  "is_missing_machine_id_error e \<longleftrightarrow> e = ValidationError machine_id_required"

definition id_or_fresh :: "world \<Rightarrow> uuid option \<Rightarrow> uuid op" where
  "id_or_fresh W i =
     (case i of Some u \<Rightarrow> ok_op u | None \<Rightarrow> at_clock (\<lambda>t. Inr (fresh_uuid (w_host W) t)))"

definition reconcile_locked :: "world \<Rightarrow> manifest_store \<Rightarrow> read_outcome op" where
  "reconcile_locked W s =
     bind_op (checked_raw W s WriteError) (\<lambda>raw.
     bind_op (lift (parse_id (w_crates W) raw)) (\<lambda>i.
     bind_op (id_or_fresh W i) (\<lambda>u.
       let m = into_manifest raw u
       in bind_op (accept W s m) (\<lambda>_.
          bind_op (write_manifest W s m) (\<lambda>_.
            ok_op \<lparr>ro_manifest = m, ro_minted = (i = None)\<rparr>)))))"

definition preflight_document_binding :: "world \<Rightarrow> manifest_store \<Rightarrow> bool \<Rightarrow> unit op" where
  "preflight_document_binding W s allow_missing_id =
     bind_op (entry_checks W s) (\<lambda>_.
     bind_op (checked_raw W s SecurityError) (\<lambda>raw.
     bind_op (lift (parse_id (w_crates W) raw)) (\<lambda>i.
       if \<not> allow_missing_id \<and> i = None then stop (ValidationError machine_id_required)
       else bind_op (id_or_fresh W i) (\<lambda>u. accept W s (into_manifest raw u)))))"

definition with_mutation_lock :: "world \<Rightarrow> manifest_store \<Rightarrow> 'a op \<Rightarrow> 'a op" where
  "with_mutation_lock W s operation = bind_op (acquire_mutation_lock W s) (\<lambda>_. operation)"

definition recover_missing :: "'a op \<Rightarrow> 'a op \<Rightarrow> 'a op" where
  "recover_missing m recover = (\<lambda>d.
     case m d of
       (Inr x, d) \<Rightarrow> (Inr x, d)
     | (Inl e, d) \<Rightarrow> if is_missing_machine_id_error e then recover d else (Inl e, d))"

definition locked_repair :: "world \<Rightarrow> manifest_store \<Rightarrow> read_outcome op" where
  "locked_repair W s =
     bind_op (preflight_document_binding W s True) (\<lambda>_.
       with_mutation_lock W s (recover_missing (read_manifest W s) (reconcile_locked W s)))"

definition read_or_reconcile_missing_machine_id :: "world \<Rightarrow> manifest_store \<Rightarrow> read_outcome op" where
  "read_or_reconcile_missing_machine_id W s = recover_missing (read_manifest W s) (locked_repair W s)"

definition reconcile :: "world \<Rightarrow> manifest_store \<Rightarrow> read_outcome op" where
  "reconcile W s =
     bind_op (preflight_document_binding W s True) (\<lambda>_. with_mutation_lock W s (reconcile_locked W s))"

text \<open>Exact absence of the file is \<open>None\<close>; every other failure is an error.\<close>

definition open_existing :: "world \<Rightarrow> manifest_store \<Rightarrow> machine_manifest option op" where
  "open_existing W s = (\<lambda>d.
     let now = d\<lparr>disk_clock := Suc (disk_clock d)\<rparr>
     in case (case w_calls W (disk_clock d) (CallOpenVerified (st_path s)) of
                Some e \<Rightarrow> Some e
              | None \<Rightarrow> if disk_files d (st_path s) = None then Some not_found else None) of
          Some e \<Rightarrow> (if io_error_kind e = NotFound then Inr None else Inl (SecurityError e), now)
        | None \<Rightarrow>
            bind_op (read_text (w_calls W) (st_path s)) (\<lambda>text.
            bind_op (lift (parse_toml (w_crates W) (w_toml W) text)) (\<lambda>m.
            bind_op (at_clock (\<lambda>t. validate_manifest_binding W s t m)) (\<lambda>_. ok_op (Some m)))) now)"

definition read_optional_for_setup :: "world \<Rightarrow> manifest_store \<Rightarrow> machine_manifest option op" where
  "read_optional_for_setup W s = bind_op (entry_checks W s) (\<lambda>_. open_existing W s)"

section \<open>Generated manifests and pending publication\<close>

definition existing_machine_id_for_generated :: "world \<Rightarrow> manifest_store \<Rightarrow> uuid option op" where
  "existing_machine_id_for_generated W s =
     bind_op (stat_path (w_calls W) ReadError (st_path s)) (\<lambda>there.
       if \<not> there then ok_op None
       else bind_op (checked_raw W s WriteError) (\<lambda>raw.
            bind_op (lift (parse_id (w_crates W) raw)) (\<lambda>i.
            bind_op (id_or_fresh W i) (\<lambda>u.
            bind_op (accept W s (into_manifest raw u)) (\<lambda>_. ok_op (Some u))))))"

definition write_generated :: "world \<Rightarrow> manifest_store \<Rightarrow> manifest_draft \<Rightarrow> uuid op" where
  "write_generated W s draft =
     bind_op (id_or_fresh W None) (\<lambda>trial.
     bind_op (accept W s (with_machine_id draft trial)) (\<lambda>_.
       with_mutation_lock W s
         (bind_op (existing_machine_id_for_generated W s) (\<lambda>found.
          bind_op (id_or_fresh W found) (\<lambda>u.
          bind_op (accept W s (with_machine_id draft u)) (\<lambda>_.
          bind_op (write_manifest W s (with_machine_id draft u)) (\<lambda>_. ok_op u)))))))"

record pending_session =
  ps_current :: "machine_manifest option"
  ps_canonical :: "string option"

record pending_candidate =
  pc_manifest :: machine_manifest
  pc_canonical :: string

definition begin_pending_publication :: "world \<Rightarrow> manifest_store \<Rightarrow> pending_session op" where
  "begin_pending_publication W s =
     bind_op (acquire_mutation_lock W s) (\<lambda>_.
     bind_op (open_existing W s) (\<lambda>current.
     bind_op (lift (case current of
                      None \<Rightarrow> Inr None
                    | Some m \<Rightarrow> and_then (to_toml (w_crates W) (w_toml W) m) (\<lambda>t. Inr (Some t)))) (\<lambda>canonical.
       ok_op \<lparr>ps_current = current, ps_canonical = canonical\<rparr>)))"

definition accepted_candidate :: "world \<Rightarrow> manifest_store \<Rightarrow> machine_manifest \<Rightarrow> pending_candidate op" where
  "accepted_candidate W s m =
     bind_op (accept W s m) (\<lambda>_.
     bind_op (lift (to_toml (w_crates W) (w_toml W) m)) (\<lambda>canonical.
       ok_op \<lparr>pc_manifest = m, pc_canonical = canonical\<rparr>))"

definition pending_candidate_for ::
  "world \<Rightarrow> manifest_store \<Rightarrow> pending_session \<Rightarrow> manifest_draft \<Rightarrow> pending_candidate op" where
  "pending_candidate_for W s session draft =
     bind_op (id_or_fresh W (map_option machine_id (ps_current session))) (\<lambda>u.
       accepted_candidate W s (with_machine_id draft u))"

definition promotion_candidate ::
  "world \<Rightarrow> manifest_store \<Rightarrow> manifest_draft \<Rightarrow> uuid \<Rightarrow> pending_candidate op" where
  "promotion_candidate W s draft u =
     (if st_scope s \<noteq> SystemScope \<or> \<not> is_uuid_v7 (w_crates W) u
      then stop (ValidationError ''scope promotion candidate is invalid'')
      else accepted_candidate W s (with_machine_id draft u))"

definition stored_candidate :: "world \<Rightarrow> manifest_store \<Rightarrow> string \<Rightarrow> pending_candidate op" where
  "stored_candidate W s canonical =
     bind_op (lift (parse_toml (w_crates W) (w_toml W) canonical)) (\<lambda>m.
     bind_op (at_clock (\<lambda>t. validate_manifest_binding W s t m)) (\<lambda>_.
     bind_op (lift (to_toml (w_crates W) (w_toml W) m)) (\<lambda>text.
       if text \<noteq> canonical then stop (ValidationError ''prepared manifest candidate is not canonical'')
       else ok_op \<lparr>pc_manifest = m, pc_canonical = canonical\<rparr>)))"

definition synchronize_parent :: "world \<Rightarrow> manifest_store \<Rightarrow> unit op" where
  "synchronize_parent W s =
     (if st_path s = [] then stop no_parent_error
      else native (w_calls W) WriteError (CallSyncParent (butlast (st_path s))) id)"

definition publish :: "world \<Rightarrow> manifest_store \<Rightarrow> pending_candidate \<Rightarrow> unit op" where
  "publish W s candidate =
     bind_op (write_manifest W s (pc_manifest candidate)) (\<lambda>_. synchronize_parent W s)"

section \<open>Operations that leave a file alone\<close>

lemma keeps_read_text [keeps_rules]: "keeps p (read_text N q)"
  unfolding read_text_def
  by (intro keeps_bind keeps_native) (simp_all add: keeps_def split: option.splits)

lemma keeps_harden [keeps_rules]: "keeps p (harden_directory W q)"
  unfolding harden_directory_def by (rule keeps_native) simp

lemma keeps_missing [keeps_rules]: "keeps p (missing_ancestors W n q)"
proof (induction n arbitrary: q)
  case 0
  show ?case unfolding missing_ancestors.simps by (intro keeps_rules) simp
next
  case (Suc n)
  show ?case unfolding missing_ancestors.simps by (intro keeps_rules Suc.IH) simp
qed

lemma keeps_run_all [keeps_rules]: "(\<And>x. keeps p (f x)) \<Longrightarrow> keeps p (run_all f xs)"
proof (induction xs)
  case (Cons x xs)
  show ?case unfolding run_all.simps by (intro keeps_rules Cons.IH Cons.prems)
qed (simp add: keeps_ok)

lemma keeps_create_root [keeps_rules]: "keeps p (create_root_directory W q)"
proof -
  have a: "keeps p (native (w_calls W) SecurityError (CallAncestors q q) id)"
    "keeps p (bind_op (harden_directory W q) (\<lambda>_. native (w_calls W) WriteError (CallSyncParent (butlast q)) id))"
    by (intro keeps_rules; simp)+
  then show ?thesis
    by (auto simp: keeps_def create_root_directory_def stop_def split: option.splits if_splits)
qed

lemma keeps_prepare_root [keeps_rules]: "keeps p (prepare_user_trusted_root W s)"
  unfolding prepare_user_trusted_root_def by (intro keeps_rules)

lemma keeps_publish_directory [keeps_rules]: "keeps p (create_and_publish_directory W q)"
proof -
  have inner: "keeps p (\<lambda>d. case bind_op (harden_directory W st) (\<lambda>_.
         native (w_calls W) WriteError (CallPublishDirectory st q) (make_dir q \<circ> drop_dir st)) d of
            (Inr _, d) \<Rightarrow> (Inr (), d)
          | (Inl operation, d) \<Rightarrow>
              (case native (w_calls W) WriteError (CallRemoveDirectory st) (drop_dir st) d of
                 (Inr _, d) \<Rightarrow> (Inl operation, d)
               | (Inl (WriteError cleanup), d) \<Rightarrow> (Inl (StagingDirectoryCleanup operation cleanup), d)
               | (Inl e, d) \<Rightarrow> (Inl e, d)))" for st
  proof -
    have k1: "keeps p (bind_op (harden_directory W st) (\<lambda>_.
         native (w_calls W) WriteError (CallPublishDirectory st q) (make_dir q \<circ> drop_dir st)))"
      by (intro keeps_rules; simp)
    have k2: "keeps p (native (w_calls W) WriteError (CallRemoveDirectory st) (drop_dir st))"
      by (intro keeps_rules; simp)
    show ?thesis
      unfolding keeps_def
      by (auto split: prod.splits sum.splits manifest_error.splits dest!: keepsD [OF k1] keepsD [OF k2])
  qed
  show ?thesis
    unfolding create_and_publish_directory_def
    by (intro keeps_if keeps_stop keeps_bind keeps_at_clock keeps_native inner) simp
qed

lemma keeps_prepare [keeps_rules]: "keeps p (prepare_destination W s dir)"
  unfolding prepare_destination_def by (intro keeps_rules) simp_all

lemma keeps_lock:
  assumes "st_path s \<noteq> []" "utf8_valid (last (st_path s))"
  shows "keeps (st_path s) (acquire_mutation_lock W s)"
proof -
  have ne: "st_path s \<noteq> dir @ [CHR ''.'' # leaf_name ''machine.toml'' (st_path s) @ ''.lock'']" for dir
  proof
    assume "st_path s = dir @ [CHR ''.'' # leaf_name ''machine.toml'' (st_path s) @ ''.lock'']"
    then have "last (st_path s) = CHR ''.'' # leaf_name ''machine.toml'' (st_path s) @ ''.lock''"
      by (metis last_snoc)
    then have "length (last (st_path s)) = length (CHR ''.'' # last (st_path s) @ ''.lock'')"
      using assms by (simp add: leaf_name_def)
    then show False by simp
  qed
  show ?thesis
    unfolding acquire_mutation_lock_def Let_def
    by (intro keeps_rules) (simp_all add: ne)
qed

section \<open>One replacement\<close>

text \<open>The store's file name is a text that a temporary name extends.\<close>

definition named_store :: "manifest_store \<Rightarrow> bool" where
  "named_store s \<longleftrightarrow> st_path s \<noteq> [] \<and> utf8_valid (last (st_path s))"

lemma temporary_name_differs: "named_store s \<Longrightarrow> temporary_name W s t \<noteq> st_path s"
proof
  assume n: "named_store s" and e: "temporary_name W s t = st_path s"
  then have "last (st_path s) = CHR ''.'' # last (st_path s) @ CHR ''.'' # uuid_text (w_crates W) (fresh_uuid (w_host W) t) @ ''.tmp''"
    by (metis temporary_name_def staging_name_def last_snoc leaf_name_def named_store_def append_Cons append_Nil append_assoc)
  then have "length (last (st_path s)) = length (CHR ''.'' # last (st_path s) @ CHR ''.'' # uuid_text (w_crates W) (fresh_uuid (w_host W) t) @ ''.tmp'')"
    by (rule arg_cong)
  then show False by simp
qed

text \<open>The steps of a replacement before the file is moved, and the file they leave.\<close>

definition stage_manifest :: "world \<Rightarrow> manifest_store \<Rightarrow> machine_manifest \<Rightarrow> path \<Rightarrow> string op" where
  "stage_manifest W s m tmp =
     bind_op (create_private_file W tmp) (\<lambda>_.
     bind_op (lift (to_toml (w_crates W) (w_toml W) m)) (\<lambda>text.
     bind_op (native (w_calls W) WriteError (CallWrite tmp) (put_file tmp text)) (\<lambda>_.
     bind_op (native (w_calls W) WriteError (CallSync tmp) id) (\<lambda>_.
     bind_op (native (w_calls W) WriteError (CallHardenFile tmp) id) (\<lambda>_.
     bind_op (at_clock (revalidate_manifest_before_replace W s m)) (\<lambda>_. ok_op text))))))"

lemma stage_files:
  assumes "stage_manifest W s m tmp d = (r, d')" "p \<noteq> tmp"
  shows "disk_files d' p = disk_files d p"
proof -
  have "keeps p (stage_manifest W s m tmp)"
    unfolding stage_manifest_def
  proof (intro keeps_rules)
    show "keeps p (create_private_file W tmp)"
      using assms(2)
      by (simp add: create_private_file_def keeps_create_new)
  qed (use assms(2) in \<open>simp_all add: put_file_def\<close>)
  then show ?thesis using keepsD assms(1) by metis
qed

lemma stage_result:
  assumes "stage_manifest W s m tmp d = (Inr text, d')"
  shows "to_toml (w_crates W) (w_toml W) m = Inr text \<and> disk_files d' tmp = Some text \<and>
     (\<exists>t. verify_bound_principal W s t = Inr () \<and> validate_manifest_binding W s t m = Inr ())"
proof -
  obtain d1 d2 d3 d4 d5 text' where st:
    "to_toml (w_crates W) (w_toml W) m = Inr text'"
    "native (w_calls W) WriteError (CallWrite tmp) (put_file tmp text') d1 = (Inr (), d2)"
    "native (w_calls W) WriteError (CallSync tmp) id d2 = (Inr (), d3)"
    "native (w_calls W) WriteError (CallHardenFile tmp) id d3 = (Inr (), d4)"
    "at_clock (revalidate_manifest_before_replace W s m) d4 = (Inr (), d5)"
    "text' = text" "d' = d5"
    using assms unfolding stage_manifest_def bind_op_Inr
    by (auto simp: lift_def ok_op_def)
  have "disk_files d' tmp = Some text"
    using st native_cases [OF st(2)] native_cases [OF st(3)] native_cases [OF st(4)]
    by (auto simp: put_file_def at_clock_def)
  moreover have "revalidate_manifest_before_replace W s m (disk_clock d4) = Inr ()"
    using st(5) by (simp add: at_clock_def)
  then have "verify_bound_principal W s (disk_clock d4) = Inr () \<and>
     validate_manifest_binding W s (disk_clock d4) m = Inr ()"
    by (cases "st_binding s") (auto simp: revalidate_manifest_before_replace_def result_simps)
  ultimately show ?thesis using st(1,6) by blast
qed

end
