(* ===== verification/StoreIdentity.thy ===== *)
theory StoreIdentity
  imports ManifestStore
begin

text \<open>
  What the manifest store promises: replacement is all or nothing, the machine id in the file is
  never changed by a generation or a repair, and servers that start together on one store agree
  on it. The servers are a step relation over the operations of \<open>ManifestStore\<close>.
\<close>

section \<open>One replacement\<close>

lemma write_manifest_staged:
  "write_manifest W s m =
     (if st_path s = [] then stop no_parent_error
      else bind_op (at_clock (\<lambda>t. Inr (temporary_name W s t))) (\<lambda>tmp d.
        case bind_op (stage_manifest W s m tmp) (\<lambda>_.
             bind_op (native (w_calls W) WriteError (CallReplace tmp (st_path s)) (move_file tmp (st_path s))) (\<lambda>_.
               native (w_calls W) PostReplaceSecurityError (CallVerifySecurity (st_path s)) id)) d of
          (Inr _, d) \<Rightarrow> (Inr (), d)
        | (Inl e, d) \<Rightarrow>
            (Inl e, snd (native (w_calls W) WriteError (CallRemoveFile tmp) (erase_file tmp) d))))"
  by (simp add: write_manifest_def stage_manifest_def bind_op_assoc)

text \<open>The whole effect of a replacement: the temporary file it used, and the two outcomes.\<close>

lemma write_manifest_effect:
  assumes n: "named_store s" and w: "write_manifest W s m d = (r, d')"
  obtains tmp where "tmp = temporary_name W s (disk_clock d)"
    "\<And>p. p \<notin> {tmp, st_path s} \<Longrightarrow> disk_files d' p = disk_files d p"
    "(\<exists>e. r = Inl e \<and> disk_files d' (st_path s) = disk_files d (st_path s)) \<or>
     (\<exists>text t. (r = Inr () \<or> (\<exists>e. r = Inl (PostReplaceSecurityError e))) \<and>
        to_toml (w_crates W) (w_toml W) m = Inr text \<and> disk_files d' (st_path s) = Some text \<and>
        disk_files d' tmp = None \<and>
        verify_bound_principal W s t = Inr () \<and> validate_manifest_binding W s t m = Inr ())"
proof -
  define tmp where "tmp = temporary_name W s (disk_clock d)"
  define d0 where "d0 = d\<lparr>disk_clock := Suc (disk_clock d)\<rparr>"
  have ne: "st_path s \<noteq> []" and diff: "tmp \<noteq> st_path s"
    using n temporary_name_differs [OF n] by (auto simp: named_store_def tmp_def)
  have d0: "disk_files d0 = disk_files d" by (simp add: d0_def)
  let ?rest = "\<lambda>_. bind_op (native (w_calls W) WriteError (CallReplace tmp (st_path s)) (move_file tmp (st_path s)))
     (\<lambda>_. native (w_calls W) PostReplaceSecurityError (CallVerifySecurity (st_path s)) id)"
  let ?erase = "\<lambda>d. snd (native (w_calls W) WriteError (CallRemoveFile tmp) (erase_file tmp) d)"
  have erase: "disk_files (?erase x) p = disk_files x p" if "p \<noteq> tmp" for x p
    using that by (auto simp: native_def erase_file_def Let_def split: option.splits)
  have erased: "disk_files (?erase x) tmp = None" if "disk_files x tmp = None" for x
    using that by (auto simp: native_def erase_file_def Let_def split: option.splits)
  have run: "(r, d') = (case bind_op (stage_manifest W s m tmp) ?rest d0 of
      (Inr _, d) \<Rightarrow> (Inr (), d) | (Inl e, d) \<Rightarrow> (Inl e, ?erase d))"
    using w ne unfolding tmp_def d0_def by (simp add: write_manifest_staged bind_op_def at_clock_def eq_commute)
  obtain r1 d1 where st: "stage_manifest W s m tmp d0 = (r1, d1)" by fastforce
  have st_files: "disk_files d1 p = disk_files d p" if "p \<noteq> tmp" for p
    using stage_files [OF st that] d0 by simp
  show ?thesis
  proof (cases r1)
    case (Inl e)
    with st run have "r = Inl e" "d' = ?erase d1" by (auto simp: bind_op_def)
    with erase st_files diff show ?thesis by (intro that [OF tmp_def]) auto
  next
    case (Inr bytes)
    note staged = stage_result [OF st [unfolded Inr]]
    obtain r2 d2 where rp: "native (w_calls W) WriteError (CallReplace tmp (st_path s)) (move_file tmp (st_path s)) d1 = (r2, d2)"
      by fastforce
    show ?thesis
    proof (cases r2)
      case (Inl e)
      with rp have "disk_files d2 = disk_files d1" using native_cases [OF rp] by auto
      moreover from Inl st run rp \<open>r1 = Inr bytes\<close> have "r = Inl e" "d' = ?erase d2" by (auto simp: bind_op_def)
      ultimately show ?thesis using erase st_files diff by (intro that [OF tmp_def]) auto
    next
      case (Inr u)
      then have moved: "disk_files d2 = (disk_files d1)(st_path s := disk_files d1 tmp, tmp := None)"
        using native_cases [OF rp] by (auto simp: move_file_def)
      obtain r3 d3 where v: "native (w_calls W) PostReplaceSecurityError (CallVerifySecurity (st_path s)) id d2 = (r3, d3)"
        by fastforce
      have d3: "disk_files d3 = disk_files d2" and r3: "r3 = Inr () \<or> (\<exists>e. r3 = Inl (PostReplaceSecurityError e))"
        using native_cases [OF v] by auto
      have out: "(r, d') = (case r3 of Inr _ \<Rightarrow> (Inr (), d3) | Inl e \<Rightarrow> (Inl e, ?erase d3))"
        using Inr st run rp v \<open>r1 = Inr bytes\<close> by (auto simp: bind_op_def split: sum.splits)
      have files: "disk_files d' p = disk_files d2 p" if "p \<noteq> tmp" for p
        using out d3 erase [OF that] by (auto split: sum.splits)
      have gone: "disk_files d' tmp = None"
        using out d3 moved erased by (auto split: sum.splits)
      have "r = Inr () \<or> (\<exists>e. r = Inl (PostReplaceSecurityError e))"
        using out r3 by (auto split: sum.splits)
      moreover have "disk_files d' (st_path s) = Some bytes"
        using files [OF diff [symmetric]] moved diff staged by simp
      ultimately have written: "\<exists>text t. (r = Inr () \<or> (\<exists>e. r = Inl (PostReplaceSecurityError e))) \<and>
        to_toml (w_crates W) (w_toml W) m = Inr text \<and> disk_files d' (st_path s) = Some text \<and>
        disk_files d' tmp = None \<and>
        verify_bound_principal W s t = Inr () \<and> validate_manifest_binding W s t m = Inr ()"
        using staged gone by blast
      show ?thesis
      proof (rule that [OF tmp_def _ disjI2 [OF written]])
        fix p assume "p \<notin> {tmp, st_path s}"
        then show "disk_files d' p = disk_files d p"
          using files [of p] moved st_files [of p] by simp
      qed
    qed
  qed
qed

section \<open>The identity in the file\<close>

definition file_id :: "world \<Rightarrow> manifest_store \<Rightarrow> disk \<Rightarrow> uuid option" where
  "file_id W s d =
     (case disk_files d (st_path s) of
        None \<Rightarrow> None
      | Some bytes \<Rightarrow>
          (case toml_from_str (w_toml W) bytes of
             None \<Rightarrow> None
           | Some raw \<Rightarrow> (case parse_id (w_crates W) raw of Inl _ \<Rightarrow> None | Inr i \<Rightarrow> i)))"

text \<open>What is used of the TOML and UUID crates: a printed manifest carries its machine id.\<close>

definition id_laws :: "world \<Rightarrow> bool" where
  "id_laws W \<longleftrightarrow>
     (\<forall>m bytes. toml_to_string (w_toml W) m = Some bytes \<longrightarrow>
        (\<exists>raw. toml_from_str (w_toml W) bytes = Some raw \<and>
           raw_machine_id_text raw = Some (uuid_text (w_crates W) (machine_id m)))) \<and>
     (\<forall>u. uuid_parse (w_crates W) (uuid_text (w_crates W) u) = Some u)"

lemma file_id_cong: "disk_files d' (st_path s) = disk_files d (st_path s) \<Longrightarrow> file_id W s d' = file_id W s d"
  by (simp add: file_id_def)

lemma keeps_file_id: "keeps (st_path s) m \<Longrightarrow> m d = (r, d') \<Longrightarrow> file_id W s d' = file_id W s d"
  by (rule file_id_cong) (rule keepsD)

lemma written_file_id:
  assumes "id_laws W" "to_toml (w_crates W) (w_toml W) m = Inr bytes" "disk_files d (st_path s) = Some bytes"
  shows "file_id W s d = Some (machine_id m)"
proof -
  have "toml_to_string (w_toml W) m = Some bytes"
    using assms(2) by (auto simp: to_toml_def result_simps)
  then obtain raw where "toml_from_str (w_toml W) bytes = Some raw"
    "raw_machine_id_text raw = Some (uuid_text (w_crates W) (machine_id m))"
    using assms(1) unfolding id_laws_def by blast
  with assms show ?thesis
    by (simp add: file_id_def parse_id_def parse_canonical_uuid_def id_laws_def)
qed

lemma write_file_id:
  assumes "id_laws W" "named_store s" "write_manifest W s m d = (r, d')"
  shows "(file_id W s d' = file_id W s d \<and> (\<exists>e. r = Inl e)) \<or> file_id W s d' = Some (machine_id m)"
proof -
  obtain tmp where "(\<exists>e. r = Inl e \<and> disk_files d' (st_path s) = disk_files d (st_path s)) \<or>
     (\<exists>bytes t. (r = Inr () \<or> (\<exists>e. r = Inl (PostReplaceSecurityError e))) \<and>
        to_toml (w_crates W) (w_toml W) m = Inr bytes \<and> disk_files d' (st_path s) = Some bytes \<and>
        disk_files d' tmp = None \<and>
        verify_bound_principal W s t = Inr () \<and> validate_manifest_binding W s t m = Inr ())"
    using write_manifest_effect [OF assms(2,3)] by metis
  then show ?thesis using file_id_cong written_file_id [OF assms(1)] by metis
qed

lemma keeps_checked_raw [keeps_rules]: "keeps p (checked_raw W s wrap)"
  unfolding checked_raw_def by (intro keeps_rules) simp_all

lemma keeps_accept [keeps_rules]: "keeps p (accept W s m)"
  unfolding accept_def by (intro keeps_rules)

lemma keeps_entry [keeps_rules]: "keeps p (entry_checks W s)"
  unfolding entry_checks_def by (intro keeps_rules)

lemma keeps_fresh [keeps_rules]: "keeps p (id_or_fresh W i)"
  unfolding id_or_fresh_def by (cases i) (simp_all add: keeps_rules)

lemma keeps_preflight [keeps_rules]: "keeps p (preflight_document_binding W s b)"
  unfolding preflight_document_binding_def by (intro keeps_rules)

lemma keeps_read [keeps_rules]: "keeps p (read_manifest W s)"
  unfolding read_manifest_def Let_def by (intro keeps_rules)

lemma read_text_result:
  "read_text N p d = (Inr bytes, d') \<Longrightarrow> disk_files d p = Some bytes"
  by (auto simp: read_text_def bind_op_def native_def Let_def split: option.splits if_splits prod.splits sum.splits)

lemma checked_raw_result:
  assumes "checked_raw W s wrap d = (Inr raw, d')" "parse_id (w_crates W) raw = Inr i"
  shows "file_id W s d = i"
proof -
  obtain bytes d1 d2 where c: "native (w_calls W) wrap (CallFileTarget (st_path s)) id d = (Inr (), d1)"
    "native (w_calls W) SecurityError (CallVerifySecurity (st_path s)) id d1 = (Inr (), d2)"
    "read_text (w_calls W) (st_path s) d2 = (Inr bytes, d')" "parse_raw (w_toml W) bytes = Inr raw"
    using assms(1) unfolding checked_raw_def bind_op_Inr by (auto simp: lift_def)
  have "disk_files d (st_path s) = Some bytes"
    using native_cases [OF c(1)] native_cases [OF c(2)] read_text_result [OF c(3)] by auto
  then show ?thesis using c(4) assms(2) by (simp add: file_id_def parse_raw_def result_simps)
qed

lemma machine_id_into [simp]: "machine_id (into_manifest raw u) = u"
  by (simp add: into_manifest_def manifest_draft.defs)

lemma read_manifest_id:
  assumes "read_manifest W s d = (Inr out, d')"
  shows "file_id W s d = Some (machine_id (ro_manifest out)) \<and> \<not> ro_minted out"
proof -
  obtain d1 d2 d3 raw i u where c: "entry_checks W s d = (Inr (), d1)" "checked_raw W s SecurityError d1 = (Inr raw, d2)"
    "parse_id (w_crates W) raw = Inr i" "i = Some u"
    "out = \<lparr>ro_manifest = into_manifest raw u, ro_minted = False\<rparr>"
    using assms unfolding read_manifest_def Let_def bind_op_Inr
    by (auto simp: lift_def ok_op_def result_simps)
  have "file_id W s d1 = file_id W s d" using keeps_file_id [where m = "entry_checks W s"] keeps_entry c(1) by metis
  then show ?thesis using checked_raw_result [OF c(2,3)] c(4,5) by simp
qed

text \<open>Under the lock: an id in the file survives, a missing one is minted once it is written.\<close>

lemma reconcile_locked_id:
  assumes laws: "id_laws W" "named_store s" and r: "reconcile_locked W s d = (r, d')"
  shows "(\<forall>u. file_id W s d = Some u \<longrightarrow> file_id W s d' = Some u) \<and>
     (\<forall>out. r = Inr out \<longrightarrow> file_id W s d' = Some (machine_id (ro_manifest out)) \<and>
        (ro_minted out \<longrightarrow> file_id W s d = None))"
proof -
  obtain r1 d1 where c: "checked_raw W s WriteError d = (r1, d1)" by fastforce
  have k1: "file_id W s d1 = file_id W s d" using keeps_file_id [where m = "checked_raw W s WriteError"] keeps_checked_raw c by metis
  show ?thesis
  proof (cases r1)
    case (Inl e)
    with c r have "r = Inl e" "d' = d1" by (auto simp: reconcile_locked_def bind_op_def)
    with k1 show ?thesis by simp
  next
    case (Inr raw)
    show ?thesis
    proof (cases "parse_id (w_crates W) raw")
      case (Inl e)
      with c r Inr have "r = Inl e" "d' = d1" by (auto simp: reconcile_locked_def bind_op_def lift_def)
      with k1 show ?thesis by simp
    next
      case (Inr i)
      have i: "file_id W s d = i" by (rule checked_raw_result [OF c [unfolded \<open>r1 = Inr raw\<close>] Inr])
      obtain u d2 where f: "id_or_fresh W i d1 = (Inr u, d2)" and u: "i \<noteq> None \<Longrightarrow> i = Some u"
        by (cases i) (auto simp: id_or_fresh_def ok_op_def at_clock_def)
      have k2: "file_id W s d2 = i" using keeps_file_id [where m = "id_or_fresh W i"] keeps_fresh f k1 i by metis
      obtain r3 d3 where a: "accept W s (into_manifest raw u) d2 = (r3, d3)" by fastforce
      have k3: "file_id W s d3 = i" using keeps_file_id [where m = "accept W s (into_manifest raw u)"] keeps_accept a k2 by metis
      obtain r4 d4 where w: "write_manifest W s (into_manifest raw u) d3 = (r4, d4)" by fastforce
      note k4 = write_file_id [OF laws w, unfolded machine_id_into k3]
      have out: "(r, d') = (case r3 of Inl e \<Rightarrow> (Inl e, d3) | Inr _ \<Rightarrow>
          (case r4 of Inl e \<Rightarrow> (Inl e, d4)
           | Inr _ \<Rightarrow> (Inr \<lparr>ro_manifest = into_manifest raw u, ro_minted = (i = None)\<rparr>, d4)))"
        using r c f a w \<open>r1 = Inr raw\<close> Inr
        by (auto simp: reconcile_locked_def bind_op_def lift_def ok_op_def Let_def split: sum.splits)
      show ?thesis
      proof (cases r3)
        case (Inl e)
        with out k3 i show ?thesis by simp
      next
        case (Inr x)
        show ?thesis
        proof (cases r4)
          case (Inl e)
          with out Inr k4 i u show ?thesis by auto
        next
          case (Inr y)
          with out \<open>r3 = Inr x\<close> k4 i u show ?thesis by auto
        qed
      qed
    qed
  qed
qed

section \<open>Servers that start together\<close>

text \<open>
  Several servers open the same manifest (\<open>read_or_reconcile_missing_machine_id\<close>). A server
  reads without the lock; if only the machine id is missing it runs the preflight, again
  without the lock, and then reads once more and repairs while it holds the mutation lock. The
  steps of different servers interleave; the locked section is one step, since the lock
  excludes the others, and each unlocked step reads the file in one native call.
\<close>

datatype server = Starting | Preflighting | Locking | Served read_outcome | Failed manifest_error

record fleet =
  fl_disk :: disk
  fl_server :: "nat \<Rightarrow> server"

definition concluded :: "manifest_error + read_outcome \<Rightarrow> server" where
  "concluded r = (case r of Inl e \<Rightarrow> Failed e | Inr out \<Rightarrow> Served out)"

definition after_read :: "manifest_error + read_outcome \<Rightarrow> server" where
  "after_read r =
     (case r of Inl e \<Rightarrow> if is_missing_machine_id_error e then Preflighting else Failed e | Inr out \<Rightarrow> Served out)"

definition after_preflight :: "manifest_error + unit \<Rightarrow> server" where
  "after_preflight r = (case r of Inl e \<Rightarrow> Failed e | Inr _ \<Rightarrow> Locking)"

definition repair_section :: "world \<Rightarrow> manifest_store \<Rightarrow> read_outcome op" where
  "repair_section W s = with_mutation_lock W s (recover_missing (read_manifest W s) (reconcile_locked W s))"

inductive fleet_step :: "world \<Rightarrow> manifest_store \<Rightarrow> fleet \<Rightarrow> fleet \<Rightarrow> bool" for W s where
  read_step: "fl_server f i = Starting \<Longrightarrow> read_manifest W s (fl_disk f) = (r, d) \<Longrightarrow>
     fleet_step W s f \<lparr>fl_disk = d, fl_server = (fl_server f)(i := after_read r)\<rparr>"
| preflight_step: "fl_server f i = Preflighting \<Longrightarrow> preflight_document_binding W s True (fl_disk f) = (p, d) \<Longrightarrow>
     fleet_step W s f \<lparr>fl_disk = d, fl_server = (fl_server f)(i := after_preflight p)\<rparr>"
| repair_step: "fl_server f i = Locking \<Longrightarrow> repair_section W s (fl_disk f) = (r, d) \<Longrightarrow>
     fleet_step W s f \<lparr>fl_disk = d, fl_server = (fl_server f)(i := concluded r)\<rparr>"


definition starting_fleet :: "disk \<Rightarrow> fleet" where
  "starting_fleet d = \<lparr>fl_disk = d, fl_server = (\<lambda>_. Starting)\<rparr>"

definition settled :: "server \<Rightarrow> bool" where
  "settled v \<longleftrightarrow> (case v of Served _ \<Rightarrow> True | Failed _ \<Rightarrow> True | _ \<Rightarrow> False)"

lemma settled_simps [simp]:
  "\<not> settled Starting" "\<not> settled Preflighting" "\<not> settled Locking" "settled (Served out)" "settled (Failed e)"
  by (simp_all add: settled_def)

text \<open>What holds of every fleet that started on the disk \<open>d0\<close>.\<close>

definition fleet_ok :: "world \<Rightarrow> manifest_store \<Rightarrow> disk \<Rightarrow> fleet \<Rightarrow> bool" where
  "fleet_ok W s d0 f \<longleftrightarrow>
     (\<forall>u. file_id W s d0 = Some u \<longrightarrow> file_id W s (fl_disk f) = Some u) \<and>
     (\<forall>i out. fl_server f i = Served out \<longrightarrow>
        file_id W s (fl_disk f) = Some (machine_id (ro_manifest out)) \<and>
        (ro_minted out \<longrightarrow> file_id W s d0 = None)) \<and>
     (\<forall>i j a b. fl_server f i = Served a \<and> fl_server f j = Served b \<and> ro_minted a \<and> ro_minted b \<longrightarrow> i = j)"

lemma repair_section_id:
  assumes laws: "id_laws W" "named_store s" and r: "repair_section W s d = (r, d')"
  shows "(\<forall>u. file_id W s d = Some u \<longrightarrow> file_id W s d' = Some u) \<and>
     (\<forall>out. r = Inr out \<longrightarrow> file_id W s d' = Some (machine_id (ro_manifest out)) \<and>
        (ro_minted out \<longrightarrow> file_id W s d = None))"
proof -
  obtain r1 d1 where l: "acquire_mutation_lock W s d = (r1, d1)" by fastforce
  have k1: "file_id W s d1 = file_id W s d"
    using keeps_file_id [OF keeps_lock l] laws(2) by (simp add: named_store_def)
  obtain r2 d2 where a: "read_manifest W s d1 = (r2, d2)" by fastforce
  have k2: "file_id W s d2 = file_id W s d"
    using keeps_file_id [where m = "read_manifest W s"] keeps_read a k1 by metis
  obtain r3 d3 where b: "reconcile_locked W s d2 = (r3, d3)" by fastforce
  note k3 = reconcile_locked_id [OF laws b, unfolded k2]
  have out: "(r, d') = (case r1 of Inl e \<Rightarrow> (Inl e, d1) | Inr _ \<Rightarrow>
      (case r2 of Inr x \<Rightarrow> (Inr x, d2)
       | Inl e \<Rightarrow> if is_missing_machine_id_error e then (r3, d3) else (Inl e, d2)))"
    using r l a b
    by (auto simp: repair_section_def with_mutation_lock_def bind_op_def recover_missing_def split: sum.splits)
  show ?thesis
  proof (cases r1)
    case (Inl e)
    with out k1 show ?thesis by simp
  next
    case (Inr x)
    show ?thesis
    proof (cases r2)
      case (Inr y)
      have "file_id W s d1 = Some (machine_id (ro_manifest y)) \<and> \<not> ro_minted y"
        by (rule read_manifest_id) (use a Inr in simp)
      with out \<open>r1 = Inr x\<close> Inr k1 k2 show ?thesis by simp
    next
      case (Inl e)
      with out Inr k2 k3 show ?thesis by (cases "is_missing_machine_id_error e") auto
    qed
  qed
qed

lemma fleet_ok_step:
  assumes laws: "id_laws W" "named_store s" and ok: "fleet_ok W s d0 f" and step: "fleet_step W s f g"
  shows "fleet_ok W s d0 g"
  using step
proof (cases rule: fleet_step.cases)
  case (read_step i r d)
  have same: "file_id W s d = file_id W s (fl_disk f)"
    using keeps_file_id [where m = "read_manifest W s"] keeps_read read_step(3) by metis
  have new: "file_id W s (fl_disk f) = Some (machine_id (ro_manifest out)) \<and> \<not> ro_minted out"
    if "after_read r = Served out" for out
    using that read_manifest_id read_step(3) by (auto simp: after_read_def split: sum.splits if_splits)
  show ?thesis
    using ok same new unfolding fleet_ok_def read_step(1) by (auto split: if_splits)
next
  case (preflight_step i p d)
  have same: "file_id W s d = file_id W s (fl_disk f)"
    using keeps_file_id [where m = "preflight_document_binding W s True"] keeps_preflight preflight_step(3) by metis
  have "after_preflight p \<noteq> Served out" for out by (auto simp: after_preflight_def split: sum.splits)
  then show ?thesis
    using ok same unfolding fleet_ok_def preflight_step(1) by (auto split: if_splits)
next
  case (repair_step i r d)
  note k = repair_section_id [OF laws repair_step(3)]
  have r: "concluded r = Served out \<longleftrightarrow> r = Inr out" for out
    by (auto simp: concluded_def split: sum.splits)
  show ?thesis
    using ok k unfolding fleet_ok_def repair_step(1) by (auto simp: r split: if_splits)
qed

lemma fleet_ok_reachable:
  assumes "id_laws W" "named_store s" "(fleet_step W s)\<^sup>*\<^sup>* (starting_fleet d) f"
  shows "fleet_ok W s d f"
  using assms(3)
proof (induction rule: rtranclp_induct)
  case base
  then show ?case by (simp add: fleet_ok_def starting_fleet_def)
next
  case (step f g)
  then show ?case using fleet_ok_step [OF assms(1,2)] by blast
qed

text \<open>Run alone, a server takes the steps of the sequential operation and settles.\<close>

lemma server_runs:
  assumes "read_or_reconcile_missing_machine_id W s (fl_disk f) = (r, d)" "fl_server f i = Starting"
  shows "(fleet_step W s)\<^sup>*\<^sup>* f \<lparr>fl_disk = d, fl_server = (fl_server f)(i := concluded r)\<rparr>"
proof -
  obtain r1 d1 where a: "read_manifest W s (fl_disk f) = (r1, d1)" by fastforce
  obtain r2 d2 where b: "preflight_document_binding W s True d1 = (r2, d2)" by fastforce
  obtain r3 d3 where c: "repair_section W s d2 = (r3, d3)" by fastforce
  let ?f1 = "\<lparr>fl_disk = d1, fl_server = (fl_server f)(i := after_read r1)\<rparr>"
  let ?f2 = "\<lparr>fl_disk = d2, fl_server = (fl_server f)(i := after_preflight r2)\<rparr>"
  have s1: "fleet_step W s f ?f1" using assms(2) a by (rule read_step)
  show ?thesis
  proof (cases "\<exists>e. r1 = Inl e \<and> is_missing_machine_id_error e")
    case False
    then have "after_read r1 = concluded r1" "(r, d) = (r1, d1)"
      using assms(1) a
      by (auto simp: after_read_def concluded_def read_or_reconcile_missing_machine_id_def recover_missing_def
          split: sum.splits if_splits)
    with s1 show ?thesis by auto
  next
    case True
    then have "after_read r1 = Preflighting" by (auto simp: after_read_def)
    then have s2: "fleet_step W s ?f1 ?f2" using preflight_step [of ?f1 i W s r2 d2] b by simp
    have seq: "(r, d) = (case r2 of Inl e \<Rightarrow> (Inl e, d2) | Inr _ \<Rightarrow> (r3, d3))"
      using assms(1) a b c True
      by (auto simp: read_or_reconcile_missing_machine_id_def recover_missing_def locked_repair_def bind_op_def
          repair_section_def split: sum.splits)
    show ?thesis
    proof (cases r2)
      case (Inl e)
      with seq s1 s2 show ?thesis by (auto simp: after_preflight_def concluded_def)
    next
      case (Inr u)
      then have "fleet_step W s ?f2 \<lparr>fl_disk = d3, fl_server = (fl_server f)(i := concluded r3)\<rparr>"
        using repair_step [of ?f2 i W s r3 d3] c by (simp add: after_preflight_def)
      with seq s1 s2 Inr show ?thesis by (auto intro: rtranclp.rtrancl_into_rtrancl)
    qed
  qed
qed

section \<open>A concrete world\<close>

text \<open>
  A Linux host whose native calls all succeed, with the dedicated worker of \<open>demo_manifest\<close>. Its
  TOML text is the machine id alone, and \<open>legacy\<close> is a manifest without one.
\<close>

definition demo_principal :: worker_principal where
  "demo_principal = \<lparr>wp_kind = UnixUid, wp_id = ''1001'', wp_name = ''styrn'', wp_policy = DedicatedPolicy\<rparr>"

definition demo_host :: host_answers where
  "demo_host =
     \<lparr>host_os = Linux, principal_verified = (\<lambda>_ _. None), current_principal = (\<lambda>_. Inr demo_principal),
      root_principal_valid = (\<lambda>_ _ _. None), default_root = (\<lambda>_ _ _. Inr (''/srv/styrn'', None)),
      handle_principal = (\<lambda>_. Inr demo_principal), fresh_uuid = (\<lambda>_. demo_uuid)\<rparr>"

definition demo_raw :: "string option \<Rightarrow> raw_machine_manifest" where
  "demo_raw i = (raw_of demo_crates demo_manifest)\<lparr>raw_machine_id_text := i\<rparr>"

definition demo_documents :: toml_api where
  "demo_documents =
     \<lparr>toml_from_str = (\<lambda>t. Some (demo_raw (if t = ''legacy'' then None else Some t))),
      toml_to_string = (\<lambda>m. Some (uuid_text demo_crates (machine_id m)))\<rparr>"

definition demo_world :: world where
  "demo_world = \<lparr>w_crates = demo_crates, w_toml = demo_documents, w_host = demo_host, w_calls = (\<lambda>_ _. None)\<rparr>"

definition demo_store :: manifest_store where
  "demo_store =
     \<lparr>st_scope = SystemScope, st_principal = demo_principal, st_path_text = ''/etc/styrn/machine.toml'',
      st_path = [''etc'', ''styrn'', ''machine.toml''], st_trusted_root = [''etc'', ''styrn''],
      st_origin = CanonicalDestination, st_binding = CanonicalDedicated\<rparr>"

definition demo_disk :: disk where
  "demo_disk =
     \<lparr>disk_files = [[''etc'', ''styrn'', ''machine.toml''] \<mapsto> ''legacy''],
      disk_dirs = {[], [''etc''], [''etc'', ''styrn'']}, disk_clock = 0\<rparr>"

lemma demo_world_sel [simp]:
  "w_crates demo_world = demo_crates" "w_toml demo_world = demo_documents" "w_host demo_world = demo_host"
  "w_calls demo_world t c = None"
  by (simp_all add: demo_world_def)

lemma demo_named: "named_store demo_store"
  by (simp add: named_store_def demo_store_def) code_simp

lemma demo_id_laws: "id_laws demo_world"
proof -
  have "to_hex 32 n \<noteq> ''legacy''" for n
  proof
    assume "to_hex 32 n = ''legacy''"
    then have "length (to_hex 32 n) = length ''legacy''" by (rule arg_cong)
    then show False by simp
  qed
  then show ?thesis
    using demo_uuid_text_parses
    by (simp add: id_laws_def demo_documents_def demo_raw_def del: demo_crates_sel(1))
qed

lemma demo_policy: "validate_destination_policy demo_world demo_store = Inr [''etc'', ''styrn'']"
  by (simp add: validate_destination_policy_def demo_store_def render_path_def is_broad_system_root_def demo_host_def
      starts_with_def)

lemma demo_bound: "verify_bound_principal demo_world demo_store t = Inr ()"
  by (simp add: verify_bound_principal_def demo_store_def demo_host_def answered_def)

lemma demo_layout:
  "resolve_worker_directory_layout demo_host t SystemScope demo_principal =
     Inr (new_worker_layout SystemScope ''/srv/styrn'' None demo_principal)"
  by (simp add: resolve_worker_directory_layout_def demo_host_def answered_def)

lemma demo_projection:
  "dedicated_projection_for demo_host t demo_principal =
     Inr \<lparr>pj_os = Linux, pj_principal = demo_principal, pj_identity = worker_identity_for demo_principal,
          pj_transport_user = ''styrn'', pj_paths = standard_paths Linux ''/srv/styrn''\<rparr>"
proof -
  have "exact_manifest_paths (new_worker_layout SystemScope ''/srv/styrn'' None demo_principal) =
      Inr (standard_paths Linux ''/srv/styrn'')"
    by code_simp
  then show ?thesis
    using demo_layout
    by (simp add: dedicated_projection_for_def derive_dedicated_def projection_of_def demo_principal_def wp_isolation_def
        new_worker_layout_def demo_host_def)
qed

lemma demo_binding: "validate_manifest_binding demo_world demo_store t demo_manifest = Inr ()"
proof -
  have "identity_principal (the (worker_identity demo_manifest)) = Inr demo_principal"
    by (simp add: identity_principal_iff new_worker_principal_def demo_worker_valid demo_principal_def wp_isolation_def
        demo_manifest_def)
  then show ?thesis
    using demo_projection
    by (simp add: validate_manifest_binding_def demo_store_def demo_manifest_def dedicated_binding_def
       demo_host_def validate_dedicated_worker_manifest_projection_def)
qed

lemma demo_native [simp]:
  "native (w_calls demo_world) wrap c change d = (Inr (), change (d\<lparr>disk_clock := Suc (disk_clock d)\<rparr>))"
  by (simp add: native_def)

lemma demo_accept [simp]: "accept demo_world demo_store demo_manifest d = (Inr (), d\<lparr>disk_clock := Suc (disk_clock d)\<rparr>)"
  using demo_manifest_valid demo_binding by (simp add: accept_def bind_op_def lift_def at_clock_def)

lemma demo_entry [simp]: "entry_checks demo_world demo_store d = (Inr (), d\<lparr>disk_clock := Suc (disk_clock d)\<rparr>)"
  using demo_policy demo_bound by (simp add: entry_checks_def bind_op_def lift_def at_clock_def)

lemma demo_into [simp]: "into_manifest (demo_raw i) demo_uuid = demo_manifest"
  by (simp add: into_manifest_def demo_raw_def raw_of_def demo_manifest_def manifest_draft.defs)

definition later :: "nat \<Rightarrow> disk \<Rightarrow> disk" where
  "later n d = d\<lparr>disk_clock := disk_clock d + n\<rparr>"

lemma demo_checked_raw:
  assumes "disk_files d (st_path demo_store) = Some bytes" "utf8_valid bytes"
  shows "checked_raw demo_world demo_store wrap d =
     (Inr (demo_raw (if bytes = ''legacy'' then None else Some bytes)), later 3 d)"
  using assms
  by (simp add: checked_raw_def bind_op_def lift_def read_text_def parse_raw_def demo_documents_def later_def)

lemma demo_read_legacy:
  assumes "disk_files d (st_path demo_store) = Some ''legacy''"
  shows "read_manifest demo_world demo_store d = (Inl (ValidationError machine_id_required), later 4 d)"
proof -
  have "utf8_valid ''legacy''" by code_simp
  with demo_checked_raw [of "later 1 d"] assms show ?thesis
    by (simp add: read_manifest_def bind_op_def lift_def later_def demo_raw_def parse_id_def)
qed

lemma demo_id_text: "utf8_valid (uuid_text demo_crates u)" "uuid_text demo_crates u \<noteq> ''legacy''"
proof -
  have "\<forall>c \<in> set (to_hex 32 (unat u)). byte c < 128" using to_hex_bytes by fastforce
  then show "utf8_valid (uuid_text demo_crates u)" using utf8_valid_ascii by simp
  show "uuid_text demo_crates u \<noteq> ''legacy''"
  proof
    assume "uuid_text demo_crates u = ''legacy''"
    then have "length (to_hex 32 (unat u)) = length ''legacy''" by simp
    then show False by simp
  qed
qed

lemma demo_parse_id: "parse_id demo_crates (demo_raw (Some (uuid_text demo_crates u))) = Inr (Some u)"
  using demo_uuid_text_parses by (simp add: parse_id_def demo_raw_def parse_canonical_uuid_def del: demo_crates_sel)

lemma demo_read_id:
  assumes "disk_files d (st_path demo_store) = Some (uuid_text demo_crates demo_uuid)"
  shows "read_manifest demo_world demo_store d = (Inr \<lparr>ro_manifest = demo_manifest, ro_minted = False\<rparr>, later 5 d)"
  using demo_checked_raw [of "later 1 d"] demo_id_text [of demo_uuid] demo_parse_id [of demo_uuid] assms
  by (simp add: read_manifest_def bind_op_def lift_def later_def ok_op_def del: demo_crates_sel)

lemma demo_preflight:
  assumes "disk_files d (st_path demo_store) = Some ''legacy''"
  shows "preflight_document_binding demo_world demo_store True d = (Inr (), later 6 d)"
proof -
  have "utf8_valid ''legacy''" by code_simp
  with demo_checked_raw [of "later 1 d"] assms show ?thesis
    by (simp add: preflight_document_binding_def bind_op_def lift_def later_def parse_id_def demo_raw_def
        id_or_fresh_def at_clock_def demo_host_def del: demo_into)
       (simp flip: demo_raw_def)
qed

definition demo_lock_path :: path where
  "demo_lock_path = [''etc'', ''styrn'', ''.machine.toml.lock'']"

definition demo_temporary :: path where
  "demo_temporary = [''etc'', ''styrn'', ''.machine.toml.'' @ uuid_text demo_crates demo_uuid @ ''.tmp'']"

lemma demo_lock:
  assumes "[''etc'', ''styrn''] \<in> disk_dirs d" "disk_files d demo_lock_path = None"
  shows "acquire_mutation_lock demo_world demo_store d = (Inr (), put_file demo_lock_path [] (later 6 d))"
proof -
  have "utf8_valid ''machine.toml''" by code_simp
  then show ?thesis
    using assms demo_policy demo_bound
    by (simp add: acquire_mutation_lock_def bind_op_def lift_def at_clock_def prepare_destination_def stat_path_def
        exists_on_def demo_store_def ok_op_def harden_directory_def leaf_name_def demo_lock_path_def put_file_def
        later_def Let_def)
qed

lemma demo_temporary_name: "temporary_name demo_world demo_store t = demo_temporary"
proof -
  have "utf8_valid ''machine.toml''" by code_simp
  then show ?thesis
    by (simp add: temporary_name_def staging_name_def demo_store_def leaf_name_def demo_host_def demo_temporary_def
        del: demo_crates_sel)
qed

lemma demo_write:
  assumes "disk_files d demo_temporary = None" "demo_temporary \<notin> disk_dirs d"
  obtains d' where "write_manifest demo_world demo_store demo_manifest d = (Inr (), d')"
    "disk_files d' (st_path demo_store) = Some (uuid_text demo_crates demo_uuid)"
proof -
  note tmp = demo_temporary_name
  have toml: "to_toml demo_crates demo_documents demo_manifest = Inr (uuid_text demo_crates demo_uuid)"
  proof -
    have "scan_secret_free demo_crates (wire_value demo_crates demo_manifest) ''$'' = Inr ()"
      using demo_manifest_secret_free by (simp only: scan_iff)
    then show ?thesis by (simp add: to_toml_def demo_documents_def demo_manifest_def del: demo_crates_sel)
  qed
  have fresh: "\<not> exists_on (later n d) demo_temporary" for n
    using assms by (simp add: exists_on_def later_def)
  have re: "revalidate_manifest_before_replace demo_world demo_store demo_manifest t = Inr ()" for t
    using demo_bound demo_binding by (simp add: revalidate_manifest_before_replace_def demo_store_def)
  have run: "\<exists>d'. write_manifest demo_world demo_store demo_manifest d = (Inr (), d')"
    using fresh [of 1] re toml
    by (simp add: write_manifest_def bind_op_def at_clock_def lift_def tmp create_private_file_def create_new_def later_def
       demo_store_def [THEN arg_cong, of st_path] del: demo_crates_sel)
  then obtain d' where d': "write_manifest demo_world demo_store demo_manifest d = (Inr (), d')" by blast
  from write_manifest_effect [OF demo_named d'] obtain bytes where
    "to_toml demo_crates demo_documents demo_manifest = Inr bytes" "disk_files d' (st_path demo_store) = Some bytes"
    by auto
  with toml d' show ?thesis by (intro that) auto
qed

lemma demo_paths_differ: "demo_lock_path \<noteq> st_path demo_store" "demo_lock_path \<noteq> demo_temporary"
proof -
  show "demo_lock_path \<noteq> st_path demo_store" by (simp add: demo_lock_path_def demo_store_def)
  have "hd (drop 14 ''.machine.toml.lock'') \<noteq> hd (drop 14 (''.machine.toml.'' @ x @ ''.tmp''))"
    if "set x \<subseteq> {c. byte c \<le> 102}" "x \<noteq> []" for x
    using that by (cases x) (auto simp: byte_def)
  moreover have "set (to_hex 32 n) \<subseteq> {c. byte c \<le> 102}" for n using to_hex_bytes by fastforce
  moreover have "to_hex 32 n \<noteq> []" for n
    by (metis list.size(3) to_hex_length zero_neq_numeral)
  ultimately show "demo_lock_path \<noteq> demo_temporary"
    unfolding demo_lock_path_def demo_temporary_def by (metis demo_crates_sel(2) list.inject)
qed

lemma demo_reconcile_locked:
  assumes "disk_files d (st_path demo_store) = Some ''legacy''"
    "disk_files d demo_temporary = None" "demo_temporary \<notin> disk_dirs d"
  obtains d' where "reconcile_locked demo_world demo_store d = (Inr \<lparr>ro_manifest = demo_manifest, ro_minted = True\<rparr>, d')"
    "disk_files d' (st_path demo_store) = Some (uuid_text demo_crates demo_uuid)"
proof -
  have legacy: "utf8_valid ''legacy''" by code_simp
  have "disk_files (later n d) demo_temporary = None" "demo_temporary \<notin> disk_dirs (later n d)" for n
    using assms by (simp_all add: later_def)
  from demo_write [OF this [of 5]] obtain d' where
    w: "write_manifest demo_world demo_store demo_manifest (later 5 d) = (Inr (), d')"
      "disk_files d' (st_path demo_store) = Some (uuid_text demo_crates demo_uuid)" .
  have "id_or_fresh demo_world None x = (Inr demo_uuid, later 1 x)" for x
    by (simp add: id_or_fresh_def at_clock_def demo_host_def later_def)
  moreover have "accept demo_world demo_store demo_manifest x = (Inr (), later 1 x)" for x
    by (simp add: later_def)
  moreover have "later 1 (later 1 (later 3 d)) = later 5 d" by (simp add: later_def)
  ultimately have "reconcile_locked demo_world demo_store d = (Inr \<lparr>ro_manifest = demo_manifest, ro_minted = True\<rparr>, d')"
    using demo_checked_raw [OF assms(1) legacy] w(1)
    by (simp add: reconcile_locked_def bind_op_def lift_def parse_id_def demo_raw_def ok_op_def del: demo_accept demo_into)
       (simp flip: demo_raw_def)
  with w(2) that show ?thesis by blast
qed

lemma demo_repair:
  assumes "disk_files d (st_path demo_store) = Some ''legacy''" "[''etc'', ''styrn''] \<in> disk_dirs d"
    "disk_files d demo_lock_path = None" "disk_files d demo_temporary = None" "demo_temporary \<notin> disk_dirs d"
  obtains d' where "repair_section demo_world demo_store d = (Inr \<lparr>ro_manifest = demo_manifest, ro_minted = True\<rparr>, d')"
    "disk_files d' (st_path demo_store) = Some (uuid_text demo_crates demo_uuid)"
proof -
  let ?d1 = "put_file demo_lock_path [] (later 6 d)" let ?d2 = "later 4 ?d1"
  have "disk_files ?d2 (st_path demo_store) = Some ''legacy''" "disk_files ?d2 demo_temporary = None"
    "demo_temporary \<notin> disk_dirs ?d2"
    using assms demo_paths_differ by (auto simp: put_file_def later_def)
  from demo_reconcile_locked [OF this] obtain d' where
    r: "reconcile_locked demo_world demo_store ?d2 = (Inr \<lparr>ro_manifest = demo_manifest, ro_minted = True\<rparr>, d')"
      "disk_files d' (st_path demo_store) = Some (uuid_text demo_crates demo_uuid)" .
  have "disk_files ?d1 (st_path demo_store) = Some ''legacy''"
    using assms demo_paths_differ by (auto simp: put_file_def later_def)
  from demo_read_legacy [OF this]
  have "repair_section demo_world demo_store d = (Inr \<lparr>ro_manifest = demo_manifest, ro_minted = True\<rparr>, d')"
    using demo_lock [OF assms(2,3)] r(1)
    by (simp add: repair_section_def with_mutation_lock_def bind_op_def recover_missing_def is_missing_machine_id_error_def)
  with r(2) that show ?thesis by blast
qed

section \<open>Generated manifests\<close>

lemma existing_id_result:
  assumes "existing_machine_id_for_generated W s d = (Inr found, d')"
  shows "disk_files d' p = disk_files d p \<and> (\<forall>u. file_id W s d = Some u \<longrightarrow> found = Some u)"
proof
  have "keeps p (existing_machine_id_for_generated W s)"
    unfolding existing_machine_id_for_generated_def by (intro keeps_rules)
  then show "disk_files d' p = disk_files d p" using assms by (rule keepsD)
  show "\<forall>u. file_id W s d = Some u \<longrightarrow> found = Some u"
  proof (intro allI impI)
    fix u assume u: "file_id W s d = Some u"
    obtain there d1 where st: "stat_path (w_calls W) ReadError (st_path s) d = (Inr there, d1)"
      and rest: "(if \<not> there then ok_op None
         else bind_op (checked_raw W s WriteError) (\<lambda>raw.
            bind_op (lift (parse_id (w_crates W) raw)) (\<lambda>i.
            bind_op (id_or_fresh W i) (\<lambda>u.
            bind_op (accept W s (into_manifest raw u)) (\<lambda>_. ok_op (Some u)))))) d1 = (Inr found, d')"
      using assms unfolding existing_machine_id_for_generated_def bind_op_Inr by blast
    have same: "file_id W s d1 = Some u"
      using keeps_file_id [where m = "stat_path (w_calls W) ReadError (st_path s)"] keeps_stat st u by metis
    have there: "there"
      using st u by (auto simp: stat_path_def bind_op_def native_def Let_def exists_on_def file_id_def
          split: option.splits)
    with rest obtain raw d2 i d3 v where c: "checked_raw W s WriteError d1 = (Inr raw, d2)"
      "parse_id (w_crates W) raw = Inr i" "id_or_fresh W i d2 = (Inr v, d3)" "found = Some v"
      by (auto simp: bind_op_Inr lift_def ok_op_def)
    have "i = Some u" using checked_raw_result [OF c(1,2)] same by simp
    with c(3,4) show "found = Some u" by (simp add: id_or_fresh_def ok_op_def)
  qed
qed

definition generated_id :: "world \<Rightarrow> manifest_store \<Rightarrow> manifest_draft \<Rightarrow> uuid op" where
  "generated_id W s draft =
     bind_op (id_or_fresh W None) (\<lambda>trial.
     bind_op (accept W s (with_machine_id draft trial)) (\<lambda>_.
     bind_op (acquire_mutation_lock W s) (\<lambda>_.
     bind_op (existing_machine_id_for_generated W s) (\<lambda>found.
     bind_op (id_or_fresh W found) (\<lambda>u.
     bind_op (accept W s (with_machine_id draft u)) (\<lambda>_. ok_op u))))))"

lemma write_generated_split:
  "write_generated W s draft =
     bind_op (generated_id W s draft) (\<lambda>u. bind_op (write_manifest W s (with_machine_id draft u)) (\<lambda>_. ok_op u))"
  by (simp add: write_generated_def generated_id_def with_mutation_lock_def bind_op_assoc)

lemma generated_id_result:
  assumes n: "named_store s" and g: "generated_id W s draft d = (r, d')"
  shows "file_id W s d' = file_id W s d \<and> disk_files d' (st_path s) = disk_files d (st_path s) \<and>
     (\<forall>u v. r = Inr u \<and> file_id W s d = Some v \<longrightarrow> u = v)"
proof -
  have lock: "keeps (st_path s) (acquire_mutation_lock W s)" using keeps_lock n by (simp add: named_store_def)
  have "keeps (st_path s) (existing_machine_id_for_generated W s)"
    unfolding existing_machine_id_for_generated_def by (intro keeps_rules)
  then have k: "keeps (st_path s) (generated_id W s draft)"
    unfolding generated_id_def by (intro keeps_rules lock)
  have "u = v" if ru: "r = Inr u" and v: "file_id W s d = Some v" for u v
  proof -
    obtain t d1 d2 d3 found d4 d5 where c: "id_or_fresh W None d = (Inr t, d1)"
      "accept W s (with_machine_id draft t) d1 = (Inr (), d2)" "acquire_mutation_lock W s d2 = (Inr (), d3)"
      "existing_machine_id_for_generated W s d3 = (Inr found, d4)" "id_or_fresh W found d4 = (Inr u, d5)"
      using g [unfolded ru generated_id_def bind_op_Inr] by (auto simp: ok_op_def)
    have "file_id W s d3 = Some v"
      using v c(1-3) keeps_file_id [where m = "id_or_fresh W None"] keeps_fresh
        keeps_file_id [where m = "accept W s (with_machine_id draft t)"] keeps_accept
        keeps_file_id [OF lock c(3)] by metis
    with existing_id_result [OF c(4)] have "found = Some v" by blast
    with c(5) show "u = v" by (simp add: id_or_fresh_def ok_op_def)
  qed
  with keeps_file_id [OF k g] keepsD [OF k g] show ?thesis by blast
qed

lemma write_generated_id:
  assumes laws: "id_laws W" "named_store s" and r: "write_generated W s draft d = (r, d')"
  shows "(\<forall>u. file_id W s d = Some u \<longrightarrow> file_id W s d' = Some u) \<and>
     (\<forall>u. r = Inr u \<longrightarrow> file_id W s d' = Some u \<and>
        (\<exists>bytes. to_toml (w_crates W) (w_toml W) (with_machine_id draft u) = Inr bytes \<and>
           disk_files d' (st_path s) = Some bytes))"
proof -
  obtain r1 d1 where g: "generated_id W s draft d = (r1, d1)" by fastforce
  note gi = generated_id_result [OF laws(2) g]
  show ?thesis
  proof (cases r1)
    case (Inl e)
    with r g have "r = Inl e" "d' = d1" by (auto simp: write_generated_split bind_op_def)
    with gi show ?thesis by simp
  next
    case (Inr u)
    obtain r2 d2 where w: "write_manifest W s (with_machine_id draft u) d1 = (r2, d2)" by fastforce
    have out: "(r, d') = (case r2 of Inl e \<Rightarrow> (Inl e, d2) | Inr _ \<Rightarrow> (Inr u, d2))"
      using r g w Inr by (auto simp: write_generated_split bind_op_def ok_op_def split: sum.splits)
    note written = write_file_id [OF laws w, unfolded machine_id_with]
    show ?thesis
    proof (cases r2)
      case (Inl e)
      with out written gi Inr show ?thesis by auto
    next
      case (Inr x)
      obtain bytes where "to_toml (w_crates W) (w_toml W) (with_machine_id draft u) = Inr bytes"
        "disk_files d2 (st_path s) = Some bytes"
        using write_manifest_effect [OF laws(2) w] Inr by (metis old.sum.distinct(2))
      with out written gi Inr \<open>r1 = Inr u\<close> show ?thesis by auto
    qed
  qed
qed

section \<open>Termination of a fleet\<close>

text \<open>The steps a server has left.\<close>

primrec steps_left :: "server \<Rightarrow> nat" where
  "steps_left Starting = 3"
| "steps_left Preflighting = 2"
| "steps_left Locking = 1"
| "steps_left (Served out) = 0"
| "steps_left (Failed e) = 0"

lemma fleet_step_measure:
  assumes "fleet_step W s f g"
  obtains i v where "fl_server g = (fl_server f)(i := v)" "steps_left v < steps_left (fl_server f i)"
  using assms
proof (cases rule: fleet_step.cases)
  case (read_step i r d)
  then show ?thesis by (intro that [of i "after_read r"]) (auto simp: after_read_def split: sum.splits)
next
  case (preflight_step i p d)
  then show ?thesis by (intro that [of i "after_preflight p"]) (auto simp: after_preflight_def split: sum.splits)
next
  case (repair_step i r d)
  then show ?thesis by (intro that [of i "concluded r"]) (auto simp: concluded_def split: sum.splits)
qed

lemma fleet_steps_left:
  assumes "fleet_step W s f g" "\<forall>i \<ge> n. settled (fl_server f i)"
  shows "(\<Sum>i<n. steps_left (fl_server g i)) < (\<Sum>i<n. steps_left (fl_server f i))"
    "\<forall>i \<ge> n. settled (fl_server g i)"
proof -
  obtain i v where iv: "fl_server g = (fl_server f)(i := v)" "steps_left v < steps_left (fl_server f i)"
    using assms(1) by (rule fleet_step_measure)
  then have "i < n" using assms(2) by (cases "fl_server f i") (auto simp: settled_def not_le [symmetric])
  then show "(\<Sum>i<n. steps_left (fl_server g i)) < (\<Sum>i<n. steps_left (fl_server f i))"
    using iv by (intro sum_strict_mono_ex1) auto
  show "\<forall>i \<ge> n. settled (fl_server g i)" using assms(2) iv \<open>i < n\<close> by auto
qed

lemma fleet_progress:
  assumes "\<not> settled (fl_server f i)"
  shows "\<exists>g. fleet_step W s f g"
proof (cases "fl_server f i")
  case Starting
  then show ?thesis by (metis fleet_step.read_step surj_pair)
next
  case Preflighting
  then show ?thesis by (metis fleet_step.preflight_step surj_pair)
next
  case Locking
  then show ?thesis by (metis fleet_step.repair_step surj_pair)
qed (use assms in \<open>auto simp: settled_def\<close>)

lemma fleet_steps_bounded:
  assumes "(fleet_step W s ^^ k) f g" "\<forall>i \<ge> n. settled (fl_server f i)"
  shows "(\<forall>i \<ge> n. settled (fl_server g i)) \<and>
     k + (\<Sum>i<n. steps_left (fl_server g i)) \<le> (\<Sum>i<n. steps_left (fl_server f i))"
  using assms(1)
proof (induction k arbitrary: g)
  case 0
  then show ?case using assms(2) by simp
next
  case (Suc k)
  then obtain h where h: "(fleet_step W s ^^ k) f h" "fleet_step W s h g" by auto
  with Suc.IH [OF h(1)] fleet_steps_left [OF h(2)] show ?case by fastforce
qed

section \<open>Properties\<close>

lemma demo_disk_facts:
  "disk_files demo_disk (st_path demo_store) = Some ''legacy''" "[''etc'', ''styrn''] \<in> disk_dirs demo_disk"
  "disk_files demo_disk demo_lock_path = None" "disk_files demo_disk demo_temporary = None"
  "demo_temporary \<notin> disk_dirs demo_disk"
  using demo_paths_differ
  by (auto simp: demo_disk_def demo_store_def demo_lock_path_def demo_temporary_def)

lemma demo_disk_later:
  "disk_files (later n demo_disk) = disk_files demo_disk" "disk_dirs (later n demo_disk) = disk_dirs demo_disk"
  by (simp_all add: later_def)

lemma demo_generated:
  "\<exists>d'. write_generated demo_world demo_store (without_machine_id demo_manifest)
       (put_file (st_path demo_store) (uuid_text demo_crates demo_uuid) demo_disk) = (Inr demo_uuid, d')"
proof -
  let ?d = "put_file (st_path demo_store) (uuid_text demo_crates demo_uuid) demo_disk"
  have id: "with_machine_id (without_machine_id demo_manifest) demo_uuid = demo_manifest"
    by (simp add: with_machine_id_def without_machine_id_def demo_manifest_def manifest_draft.defs)
  have fresh: "id_or_fresh demo_world None d = (Inr demo_uuid, later 1 d)" for d
    by (simp add: id_or_fresh_def at_clock_def demo_host_def later_def)
  have acc: "accept demo_world demo_store demo_manifest d = (Inr (), later 1 d)" for d
    by (simp add: later_def)
  let ?d3 = "put_file demo_lock_path [] (later 6 (later 1 (later 1 ?d)))"
  have lock: "acquire_mutation_lock demo_world demo_store (later 1 (later 1 ?d)) = (Inr (), ?d3)"
    using demo_disk_facts demo_paths_differ by (intro demo_lock) (simp_all add: later_def put_file_def)
  have there: "disk_files (later n ?d3) (st_path demo_store) = Some (uuid_text demo_crates demo_uuid)" for n
    using demo_paths_differ by (simp add: later_def put_file_def)
  have stat: "stat_path (w_calls demo_world) ReadError (st_path demo_store) ?d3 = (Inr True, later 1 ?d3)"
    using there [of 1] by (simp add: stat_path_def bind_op_def exists_on_def later_def)
  have existing: "existing_machine_id_for_generated demo_world demo_store ?d3 =
      (Inr (Some demo_uuid), later 1 (later 3 (later 1 ?d3)))"
    using stat demo_checked_raw [OF there demo_id_text(1)] demo_id_text(2) demo_parse_id acc
    by (simp add: existing_machine_id_for_generated_def bind_op_def lift_def id_or_fresh_def ok_op_def
        del: demo_crates_sel demo_accept)
  let ?d5 = "later 1 (later 1 (later 3 (later 1 ?d3)))"
  have "disk_files ?d5 demo_temporary = None" "demo_temporary \<notin> disk_dirs ?d5"
    using demo_disk_facts demo_paths_differ demo_temporary_name temporary_name_differs [OF demo_named]
    by (auto simp: later_def put_file_def)
  then obtain d' where "write_manifest demo_world demo_store demo_manifest ?d5 = (Inr (), d')"
    using demo_write by blast
  then show ?thesis
    using fresh acc lock existing
    by (simp add: write_generated_def with_mutation_lock_def bind_op_def id ok_op_def id_or_fresh_def [of _ "Some _"]
        del: demo_accept demo_crates_sel)
qed

lemma demo_fleet:
  "\<exists>f a b. (fleet_step demo_world demo_store)\<^sup>*\<^sup>* (starting_fleet demo_disk) f \<and>
     fl_server f 0 = Served a \<and> fl_server f 1 = Served b \<and> ro_minted a \<and> \<not> ro_minted b"
proof -
  obtain d where d: "repair_section demo_world demo_store (later 6 (later 4 demo_disk)) =
      (Inr \<lparr>ro_manifest = demo_manifest, ro_minted = True\<rparr>, d)"
    "disk_files d (st_path demo_store) = Some (uuid_text demo_crates demo_uuid)"
    using demo_disk_facts demo_repair [of "later 6 (later 4 demo_disk)"] by (auto simp: demo_disk_later later_def)
  have pre: "preflight_document_binding demo_world demo_store True (later 4 demo_disk) = (Inr (), later 6 (later 4 demo_disk))"
    using demo_disk_facts by (intro demo_preflight) (simp add: demo_disk_later)
  have first: "read_or_reconcile_missing_machine_id demo_world demo_store demo_disk =
      (Inr \<lparr>ro_manifest = demo_manifest, ro_minted = True\<rparr>, d)"
    using demo_read_legacy [OF demo_disk_facts(1)] pre d(1)
    by (simp add: read_or_reconcile_missing_machine_id_def recover_missing_def is_missing_machine_id_error_def
        locked_repair_def bind_op_def repair_section_def)
  have second: "read_or_reconcile_missing_machine_id demo_world demo_store d =
      (Inr \<lparr>ro_manifest = demo_manifest, ro_minted = False\<rparr>, later 5 d)"
    using demo_read_id [OF d(2)] by (simp add: read_or_reconcile_missing_machine_id_def recover_missing_def)
  let ?f1 = "\<lparr>fl_disk = d, fl_server = (fl_server (starting_fleet demo_disk))
      (0 := Served \<lparr>ro_manifest = demo_manifest, ro_minted = True\<rparr>)\<rparr>"
  have "(fleet_step demo_world demo_store)\<^sup>*\<^sup>* (starting_fleet demo_disk) ?f1"
    using server_runs [of demo_world demo_store "starting_fleet demo_disk" _ d 0] first
    by (simp add: starting_fleet_def concluded_def)
  moreover have "(fleet_step demo_world demo_store)\<^sup>*\<^sup>* ?f1 \<lparr>fl_disk = later 5 d, fl_server = (fl_server ?f1)
      (1 := Served \<lparr>ro_manifest = demo_manifest, ro_minted = False\<rparr>)\<rparr>"
    using server_runs [of demo_world demo_store ?f1 _ "later 5 d" 1] second
    by (simp add: starting_fleet_def concluded_def)
  ultimately show ?thesis by (intro exI conjI) (rule rtranclp_trans, assumption+, simp, simp, simp, simp)
qed

text \<open>
  C14. A manifest is replaced as a whole: whatever native calls fail, and at whatever step, the
  file afterwards holds its old bytes, and an error is reported, or exactly the printed form of
  the new manifest, which passed the principal and layout checks just before; the only error
  then is that the security check after the replacement failed. No other file but the
  temporary one changes, and after a replacement the temporary file is gone.
\<close>

theorem manifest_replacement_atomic:
  assumes "named_store s" and "write_manifest W s m d = (r, d')"
  shows "(\<forall>p. p \<noteq> st_path s \<and> p \<noteq> temporary_name W s (disk_clock d) \<longrightarrow> disk_files d' p = disk_files d p) \<and>
     ((\<exists>e. r = Inl e \<and> disk_files d' (st_path s) = disk_files d (st_path s)) \<or>
      (\<exists>bytes t. (r = Inr () \<or> (\<exists>e. r = Inl (PostReplaceSecurityError e))) \<and>
         to_toml (w_crates W) (w_toml W) m = Inr bytes \<and> disk_files d' (st_path s) = Some bytes \<and>
         disk_files d' (temporary_name W s (disk_clock d)) = None \<and>
         verify_bound_principal W s t = Inr () \<and> validate_manifest_binding W s t m = Inr ()))"
  using assms by (rule write_manifest_effect) blast

theorem manifest_replacement_atomic_witness:
  "\<exists>d'. write_manifest demo_world demo_store demo_manifest demo_disk = (Inr (), d') \<and>
     disk_files d' demo_lock_path = None"
proof -
  obtain d' where w: "write_manifest demo_world demo_store demo_manifest demo_disk = (Inr (), d')"
    using demo_write demo_disk_facts(4,5) by blast
  have "temporary_name demo_world demo_store (disk_clock demo_disk) = demo_temporary"
    by (rule demo_temporary_name)
  with manifest_replacement_atomic [OF demo_named w] w demo_paths_differ demo_disk_facts(3)
  show ?thesis by auto
qed

text \<open>
  C34. Generating a manifest never changes the identity of a machine: whatever happens, a
  machine id that the file holds before is the one it holds after; and when the generation
  succeeds the file holds the printed form of the draft with exactly the returned id.
\<close>

theorem generated_manifest_keeps_identity:
  assumes "id_laws W" and "named_store s" and "write_generated W s draft d = (r, d')"
  shows "(\<forall>u. file_id W s d = Some u \<longrightarrow> file_id W s d' = Some u) \<and>
     (\<forall>u. r = Inr u \<longrightarrow> file_id W s d' = Some u \<and>
        (\<exists>bytes. to_toml (w_crates W) (w_toml W) (with_machine_id draft u) = Inr bytes \<and>
           disk_files d' (st_path s) = Some bytes))"
  using assms by (rule write_generated_id)

theorem generated_manifest_keeps_identity_witness:
  "\<exists>d'. write_generated demo_world demo_store (without_machine_id demo_manifest)
       (put_file (st_path demo_store) (uuid_text demo_crates demo_uuid) demo_disk) = (Inr demo_uuid, d') \<and>
     file_id demo_world demo_store d' = Some demo_uuid"
proof -
  let ?d = "put_file (st_path demo_store) (uuid_text demo_crates demo_uuid) demo_disk"
  obtain d' where w: "write_generated demo_world demo_store (without_machine_id demo_manifest) ?d = (Inr demo_uuid, d')"
    using demo_generated by blast
  with generated_manifest_keeps_identity [OF demo_id_laws demo_named w] show ?thesis by blast
qed

text \<open>
  C15. Servers that open the same manifest together agree on the machine: in every reachable
  state all the servers that are up serve the id that is in the file; at most one of them
  minted it, none did if the file had an id at the start, and an id the file had is kept.
\<close>

theorem servers_agree_on_identity:
  assumes "id_laws W" and "named_store s" and "(fleet_step W s)\<^sup>*\<^sup>* (starting_fleet d) f"
  shows "(\<forall>u. file_id W s d = Some u \<longrightarrow> file_id W s (fl_disk f) = Some u) \<and>
     (\<forall>i a. fl_server f i = Served a \<longrightarrow>
        file_id W s (fl_disk f) = Some (machine_id (ro_manifest a)) \<and> (ro_minted a \<longrightarrow> file_id W s d = None)) \<and>
     (\<forall>i j a b. fl_server f i = Served a \<and> fl_server f j = Served b \<and> ro_minted a \<and> ro_minted b \<longrightarrow> i = j)"
  using fleet_ok_reachable [OF assms] unfolding fleet_ok_def .

theorem servers_agree_on_identity_witness:
  "\<exists>f a b. (fleet_step demo_world demo_store)\<^sup>*\<^sup>* (starting_fleet demo_disk) f \<and>
     fl_server f 0 = Served a \<and> fl_server f 1 = Served b \<and> ro_minted a \<and> \<not> ro_minted b \<and>
     file_id demo_world demo_store (fl_disk f) = Some (machine_id (ro_manifest b))"
proof -
  obtain f a b where f: "(fleet_step demo_world demo_store)\<^sup>*\<^sup>* (starting_fleet demo_disk) f"
    "fl_server f 0 = Served a" "fl_server f 1 = Served b" "ro_minted a" "\<not> ro_minted b"
    using demo_fleet by blast
  with servers_agree_on_identity [OF demo_id_laws demo_named f(1)] show ?thesis by blast
qed



lemma current_projection_facts:
  assumes "derive_current_user H t base pr = Inr p"
  shows "validate_current_user_projection_base H base = Inr ()"
    "canonical_current_user_store_projection H t pr = Inr p"
    "\<exists>l. projection_of H pr l = Inr p" "wp_policy pr = CurrentUserPolicy"
  using assms
  by (auto simp: derive_current_user_def canonical_current_user_store_projection_def result_simps
      derive_from_verified_layout_def validate_current_native_principal_def split: if_splits)

text \<open>
  C36. What setup derives the store accepts: a current-user projection that can be derived from a
  draft at some moment is the one the user's store computes at that moment, and the projected
  draft, under any machine id, passes the store's layout binding.
\<close>

theorem derived_projection_binds:
  assumes "derive_current_user (w_host W) t base pr = Inr p"
    and "new_worker_principal (wp_kind pr) (wp_id pr) (wp_name pr) (wp_policy pr) = Inr pr"
    and "st_scope s = UserScope" and "st_binding s = CanonicalCurrentUser" and "st_principal s = pr"
  shows "canonical_current_user_store_projection (w_host W) t pr = Inr p \<and>
     validate_manifest_binding W s t (with_machine_id (projected_draft UserScope base p) u) = Inr ()"
proof -
  note facts = current_projection_facts [OF assms(1)]
  obtain l where l: "projection_of (w_host W) pr l = Inr p" using facts(3) by blast
  have base: "map_option in_scope (installation base) = Some UserScope" "WorkerRole \<in> set (roles base)"
    "transport base \<noteq> None"
    using facts(1) by (auto simp: validate_current_user_projection_base_def validate_projection_base_def split: if_splits)
  then obtain inst where inst: "installation base = Some inst" "in_scope inst = UserScope" by auto
  note bound = projected_binding [OF assms(2) l base(3)]
  then show ?thesis
    using facts(2) assms(3-5) inst base(2)
    by (simp add: validate_manifest_binding_def projected_draft_def with_machine_id_def manifest_draft.defs)
qed

definition demo_user :: worker_principal where
  "demo_user = \<lparr>wp_kind = UnixUid, wp_id = ''1001'', wp_name = ''styrn'', wp_policy = CurrentUserPolicy\<rparr>"

definition demo_user_host :: host_answers where
  "demo_user_host = demo_host\<lparr>current_principal := (\<lambda>_. Inr demo_user),
     default_root := (\<lambda>_ _ _. Inr (''/home/styrn/.local/share/styrn'', Some ''/home/styrn''))\<rparr>"

definition demo_user_base :: manifest_draft where
  "demo_user_base = (without_machine_id demo_manifest)\<lparr>installation := Some \<lparr>in_scope = UserScope\<rparr>\<rparr>"

theorem derived_projection_binds_witness:
  "\<exists>p. derive_current_user demo_user_host 0 demo_user_base demo_user = Inr p \<and>
     validate_manifest_binding (demo_world\<lparr>w_host := demo_user_host\<rparr>)
       (demo_store\<lparr>st_scope := UserScope, st_principal := demo_user, st_binding := CanonicalCurrentUser\<rparr>) 0
       (with_machine_id (projected_draft UserScope demo_user_base p) demo_uuid) = Inr ()"
proof -
  have "exact_manifest_paths (new_worker_layout UserScope ''/home/styrn/.local/share/styrn''
      (Some ''/home/styrn'') demo_user) = Inr (standard_paths Linux ''/home/styrn/.local/share/styrn'')"
    by code_simp
  then have "\<exists>p. derive_current_user (w_host (demo_world\<lparr>w_host := demo_user_host\<rparr>)) 0 demo_user_base demo_user = Inr p"
    by (auto simp: derive_current_user_def validate_current_user_projection_base_def validate_projection_base_def
        demo_user_base_def without_machine_id_def manifest_draft.defs demo_manifest_def demo_user_host_def demo_host_def
        validate_current_native_principal_def demo_user_def wp_isolation_def resolve_worker_directory_layout_def
        answered_def derive_from_verified_layout_def projection_of_def new_worker_layout_def)
  then obtain p where p: "derive_current_user (w_host (demo_world\<lparr>w_host := demo_user_host\<rparr>)) 0 demo_user_base demo_user = Inr p"
    by blast
  have "new_worker_principal (wp_kind demo_user) (wp_id demo_user) (wp_name demo_user) (wp_policy demo_user) =
      Inr demo_user"
    by (simp add: new_worker_principal_def demo_worker_valid demo_user_def)
  from derived_projection_binds [OF p this] p show ?thesis by simp
qed

end
