(* ===== verification/SshKeys.thy ===== *)
theory SshKeys
  imports Transport
begin

text \<open>
  SSH key material that setup inspects (\<open>src/platform/mod.rs\<close>): the effective configuration
  printed by \<open>sshd -T\<close>, and the lines of an \<open>authorized_keys\<close> file, whose base64 blob is
  decoded down to the multi-precision integers of an RSA key.
\<close>

section \<open>Effective sshd configuration\<close>

definition baseline_output_limit :: nat where
  "baseline_output_limit = 64 * 1024"

record effective_sshd_config =
  public_key_authentication :: bool
  authorized_keys_files :: "string list"

definition usable_keys_file :: "string \<Rightarrow> bool" where
  "usable_keys_file path \<longleftrightarrow>
     path \<noteq> [] \<and> length path \<le> 1024 \<and> path \<noteq> ''none'' \<and> list_all is_ascii_graphic path"

definition yes_no :: "string list \<Rightarrow> bool option" where
  "yes_no args = (if args = [''yes''] then Some True else if args = [''no''] then Some False else None)"

fun sshd_lines ::
  "bool option \<times> string list option \<Rightarrow> string list \<Rightarrow> (bool option \<times> string list option) option" where
  "sshd_lines (auth, files) [] = Some (auth, files)"
| "sshd_lines (auth, files) (line # rest) =
     (case split_ascii_whitespace line of
        [] \<Rightarrow> None
      | key # args \<Rightarrow>
          if key = ''publickeyauthentication'' then
            (case yes_no args of
               None \<Rightarrow> None
             | Some v \<Rightarrow> if auth \<noteq> None then None else sshd_lines (Some v, files) rest)
          else if key = ''authorizedkeysfile'' then
            (let paths = filter usable_keys_file args
             in if paths = [] \<or> files \<noteq> None then None else sshd_lines (auth, Some paths) rest)
          else sshd_lines (auth, files) rest)"

definition parse_effective_sshd_config :: "string \<Rightarrow> effective_sshd_config option" where
  "parse_effective_sshd_config bytes =
     (if baseline_output_limit < length bytes \<or> \<not> utf8_valid bytes then None
      else (case sshd_lines (None, None) (lines bytes) of
              Some (Some auth, Some files) \<Rightarrow>
                Some \<lparr>public_key_authentication = auth, authorized_keys_files = files\<rparr>
            | _ \<Rightarrow> None))"

section \<open>Authorized keys\<close>

definition take_ssh_wire_string :: "string \<Rightarrow> (string \<times> string) option" where
  "take_ssh_wire_string wire =
     (if length wire < 4 then None
      else (let n = be_u32 (take 4 wire)
            in if length wire < 4 + n then None else Some (take n (drop 4 wire), drop (4 + n) wire)))"

definition take_positive_ssh_mpint :: "string \<Rightarrow> (string \<times> string) option" where
  "take_positive_ssh_mpint wire =
     (case take_ssh_wire_string wire of
        None \<Rightarrow> None
      | Some (encoded, rest) \<Rightarrow>
          if encoded = [] \<or> 128 \<le> byte (encoded ! 0) then None
          else if 1 < length encoded \<and> byte (encoded ! 0) = 0 \<and> byte (encoded ! 1) < 128 then None
          else (let val = (case strip_prefix [CHR 0x00] encoded of None \<Rightarrow> encoded | Some v \<Rightarrow> v)
                in if val \<noteq> [] \<and> list_ex (\<lambda>b. byte b \<noteq> 0) val then Some (val, rest) else None))"

text \<open>The fold over \<open>u32\<close> with \<open>checked_mul\<close> and \<open>checked_add\<close>.\<close>

definition checked_u32 :: "nat \<Rightarrow> nat option" where
  "checked_u32 n = (if n \<le> u32_max then Some n else None)"

fun exponent_value :: "nat \<Rightarrow> string \<Rightarrow> nat option" where
  "exponent_value v [] = Some v"
| "exponent_value v (b # bs) =
     (case checked_u32 (v * 256) of
        None \<Rightarrow> None
      | Some w \<Rightarrow> (case checked_u32 (w + byte b) of None \<Rightarrow> None | Some w \<Rightarrow> exponent_value w bs))"

definition valid_rsa_exponent :: "string \<Rightarrow> bool" where
  "valid_rsa_exponent encoded =
     (case exponent_value 0 encoded of None \<Rightarrow> False | Some e \<Rightarrow> 3 \<le> e \<and> e mod 2 = 1)"

fun bit_width :: "nat \<Rightarrow> nat" where
  "bit_width n = (if n = 0 then 0 else Suc (bit_width (n div 2)))"

declare bit_width.simps [simp del]

definition leading_zeros_u8 :: "char \<Rightarrow> nat" where
  "leading_zeros_u8 b = 8 - bit_width (byte b)"

definition ssh_mpint_bit_length :: "string \<Rightarrow> nat" where
  "ssh_mpint_bit_length val =
     (case val of [] \<Rightarrow> 0 | first # _ \<Rightarrow> (length val - 1) * 8 + (8 - leading_zeros_u8 first))"

definition ed25519 :: string where "ed25519 = ''ssh-ed25519''"

definition rsa :: string where "rsa = ''ssh-rsa''"

definition sk_ed25519 :: string where "sk_ed25519 = ''sk-ssh-ed25519@openssh.com''"

record authorized_key =
  ak_type :: string
  ak_encoded :: string

definition key_body :: "string \<Rightarrow> string \<Rightarrow> string option" where
  "key_body key_type wire =
     (if key_type = ed25519 then
        (case take_ssh_wire_string wire of
           None \<Rightarrow> None
         | Some (key, rest) \<Rightarrow> if length key \<noteq> 32 then None else Some rest)
      else if key_type = rsa then
        (case take_positive_ssh_mpint wire of
           None \<Rightarrow> None
         | Some (exponent, rest) \<Rightarrow>
             (case take_positive_ssh_mpint rest of
                None \<Rightarrow> None
              | Some (modulus, rest) \<Rightarrow>
                  if \<not> valid_rsa_exponent exponent \<or> ssh_mpint_bit_length modulus < 2048
                     \<or> modulus = [] \<or> byte (last modulus) mod 2 = 0
                  then None else Some rest))
      else if key_type = sk_ed25519 then
        (case take_ssh_wire_string wire of
           None \<Rightarrow> None
         | Some (key, rest) \<Rightarrow>
             if length key \<noteq> 32 then None
             else (case take_ssh_wire_string rest of
                     None \<Rightarrow> None
                   | Some (application, rest) \<Rightarrow> if application = [] then None else Some rest))
      else None)"

definition parse_authorized_key_line :: "crates \<Rightarrow> string \<Rightarrow> authorized_key option" where
  "parse_authorized_key_line C line =
     (case split_ascii_whitespace line of
        key_type # encoded # _ \<Rightarrow>
          if key_type \<notin> {ed25519, rsa, sk_ed25519} \<or> 16 * 1024 < length encoded then None
          else (case b64_std_decode C encoded of
                  None \<Rightarrow> None
                | Some wire \<Rightarrow>
                    (case take_ssh_wire_string wire of
                       None \<Rightarrow> None
                     | Some (name, wire) \<Rightarrow>
                         if name \<noteq> key_type then None
                         else (case key_body key_type wire of
                                 None \<Rightarrow> None
                               | Some rest \<Rightarrow>
                                   if rest = [] then Some \<lparr>ak_type = key_type, ak_encoded = encoded\<rparr> else None)))
      | _ \<Rightarrow> None)"

section \<open>The wire format\<close>

definition be4 :: "nat \<Rightarrow> string" where
  "be4 n = map char_of [n div 16777216 mod 256, n div 65536 mod 256, n div 256 mod 256, n mod 256]"

definition ssh_string :: "string \<Rightarrow> string" where
  "ssh_string s = be4 (length s) @ s"

fun be_bytes :: "nat \<Rightarrow> string" where
  "be_bytes n = (if n = 0 then [] else be_bytes (n div 256) @ [char_of (n mod 256)])"

declare be_bytes.simps [simp del]

text \<open>The canonical multi-precision form of a positive number: no byte more than the sign needs.\<close>

definition mpint :: "nat \<Rightarrow> string" where
  "mpint n = (if 128 \<le> byte (hd (be_bytes n)) then CHR 0x00 # be_bytes n else be_bytes n)"

lemma char_of_byte [simp]: "char_of (byte c) = c"
  by (simp add: byte_def)

lemma byte_less: "byte c < 256"
  by (simp add: byte_def)

lemma be_u32_snoc: "be_u32 (s @ [c]) = 256 * be_u32 s + byte c"
  by (simp add: be_u32_def)

lemma be_u32_Nil [simp]: "be_u32 [] = 0"
  by (simp add: be_u32_def)

lemma be_u32_append: "be_u32 (s @ t) = be_u32 s * 256 ^ length t + be_u32 t"
proof (induction t rule: rev_induct)
  case (snoc c t)
  then show ?case by (simp add: be_u32_snoc flip: append_assoc)
qed simp

lemma be_u32_Cons: "be_u32 (c # s) = byte c * 256 ^ length s + be_u32 s"
  using be_u32_append [of "[c]" s] by (simp add: be_u32_snoc [of "[]" c, simplified])

lemma be_u32_less: "be_u32 s < 256 ^ length s"
proof (induction s rule: rev_induct)
  case (snoc c s)
  have "256 * be_u32 s + byte c < 256 * (be_u32 s + 1)" using byte_less [of c] by simp
  also have "\<dots> \<le> 256 * 256 ^ length s" using snoc by simp
  finally show ?case by (simp add: be_u32_snoc)
qed simp

lemma be4_digits:
  "n div 65536 = n div 256 div 256" "n div 16777216 = n div 256 div 256 div 256" for n :: nat
  by (simp_all flip: div_mult2_eq)

lemma be4_be_u32:
  assumes "length s = 4"
  shows "be4 (be_u32 s) = s"
proof -
  obtain a b c d where s: "s = [a, b, c, d]"
    using assms by (auto simp: length_Suc_conv eval_nat_numeral)
  define x where "x = 256 * byte a + byte b"
  define y where "y = 256 * x + byte c"
  have v: "be_u32 s = 256 * y + byte d" by (simp add: be_u32_def s x_def y_def)
  have less: "byte a < 256" "byte b < 256" "byte c < 256" "byte d < 256" by (rule byte_less)+
  then have "(256 * y + byte d) div 256 = y" "(256 * y + byte d) mod 256 = byte d" by simp_all
  moreover from less have "y div 256 = x" "y mod 256 = byte c" by (simp_all add: y_def)
  moreover from less have "x div 256 = byte a" "x mod 256 = byte b" by (simp_all add: x_def)
  ultimately show ?thesis unfolding be4_def be4_digits v using less by (simp add: s)
qed

lemma be_u32_be4:
  assumes "n < 2 ^ 32"
  shows "be_u32 (be4 n) = n"
proof -
  have "n div 256 div 256 div 256 < 256"
    using assms by (simp add: less_mult_imp_div_less flip: div_mult2_eq)
  then have "be_u32 (be4 n) = 256 * (256 * (256 * (n div 256 div 256 div 256) + n div 256 div 256 mod 256)
      + n div 256 mod 256) + n mod 256"
    by (simp add: be4_def be_u32_def be4_digits)
  then show ?thesis by (simp only: mult_div_mod_eq)
qed

lemma be4_length [simp]: "length (be4 n) = 4"
  by (simp add: be4_def)

lemma take_ssh_wire_string_iff:
  "take_ssh_wire_string wire = Some (s, rest) \<longleftrightarrow> length s < 2 ^ 32 \<and> wire = ssh_string s @ rest"
proof
  assume t: "take_ssh_wire_string wire = Some (s, rest)"
  then have len: "4 + be_u32 (take 4 wire) \<le> length wire" and s: "s = take (be_u32 (take 4 wire)) (drop 4 wire)"
    and r: "rest = drop (4 + be_u32 (take 4 wire)) wire"
    by (auto simp: take_ssh_wire_string_def Let_def not_less split: if_splits)
  have ls: "length s = be_u32 (take 4 wire)" using len s by simp
  have "be4 (length s) = take 4 wire" unfolding ls using len by (intro be4_be_u32) simp
  moreover have "length s < 2 ^ 32" using be_u32_less [of "take 4 wire"] len ls by simp
  moreover have "wire = take 4 wire @ s @ rest"
    unfolding s r by (metis append_take_drop_id drop_drop add.commute)
  ultimately show "length s < 2 ^ 32 \<and> wire = ssh_string s @ rest" by (simp add: ssh_string_def)
next
  assume "length s < 2 ^ 32 \<and> wire = ssh_string s @ rest"
  then show "take_ssh_wire_string wire = Some (s, rest)"
    by (simp add: take_ssh_wire_string_def ssh_string_def be_u32_be4)
qed

lemma be_u32_be_bytes: "be_u32 (be_bytes n) = n"
proof (induction n rule: be_bytes.induct)
  case (1 n)
  then show ?case by (subst be_bytes.simps) (simp add: be_u32_snoc)
qed

lemma be_bytes_be_u32: "s = [] \<or> byte (hd s) \<noteq> 0 \<Longrightarrow> be_bytes (be_u32 s) = s"
proof (induction s rule: rev_induct)
  case Nil
  then show ?case by (simp add: be_bytes.simps)
next
  case (snoc c s)
  have "be_u32 (s @ [c]) \<noteq> 0"
  proof (cases s)
    case Nil
    with snoc.prems show ?thesis by (simp add: be_u32_snoc [of "[]" c, simplified])
  next
    case (Cons a s')
    with snoc.prems have "byte a \<noteq> 0" by simp
    then show ?thesis by (simp add: Cons be_u32_Cons be_u32_snoc)
  qed
  moreover have "be_u32 (s @ [c]) div 256 = be_u32 s" "be_u32 (s @ [c]) mod 256 = byte c"
    using byte_less [of c] by (simp_all add: be_u32_snoc)
  moreover have "be_bytes (be_u32 s) = s"
    using snoc by (cases s) auto
  ultimately show ?case by (subst be_bytes.simps) simp
qed

lemma be_bytes_hd: "n \<noteq> 0 \<Longrightarrow> be_bytes n \<noteq> [] \<and> byte (hd (be_bytes n)) \<noteq> 0"
proof (induction n rule: be_bytes.induct)
  case (1 n)
  show ?case
  proof (cases "n div 256 = 0")
    case True
    then have "n mod 256 = n" by (simp add: div_eq_0_iff)
    then show ?thesis using 1 True by (subst (1 2) be_bytes.simps) (simp add: be_bytes.simps [of 0] div_eq_0_iff)
  next
    case False
    with 1 have "be_bytes (n div 256) \<noteq> [] \<and> byte (hd (be_bytes (n div 256))) \<noteq> 0" by auto
    then show ?thesis using 1 by (subst (1 2) be_bytes.simps) simp
  qed
qed

lemma byte_zero [simp]: "byte CHR 0x00 = 0"
  by (simp add: byte_def)

lemma byte_zero_iff: "byte a = 0 \<longleftrightarrow> a = CHR 0x00"
proof
  assume "byte a = 0"
  then have "byte a = byte CHR 0x00" by simp
  then show "a = CHR 0x00" by (simp only: byte_def of_char_eq_iff)
qed simp

text \<open>The reader accepts exactly the canonical forms of the positive numbers.\<close>

lemma take_positive_ssh_mpint_iff:
  "take_positive_ssh_mpint wire = Some (v, rest) \<longleftrightarrow>
     (\<exists>n > 0. v = be_bytes n \<and> length (mpint n) < 2 ^ 32 \<and> wire = ssh_string (mpint n) @ rest)"
proof
  assume t: "take_positive_ssh_mpint wire = Some (v, rest)"
  then obtain e where e: "take_ssh_wire_string wire = Some (e, rest)"
    by (auto simp: take_positive_ssh_mpint_def Let_def split: option.splits if_splits)
  have w: "length e < 2 ^ 32" "wire = ssh_string e @ rest" using e take_ssh_wire_string_iff by auto
  obtain a es where a: "e = a # es" "byte a < 128"
    using t e by (cases e) (auto simp: take_positive_ssh_mpint_def split: if_splits)
  have z: "byte a = 0 \<longleftrightarrow> a = CHR 0x00" by (rule byte_zero_iff)
  show "\<exists>n > 0. v = be_bytes n \<and> length (mpint n) < 2 ^ 32 \<and> wire = ssh_string (mpint n) @ rest"
  proof (cases "a = CHR 0x00")
    case True
    then have "take_positive_ssh_mpint wire =
        (if es \<noteq> [] \<and> byte (hd es) < 128 then None
         else if es \<noteq> [] \<and> list_ex (\<lambda>b. byte b \<noteq> 0) es then Some (es, rest) else None)"
      using e a by (simp add: take_positive_ssh_mpint_def strip_prefix_def starts_with_def hd_conv_nth)
    with t have v: "v = es" "es \<noteq> []" "128 \<le> byte (hd es)"
      by (simp_all add: not_less split: if_splits)
    then have b: "be_bytes (be_u32 es) = es" by (intro be_bytes_be_u32) auto
    then have "be_u32 es > 0" using v(2) by (auto simp: be_bytes.simps intro: gr0I)
    moreover have "mpint (be_u32 es) = e" using v b a True by (simp add: mpint_def)
    ultimately show ?thesis using v b w by metis
  next
    case False
    then have "take_positive_ssh_mpint wire = Some (e, rest)"
      using e a z by (simp add: take_positive_ssh_mpint_def strip_prefix_def starts_with_def)
    with t have v: "v = e" by simp
    have b: "be_bytes (be_u32 e) = e" using a z False by (intro be_bytes_be_u32) auto
    then have "be_u32 e > 0" using a by (auto simp: be_bytes.simps intro: gr0I)
    moreover have "mpint (be_u32 e) = e" using b a by (simp add: mpint_def)
    ultimately show ?thesis using v b w by metis
  qed
next
  assume "\<exists>n > 0. v = be_bytes n \<and> length (mpint n) < 2 ^ 32 \<and> wire = ssh_string (mpint n) @ rest"
  then obtain n where n: "n > 0" "v = be_bytes n" "length (mpint n) < 2 ^ 32" "wire = ssh_string (mpint n) @ rest" by blast
  then have e: "take_ssh_wire_string wire = Some (mpint n, rest)" by (simp add: take_ssh_wire_string_iff)
  obtain b bs where b: "be_bytes n = b # bs" "byte b \<noteq> 0" using be_bytes_hd [of n] n(1) by (cases "be_bytes n") auto
  have zero: "b \<noteq> CHR 0x00" "byte CHR 0x00 = 0" using b(2) byte_zero_iff by auto
  show "take_positive_ssh_mpint wire = Some (v, rest)"
  proof (cases "128 \<le> byte b")
    case True
    then show ?thesis
      using e n(2) b zero by (simp add: take_positive_ssh_mpint_def mpint_def strip_prefix_def starts_with_def)
  next
    case False
    then show ?thesis
      using e n(2) b zero by (simp add: take_positive_ssh_mpint_def mpint_def strip_prefix_def starts_with_def)
  qed
qed

section \<open>RSA numbers\<close>

lemma exponent_value_eq:
  "v \<le> u32_max \<Longrightarrow> exponent_value v bs =
     (if v * 256 ^ length bs + be_u32 bs \<le> u32_max then Some (v * 256 ^ length bs + be_u32 bs) else None)"
proof (induction bs arbitrary: v)
  case (Cons b bs)
  have eq: "v * 256 ^ length (b # bs) + be_u32 (b # bs) = (v * 256 + byte b) * 256 ^ length bs + be_u32 bs"
    by (simp add: be_u32_Cons algebra_simps)
  have grow: "v * 256 + byte b \<le> (v * 256 + byte b) * 256 ^ length bs + be_u32 bs"
    using mult_le_mono2 [of 1 "256 ^ length bs" "v * 256 + byte b"] by (simp add: trans_le_add1)
  show ?case
  proof (cases "v * 256 + byte b \<le> u32_max")
    case True
    then have "exponent_value v (b # bs) = exponent_value (v * 256 + byte b) bs"
      by (simp add: checked_u32_def)
    with Cons.IH [OF True] eq show ?thesis by simp
  next
    case False
    then have "exponent_value v (b # bs) = None" by (simp add: checked_u32_def)
    moreover have "\<not> v * 256 ^ length (b # bs) + be_u32 (b # bs) \<le> u32_max" using False grow eq by linarith
    ultimately show ?thesis by simp
  qed
qed simp

lemma valid_rsa_exponent_iff: "valid_rsa_exponent (be_bytes e) \<longleftrightarrow> 3 \<le> e \<and> e \<le> u32_max \<and> odd e"
  by (simp add: valid_rsa_exponent_def exponent_value_eq be_u32_be_bytes odd_iff_mod_2_eq_one)

lemma bit_width_less: "k < bit_width n \<longleftrightarrow> 2 ^ k \<le> n"
proof (induction n arbitrary: k rule: bit_width.induct)
  case (1 n)
  show ?case
  proof (cases "n = 0")
    case True
    then show ?thesis by (simp add: bit_width.simps)
  next
    case False
    then have w: "bit_width n = Suc (bit_width (n div 2))" by (subst bit_width.simps) simp
    show ?thesis
    proof (cases k)
      case 0
      then show ?thesis using w False by simp
    next
      case (Suc j)
      have "2 ^ k \<le> n \<longleftrightarrow> 2 ^ j \<le> n div 2" by (simp add: Suc less_eq_div_iff_mult_less_eq mult.commute)
      then show ?thesis using 1 [OF False, of j] w Suc by simp
    qed
  qed
qed

lemma bit_width_unique: "2 ^ w \<le> n \<Longrightarrow> n < 2 ^ Suc w \<Longrightarrow> bit_width n = Suc w"
  using bit_width_less [of w n] bit_width_less [of "Suc w" n] by simp

lemma ssh_mpint_bit_length_be_bytes:
  assumes "0 < n"
  shows "ssh_mpint_bit_length (be_bytes n) = bit_width n"
proof -
  obtain c s where cs: "be_bytes n = c # s" "byte c \<noteq> 0"
    using be_bytes_hd [of n] assms by (cases "be_bytes n") auto
  define w where "w = bit_width (byte c) - 1"
  have "0 < bit_width (byte c)" using bit_width_less [of 0] cs(2) by simp
  then have w: "bit_width (byte c) = Suc w" by (simp add: w_def)
  have lo: "2 ^ w \<le> byte c" using bit_width_less [of w "byte c"] w by simp
  have hi: "byte c < 2 ^ Suc w" using bit_width_less [of "Suc w" "byte c"] w by simp
  have "2 ^ w < (256 :: nat)" by (rule le_less_trans [OF lo byte_less])
  then have "2 ^ w < (2 :: nat) ^ 8" by simp
  then have "w < 8" by (rule power_less_imp_less_exp [rotated]) simp
  have n: "n = byte c * 256 ^ length s + be_u32 s"
    using be_u32_be_bytes [of n] cs by (simp add: be_u32_Cons)
  have p: "(256 :: nat) ^ length s = 2 ^ (8 * length s)" by (simp add: power_mult)
  have "2 ^ (w + 8 * length s) \<le> n"
    unfolding n p power_add by (rule trans_le_add1) (rule mult_le_mono1 [OF lo])
  moreover have "n < 2 ^ Suc (w + 8 * length s)"
  proof -
    have "n < (byte c + 1) * 256 ^ length s" using be_u32_less [of s] by (simp add: n)
    also have "\<dots> \<le> 2 ^ Suc w * 256 ^ length s" using hi by (intro mult_le_mono1) simp
    finally show ?thesis by (simp add: p power_add)
  qed
  ultimately have "bit_width n = Suc (w + 8 * length s)" by (rule bit_width_unique)
  then show ?thesis
    using cs w \<open>w < 8\<close> by (simp add: ssh_mpint_bit_length_def leading_zeros_u8_def)
qed

lemma last_be_bytes: "0 < n \<Longrightarrow> byte (last (be_bytes n)) mod 2 = n mod 2"
  by (subst be_bytes.simps) (simp add: mod_mod_cancel)

section \<open>Blobs\<close>

definition valid_key_blob :: "string \<Rightarrow> string \<Rightarrow> bool" where
  "valid_key_blob t wire \<longleftrightarrow>
     t = ed25519 \<and> (\<exists>key. length key = 32 \<and> wire = ssh_string t @ ssh_string key) \<or>
     t = rsa \<and> (\<exists>e n. 3 \<le> e \<and> e \<le> u32_max \<and> odd e \<and> 2 ^ 2047 \<le> n \<and> odd n \<and> length (mpint n) < 2 ^ 32 \<and>
        wire = ssh_string t @ ssh_string (mpint e) @ ssh_string (mpint n)) \<or>
     t = sk_ed25519 \<and> (\<exists>key application. length key = 32 \<and> application \<noteq> [] \<and> length application < 2 ^ 32 \<and>
        wire = ssh_string t @ ssh_string key @ ssh_string application)"

lemma key_types_differ [simp]: "ed25519 \<noteq> rsa" "ed25519 \<noteq> sk_ed25519" "rsa \<noteq> sk_ed25519"
  "rsa \<noteq> ed25519" "sk_ed25519 \<noteq> ed25519" "sk_ed25519 \<noteq> rsa"
  by (simp_all add: ed25519_def rsa_def sk_ed25519_def)

lemma key_types_short: "t \<in> {ed25519, rsa, sk_ed25519} \<Longrightarrow> length t < 2 ^ 32"
  by (auto simp: ed25519_def rsa_def sk_ed25519_def)

lemma be_bytes_length: "length (be_bytes n) \<le> 1 + n div 256"
proof (induction n rule: be_bytes.induct)
  case (1 n)
  show ?case
  proof (cases "n = 0")
    case False
    have "length (be_bytes (n div 256)) \<le> n div 256"
    proof (cases "n div 256 = 0")
      case True
      then show ?thesis by (simp add: be_bytes.simps)
    next
      case False
      then have "1 + n div 256 div 256 \<le> n div 256" by linarith
      with 1 \<open>n \<noteq> 0\<close> show ?thesis by linarith
    qed
    with False show ?thesis by (subst be_bytes.simps) simp
  qed (simp add: be_bytes.simps)
qed

lemma mpint_exponent_short: "e \<le> u32_max \<Longrightarrow> length (mpint e) < 2 ^ 32"
  using be_bytes_length [of e] by (auto simp: mpint_def u32_max_def)

lemma key_body_ed25519:
  "key_body ed25519 wire = Some [] \<longleftrightarrow> (\<exists>key. length key = 32 \<and> wire = ssh_string key)"
proof -
  have "key_body ed25519 wire = Some [] \<longleftrightarrow> (\<exists>key. length key = 32 \<and> take_ssh_wire_string wire = Some (key, []))"
    by (auto simp: key_body_def split: option.splits)
  then show ?thesis by (auto simp: take_ssh_wire_string_iff)
qed

lemma key_body_sk:
  "key_body sk_ed25519 wire = Some [] \<longleftrightarrow>
     (\<exists>key app. length key = 32 \<and> app \<noteq> [] \<and> length app < 2 ^ 32 \<and> wire = ssh_string key @ ssh_string app)"
proof -
  have "key_body sk_ed25519 wire = Some [] \<longleftrightarrow> (\<exists>key rest app. length key = 32 \<and> app \<noteq> [] \<and>
      take_ssh_wire_string wire = Some (key, rest) \<and> take_ssh_wire_string rest = Some (app, []))"
    by (auto simp: key_body_def split: option.splits)
  then show ?thesis by (simp add: take_ssh_wire_string_iff cong: conj_cong) blast
qed

lemma key_body_rsa:
  "key_body rsa wire = Some [] \<longleftrightarrow>
     (\<exists>e n. 3 \<le> e \<and> e \<le> u32_max \<and> odd e \<and> 2 ^ 2047 \<le> n \<and> odd n \<and> length (mpint n) < 2 ^ 32 \<and>
        wire = ssh_string (mpint e) @ ssh_string (mpint n))"
proof -
  have modulus: "\<not> ssh_mpint_bit_length (be_bytes n) < 2048 \<and> be_bytes n \<noteq> [] \<and> byte (last (be_bytes n)) mod 2 \<noteq> 0 \<longleftrightarrow>
      2 ^ 2047 \<le> n \<and> odd n" if "0 < n" for n
  proof -
    have "\<not> bit_width n < 2048 \<longleftrightarrow> 2047 < bit_width n" by linarith
    then show ?thesis
      using that be_bytes_hd [of n]
      by (simp only: ssh_mpint_bit_length_be_bytes last_be_bytes bit_width_less odd_iff_mod_2_eq_one) auto
  qed
  have two_numbers: "(\<exists>e > 0. \<exists>n > 0. a e \<and> b n \<and> c e n \<and> d e \<and> p n) \<longleftrightarrow>
      (\<exists>e > 0. \<exists>n > 0. a e \<and> b n \<and> c e n \<and> d e \<and> q n)" if "\<And>n. 0 < n \<Longrightarrow> p n \<longleftrightarrow> q n"
    for a b d p q :: "nat \<Rightarrow> bool" and c :: "nat \<Rightarrow> nat \<Rightarrow> bool"
    using that by blast
  have "key_body rsa wire = Some [] \<longleftrightarrow> (\<exists>x rest y. take_positive_ssh_mpint wire = Some (x, rest) \<and>
      take_positive_ssh_mpint rest = Some (y, []) \<and> valid_rsa_exponent x \<and>
      \<not> ssh_mpint_bit_length y < 2048 \<and> y \<noteq> [] \<and> byte (last y) mod 2 \<noteq> 0)"
    by (auto simp: key_body_def split: option.splits)
  also have "\<dots> \<longleftrightarrow> (\<exists>e > 0. \<exists>n > 0. length (mpint e) < 2 ^ 32 \<and> length (mpint n) < 2 ^ 32 \<and>
      wire = ssh_string (mpint e) @ ssh_string (mpint n) \<and> valid_rsa_exponent (be_bytes e) \<and>
      \<not> ssh_mpint_bit_length (be_bytes n) < 2048 \<and> be_bytes n \<noteq> [] \<and> byte (last (be_bytes n)) mod 2 \<noteq> 0)"
    unfolding take_positive_ssh_mpint_iff append_Nil2 by blast
  also have "\<dots> \<longleftrightarrow> (\<exists>e > 0. \<exists>n > 0. length (mpint e) < 2 ^ 32 \<and> length (mpint n) < 2 ^ 32 \<and>
      wire = ssh_string (mpint e) @ ssh_string (mpint n) \<and> (3 \<le> e \<and> e \<le> u32_max \<and> odd e) \<and>
      2 ^ 2047 \<le> n \<and> odd n)"
    unfolding valid_rsa_exponent_iff by (rule two_numbers [OF modulus])
  finally show ?thesis using mpint_exponent_short odd_pos by (metis (no_types, lifting))
qed

text \<open>
  C23. An authorized key line is accepted exactly when its second field decodes to the wire form of
  a usable key of the type its first field names: an Ed25519 key of 32 bytes, a hardware-backed
  one with an application, or an RSA key whose two numbers are in canonical form, with an odd
  exponent from 3 that fits 32 bits and an odd modulus of at least 2048 bits.
\<close>

theorem authorized_key_exact:
  "parse_authorized_key_line C line = Some k \<longleftrightarrow>
     (\<exists>comment wire. split_ascii_whitespace line = ak_type k # ak_encoded k # comment \<and>
        length (ak_encoded k) \<le> 16 * 1024 \<and> b64_std_decode C (ak_encoded k) = Some wire \<and>
        valid_key_blob (ak_type k) wire)"
proof -
  have blob: "valid_key_blob t wire \<longleftrightarrow> t \<in> {ed25519, rsa, sk_ed25519} \<and>
      (\<exists>rest. take_ssh_wire_string wire = Some (t, rest) \<and> key_body t rest = Some [])" for t wire
  proof (cases "t \<in> {ed25519, rsa, sk_ed25519}")
    case True
    have "(\<exists>rest. take_ssh_wire_string wire = Some (t, rest) \<and> key_body t rest = Some []) \<longleftrightarrow>
        (\<exists>rest. wire = ssh_string t @ rest \<and> key_body t rest = Some [])"
      using key_types_short [OF True] by (simp add: take_ssh_wire_string_iff)
    moreover have "valid_key_blob t wire \<longleftrightarrow> (\<exists>rest. wire = ssh_string t @ rest \<and> key_body t rest = Some [])"
      using True unfolding valid_key_blob_def
      by (elim insertE emptyE; simp only: key_body_ed25519 key_body_rsa key_body_sk key_types_differ) blast+
    ultimately show ?thesis using True by blast
  qed (auto simp: valid_key_blob_def)
  have "parse_authorized_key_line C line = Some k \<longleftrightarrow>
     (\<exists>comment wire rest. split_ascii_whitespace line = ak_type k # ak_encoded k # comment \<and>
        ak_type k \<in> {ed25519, rsa, sk_ed25519} \<and> \<not> 16 * 1024 < length (ak_encoded k) \<and>
        b64_std_decode C (ak_encoded k) = Some wire \<and>
        take_ssh_wire_string wire = Some (ak_type k, rest) \<and> key_body (ak_type k) rest = Some [])"
    unfolding parse_authorized_key_line_def
    by (cases k) (auto split: list.splits option.splits if_splits)
  then show ?thesis unfolding blob not_less by blast
qed

section \<open>The sshd configuration\<close>

text \<open>The arguments of the lines with a given keyword, in order.\<close>

definition directives :: "string \<Rightarrow> string list \<Rightarrow> string list list" where
  "directives key ls = [tl args. args \<leftarrow> map split_ascii_whitespace ls, args \<noteq> [], hd args = key]"

definition setting_step :: "'a option \<Rightarrow> ('b \<Rightarrow> 'a option) \<Rightarrow> 'b list \<Rightarrow> 'a option \<Rightarrow> bool" where
  "setting_step before read found after \<longleftrightarrow>
     (case found of [] \<Rightarrow> after = before | [args] \<Rightarrow> before = None \<and> after \<noteq> None \<and> read args = after | _ \<Rightarrow> False)"

definition keys_files :: "string list \<Rightarrow> string list option" where
  "keys_files args = (let paths = filter usable_keys_file args in if paths = [] then None else Some paths)"

lemma setting_step_Cons:
  "setting_step before read (args # found) after \<longleftrightarrow>
     before = None \<and> (\<exists>v. read args = Some v \<and> found = [] \<and> after = Some v)"
  by (cases found) (auto simp: setting_step_def)

lemma setting_step_Nil [simp]: "setting_step before read [] after \<longleftrightarrow> after = before"
  by (simp add: setting_step_def)

lemma setting_step_found: "setting_step (Some v) read found after \<longleftrightarrow> found = [] \<and> after = Some v"
  by (cases found) (auto simp: setting_step_Cons)

lemma directives_Cons:
  "directives key (line # ls) =
     (case split_ascii_whitespace line of
        [] \<Rightarrow> directives key ls
      | k # args \<Rightarrow> if k = key then args # directives key ls else directives key ls)"
  by (simp add: directives_def split: list.splits)

lemma directives_Nil [simp]: "directives key [] = []"
  by (simp add: directives_def)

lemma sshd_lines_iff:
  "sshd_lines (auth, files) ls = Some (auth', files') \<longleftrightarrow>
     [] \<notin> split_ascii_whitespace ` set ls \<and>
     setting_step auth yes_no (directives ''publickeyauthentication'' ls) auth' \<and>
     setting_step files keys_files (directives ''authorizedkeysfile'' ls) files'"
proof (induction ls arbitrary: auth files)
  case (Cons line ls)
  show ?case
  proof (cases "split_ascii_whitespace line")
    case Nil
    then show ?thesis by simp
  next
    case (Cons k args)
    then have nb: "[] \<notin> split_ascii_whitespace ` set (line # ls) \<longleftrightarrow> [] \<notin> split_ascii_whitespace ` set ls" by auto
    consider "k = ''publickeyauthentication''" | "k = ''authorizedkeysfile''"
      | "k \<noteq> ''publickeyauthentication''" "k \<noteq> ''authorizedkeysfile''" by blast
    then show ?thesis
    proof cases
      case 1
      have "directives ''publickeyauthentication'' (line # ls) = args # directives ''publickeyauthentication'' ls"
        "directives ''authorizedkeysfile'' (line # ls) = directives ''authorizedkeysfile'' ls"
        using Cons 1 by (simp_all add: directives_Cons)
      then show ?thesis
        unfolding nb using Cons 1 Cons.IH
        by (cases "yes_no args"; cases auth) (auto simp: setting_step_Cons setting_step_found)
    next
      case 2
      have d: "directives ''publickeyauthentication'' (line # ls) = directives ''publickeyauthentication'' ls"
        "directives ''authorizedkeysfile'' (line # ls) = args # directives ''authorizedkeysfile'' ls"
        using Cons 2 by (simp_all add: directives_Cons)
      show ?thesis
        unfolding nb d using Cons 2 Cons.IH
        by (cases "filter usable_keys_file args = []"; cases files)
          (auto simp: setting_step_Cons setting_step_found keys_files_def)
    next
      case 3
      have d: "directives ''publickeyauthentication'' (line # ls) = directives ''publickeyauthentication'' ls"
        "directives ''authorizedkeysfile'' (line # ls) = directives ''authorizedkeysfile'' ls"
        using Cons 3 by (simp_all add: directives_Cons)
      show ?thesis unfolding nb d using Cons 3 Cons.IH by simp
    qed
  qed
qed auto

text \<open>
  C22. The effective configuration is read exactly: the output must be UTF-8 of at most 64 KiB
  with no blank line, say \<open>publickeyauthentication\<close> once, with \<open>yes\<close> or \<open>no\<close> and nothing
  else, and \<open>authorizedkeysfile\<close> once, with at least one usable path; unusable paths are left
  out and every other line is ignored.
\<close>

theorem sshd_config_exact:
  "parse_effective_sshd_config bytes = Some c \<longleftrightarrow>
     length bytes \<le> baseline_output_limit \<and> utf8_valid bytes \<and> [] \<notin> split_ascii_whitespace ` set (lines bytes) \<and>
     directives ''publickeyauthentication'' (lines bytes) =
       [[if public_key_authentication c then ''yes'' else ''no'']] \<and>
     (\<exists>args. directives ''authorizedkeysfile'' (lines bytes) = [args] \<and>
        authorized_keys_files c = filter usable_keys_file args \<and> authorized_keys_files c \<noteq> [])"
proof -
  have yes: "setting_step None yes_no found (Some a) \<longleftrightarrow> found = [[if a then ''yes'' else ''no'']]" for found a
    by (cases found) (auto simp: setting_step_Cons yes_no_def split: if_splits)
  have paths: "setting_step None keys_files found (Some f) \<longleftrightarrow>
      (\<exists>args. found = [args] \<and> f = filter usable_keys_file args \<and> f \<noteq> [])" for found f
    by (cases found) (auto simp: setting_step_Cons keys_files_def Let_def split: if_splits)
  have "parse_effective_sshd_config bytes = Some c \<longleftrightarrow>
      length bytes \<le> baseline_output_limit \<and> utf8_valid bytes \<and>
      sshd_lines (None, None) (lines bytes) = Some (Some (public_key_authentication c), Some (authorized_keys_files c))"
    by (cases c) (auto simp: parse_effective_sshd_config_def not_less split: option.splits)
  then show ?thesis unfolding sshd_lines_iff yes paths by blast
qed

end
