(* ===== verification/ControllerIdentity.thy ===== *)
theory ControllerIdentity
  imports SshKeys Disk Manifest
begin

text \<open>
  The controller's OpenSSH identity (\<open>src/transport/identity.rs\<close>): its file names, the public line
  that is accepted, and loading or creating the key pair in an identity directory on the
  explicit disk. \<open>ssh-keygen\<close> is a parameter (\<open>keygen\<close>): what it generates and what it
  derives from a private key, at the moment it is run. The principal that the native checks
  compare with is part of the host's answers.
\<close>

datatype identity_error =
  IdentityInvalid | IdentityConflict | IdentityCapabilityUnavailable | IdentityOperationFailed

definition max_controller_name_bytes :: nat where
  "max_controller_name_bytes = 64"

definition max_public_key_bytes :: nat where
  "max_public_key_bytes = 16 * 1024"

record controller_identity =
  ci_private_path :: path
  ci_public_path :: path
  ci_public_line :: string
  ci_fingerprint :: string
  ci_created :: bool

section \<open>Names and public lines\<close>

definition name_byte :: "char \<Rightarrow> bool" where
  "name_byte b \<longleftrightarrow> is_ascii_alphanumeric b \<or> b \<in> {CHR ''-'', CHR ''_''}"

definition validated_controller_name :: "string \<Rightarrow> identity_error + string" where
  "validated_controller_name name =
     (if name \<noteq> [] \<and> length name \<le> max_controller_name_bytes \<and> list_all name_byte name
      then Inr name else Inl IdentityInvalid)"

definition comment_ok :: "string option \<Rightarrow> bool" where
  "comment_ok comment \<longleftrightarrow>
     is_none_or (\<lambda>c. length c \<le> max_controller_name_bytes + length ''styrn-'' \<and> list_all name_byte c) comment"

definition line_end :: "string \<Rightarrow> bool" where
  "line_end g \<longleftrightarrow> g = [CHR 0x0D] \<or> g = [CHR 0x0A]"

definition ed25519_prefix :: string where
  "ed25519_prefix =
     [CHR 0x00, CHR 0x00, CHR 0x00, CHR 0x0B] @ ''ssh-ed25519'' @ [CHR 0x00, CHR 0x00, CHR 0x00, CHR 0x20]"

definition public_fields :: "string list \<Rightarrow> (string \<times> string option) option" where
  "public_fields words =
     (case words of
        [algorithm, base64] \<Rightarrow> if algorithm = ''ssh-ed25519'' then Some (base64, None) else None
      | [algorithm, base64, comment] \<Rightarrow>
          if algorithm = ''ssh-ed25519'' then Some (base64, Some comment) else None
      | _ \<Rightarrow> None)"

definition parse_public_line :: "crates \<Rightarrow> string \<Rightarrow> identity_error + string" where
  "parse_public_line C bytes =
     (if bytes = [] \<or> max_public_key_bytes < length bytes \<or> \<not> utf8_valid bytes then Inl IdentityConflict
      else (let line = trim_end_matches line_end bytes
            in if line = [] \<or> list_ex (\<lambda>c. c \<in> {CHR 0x0D, CHR 0x0A}) line then Inl IdentityConflict
               else (case public_fields (split_ascii_whitespace line) of
                       None \<Rightarrow> Inl IdentityConflict
                     | Some (base64, comment) \<Rightarrow>
                         if \<not> comment_ok comment then Inl IdentityConflict
                         else (case b64_std_decode C base64 of
                                 None \<Rightarrow> Inl IdentityConflict
                               | Some wire \<Rightarrow>
                                   if length wire \<noteq> length ed25519_prefix + 32 \<or> \<not> starts_with ed25519_prefix wire
                                   then Inl IdentityConflict else Inr (''ssh-ed25519 '' @ base64)))))"

text \<open>\<open>None\<close> is the panic of an \<open>expect\<close>.\<close>

definition identity_from_public ::
  "crates \<Rightarrow> path \<Rightarrow> path \<Rightarrow> string \<Rightarrow> bool \<Rightarrow> controller_identity option" where
  "identity_from_public C private public line created =
     (case split_once (CHR '' '') line of
        None \<Rightarrow> None
      | Some (_, base64) \<Rightarrow>
          (case b64_std_decode C base64 of
             None \<Rightarrow> None
           | Some wire \<Rightarrow>
               Some \<lparr>ci_private_path = private, ci_public_path = public, ci_public_line = line,
                     ci_fingerprint = ''SHA256:'' @ b64_std_nopad_encode C (sha256 C wire), ci_created = created\<rparr>))"

definition identity_basename :: "crates \<Rightarrow> string \<Rightarrow> uuid \<Rightarrow> string" where
  "identity_basename C name u =
     ''styrn_'' @ name @ ''_'' @ filter (\<lambda>c. c \<noteq> CHR ''-'') (uuid_text C u) @ ''_ed25519''"

section \<open>The tool and the directory\<close>

datatype tool_result = ToolMissing | ToolBroken | ToolExit bool string

record keygen =
  kg_generate :: "nat \<Rightarrow> string \<Rightarrow> tool_result"
  kg_derive :: "nat \<Rightarrow> string \<Rightarrow> tool_result"

record identity_world =
  iw_crates :: crates
  iw_keygen :: keygen
  iw_calls :: host_calls
  iw_pid :: nat

type_synonym 'a identity_op = "(identity_error, 'a) disk_op"

definition bounded_tool_output :: "tool_result \<Rightarrow> identity_error + bool \<times> string" where
  "bounded_tool_output r =
     (case r of
        ToolMissing \<Rightarrow> Inl IdentityCapabilityUnavailable
      | ToolBroken \<Rightarrow> Inl IdentityOperationFailed
      | ToolExit success out \<Rightarrow> Inr (success, out))"

definition identity_call :: "identity_world \<Rightarrow> identity_error \<Rightarrow> native_call \<Rightarrow> (disk \<Rightarrow> disk) \<Rightarrow> unit identity_op" where
  "identity_call I e call change = native (iw_calls I) (\<lambda>_. e) call change"

definition next_staging_path :: "identity_world \<Rightarrow> path \<Rightarrow> string \<Rightarrow> path identity_op" where
  "next_staging_path I dir kind = at_clock (\<lambda>t. Inr (dir @
     [''.styrn-identity-'' @ kind @ ''-'' @ show_nat (iw_pid I) @ ''-'' @ show_nat t]))"

definition public_of :: "path \<Rightarrow> path" where
  "public_of p = butlast p @ [last p @ ''.pub'']"

definition file_bytes :: "path \<Rightarrow> string identity_op" where
  "file_bytes p = (\<lambda>d. (case disk_files d p of None \<Rightarrow> Inl IdentityConflict | Some bytes \<Rightarrow> Inr bytes, d))"

text \<open>\<open>ssh-keygen -y\<close> on the private file; at most 16 KiB of its output are kept.\<close>

definition derive_public_line :: "identity_world \<Rightarrow> path \<Rightarrow> string identity_op" where
  "derive_public_line I private =
     bind_op (file_bytes private) (\<lambda>key.
     bind_op (at_clock (\<lambda>t. bounded_tool_output (kg_derive (iw_keygen I) t key))) (\<lambda>(success, out).
       if \<not> success then stop IdentityConflict
       else lift (parse_public_line (iw_crates I) (take max_public_key_bytes out))))"

definition read_public_line :: "identity_world \<Rightarrow> path \<Rightarrow> string identity_op" where
  "read_public_line I p =
     bind_op (identity_call I IdentityConflict (CallFileIdentity p) id) (\<lambda>_.
     bind_op (identity_call I IdentityConflict (CallOpenVerified p) id) (\<lambda>_.
     bind_op (file_bytes p) (\<lambda>bytes.
       if bytes = [] \<or> max_public_key_bytes < length bytes then stop IdentityConflict
       else bind_op (identity_call I IdentityConflict (CallRead p) id) (\<lambda>_.
              lift (parse_public_line (iw_crates I) bytes)))))"

text \<open>A hard link or a publication never replaces a file; \<open>True\<close> means it was there already.\<close>

definition link_new ::
  "identity_world \<Rightarrow> identity_error \<Rightarrow> native_call \<Rightarrow> path \<Rightarrow> (disk \<Rightarrow> disk) \<Rightarrow> bool identity_op" where
  "link_new I other call target change = (\<lambda>d.
     let now = d\<lparr>disk_clock := Suc (disk_clock d)\<rparr>
     in case (if exists_on d target then Some (IoError AlreadyExists ''file exists'')
              else iw_calls I (disk_clock d) call) of
          Some e \<Rightarrow> (if io_error_kind e = AlreadyExists then Inr True else Inl other, now)
        | None \<Rightarrow> (Inr False, change now))"

definition forget_file :: "identity_world \<Rightarrow> path \<Rightarrow> unit identity_op" where
  "forget_file I p = recover_op (identity_call I IdentityConflict (CallRemoveFile p) (erase_file p)) (\<lambda>_. ok_op ())"

definition recover_public_file :: "identity_world \<Rightarrow> path \<Rightarrow> string \<Rightarrow> unit identity_op" where
  "recover_public_file I public line =
     bind_op (next_staging_path I (butlast public) ''public'') (\<lambda>staging.
     bind_op (create_new (iw_calls I) (\<lambda>_. IdentityOperationFailed) staging) (\<lambda>_.
     bind_op (identity_call I IdentityOperationFailed (CallWrite staging) (put_file staging (line @ [CHR 0x0A]))) (\<lambda>_.
     bind_op (identity_call I IdentityOperationFailed (CallSync staging) id) (\<lambda>_.
     bind_op (identity_call I IdentityConflict (CallHardenFile staging) id) (\<lambda>_.
     bind_op (link_new I IdentityOperationFailed (CallHardLink staging public) public (copy_file staging public)) (\<lambda>there.
       if \<not> there then
         bind_op (identity_call I IdentityOperationFailed (CallSyncParent (butlast public)) id) (\<lambda>_.
         bind_op (identity_call I IdentityConflict (CallVerifyFile public) id) (\<lambda>_.
         bind_op (read_public_line I public) (\<lambda>published.
           if published \<noteq> line then stop IdentityConflict else forget_file I staging)))
       else
         bind_op (forget_file I staging) (\<lambda>_.
         bind_op (identity_call I IdentityConflict (CallVerifyFile public) id) (\<lambda>_.
         bind_op (read_public_line I public) (\<lambda>published.
           if published = line then ok_op () else stop IdentityConflict)))))))))"

definition found_identity ::
  "identity_world \<Rightarrow> path \<Rightarrow> path \<Rightarrow> string \<Rightarrow> bool \<Rightarrow> controller_identity option identity_op" where
  "found_identity I private public line created =
     ok_op (identity_from_public (iw_crates I) private public line created)"

definition load_existing :: "identity_world \<Rightarrow> path \<Rightarrow> path \<Rightarrow> controller_identity option identity_op" where
  "load_existing I private public =
     bind_op (identity_call I IdentityConflict (CallVerifyFile private) id) (\<lambda>_.
     bind_op (derive_public_line I private) (\<lambda>derived.
     bind_op (stat_path (iw_calls I) (\<lambda>_. IdentityConflict) public) (\<lambda>there.
     bind_op (if there
              then bind_op (identity_call I IdentityConflict (CallVerifyFile public) id) (\<lambda>_.
                   bind_op (read_public_line I public) (\<lambda>existing.
                     if existing \<noteq> derived then stop IdentityConflict else ok_op ()))
              else recover_public_file I public derived) (\<lambda>_.
       found_identity I private public derived False))))"

definition run_keygen :: "identity_world \<Rightarrow> string \<Rightarrow> path \<Rightarrow> unit identity_op" where
  "run_keygen I name staging = (\<lambda>d.
     let now = d\<lparr>disk_clock := Suc (disk_clock d)\<rparr>
     in case bounded_tool_output (kg_generate (iw_keygen I) (disk_clock d) (''styrn-'' @ name)) of
          Inl e \<Rightarrow> (Inl e, now)
        | Inr (success, key) \<Rightarrow>
            if success then (Inr (), put_file (public_of staging) [] (put_file staging key now))
            else (Inl IdentityOperationFailed, now))"

definition create_fresh ::
  "identity_world \<Rightarrow> string \<Rightarrow> path \<Rightarrow> path \<Rightarrow> path \<Rightarrow> controller_identity option identity_op" where
  "create_fresh I name dir private public =
     bind_op (next_staging_path I dir ''private'') (\<lambda>staging.
     bind_op (run_keygen I name staging) (\<lambda>_.
     bind_op (identity_call I IdentityConflict (CallHardenFile staging) id) (\<lambda>_.
     bind_op (derive_public_line I staging) (\<lambda>line.
     bind_op (forget_file I (public_of staging)) (\<lambda>_.
     bind_op (identity_call I IdentityConflict (CallAdopt staging) id) (\<lambda>_.
     bind_op (link_new I IdentityConflict (CallPublishFile staging private) private (move_file staging private)) (\<lambda>there.
       if there then load_existing I private public
       else bind_op (recover_public_file I public line) (\<lambda>_.
              found_identity I private public line True))))))))"

definition load_or_create ::
  "identity_world \<Rightarrow> machine_manifest \<Rightarrow> path \<Rightarrow> controller_identity option identity_op" where
  "load_or_create I m dir =
     bind_op (lift (validated_controller_name (machine_name m))) (\<lambda>name.
     bind_op (identity_call I IdentityConflict (CallVerifyDirectory dir) id) (\<lambda>_.
       let basename = identity_basename (iw_crates I) name (machine_id m);
           private = dir @ [basename];
           public = public_of private;
           lock = dir @ [''.'' @ basename @ ''.lock'']
       in bind_op (identity_call I IdentityConflict (CallTakeLock lock)
            (\<lambda>d. if disk_files d lock = None then put_file lock [] d else d)) (\<lambda>_.
          bind_op (stat_path (iw_calls I) (\<lambda>_. IdentityConflict) private) (\<lambda>there.
            if there then load_existing I private public
            else bind_op (recover_op (stat_path (iw_calls I) (\<lambda>_. IdentityConflict) public) (\<lambda>_. ok_op False)) (\<lambda>there.
              if there then stop IdentityConflict
              else create_fresh I name dir private public)))))"

section \<open>Files that are protected\<close>

named_theorems protects_rules \<open>operations that never change a file once it is there\<close>

definition protects :: "path \<Rightarrow> ('e, 'a) disk_op \<Rightarrow> bool" where
  "protects p m \<longleftrightarrow> (\<forall>d k. disk_files d p = Some k \<longrightarrow> disk_files (snd (m d)) p = Some k)"

lemma protectsD: "protects p m \<Longrightarrow> m d = (r, d') \<Longrightarrow> disk_files d p = Some k \<Longrightarrow> disk_files d' p = Some k"
  by (metis protects_def snd_conv)

lemma keeps_protects: "keeps p m \<Longrightarrow> protects p m"
  by (simp add: keeps_def protects_def)

lemma protects_bind [protects_rules]:
  "protects p m \<Longrightarrow> (\<And>x. protects p (f x)) \<Longrightarrow> protects p (bind_op m f)"
  by (auto simp: protects_def bind_op_def split: prod.splits sum.splits) (metis snd_conv)+

lemma protects_if [protects_rules]: "protects p a \<Longrightarrow> protects p b \<Longrightarrow> protects p (if c then a else b)"
  by simp

lemma protects_link [protects_rules]:
  "target = p \<or> (\<forall>d. disk_files (change d) p = disk_files d p) \<Longrightarrow> protects p (link_new I e c target change)"
  by (auto simp: protects_def link_new_def Let_def exists_on_def split: option.splits)

lemma keeps_identity_call [keeps_rules]:
  "(\<And>d. disk_files (change d) p = disk_files d p) \<Longrightarrow> keeps p (identity_call I e c change)"
  unfolding identity_call_def by (rule keeps_native)

lemma keeps_file_bytes [keeps_rules]: "keeps p (file_bytes q)"
  by (simp add: keeps_def file_bytes_def)

lemma keeps_derive [keeps_rules]: "keeps p (derive_public_line I q)"
  unfolding derive_public_line_def by (intro keeps_rules) (auto intro: keeps_rules split: prod.splits)

lemma keeps_read_line [keeps_rules]: "keeps p (read_public_line I q)"
  unfolding read_public_line_def by (intro keeps_rules) simp_all

lemma keeps_forget [keeps_rules]: "p \<noteq> q \<Longrightarrow> keeps p (forget_file I q)"
  unfolding forget_file_def by (intro keeps_rules) (simp add: erase_file_def)

lemma keeps_staging [keeps_rules]: "keeps p (next_staging_path I dir kind)"
  unfolding next_staging_path_def by (rule keeps_rules)

lemma dotted_staging: "next_staging_path I dir kind d = (Inr q, d') \<Longrightarrow> dotted q"
  by (auto simp: next_staging_path_def at_clock_def dotted_def starts_with_def)

lemma dotted_public: "dotted q \<Longrightarrow> dotted (public_of q)"
  by (cases "last q") (auto simp: dotted_def public_of_def starts_with_def)

lemma protects_staging [protects_rules]:
  assumes "\<And>q. dotted q \<Longrightarrow> protects p (f q)"
  shows "protects p (bind_op (next_staging_path I dir kind) f)"
  using assms dotted_staging keeps_staging [of p I dir kind]
  by (auto simp: protects_def bind_op_def keeps_def split: prod.splits sum.splits) (metis snd_conv)+

lemma protects_recover_public [protects_rules]:
  assumes "identity_file p"
  shows "protects p (recover_public_file I public line)"
  unfolding recover_public_file_def
proof (rule protects_staging)
  fix q assume "dotted q"
  then have q: "p \<noteq> q" using dotted_differs assms by blast
  show "protects p (bind_op (create_new (iw_calls I) (\<lambda>_. IdentityOperationFailed) q) (\<lambda>_.
     bind_op (identity_call I IdentityOperationFailed (CallWrite q) (put_file q (line @ [CHR 0x0A]))) (\<lambda>_.
     bind_op (identity_call I IdentityOperationFailed (CallSync q) id) (\<lambda>_.
     bind_op (identity_call I IdentityConflict (CallHardenFile q) id) (\<lambda>_.
     bind_op (link_new I IdentityOperationFailed (CallHardLink q public) public (copy_file q public)) (\<lambda>there.
       if \<not> there then
         bind_op (identity_call I IdentityOperationFailed (CallSyncParent (butlast public)) id) (\<lambda>_.
         bind_op (identity_call I IdentityConflict (CallVerifyFile public) id) (\<lambda>_.
         bind_op (read_public_line I public) (\<lambda>published.
           if published \<noteq> line then stop IdentityConflict else forget_file I q)))
       else
         bind_op (forget_file I q) (\<lambda>_.
         bind_op (identity_call I IdentityConflict (CallVerifyFile public) id) (\<lambda>_.
         bind_op (read_public_line I public) (\<lambda>published.
           if published = line then ok_op () else stop IdentityConflict)))))))))"
    by (intro protects_bind protects_if protects_link keeps_protects keeps_rules) (use q in auto)
qed

lemma keeps_found [keeps_rules]: "keeps p (found_identity I a b l c)"
  unfolding found_identity_def by (rule keeps_rules)

lemma protects_load [protects_rules]: "identity_file p \<Longrightarrow> protects p (load_existing I private public)"
  unfolding load_existing_def
  by (intro protects_bind protects_if protects_recover_public) (auto intro!: keeps_protects keeps_rules)

lemma protects_create [protects_rules]:
  assumes p: "identity_file p"
  shows "protects p (create_fresh I name dir private public)"
  unfolding create_fresh_def
proof (rule protects_staging)
  fix q assume "dotted q"
  then have q: "p \<noteq> q" "p \<noteq> public_of q" using dotted_differs dotted_public p by blast+
  have gen: "keeps p (run_keygen I name q)"
    using q by (auto simp: keeps_def run_keygen_def Let_def split: sum.splits)
  show "protects p (bind_op (run_keygen I name q) (\<lambda>_.
     bind_op (identity_call I IdentityConflict (CallHardenFile q) id) (\<lambda>_.
     bind_op (derive_public_line I q) (\<lambda>line.
     bind_op (forget_file I (public_of q)) (\<lambda>_.
     bind_op (identity_call I IdentityConflict (CallAdopt q) id) (\<lambda>_.
     bind_op (link_new I IdentityConflict (CallPublishFile q private) private (move_file q private)) (\<lambda>there.
       if there then load_existing I private public
       else bind_op (recover_public_file I public line) (\<lambda>_.
              found_identity I private public line True))))))))"
    by (intro protects_bind protects_if protects_load [OF p] protects_recover_public [OF p] keeps_protects [OF gen]
        protects_link) (use q in \<open>auto intro!: keeps_protects keeps_rules\<close>)
qed

lemma identity_basename_file:
  "identity_file (dir @ [identity_basename C name u])" "identity_file (public_of (dir @ [identity_basename C name u]))"
  by (simp_all add: identity_file_def identity_basename_def public_of_def starts_with_def)

lemma protects_load_or_create:
  assumes "identity_file p"
  shows "protects p (load_or_create I m dir)"
proof -
  have lock: "keeps p (identity_call I IdentityConflict (CallTakeLock (dir @ [''.'' @ b @ ''.lock'']))
      (\<lambda>d. if disk_files d (dir @ [''.'' @ b @ ''.lock'']) = None then put_file (dir @ [''.'' @ b @ ''.lock'']) [] d else d))" for b
  proof -
    have "dotted (dir @ [''.'' @ b @ ''.lock''])" by (simp add: dotted_def starts_with_def)
    then have "p \<noteq> dir @ [''.'' @ b @ ''.lock'']" by (rule dotted_differs [OF assms])
    then show ?thesis by (intro keeps_rules) simp
  qed
  show ?thesis
    unfolding load_or_create_def Let_def
    by (intro protects_bind protects_if protects_load [OF assms] protects_create [OF assms])
      (auto intro!: keeps_protects keeps_rules lock [simplified])
qed

section \<open>What a loaded identity is\<close>

text \<open>A line that the tool derives from a private key at some moment.\<close>

definition derives :: "identity_world \<Rightarrow> string \<Rightarrow> string \<Rightarrow> bool" where
  "derives I key line \<longleftrightarrow>
     (\<exists>t out. kg_derive (iw_keygen I) t key = ToolExit True out \<and>
        parse_public_line (iw_crates I) (take max_public_key_bytes out) = Inr line)"

definition publishes :: "identity_world \<Rightarrow> disk \<Rightarrow> path \<Rightarrow> string \<Rightarrow> bool" where
  "publishes I d p line \<longleftrightarrow> (\<exists>bytes. disk_files d p = Some bytes \<and> parse_public_line (iw_crates I) bytes = Inr line)"

lemma publishes_keeps: "publishes I d p line \<Longrightarrow> keeps p m \<Longrightarrow> m d = (r, d') \<Longrightarrow> publishes I d' p line"
  by (metis publishes_def keepsD)

lemma derive_result:
  assumes "derive_public_line I p d = (Inr line, d')"
  obtains key where "disk_files d p = Some key" "derives I key line"
proof -
  obtain key d1 r where k: "file_bytes p d = (Inr key, d1)"
    "(\<lambda>(success, out). if \<not> success then stop IdentityConflict
       else lift (parse_public_line (iw_crates I) (take max_public_key_bytes out))) r (d1\<lparr>disk_clock := Suc (disk_clock d1)\<rparr>) =
     (Inr line, d')" "bounded_tool_output (kg_derive (iw_keygen I) (disk_clock d1) key) = Inr r"
    using assms unfolding derive_public_line_def bind_op_Inr by (auto simp: at_clock_def)
  have "disk_files d p = Some key" using k(1) by (auto simp: file_bytes_def split: option.splits)
  moreover have "derives I key line"
    using k(2,3) by (auto simp: derives_def bounded_tool_output_def stop_def lift_def
        split: prod.splits if_splits tool_result.splits)
  ultimately show ?thesis by (rule that)
qed

lemma read_result:
  assumes "read_public_line I p d = (Inr line, d')"
  shows "publishes I d p line"
proof -
  obtain d1 d2 bytes where c: "identity_call I IdentityConflict (CallFileIdentity p) id d = (Inr (), d1)"
    "identity_call I IdentityConflict (CallOpenVerified p) id d1 = (Inr (), d2)" "file_bytes p d2 = (Inr bytes, d2)"
    "parse_public_line (iw_crates I) bytes = Inr line"
    using assms unfolding read_public_line_def bind_op_Inr
    by (auto simp: file_bytes_def lift_def stop_def bind_op_Inr split: if_splits option.splits)
  have "disk_files d2 p = disk_files d p"
    using native_cases [OF c(1) [unfolded identity_call_def]] native_cases [OF c(2) [unfolded identity_call_def]] by auto
  then show ?thesis using c(3,4) by (auto simp: publishes_def file_bytes_def split: option.splits)
qed

lemma recover_public_result:
  assumes "recover_public_file I public line d = (Inr u, d')" "identity_file public"
  shows "publishes I d' public line"
proof -
  obtain q d0 d1 there where q: "next_staging_path I (butlast public) ''public'' d = (Inr q, d0)"
    and rest: "(if \<not> there then
         bind_op (identity_call I IdentityOperationFailed (CallSyncParent (butlast public)) id) (\<lambda>_.
         bind_op (identity_call I IdentityConflict (CallVerifyFile public) id) (\<lambda>_.
         bind_op (read_public_line I public) (\<lambda>published.
           if published \<noteq> line then stop IdentityConflict else forget_file I q)))
       else
         bind_op (forget_file I q) (\<lambda>_.
         bind_op (identity_call I IdentityConflict (CallVerifyFile public) id) (\<lambda>_.
         bind_op (read_public_line I public) (\<lambda>published.
           if published = line then ok_op () else stop IdentityConflict)))) d1 = (Inr u, d')"
    using assms(1) unfolding recover_public_file_def bind_op_Inr by blast
  have ne: "public \<noteq> q" using dotted_differs [OF assms(2)] dotted_staging [OF q] by blast
  show ?thesis
  proof (cases "there")
    case True
    with rest obtain d2 d3 where r: "read_public_line I public d2 = (Inr line, d3)" "d3 = d'"
      by (auto simp: bind_op_Inr ok_op_def stop_def split: if_splits)
    from publishes_keeps [OF read_result [OF r(1)] keeps_read_line r(1)] r(2) show ?thesis by simp
  next
    case False
    with rest obtain d2 d3 where r: "read_public_line I public d2 = (Inr line, d3)" "forget_file I q d3 = (Inr u, d')"
      by (auto simp: bind_op_Inr stop_def split: if_splits)
    from publishes_keeps [OF read_result [OF r(1)] keeps_read_line r(1)] publishes_keeps [OF _ keeps_forget [OF ne] r(2)]
    show ?thesis by blast
  qed
qed

text \<open>A parsed line never trips the expectations of \<open>identity_from_public\<close>.\<close>

definition identity_of :: "identity_world \<Rightarrow> path \<Rightarrow> path \<Rightarrow> string \<Rightarrow> bool \<Rightarrow> controller_identity option \<Rightarrow> bool" where
  "identity_of I private public line created i \<longleftrightarrow>
     (\<exists>base64 wire. line = ''ssh-ed25519 '' @ base64 \<and> b64_std_decode (iw_crates I) base64 = Some wire \<and>
        i = Some \<lparr>ci_private_path = private, ci_public_path = public, ci_public_line = line,
              ci_fingerprint = wire_fingerprint (iw_crates I) wire, ci_created = created\<rparr>)"

lemma parsed_identity:
  assumes "parse_public_line C bytes = Inr line"
  obtains base64 wire where "line = ''ssh-ed25519 '' @ base64" "b64_std_decode C base64 = Some wire"
    "length wire = length ed25519_prefix + 32" "starts_with ed25519_prefix wire"
  using assms by (auto simp: parse_public_line_def Let_def split: if_splits option.splits)

lemma derived_identity:
  assumes "derives I key line"
  shows "identity_of I private public line created (identity_from_public (iw_crates I) private public line created)"
proof -
  obtain bytes where "parse_public_line (iw_crates I) bytes = Inr line" using assms by (auto simp: derives_def)
  then obtain base64 wire where w: "line = ''ssh-ed25519 '' @ base64" "b64_std_decode (iw_crates I) base64 = Some wire"
    by (rule parsed_identity)
  moreover have "split_once (CHR '' '') (''ssh-ed25519 '' @ base64) = Some (''ssh-ed25519'', base64)" by simp
  ultimately show ?thesis by (simp add: identity_of_def identity_from_public_def wire_fingerprint_def)
qed

text \<open>What is on disk after a success.\<close>

definition holds_identity :: "identity_world \<Rightarrow> path \<Rightarrow> path \<Rightarrow> bool \<Rightarrow> controller_identity option \<Rightarrow> disk \<Rightarrow> bool" where
  "holds_identity I private public created i d \<longleftrightarrow>
     (\<exists>key line. disk_files d private = Some key \<and> derives I key line \<and> publishes I d public line \<and>
        identity_of I private public line created i)"

lemma load_existing_result:
  assumes "load_existing I private public d = (Inr i, d')" "identity_file private" "identity_file public"
  shows "holds_identity I private public False i d'"
proof -
  obtain v1 d1 line d2 d3 there v2 d4 where c: "identity_call I IdentityConflict (CallVerifyFile private) id d = (Inr v1, d1)"
    "derive_public_line I private d1 = (Inr line, d2)"
    "stat_path (iw_calls I) (\<lambda>_. IdentityConflict) public d2 = (Inr there, d3)"
    and pub: "(if there
              then bind_op (identity_call I IdentityConflict (CallVerifyFile public) id) (\<lambda>_.
                   bind_op (read_public_line I public) (\<lambda>existing.
                     if existing \<noteq> line then stop IdentityConflict else ok_op ()))
              else recover_public_file I public line) d3 = (Inr v2, d4)"
    and i: "found_identity I private public line False d4 = (Inr i, d')"
    using assms(1) unfolding load_existing_def by (elim bind_op_InrE) (rule that)
  obtain key where k: "disk_files d1 private = Some key" "derives I key line" using c(2) by (rule derive_result)
  have d3: "disk_files d3 private = Some key"
    using k(1) keepsD [OF keeps_derive c(2)] keepsD [OF keeps_stat c(3)] by simp
  define step where "step = (if there
              then bind_op (identity_call I IdentityConflict (CallVerifyFile public) id) (\<lambda>_.
                   bind_op (read_public_line I public) (\<lambda>existing.
                     if existing \<noteq> line then stop IdentityConflict else ok_op ()))
              else recover_public_file I public line)"
  have "protects private step"
    unfolding step_def using assms(2)
    by (intro protects_if protects_recover_public) (auto intro!: keeps_protects keeps_rules)
  moreover have "step d3 = (Inr v2, d4)" using pub by (simp only: step_def)
  ultimately have key: "disk_files d4 private = Some key" using d3 by (rule protectsD)
  have "publishes I d4 public line"
  proof (cases "there")
    case True
    with pub have "bind_op (identity_call I IdentityConflict (CallVerifyFile public) id) (\<lambda>_.
        bind_op (read_public_line I public) (\<lambda>existing.
          if existing \<noteq> line then stop IdentityConflict else ok_op ())) d3 = (Inr v2, d4)" by simp
    then obtain e1 l e2 where r: "read_public_line I public e1 = (Inr l, e2)"
      "(if l \<noteq> line then stop IdentityConflict else ok_op ()) e2 = (Inr v2, d4)"
      by (elim bind_op_InrE) (rule that)
    then have "l = line" "e2 = d4" by (auto simp: ok_op_def stop_def split: if_splits)
    with publishes_keeps [OF read_result [OF r(1)] keeps_read_line r(1)] show ?thesis by simp
  next
    case False
    with pub have "recover_public_file I public line d3 = (Inr v2, d4)" by simp
    then show ?thesis using assms(3) by (rule recover_public_result)
  qed
  moreover have "d' = d4" "i = identity_from_public (iw_crates I) private public line False"
    using i by (simp_all add: found_identity_def ok_op_def)
  ultimately show ?thesis using key k(2) derived_identity by (auto simp: holds_identity_def)
qed

lemma linked_new:
  assumes "link_new I e c target change d = (Inr False, d')"
  shows "d' = change (d\<lparr>disk_clock := Suc (disk_clock d)\<rparr>) \<and> disk_files d target = None"
  using assms by (auto simp: link_new_def Let_def exists_on_def split: option.splits if_splits)

lemma staging_public_differs: "q \<noteq> [] \<Longrightarrow> q \<noteq> public_of q"
proof
  assume "q \<noteq> []" "q = public_of q"
  then have "length (last q) = length (last q @ ''.pub'')" by (metis last_snoc public_of_def)
  then show False by simp
qed

lemma create_fresh_result:
  assumes "create_fresh I name dir private public d = (Inr i, d')" "identity_file private" "identity_file public"
  shows "\<exists>created. holds_identity I private public created i d'"
proof -
  obtain q d1 v2 d2 v3 d3 line d4 v5 d5 v6 d6 there d7 where
    q: "next_staging_path I dir ''private'' d = (Inr q, d1)"
    and c: "derive_public_line I q d3 = (Inr line, d4)" "forget_file I (public_of q) d4 = (Inr v5, d5)"
      "identity_call I IdentityConflict (CallAdopt q) id d5 = (Inr v6, d6)"
    and l: "link_new I IdentityConflict (CallPublishFile q private) private (move_file q private) d6 = (Inr there, d7)"
    and rest: "(if there then load_existing I private public
       else bind_op (recover_public_file I public line) (\<lambda>_. found_identity I private public line True)) d7 = (Inr i, d')"
    using assms(1) unfolding create_fresh_def by (elim bind_op_InrE) (rule that)
  have dot: "dotted q" by (rule dotted_staging [OF q])
  then have differ: "private \<noteq> q" "q \<noteq> public_of q"
    using dotted_differs [OF assms(2)] staging_public_differs by (auto simp: dotted_def)
  obtain key where k: "disk_files d3 q = Some key" "derives I key line" using c(1) by (rule derive_result)
  have adopt: "keeps q (identity_call I IdentityConflict (CallAdopt q) id)" by (intro keeps_rules) simp
  have d6: "disk_files d6 q = Some key"
    using k(1) keepsD [OF keeps_derive c(1)] keepsD [OF keeps_forget [OF differ(2)] c(2)] keepsD [OF adopt c(3)] by simp
  show ?thesis
  proof (cases "there")
    case True
    with rest have "load_existing I private public d7 = (Inr i, d')" by simp
    from load_existing_result [OF this assms(2,3)] show ?thesis by blast
  next
    case False
    have d7: "disk_files d7 private = Some key"
      using linked_new l False d6 by (fastforce simp: move_file_def)
    from False rest obtain v d8 where r: "recover_public_file I public line d7 = (Inr v, d8)"
      "found_identity I private public line True d8 = (Inr i, d')"
      by (auto elim: bind_op_InrE)
    have "disk_files d8 private = Some key" by (rule protectsD [OF protects_recover_public [OF assms(2)] r(1) d7])
    moreover have "publishes I d8 public line" by (rule recover_public_result [OF r(1) assms(3)])
    moreover have "d' = d8" "i = identity_from_public (iw_crates I) private public line True"
      using r(2) by (simp_all add: found_identity_def ok_op_def)
    ultimately have "holds_identity I private public True i d'"
      using k(2) derived_identity [OF k(2)] unfolding holds_identity_def by blast
    then show ?thesis by blast
  qed
qed

lemma bind_op_lift: "bind_op (lift (Inr x)) f = f x"
  by (simp add: bind_op_def lift_def)

lemma load_or_create_named:
  assumes "validated_controller_name (machine_name m) = Inr name"
    and "private = dir @ [identity_basename (iw_crates I) name (machine_id m)]" and "public = public_of private"
    and "lock = dir @ [''.'' @ identity_basename (iw_crates I) name (machine_id m) @ ''.lock'']"
  shows "load_or_create I m dir =
     bind_op (identity_call I IdentityConflict (CallVerifyDirectory dir) id) (\<lambda>_.
     bind_op (identity_call I IdentityConflict (CallTakeLock lock)
            (\<lambda>d. if disk_files d lock = None then put_file lock [] d else d)) (\<lambda>_.
     bind_op (stat_path (iw_calls I) (\<lambda>_. IdentityConflict) private) (\<lambda>there.
       if there then load_existing I private public
       else bind_op (recover_op (stat_path (iw_calls I) (\<lambda>_. IdentityConflict) public) (\<lambda>_. ok_op False)) (\<lambda>there.
              if there then stop IdentityConflict else create_fresh I name dir private public))))"
  unfolding load_or_create_def assms(1) bind_op_lift Let_def assms(2-4) ..

lemma holds_created: "holds_identity I private public created i d \<Longrightarrow> \<exists>x. i = Some x \<and> ci_created x = created"
  by (auto simp: holds_identity_def identity_of_def)

lemma load_or_create_result:
  assumes "load_or_create I m dir d = (Inr i, d')"
    and "private = dir @ [identity_basename (iw_crates I) (machine_name m) (machine_id m)]"
    and "public = public_of private"
  shows "\<exists>created. holds_identity I private public created i d' \<and> (created \<longrightarrow> disk_files d private = None)"
proof -
  have files: "identity_file private" "identity_file public"
    using assms(2,3) identity_basename_file by auto
  define lock where "lock = dir @ [''.'' @ identity_basename (iw_crates I) (machine_name m) (machine_id m) @ ''.lock'']"
  have name: "validated_controller_name (machine_name m) = Inr (machine_name m)"
    using assms(1)
    by (auto simp: load_or_create_def bind_op_Inr lift_def validated_controller_name_def split: if_splits)
  note run = assms(1) [unfolded load_or_create_named [OF name assms(2,3) lock_def]]
  obtain v1 d1 v2 d2 there d3 where c: "identity_call I IdentityConflict (CallVerifyDirectory dir) id d = (Inr v1, d1)"
    "identity_call I IdentityConflict (CallTakeLock lock)
       (\<lambda>d. if disk_files d lock = None then put_file lock [] d else d) d1 = (Inr v2, d2)"
    "stat_path (iw_calls I) (\<lambda>_. IdentityConflict) private d2 = (Inr there, d3)"
    and rest: "(if there then load_existing I private public
       else bind_op (recover_op (stat_path (iw_calls I) (\<lambda>_. IdentityConflict) public) (\<lambda>_. ok_op False)) (\<lambda>there.
         if there then stop IdentityConflict else create_fresh I (machine_name m) dir private public)) d3 = (Inr i, d')"
    using run by (elim bind_op_InrE) (rule that)
  have "dotted lock" by (simp add: dotted_def starts_with_def lock_def)
  then have "private \<noteq> lock" by (rule dotted_differs [OF files(1)])
  then have same: "disk_files d2 private = disk_files d private"
    using native_cases [OF c(1) [unfolded identity_call_def]] native_cases [OF c(2) [unfolded identity_call_def]]
    by (auto split: if_splits)
  show ?thesis
  proof (cases "there")
    case True
    with rest have "load_existing I private public d3 = (Inr i, d')" by simp
    from load_existing_result [OF this files] show ?thesis by blast
  next
    case False
    have "disk_files d2 private = None"
      using c(3) False by (auto simp: stat_path_def bind_op_def native_def Let_def exists_on_def split: option.splits)
    moreover from False rest obtain e where "create_fresh I (machine_name m) dir private public e = (Inr i, d')"
      by (auto simp: stop_def elim!: bind_op_InrE split: if_splits)
    then have "\<exists>created. holds_identity I private public created i d'" using create_fresh_result files by blast
    ultimately show ?thesis using same by auto
  qed
qed

text \<open>
  C16. A controller key is created once and never replaced: loading or creating the identity leaves
  an existing private or public file as it is, whatever fails and on every outcome. On success
  the private file is there, \<open>ssh-keygen\<close> derived from it exactly the public line that the
  public file holds and that is returned with its fingerprint, no expectation is violated, and
  the identity is reported as created only where there was no key before.
\<close>

theorem controller_key_preserved:
  assumes "load_or_create I m dir d = (r, d')"
    and "private = dir @ [identity_basename (iw_crates I) (machine_name m) (machine_id m)]"
    and "public = public_of private"
  shows "(\<forall>p k. p \<in> {private, public} \<and> disk_files d p = Some k \<longrightarrow> disk_files d' p = Some k) \<and>
     (\<forall>i. r = Inr i \<longrightarrow> (\<exists>created. holds_identity I private public created i d' \<and>
        (created \<longrightarrow> disk_files d private = None)))"
proof -
  have files: "identity_file private" "identity_file public"
    using assms(2,3) identity_basename_file by auto
  have "\<exists>created. holds_identity I private public created i d' \<and> (created \<longrightarrow> disk_files d private = None)"
    if "r = Inr i" for i
    using load_or_create_result [OF _ assms(2,3)] assms(1) that by blast
  moreover have "disk_files d' p = Some k" if "p \<in> {private, public}" "disk_files d p = Some k" for p k
    using protectsD [OF protects_load_or_create assms(1)] that files by blast
  ultimately show ?thesis by blast
qed

definition demo_keygen :: keygen where
  "demo_keygen = \<lparr>kg_generate = (\<lambda>_ _. ToolExit True ''key''),
     kg_derive = (\<lambda>_ _. ToolExit True (''ssh-ed25519 AAAA'' @ [CHR 0x0A]))\<rparr>"

definition demo_identity_world :: identity_world where
  "demo_identity_world = \<lparr>iw_crates = demo_scan_crates, iw_keygen = demo_keygen, iw_calls = (\<lambda>_ _. None), iw_pid = 7\<rparr>"

definition demo_private :: path where
  "demo_private = [''ssh'', identity_basename demo_scan_crates ''atlas'' demo_uuid]"

definition demo_identity_disk :: disk where
  "demo_identity_disk = \<lparr>disk_files = [demo_private \<mapsto> ''key'',
     public_of demo_private \<mapsto> ''ssh-ed25519 AAAA'' @ [CHR 0x0A]], disk_dirs = {}, disk_clock = 0\<rparr>"

lemma demo_public_line:
  "parse_public_line demo_scan_crates (''ssh-ed25519 AAAA'' @ [CHR 0x0A]) = Inr ''ssh-ed25519 AAAA''"
proof -
  have "utf8_valid (''ssh-ed25519 AAAA'' @ [CHR 0x0A])" by code_simp
  moreover have "trim_end_matches line_end (''ssh-ed25519 AAAA'' @ [CHR 0x0A]) = ''ssh-ed25519 AAAA''" by code_simp
  moreover have "public_fields (split_ascii_whitespace ''ssh-ed25519 AAAA'') = Some (''AAAA'', None)" by code_simp
  moreover have "length demo_wire = length ed25519_prefix + 32" "starts_with ed25519_prefix demo_wire" by code_simp+
  ultimately show ?thesis
    by (simp add: parse_public_line_def Let_def max_public_key_bytes_def comment_ok_def)
qed

lemma demo_identity_run:
  "\<exists>i d'. load_or_create demo_identity_world demo_manifest [''ssh''] demo_identity_disk = (Inr (Some i), d') \<and>
     \<not> ci_created i"
proof -
  define lock where "lock = [''ssh''] @ [''.'' @ identity_basename demo_scan_crates ''atlas'' demo_uuid @ ''.lock'']"
  have call: "identity_call demo_identity_world e c change d = (Inr (), change (d\<lparr>disk_clock := Suc (disk_clock d)\<rparr>))"
    for e c change d
    by (simp add: identity_call_def native_def demo_identity_world_def)
  have paths: "demo_private \<noteq> lock" "public_of demo_private \<noteq> lock" "demo_private \<noteq> public_of demo_private"
    using identity_basename_file [of "[''ssh'']" demo_scan_crates "''atlas''" demo_uuid] dotted_differs
      staging_public_differs [of demo_private]
    by (auto simp: demo_private_def lock_def dotted_def starts_with_def)
  have sel: "iw_crates demo_identity_world = demo_scan_crates" "iw_calls demo_identity_world t c = None"
    "kg_derive (iw_keygen demo_identity_world) t key = ToolExit True (''ssh-ed25519 AAAA'' @ [CHR 0x0A])" for t c key
    by (simp_all add: demo_identity_world_def demo_keygen_def)
  have m: "machine_name demo_manifest = ''atlas''" "machine_id demo_manifest = demo_uuid"
    by (simp_all add: demo_manifest_def)
  have name: "validated_controller_name (machine_name demo_manifest) = Inr ''atlas''"
    unfolding m by code_simp
  have short: "take max_public_key_bytes (''ssh-ed25519 AAAA'' @ [CHR 0x0A]) = ''ssh-ed25519 AAAA'' @ [CHR 0x0A]"
    "\<not> max_public_key_bytes < length (''ssh-ed25519 AAAA'' @ [CHR 0x0A])"
    by (simp_all add: max_public_key_bytes_def)
  have there: "stat_path (iw_calls demo_identity_world) w p d =
      (Inr (exists_on d p), d\<lparr>disk_clock := Suc (disk_clock d)\<rparr>)" for w :: "io_error \<Rightarrow> identity_error" and p d
    by (simp add: stat_path_def bind_op_def native_def sel exists_on_def)
  have "load_existing demo_identity_world demo_private (public_of demo_private) d =
      (Inr (identity_from_public demo_scan_crates demo_private (public_of demo_private) ''ssh-ed25519 AAAA'' False), d')"
    if "disk_files d demo_private = Some ''key''"
      "disk_files d (public_of demo_private) = Some (''ssh-ed25519 AAAA'' @ [CHR 0x0A])"
      "d' = d\<lparr>disk_clock := disk_clock d + 7\<rparr>" for d d'
    using that short demo_public_line
    by (simp add: load_existing_def bind_op_def call derive_public_line_def file_bytes_def at_clock_def sel
        bounded_tool_output_def lift_def there exists_on_def read_public_line_def found_identity_def ok_op_def
        del: append.simps)
  moreover have "identity_from_public demo_scan_crates demo_private (public_of demo_private) ''ssh-ed25519 AAAA'' False =
      Some \<lparr>ci_private_path = demo_private, ci_public_path = public_of demo_private,
        ci_public_line = ''ssh-ed25519 AAAA'', ci_fingerprint = ''SHA256:'' @ replicate 43 (CHR ''e''), ci_created = False\<rparr>"
    by (simp add: identity_from_public_def)
  moreover have "demo_private = [''ssh''] @ [identity_basename (iw_crates demo_identity_world) ''atlas'' (machine_id demo_manifest)]"
    "lock = [''ssh''] @ [''.'' @ identity_basename (iw_crates demo_identity_world) ''atlas'' (machine_id demo_manifest) @ ''.lock'']"
    by (simp_all add: demo_private_def lock_def sel m)
  note run = load_or_create_named [OF name this(1) refl this(2)]
  ultimately show ?thesis
    unfolding run
    by (auto simp: bind_op_def call there exists_on_def demo_identity_disk_def put_file_def paths)
qed

theorem controller_key_preserved_witness:
  "\<exists>i d'. load_or_create demo_identity_world demo_manifest [''ssh''] demo_identity_disk = (Inr (Some i), d') \<and>
     holds_identity demo_identity_world demo_private (public_of demo_private) False (Some i) d' \<and>
     disk_files d' demo_private = Some ''key''"
proof -
  obtain i d' where run: "load_or_create demo_identity_world demo_manifest [''ssh''] demo_identity_disk = (Inr (Some i), d')"
    and old: "\<not> ci_created i"
    using demo_identity_run by blast
  have p: "demo_private = [''ssh''] @ [identity_basename (iw_crates demo_identity_world) (machine_name demo_manifest)
      (machine_id demo_manifest)]"
    by (simp add: demo_private_def demo_identity_world_def demo_manifest_def)
  have "disk_files demo_identity_disk demo_private = Some ''key''"
    using staging_public_differs [of demo_private] by (simp add: demo_identity_disk_def demo_private_def)
  then have key: "disk_files d' demo_private = Some ''key''"
    using controller_key_preserved [OF run p refl] by simp
  obtain created where h: "holds_identity demo_identity_world demo_private (public_of demo_private) created (Some i) d'"
    using controller_key_preserved [OF run p refl] by auto
  then have "created = False" using holds_created [OF h] old by auto
  with h key run show ?thesis by (intro exI conjI) simp_all
qed

end
