(* ===== verification/ProbeText.thy ===== *)
theory ProbeText
  imports Secrets
begin

text \<open>
  The text guard of the worker probes (\<open>src/setup/probe_wire.rs\<close>): what a probe label, a
  reason or a version may contain before it is shown. It is stricter than the guard of
  \<open>Secrets\<close>: a token prefix counts from four characters, a JWT is found inside a word, and
  a small lexer looks for a credential marker that is followed by anything but plain status
  prose. A position in the token list is the list of the tokens from there on.
\<close>

section \<open>Tokens\<close>

datatype lex_token =
  LexWord string | LexSeparator | LexBoundary | LexGap | LexWrapper | LexJoiner | LexFamilyJoiner

definition is_word_char :: "string \<Rightarrow> bool" where
  "is_word_char g = (case g of [c] \<Rightarrow> is_ascii_alphanumeric c | _ \<Rightarrow> False)"

definition other_token :: "string \<Rightarrow> lex_token" where
  "other_token g =
     (if byte_in '':='' g then LexSeparator
      else if is_whitespace g then LexGap
      else if byte_in ''()[]{}'' g then LexWrapper
      else if byte_in ''.?'' g then LexFamilyJoiner
      else if \<not> (byte_in '',;&'' g \<or> (case g of [c] \<Rightarrow> 128 \<le> byte c | _ \<Rightarrow> True)) then LexJoiner
      else LexBoundary)"

definition end_word :: "string \<Rightarrow> lex_token list" where
  "end_word w = (if w = [] then [] else [LexWord w])"

fun lex_chars :: "string \<Rightarrow> string list \<Rightarrow> lex_token list" where
  "lex_chars w [] = end_word w"
| "lex_chars w (g # gs) =
     (if is_word_char g then lex_chars (w @ g) gs
      else end_word w @ other_token g # lex_chars [] gs)"

definition lexical_tokens :: "string \<Rightarrow> lex_token list" where
  "lexical_tokens value = lex_chars [] (chars value)"

section \<open>Credential markers\<close>

definition credential_marker_families :: "string list list" where
  "credential_marker_families =
     [[''authorization'', ''bearer'', ''token''], [''authorization'', ''token''], [''bearer'', ''token''],
      [''access'', ''token''], [''refresh'', ''token''], [''session'', ''token''], [''access'', ''key''],
      [''private'', ''key''], [''secret'', ''key''], [''client'', ''secret''], [''api'', ''key''],
      [''auth'', ''token''], [''id'', ''token'']]"

definition single_credential_markers :: "string list" where
  "single_credential_markers =
     [''apikey'', ''auth'', ''authorization'', ''password'', ''privatekey'', ''secret'', ''accesskey'',
      ''credential'', ''credentials'', ''token'', ''bearer'']"

fun next_marker_word :: "lex_token list \<Rightarrow> lex_token list option" where
  "next_marker_word [] = None"
| "next_marker_word (t # ts) =
     (case t of
        LexWord _ \<Rightarrow> Some (t # ts)
      | LexSeparator \<Rightarrow> None
      | LexBoundary \<Rightarrow> None
      | _ \<Rightarrow> next_marker_word ts)"

text \<open>The tokens after the last word of a family found at this position.\<close>

fun marker_family_end :: "lex_token list \<Rightarrow> string list \<Rightarrow> lex_token list option" where
  "marker_family_end (LexWord word # ts) (expected # family) =
     (if to_ascii_lowercase word \<noteq> expected then None
      else if family = [] then Some ts
      else Option.bind (next_marker_word ts) (\<lambda>next. marker_family_end next family))"
| "marker_family_end _ _ = None"

definition longer_match :: "lex_token list option \<Rightarrow> lex_token list option \<Rightarrow> lex_token list option" where
  "longer_match longest found =
     (case (longest, found) of
        (_, None) \<Rightarrow> longest
      | (None, Some e) \<Rightarrow> Some e
      | (Some previous, Some e) \<Rightarrow> Some (if length e < length previous then e else previous))"

definition credential_marker_end :: "lex_token list \<Rightarrow> lex_token list option" where
  "credential_marker_end tokens =
     (case tokens of
        LexWord word # ts \<Rightarrow>
          foldl (\<lambda>longest family. longer_match longest (marker_family_end tokens family))
            (if to_ascii_lowercase word \<in> set single_credential_markers then Some ts else None)
            credential_marker_families
      | _ \<Rightarrow> None)"

fun marker_value_after :: "lex_token list \<Rightarrow> lex_token list option" where
  "marker_value_after [] = None"
| "marker_value_after (t # ts) =
     (case t of
        LexWord _ \<Rightarrow> Some (t # ts)
      | LexBoundary \<Rightarrow> None
      | _ \<Rightarrow> marker_value_after ts)"

section \<open>Status prose\<close>

definition safe_marker_nouns :: "string list" where
  "safe_marker_nouns =
     [''cache'', ''service'', ''process'', ''support'', ''state'', ''status'', ''authentication'',
      ''capability'', ''scheme'', ''header'', ''reset'', ''refresh'', ''rotation'', ''permissions'',
      ''file'', ''policy'']"

definition copulas :: "string list" where
  "copulas = [''is'', ''are'', ''was'', ''were'', ''be'', ''been'', ''being'']"

definition status_predicates :: "string list" where
  "status_predicates =
     [''enabled'', ''healthy'', ''disabled'', ''unhealthy'', ''absent'', ''available'', ''unavailable'']"

definition qualifiers :: "string list" where
  "qualifiers =
     [''managed'', ''system'', ''default'', ''local'', ''remote'', ''configured'', ''required'', ''optional'']"

definition word_in :: "string list \<Rightarrow> string \<Rightarrow> bool" where
  "word_in names word \<longleftrightarrow> to_ascii_lowercase word \<in> set names"

fun next_context_word :: "lex_token list \<Rightarrow> lex_token list option" where
  "next_context_word [] = None"
| "next_context_word (t # ts) =
     (case t of
        LexGap \<Rightarrow> next_context_word ts
      | LexWrapper \<Rightarrow> next_context_word ts
      | LexJoiner \<Rightarrow> next_context_word ts
      | LexWord _ \<Rightarrow> Some (t # ts)
      | _ \<Rightarrow> None)"

text \<open>
  \<open>clause_ends_after\<close>: the outer loop over the tokens, and the inner one over the words of a
  parenthesis, which has to hold at least one qualifier.
\<close>

fun clause_ends_after :: "lex_token list \<Rightarrow> bool"
  and in_parenthesis :: "bool \<Rightarrow> lex_token list \<Rightarrow> bool" where
  "clause_ends_after [] = True"
| "clause_ends_after (t # ts) =
     (case t of
        LexGap \<Rightarrow> clause_ends_after ts
      | LexBoundary \<Rightarrow> clause_ends_after ts
      | LexFamilyJoiner \<Rightarrow> clause_ends_after ts
      | LexJoiner \<Rightarrow> clause_ends_after ts
      | LexWrapper \<Rightarrow> in_parenthesis False ts
      | _ \<Rightarrow> False)"
| "in_parenthesis has_qualifier [] = has_qualifier"
| "in_parenthesis has_qualifier (t # ts) =
     (case t of
        LexGap \<Rightarrow> in_parenthesis has_qualifier ts
      | LexWord word \<Rightarrow> word_in qualifiers word \<and> in_parenthesis True ts
      | LexWrapper \<Rightarrow> has_qualifier \<and> clause_ends_after ts
      | _ \<Rightarrow> False)"

definition separator_status_clause :: "lex_token list \<Rightarrow> bool option" where
  "separator_status_clause tokens =
     (case dropWhile (\<lambda>t. t = LexGap) tokens of
        LexSeparator # ts \<Rightarrow>
          (case dropWhile (\<lambda>t. t = LexGap) ts of
             [] \<Rightarrow> None
           | LexWord predicate # rest \<Rightarrow> Some (word_in status_predicates predicate \<and> clause_ends_after rest)
           | _ \<Rightarrow> Some False)
      | _ \<Rightarrow> None)"

definition predicate_clause :: "lex_token list \<Rightarrow> bool" where
  "predicate_clause tokens =
     (case next_context_word tokens of
        Some (LexWord word # rest) \<Rightarrow> word_in status_predicates word \<and> clause_ends_after rest
      | _ \<Rightarrow> False)"

lemma next_context_word_length: "next_context_word ts = Some us \<Longrightarrow> length us \<le> length ts"
  by (induction ts) (auto split: lex_token.splits)

lemma next_context_word_word: "next_context_word ts = Some us \<Longrightarrow> \<exists>w vs. us = LexWord w # vs"
  by (induction ts) (auto split: lex_token.splits)

function noun_clause :: "lex_token list \<Rightarrow> bool" where
  "noun_clause (LexWord noun # ts) =
     (word_in safe_marker_nouns noun \<and>
      (case next_context_word ts of
         None \<Rightarrow> (case separator_status_clause ts of None \<Rightarrow> clause_ends_after ts | Some b \<Rightarrow> b)
       | Some next \<Rightarrow>
           (case next of
              LexWord next_word # rest \<Rightarrow>
                if word_in copulas next_word then predicate_clause rest else noun_clause next
            | _ \<Rightarrow> False)))"
| "noun_clause [] = False"
| "noun_clause (LexSeparator # ts) = False"
| "noun_clause (LexBoundary # ts) = False"
| "noun_clause (LexGap # ts) = False"
| "noun_clause (LexWrapper # ts) = False"
| "noun_clause (LexJoiner # ts) = False"
| "noun_clause (LexFamilyJoiner # ts) = False"
  by pat_completeness auto
termination
  by (relation "measure length") (auto dest!: next_context_word_length)

definition is_safe_marker_prose :: "lex_token list \<Rightarrow> bool" where
  "is_safe_marker_prose tokens =
     (case tokens of
        LexWord first # ts \<Rightarrow> if word_in copulas first then predicate_clause ts else noun_clause tokens
      | _ \<Rightarrow> False)"

text \<open>The positions of a list: the list and every proper end of it but the empty one.\<close>

fun positions :: "'a list \<Rightarrow> 'a list list" where
  "positions [] = []"
| "positions (x # xs) = (x # xs) # positions xs"

definition contains_sensitive_marker_value :: "string \<Rightarrow> bool" where
  "contains_sensitive_marker_value value =
     list_ex (\<lambda>tokens. is_some_and (\<lambda>v. \<not> is_safe_marker_prose v)
                (Option.bind (credential_marker_end tokens) marker_value_after))
       (positions (lexical_tokens value))"

section \<open>Tokens with a known form\<close>

definition probe_jwt_char :: "char \<Rightarrow> bool" where
  "probe_jwt_char c \<longleftrightarrow> token_byte c \<or> c = CHR ''.''"

definition is_compact_jwt_segments :: "crates \<Rightarrow> string \<Rightarrow> bool" where
  "is_compact_jwt_segments C candidate =
     (let segments = split_on (CHR ''.'') candidate
      in if length segments \<notin> {3, 5} \<or> [] \<in> set segments
            \<or> list_ex (\<lambda>segment. \<not> list_all token_byte segment) segments
         then False
         else is_some_and is_object
                (Option.bind (case b64_url_nopad_decode C (segments ! 0) of
                                Some header \<Rightarrow> Some header
                              | None \<Rightarrow> b64_url_decode C (segments ! 0)) (json_parse C)))"

definition is_embedded_jwt :: "crates \<Rightarrow> string \<Rightarrow> bool" where
  "is_embedded_jwt C value = is_compact_jwt_segments C (trim_matches (byte_in ''.'') value)"

definition contains_embedded_compact_jwt :: "crates \<Rightarrow> string \<Rightarrow> bool" where
  "contains_embedded_compact_jwt C value =
     list_ex (\<lambda>(before, after). is_embedded_jwt C (takeWhile probe_jwt_char (''eyJ'' @ after)))
       (match_contexts ''eyJ'' [] value)"

definition contains_short_credential_prefix :: "string \<Rightarrow> bool" where
  "contains_short_credential_prefix value =
     (let lowercase = to_ascii_lowercase value
      in list_ex (\<lambda>pre.
           list_ex (\<lambda>(before, after).
             boundary_at (\<lambda>c. \<not> is_ascii_alphanumeric c) before
             \<and> length (take 4 (takeWhile token_byte after)) = 4)
           (match_contexts pre [] lowercase)) credential_prefixes)"

definition looks_secret_shaped :: "crates \<Rightarrow> string \<Rightarrow> bool" where
  "looks_secret_shaped C value \<longleftrightarrow>
     any_control value
     \<or> contains ''-----begin'' (to_ascii_lowercase value)
     \<or> contains_sensitive_marker_value value
     \<or> contains_embedded_compact_jwt C value
     \<or> contains_short_credential_prefix value"

definition is_safe_text :: "crates \<Rightarrow> string \<Rightarrow> bool" where
  "is_safe_text C value \<longleftrightarrow> value \<noteq> [] \<and> \<not> any_control value \<and> \<not> looks_secret_shaped C value"

definition validate_static_text :: "crates \<Rightarrow> string \<Rightarrow> bool" where
  "validate_static_text C value = is_safe_text C value"

definition safe_static_text :: "crates \<Rightarrow> string \<Rightarrow> string \<Rightarrow> string" where
  "safe_static_text C value fallback = (if is_safe_text C value then value else fallback)"

definition is_safe_version :: "crates \<Rightarrow> string \<Rightarrow> bool" where
  "is_safe_version C value \<longleftrightarrow>
     value \<noteq> [] \<and> length value \<le> 128 \<and> is_safe_text C value
     \<and> list_all (\<lambda>c. is_ascii_alphanumeric c \<or> c \<in> {CHR ''.'', CHR ''-'', CHR ''_'', CHR ''+''}) value"

end
