(* ===== verification/PlainText.thy ===== *)
theory PlainText
  imports ProbeText
begin

text \<open>
  Fixed messages against the two guards of secret-shaped text. A sentence is a list of words
  with one space between them; when every word passes a test that can be evaluated without the
  crates, both guards let the sentence through. The clients are the closed messages of the
  probes.
\<close>

section \<open>Sentences\<close>

definition plain_byte :: "char \<Rightarrow> bool" where
  "plain_byte c \<longleftrightarrow> is_ascii_lowercase c \<or> is_ascii_digit c \<or> c \<in> set ''-:._,''"

text \<open>The first patterns matter to both guards, the others to the lexer of the probes alone.\<close>

definition label_patterns :: "string list" where
  "label_patterns = [''token'', ''passw'', ''passph'', ''secret'', ''sk'', ''gh'', ''github'', ''--'', ''key'']"

definition risky_patterns :: "string list" where
  "risky_patterns =
     label_patterns @ [''auth'', ''cred'', ''bearer'', ''access'', ''session'', ''private'', ''refresh'', ''client'', ''api'', ''id'']"

definition word_without :: "string list \<Rightarrow> string \<Rightarrow> bool" where
  "word_without ps w \<longleftrightarrow>
     w \<noteq> [] \<and> (is_ascii_lowercase (hd w) \<or> is_ascii_digit (hd w)) \<and> list_all plain_byte w
     \<and> \<not> list_ex (\<lambda>p. contains p w) ps"

definition sentence :: "string list \<Rightarrow> string" where
  "sentence ws = join_with (CHR '' '') ws"

definition sentence_without :: "string list \<Rightarrow> string list \<Rightarrow> bool" where
  "sentence_without ps ws \<longleftrightarrow> ws \<noteq> [] \<and> list_all (word_without ps) ws"

abbreviation mild_word :: "string \<Rightarrow> bool" where
  "mild_word \<equiv> word_without label_patterns"

abbreviation mild_sentence :: "string list \<Rightarrow> bool" where
  "mild_sentence \<equiv> sentence_without label_patterns"

abbreviation plain_word :: "string \<Rightarrow> bool" where
  "plain_word \<equiv> word_without risky_patterns"

abbreviation plain_sentence :: "string list \<Rightarrow> bool" where
  "plain_sentence \<equiv> sentence_without risky_patterns"

lemma plain_mild_word: "plain_word w \<Longrightarrow> mild_word w"
  by (simp add: word_without_def risky_patterns_def)

lemma plain_mild: "plain_sentence ws \<Longrightarrow> mild_sentence ws"
  using plain_mild_word by (auto simp: sentence_without_def list_all_iff)

lemma plain_byte_bounds: "plain_byte c \<Longrightarrow> 44 \<le> byte c \<and> byte c \<le> 122 \<and> \<not> is_ascii_uppercase c \<and> c \<noteq> CHR ''=''"
  by (auto simp: plain_byte_def ascii_defs)

lemma sentence_Cons: "ws \<noteq> [] \<Longrightarrow> sentence (w # ws) = w @ CHR '' '' # sentence ws"
  by (simp add: sentence_def join_with_Cons)

lemma sentence_single [simp]: "sentence [w] = w"
  by (simp add: sentence_def)

lemma sentence_without_Cons:
  "sentence_without ps (w # ws) \<longleftrightarrow> word_without ps w \<and> (ws = [] \<or> sentence_without ps ws)"
  by (auto simp: sentence_without_def)

lemma sentence_without_append:
  "sentence_without ps us \<Longrightarrow> sentence_without ps vs \<Longrightarrow> sentence_without ps (us @ vs)"
  by (auto simp: sentence_without_def)

lemma sentence_append:
  "us \<noteq> [] \<Longrightarrow> vs \<noteq> [] \<Longrightarrow> sentence (us @ vs) = sentence us @ CHR '' '' # sentence vs"
proof (induction us)
  case (Cons u us)
  then show ?case by (cases "us = []") (simp_all add: sentence_Cons)
qed simp

lemma sentence_without_induct [consumes 1, case_names single more]:
  assumes "sentence_without ps ws"
    and "\<And>w. word_without ps w \<Longrightarrow> P [w]"
    and "\<And>w ws. word_without ps w \<Longrightarrow> sentence_without ps ws \<Longrightarrow> P ws \<Longrightarrow> P (w # ws)"
  shows "P ws"
  using assms(1)
proof (induction ws)
  case (Cons w ws)
  show ?case
  proof (cases "ws = []")
    case True
    with Cons.prems assms(2) show ?thesis by (simp add: sentence_without_Cons)
  next
    case False
    with Cons.prems have "word_without ps w" "sentence_without ps ws" by (simp_all add: sentence_without_Cons)
    then show ?thesis using assms(3) Cons.IH by blast
  qed
qed (simp add: sentence_without_def)

lemma sentence_bytes: "sentence_without ps ws \<Longrightarrow> c \<in> set (sentence ws) \<Longrightarrow> c = CHR '' '' \<or> plain_byte c"
  by (induction rule: sentence_without_induct) (auto simp: word_without_def sentence_without_def list_all_iff sentence_Cons)

lemma sentence_range: "sentence_without ps ws \<Longrightarrow> c \<in> set (sentence ws) \<Longrightarrow> 32 \<le> byte c \<and> byte c \<le> 126"
  using sentence_bytes [of ps ws c] plain_byte_bounds [of c] by (auto simp: byte_def)

lemma sentence_ne: "sentence_without ps ws \<Longrightarrow> sentence ws \<noteq> []"
  by (induction rule: sentence_without_induct) (auto simp: word_without_def sentence_without_def sentence_Cons)

lemma sentence_lower: "sentence_without ps ws \<Longrightarrow> sublist x (sentence ws) \<Longrightarrow> to_ascii_lowercase x = x"
proof -
  assume ws: "sentence_without ps ws" and "sublist x (sentence ws)"
  then have sub: "set x \<subseteq> set (sentence ws)" by (metis set_mono_sublist)
  have "lower_byte c = c" if "c \<in> set x" for c
  proof -
    have "c = CHR '' '' \<or> plain_byte c" using sentence_bytes [OF ws] sub that by blast
    then show ?thesis by (auto simp: lower_byte_def ascii_defs dest: plain_byte_bounds)
  qed
  then show ?thesis by (simp add: to_ascii_lowercase_def map_idI)
qed

lemma sublist_around:
  assumes "sublist p (a @ d # b)" "d \<notin> set p" "p \<noteq> []"
  shows "sublist p a \<or> sublist p b"
  using assms by (auto simp: sublist_append Cons_prefix_Cons prefix_Cons sublist_Cons_right intro: suffix_imp_sublist)

lemma pattern_words: "p \<in> set risky_patterns \<Longrightarrow> CHR '' '' \<notin> set p \<and> p \<noteq> []"
  by (auto simp: risky_patterns_def label_patterns_def)

lemma sentence_no_pattern:
  assumes "sentence_without ps ws" "p \<in> set ps" "set ps \<subseteq> set risky_patterns"
  shows "\<not> contains p (sentence ws)"
  using assms(1)
proof (induction rule: sentence_without_induct)
  case (single w)
  with assms(2) show ?case by (simp add: word_without_def list_ex_iff)
next
  case (more w ws)
  have "\<not> contains p w" using more assms(2) by (simp add: word_without_def list_ex_iff)
  then show ?case
    using more sublist_around [of p w "CHR '' ''" "sentence ws"] pattern_words [of p] assms(2,3)
    by (auto simp: contains_sublist sentence_Cons sentence_without_def)
qed

lemma no_pattern_sublist:
  assumes "sentence_without ps ws" "sublist x (sentence ws)" "list_ex (\<lambda>p. contains p x) ps" "set ps \<subseteq> set risky_patterns"
  shows False
  using sentence_no_pattern [OF assms(1) _ assms(4)] assms(2,3)
  by (auto simp: list_ex_iff contains_sublist) (meson sublist_order.order.trans)

lemma label_patterns_subset: "set label_patterns \<subseteq> set risky_patterns"
  by (auto simp: risky_patterns_def)

section \<open>The guard of the manifest\<close>

lemma trim_matches_set: "c \<in> set (trim_matches p s) \<Longrightarrow> c \<in> set s"
proof -
  assume "c \<in> set (trim_matches p s)"
  then have "c \<in> set (concat (chars (trim_start_matches p s)))"
    unfolding trim_matches_def trim_end_matches_def
    by (auto simp del: concat_chars) (metis set_dropWhileD set_rev)
  then have "c \<in> set (trim_start_matches p s)" by simp
  then show ?thesis using trim_start_suffix [of p s] by (meson set_mono_suffix subsetD)
qed

lemma trim_matches_id:
  assumes "\<forall>g \<in> set (chars s). \<not> p g"
  shows "trim_matches p s = s"
proof -
  have id: "dropWhile p gs = gs" if "\<forall>g \<in> set gs. \<not> p g" for gs
    using that by (cases gs) auto
  have "trim_start_matches p s = s"
    by (simp add: trim_start_matches_def id [OF assms])
  moreover have "trim_end_matches p s = s"
    using id [of "rev (chars s)"] assms by (simp add: trim_end_matches_def)
  ultimately show ?thesis by (simp add: trim_matches_def)
qed

lemma word_space: "word_without ps w \<Longrightarrow> c \<in> set w \<Longrightarrow> \<not> is_whitespace [c]"
  using plain_byte_bounds [of c] by (auto simp: word_without_def list_all_iff is_whitespace_def)

lemma split_sentence: "sentence_without ps ws \<Longrightarrow> split_whitespace (sentence ws) = ws"
proof -
  assume ws: "sentence_without ps ws"
  have "words_by is_whitespace [] (map (\<lambda>c. [c]) (sentence ws)) = map (map (\<lambda>c. [c])) ws"
    using ws
  proof (induction rule: sentence_without_induct)
    case (single w)
    with words_by_skip [of "map (\<lambda>c. [c]) w" is_whitespace "[]" "[]"] word_space [OF single]
    show ?case by (simp add: word_without_def rev_map [symmetric])
  next
    case (more w ws)
    have "is_whitespace '' ''" by (simp add: is_whitespace_def byte_def)
    with more words_by_skip [of "map (\<lambda>c. [c]) w" is_whitespace "[]" "'' '' # map (\<lambda>c. [c]) (sentence ws)"]
      word_space [OF more(1)]
    show ?case by (simp add: word_without_def sentence_without_def sentence_Cons rev_map [symmetric])
  qed
  moreover have "chars (sentence ws) = map (\<lambda>c. [c]) (sentence ws)"
    by (rule chars_ascii) (use sentence_range [OF ws] in fastforce)
  ultimately show ?thesis
    by (simp add: split_whitespace_def comp_def)
qed

lemma no_J_no_jwt: "CHR ''J'' \<notin> set v \<Longrightarrow> \<not> is_compact_jwt C v"
proof
  assume J: "CHR ''J'' \<notin> set v" and jwt: "is_compact_jwt C v"
  define w where "w = split_on (CHR ''.'') v ! 0"
  have "w \<in> set (split_on (CHR ''.'') v)" using jwt by (simp add: is_compact_jwt_def Let_def w_def)
  then have "set w \<subseteq> set v" by (rule split_on_part_subset)
  moreover have "starts_with ''eyJ'' w" using jwt by (simp add: is_compact_jwt_def Let_def w_def)
  then have "CHR ''J'' \<in> set w" by (auto simp: starts_with_prefix prefix_def)
  ultimately show False using J by blast
qed

lemma plain_no_J: "plain_byte c \<Longrightarrow> c \<noteq> CHR ''J''"
  using plain_byte_bounds [of c] by (auto simp: ascii_defs)

text \<open>Trimming takes nothing off the front of such a word.\<close>

lemma trim_word:
  assumes "word_without ps w"
  shows "prefix (trim_matches (byte_in (quote_marks @ '',;()[]{}'')) w) w"
proof -
  let ?p = "byte_in (quote_marks @ '',;()[]{}'')"
  have ascii: "chars w = map (\<lambda>c. [c]) w"
    by (rule chars_ascii) (use assms plain_byte_bounds in \<open>fastforce simp: word_without_def list_all_iff\<close>)
  have "\<not> ?p [hd w]" using assms by (auto simp: word_without_def byte_in_def quote_marks_def ascii_defs)
  then have "dropWhile ?p (chars w) = chars w"
    unfolding ascii using assms by (cases w) (simp_all add: word_without_def)
  then have start: "trim_start_matches ?p w = w" by (simp add: trim_start_matches_def)
  have "chars w = rev (dropWhile ?p (rev (chars w))) @ rev (takeWhile ?p (rev (chars w)))"
    by (metis rev_append rev_rev_ident takeWhile_dropWhile_id)
  then have "w = concat (rev (dropWhile ?p (rev (chars w)))) @ concat (rev (takeWhile ?p (rev (chars w))))"
    by (metis concat_append concat_chars)
  then show ?thesis unfolding trim_matches_def start trim_end_matches_def by (metis prefixI)
qed

lemma word_not_secret:
  assumes "word_without ps w"
  shows "\<not> secret_word C w"
proof -
  define v where "v = trim_matches (byte_in (quote_marks @ '',;()[]{}'')) w"
  have pre: "prefix v w" unfolding v_def by (rule trim_word [OF assms])
  then have sub: "set v \<subseteq> set w" by (rule set_mono_prefix)
  have bytes: "plain_byte c" if "c \<in> set v" for c using assms sub that by (auto simp: word_without_def list_all_iff)
  have "\<not> is_compact_jwt C v" using bytes plain_no_J by (intro no_J_no_jwt) blast
  moreover have "split_once (CHR ''='') (dropWhile (\<lambda>c. c = CHR ''-'') v) = None"
    using bytes plain_byte_bounds by (auto simp: split_once_None_iff dest!: set_dropWhileD)
  moreover have "\<not> starts_with ''-'' v"
    using pre assms by (cases v; cases w) (auto simp: word_without_def ascii_defs)
  ultimately show ?thesis by (simp add: secret_word_def Let_def v_def [symmetric])
qed

lemma no_dash_pair_upper:
  assumes "mild_sentence ws"
  shows "\<not> contains (''--'' @ r) (to_ascii_uppercase (sentence ws))"
proof
  assume "contains (''--'' @ r) (to_ascii_uppercase (sentence ws))"
  then have "sublist ''--'' (to_ascii_uppercase (sentence ws))"
    unfolding contains_sublist by (meson prefixI prefix_imp_sublist sublist_order.order.trans)
  then obtain x where x: "sublist x (sentence ws)" "map upper_byte x = ''--''"
    by (metis sublist_map_rightE to_ascii_uppercase_def)
  have "c = CHR ''-''" if "upper_byte c = CHR ''-''" for c
    using that by (auto simp: upper_byte_def ascii_defs split: if_splits dest!: arg_cong [where f = byte])
  with x(2) have "x = ''--''" by (auto simp: map_eq_Cons_conv)
  with x(1) sentence_no_pattern [OF assms, of "''--''"] label_patterns_subset show False
    by (simp add: contains_sublist label_patterns_def)
qed

lemma label_is_risky:
  "l \<in> set credential_labels \<Longrightarrow> list_ex (\<lambda>p. contains p l) label_patterns"
  "l \<in> set credential_prefixes \<Longrightarrow> list_ex (\<lambda>p. contains p l) label_patterns"
proof -
  have "list_all (\<lambda>l. list_ex (\<lambda>p. contains p l) label_patterns) (credential_labels @ credential_prefixes)"
    by code_simp
  then show "l \<in> set credential_labels \<Longrightarrow> list_ex (\<lambda>p. contains p l) label_patterns"
    "l \<in> set credential_prefixes \<Longrightarrow> list_ex (\<lambda>p. contains p l) label_patterns"
    unfolding list_all_iff set_append by blast+
qed

lemma pattern_absent:
  assumes "mild_sentence ws" "list_ex (\<lambda>p. contains p l) label_patterns"
  shows "to_ascii_lowercase (sentence ws) \<noteq> a @ l @ b"
proof
  assume eq: "to_ascii_lowercase (sentence ws) = a @ l @ b"
  then have "sublist l (sentence ws)"
    using sentence_lower [OF assms(1), of "sentence ws"] by (auto simp: sublist_def)
  then show False by (rule no_pattern_sublist [OF assms(1) _ assms(2) label_patterns_subset])
qed

lemma sentence_not_secret:
  assumes "mild_sentence ws"
  shows "\<not> contains_secret_shaped_text C (sentence ws)"
proof -
  have no_J: "CHR ''J'' \<notin> set (sentence ws)"
    using sentence_bytes [OF assms] by (auto dest: plain_no_J)
  have "\<not> contains marker (to_ascii_uppercase (sentence ws))" if "marker \<in> set private_key_markers" for marker
    using that no_dash_pair_upper [OF assms] by (auto simp: private_key_markers_def)
  then have "\<not> mentions_private_key (sentence ws)"
    by (auto simp: mentions_private_key_def contains_sublist sublist_def)
  moreover have "\<not> contains_labeled_credential (sentence ws)"
    unfolding labeled_credential_iff mentions_labeled_value_def
    using pattern_absent [OF assms label_is_risky(1)] by blast
  moreover have "\<not> contains_credential_prefix (sentence ws)"
    unfolding credential_prefix_iff mentions_prefixed_token_def
    using pattern_absent [OF assms label_is_risky(2)] by blast
  moreover have "\<not> is_compact_jwt C (trim (sentence ws))"
    unfolding trim_def by (rule no_J_no_jwt) (use no_J trim_matches_set in blast)
  moreover have "\<not> list_ex (secret_word C) (split_whitespace (sentence ws))"
    using assms word_not_secret [of label_patterns]
    by (auto simp: split_sentence list_ex_iff sentence_without_def list_all_iff)
  ultimately show ?thesis
    unfolding contains_secret_shaped_text_def
    by (metis private_key_guard_iff)
qed

section \<open>The guard of the probes\<close>

lemma short_prefix_iff:
  "contains_short_credential_prefix v \<longleftrightarrow>
     (\<exists>p a s. p \<in> set credential_prefixes \<and> to_ascii_lowercase v = a @ p @ s
        \<and> boundary_at (\<lambda>c. \<not> is_ascii_alphanumeric c) (rev a) \<and> length (take 4 (takeWhile token_byte s)) = 4)"
proof -
  have "list_ex (\<lambda>(before, after). boundary_at (\<lambda>c. \<not> is_ascii_alphanumeric c) before
          \<and> length (take 4 (takeWhile token_byte after)) = 4) (match_contexts p [] (to_ascii_lowercase v))
      \<longleftrightarrow> (\<exists>a s. to_ascii_lowercase v = a @ p @ s \<and> boundary_at (\<lambda>c. \<not> is_ascii_alphanumeric c) (rev a)
             \<and> length (take 4 (takeWhile token_byte s)) = 4)" if "p \<in> set credential_prefixes" for p
    by (rule list_ex_match_contexts [OF borderless_prefixes [OF that]])
  then show ?thesis
    unfolding contains_short_credential_prefix_def Let_def list_ex_iff by blast
qed

lemma embedded_jwt_iff:
  "contains_embedded_compact_jwt C v \<longleftrightarrow>
     (\<exists>a b. v = a @ ''eyJ'' @ b \<and> is_embedded_jwt C (takeWhile probe_jwt_char (''eyJ'' @ b)))"
proof -
  have "borderless ''eyJ''" by code_simp
  then show ?thesis
    unfolding contains_embedded_compact_jwt_def by (rule list_ex_match_contexts)
qed

lemma lex_word_sublist: "LexWord x \<in> set (lex_chars w gs) \<Longrightarrow> sublist x (w @ concat gs)"
proof (induction w gs rule: lex_chars.induct)
  case (1 w)
  then show ?case by (auto simp: end_word_def split: if_splits)
next
  case (2 w g gs)
  have "other_token g \<noteq> LexWord x" by (auto simp: other_token_def)
  with 2 consider "is_word_char g" "LexWord x \<in> set (lex_chars (w @ g) gs)"
    | "\<not> is_word_char g" "x = w" | "\<not> is_word_char g" "LexWord x \<in> set (lex_chars [] gs)"
    by (auto simp: end_word_def split: if_splits)
  then show ?case
  proof cases
    case 3
    with 2 have "sublist x (concat gs)" by simp
    then show ?thesis by (simp add: sublist_append)
  qed (use 2 in auto)
qed

lemma longer_match_None: "longer_match a b = None \<longleftrightarrow> a = None \<and> b = None"
  by (auto simp: longer_match_def split: option.splits)

lemma marker_head:
  assumes "credential_marker_end tokens \<noteq> None"
  shows "\<exists>word ts. tokens = LexWord word # ts \<and>
    to_ascii_lowercase word \<in> set (single_credential_markers @ map hd credential_marker_families)"
proof -
  obtain word ts where t: "tokens = LexWord word # ts"
    using assms by (auto simp: credential_marker_end_def split: list.splits lex_token.splits)
  have head: "marker_family_end (LexWord word # ts) family = None" if "family \<noteq> []" "to_ascii_lowercase word \<noteq> hd family" for family
    using that by (cases family) auto
  have fold: "foldl (\<lambda>longest family. longer_match longest (marker_family_end (LexWord word # ts) family)) acc families = None"
    if "acc = None" "\<forall>family \<in> set families. family \<noteq> [] \<and> to_ascii_lowercase word \<noteq> hd family" for acc families
    using that by (induction families arbitrary: acc) (auto simp: head longer_match_def)
  have "\<forall>family \<in> set credential_marker_families. family \<noteq> []"
    by (simp add: credential_marker_families_def)
  then have "to_ascii_lowercase word \<in> set single_credential_markers
      \<or> to_ascii_lowercase word \<in> hd ` set credential_marker_families"
    using assms fold [OF refl, of credential_marker_families]
    unfolding t credential_marker_end_def by (auto split: if_splits) blast
  with t show ?thesis by simp
qed

lemma position_member: "ts \<in> set (positions xs) \<Longrightarrow> set ts \<subseteq> set xs"
  by (induction xs) auto

lemma markers_risky:
  "m \<in> set (single_credential_markers @ map hd credential_marker_families) \<Longrightarrow> list_ex (\<lambda>p. contains p m) risky_patterns"
proof -
  have "list_all (\<lambda>m. list_ex (\<lambda>p. contains p m) risky_patterns) (single_credential_markers @ map hd credential_marker_families)"
    by code_simp
  then show "m \<in> set (single_credential_markers @ map hd credential_marker_families) \<Longrightarrow> list_ex (\<lambda>p. contains p m) risky_patterns"
    unfolding list_all_iff by blast
qed

lemma sentence_no_marker:
  assumes "plain_sentence ws"
  shows "\<not> contains_sensitive_marker_value (sentence ws)"
proof
  assume "contains_sensitive_marker_value (sentence ws)"
  then obtain tokens where p: "tokens \<in> set (positions (lexical_tokens (sentence ws)))"
      and m: "credential_marker_end tokens \<noteq> None"
    by (auto simp: contains_sensitive_marker_value_def list_ex_iff is_some_and_def bind_eq_Some_conv split: option.splits)
  from marker_head [OF m] obtain word ts where t: "tokens = LexWord word # ts"
      and l: "to_ascii_lowercase word \<in> set (single_credential_markers @ map hd credential_marker_families)" by blast
  have "sublist word (sentence ws)"
    using position_member [OF p] t lex_word_sublist [of word "[]" "chars (sentence ws)"]
    by (simp add: lexical_tokens_def)
  moreover from this have "to_ascii_lowercase word = word" by (rule sentence_lower [OF assms])
  ultimately show False using no_pattern_sublist [OF assms] markers_risky [OF l] by simp
qed

lemma sentence_safe:
  assumes "plain_sentence ws"
  shows "is_safe_text C (sentence ws)"
proof -
  have control: "\<not> any_control (sentence ws)"
    using sentence_range [OF assms] by (intro printable_no_control) blast
  have "\<not> contains ''-----begin'' (to_ascii_lowercase (sentence ws))"
  proof
    assume "contains ''-----begin'' (to_ascii_lowercase (sentence ws))"
    then have "sublist ''-----begin'' (sentence ws)"
      using sentence_lower [OF assms, of "sentence ws"] by (simp add: contains_sublist)
    moreover have "list_ex (\<lambda>p. contains p ''-----begin'') risky_patterns" by code_simp
    ultimately show False using no_pattern_sublist [OF assms] by blast
  qed
  moreover have "\<not> contains_embedded_compact_jwt C (sentence ws)"
  proof
    assume "contains_embedded_compact_jwt C (sentence ws)"
    then have "CHR ''J'' \<in> set (sentence ws)" by (auto simp: embedded_jwt_iff)
    then show False using sentence_bytes [OF assms] plain_no_J by auto
  qed
  moreover have "\<not> contains_short_credential_prefix (sentence ws)"
    unfolding short_prefix_iff using pattern_absent [OF plain_mild [OF assms] label_is_risky(2)] by blast
  ultimately show ?thesis
    using control sentence_ne [OF assms] sentence_no_marker [OF assms]
    by (simp add: is_safe_text_def looks_secret_shaped_def)
qed

lemmas sentence_accepted = sentence_ne sentence_safe sentence_not_secret [OF plain_mild]

lemma sentence_no_control: "sentence_without ps ws \<Longrightarrow> \<not> any_control (sentence ws)"
  using sentence_range [of ps ws] by (intro printable_no_control) blast

end
