(* ===== verification/Probes.thy ===== *)
theory Probes
  imports ProbeText ManifestTypes
begin

text \<open>
  The worker probes (\<open>src/setup/probe_values.rs\<close>, \<open>src/setup/probe/mod.rs\<close>,
  \<open>src/setup/probe/baseline.rs\<close>, \<open>src/setup/probe_wire.rs\<close>): identifiers and descriptors,
  the catalog, what a probe reports, how a report is cleaned before it is shown, and the
  findings of \<open>machine doctor\<close>. The snapshots the operating system gives are a parameter
  (\<open>baseline_api\<close>); the reading of \<open>tailscale status\<close> is modelled down to its JSON.
\<close>

section \<open>Identifiers and descriptors\<close>

definition valid_probe_id_segment :: "string \<Rightarrow> bool" where
  "valid_probe_id_segment segment \<longleftrightarrow>
     segment \<noteq> [] \<and> is_ascii_lowercase (hd segment)
     \<and> (is_ascii_lowercase (last segment) \<or> is_ascii_digit (last segment))
     \<and> list_all (\<lambda>c. is_ascii_lowercase c \<or> is_ascii_digit c \<or> c = CHR ''-'') segment"

definition valid_probe_id :: "string \<Rightarrow> bool" where
  "valid_probe_id value \<longleftrightarrow>
     2 \<le> length (split_on (CHR ''.'') value) \<and> list_all valid_probe_id_segment (split_on (CHR ''.'') value)"

definition parse_probe_id :: "string \<Rightarrow> string option" where
  "parse_probe_id value = (if valid_probe_id value then Some value else None)"

datatype finding_severity = InfoSeverity | WarningSeverity | ErrorSeverity

datatype styrn_command = MachineInit

primrec command_args :: "styrn_command \<Rightarrow> string list" where
  "command_args MachineInit = [''machine'', ''init'']"

record remediation_spec =
  rs_summary :: string
  rs_command :: "styrn_command option"

definition new_remediation_spec :: "crates \<Rightarrow> string \<Rightarrow> styrn_command option \<Rightarrow> remediation_spec option" where
  "new_remediation_spec C summary command =
     (if validate_static_text C summary then Some \<lparr>rs_summary = summary, rs_command = command\<rparr> else None)"

record probe_descriptor_spec =
  ds_id :: string
  ds_label :: string
  ds_severity :: finding_severity
  ds_remediation :: "remediation_spec option"

definition new_probe_descriptor_spec ::
    "crates \<Rightarrow> string \<Rightarrow> string \<Rightarrow> finding_severity \<Rightarrow> remediation_spec option \<Rightarrow> probe_descriptor_spec option" where
  "new_probe_descriptor_spec C i label severity remediation =
     (if validate_static_text C label
      then Some \<lparr>ds_id = i, ds_label = label, ds_severity = severity, ds_remediation = remediation\<rparr>
      else None)"

definition is_valid_descriptor :: "crates \<Rightarrow> probe_descriptor_spec \<Rightarrow> bool" where
  "is_valid_descriptor C d \<longleftrightarrow>
     valid_probe_id (ds_id d) \<and> validate_static_text C (ds_label d)
     \<and> is_none_or (\<lambda>r. validate_static_text C (rs_summary r)) (ds_remediation d)"

section \<open>Statuses and failures\<close>

datatype observed_tailscale_mode = ObservedGui | ObservedTailscaled | ObservedService

record observed_tailscale_posture =
  op_mode :: observed_tailscale_mode
  op_persistent :: bool
  op_unattended :: bool

datatype probe_status =
    ProbeAbsent
  | ProbePresent "string option" bool
  | ProbeTailscale "string option" bool observed_tailscale_posture
  | ProbeBroken string
  | ProbeUnknowable string

datatype probe_failure_kind =
  PermissionDenied | Unreadable | MalformedOutput | MissingPrerequisite | ObservationFailed

record probe_failure =
  pf_kind :: probe_failure_kind
  pf_detail :: string

definition failure_reason :: "probe_failure \<Rightarrow> string" where
  "failure_reason f =
     (case pf_kind f of
        PermissionDenied \<Rightarrow> ''permission denied''
      | Unreadable \<Rightarrow> ''state unreadable''
      | MalformedOutput \<Rightarrow> ''output was malformed or unsupported''
      | MissingPrerequisite \<Rightarrow> ''required prerequisite was unavailable''
      | ObservationFailed \<Rightarrow> ''probe observation failed'')"

record worker_probe =
  wp_descriptor :: probe_descriptor_spec
  wp_observe :: "probe_failure + probe_status"

datatype probe_catalog_error = InvalidDescriptor | DuplicateId string

fun catalog_scan :: "crates \<Rightarrow> string set \<Rightarrow> worker_probe list \<Rightarrow> probe_catalog_error + unit" where
  "catalog_scan C ids [] = Inr ()"
| "catalog_scan C ids (p # ps) =
     (if \<not> is_valid_descriptor C (wp_descriptor p) then Inl InvalidDescriptor
      else if ds_id (wp_descriptor p) \<in> ids then Inl (DuplicateId (ds_id (wp_descriptor p)))
      else catalog_scan C (insert (ds_id (wp_descriptor p)) ids) ps)"

definition new_probe_catalog :: "crates \<Rightarrow> worker_probe list \<Rightarrow> probe_catalog_error + worker_probe list" where
  "new_probe_catalog C probes = and_then (catalog_scan C {} probes) (\<lambda>_. Inr probes)"

section \<open>Observations\<close>

record remediation =
  rm_summary :: string
  rm_command :: "styrn_command option"

record probe_descriptor =
  pd_id :: string
  pd_label :: string
  pd_severity :: finding_severity
  pd_remediation :: "remediation option"

definition remediation_from_spec :: "crates \<Rightarrow> remediation_spec \<Rightarrow> remediation" where
  "remediation_from_spec C spec =
     \<lparr>rm_summary = safe_static_text C (rs_summary spec) ''remediation unavailable'', rm_command = rs_command spec\<rparr>"

definition descriptor_from_spec :: "crates \<Rightarrow> probe_descriptor_spec \<Rightarrow> probe_descriptor" where
  "descriptor_from_spec C spec =
     \<lparr>pd_id = ds_id spec, pd_label = safe_static_text C (ds_label spec) ''worker probe'',
      pd_severity = ds_severity spec, pd_remediation = map_option (remediation_from_spec C) (ds_remediation spec)\<rparr>"

definition canonical_reason :: "string \<Rightarrow> string" where
  "canonical_reason reason =
     (let normalized = to_ascii_lowercase reason
      in if contains ''permission'' normalized \<or> contains ''eacces'' normalized then ''permission denied''
         else if contains ''unreadable'' normalized then ''state unreadable''
         else if contains ''malformed'' normalized \<or> contains ''unsupported'' normalized
         then ''output was malformed or unsupported''
         else if contains ''prerequisite'' normalized then ''required prerequisite was unavailable''
         else if contains ''inconsistent'' normalized \<or> contains ''corrupt'' normalized
         then ''internally inconsistent state''
         else ''probe observation failed'')"

primrec sanitize_status :: "crates \<Rightarrow> probe_status \<Rightarrow> probe_status" where
  "sanitize_status C ProbeAbsent = ProbeAbsent"
| "sanitize_status C (ProbePresent version healthy) =
     ProbePresent (filter_opt (is_safe_version C) version) healthy"
| "sanitize_status C (ProbeTailscale version healthy posture) =
     ProbeTailscale (filter_opt (is_safe_version C) version) healthy posture"
| "sanitize_status C (ProbeBroken reason) = ProbeBroken (canonical_reason reason)"
| "sanitize_status C (ProbeUnknowable reason) = ProbeUnknowable (canonical_reason reason)"

record probe_observation =
  ob_descriptor :: probe_descriptor
  ob_status :: probe_status

definition new_probe_observation :: "crates \<Rightarrow> probe_descriptor \<Rightarrow> probe_status \<Rightarrow> probe_observation" where
  "new_probe_observation C d status = \<lparr>ob_descriptor = d, ob_status = sanitize_status C status\<rparr>"

definition observe :: "crates \<Rightarrow> worker_probe list \<Rightarrow> probe_observation list" where
  "observe C probes =
     map (\<lambda>p. new_probe_observation C (descriptor_from_spec C (wp_descriptor p))
                (case wp_observe p of
                   Inr status \<Rightarrow> status
                 | Inl failure \<Rightarrow> ProbeUnknowable (failure_reason failure))) probes"

definition observed_get :: "probe_observation list \<Rightarrow> string \<Rightarrow> probe_observation option" where
  "observed_get observations i = find_first (\<lambda>ob. pd_id (ob_descriptor ob) = i) observations"

section \<open>Serialised observations\<close>

primrec severity_text :: "finding_severity \<Rightarrow> string" where
  "severity_text InfoSeverity = ''info''"
| "severity_text WarningSeverity = ''warning''"
| "severity_text ErrorSeverity = ''error''"

definition remediation_json :: "crates \<Rightarrow> remediation \<Rightarrow> json" where
  "remediation_json C r =
     JObject ([(''summary'', JString (safe_static_text C (rm_summary r) ''remediation unavailable''))] @
              (case rm_command r of
                 None \<Rightarrow> []
               | Some command \<Rightarrow> [(''styrn_args'', JArray (map JString (command_args command)))]))"

definition remediation_field :: "crates \<Rightarrow> remediation option \<Rightarrow> fields" where
  "remediation_field C r = (case r of None \<Rightarrow> [] | Some r \<Rightarrow> [(''remediation'', remediation_json C r)])"

definition probe_descriptor_json :: "crates \<Rightarrow> probe_descriptor \<Rightarrow> json" where
  "probe_descriptor_json C d =
     JObject ([(''id'', JString (pd_id d)),
               (''label'', JString (safe_static_text C (pd_label d) ''worker probe'')),
               (''failure_severity'', JString (severity_text (pd_severity d)))] @
              remediation_field C (pd_remediation d))"

definition version_json :: "string option \<Rightarrow> json" where
  "version_json version = (case version of None \<Rightarrow> JNull | Some v \<Rightarrow> JString v)"

primrec serialized_probe_status :: "probe_status \<Rightarrow> json" where
  "serialized_probe_status ProbeAbsent = JObject [(''status'', JString ''absent'')]"
| "serialized_probe_status (ProbePresent version healthy) =
     JObject [(''status'', JString ''present''), (''version'', version_json version), (''healthy'', JBool healthy)]"
| "serialized_probe_status (ProbeTailscale version healthy _) =
     JObject [(''status'', JString ''present''), (''version'', version_json version), (''healthy'', JBool healthy)]"
| "serialized_probe_status (ProbeBroken reason) =
     JObject [(''status'', JString ''broken''), (''reason'', JString reason)]"
| "serialized_probe_status (ProbeUnknowable reason) =
     JObject [(''status'', JString ''unknowable''), (''reason'', JString reason)]"

definition probe_observation_json :: "crates \<Rightarrow> probe_observation \<Rightarrow> json" where
  "probe_observation_json C ob =
     JObject [(''descriptor'', probe_descriptor_json C (ob_descriptor ob)),
              (''status'', serialized_probe_status (sanitize_status C (ob_status ob)))]"

section \<open>Findings\<close>

datatype finding_state = PassState | FailState | UnknownState

primrec state_text :: "finding_state \<Rightarrow> string" where
  "state_text PassState = ''pass''"
| "state_text FailState = ''fail''"
| "state_text UnknownState = ''unknown''"

record doctor_finding =
  df_id :: string
  df_state :: finding_state
  df_severity :: finding_severity
  df_message :: string
  df_remediation :: "remediation option"

primrec finding_detail :: "probe_status \<Rightarrow> finding_state \<times> string" where
  "finding_detail ProbeAbsent = (FailState, ''subject is absent'')"
| "finding_detail (ProbePresent _ healthy) =
     (if healthy then (PassState, ''healthy'') else (FailState, ''present but unhealthy''))"
| "finding_detail (ProbeTailscale _ healthy _) =
     (if healthy then (PassState, ''healthy'') else (FailState, ''present but unhealthy''))"
| "finding_detail (ProbeBroken reason) = (FailState, reason)"
| "finding_detail (ProbeUnknowable reason) = (UnknownState, reason)"

definition finding_from_observation :: "crates \<Rightarrow> probe_observation \<Rightarrow> doctor_finding" where
  "finding_from_observation C ob =
     (let (state, detail) = finding_detail (ob_status ob); d = ob_descriptor ob
      in \<lparr>df_id = pd_id d, df_state = state, df_severity = pd_severity d,
          df_message = safe_static_text C (pd_label d) ''worker probe'' @ '': '' @ detail,
          df_remediation = pd_remediation d\<rparr>)"

definition doctor_findings :: "crates \<Rightarrow> probe_observation list \<Rightarrow> doctor_finding list" where
  "doctor_findings C observations = map (finding_from_observation C) observations"

definition doctor_finding_json :: "crates \<Rightarrow> doctor_finding \<Rightarrow> json" where
  "doctor_finding_json C f =
     JObject ([(''id'', JString (df_id f)), (''state'', JString (state_text (df_state f))),
               (''severity'', JString (severity_text (df_severity f))),
               (''message'', JString (safe_static_text C (df_message f) ''worker probe finding''))] @
              remediation_field C (df_remediation f))"

end
