(* ===== verification/Baseline.thy ===== *)
theory Baseline
  imports PlainText Probes Frame
begin

text \<open>
  The closed baseline probes (\<open>src/setup/probe/baseline.rs\<close> and the snapshots of
  \<open>src/platform/mod.rs\<close>): which components a worker is checked for, their fixed identifiers
  and labels, and the translation of a native snapshot to a probe status. The last section
  shows what the doctor of a worker can report.
\<close>

section \<open>Native snapshots\<close>

datatype baseline_probe_kind =
  SshServerKind | TailscaleKind | GitKind | SleepPolicyKind | StyrndKind | DeferredKind

datatype baseline_tailscale_mode = BaselineGui | BaselineTailscaled | BaselineService

record baseline_tailscale_posture =
  bp_mode :: baseline_tailscale_mode
  bp_persistent :: bool
  bp_unattended :: bool

datatype baseline_probe_snapshot =
    SnapshotAbsent
  | SnapshotPresent "string option" bool
  | SnapshotTailscale "string option" bool baseline_tailscale_posture
  | SnapshotBroken
  | SnapshotUnknowable

text \<open>\<open>serde_json::Value::get\<close> on a parsed text: the last field of a name counts.\<close>

definition value_get :: "string \<Rightarrow> json \<Rightarrow> json option" where
  "value_get k v = (case v of JObject kvs \<Rightarrow> field k (object_of kvs) | _ \<Rightarrow> None)"

definition version_byte :: "char \<Rightarrow> bool" where
  "version_byte c \<longleftrightarrow> is_ascii_alphanumeric c \<or> c \<in> {CHR ''.'', CHR ''-'', CHR ''+''}"

definition requested_tailscale_mode :: "string \<Rightarrow> baseline_tailscale_mode \<Rightarrow> baseline_tailscale_mode option" where
  "requested_tailscale_mode requested default_mode =
     (if requested = '''' then Some default_mode
      else if requested = ''gui'' then Some BaselineGui
      else if requested = ''tailscaled'' then Some BaselineTailscaled
      else if requested = ''service'' then Some BaselineService
      else None)"

definition tailscale_status_snapshot ::
    "crates \<Rightarrow> string \<Rightarrow> baseline_tailscale_mode \<Rightarrow> bool \<Rightarrow> bool \<Rightarrow> string \<Rightarrow> baseline_tailscale_mode
       \<Rightarrow> baseline_probe_snapshot option" where
  "tailscale_status_snapshot C bytes mode persistent unattended requested default_mode =
     Option.bind (json_parse C bytes) (\<lambda>status.
     Option.bind (Option.bind (value_get ''BackendState'' status) as_str) (\<lambda>backend.
     Option.bind (if backend \<noteq> ''Running'' then Some False
                  else Option.bind (Option.bind (value_get ''Self'' status) (value_get ''Online'')) as_bool) (\<lambda>backend_healthy.
     Option.bind (requested_tailscale_mode requested default_mode) (\<lambda>wanted.
       Some (SnapshotTailscale
         (filter_opt (\<lambda>v. v \<noteq> [] \<and> length v \<le> 96 \<and> list_all version_byte v)
            (Option.bind (value_get ''Version'' status) as_str))
         (backend_healthy \<and> persistent \<and> (mode \<noteq> BaselineService \<or> unattended) \<and> wanted = mode)
         \<lparr>bp_mode = mode, bp_persistent = persistent, bp_unattended = unattended\<rparr>)))))"

record baseline_api =
  native_snapshot :: "baseline_probe_kind \<Rightarrow> string list \<Rightarrow> string \<Rightarrow> baseline_probe_snapshot"
  native_ssh_transport :: baseline_probe_snapshot

definition snapshot_of :: "baseline_api \<Rightarrow> baseline_probe_kind \<Rightarrow> string list \<Rightarrow> string \<Rightarrow> baseline_probe_snapshot" where
  "snapshot_of api kind public_keys mode =
     (case kind of
        StyrndKind \<Rightarrow> SnapshotAbsent
      | DeferredKind \<Rightarrow> SnapshotUnknowable
      | _ \<Rightarrow> native_snapshot api kind public_keys mode)"

definition rootless_snapshot_of ::
    "baseline_api \<Rightarrow> baseline_probe_kind \<Rightarrow> string list \<Rightarrow> string \<Rightarrow> baseline_probe_snapshot" where
  "rootless_snapshot_of api kind public_keys mode =
     (if kind = SshServerKind \<and> public_keys \<noteq> [] then native_ssh_transport api
      else snapshot_of api kind public_keys mode)"

section \<open>The probe of one component\<close>

record baseline_probe =
  bl_descriptor :: probe_descriptor_spec
  bl_kind :: baseline_probe_kind
  bl_public_keys :: "string list"
  bl_tailscale_mode :: string
  bl_rootless_setup :: bool

primrec observed_mode :: "baseline_tailscale_mode \<Rightarrow> observed_tailscale_mode" where
  "observed_mode BaselineGui = ObservedGui"
| "observed_mode BaselineTailscaled = ObservedTailscaled"
| "observed_mode BaselineService = ObservedService"

primrec baseline_status :: "baseline_probe_snapshot \<Rightarrow> probe_status" where
  "baseline_status SnapshotAbsent = ProbeAbsent"
| "baseline_status (SnapshotPresent version healthy) = ProbePresent version healthy"
| "baseline_status (SnapshotTailscale version healthy posture) =
     ProbeTailscale version healthy
       \<lparr>op_mode = observed_mode (bp_mode posture), op_persistent = bp_persistent posture,
        op_unattended = bp_unattended posture\<rparr>"
| "baseline_status SnapshotBroken = ProbeBroken ''baseline capability state is broken''"
| "baseline_status SnapshotUnknowable = ProbeUnknowable ''baseline readiness could not be proven''"

definition baseline_observe :: "baseline_api \<Rightarrow> baseline_probe \<Rightarrow> probe_failure + probe_status" where
  "baseline_observe api p =
     Inr (baseline_status
       ((if bl_rootless_setup p then rootless_snapshot_of else snapshot_of) api (bl_kind p) (bl_public_keys p)
          (bl_tailscale_mode p)))"

definition as_worker_probe :: "baseline_api \<Rightarrow> baseline_probe \<Rightarrow> worker_probe" where
  "as_worker_probe api p = \<lparr>wp_descriptor = bl_descriptor p, wp_observe = baseline_observe api p\<rparr>"

text \<open>A component name that is not one of the twelve is a panic of the source, here \<open>None\<close>.\<close>

definition probe_id :: "string \<Rightarrow> string option" where
  "probe_id component =
     Option.bind (map_of
       [(''ssh-server'', ''service.sshd''), (''tailscale'', ''network.tailscale''), (''git'', ''tool.git''),
        (''rust'', ''tool.rust''), (''sccache'', ''tool.sccache''), (''herdr'', ''tool.herdr''),
        (''codex'', ''tool.codex''), (''claude'', ''tool.claude''), (''styrnd'', ''service.styrnd''),
        (''sleep-policy'', ''policy.sleep''), (''rdp'', ''service.rdp''), (''cockpit'', ''service.cockpit'')]
       component) parse_probe_id"

definition deferred_components :: "string list" where
  "deferred_components = [''rust'', ''sccache'', ''herdr'', ''codex'', ''claude'', ''rdp'', ''cockpit'']"

definition probe_kind :: "string \<Rightarrow> baseline_probe_kind option" where
  "probe_kind component =
     (if component = ''ssh-server'' then Some SshServerKind
      else if component = ''tailscale'' then Some TailscaleKind
      else if component = ''git'' then Some GitKind
      else if component = ''styrnd'' then Some StyrndKind
      else if component = ''sleep-policy'' then Some SleepPolicyKind
      else if component \<in> set deferred_components then Some DeferredKind
      else None)"

definition component_descriptor :: "crates \<Rightarrow> string \<Rightarrow> probe_descriptor_spec option" where
  "component_descriptor C component =
     Option.bind (probe_id component) (\<lambda>i.
       new_probe_descriptor_spec C i (component @ '' baseline readiness'') WarningSeverity None)"

definition component_probe ::
    "crates \<Rightarrow> string list \<Rightarrow> string \<Rightarrow> bool \<Rightarrow> string \<Rightarrow> baseline_probe option" where
  "component_probe C public_keys mode rootless component =
     Option.bind (component_descriptor C component) (\<lambda>d.
     Option.bind (probe_kind component) (\<lambda>kind.
       Some \<lparr>bl_descriptor = d, bl_kind = kind, bl_public_keys = public_keys, bl_tailscale_mode = mode,
             bl_rootless_setup = rootless\<rparr>))"

section \<open>The catalog of a worker\<close>

definition installed_in :: "string \<Rightarrow> (string \<times> 'a) list option \<Rightarrow> ('a \<Rightarrow> bool option) \<Rightarrow> bool" where
  "installed_in name items installed \<longleftrightarrow>
     Option.bind (Option.bind items (\<lambda>items. map_of items name)) installed = Some True"

definition doctor_components :: "machine_manifest \<Rightarrow> string list" where
  "doctor_components m =
     [''ssh-server'', ''git''] @
     (if tailscale m \<noteq> None then [''tailscale''] else []) @
     (if Option.bind (worker m) wo_accept_jobs = Some True then [''sleep-policy''] else []) @
     map snd (filter fst
       [(installed_in ''rust'' (toolchains m) to_installed, ''rust''),
        (installed_in ''sccache'' (caches m) ca_installed, ''sccache''),
        (Option.bind (herdr m) he_installed = Some True, ''herdr''),
        (installed_in ''codex'' (agents m) ag_installed, ''codex''),
        (installed_in ''claude'' (agents m) ag_installed, ''claude'')])"

definition doctor_tailscale_mode :: "machine_manifest \<Rightarrow> string" where
  "doctor_tailscale_mode m =
     (case Option.bind (tailscale m) ts_mode of
        None \<Rightarrow> ''service''
      | Some ServiceMode \<Rightarrow> ''service''
      | Some GuiMode \<Rightarrow> ''gui''
      | Some TailscaledMode \<Rightarrow> ''tailscaled'')"

text \<open>The outer \<open>None\<close> is the panic of a descriptor that cannot be built.\<close>

definition production_worker_doctor_catalog ::
    "crates \<Rightarrow> baseline_api \<Rightarrow> machine_manifest \<Rightarrow> string \<Rightarrow> (probe_catalog_error + worker_probe list) option" where
  "production_worker_doctor_catalog C api m public_key =
     map_option (\<lambda>probes. new_probe_catalog C (map (as_worker_probe api) probes))
       (those (map (component_probe C [public_key] (doctor_tailscale_mode m) False) (doctor_components m)))"

definition worker_doctor_findings ::
    "crates \<Rightarrow> baseline_api \<Rightarrow> machine_manifest \<Rightarrow> string \<Rightarrow> (probe_catalog_error + doctor_finding list) option" where
  "worker_doctor_findings C api m public_key =
     map_option (\<lambda>catalog. and_then catalog (\<lambda>probes. Inr (doctor_findings C (observe C probes))))
       (production_worker_doctor_catalog C api m public_key)"

section \<open>What the doctor of a worker reports\<close>

definition component_names :: "string list" where
  "component_names =
     [''ssh-server'', ''git'', ''tailscale'', ''sleep-policy'', ''rust'', ''sccache'', ''herdr'', ''codex'',
      ''claude'', ''styrnd'', ''rdp'', ''cockpit'']"

definition detail_words :: "string list list" where
  "detail_words =
     [[''subject'', ''is'', ''absent''], [''healthy''], [''present'', ''but'', ''unhealthy''], [''permission'', ''denied''],
      [''state'', ''unreadable''], [''output'', ''was'', ''malformed'', ''or'', ''unsupported''],
      [''required'', ''prerequisite'', ''was'', ''unavailable''], [''internally'', ''inconsistent'', ''state''],
      [''probe'', ''observation'', ''failed'']]"

lemma component_plain: "c \<in> set component_names \<Longrightarrow> plain_word c"
proof -
  have "list_all plain_word component_names" by code_simp
  then show "c \<in> set component_names \<Longrightarrow> plain_word c" by (simp add: list_all_iff)
qed

lemma details_plain: "ws \<in> set detail_words \<Longrightarrow> plain_sentence ws"
proof -
  have "list_all plain_word (remdups (concat detail_words))" "list_all (\<lambda>ws. ws \<noteq> []) detail_words" by code_simp+
  then have "\<forall>ws \<in> set detail_words. ws \<noteq> [] \<and> (\<forall>w \<in> set ws. plain_word w)"
    by (simp only: list_all_iff set_remdups set_concat) blast
  then show "ws \<in> set detail_words \<Longrightarrow> plain_sentence ws" by (simp add: sentence_without_def list_all_iff)
qed

lemma label_plain: "plain_word ''baseline''" "plain_word ''readiness''" "plain_word ''readiness:''"
  by code_simp+

definition component_id :: "string \<Rightarrow> string" where
  "component_id c = (case probe_id c of None \<Rightarrow> [] | Some i \<Rightarrow> i)"

lemma component_ids:
  "c \<in> set component_names \<Longrightarrow> probe_id c = Some (component_id c) \<and> valid_probe_id (component_id c) \<and>
     length (component_id c) \<le> 255 \<and> \<not> starts_with ''pending.'' (component_id c) \<and> probe_kind c \<noteq> None"
proof -
  have "list_all (\<lambda>c. probe_id c = Some (component_id c) \<and> valid_probe_id (component_id c) \<and>
     length (component_id c) \<le> 255 \<and> \<not> starts_with ''pending.'' (component_id c) \<and> probe_kind c \<noteq> None) component_names"
    by code_simp
  then show "c \<in> set component_names \<Longrightarrow> probe_id c = Some (component_id c) \<and> valid_probe_id (component_id c) \<and>
     length (component_id c) \<le> 255 \<and> \<not> starts_with ''pending.'' (component_id c) \<and> probe_kind c \<noteq> None"
    unfolding list_all_iff by blast
qed

lemma component_id_distinct: "distinct (map component_id component_names)"
  by code_simp

lemma component_id_inj: "inj_on component_id (set component_names)"
  using component_id_distinct by (simp add: distinct_map)

lemma label_sentence: "c @ '' baseline readiness'' = sentence [c, ''baseline'', ''readiness'']"
  by (simp add: sentence_Cons)

lemma label_safe: "c \<in> set component_names \<Longrightarrow> is_safe_text C (c @ '' baseline readiness'')"
  unfolding label_sentence
  by (rule sentence_safe) (simp add: sentence_without_def component_plain label_plain)

definition descriptor_of :: "string \<Rightarrow> probe_descriptor_spec" where
  "descriptor_of c =
     \<lparr>ds_id = component_id c, ds_label = c @ '' baseline readiness'', ds_severity = WarningSeverity, ds_remediation = None\<rparr>"

lemma descriptor_of_id [simp]: "ds_id (descriptor_of c) = component_id c"
  by (simp add: descriptor_of_def)

lemma component_descriptor_known:
  "c \<in> set component_names \<Longrightarrow> component_descriptor C c = Some (descriptor_of c)"
  by (simp add: component_descriptor_def component_ids new_probe_descriptor_spec_def validate_static_text_def label_safe
      descriptor_of_def)

lemma descriptor_of_valid: "c \<in> set component_names \<Longrightarrow> is_valid_descriptor C (descriptor_of c)"
  by (simp add: is_valid_descriptor_def descriptor_of_def component_ids validate_static_text_def label_safe)

lemma doctor_components_known: "set (doctor_components m) \<subseteq> set component_names"
  by (auto simp: doctor_components_def component_names_def split: if_splits)

lemma doctor_components_distinct: "distinct (doctor_components m)"
  by (simp add: doctor_components_def)

lemma doctor_components_length: "2 \<le> length (doctor_components m) \<and> length (doctor_components m) \<le> 9"
  by (simp add: doctor_components_def)

lemma catalog_scan_ok:
  "(\<forall>p \<in> set ps. is_valid_descriptor C (wp_descriptor p) \<and> ds_id (wp_descriptor p) \<notin> ids) \<Longrightarrow>
   distinct (map (\<lambda>p. ds_id (wp_descriptor p)) ps) \<Longrightarrow> catalog_scan C ids ps = Inr ()"
proof (induction ps arbitrary: ids)
  case (Cons p ps)
  then have "\<forall>q \<in> set ps. is_valid_descriptor C (wp_descriptor q) \<and>
      ds_id (wp_descriptor q) \<notin> insert (ds_id (wp_descriptor p)) ids"
    by (simp add: image_iff) metis
  with Cons show ?case by simp
qed simp

lemma canonical_reason_known: "\<exists>ws \<in> set detail_words. canonical_reason r = sentence ws"
  by (auto simp: canonical_reason_def detail_words_def Let_def sentence_Cons)

lemma detail_known: "\<exists>ws \<in> set detail_words. snd (finding_detail (sanitize_status C s)) = sentence ws"
proof (cases s)
  case (ProbeBroken r)
  then show ?thesis using canonical_reason_known [of r] by simp
next
  case (ProbeUnknowable r)
  then show ?thesis using canonical_reason_known [of r] by simp
qed (auto simp: detail_words_def sentence_Cons)

text \<open>The finding of one component, with a sentence from the closed list.\<close>

definition component_finding :: "string \<Rightarrow> doctor_finding \<Rightarrow> bool" where
  "component_finding c f \<longleftrightarrow>
     df_id f = component_id c \<and> df_severity f = WarningSeverity \<and> df_remediation f = None \<and>
     (\<exists>ws \<in> set detail_words. df_message f = sentence ([c, ''baseline'', ''readiness:''] @ ws))"

lemma observed_finding:
  assumes "c \<in> set component_names"
  shows "component_finding c (finding_from_observation C (new_probe_observation C (descriptor_from_spec C (descriptor_of c)) s))"
proof -
  obtain ws where ws: "ws \<in> set detail_words" "snd (finding_detail (sanitize_status C s)) = sentence ws"
    using detail_known by blast
  have "ws \<noteq> []" using details_plain [OF ws(1)] by (simp add: sentence_without_def)
  then have "sentence ([c, ''baseline'', ''readiness:''] @ ws) = c @ '' baseline readiness: '' @ sentence ws"
    by (simp add: sentence_Cons)
  moreover have "df_message (finding_from_observation C (new_probe_observation C (descriptor_from_spec C (descriptor_of c)) s)) =
      c @ '' baseline readiness: '' @ sentence ws"
    using ws(2) by (simp add: finding_from_observation_def new_probe_observation_def descriptor_from_spec_def
        descriptor_of_def safe_static_text_def label_safe assms Let_def case_prod_beta)
  ultimately show ?thesis
    unfolding component_finding_def using ws(1)
    by (intro conjI bexI [of _ ws]) (simp_all add: finding_from_observation_def new_probe_observation_def
        descriptor_from_spec_def descriptor_of_def Let_def case_prod_beta)
qed

lemma worker_findings:
  "\<exists>fs. worker_doctor_findings C api m key = Some (Inr fs) \<and> list_all2 component_finding (doctor_components m) fs"
proof -
  define probe where "probe c = \<lparr>bl_descriptor = descriptor_of c, bl_kind = the (probe_kind c), bl_public_keys = [key],
      bl_tailscale_mode = doctor_tailscale_mode m, bl_rootless_setup = False\<rparr>" for c
  have known: "c \<in> set component_names" if "c \<in> set (doctor_components m)" for c
    using that doctor_components_known by blast
  have "component_probe C [key] (doctor_tailscale_mode m) False c = Some (probe c)" if "c \<in> set (doctor_components m)" for c
    using component_ids [OF known [OF that]] component_descriptor_known [OF known [OF that]]
    by (auto simp: component_probe_def probe_def)
  then have probes: "those (map (component_probe C [key] (doctor_tailscale_mode m) False) (doctor_components m)) =
      Some (map probe (doctor_components m))"
    by (rule those_map_Some)
  have "distinct (map component_id (doctor_components m))"
    using doctor_components_distinct doctor_components_known component_id_inj
    by (auto simp: distinct_map inj_on_subset)
  then have "catalog_scan C {} (map (as_worker_probe api) (map probe (doctor_components m))) = Inr ()"
    using known by (intro catalog_scan_ok)
      (auto simp: as_worker_probe_def probe_def descriptor_of_valid comp_def)
  then have "worker_doctor_findings C api m key =
      Some (Inr (doctor_findings C (observe C (map (as_worker_probe api) (map probe (doctor_components m))))))"
    by (simp add: worker_doctor_findings_def production_worker_doctor_catalog_def probes new_probe_catalog_def)
  moreover have "list_all2 component_finding (doctor_components m)
      (doctor_findings C (observe C (map (as_worker_probe api) (map probe (doctor_components m)))))"
    using observed_finding [OF known]
    by (simp add: doctor_findings_def observe_def list_all2_map2 list.rel_refl_strong as_worker_probe_def probe_def)
  ultimately show ?thesis by blast
qed

lemma component_finding_safe:
  assumes "component_finding c f" "c \<in> set component_names"
  shows "is_safe_text C (df_message f)" "\<not> contains_secret_shaped_text C (df_message f)" "df_message f \<noteq> []"
    "\<not> any_control (df_message f)" "length (df_message f) \<le> 1024"
proof -
  obtain ws where ws: "ws \<in> set detail_words" "df_message f = sentence ([c, ''baseline'', ''readiness:''] @ ws)"
    using assms(1) by (auto simp: component_finding_def)
  have plain: "plain_sentence ([c, ''baseline'', ''readiness:''] @ ws)"
    using details_plain [OF ws(1)] component_plain [OF assms(2)] label_plain by (simp add: sentence_without_def)
  show "is_safe_text C (df_message f)" "\<not> contains_secret_shaped_text C (df_message f)" "df_message f \<noteq> []"
    "\<not> any_control (df_message f)"
    unfolding ws(2) using plain by (simp_all only: sentence_accepted sentence_no_control not_False_eq_True simp_thms)
  have "length (sentence ws) \<le> 100 \<and> ws \<noteq> []" using ws(1) by (auto simp: detail_words_def sentence_Cons)
  moreover have "length c \<le> 100" using assms(2) by (auto simp: component_names_def)
  ultimately show "length (df_message f) \<le> 1024" unfolding ws(2) by (simp add: sentence_Cons)
qed

end
