(* ===== verification/Resources.thy ===== *)
theory Resources
  imports Manifest
begin

text \<open>
  The status of a machine (\<open>src/resources/mod.rs\<close>): the record a worker sends, its JSON, the
  checks the controller makes, and how the worker fills it from its manifest and from what the
  operating system reports. The \<open>sysinfo\<close> crate and the clock are parameters. A 32-bit float
  is the rational it stands for, or \<open>None\<close> when it is not finite; \<open>round_f32\<close> is the
  conversion of a JSON number to it, to nearest with ties to even.
\<close>

section \<open>Derived structs and variants\<close>

text \<open>
  A derived struct reads an object by field name, and an array by position when it has one
  element for every field. A unit variant is its name, alone or as the key of a \<open>null\<close>.
\<close>

definition struct_fields :: "string list \<Rightarrow> json \<Rightarrow> fields option" where
  "struct_fields names v =
     (case v of
        JObject kvs \<Rightarrow> Some kvs
      | JArray xs \<Rightarrow> (if length xs = length names then Some (zip names xs) else None)
      | _ \<Rightarrow> None)"

definition as_variant :: "json \<Rightarrow> string option" where
  "as_variant v = (case v of JString s \<Rightarrow> Some s | JObject [(k, JNull)] \<Rightarrow> Some k | _ \<Rightarrow> None)"

definition as_object :: "json \<Rightarrow> fields option" where
  "as_object v = (case v of JObject kvs \<Rightarrow> Some kvs | _ \<Rightarrow> None)"

lemma struct_fields_object [simp]: "struct_fields names (JObject kvs) = Some kvs"
  by (simp add: struct_fields_def)

lemma as_variant_string [simp]: "as_variant (JString s) = Some s"
  by (simp add: as_variant_def)

section \<open>Floating-point numbers\<close>

fun bit_length :: "nat \<Rightarrow> nat" where
  "bit_length n = (if n = 0 then 0 else Suc (bit_length (n div 2)))"

declare bit_length.simps [simp del]

definition pow2 :: "int \<Rightarrow> rat" where
  "pow2 k = (if 0 \<le> k then 2 ^ nat k else 1 / 2 ^ nat (- k))"

definition binary_exponent :: "rat \<Rightarrow> int" where
  "binary_exponent q =
     (let (n, d) = quotient_of q;
          k = int (bit_length (nat n)) - int (bit_length (nat d))
      in if pow2 k \<le> q then k else k - 1)"

definition round_half_even :: "rat \<Rightarrow> int" where
  "round_half_even x =
     (let f = floor x; r = x - of_int f
      in if r < 1 / 2 then f else if 1 / 2 < r then f + 1 else if even f then f else f + 1)"

definition round_f32 :: "rat \<Rightarrow> rat option" where
  "round_f32 q =
     (if q = 0 then Some 0
      else let e = max (- 149) (binary_exponent \<bar>q\<bar> - 23);
               m = of_int (round_half_even (\<bar>q\<bar> / pow2 e)) * pow2 e
           in if 2 ^ 128 \<le> m then None else Some (sgn q * m))"

text \<open>The finite 32-bit floats are the numbers that rounding leaves alone.\<close>

definition is_f32 :: "rat \<Rightarrow> bool" where
  "is_f32 q \<longleftrightarrow> round_f32 q = Some q"

section \<open>The record\<close>

record cpu_status =
  cpu_logical :: nat
  cpu_load_percent :: "rat option"

record memory_status =
  mem_total_bytes :: nat
  mem_available_bytes :: nat

record disk_status =
  disk_root :: string
  disk_free_bytes :: nat

record job_status =
  jobs_running :: nat
  jobs_heavy_running :: nat

record substrate_status =
  sub_kind :: "string option"
  sub_state :: string
  sub_session :: "string option"

record machine_status =
  st_machine_id :: uuid
  st_time :: string
  st_cpu :: cpu_status
  st_memory :: memory_status
  st_disk :: disk_status
  st_jobs :: job_status
  st_substrate :: substrate_status

definition valid_substrate_status :: "crates \<Rightarrow> substrate_status \<Rightarrow> bool" where
  "valid_substrate_status C status \<longleftrightarrow>
     is_none_or (\<lambda>s. s \<noteq> [] \<and> length s \<le> 255 \<and> \<not> any_control s \<and> \<not> contains_secret_shaped_text C s)
       (sub_session status)
     \<and> (if sub_state status = ''none'' then sub_kind status = None \<and> sub_session status = None
        else if sub_state status = ''registered'' then sub_kind status = Some ''herdr''
        else if sub_state status = ''active'' then sub_kind status = Some ''herdr'' \<and> sub_session status \<noteq> None
        else False)"

definition validate_status_for_client :: "crates \<Rightarrow> machine_status \<Rightarrow> uuid \<Rightarrow> bool" where
  "validate_status_for_client C s expected \<longleftrightarrow>
     \<not> (st_machine_id s \<noteq> expected
        \<or> rfc3339_parse C (st_time s) = None
        \<or> 64 < length (st_time s)
        \<or> cpu_logical (st_cpu s) = 0
        \<or> cpu_load_percent (st_cpu s) = None
        \<or> \<not> is_some_and (\<lambda>q. 0 \<le> q \<and> q \<le> 100) (cpu_load_percent (st_cpu s))
        \<or> mem_total_bytes (st_memory s) = 0
        \<or> mem_total_bytes (st_memory s) < mem_available_bytes (st_memory s)
        \<or> disk_root (st_disk s) = []
        \<or> 32 * 1024 < length (disk_root (st_disk s))
        \<or> any_control (disk_root (st_disk s))
        \<or> contains_secret_shaped_text C (disk_root (st_disk s))
        \<or> jobs_running (st_jobs s) < jobs_heavy_running (st_jobs s)
        \<or> \<not> valid_substrate_status C (st_substrate s))"

section \<open>JSON\<close>

definition opt_string_json :: "string option \<Rightarrow> json" where
  "opt_string_json x = (case x of None \<Rightarrow> JNull | Some s \<Rightarrow> JString s)"

definition nat_json :: "nat \<Rightarrow> json" where
  "nat_json n = JInt (int n)"

definition cpu_json :: "cpu_status \<Rightarrow> json" where
  "cpu_json c =
     JObject [(''load_percent'', case cpu_load_percent c of None \<Rightarrow> JNull | Some q \<Rightarrow> JFloat q),
              (''logical'', nat_json (cpu_logical c))]"

definition memory_json :: "memory_status \<Rightarrow> json" where
  "memory_json m =
     JObject [(''available_bytes'', nat_json (mem_available_bytes m)), (''total_bytes'', nat_json (mem_total_bytes m))]"

definition disk_json :: "disk_status \<Rightarrow> json" where
  "disk_json d = JObject [(''free_bytes'', nat_json (disk_free_bytes d)), (''root'', JString (disk_root d))]"

definition jobs_json :: "job_status \<Rightarrow> json" where
  "jobs_json j =
     JObject [(''heavy_running'', nat_json (jobs_heavy_running j)), (''running'', nat_json (jobs_running j))]"

definition substrate_json :: "substrate_status \<Rightarrow> json" where
  "substrate_json s =
     JObject [(''kind'', opt_string_json (sub_kind s)), (''session'', opt_string_json (sub_session s)),
              (''state'', JString (sub_state s))]"

text \<open>\<open>to_value\<close>: objects are ordered by key.\<close>

definition status_json :: "crates \<Rightarrow> machine_status \<Rightarrow> json" where
  "status_json C s =
     JObject [(''cpu'', cpu_json (st_cpu s)), (''disk'', disk_json (st_disk s)), (''jobs'', jobs_json (st_jobs s)),
              (''machine_id'', JString (uuid_text C (st_machine_id s))), (''memory'', memory_json (st_memory s)),
              (''substrate'', substrate_json (st_substrate s)), (''time'', JString (st_time s))]"

definition as_f32 :: "json \<Rightarrow> rat option option" where
  "as_f32 v = (case v of JInt i \<Rightarrow> Some (round_f32 (of_int i)) | JFloat q \<Rightarrow> Some (round_f32 q) | _ \<Rightarrow> None)"

definition cpu_of :: "json \<Rightarrow> cpu_status option" where
  "cpu_of v =
     Option.bind (struct_fields [''logical'', ''load_percent''] v) (\<lambda>kvs.
     Option.bind (req_field (as_unsigned u64_max) ''logical'' kvs) (\<lambda>logical.
     Option.bind (req_field as_f32 ''load_percent'' kvs) (\<lambda>load.
       Some \<lparr>cpu_logical = logical, cpu_load_percent = load\<rparr>)))"

definition memory_of :: "json \<Rightarrow> memory_status option" where
  "memory_of v =
     Option.bind (struct_fields [''total_bytes'', ''available_bytes''] v) (\<lambda>kvs.
     Option.bind (req_field (as_unsigned u64_max) ''total_bytes'' kvs) (\<lambda>total.
     Option.bind (req_field (as_unsigned u64_max) ''available_bytes'' kvs) (\<lambda>available.
       Some \<lparr>mem_total_bytes = total, mem_available_bytes = available\<rparr>)))"

definition disk_of :: "json \<Rightarrow> disk_status option" where
  "disk_of v =
     Option.bind (struct_fields [''root'', ''free_bytes''] v) (\<lambda>kvs.
     Option.bind (req_field as_str ''root'' kvs) (\<lambda>dir.
     Option.bind (req_field (as_unsigned u64_max) ''free_bytes'' kvs) (\<lambda>free.
       Some \<lparr>disk_root = dir, disk_free_bytes = free\<rparr>)))"

definition jobs_of :: "json \<Rightarrow> job_status option" where
  "jobs_of v =
     Option.bind (struct_fields [''running'', ''heavy_running''] v) (\<lambda>kvs.
     Option.bind (req_field (as_unsigned u64_max) ''running'' kvs) (\<lambda>running.
     Option.bind (req_field (as_unsigned u64_max) ''heavy_running'' kvs) (\<lambda>heavy.
       Some \<lparr>jobs_running = running, jobs_heavy_running = heavy\<rparr>)))"

definition substrate_of :: "json \<Rightarrow> substrate_status option" where
  "substrate_of v =
     Option.bind (struct_fields [''kind'', ''state'', ''session''] v) (\<lambda>kvs.
     Option.bind (opt_field as_str ''kind'' kvs) (\<lambda>kind.
     Option.bind (req_field as_str ''state'' kvs) (\<lambda>state.
     Option.bind (opt_field as_str ''session'' kvs) (\<lambda>session.
       Some \<lparr>sub_kind = kind, sub_state = state, sub_session = session\<rparr>))))"

definition status_of :: "crates \<Rightarrow> json \<Rightarrow> machine_status option" where
  "status_of C v =
     Option.bind (struct_fields [''machine_id'', ''time'', ''cpu'', ''memory'', ''disk'', ''jobs'', ''substrate''] v) (\<lambda>kvs.
     Option.bind (req_field (\<lambda>v. Option.bind (as_str v) (uuid_parse C)) ''machine_id'' kvs) (\<lambda>machine.
     Option.bind (req_field as_str ''time'' kvs) (\<lambda>time.
     Option.bind (req_field cpu_of ''cpu'' kvs) (\<lambda>cpu.
     Option.bind (req_field memory_of ''memory'' kvs) (\<lambda>memory.
     Option.bind (req_field disk_of ''disk'' kvs) (\<lambda>disk.
     Option.bind (req_field jobs_of ''jobs'' kvs) (\<lambda>jobs.
     Option.bind (req_field substrate_of ''substrate'' kvs) (\<lambda>substrate.
       Some \<lparr>st_machine_id = machine, st_time = time, st_cpu = cpu, st_memory = memory, st_disk = disk,
             st_jobs = jobs, st_substrate = substrate\<rparr>))))))))"

section \<open>Capture\<close>

text \<open>
  What \<open>sysinfo\<close> reports: the number of processors, the load, memory, and the disks with
  the components of their mount points. \<open>hr_components\<close> is \<open>Path::components\<close> of the
  platform.
\<close>

record host_resources =
  hr_cpus :: nat
  hr_load :: "rat option"
  hr_total_memory :: nat
  hr_available_memory :: nat
  hr_disks :: "(string list \<times> nat) list"
  hr_components :: "string \<Rightarrow> string list"
  hr_now :: nat

text \<open>\<open>max_by_key\<close> keeps the last of the largest.\<close>

definition deepest :: "(string list \<times> nat) list \<Rightarrow> (string list \<times> nat) option" where
  "deepest disks =
     foldl (\<lambda>best d. case best of
                None \<Rightarrow> Some d
              | Some b \<Rightarrow> Some (if length (fst d) < length (fst b) then b else d)) None disks"

definition capture_machine_status :: "crates \<Rightarrow> host_resources \<Rightarrow> machine_manifest \<Rightarrow> machine_status option" where
  "capture_machine_status C host m =
     Option.bind (deepest (filter (\<lambda>d. prefix (fst d) (hr_components host (pa_root (paths m)))) (hr_disks host))) (\<lambda>disk.
       let substrate = filter_opt (\<lambda>h. (case he_installed h of None \<Rightarrow> False | Some b \<Rightarrow> b)
                                       \<and> (case he_enabled h of None \<Rightarrow> True | Some b \<Rightarrow> b)) (herdr m)
       in if u64_max < hr_cpus host then None
          else Some \<lparr>st_machine_id = machine_id m, st_time = rfc3339_text C (hr_now host),
             st_cpu = \<lparr>cpu_logical = hr_cpus host, cpu_load_percent = hr_load host\<rparr>,
             st_memory = \<lparr>mem_total_bytes = hr_total_memory host, mem_available_bytes = hr_available_memory host\<rparr>,
             st_disk = \<lparr>disk_root = pa_root (paths m), disk_free_bytes = snd disk\<rparr>,
             st_jobs = \<lparr>jobs_running = 0, jobs_heavy_running = 0\<rparr>,
             st_substrate = \<lparr>sub_kind = map_option (\<lambda>_. ''herdr'') substrate,
               sub_state = (if substrate = None then ''none'' else ''registered''),
               sub_session = Option.bind substrate he_session\<rparr>\<rparr>)"

section \<open>Facts\<close>

lemma status_object_fields:
  assumes "kvs = [(''cpu'', a), (''disk'', b), (''jobs'', c), (''machine_id'', d), (''memory'', e), (''substrate'', f), (''time'', g)]"
  shows "field ''cpu'' kvs = Some a" "field ''disk'' kvs = Some b" "field ''jobs'' kvs = Some c"
    "field ''machine_id'' kvs = Some d" "field ''memory'' kvs = Some e" "field ''substrate'' kvs = Some f"
    "field ''time'' kvs = Some g"
  by (simp_all add: assms field_def)

definition status_in_range :: "machine_status \<Rightarrow> bool" where
  "status_in_range s \<longleftrightarrow>
     cpu_logical (st_cpu s) \<le> u64_max \<and> is_some_and is_f32 (cpu_load_percent (st_cpu s)) \<and>
     mem_total_bytes (st_memory s) \<le> u64_max \<and> mem_available_bytes (st_memory s) \<le> u64_max \<and>
     disk_free_bytes (st_disk s) \<le> u64_max \<and> jobs_running (st_jobs s) \<le> u64_max \<and>
     jobs_heavy_running (st_jobs s) \<le> u64_max"

lemma cpu_roundtrip:
  "cpu_logical c \<le> u64_max \<Longrightarrow> is_some_and is_f32 (cpu_load_percent c) \<Longrightarrow> cpu_of (cpu_json c) = Some c"
  by (cases c) (auto simp: cpu_of_def cpu_json_def req_field_def field_def nat_json_def as_f32_def
      is_f32_def is_some_and_def split: option.splits)

lemma memory_roundtrip:
  "mem_total_bytes m \<le> u64_max \<Longrightarrow> mem_available_bytes m \<le> u64_max \<Longrightarrow> memory_of (memory_json m) = Some m"
  by (simp add: memory_of_def memory_json_def req_field_def field_def nat_json_def)

lemma disk_roundtrip: "disk_free_bytes d \<le> u64_max \<Longrightarrow> disk_of (disk_json d) = Some d"
  by (simp add: disk_of_def disk_json_def req_field_def field_def nat_json_def)

lemma jobs_roundtrip:
  "jobs_running j \<le> u64_max \<Longrightarrow> jobs_heavy_running j \<le> u64_max \<Longrightarrow> jobs_of (jobs_json j) = Some j"
  by (simp add: jobs_of_def jobs_json_def req_field_def field_def nat_json_def)

lemma substrate_roundtrip: "substrate_of (substrate_json s) = Some s"
  by (cases "sub_kind s"; cases "sub_session s")
    (simp_all add: substrate_of_def substrate_json_def req_field_def opt_field_def field_def
      opt_string_json_def)

lemma status_roundtrip:
  assumes "status_in_range s" "uuid_parse C (uuid_text C (st_machine_id s)) = Some (st_machine_id s)"
  shows "status_of C (status_json C s) = Some s"
  using assms
  by (simp add: status_of_def status_json_def req_field_def field_def status_in_range_def
      cpu_roundtrip memory_roundtrip disk_roundtrip jobs_roundtrip substrate_roundtrip)

end
