(* ===== verification/RpcValues.thy ===== *)
theory RpcValues
  imports Baseline Resources SshKeys Output
begin

text \<open>
  The values of the RPC session (\<open>src/rpc/mod.rs\<close>): protocol ranges, errors, the peer a
  controller expects, and the arguments and results of the four methods with the checks both
  ends make on them. The session itself is in \<open>RpcClient\<close> and \<open>RpcServer\<close>.
\<close>

section \<open>Constants and errors\<close>

definition protocol_min :: nat where
  "protocol_min = 1"

definition protocol_max :: nat where
  "protocol_max = 1"

definition manifest_schema_version :: nat where
  "manifest_schema_version = 1"

definition max_exec_arguments :: nat where
  "max_exec_arguments = 256"

definition max_exec_argument_bytes :: nat where
  "max_exec_argument_bytes = 32 * 1024"

definition max_exec_total_bytes :: nat where
  "max_exec_total_bytes = 256 * 1024"

definition max_exec_capture_bytes :: nat where
  "max_exec_capture_bytes = 1024 * 1024"

definition redacted_output :: string where
  "redacted_output = ''[redacted secret-shaped output]''"

definition remote_execution_failed_message :: string where
  "remote_execution_failed_message = ''the worker could not complete the RPC method''"

definition cargo_pkg_version :: string where
  "cargo_pkg_version = ''0.1.0''"

record rpc_error =
  err_code :: error_code
  err_message :: string

definition new_rpc_error :: "error_code \<Rightarrow> string \<Rightarrow> rpc_error" where
  "new_rpc_error code message = \<lparr>err_code = code, err_message = message\<rparr>"

definition frame_rpc_error :: "frame_error \<Rightarrow> rpc_error" where
  "frame_rpc_error e =
     new_rpc_error (if e = FrameIo then TransportSessionLost else ProtocolMalformed)
       ''the RPC session could not read or write a valid frame''"

definition malformed :: "string \<Rightarrow> rpc_error" where
  "malformed message = new_rpc_error ProtocolMalformed message"

definition rpc_exit_code :: "rpc_error \<Rightarrow> styrn_exit" where
  "rpc_exit_code e = code_exit (err_code e)"

section \<open>Negotiation\<close>

definition highest_protocol_intersection :: "nat \<times> nat \<Rightarrow> nat \<times> nat \<Rightarrow> nat option" where
  "highest_protocol_intersection ours theirs =
     (let minimum = max (fst ours) (fst theirs); maximum = min (snd ours) (snd theirs)
      in if minimum \<le> maximum then Some maximum else None)"

definition negotiate_server_hello :: "server_hello \<Rightarrow> rpc_error + nat" where
  "negotiate_server_hello hello =
     (if hello_manifest_schema_version hello \<noteq> manifest_schema_version
      then Inl (new_rpc_error ProtocolIncompatible ''the worker manifest schema is not supported by this controller'')
      else ok_or (highest_protocol_intersection (protocol_min, protocol_max)
                    (hello_protocol_min hello, hello_protocol_max hello))
             (new_rpc_error ProtocolIncompatible
                ''the controller and worker protocol ranges do not intersect; run styrn upgrade <host>''))"

definition incompatible_server_hello_diagnostic :: "server_hello \<Rightarrow> rpc_diagnostic" where
  "incompatible_server_hello_diagnostic hello =
     new_rpc_diagnostic (code_str ProtocolIncompatible)
       (''controller protocol range ['' @ show_nat protocol_min @ '', '' @ show_nat protocol_max @
        ''], worker protocol range ['' @ show_nat (hello_protocol_min hello) @ '', '' @
        show_nat (hello_protocol_max hello) @ ''], controller manifest schema '' @
        show_nat manifest_schema_version @ '', worker manifest schema '' @
        show_nat (hello_manifest_schema_version hello))"

section \<open>The expected peer\<close>

record expected_peer =
  peer_machine_id :: uuid
  peer_name :: string
  peer_user :: string

definition new_expected_peer :: "crates \<Rightarrow> uuid \<Rightarrow> string \<Rightarrow> string \<Rightarrow> rpc_error + expected_peer" where
  "new_expected_peer C machine name user =
     (if uuid_version C machine \<noteq> 7 \<or> name = [] \<or> 255 < length name \<or> user = [] \<or> 255 < length user
         \<or> any_control name \<or> any_control user
      then Inl (new_rpc_error UsageInvalidArgument ''the expected RPC peer is invalid'')
      else Inr \<lparr>peer_machine_id = machine, peer_name = name, peer_user = user\<rparr>)"

definition validate_hello_manifest_binding ::
    "server_hello \<Rightarrow> machine_manifest \<Rightarrow> expected_peer \<Rightarrow> rpc_error + unit" where
  "validate_hello_manifest_binding hello m expected =
     (if hello_machine_id hello \<noteq> machine_id m
         \<or> hello_name hello \<noteq> machine_name m
         \<or> hello_manifest_schema_version hello \<noteq> schema_version m
         \<or> hello_machine_id hello \<noteq> peer_machine_id expected
         \<or> hello_name hello \<noteq> peer_name expected
         \<or> Option.bind (transport m) tr_user \<noteq> Some (peer_user expected)
         \<or> map_option wi_name (worker_identity m) \<noteq> Some (peer_user expected)
      then Inl (malformed ''the RPC hello and worker manifest binding did not match'')
      else Inr ())"

section \<open>Arguments\<close>

definition invalid_public_key :: rpc_error where
  "invalid_public_key = new_rpc_error UsageInvalidArgument ''the controller public key is invalid''"

definition canonical_authorized_public_key :: "crates \<Rightarrow> string \<Rightarrow> rpc_error + string" where
  "canonical_authorized_public_key C key =
     (if 16 * 1024 < length key \<or> parse_authorized_key_line C key = None then Inl invalid_public_key
      else (case split_ascii_whitespace key of
              key_type # encoded # _ \<Rightarrow> Inr (key_type @ '' '' @ encoded)
            | _ \<Rightarrow> Inl invalid_public_key))"

definition invalid_argv :: rpc_error where
  "invalid_argv =
     new_rpc_error UsageInvalidArgument ''the exec argv vector is invalid or contains secret-shaped input''"

fun exec_arguments_ok :: "crates \<Rightarrow> nat \<Rightarrow> string list \<Rightarrow> bool" where
  "exec_arguments_ok C used [] = True"
| "exec_arguments_ok C used (argument # argv) =
     (if max_exec_argument_bytes < length argument \<or> contains_secret_shaped_text C argument then False
      else let used = used + length argument
           in if max_exec_total_bytes < used then False else exec_arguments_ok C used argv)"

definition validate_exec_argv :: "crates \<Rightarrow> string list \<Rightarrow> rpc_error + unit" where
  "validate_exec_argv C argv =
     (if argv = [] \<or> max_exec_arguments < length argv \<or> hd argv = [] then Inl invalid_argv
      else if exec_arguments_ok C 0 argv then Inr () else Inl invalid_argv)"

section \<open>Values of a worker\<close>

fun remote_value_contains_secret :: "crates \<Rightarrow> json \<Rightarrow> bool" where
  "remote_value_contains_secret C (JObject kvs) =
     list_ex (\<lambda>kv. contains_secret_shaped_text C (fst kv)
                \<or> is_some_and (\<lambda>text. contains_secret_shaped_text C (fst kv @ '': '' @ text)) (as_str (snd kv))
                \<or> remote_value_contains_secret C (snd kv)) kvs"
| "remote_value_contains_secret C (JArray vs) = list_ex (remote_value_contains_secret C) vs"
| "remote_value_contains_secret C (JString s) = contains_secret_shaped_text C s"
| "remote_value_contains_secret C JNull = False"
| "remote_value_contains_secret C (JBool b) = False"
| "remote_value_contains_secret C (JInt i) = False"
| "remote_value_contains_secret C (JFloat q) = False"

definition validate_remote_value :: "crates \<Rightarrow> json \<Rightarrow> rpc_error + unit" where
  "validate_remote_value C v =
     reject_if (remote_value_contains_secret C v) (malformed ''the worker response contained secret-shaped text'')"

section \<open>The doctor report\<close>

record worker_doctor_remediation =
  wr_summary :: string
  wr_styrn_args :: "string list option"

record worker_doctor_finding =
  wf_id :: string
  wf_state :: finding_state
  wf_severity :: finding_severity
  wf_message :: string
  wf_remediation :: "worker_doctor_remediation option"

record worker_doctor_report =
  wr_findings :: "worker_doctor_finding list"
  wr_coverage :: string
  wr_complete :: bool

definition string_list_of :: "json \<Rightarrow> string list option" where
  "string_list_of v = (case v of JArray xs \<Rightarrow> those (map as_str xs) | _ \<Rightarrow> None)"

definition finding_state_of :: "json \<Rightarrow> finding_state option" where
  "finding_state_of v =
     Option.bind (as_variant v) (\<lambda>s. find_first (\<lambda>x. state_text x = s) [PassState, FailState, UnknownState])"

definition severity_of :: "json \<Rightarrow> finding_severity option" where
  "severity_of v =
     Option.bind (as_variant v) (\<lambda>s. find_first (\<lambda>x. severity_text x = s) [InfoSeverity, WarningSeverity, ErrorSeverity])"

definition worker_remediation_of :: "json \<Rightarrow> worker_doctor_remediation option" where
  "worker_remediation_of v =
     Option.bind (struct_fields [''summary'', ''styrn_args''] v) (\<lambda>kvs.
     Option.bind (req_field as_str ''summary'' kvs) (\<lambda>summary.
     Option.bind (opt_field string_list_of ''styrn_args'' kvs) (\<lambda>args.
       Some \<lparr>wr_summary = summary, wr_styrn_args = args\<rparr>)))"

definition worker_finding_of :: "json \<Rightarrow> worker_doctor_finding option" where
  "worker_finding_of v =
     Option.bind (struct_fields [''id'', ''state'', ''severity'', ''message'', ''remediation''] v) (\<lambda>kvs.
     Option.bind (req_field as_str ''id'' kvs) (\<lambda>i.
     Option.bind (req_field finding_state_of ''state'' kvs) (\<lambda>state.
     Option.bind (req_field severity_of ''severity'' kvs) (\<lambda>severity.
     Option.bind (req_field as_str ''message'' kvs) (\<lambda>message.
     Option.bind (opt_field worker_remediation_of ''remediation'' kvs) (\<lambda>remediation.
       Some \<lparr>wf_id = i, wf_state = state, wf_severity = severity, wf_message = message,
             wf_remediation = remediation\<rparr>))))))"

definition report_of :: "json \<Rightarrow> worker_doctor_report option" where
  "report_of v =
     Option.bind (struct_fields [''findings'', ''coverage'', ''complete''] v) (\<lambda>kvs.
     Option.bind (req_field (\<lambda>v. case v of JArray xs \<Rightarrow> those (map worker_finding_of xs) | _ \<Rightarrow> None) ''findings'' kvs) (\<lambda>findings.
     Option.bind (req_field as_str ''coverage'' kvs) (\<lambda>coverage.
     Option.bind (req_field as_bool ''complete'' kvs) (\<lambda>complete.
       Some \<lparr>wr_findings = findings, wr_coverage = coverage, wr_complete = complete\<rparr>))))"

definition worker_remediation_json :: "worker_doctor_remediation \<Rightarrow> json" where
  "worker_remediation_json r =
     JObject ([(''summary'', JString (wr_summary r))] @
              (case wr_styrn_args r of
                 None \<Rightarrow> []
               | Some args \<Rightarrow> [(''styrn_args'', JArray (map JString args))]))"

definition worker_finding_json :: "worker_doctor_finding \<Rightarrow> json" where
  "worker_finding_json f =
     JObject ([(''id'', JString (wf_id f)), (''state'', JString (state_text (wf_state f))),
               (''severity'', JString (severity_text (wf_severity f))), (''message'', JString (wf_message f))] @
              (case wf_remediation f of None \<Rightarrow> [] | Some r \<Rightarrow> [(''remediation'', worker_remediation_json r)]))"

definition report_json :: "worker_doctor_report \<Rightarrow> json" where
  "report_json r =
     JObject [(''findings'', JArray (map worker_finding_json (wr_findings r))),
              (''coverage'', JString (wr_coverage r)), (''complete'', JBool (wr_complete r))]"

definition pending_severity_finding :: "pending_severity \<Rightarrow> finding_severity" where
  "pending_severity_finding s =
     (case s of PendingInfo \<Rightarrow> InfoSeverity | PendingWarning \<Rightarrow> WarningSeverity | PendingError \<Rightarrow> ErrorSeverity)"

definition from_pending_action :: "nat \<Rightarrow> pending_action \<Rightarrow> worker_doctor_finding" where
  "from_pending_action index action =
     \<lparr>wf_id = ''pending.action-'' @ show_nat (index + 1), wf_state = FailState,
      wf_severity = pending_severity_finding (pe_severity action),
      wf_message = ''a worker manifest pending action remains unresolved'',
      wf_remediation = Some
        \<lparr>wr_summary = ''complete the corresponding pending action in the worker manifest, then rerun styrn host doctor'',
         wr_styrn_args = None\<rparr>\<rparr>"

definition doctor_response_invalid :: rpc_error where
  "doctor_response_invalid = malformed ''the worker doctor response was invalid''"

definition report_text_ok :: "crates \<Rightarrow> string \<Rightarrow> bool" where
  "report_text_ok C s \<longleftrightarrow>
     s \<noteq> [] \<and> length s \<le> 1024 \<and> \<not> any_control s \<and> \<not> contains_secret_shaped_text C s"

fun report_findings_ok :: "crates \<Rightarrow> string set \<Rightarrow> worker_doctor_finding list \<Rightarrow> bool" where
  "report_findings_ok C ids [] = True"
| "report_findings_ok C ids (f # fs) =
     (if parse_probe_id (wf_id f) = None \<or> wf_id f \<in> ids \<or> \<not> report_text_ok C (wf_message f)
         \<or> is_some_and (\<lambda>r. \<not> report_text_ok C (wr_summary r)
              \<or> is_some_and (\<lambda>args. args \<noteq> [''machine'', ''init'']) (wr_styrn_args r)) (wf_remediation f)
      then False else report_findings_ok C (insert (wf_id f) ids) fs)"

definition validate_report_for_client :: "crates \<Rightarrow> worker_doctor_report \<Rightarrow> rpc_error + unit" where
  "validate_report_for_client C r =
     (if wr_coverage r \<noteq> ''phase1_minimum'' \<or> wr_complete r \<or> wr_findings r = [] \<or> 64 < length (wr_findings r)
      then Inl doctor_response_invalid
      else if report_findings_ok C {} (wr_findings r) then Inr () else Inl doctor_response_invalid)"

definition report_from_remote_value :: "crates \<Rightarrow> json \<Rightarrow> rpc_error + worker_doctor_report" where
  "report_from_remote_value C v =
     and_then (validate_remote_value C v) (\<lambda>_.
     and_then (ok_or (report_of v) (malformed ''the worker doctor response was malformed'')) (\<lambda>report.
     and_then (validate_report_for_client C report) (\<lambda>_. Inr report)))"

section \<open>The result of a command\<close>

record exec_result =
  ex_exit_code :: int
  ex_stdout :: string
  ex_stderr :: string
  ex_duration_ms :: nat
  ex_stdout_lossy :: bool
  ex_stderr_lossy :: bool
  ex_stdout_redacted :: bool
  ex_stderr_redacted :: bool

definition exec_result_json :: "exec_result \<Rightarrow> json" where
  "exec_result_json r =
     JObject [(''exit_code'', JInt (ex_exit_code r)), (''stdout'', JString (ex_stdout r)),
              (''stderr'', JString (ex_stderr r)), (''duration_ms'', nat_json (ex_duration_ms r)),
              (''stdout_lossy'', JBool (ex_stdout_lossy r)), (''stderr_lossy'', JBool (ex_stderr_lossy r)),
              (''stdout_redacted'', JBool (ex_stdout_redacted r)), (''stderr_redacted'', JBool (ex_stderr_redacted r))]"

definition exec_result_of :: "json \<Rightarrow> exec_result option" where
  "exec_result_of v =
     Option.bind (struct_fields [''exit_code'', ''stdout'', ''stderr'', ''duration_ms'', ''stdout_lossy'', ''stderr_lossy'', ''stdout_redacted'', ''stderr_redacted''] v) (\<lambda>kvs.
     Option.bind (req_field Json.as_i32 ''exit_code'' kvs) (\<lambda>code.
     Option.bind (req_field as_str ''stdout'' kvs) (\<lambda>out.
     Option.bind (req_field as_str ''stderr'' kvs) (\<lambda>err.
     Option.bind (req_field (as_unsigned u64_max) ''duration_ms'' kvs) (\<lambda>duration.
     Option.bind (req_field as_bool ''stdout_lossy'' kvs) (\<lambda>out_lossy.
     Option.bind (req_field as_bool ''stderr_lossy'' kvs) (\<lambda>err_lossy.
     Option.bind (req_field as_bool ''stdout_redacted'' kvs) (\<lambda>out_redacted.
     Option.bind (req_field as_bool ''stderr_redacted'' kvs) (\<lambda>err_redacted.
       Some \<lparr>ex_exit_code = code, ex_stdout = out, ex_stderr = err, ex_duration_ms = duration,
             ex_stdout_lossy = out_lossy, ex_stderr_lossy = err_lossy, ex_stdout_redacted = out_redacted,
             ex_stderr_redacted = err_redacted\<rparr>)))))))))"

definition sanitize_remote_capture :: "crates \<Rightarrow> string \<Rightarrow> bool \<Rightarrow> string \<times> bool" where
  "sanitize_remote_capture C capture redacted =
     (if redacted \<or> contains_secret_shaped_text C capture then (redacted_output, True) else (capture, redacted))"

definition sanitize_result_for_client :: "crates \<Rightarrow> exec_result \<Rightarrow> rpc_error + exec_result" where
  "sanitize_result_for_client C r =
     (if max_exec_capture_bytes < length (ex_stdout r) \<or> max_exec_capture_bytes < length (ex_stderr r)
      then Inl (malformed ''the worker exec response exceeded its capture limit'')
      else let (out, out_redacted) = sanitize_remote_capture C (ex_stdout r) (ex_stdout_redacted r);
               (err, err_redacted) = sanitize_remote_capture C (ex_stderr r) (ex_stderr_redacted r)
           in Inr (r\<lparr>ex_stdout := out, ex_stdout_redacted := out_redacted, ex_stderr := err,
                     ex_stderr_redacted := err_redacted\<rparr>))"

end
