(* ===== verification/RpcClient.thy ===== *)
theory RpcClient
  imports RpcValues
begin

text \<open>
  The controller's end of the RPC session (\<open>RpcProcess\<close> of \<open>src/transport/mod.rs\<close>,
  \<open>RpcClient\<close> of \<open>src/rpc/mod.rs\<close>) as functions on an explicit client state. A process is
  its two pipes and its child; the bytes the worker will send are the source of its output
  pipe. \<open>proc_kills\<close> counts the kill signals sent and \<open>proc_waits\<close> the children reaped.
\<close>

section \<open>The process\<close>

text \<open>A child is what waiting for it gives: whether it succeeded, or nothing when the wait fails.\<close>

record rpc_process =
  proc_child :: "bool option option"
  proc_input :: "sink option"
  proc_output :: source
  proc_stderr :: bool
  proc_pre_hello :: error_code
  proc_kills :: nat
  proc_waits :: nat

definition new_rpc_process :: "bool option \<Rightarrow> sink \<Rightarrow> source \<Rightarrow> rpc_process" where
  "new_rpc_process child input output =
     \<lparr>proc_child = Some child, proc_input = Some input, proc_output = output, proc_stderr = True,
      proc_pre_hello = TransportSessionLost, proc_kills = 0, proc_waits = 0\<rparr>"

definition new_ssh_process :: "bool option \<Rightarrow> sink \<Rightarrow> source \<Rightarrow> rpc_process" where
  "new_ssh_process child input output =
     (new_rpc_process child input output)\<lparr>proc_pre_hello := TransportAuthFailed\<rparr>"

definition read_frame :: "crates \<Rightarrow> rpc_process \<Rightarrow> (frame_error + frame option) \<times> rpc_process" where
  "read_frame C p = (case frame_read C (proc_output p) of (r, rest) \<Rightarrow> (r, p\<lparr>proc_output := rest\<rparr>))"

definition write_frame :: "crates \<Rightarrow> frame \<Rightarrow> rpc_process \<Rightarrow> (frame_error + unit) \<times> rpc_process" where
  "write_frame C frame p =
     (case proc_input p of
        None \<Rightarrow> (Inl FrameIo, p)
      | Some out \<Rightarrow> (case frame_write C frame out of (r, out) \<Rightarrow> (r, p\<lparr>proc_input := Some out\<rparr>)))"

definition process_finish :: "rpc_process \<Rightarrow> bool option \<times> rpc_process" where
  "process_finish p =
     (let p = p\<lparr>proc_input := None\<rparr>
      in case proc_child p of
           None \<Rightarrow> (None, p)
         | Some child \<Rightarrow>
             (let p = p\<lparr>proc_child := None, proc_waits := Suc (proc_waits p)\<rparr>
              in case child of
                   None \<Rightarrow> (None, p)
                 | Some status \<Rightarrow> (Some status, p\<lparr>proc_stderr := False\<rparr>)))"

definition abort_child :: "rpc_process \<Rightarrow> rpc_process" where
  "abort_child p =
     (case proc_child p of
        None \<Rightarrow> p
      | Some _ \<Rightarrow> p\<lparr>proc_child := None, proc_kills := Suc (proc_kills p), proc_waits := Suc (proc_waits p)\<rparr>)"

definition process_abort :: "rpc_process \<Rightarrow> rpc_process" where
  "process_abort p = (abort_child (p\<lparr>proc_input := None\<rparr>))\<lparr>proc_stderr := False\<rparr>"

text \<open>Dropping a process aborts it.\<close>

definition drop_process :: "rpc_process \<Rightarrow> rpc_process" where
  "drop_process = process_abort"

section \<open>Connecting\<close>

record rpc_client =
  cl_process :: rpc_process
  cl_hello :: server_hello
  cl_next_id :: nat
  cl_terminated :: bool

text \<open>A failed connection drops the process; the model keeps what is left of it.\<close>

definition connect_failed :: "rpc_error \<Rightarrow> rpc_process \<Rightarrow> rpc_error \<times> rpc_process + rpc_client" where
  "connect_failed e p = Inl (e, drop_process p)"

definition connect :: "crates \<Rightarrow> rpc_process \<Rightarrow> rpc_error \<times> rpc_process + rpc_client" where
  "connect C p =
     (case read_frame C p of
        (Inl e, p) \<Rightarrow> connect_failed (frame_rpc_error e) p
      | (Inr None, p) \<Rightarrow>
          connect_failed (new_rpc_error (proc_pre_hello p) ''the RPC server closed before hello'') p
      | (Inr (Some frame), p) \<Rightarrow>
          (case frame of
             ServerHelloFrame hello \<Rightarrow>
               (case negotiate_server_hello hello of
                  Inl e \<Rightarrow>
                    connect_failed e
                      (snd (write_frame C (ErrorFrame ''hello'' [incompatible_server_hello_diagnostic hello]) p))
                | Inr protocol \<Rightarrow>
                    (case write_frame C
                            (ClientHelloFrame \<lparr>sel_protocol = protocol, sel_styrn_version = cargo_pkg_version\<rparr>) p of
                       (Inl e, p) \<Rightarrow> connect_failed (frame_rpc_error e) p
                     | (Inr _, p) \<Rightarrow>
                         Inr \<lparr>cl_process = p, cl_hello = hello, cl_next_id = 1, cl_terminated = False\<rparr>))
           | _ \<Rightarrow> connect_failed (malformed ''the RPC server did not speak a valid hello first'') p))"

section \<open>Requests\<close>

type_synonym 'a call = "rpc_client \<Rightarrow> (rpc_error + 'a) \<times> rpc_client"

definition terminate :: "rpc_error \<Rightarrow> 'a call" where
  "terminate e c =
     (Inl e, if cl_terminated c then c
             else c\<lparr>cl_process := process_abort (cl_process c), cl_terminated := True\<rparr>)"

definition session_terminated :: rpc_error where
  "session_terminated = new_rpc_error TransportSessionLost ''the RPC session was already terminated''"

definition is_remote_execution_failure :: "rpc_diagnostic list \<Rightarrow> bool" where
  "is_remote_execution_failure errors =
     (case errors of
        [e] \<Rightarrow> rpc_code e = code_str RemoteExecutionFailed \<and> rpc_message e = remote_execution_failed_message
               \<and> rpc_details e = None
      | _ \<Rightarrow> False)"

definition remote_execution_failed :: rpc_error where
  "remote_execution_failed = new_rpc_error RemoteExecutionFailed remote_execution_failed_message"

definition rejection_code :: "rpc_diagnostic list \<Rightarrow> error_code" where
  "rejection_code errors =
     (case filter_opt (\<lambda>code. code = ProtocolIncompatible \<or> code = ProtocolMalformed)
             (Option.bind (case errors of [] \<Rightarrow> None | e # _ \<Rightarrow> Some e) (\<lambda>e. code_from_str (rpc_code e))) of
        Some code \<Rightarrow> code
      | None \<Rightarrow> ProtocolMalformed)"

definition request_id :: "nat \<Rightarrow> string" where
  "request_id n = ''c'' @ show_nat n"

text \<open>The answer to the only outstanding request.\<close>

definition receive_response :: "string \<Rightarrow> frame option \<Rightarrow> json call" where
  "receive_response i frame c =
     (case frame of
        None \<Rightarrow> terminate (new_rpc_error TransportSessionLost ''the RPC session ended before its response'') c
      | Some (ResponseFrame response_id ok data errors) \<Rightarrow>
          if ok \<and> data \<noteq> None \<and> response_id = i \<and> errors = [] then (Inr (the data), c)
          else if \<not> ok \<and> response_id = i \<and> is_remote_execution_failure errors then (Inl remote_execution_failed, c)
          else terminate (malformed ''the RPC response did not match the sole outstanding request'') c
      | Some (ErrorFrame error_id errors) \<Rightarrow>
          if error_id = i
          then terminate (new_rpc_error (rejection_code errors) ''the worker rejected the RPC session'') c
          else terminate (malformed ''the RPC response did not match the sole outstanding request'') c
      | Some _ \<Rightarrow> terminate (malformed ''the RPC response did not match the sole outstanding request'') c)"

definition request :: "crates \<Rightarrow> string \<Rightarrow> json \<Rightarrow> json call" where
  "request C method params c =
     (if cl_terminated c then (Inl session_terminated, c)
      else let i = request_id (cl_next_id c)
           in if cl_next_id c = u64_max then terminate (malformed ''RPC request identifier overflow'') c
              else let c = c\<lparr>cl_next_id := cl_next_id c + 1\<rparr>
                   in case write_frame C (RequestFrame i method params) (cl_process c) of
                        (Inl e, p) \<Rightarrow> terminate (frame_rpc_error e) (c\<lparr>cl_process := p\<rparr>)
                      | (Inr _, p) \<Rightarrow>
                          (case read_frame C p of
                             (Inl e, p) \<Rightarrow> terminate (frame_rpc_error e) (c\<lparr>cl_process := p\<rparr>)
                           | (Inr frame, p) \<Rightarrow> receive_response i frame (c\<lparr>cl_process := p\<rparr>)))"

text \<open>A request whose data has to pass a check; a value that does not pass ends the session.\<close>

definition checked_request :: "crates \<Rightarrow> string \<Rightarrow> json \<Rightarrow> (json \<Rightarrow> rpc_client \<Rightarrow> rpc_error + 'a) \<Rightarrow> 'a call" where
  "checked_request C method params accept c =
     (case request C method params c of
        (Inl e, c) \<Rightarrow> (Inl e, c)
      | (Inr data, c) \<Rightarrow> (case accept data c of Inl e \<Rightarrow> terminate e c | Inr x \<Rightarrow> (Inr x, c)))"

section \<open>The four methods\<close>

definition accept_manifest ::
    "crates \<Rightarrow> toml_api \<Rightarrow> expected_peer \<Rightarrow> json \<Rightarrow> rpc_client \<Rightarrow> rpc_error + machine_manifest" where
  "accept_manifest C T expected data c =
     and_then (validate_remote_value C data) (\<lambda>_.
     and_then (ok_or (Option.bind (Option.bind (as_object data) (field ''toml'')) as_str)
                 (malformed ''the worker manifest response was malformed'')) (\<lambda>document.
     and_then (map_err (\<lambda>_. new_rpc_error MachineManifestInvalid ''the worker returned an invalid machine manifest'')
                 (parse_toml C T document)) (\<lambda>m.
     and_then (reject_if (to_toml C T m \<noteq> Inr document)
                 (malformed ''the worker returned a noncanonical machine manifest'')) (\<lambda>_.
     and_then (validate_hello_manifest_binding (cl_hello c) m expected) (\<lambda>_. Inr m)))))"

definition client_manifest :: "crates \<Rightarrow> toml_api \<Rightarrow> expected_peer \<Rightarrow> machine_manifest call" where
  "client_manifest C T expected = checked_request C ''machine.manifest'' (JObject []) (accept_manifest C T expected)"

definition accept_status :: "crates \<Rightarrow> json \<Rightarrow> rpc_client \<Rightarrow> rpc_error + machine_status" where
  "accept_status C data c =
     and_then (validate_remote_value C data) (\<lambda>_.
     and_then (ok_or (status_of C data) (malformed ''the worker status response was malformed'')) (\<lambda>status.
     and_then (reject_if (\<not> validate_status_for_client C status (hello_machine_id (cl_hello c)))
                 (malformed ''the worker status response was invalid'')) (\<lambda>_. Inr status)))"

definition client_status :: "crates \<Rightarrow> machine_status call" where
  "client_status C = checked_request C ''machine.status'' (JObject []) (accept_status C)"

definition client_doctor :: "crates \<Rightarrow> string \<Rightarrow> worker_doctor_report call" where
  "client_doctor C key c =
     (case canonical_authorized_public_key C key of
        Inl e \<Rightarrow> (Inl e, c)
      | Inr key \<Rightarrow>
          checked_request C ''machine.doctor'' (JObject [(''authorized_public_key'', JString key)])
            (\<lambda>data _. report_from_remote_value C data) c)"

definition argv_json :: "string list \<Rightarrow> json" where
  "argv_json argv = JObject [(''argv'', JArray (map JString argv))]"

definition client_exec :: "crates \<Rightarrow> string list \<Rightarrow> exec_result call" where
  "client_exec C argv c =
     (case validate_exec_argv C argv of
        Inl e \<Rightarrow> (Inl e, c)
      | Inr _ \<Rightarrow>
          checked_request C ''exec.run'' (argv_json argv)
            (\<lambda>data _. and_then (ok_or (exec_result_of data) (malformed ''the worker exec response was malformed''))
                        (sanitize_result_for_client C)) c)"

text \<open>\<open>finish\<close> consumes the client: what is left of its process after the drop is returned.\<close>

definition client_finish :: "rpc_client \<Rightarrow> (rpc_error + unit) \<times> rpc_process" where
  "client_finish c =
     (if cl_terminated c then (Inl session_terminated, drop_process (cl_process c))
      else case process_finish (cl_process c) of
             (None, p) \<Rightarrow>
               (Inl (new_rpc_error TransportSessionLost ''the RPC process could not be reaped''), drop_process p)
           | (Some success, p) \<Rightarrow>
               ((if success then Inr ()
                 else Inl (new_rpc_error TransportSessionLost ''the RPC process exited unexpectedly'')), drop_process p))"

section \<open>A session as a sequence of calls\<close>

datatype rpc_call = CallManifest expected_peer | CallStatus | CallDoctor string | CallExec "string list"

definition discard :: "(rpc_error + 'a) \<times> rpc_client \<Rightarrow> (rpc_error + unit) \<times> rpc_client" where
  "discard r = (and_then (fst r) (\<lambda>_. Inr ()), snd r)"

primrec client_call :: "crates \<Rightarrow> toml_api \<Rightarrow> rpc_call \<Rightarrow> unit call" where
  "client_call C T (CallManifest expected) c = discard (client_manifest C T expected c)"
| "client_call C T CallStatus c = discard (client_status C c)"
| "client_call C T (CallDoctor key) c = discard (client_doctor C key c)"
| "client_call C T (CallExec argv) c = discard (client_exec C argv c)"

fun client_run :: "crates \<Rightarrow> toml_api \<Rightarrow> rpc_call list \<Rightarrow> rpc_client \<Rightarrow> (rpc_error + unit) list \<times> rpc_client" where
  "client_run C T [] c = ([], c)"
| "client_run C T (call # calls) c =
     (case client_call C T call c of
        (r, c) \<Rightarrow> (case client_run C T calls c of (rs, c) \<Rightarrow> (r # rs, c)))"

text \<open>
  A well-formed state: the session is open, with both pipes and the child it was given, or it
  is terminated and the child was killed and reaped exactly once.
\<close>

definition session_open :: "rpc_client \<Rightarrow> bool" where
  "session_open c \<longleftrightarrow>
     \<not> cl_terminated c \<and> proc_input (cl_process c) \<noteq> None \<and> proc_child (cl_process c) \<noteq> None \<and>
     proc_kills (cl_process c) = 0 \<and> proc_waits (cl_process c) = 0 \<and> 1 \<le> cl_next_id c \<and> cl_next_id c \<le> u64_max"

definition session_closed :: "rpc_client \<Rightarrow> bool" where
  "session_closed c \<longleftrightarrow>
     cl_terminated c \<and> proc_input (cl_process c) = None \<and> proc_child (cl_process c) = None \<and>
     \<not> proc_stderr (cl_process c) \<and> proc_kills (cl_process c) = 1 \<and> proc_waits (cl_process c) = 1 \<and>
     1 \<le> cl_next_id c \<and> cl_next_id c \<le> u64_max"

definition usage_error :: "rpc_error + 'a \<Rightarrow> bool" where
  "usage_error r \<longleftrightarrow> (\<exists>e. r = Inl e \<and> err_code e = UsageInvalidArgument)"

definition fault :: "rpc_error + 'a \<Rightarrow> bool" where
  "fault r \<longleftrightarrow> (\<exists>e. r = Inl e \<and> err_code e \<notin> {UsageInvalidArgument, RemoteExecutionFailed})"

lemma fault_simps [simp]:
  "fault (Inl e) \<longleftrightarrow> err_code e \<notin> {UsageInvalidArgument, RemoteExecutionFailed}" "\<not> fault (Inr x)"
  "usage_error (Inl e) \<longleftrightarrow> err_code e = UsageInvalidArgument" "\<not> usage_error (Inr x)"
  by (auto simp: fault_def usage_error_def)

lemma read_frame_keeps:
  assumes "read_frame C p = (r, q)"
  shows "proc_input q = proc_input p \<and> proc_child q = proc_child p \<and> proc_kills q = proc_kills p \<and>
    proc_waits q = proc_waits p"
  using assms by (auto simp: read_frame_def split: prod.splits)

lemma write_frame_keeps:
  assumes "write_frame C f p = (r, q)"
  shows "(proc_input q = None \<longleftrightarrow> proc_input p = None) \<and> proc_child q = proc_child p \<and> proc_kills q = proc_kills p \<and>
    proc_waits q = proc_waits p"
  using assms by (auto simp: write_frame_def split: prod.splits option.splits)

lemma terminate_open:
  assumes "session_open c" "terminate e c = (r, c')" "err_code e \<notin> {UsageInvalidArgument, RemoteExecutionFailed}"
  shows "session_closed c' \<and> r = Inl e \<and> fault r"
  using assms
  by (auto simp: terminate_def session_open_def session_closed_def process_abort_def abort_child_def fault_def)

text \<open>An open state survives the exchange with the worker; only the counter moves.\<close>

lemma session_open_step:
  assumes "session_open c" "proc_input p \<noteq> None" "proc_child p \<noteq> None" "proc_kills p = 0" "proc_waits p = 0"
    "cl_next_id c < u64_max"
  shows "session_open (c\<lparr>cl_next_id := cl_next_id c + 1, cl_process := p\<rparr>)"
  using assms by (auto simp: session_open_def)

lemma error_codes [simp]:
  "err_code (malformed m) = ProtocolMalformed" "err_code (new_rpc_error code m) = code"
  "err_code (frame_rpc_error e) = (if e = FrameIo then TransportSessionLost else ProtocolMalformed)"
  "err_code remote_execution_failed = RemoteExecutionFailed" "err_code session_terminated = TransportSessionLost"
  "err_code invalid_public_key = UsageInvalidArgument" "err_code invalid_argv = UsageInvalidArgument"
  "err_code doctor_response_invalid = ProtocolMalformed"
  by (simp_all add: malformed_def new_rpc_error_def frame_rpc_error_def remote_execution_failed_def session_terminated_def
      invalid_public_key_def invalid_argv_def doctor_response_invalid_def)

lemma rejection_code_cases: "rejection_code errors \<in> {ProtocolIncompatible, ProtocolMalformed}"
  by (auto simp: rejection_code_def split: option.splits)

lemma receive_response_open:
  assumes "session_open c" "receive_response i frame c = (r, c')"
  shows "(session_open c' \<and> \<not> fault r \<and> \<not> usage_error r \<and> c' = c) \<or> (session_closed c' \<and> fault r)"
proof -
  have mismatch: "?thesis" if "terminate (malformed m) c = (r, c')" for m
    using terminate_open [OF assms(1) that] by auto
  have rejected: "?thesis" if "terminate (new_rpc_error (rejection_code errors) m) c = (r, c')" for errors m
    using terminate_open [OF assms(1) that] rejection_code_cases [of errors] by auto
  show ?thesis
  proof (cases frame)
    case None
    then have "terminate (new_rpc_error TransportSessionLost ''the RPC session ended before its response'') c = (r, c')"
      using assms(2) by (simp add: receive_response_def)
    from terminate_open [OF assms(1) this] show ?thesis by auto
  next
    case (Some f)
    with assms(2) mismatch rejected assms(1) show ?thesis
      by (cases f) (auto simp: receive_response_def fault_def usage_error_def split: if_splits)
  qed
qed

lemma request_open:
  assumes "session_open c" "request C m params c = (r, c')"
  shows "(session_open c' \<and> \<not> fault r \<and> \<not> usage_error r) \<or> (session_closed c' \<and> fault r)"
proof (cases "cl_next_id c = u64_max")
  have live: "\<not> cl_terminated c" using assms(1) by (simp add: session_open_def)
  case True
  then show ?thesis
    using assms(2) live terminate_open [OF assms(1), of "malformed ''RPC request identifier overflow''" r c']
    by (simp add: request_def)
next
  case False
  then have n: "cl_next_id c < u64_max" using assms(1) by (simp add: session_open_def)
  obtain w p where w: "write_frame C (RequestFrame (request_id (cl_next_id c)) m params) (cl_process c) = (w, p)"
    by force
  note wp = write_frame_keeps [OF w]
  have open_p: "session_open (c\<lparr>cl_next_id := cl_next_id c + 1, cl_process := p\<rparr>)"
    using assms(1) wp n by (intro session_open_step) (auto simp: session_open_def)
  show ?thesis
  proof (cases w)
    case (Inl e)
    then show ?thesis
      using assms False w terminate_open [OF open_p, of "frame_rpc_error e" r c']
      by (auto simp: request_def session_open_def)
  next
    case (Inr u)
    obtain f q where q: "read_frame C p = (f, q)" by force
    have open_q: "session_open (c\<lparr>cl_next_id := cl_next_id c + 1, cl_process := q\<rparr>)"
      using assms(1) wp read_frame_keeps [OF q] n by (intro session_open_step) (auto simp: session_open_def)
    show ?thesis
    proof (cases f)
      case (Inl e)
      then show ?thesis
        using assms False w Inr q terminate_open [OF open_q, of "frame_rpc_error e" r c']
        by (auto simp: request_def session_open_def)
    next
      case f: (Inr frame)
      then have "receive_response (request_id (cl_next_id c)) frame (c\<lparr>cl_next_id := cl_next_id c + 1, cl_process := q\<rparr>) = (r, c')"
        using assms False w Inr q by (simp add: request_def session_open_def)
      from receive_response_open [OF open_q this] show ?thesis by blast
    qed
  qed
qed

lemma request_closed: "cl_terminated c \<Longrightarrow> request C m params c = (Inl session_terminated, c)"
  by (simp add: request_def)

definition accept_codes :: "(json \<Rightarrow> rpc_client \<Rightarrow> rpc_error + 'a) \<Rightarrow> bool" where
  "accept_codes accept \<longleftrightarrow>
     (\<forall>data c e. accept data c = Inl e \<longrightarrow> err_code e \<in> {ProtocolMalformed, MachineManifestInvalid})"

lemma checked_request_open:
  assumes "session_open c" "checked_request C m params accept c = (r, c')" "accept_codes accept"
  shows "(session_open c' \<and> \<not> fault r \<and> \<not> usage_error r) \<or> (session_closed c' \<and> fault r)"
proof -
  obtain q c1 where q: "request C m params c = (q, c1)" by force
  note o = request_open [OF assms(1) q]
  show ?thesis
  proof (cases q)
    case (Inl e)
    with q o assms(2) show ?thesis by (auto simp: checked_request_def fault_def usage_error_def)
  next
    case (Inr data)
    then have c1: "session_open c1" using o by (auto simp: fault_def)
    show ?thesis
    proof (cases "accept data c1")
      case (Inl e)
      then have "err_code e \<in> {ProtocolMalformed, MachineManifestInvalid}"
        using assms(3) by (auto simp: accept_codes_def)
      with terminate_open [OF c1, of e r c'] Inl Inr q assms(2) show ?thesis by (auto simp: checked_request_def)
    next
      case x: (Inr x)
      with Inr q assms(2) c1 show ?thesis by (auto simp: checked_request_def fault_def usage_error_def)
    qed
  qed
qed

lemma validate_report_error: "validate_report_for_client C report = Inl e \<Longrightarrow> e = doctor_response_invalid"
  by (auto simp: validate_report_for_client_def split: if_splits)

lemma accept_codes_all:
  "accept_codes (accept_manifest C T expected)" "accept_codes (accept_status C)"
  "accept_codes (\<lambda>data _. report_from_remote_value C data)"
  "accept_codes (\<lambda>data _. and_then (ok_or (exec_result_of data) (malformed m)) (sanitize_result_for_client C))"
  by (auto simp: accept_codes_def accept_manifest_def accept_status_def report_from_remote_value_def result_simps
      validate_remote_value_def validate_hello_manifest_binding_def sanitize_result_for_client_def
      dest!: validate_report_error split: if_splits prod.splits)

lemma argument_errors:
  "canonical_authorized_public_key C key = Inl e \<Longrightarrow> err_code e = UsageInvalidArgument"
  "validate_exec_argv C argv = Inl e \<Longrightarrow> err_code e = UsageInvalidArgument"
  by (auto simp: canonical_authorized_public_key_def validate_exec_argv_def split: if_splits list.splits)

lemma discard_result [simp]: "fault (fst (discard r)) \<longleftrightarrow> fault (fst r)" "usage_error (fst (discard r)) \<longleftrightarrow> usage_error (fst r)"
  "snd (discard r) = snd r"
  by (cases "fst r"; simp add: discard_def fault_def usage_error_def)+

text \<open>The outcome of a call on an open session: still open, or closed by a fault.\<close>

definition settled :: "(rpc_error + 'a) \<times> rpc_client \<Rightarrow> bool" where
  "settled x \<longleftrightarrow> (if fault (fst x) then session_closed (snd x) else session_open (snd x))"

lemma settled_checked:
  "session_open c \<Longrightarrow> accept_codes accept \<Longrightarrow> settled (checked_request C m params accept c)"
  using checked_request_open [of c C m params accept, OF _ surjective_pairing] by (auto simp: settled_def)

lemma settled_usage: "session_open c \<Longrightarrow> err_code e = UsageInvalidArgument \<Longrightarrow> settled (Inl e, c)"
  by (simp add: settled_def fault_def)

lemma settled_discard [simp]: "settled (discard x) \<longleftrightarrow> settled x"
  by (simp add: settled_def)

lemma client_call_open:
  assumes "session_open c"
  shows "settled (client_call C T call c)"
proof (cases call)
  case (CallManifest p)
  then show ?thesis by (simp add: client_manifest_def settled_checked [OF assms accept_codes_all(1)])
next
  case CallStatus
  then show ?thesis by (simp add: client_status_def settled_checked [OF assms accept_codes_all(2)])
next
  case (CallDoctor key)
  then show ?thesis
    by (cases "canonical_authorized_public_key C key")
      (simp_all add: client_doctor_def settled_checked [OF assms accept_codes_all(3)] settled_usage [OF assms] argument_errors)
next
  case (CallExec argv)
  then show ?thesis
    by (cases "validate_exec_argv C argv")
      (simp_all add: client_exec_def settled_checked [OF assms accept_codes_all(4)] settled_usage [OF assms] argument_errors)
qed

lemma client_call_closed:
  assumes "cl_terminated c" "client_call C T call c = (r, c')"
  shows "c' = c \<and> (r = Inl session_terminated \<or> usage_error r)"
proof -
  have checked: "checked_request C m params accept c = (Inl session_terminated, c)" for m params and accept :: "json \<Rightarrow> rpc_client \<Rightarrow> rpc_error + 'x"
    by (simp add: checked_request_def request_closed [OF assms(1)])
  have rc: "r = fst (client_call C T call c)" "c' = snd (client_call C T call c)" using assms(2) by simp_all
  show ?thesis
    using argument_errors
    by (cases call) (auto simp: rc client_manifest_def client_status_def client_doctor_def client_exec_def discard_def checked
        usage_error_def split: sum.splits)
qed

lemma client_run_closed:
  "cl_terminated c \<Longrightarrow> client_run C T calls c = (rs, c') \<Longrightarrow>
     c' = c \<and> length rs = length calls \<and> (\<forall>r \<in> set rs. r = Inl session_terminated \<or> usage_error r)"
proof (induction calls arbitrary: rs)
  case (Cons call calls)
  obtain r c1 where r: "client_call C T call c = (r, c1)" by force
  note cl = client_call_closed [OF Cons.prems(1) r]
  obtain rs' where "client_run C T calls c = (rs', c')" "rs = r # rs'"
    using Cons.prems(2) r cl by (auto split: prod.splits)
  with Cons.IH [OF Cons.prems(1)] cl show ?case by auto
qed simp

lemma client_run_open:
  "session_open c \<Longrightarrow> client_run C T calls c = (rs, c') \<Longrightarrow>
     length rs = length calls \<and>
     (if \<exists>r \<in> set rs. fault r then session_closed c' else session_open c') \<and>
     (\<forall>i j. i < j \<and> j < length rs \<and> fault (rs ! i) \<longrightarrow> rs ! j = Inl session_terminated \<or> usage_error (rs ! j))"
proof (induction calls arbitrary: c rs)
  case (Cons call calls)
  obtain r c1 where r: "client_call C T call c = (r, c1)" by force
  obtain rs' where rs': "client_run C T calls c1 = (rs', c')" "rs = r # rs'"
    using Cons.prems(2) r by (auto split: prod.splits)
  have "(session_open c1 \<and> \<not> fault r) \<or> (session_closed c1 \<and> fault r)"
    using client_call_open [OF Cons.prems(1), of C T call] r by (auto simp: settled_def split: if_splits)
  then show ?case
  proof
    assume a: "session_open c1 \<and> \<not> fault r"
    then have nr: "\<not> fault r" by simp
    have ih: "length rs' = length calls \<and>
        (if \<exists>r \<in> set rs'. fault r then session_closed c' else session_open c') \<and>
        (\<forall>i j. i < j \<and> j < length rs' \<and> fault (rs' ! i) \<longrightarrow> rs' ! j = Inl session_terminated \<or> usage_error (rs' ! j))"
      using Cons.IH [OF _ rs'(1)] a by blast
    have "rs ! j = Inl session_terminated \<or> usage_error (rs ! j)"
      if "i < j" "j < length rs" "fault (rs ! i)" for i j
    proof -
      have "0 < j" using that(1) by simp
      then obtain j' where j: "j = Suc j'" using gr0_implies_Suc by blast
      have "i \<noteq> 0" using that(3) nr rs'(2) by (metis nth_Cons_0)
      then obtain i' where i: "i = Suc i'" using not0_implies_Suc by blast
      show ?thesis using ih that i j rs'(2) by simp
    qed
    moreover have "(if \<exists>r \<in> set rs. fault r then session_closed c' else session_open c')"
      using ih nr rs'(2) by simp
    moreover have "length rs = length (call # calls)" using ih rs'(2) by simp
    ultimately show ?thesis by blast
  next
    assume a: "session_closed c1 \<and> fault r"
    then have "cl_terminated c1" by (simp add: session_closed_def)
    from client_run_closed [OF this rs'(1)] a rs'(2) show ?thesis
      by (auto simp: less_Suc_eq_0_disj nth_Cons split: nat.splits)
  qed
qed simp

lemma connect_open:
  assumes "connect C p = Inr c" "proc_input p \<noteq> None" "proc_child p \<noteq> None" "proc_kills p = 0" "proc_waits p = 0"
  shows "session_open c \<and> negotiate_server_hello (cl_hello c) = Inr 1 \<and> cl_next_id c = 1"
proof -
  have neg: "negotiate_server_hello h = Inr n \<Longrightarrow> n = 1" for h n
    by (auto simp: negotiate_server_hello_def highest_protocol_intersection_def protocol_min_def protocol_max_def
        result_simps Let_def min_def max_def split: if_splits)
  obtain r q where q: "read_frame C p = (r, q)" by force
  with assms(1) obtain hello n u p' where h: "r = Inr (Some (ServerHelloFrame hello))" "negotiate_server_hello hello = Inr n"
      "write_frame C (ClientHelloFrame \<lparr>sel_protocol = n, sel_styrn_version = cargo_pkg_version\<rparr>) q = (Inr u, p')"
      "c = \<lparr>cl_process = p', cl_hello = hello, cl_next_id = 1, cl_terminated = False\<rparr>"
    by (auto simp: connect_def connect_failed_def split: sum.splits option.splits frame.splits prod.splits)
  with write_frame_keeps [OF h(3)] assms read_frame_keeps [OF q] neg [OF h(2)] show ?thesis
    by (auto simp: session_open_def u64_max_def)
qed

lemma connect_failure_drops:
  assumes "connect C p = Inl (e, q)" "proc_child p \<noteq> None"
  shows "proc_input q = None \<and> proc_child q = None \<and> proc_kills q = Suc (proc_kills p)"
proof -
  have drop: "proc_input (drop_process x) = None \<and> proc_child (drop_process x) = None \<and> proc_kills (drop_process x) = Suc (proc_kills p)"
    if "proc_child x = proc_child p" "proc_kills x = proc_kills p" for x
    using that assms(2) by (cases "proc_child p") (simp_all add: drop_process_def process_abort_def abort_child_def)
  obtain r x where x: "read_frame C p = (r, x)" by force
  have w: "proc_child (snd (write_frame C f x)) = proc_child p \<and> proc_kills (snd (write_frame C f x)) = proc_kills p" for f
    using write_frame_keeps [of C f x "fst (write_frame C f x)" "snd (write_frame C f x)"] read_frame_keeps [OF x] by simp
  have "\<exists>y. q = drop_process y \<and> proc_child y = proc_child p \<and> proc_kills y = proc_kills p"
  proof (cases "\<exists>hello. r = Inr (Some (ServerHelloFrame hello))")
    case False
    then have "q = drop_process x"
      using assms(1) x
      by (cases r; cases "projr r"; cases "the (projr r)") (simp_all add: connect_def connect_failed_def)
    with read_frame_keeps [OF x] show ?thesis by (intro exI [of _ x]) simp
  next
    case True
    then obtain hello where r: "r = Inr (Some (ServerHelloFrame hello))" by blast
    have "\<exists>f. q = drop_process (snd (write_frame C f x))"
    proof (cases "negotiate_server_hello hello")
      case (Inl e)
      then have "q = drop_process (snd (write_frame C (ErrorFrame ''hello'' [incompatible_server_hello_diagnostic hello]) x))"
        using assms(1) x r by (simp add: connect_def connect_failed_def)
      then show ?thesis by blast
    next
      case (Inr n)
      define f where "f = ClientHelloFrame \<lparr>sel_protocol = n, sel_styrn_version = cargo_pkg_version\<rparr>"
      obtain u y where y: "write_frame C f x = (u, y)" by force
      have "q = drop_process y"
        using assms(1) x r Inr y [unfolded f_def] by (cases u) (simp_all add: connect_def connect_failed_def)
      with y show ?thesis by (intro exI [of _ f]) simp
    qed
    with w show ?thesis by blast
  qed
  then obtain y where y: "q = drop_process y" "proc_child y = proc_child p" "proc_kills y = proc_kills p" by metis
  show ?thesis unfolding y(1) by (rule drop [OF y(2,3)])
qed

text \<open>
  C12. A session stays well formed whatever the worker sends and whatever the controller calls:
  it is open, with its pipes and its child untouched, until the first fault, and from then on
  it is closed, with the child killed and reaped exactly once. Only a failure that the worker
  reports and arguments the controller itself refuses leave it open, and after a fault every
  call is refused.
\<close>

theorem session_well_formed:
  assumes "connect C (new_ssh_process child input output) = Inr c" "client_run C T calls c = (rs, c')"
  shows "length rs = length calls \<and>
     (if \<exists>r \<in> set rs. fault r then session_closed c' else session_open c') \<and>
     (\<forall>i j. i < j \<and> j < length rs \<and> fault (rs ! i) \<longrightarrow> rs ! j = Inl session_terminated \<or> usage_error (rs ! j))"
proof -
  have "session_open c"
    using connect_open [OF assms(1)] by (simp add: new_ssh_process_def new_rpc_process_def)
  then show ?thesis using assms(2) by (rule client_run_open)
qed

definition demo_hello :: server_hello where
  "demo_hello =
     \<lparr>hello_protocol_min = 1, hello_protocol_max = 3, hello_styrn_version = ''0.1.0'', hello_machine_id = demo_uuid,
      hello_name = ''atlas'', hello_manifest_schema_version = 1\<rparr>"

definition demo_hello_crates :: crates where
  "demo_hello_crates = demo_crates
     \<lparr>json_text := (\<lambda>_. ''F''), json_parse := (\<lambda>_. Some (frame_json demo_crates (ServerHelloFrame demo_hello)))\<rparr>"

definition open_sink :: sink where
  "open_sink = \<lparr>written = [], sink_room = None\<rparr>"

definition stream :: "string \<Rightarrow> source" where
  "stream bytes = \<lparr>source_bytes = bytes, source_broken = False\<rparr>"

lemma demo_hello_read:
  "frame_read demo_hello_crates (stream (''F'' @ line_feed # rest)) = (Inr (Some (ServerHelloFrame demo_hello)), stream rest)"
proof -
  have json: "frame_json demo_hello_crates (ServerHelloFrame demo_hello) = frame_json demo_crates (ServerHelloFrame demo_hello)"
    by (simp add: demo_hello_crates_def demo_crates_def)
  have line: "frame_text demo_hello_crates (ServerHelloFrame demo_hello) = ''F''"
    by (simp add: frame_text_def demo_hello_crates_def)
  have v7: "is_uuid_v7 demo_hello_crates demo_uuid"
    using demo_uuid_v7 by (simp add: is_uuid_v7_def demo_hello_crates_def)
  have parse: "uuid_parse demo_hello_crates (uuid_text demo_hello_crates demo_uuid) = Some demo_uuid"
    using demo_uuid_text_parses [of demo_uuid] by (simp add: demo_hello_crates_def del: demo_crates_sel)
  have "valid_frame demo_hello_crates (ServerHelloFrame demo_hello)"
    using v7 parse by (simp add: demo_hello_def text_within_def max_version_bytes_def max_name_bytes_def u32_max_def u64_max_def)
  moreover have "utf8_valid ''F''" by code_simp
  then have "json_faithful demo_hello_crates (frame_json demo_hello_crates (ServerHelloFrame demo_hello))"
    unfolding json by (simp add: json_faithful_def demo_hello_crates_def line_feed_def)
  ultimately have "transmissible demo_hello_crates (ServerHelloFrame demo_hello)"
    by (simp add: transmissible_def line max_frame_bytes_def)
  from frames.read_written [OF this] show ?thesis by (simp add: line frame_read_value stream_def)
qed

lemma demo_client_write [simp]:
  "frame_write demo_hello_crates f \<lparr>written = w, sink_room = None\<rparr> =
     (Inr (), \<lparr>written = w @ ''F'' @ [line_feed], sink_room = None\<rparr>)"
  by (simp add: frame_write_def write_all_def demo_hello_crates_def max_frame_bytes_def)

lemma frame_read_end: "frame_read C (stream []) = (Inr None, stream [])"
  by (simp add: frame_read_def read_until_newline_def stream_def)

theorem session_well_formed_witness:
  "\<exists>c rs c'. connect demo_hello_crates (new_ssh_process (Some True) open_sink (stream (''F'' @ [line_feed]))) = Inr c \<and>
     client_run demo_hello_crates demo_toml [CallStatus, CallStatus] c = (rs, c') \<and>
     session_closed c' \<and> rs ! 1 = Inl session_terminated"
proof -
  define p where "p = new_ssh_process (Some True) open_sink (stream (''F'' @ [line_feed]))"
  define c where "c = \<lparr>cl_process = p\<lparr>proc_output := stream [], proc_input := Some \<lparr>written = ''F'' @ [line_feed], sink_room = None\<rparr>\<rparr>,
     cl_hello = demo_hello, cl_next_id = 1, cl_terminated = False\<rparr>"
  have neg: "negotiate_server_hello demo_hello = Inr 1"
    by (simp add: negotiate_server_hello_def demo_hello_def manifest_schema_version_def highest_protocol_intersection_def
        protocol_min_def protocol_max_def)
  have con: "connect demo_hello_crates p = Inr c"
    using demo_hello_read [of "[]"]
    by (simp add: connect_def read_frame_def write_frame_def p_def c_def new_ssh_process_def new_rpc_process_def neg open_sink_def)
  have lost: "fst (client_call demo_hello_crates demo_toml CallStatus c) =
      Inl (new_rpc_error TransportSessionLost ''the RPC session ended before its response'')"
    by (simp add: client_status_def checked_request_def request_def c_def p_def new_ssh_process_def new_rpc_process_def
        read_frame_def write_frame_def frame_read_end receive_response_def terminate_def u64_max_def discard_def)
  define c1 where "c1 = snd (client_call demo_hello_crates demo_toml CallStatus c)"
  have opened: "session_open c"
    using connect_open [OF con] by (simp add: p_def new_ssh_process_def new_rpc_process_def open_sink_def)
  have "settled (client_call demo_hello_crates demo_toml CallStatus c)" by (rule client_call_open [OF opened])
  then have c1: "cl_terminated c1" by (simp add: settled_def lost c1_def session_closed_def del: client_call.simps)
  then have second: "client_call demo_hello_crates demo_toml CallStatus c1 = (Inl session_terminated, c1)"
    by (simp add: client_status_def checked_request_def request_closed discard_def)
  obtain rs c' where run: "client_run demo_hello_crates demo_toml [CallStatus, CallStatus] c = (rs, c')" by force
  then have rs: "rs ! 0 = Inl (new_rpc_error TransportSessionLost ''the RPC session ended before its response'')"
      "rs ! 1 = Inl session_terminated"
    using lost second by (auto simp: c1_def simp del: client_call.simps split: prod.splits)
  then have f: "fault (rs ! 0)" by simp
  note ok = session_well_formed [OF con [unfolded p_def] run]
  then have len: "length rs = 2" by simp
  then have "\<exists>r \<in> set rs. fault r" using f by (metis nth_mem zero_less_numeral)
  then show ?thesis using con run ok rs(2) unfolding p_def by auto
qed

end
