(* ===== verification/RpcServer.thy ===== *)
theory RpcServer
  imports RpcValues ManifestStore
begin

text \<open>
  The worker's end of the RPC session (\<open>src/rpc/server.rs\<close>): the handshake, the request loop
  over the frame reader and writer, the four methods, and the execution of a command with its
  two capture threads. What the machine answers to a method is a parameter (\<open>worker_env\<close>): its
  resources, its probes and the behaviour of a spawned command. A child that never exits gives
  no result; the outer \<open>None\<close> of a handler is that case.
\<close>

section \<open>Captured output\<close>

text \<open>
  What one read of a pipe gives; the end of the list is the end of the stream. A read returns
  at most 8192 bytes.
\<close>

datatype read_event = ReadChunk string | ReadInterrupted | ReadFailed

record capture =
  ca_bytes :: string
  ca_overflow :: bool

text \<open>
  The loop of a capture thread: what it returns (\<open>None\<close> for a read error), and whether it has
  sent the signal that stops the child.
\<close>

fun capture_loop :: "string \<Rightarrow> bool \<Rightarrow> read_event list \<Rightarrow> capture option \<times> bool" where
  "capture_loop bytes overflow [] = (Some \<lparr>ca_bytes = bytes, ca_overflow = overflow\<rparr>, overflow)"
| "capture_loop bytes overflow (ReadInterrupted # events) = capture_loop bytes overflow events"
| "capture_loop bytes overflow (ReadFailed # events) = (None, True)"
| "capture_loop bytes overflow (ReadChunk chunk # events) =
     (let remaining = max_exec_capture_bytes - length bytes
      in capture_loop (bytes @ take (min (length chunk) remaining) chunk)
           (overflow \<or> remaining < length chunk) events)"

definition capture_thread :: "read_event list \<Rightarrow> capture option \<times> bool" where
  "capture_thread events = capture_loop [] False events"

definition sanitize_capture :: "crates \<Rightarrow> string \<Rightarrow> string \<times> bool \<times> bool" where
  "sanitize_capture C bytes =
     (let lossy = \<not> utf8_valid bytes; decoded = from_utf8_lossy bytes
      in if contains_secret_shaped_text C decoded then (redacted_output, lossy, True) else (decoded, lossy, False))"

section \<open>Running a command\<close>

datatype handler_error = HandlerMalformed | HandlerRemote

text \<open>
  One turn of the waiting loop: whether the signal of a capture thread is received, and what
  \<open>try_wait\<close> says. An exit code is absent when a signal ended the child.
\<close>

datatype wait_status = StillRunning | ChildExited "int option" | WaitFailed

record child_run =
  cr_stdout :: "read_event list"
  cr_stderr :: "read_event list"
  cr_turns :: "(bool \<times> wait_status) list"
  cr_duration_ms :: nat

fun wait_loop :: "(bool \<times> wait_status) list \<Rightarrow> (handler_error + int option) option" where
  "wait_loop [] = None"
| "wait_loop ((signalled, status) # turns) =
     (if signalled then Some (Inl HandlerRemote)
      else case status of
             ChildExited code \<Rightarrow> Some (Inr code)
           | StillRunning \<Rightarrow> wait_loop turns
           | WaitFailed \<Rightarrow> Some (Inl HandlerRemote))"

definition joined_captures :: "child_run \<Rightarrow> handler_error + capture \<times> capture" where
  "joined_captures run =
     and_then (ok_or (fst (capture_thread (cr_stdout run))) HandlerRemote) (\<lambda>out.
     and_then (ok_or (fst (capture_thread (cr_stderr run))) HandlerRemote) (\<lambda>err.
       Inr (out, err)))"

definition exec_result_from :: "crates \<Rightarrow> child_run \<Rightarrow> int option \<Rightarrow> handler_error + exec_result" where
  "exec_result_from C run code =
     and_then (joined_captures run) (\<lambda>(out, err).
     if ca_overflow out \<or> ca_overflow err then Inl HandlerRemote
     else and_then (ok_or code HandlerRemote) (\<lambda>code.
       let (out_text, out_lossy, out_redacted) = sanitize_capture C (ca_bytes out);
           (err_text, err_lossy, err_redacted) = sanitize_capture C (ca_bytes err)
       in Inr \<lparr>ex_exit_code = code, ex_stdout = out_text, ex_stderr = err_text,
               ex_duration_ms = (if u64_max < cr_duration_ms run then u64_max else cr_duration_ms run),
               ex_stdout_lossy = out_lossy, ex_stderr_lossy = err_lossy,
               ex_stdout_redacted = out_redacted, ex_stderr_redacted = err_redacted\<rparr>))"

definition run_exec :: "crates \<Rightarrow> child_run option \<Rightarrow> (handler_error + exec_result) option" where
  "run_exec C spawned =
     (case spawned of
        None \<Rightarrow> Some (Inl HandlerRemote)
      | Some run \<Rightarrow>
          map_option (\<lambda>status. and_then status (exec_result_from C run)) (wait_loop (cr_turns run)))"

section \<open>Handlers\<close>

record worker_env =
  we_resources :: host_resources
  we_baseline :: baseline_api
  we_spawn :: "string list \<Rightarrow> child_run option"

definition parse_empty :: "json \<Rightarrow> handler_error + unit" where
  "parse_empty params =
     (if is_some_and (\<lambda>kvs. kvs = []) (as_object params) then Inr () else Inl HandlerMalformed)"

text \<open>\<open>deny_unknown_fields\<close>: a struct of one field.\<close>

definition only_field :: "(json \<Rightarrow> 'a option) \<Rightarrow> string \<Rightarrow> json \<Rightarrow> 'a option" where
  "only_field conv name v =
     Option.bind (struct_fields [name] v) (\<lambda>kvs.
       if list_all (\<lambda>kv. fst kv = name) kvs then req_field conv name kvs else None)"

definition doctor_params :: "json \<Rightarrow> string option" where
  "doctor_params = only_field as_str ''authorized_public_key''"

definition exec_params :: "json \<Rightarrow> string list option" where
  "exec_params = only_field string_list_of ''argv''"

definition handle_manifest :: "crates \<Rightarrow> toml_api \<Rightarrow> machine_manifest \<Rightarrow> json \<Rightarrow> handler_error + json" where
  "handle_manifest C T m params =
     and_then (parse_empty params) (\<lambda>_.
       map_err (\<lambda>_. HandlerRemote) (and_then (to_toml C T m) (\<lambda>document.
         Inr (JObject [(''toml'', JString document)]))))"

definition handle_status :: "crates \<Rightarrow> worker_env \<Rightarrow> machine_manifest \<Rightarrow> json \<Rightarrow> handler_error + json" where
  "handle_status C env m params =
     and_then (parse_empty params) (\<lambda>_.
     and_then (ok_or (capture_machine_status C (we_resources env) m) HandlerRemote) (\<lambda>status.
       Inr (status_json C status)))"

definition doctor_report ::
    "crates \<Rightarrow> machine_manifest \<Rightarrow> probe_catalog_error + doctor_finding list \<Rightarrow> handler_error + json" where
  "doctor_report C m findings =
     and_then (map_err (\<lambda>_. HandlerRemote) findings) (\<lambda>findings.
     and_then (ok_or (those (map (\<lambda>f. worker_finding_of (canonical (doctor_finding_json C f))) findings))
                 HandlerRemote) (\<lambda>findings.
       let pending = (case pending_actions m of None \<Rightarrow> [] | Some actions \<Rightarrow> actions);
           report = \<lparr>wr_findings = findings @
                       map (\<lambda>(index, action). from_pending_action index action) (enumerate 0 pending),
                     wr_coverage = ''phase1_minimum'', wr_complete = False\<rparr>
       in and_then (map_err (\<lambda>_. HandlerRemote) (validate_report_for_client C report)) (\<lambda>_.
            Inr (canonical (report_json report)))))"

definition handle_doctor ::
    "crates \<Rightarrow> worker_env \<Rightarrow> machine_manifest \<Rightarrow> json \<Rightarrow> (handler_error + json) option" where
  "handle_doctor C env m params =
     (case doctor_params params of
        None \<Rightarrow> Some (Inl HandlerMalformed)
      | Some key \<Rightarrow>
          (case canonical_authorized_public_key C key of
             Inl _ \<Rightarrow> Some (Inl HandlerMalformed)
           | Inr key \<Rightarrow> map_option (doctor_report C m) (worker_doctor_findings C (we_baseline env) m key)))"

definition handle_exec :: "crates \<Rightarrow> worker_env \<Rightarrow> json \<Rightarrow> (handler_error + json) option" where
  "handle_exec C env params =
     (case exec_params params of
        None \<Rightarrow> Some (Inl HandlerMalformed)
      | Some argv \<Rightarrow>
          (case validate_exec_argv C argv of
             Inl _ \<Rightarrow> Some (Inl HandlerMalformed)
           | Inr _ \<Rightarrow>
               map_option (\<lambda>r. and_then r (\<lambda>r. Inr (canonical (exec_result_json r)))) (run_exec C (we_spawn env argv))))"

definition handle_request ::
    "crates \<Rightarrow> toml_api \<Rightarrow> worker_env \<Rightarrow> machine_manifest \<Rightarrow> string \<Rightarrow> json \<Rightarrow> (handler_error + json) option" where
  "handle_request C T env m method params =
     (if method = ''machine.manifest'' then Some (handle_manifest C T m params)
      else if method = ''machine.status'' then Some (handle_status C env m params)
      else if method = ''machine.doctor'' then handle_doctor C env m params
      else if method = ''exec.run'' then handle_exec C env params
      else Some (Inl HandlerMalformed))"

section \<open>The session\<close>

type_synonym served = "(rpc_error + unit) \<times> sink"

definition protocol_failure :: "crates \<Rightarrow> string \<Rightarrow> error_code \<Rightarrow> sink \<Rightarrow> served" where
  "protocol_failure C i code out =
     (let message = (if code = ProtocolIncompatible then ''the selected RPC protocol is incompatible''
                     else ''the RPC peer sent a malformed frame'')
      in (Inl (new_rpc_error code message),
          snd (frame_write C (ErrorFrame i [new_rpc_diagnostic (code_str code) message]) out)))"

definition remote_failure_frame :: "string \<Rightarrow> frame" where
  "remote_failure_frame i =
     ResponseFrame i False None [new_rpc_diagnostic (code_str RemoteExecutionFailed) remote_execution_failed_message]"

definition request_name :: "nat \<Rightarrow> string" where
  "request_name n = ''c'' @ show_nat n"

text \<open>A response that is too large for a frame is replaced by a failure.\<close>

definition write_response :: "crates \<Rightarrow> string \<Rightarrow> frame \<Rightarrow> sink \<Rightarrow> (rpc_error + unit) \<times> sink" where
  "write_response C i response out =
     (case frame_write C response out of
        (Inr _, out) \<Rightarrow> (Inr (), out)
      | (Inl e, out) \<Rightarrow>
          if e = FrameOversize
          then (case frame_write C (remote_failure_frame i) out of (r, out) \<Rightarrow> (map_err frame_rpc_error r, out))
          else (Inl (frame_rpc_error e), out))"

lemma read_until_newline_rest: "read_until_newline l inp = (Inr bytes, rest) \<Longrightarrow>
    length (source_bytes rest) \<le> length (source_bytes inp) \<and>
    (bytes \<noteq> [] \<longrightarrow> 0 < l \<longrightarrow> length (source_bytes rest) < length (source_bytes inp))"
  by (cases "source_bytes inp") (auto simp: read_until_newline_def Let_def split: if_splits)

lemma frame_read_rest:
  "frame_read C inp = (Inr (Some f), rest) \<Longrightarrow> length (source_bytes rest) < length (source_bytes inp)"
  using read_until_newline_rest [of "max_frame_bytes + 2" inp]
  by (auto simp: frame_read_def max_frame_bytes_def split: prod.splits sum.splits if_splits)

text \<open>
  The request loop. Every turn takes a frame off the input, so it ends; \<open>None\<close> is a handler
  that never returns. \<open>envs n\<close> is the machine at request \<open>n\<close>.
\<close>

function serve_loop ::
    "crates \<Rightarrow> toml_api \<Rightarrow> (nat \<Rightarrow> worker_env) \<Rightarrow> machine_manifest \<Rightarrow> nat \<Rightarrow> source \<Rightarrow> sink \<Rightarrow> served option" where
  "serve_loop C T envs m next_id inp out =
     (case frame_read C inp of
        (Inr None, _) \<Rightarrow> Some (Inr (), out)
      | (Inl e, _) \<Rightarrow>
          if e = FrameIo then Some (Inl (frame_rpc_error e), out)
          else Some (protocol_failure C ''hello'' ProtocolMalformed out)
      | (Inr (Some frame), rest) \<Rightarrow>
          (case frame of
             RequestFrame i method params \<Rightarrow>
               if i \<noteq> request_name next_id then Some (protocol_failure C i ProtocolMalformed out)
               else if next_id = u64_max then Some (Inl (malformed ''RPC request identifier overflow''), out)
               else (case handle_request C T (envs next_id) m method params of
                       None \<Rightarrow> None
                     | Some (Inl HandlerMalformed) \<Rightarrow> Some (protocol_failure C i ProtocolMalformed out)
                     | Some r \<Rightarrow>
                         (case write_response C i
                                 (case r of Inr data \<Rightarrow> ResponseFrame i True (Some data) []
                                          | Inl _ \<Rightarrow> remote_failure_frame i) out of
                            (Inl e, out) \<Rightarrow> Some (Inl e, out)
                          | (Inr _, out) \<Rightarrow> serve_loop C T envs m (next_id + 1) rest out))
           | _ \<Rightarrow> Some (protocol_failure C ''hello'' ProtocolMalformed out)))"
  by pat_completeness auto
termination
  by (relation "measure (\<lambda>(C, T, envs, m, next_id, inp, out). length (source_bytes inp))")
    (auto dest: frame_read_rest [OF sym])

declare serve_loop.simps [simp del]

definition server_hello_of :: "machine_manifest \<Rightarrow> server_hello" where
  "server_hello_of m =
     \<lparr>hello_protocol_min = protocol_min, hello_protocol_max = protocol_max, hello_styrn_version = cargo_pkg_version,
      hello_machine_id = machine_id m, hello_name = machine_name m, hello_manifest_schema_version = schema_version m\<rparr>"

definition is_controller_refusal :: "frame \<Rightarrow> bool" where
  "is_controller_refusal f =
     (case f of
        ErrorFrame i [e] \<Rightarrow> i = ''hello'' \<and> rpc_code e = code_str ProtocolIncompatible \<and> rpc_details e = None
      | _ \<Rightarrow> False)"

definition serve_manifest ::
    "crates \<Rightarrow> toml_api \<Rightarrow> (nat \<Rightarrow> worker_env) \<Rightarrow> machine_manifest \<Rightarrow> source \<Rightarrow> sink \<Rightarrow> served option" where
  "serve_manifest C T envs m inp out =
     (case frame_write C (ServerHelloFrame (server_hello_of m)) out of
        (Inl e, out) \<Rightarrow> Some (Inl (frame_rpc_error e), out)
      | (Inr _, out) \<Rightarrow>
          (case frame_read C inp of
             (Inr None, _) \<Rightarrow> Some (Inr (), out)
           | (Inl e, _) \<Rightarrow>
               if e = FrameIo then Some (Inl (frame_rpc_error e), out)
               else Some (protocol_failure C ''hello'' ProtocolMalformed out)
           | (Inr (Some frame), rest) \<Rightarrow>
               if is_controller_refusal frame then Some (Inr (), out)
               else (case frame of
                       ClientHelloFrame selection \<Rightarrow>
                         if sel_protocol selection < protocol_min \<or> protocol_max < sel_protocol selection
                         then Some (protocol_failure C ''hello'' ProtocolIncompatible out)
                         else serve_loop C T envs m 1 rest out
                     | _ \<Rightarrow> Some (protocol_failure C ''hello'' ProtocolMalformed out))))"

text \<open>The store is the configured one; its identity is repaired before the first byte is sent.\<close>

definition serve ::
    "world \<Rightarrow> manifest_store \<Rightarrow> (nat \<Rightarrow> worker_env) \<Rightarrow> source \<Rightarrow> sink \<Rightarrow> disk \<Rightarrow> served option \<times> disk" where
  "serve W s envs inp out d =
     (case read_or_reconcile_missing_machine_id W s d of
        (Inl _, d) \<Rightarrow>
          (Some (Inl (new_rpc_error MachineManifestInvalid ''the configured machine manifest is invalid''), out), d)
      | (Inr outcome, d) \<Rightarrow> (serve_manifest (w_crates W) (w_toml W) envs (ro_manifest outcome) inp out, d))"

end
