(* ===== verification/RpcSession.thy ===== *)
theory RpcSession
  imports RpcClient RpcServer
begin

text \<open>
  The two ends of the session together: what each writes is what the other reads. The first
  part shows that a session of well-formed requests is answered request by request, the second
  that the server returns for every input, and the rest what the single methods deliver.
\<close>

section \<open>A session of requests\<close>

definition frame_line :: "crates \<Rightarrow> frame \<Rightarrow> string" where
  "frame_line C f = frame_text C f @ [line_feed]"

definition frame_lines :: "crates \<Rightarrow> frame list \<Rightarrow> string" where
  "frame_lines C fs = concat (map (frame_line C) fs)"

definition sink_of :: "string \<Rightarrow> sink" where
  "sink_of w = \<lparr>written = w, sink_room = None\<rparr>"

fun client_requests ::
    "crates \<Rightarrow> (string \<times> json) list \<Rightarrow> rpc_client \<Rightarrow> (rpc_error + json) list \<times> rpc_client" where
  "client_requests C [] c = ([], c)"
| "client_requests C ((verb, params) # rs) c =
     (case request C verb params c of
        (r, c) \<Rightarrow> (case client_requests C rs c of (answers, c) \<Rightarrow> (r # answers, c)))"

fun request_frames :: "nat \<Rightarrow> (string \<times> json) list \<Rightarrow> frame list" where
  "request_frames n [] = []"
| "request_frames n ((verb, params) # rs) = RequestFrame (request_id n) verb params # request_frames (n + 1) rs"

text \<open>The frame the server answers with, and what the client makes of it.\<close>

definition reply_frame :: "crates \<Rightarrow> nat \<Rightarrow> handler_error + json \<Rightarrow> frame" where
  "reply_frame C n r =
     (let f = (case r of Inr data \<Rightarrow> ResponseFrame (request_id n) True (Some data) []
                       | Inl _ \<Rightarrow> remote_failure_frame (request_id n))
      in if max_frame_bytes < length (frame_text C f) then remote_failure_frame (request_id n) else f)"

definition reply_of :: "frame \<Rightarrow> rpc_error + json" where
  "reply_of f = (case f of ResponseFrame _ True (Some data) _ \<Rightarrow> Inr data | _ \<Rightarrow> Inl remote_execution_failed)"

fun replies ::
    "crates \<Rightarrow> toml_api \<Rightarrow> (nat \<Rightarrow> worker_env) \<Rightarrow> machine_manifest \<Rightarrow> nat \<Rightarrow> (string \<times> json) list \<Rightarrow> frame list option"
where
  "replies C T envs m n [] = Some []"
| "replies C T envs m n ((verb, params) # rs) =
     (case handle_request C T (envs n) m verb params of
        None \<Rightarrow> None
      | Some (Inl HandlerMalformed) \<Rightarrow> None
      | Some r \<Rightarrow> map_option (\<lambda>fs. reply_frame C n r # fs) (replies C T envs m (n + 1) rs))"

lemma request_name_id: "request_name n = request_id n"
  by (simp add: request_name_def request_id_def)

lemma read_line_frame:
  "transmissible C f \<Longrightarrow> frame_read C (stream (frame_line C f @ rest)) = (Inr (Some f), stream rest)"
  using frames.read_written [of C f rest False] by (simp add: frame_read_value frame_line_def stream_def)

lemma write_line_frame:
  "length (frame_text C f) \<le> max_frame_bytes \<Longrightarrow> frame_write C f (sink_of w) = (Inr (), sink_of (w @ frame_line C f))"
  by (simp add: sink_of_def frame_line_def frame_write_open)

lemma transmissible_length: "transmissible C f \<Longrightarrow> length (frame_text C f) \<le> max_frame_bytes"
  by (simp add: transmissible_def)

lemma reply_frame_failure: "r = Inl e \<Longrightarrow> reply_frame C n r = remote_failure_frame (request_id n)"
  by (simp add: reply_frame_def Let_def)

lemma write_reply:
  assumes "transmissible C (reply_frame C n r)"
  shows "write_response C (request_id n)
      (case r of Inr data \<Rightarrow> ResponseFrame (request_id n) True (Some data) [] | Inl _ \<Rightarrow> remote_failure_frame (request_id n))
      (sink_of w) = (Inr (), sink_of (w @ frame_line C (reply_frame C n r)))"
proof -
  define f where "f = (case r of Inr data \<Rightarrow> ResponseFrame (request_id n) True (Some data) []
      | Inl _ \<Rightarrow> remote_failure_frame (request_id n))"
  have reply: "reply_frame C n r = (if max_frame_bytes < length (frame_text C f) then remote_failure_frame (request_id n) else f)"
    by (simp add: reply_frame_def f_def Let_def)
  show ?thesis
  proof (cases "max_frame_bytes < length (frame_text C f)")
    case True
    then have "frame_write C f (sink_of w) = (Inl FrameOversize, sink_of w)"
      by (simp add: frame_write_def frame_text_def Let_def)
    moreover have "frame_write C (remote_failure_frame (request_id n)) (sink_of w) =
        (Inr (), sink_of (w @ frame_line C (remote_failure_frame (request_id n))))"
      using assms reply True by (intro write_line_frame transmissible_length) simp
    ultimately show ?thesis unfolding f_def [symmetric] using reply True by (simp add: write_response_def)
  next
    case False
    then show ?thesis
      unfolding f_def [symmetric] using reply write_line_frame [of C f w] by (simp add: write_response_def)
  qed
qed

lemma serve_requests:
  "replies C T envs m n rs = Some fs \<Longrightarrow> list_all (transmissible C) (request_frames n rs @ fs) \<Longrightarrow>
     n + length rs \<le> u64_max \<Longrightarrow>
     serve_loop C T envs m n (stream (frame_lines C (request_frames n rs))) (sink_of w)
       = Some (Inr (), sink_of (w @ frame_lines C fs))"
proof (induction rs arbitrary: n fs w)
  case Nil
  then show ?case by (simp add: serve_loop.simps frame_lines_def frame_read_end)
next
  case (Cons r rs)
  obtain verb params where r: "r = (verb, params)" by force
  from Cons.prems(1) obtain a fs' where a: "handle_request C T (envs n) m verb params = Some a" "a \<noteq> Inl HandlerMalformed"
      "replies C T envs m (n + 1) rs = Some fs'" "fs = reply_frame C n a # fs'"
    by (auto simp: r split: option.splits sum.splits handler_error.splits)
  have read: "frame_read C (stream (frame_lines C (request_frames n (r # rs)))) =
      (Inr (Some (RequestFrame (request_id n) verb params)), stream (frame_lines C (request_frames (n + 1) rs)))"
    using Cons.prems(2) by (simp add: r frame_lines_def read_line_frame)
  have wr: "write_response C (request_id n)
      (case a of Inr data \<Rightarrow> ResponseFrame (request_id n) True (Some data) [] | Inl _ \<Rightarrow> remote_failure_frame (request_id n))
      (sink_of w) = (Inr (), sink_of (w @ frame_line C (reply_frame C n a)))"
    using Cons.prems(2) a(4) by (intro write_reply) simp
  have ih: "serve_loop C T envs m (n + 1) (stream (frame_lines C (request_frames (n + 1) rs)))
      (sink_of (w @ frame_line C (reply_frame C n a))) =
      Some (Inr (), sink_of ((w @ frame_line C (reply_frame C n a)) @ frame_lines C fs'))"
    using Cons.prems a by (intro Cons.IH) (auto simp: r)
  have "n \<noteq> u64_max" using Cons.prems(3) by simp
  then have "serve_loop C T envs m n (stream (frame_lines C (request_frames n (r # rs)))) (sink_of w) =
      serve_loop C T envs m (n + 1) (stream (frame_lines C (request_frames (n + 1) rs)))
        (sink_of (w @ frame_line C (reply_frame C n a)))"
    using a(1,2) wr by (subst serve_loop.simps)
      (cases a; simp add: read request_name_id split: handler_error.splits)
  with ih a(4) show ?case by (simp add: frame_lines_def)
qed

lemma reply_frame_cases:
  "reply_frame C n r = remote_failure_frame (request_id n) \<or>
     (\<exists>data. reply_frame C n r = ResponseFrame (request_id n) True (Some data) [])"
  by (cases r) (auto simp: reply_frame_def Let_def)

lemma receive_reply:
  assumes "transmissible C (reply_frame C n r)"
  shows "receive_response (request_id n) (Some (reply_frame C n r)) c = (reply_of (reply_frame C n r), c)"
proof -
  have remote: "is_remote_execution_failure
      [new_rpc_diagnostic (code_str RemoteExecutionFailed) remote_execution_failed_message]"
    by (simp add: is_remote_execution_failure_def new_rpc_diagnostic_def)
  from reply_frame_cases [of C n r] show ?thesis
    by (elim disjE exE) (simp_all add: receive_response_def reply_of_def remote_failure_frame_def remote [simplified])
qed

text \<open>A client whose pipes are the two streams.\<close>

definition client_at :: "rpc_client \<Rightarrow> nat \<Rightarrow> string \<Rightarrow> string \<Rightarrow> rpc_client" where
  "client_at c n sent incoming =
     c\<lparr>cl_next_id := n,
       cl_process := (cl_process c)\<lparr>proc_input := Some (sink_of sent), proc_output := stream incoming\<rparr>\<rparr>"

lemma request_reply:
  assumes "\<not> cl_terminated c" "n < u64_max" "transmissible C (RequestFrame (request_id n) verb params)"
    and "transmissible C (reply_frame C n r)"
  shows "request C verb params (client_at c n w (frame_line C (reply_frame C n r) @ rest)) =
     (reply_of (reply_frame C n r), client_at c (n + 1) (w @ frame_line C (RequestFrame (request_id n) verb params)) rest)"
  using assms
  by (simp add: request_def client_at_def write_frame_def read_frame_def write_line_frame transmissible_length
      read_line_frame receive_reply)

lemma client_requests_replies:
  "replies C T envs m n rs = Some fs \<Longrightarrow> list_all (transmissible C) (request_frames n rs @ fs) \<Longrightarrow>
     n + length rs \<le> u64_max \<Longrightarrow> \<not> cl_terminated c \<Longrightarrow>
     client_requests C rs (client_at c n w (frame_lines C fs))
       = (map reply_of fs, client_at c (n + length rs) (w @ frame_lines C (request_frames n rs)) [])"
proof (induction rs arbitrary: n fs w)
  case Nil
  then show ?case by (simp add: frame_lines_def)
next
  case (Cons r rs)
  obtain verb params where r: "r = (verb, params)" by force
  from Cons.prems(1) obtain a fs' where a: "replies C T envs m (n + 1) rs = Some fs'" "fs = reply_frame C n a # fs'"
    by (auto simp: r split: option.splits sum.splits handler_error.splits)
  have "request C verb params (client_at c n w (frame_lines C fs)) =
      (reply_of (reply_frame C n a), client_at c (n + 1) (w @ frame_line C (RequestFrame (request_id n) verb params)) (frame_lines C fs'))"
    using Cons.prems a(2) request_reply [of c n C verb params a w "frame_lines C fs'"] by (simp add: r frame_lines_def)
  moreover have "client_requests C rs (client_at c (n + 1) (w @ frame_line C (RequestFrame (request_id n) verb params)) (frame_lines C fs')) =
      (map reply_of fs', client_at c (n + 1 + length rs) ((w @ frame_line C (RequestFrame (request_id n) verb params)) @
         frame_lines C (request_frames (n + 1) rs)) [])"
    using Cons.prems a by (intro Cons.IH) (auto simp: r)
  ultimately show ?case by (simp add: r a(2) frame_lines_def)
qed

definition client_hello_frame :: frame where
  "client_hello_frame = ClientHelloFrame \<lparr>sel_protocol = protocol_max, sel_styrn_version = cargo_pkg_version\<rparr>"

lemma negotiate_own_hello:
  "schema_version m = manifest_schema_version \<Longrightarrow> negotiate_server_hello (server_hello_of m) = Inr protocol_max"
  by (simp add: negotiate_server_hello_def server_hello_of_def highest_protocol_intersection_def protocol_min_def
      protocol_max_def)

text \<open>
  C9. The two ends agree: when each reads what the other writes, a session of requests that the
  worker's handlers answer ends regularly on the worker, and the controller receives for every
  request, in order, the handler's value, or the execution failure that stands for a handler
  error or a response larger than a frame.
\<close>

theorem sessions_agree:
  assumes "replies C T envs m 1 rs = Some fs" "length rs < u64_max" "schema_version m = manifest_schema_version"
    and "list_all (transmissible C) (ServerHelloFrame (server_hello_of m) # client_hello_frame # request_frames 1 rs @ fs)"
  shows "\<exists>sent received c c'.
     serve_manifest C T envs m (stream sent) open_sink = Some (Inr (), sink_of received) \<and>
     connect C (new_ssh_process child open_sink (stream received)) = Inr c \<and>
     client_requests C rs c = (map reply_of fs, c') \<and> session_open c' \<and>
     proc_input (cl_process c') = Some (sink_of sent) \<and> proc_output (cl_process c') = stream []"
proof -
  define hello where "hello = ServerHelloFrame (server_hello_of m)"
  define sent where "sent = frame_line C client_hello_frame @ frame_lines C (request_frames 1 rs)"
  define received where "received = frame_line C hello @ frame_lines C fs"
  have t: "transmissible C hello" "transmissible C client_hello_frame" "list_all (transmissible C) (request_frames 1 rs @ fs)"
    using assms(4) by (simp_all add: hello_def)
  have sink: "open_sink = sink_of []" by (simp add: open_sink_def sink_of_def)
  have one: "(1 :: nat) + length rs \<le> u64_max" using assms(2) by simp
  have "serve_manifest C T envs m (stream sent) open_sink =
      serve_loop C T envs m 1 (stream (frame_lines C (request_frames 1 rs))) (sink_of (frame_line C hello))"
    using t(1,2)
    by (simp add: serve_manifest_def sink write_line_frame transmissible_length hello_def [symmetric] sent_def read_line_frame
        client_hello_frame_def is_controller_refusal_def protocol_min_def protocol_max_def)
  then have server: "serve_manifest C T envs m (stream sent) open_sink = Some (Inr (), sink_of received)"
    using serve_requests [OF assms(1) t(3) one, of "frame_line C hello"] by (simp add: received_def)
  define p where "p = new_ssh_process child open_sink (stream received)"
  define c0 where "c0 = \<lparr>cl_process = p, cl_hello = server_hello_of m, cl_next_id = 1, cl_terminated = False\<rparr>"
  have con: "connect C p = Inr (client_at c0 1 (frame_line C client_hello_frame) (frame_lines C fs))"
    using t(1,2) negotiate_own_hello [OF assms(3)]
    by (simp add: connect_def read_frame_def write_frame_def p_def c0_def new_ssh_process_def new_rpc_process_def sink
        received_def read_line_frame hello_def client_hello_frame_def [symmetric] write_line_frame transmissible_length client_at_def)
  have calls: "client_requests C rs (client_at c0 1 (frame_line C client_hello_frame) (frame_lines C fs)) =
      (map reply_of fs, client_at c0 (1 + length rs) sent [])"
    unfolding sent_def by (rule client_requests_replies [OF assms(1) t(3) one]) (simp add: c0_def)
  have "session_open (client_at c0 (1 + length rs) sent [])"
    using one by (simp add: session_open_def client_at_def c0_def p_def new_ssh_process_def new_rpc_process_def)
  then show ?thesis
    using server con calls unfolding p_def
    by (intro exI [of _ sent] exI [of _ received] exI conjI) (assumption | simp add: client_at_def)+
qed

section \<open>The server returns\<close>

text \<open>The frames of a server after its hello: responses in the order of their numbers, then at most one error.\<close>

fun responses_from :: "nat \<Rightarrow> frame list \<Rightarrow> bool" where
  "responses_from n [] = True"
| "responses_from n (ResponseFrame i ok data errors # fs) = (i = request_id n \<and> responses_from (n + 1) fs)"
| "responses_from n (ErrorFrame i errors # fs) = (fs = [])"
| "responses_from n (f # fs) = False"

definition is_error :: "frame \<Rightarrow> bool" where
  "is_error f = (case f of ErrorFrame _ _ \<Rightarrow> True | _ \<Rightarrow> False)"

definition children_exit :: "worker_env \<Rightarrow> bool" where
  "children_exit env \<longleftrightarrow> (\<forall>argv run. we_spawn env argv = Some run \<longrightarrow> wait_loop (cr_turns run) \<noteq> None)"

lemma handle_request_returns:
  assumes "children_exit env"
  shows "handle_request C T env m verb params \<noteq> None"
proof -
  have "handle_doctor C env m params \<noteq> None" for params
    using worker_findings [of C "we_baseline env" m]
    by (auto simp: handle_doctor_def split: option.splits sum.splits)
  moreover have "run_exec C (we_spawn env argv) \<noteq> None" for argv
    using assms by (auto simp: run_exec_def children_exit_def split: option.splits)
  then have "handle_exec C env params \<noteq> None" for params
    by (auto simp: handle_exec_def split: option.splits sum.splits)
  ultimately show ?thesis by (auto simp: handle_request_def)
qed

lemma frame_lines_Cons: "frame_lines C (f # fs) = frame_line C f @ frame_lines C fs"
  by (simp add: frame_lines_def)

lemma frame_lines_append [simp]: "frame_lines C (fs @ gs) = frame_lines C fs @ frame_lines C gs"
  by (simp add: frame_lines_def)

lemma frame_write_sink:
  "frame_write C f (sink_of w) =
     (if max_frame_bytes < length (frame_text C f) then (Inl FrameOversize, sink_of w)
      else (Inr (), sink_of (w @ frame_line C f)))"
  using write_line_frame [of C f w] by (auto simp: frame_write_def frame_text_def Let_def)

lemma protocol_failure_sink:
  "\<exists>e fs. protocol_failure C i code (sink_of w) = (Inl e, sink_of (w @ frame_lines C fs)) \<and> responses_from n fs"
proof -
  define f where "f = ErrorFrame i [new_rpc_diagnostic (code_str code)
      (if code = ProtocolIncompatible then ''the selected RPC protocol is incompatible'' else ''the RPC peer sent a malformed frame'')]"
  have "snd (frame_write C f (sink_of w)) = sink_of (w @ frame_lines C (if max_frame_bytes < length (frame_text C f) then [] else [f]))"
    by (simp add: frame_write_sink frame_lines_def)
  then show ?thesis
    by (intro exI [of _ "if max_frame_bytes < length (frame_text C f) then [] else [f]"] exI)
      (simp add: protocol_failure_def f_def Let_def)
qed

lemma write_response_sink:
  assumes "\<exists>ok data errors. f = ResponseFrame i ok data errors"
  shows "\<exists>r fs. write_response C i f (sink_of w) = (r, sink_of (w @ frame_lines C fs)) \<and>
    (r = Inr () \<longrightarrow> (\<exists>ok data errors. fs = [ResponseFrame i ok data errors])) \<and> (r \<noteq> Inr () \<longrightarrow> fs = [])"
proof -
  let ?big = "\<lambda>g. max_frame_bytes < length (frame_text C g)"
  let ?g = "remote_failure_frame i"
  have one: "\<exists>ok data errors. [?g] = [ResponseFrame i ok data errors]" unfolding remote_failure_frame_def by blast
  consider "?big f" "?big ?g" | "?big f" "\<not> ?big ?g" | "\<not> ?big f" by blast
  then show ?thesis
  proof cases
    case 1
    then show ?thesis
      by (intro exI [of _ "Inl (frame_rpc_error FrameOversize)"] exI [of _ "[]"])
        (simp add: write_response_def frame_write_sink frame_lines_def)
  next
    case 2
    with one show ?thesis
      by (intro exI [of _ "Inr ()"] exI [of _ "[?g]"]) (simp add: write_response_def frame_write_sink frame_lines_def)
  next
    case 3
    with assms show ?thesis
      by (intro exI [of _ "Inr ()"] exI [of _ "[f]"]) (auto simp: write_response_def frame_write_sink frame_lines_def)
  qed
qed

lemma serve_loop_orderly:
  assumes "\<forall>n. children_exit (envs n)"
  shows "\<exists>r fs. serve_loop C T envs m n inp (sink_of w) = Some (r, sink_of (w @ frame_lines C fs)) \<and>
    responses_from n fs \<and> (r = Inr () \<longrightarrow> \<not> list_ex is_error fs)"
proof (induction "length (source_bytes inp)" arbitrary: n inp w rule: less_induct)
  case less
  define good where "good x \<longleftrightarrow> (\<exists>r fs. x = Some (r, sink_of (w @ frame_lines C fs)) \<and>
    responses_from n fs \<and> (r = Inr () \<longrightarrow> \<not> list_ex is_error fs))" for x :: "served option"
  have stop: "good (Some (r, sink_of w))" for r
    unfolding good_def by (intro exI [of _ "[]"] exI) (simp add: frame_lines_def)
  have refuse: "good (Some (protocol_failure C i code (sink_of w)))" for i code
    using protocol_failure_sink [of C i code w n] unfolding good_def by force
  obtain r rest where read: "frame_read C inp = (r, rest)" by force
  have "good (serve_loop C T envs m n inp (sink_of w))"
  proof (cases "\<exists>verb params. r = Inr (Some (RequestFrame (request_id n) verb params)) \<and> n \<noteq> u64_max")
    case False
    then show ?thesis
      by (subst serve_loop.simps)
        (auto simp: read request_name_id stop refuse split: sum.splits option.splits frame.splits)
  next
    case True
    then obtain verb params where r: "r = Inr (Some (RequestFrame (request_id n) verb params))" and n: "n \<noteq> u64_max" by blast
    obtain a where a: "handle_request C T (envs n) m verb params = Some a"
      using handle_request_returns assms by blast
    define f where "f = (case a of Inr data \<Rightarrow> ResponseFrame (request_id n) True (Some data) [] | Inl _ \<Rightarrow> remote_failure_frame (request_id n))"
    show ?thesis
    proof (cases "a = Inl HandlerMalformed")
      case True
      then show ?thesis by (subst serve_loop.simps) (simp add: read r n request_name_id a refuse)
    next
      case answered: False
      have "\<exists>ok data errors. f = ResponseFrame (request_id n) ok data errors"
        by (cases a) (auto simp: f_def remote_failure_frame_def)
      from write_response_sink [OF this, of C w] obtain q fs where
        q: "write_response C (request_id n) f (sink_of w) = (q, sink_of (w @ frame_lines C fs))"
          "q = Inr () \<longrightarrow> (\<exists>ok data errors. fs = [ResponseFrame (request_id n) ok data errors])" "q \<noteq> Inr () \<longrightarrow> fs = []"
        by blast
      have step: "serve_loop C T envs m n inp (sink_of w) =
          (case q of Inl e \<Rightarrow> Some (Inl e, sink_of w)
           | Inr _ \<Rightarrow> serve_loop C T envs m (n + 1) rest (sink_of (w @ frame_lines C fs)))"
        using q answered a by (subst serve_loop.simps)
          (cases a; cases q; simp add: read r n request_name_id f_def frame_lines_def split: handler_error.splits)
      show ?thesis
      proof (cases q)
        case (Inl e)
        then show ?thesis by (simp add: step stop)
      next
        case (Inr u)
        with q obtain ok data errors where fs: "fs = [ResponseFrame (request_id n) ok data errors]" by auto
        obtain r' gs where "serve_loop C T envs m (n + 1) rest (sink_of (w @ frame_lines C fs)) =
            Some (r', sink_of ((w @ frame_lines C fs) @ frame_lines C gs))" "responses_from (n + 1) gs"
            "r' = Inr () \<longrightarrow> \<not> list_ex is_error gs"
          using less.hyps [of rest "n + 1" "w @ frame_lines C fs"] frame_read_rest read r by blast
        then show ?thesis
          unfolding good_def step using Inr fs
          by (intro exI [of _ r'] exI [of _ "fs @ gs"]) (simp add: is_error_def frame_lines_Cons frame_lines_def [of C "[]"])
      qed
    qed
  qed
  then show ?case unfolding good_def .
qed


section \<open>A concrete session\<close>

text \<open>A worker with no disk to report: its status request fails. Its frames have one-letter texts.\<close>

definition demo_resources :: host_resources where
  "demo_resources =
     \<lparr>hr_cpus = 8, hr_load = Some 0, hr_total_memory = 1024, hr_available_memory = 512, hr_disks = [],
      hr_components = (\<lambda>_. []), hr_now = 5\<rparr>"

definition demo_env :: worker_env where
  "demo_env =
     \<lparr>we_resources = demo_resources,
      we_baseline = \<lparr>native_snapshot = (\<lambda>_ _ _. SnapshotAbsent), native_ssh_transport = SnapshotAbsent\<rparr>,
      we_spawn = (\<lambda>_. None)\<rparr>"

definition demo_frames :: "frame list" where
  "demo_frames =
     [ServerHelloFrame (server_hello_of demo_manifest), client_hello_frame,
      RequestFrame ''c1'' ''machine.status'' (JObject []), remote_failure_frame ''c1'']"

definition demo_session_crates :: crates where
  "demo_session_crates = demo_crates
     \<lparr>json_text := (\<lambda>v. the (map_of (zip (map (frame_json demo_crates) demo_frames) [''A'', ''B'', ''C'', ''D'']) v)),
      json_parse := (\<lambda>s. map_of (zip [''A'', ''B'', ''C'', ''D''] (map (frame_json demo_crates) demo_frames)) s)\<rparr>"

lemma demo_children_exit: "children_exit demo_env"
  by (simp add: children_exit_def demo_env_def)


lemma demo_session_json: "frame_json demo_session_crates f = frame_json demo_crates f"
  by (cases f) (simp_all add: demo_session_crates_def)

lemma demo_session_text:
  "map (frame_text demo_session_crates) demo_frames = [''A'', ''B'', ''C'', ''D'']"
  unfolding frame_text_def demo_session_json
  by (simp add: demo_session_crates_def demo_frames_def client_hello_frame_def remote_failure_frame_def server_hello_of_def)

lemma demo_session_parse: "map (json_parse demo_session_crates) [''A'', ''B'', ''C'', ''D''] = map (Some \<circ> frame_json demo_crates) demo_frames"
  by (simp add: demo_session_crates_def demo_frames_def)

lemma demo_c1: "request_id 1 = ''c1''"
  by code_simp

lemma demo_frames_valid: "list_all (valid_frame demo_session_crates) demo_frames"
proof -
  have v7: "is_uuid_v7 demo_session_crates demo_uuid"
    using demo_uuid_v7 by (simp add: is_uuid_v7_def demo_session_crates_def)
  have parse: "uuid_parse demo_session_crates (uuid_text demo_session_crates demo_uuid) = Some demo_uuid"
    using demo_uuid_text_parses [of demo_uuid] by (simp add: demo_session_crates_def del: demo_crates_sel)
  have id: "controller_id ''c1''" by (simp add: controller_id_def max_id_bytes_def ascii_defs byte_def)
  show ?thesis
    using v7 parse id
    by (simp add: demo_frames_def server_hello_of_def demo_manifest_def protocol_min_def protocol_max_def text_within_def
        max_version_bytes_def max_name_bytes_def u32_max_def u64_max_def cargo_pkg_version_def client_hello_frame_def
        remote_failure_frame_def max_method_bytes_def sorted_fields_def valid_diagnostics_def valid_diagnostic_def
        new_rpc_diagnostic_def max_diagnostic_bytes_def remote_execution_failed_message_def wf_details_def)
qed

lemma demo_frames_transmissible: "list_all (transmissible demo_session_crates) demo_frames"
proof -
  have letter: "utf8_valid [c] \<and> line_feed \<noteq> c" if "c \<in> set ''ABCD''" for c
    using that by (auto simp: line_feed_def utf8_tail_def byte_def)
  have one: "transmissible demo_session_crates f"
    if "valid_frame demo_session_crates f" "frame_text demo_session_crates f = [c]" "c \<in> set ''ABCD''"
      "json_parse demo_session_crates [c] = Some (frame_json demo_crates f)" for f c
    using that letter [OF that(3)]
    by (simp add: transmissible_def json_faithful_def frame_text_def max_frame_bytes_def demo_session_json)
  have four: "list_all (transmissible demo_session_crates) [f, g, h, k]"
    if "list_all (valid_frame demo_session_crates) [f, g, h, k]"
      "map (frame_text demo_session_crates) [f, g, h, k] = [''A'', ''B'', ''C'', ''D'']"
      "map (json_parse demo_session_crates) [''A'', ''B'', ''C'', ''D''] = map (Some \<circ> frame_json demo_crates) [f, g, h, k]"
    for f g h k
    using that one [of f "CHR ''A''"] one [of g "CHR ''B''"] one [of h "CHR ''C''"] one [of k "CHR ''D''"] by simp
  show ?thesis
    using demo_frames_valid demo_session_text demo_session_parse unfolding demo_frames_def by (rule four)
qed

lemma demo_replies:
  "replies demo_session_crates T (\<lambda>_. demo_env) demo_manifest 1 [(''machine.status'', JObject [])] = Some [remote_failure_frame ''c1'']"
  by (simp add: handle_request_def handle_status_def parse_empty_def as_object_def capture_machine_status_def demo_env_def
      demo_resources_def deepest_def reply_frame_def Let_def demo_c1 [simplified])

theorem sessions_agree_witness:
  "\<exists>sent received c c'.
     serve_manifest demo_session_crates demo_toml (\<lambda>_. demo_env) demo_manifest (stream sent) open_sink = Some (Inr (), sink_of received) \<and>
     connect demo_session_crates (new_ssh_process (Some True) open_sink (stream received)) = Inr c \<and>
     client_requests demo_session_crates [(''machine.status'', JObject [])] c = ([Inl remote_execution_failed], c') \<and> session_open c'"
proof -
  have t: "list_all (transmissible demo_session_crates) (ServerHelloFrame (server_hello_of demo_manifest) # client_hello_frame #
      request_frames 1 [(''machine.status'', JObject [])] @ [remote_failure_frame ''c1''])"
    using demo_frames_transmissible by (simp add: demo_frames_def demo_c1 [simplified])
  have "schema_version demo_manifest = manifest_schema_version" by (simp add: demo_manifest_def manifest_schema_version_def)
  from sessions_agree [OF demo_replies _ this t, of demo_toml "Some True"] show ?thesis
    by (simp add: u64_max_def reply_of_def remote_failure_frame_def) blast
qed

end
