(* ===== verification/RpcMethods.thy ===== *)
theory RpcMethods
  imports RpcSession
begin

text \<open>
  What the single methods deliver: the result of a command does not depend on how the capture
  threads and the waiting loop interleave, the doctor's report is the one the controller
  accepts, and the manifest a controller accepts belongs to the peer it expects.
\<close>

section \<open>Commands\<close>

fun chunk_bytes :: "read_event list \<Rightarrow> string" where
  "chunk_bytes [] = []"
| "chunk_bytes (ReadChunk chunk # events) = chunk @ chunk_bytes events"
| "chunk_bytes (_ # events) = chunk_bytes events"

text \<open>The whole output of a stream, when it ends without an error and is not too long.\<close>

definition whole_output :: "read_event list \<Rightarrow> string option" where
  "whole_output events =
     (if ReadFailed \<in> set events \<or> max_exec_capture_bytes < length (chunk_bytes events) then None
      else Some (chunk_bytes events))"

lemma capture_loop_exact:
  assumes "length bytes \<le> max_exec_capture_bytes"
  shows "capture_loop bytes overflow events =
     (if ReadFailed \<in> set events then (None, True)
      else (let all = bytes @ chunk_bytes events; long = overflow \<or> max_exec_capture_bytes < length all
            in (Some \<lparr>ca_bytes = take max_exec_capture_bytes all, ca_overflow = long\<rparr>, long)))"
  using assms
proof (induction events arbitrary: bytes overflow)
  case (Cons e events)
  show ?case
  proof (cases e)
    case (ReadChunk chunk)
    define remaining where "remaining = max_exec_capture_bytes - length bytes"
    define bytes' where "bytes' = bytes @ take (min (length chunk) remaining) chunk"
    have len: "length bytes' \<le> max_exec_capture_bytes" using Cons.prems by (simp add: bytes'_def remaining_def)
    have step: "capture_loop bytes overflow (e # events) = capture_loop bytes' (overflow \<or> remaining < length chunk) events"
      by (simp add: ReadChunk bytes'_def remaining_def Let_def)
    show ?thesis
    proof (cases "remaining < length chunk")
      case False
      then have "bytes' = bytes @ chunk" by (simp add: bytes'_def)
      with False step Cons.IH [OF len] show ?thesis by (simp add: ReadChunk)
    next
      case True
      then have full: "length bytes' = max_exec_capture_bytes" using Cons.prems by (simp add: bytes'_def remaining_def)
      have take: "take max_exec_capture_bytes (bytes' @ chunk_bytes events) = take max_exec_capture_bytes (bytes @ chunk @ chunk_bytes events)"
        using full True Cons.prems by (simp add: bytes'_def remaining_def)
      have "max_exec_capture_bytes < length (bytes @ chunk @ chunk_bytes events)"
        using True Cons.prems by (simp add: remaining_def)
      then show ?thesis unfolding step Cons.IH [OF len] using True take by (simp add: ReadChunk Let_def)
    qed
  qed (use Cons in auto)
qed (simp add: Let_def)

lemma capture_thread_exact:
  "capture_thread events =
     (if ReadFailed \<in> set events then (None, True)
      else (let long = max_exec_capture_bytes < length (chunk_bytes events)
            in (Some \<lparr>ca_bytes = take max_exec_capture_bytes (chunk_bytes events), ca_overflow = long\<rparr>, long)))"
  unfolding capture_thread_def by (subst capture_loop_exact) (simp_all add: Let_def)

lemma capture_thread_signal: "snd (capture_thread events) \<longleftrightarrow> whole_output events = None"
  by (simp add: capture_thread_exact whole_output_def Let_def)

text \<open>A schedule of the waiting loop: it receives a signal only when a thread has sent one.\<close>

definition possible_schedule :: "child_run \<Rightarrow> int option \<Rightarrow> bool" where
  "possible_schedule run code \<longleftrightarrow>
     wait_loop (cr_turns run) \<noteq> None \<and>
     (\<forall>turn \<in> set (cr_turns run).
        (fst turn \<longrightarrow> snd (capture_thread (cr_stdout run)) \<or> snd (capture_thread (cr_stderr run))) \<and>
        snd turn \<in> {StillRunning, ChildExited code})"

definition delivered :: "crates \<Rightarrow> string \<Rightarrow> string \<Rightarrow> nat \<Rightarrow> int \<Rightarrow> exec_result" where
  "delivered C out err duration code =
     (let (out_text, out_lossy, out_redacted) = sanitize_capture C out;
          (err_text, err_lossy, err_redacted) = sanitize_capture C err
      in \<lparr>ex_exit_code = code, ex_stdout = out_text, ex_stderr = err_text, ex_duration_ms = min duration u64_max,
          ex_stdout_lossy = out_lossy, ex_stderr_lossy = err_lossy, ex_stdout_redacted = out_redacted,
          ex_stderr_redacted = err_redacted\<rparr>)"

lemma wait_loop_outcome:
  assumes "wait_loop turns \<noteq> None" "\<forall>turn \<in> set turns. (fst turn \<longrightarrow> halted) \<and> snd turn \<in> {StillRunning, ChildExited code}"
  shows "wait_loop turns = Some (Inr code) \<or> halted \<and> wait_loop turns = Some (Inl HandlerRemote)"
  using assms by (induction turns rule: wait_loop.induct) (auto split: if_splits wait_status.splits)

lemma exec_result_from_exact:
  "exec_result_from C run code =
     (case (whole_output (cr_stdout run), whole_output (cr_stderr run), code) of
        (Some out, Some err, Some code) \<Rightarrow> Inr (delivered C out err (cr_duration_ms run) code)
      | _ \<Rightarrow> Inl HandlerRemote)"
  by (cases code)
    (auto simp: exec_result_from_def joined_captures_def capture_thread_exact whole_output_def delivered_def Let_def min_def
      result_simps split: prod.splits)

text \<open>
  C13. The answer to a command is decided by its output and its exit code alone: under every
  interleaving of the two capture threads, the overflow signal and the waiting loop it is the
  result with both complete outputs when neither stream failed, neither exceeds one MiB and the
  child was not killed by a signal, and the execution failure otherwise.
\<close>

theorem exec_race_free:
  assumes "possible_schedule run code"
  shows "run_exec C (Some run) = Some
     (case (whole_output (cr_stdout run), whole_output (cr_stderr run), code) of
        (Some out, Some err, Some code) \<Rightarrow> Inr (delivered C out err (cr_duration_ms run) code)
      | _ \<Rightarrow> Inl HandlerRemote)"
proof -
  have "wait_loop (cr_turns run) = Some (Inr code) \<or>
      (whole_output (cr_stdout run) = None \<or> whole_output (cr_stderr run) = None) \<and>
      wait_loop (cr_turns run) = Some (Inl HandlerRemote)"
    using assms wait_loop_outcome [of "cr_turns run" "whole_output (cr_stdout run) = None \<or> whole_output (cr_stderr run) = None" code]
    by (simp add: possible_schedule_def capture_thread_signal)
  then show ?thesis
    by (auto simp: run_exec_def exec_result_from_exact split: option.splits)
qed

definition demo_run :: child_run where
  "demo_run =
     \<lparr>cr_stdout = [ReadChunk ''before-'', ReadInterrupted, ReadChunk ''after''], cr_stderr = [],
      cr_turns = [(False, StillRunning), (False, ChildExited (Some 3))], cr_duration_ms = 12\<rparr>"

theorem exec_race_free_witness:
  "run_exec demo_crates (Some demo_run) = Some (Inr (delivered demo_crates ''before-after'' [] 12 3))"
proof -
  have "possible_schedule demo_run (Some 3)"
    by (simp add: possible_schedule_def demo_run_def)
  from exec_race_free [OF this, of demo_crates] show ?thesis
    by (simp add: demo_run_def whole_output_def max_exec_capture_bytes_def)
qed

section \<open>Undecodable output\<close>

lemma words_by_subset: "w \<in> set (words_by p acc xs) \<Longrightarrow> set w \<subseteq> set acc \<union> set xs"
  by (induction xs arbitrary: acc) (fastforce split: if_splits)+

lemma split_whitespace_subset:
  assumes "w \<in> set (split_whitespace s)"
  shows "set w \<subseteq> set s"
proof -
  obtain gs where gs: "gs \<in> set (words_by is_whitespace [] (chars s))" "w = concat gs"
    using assms by (auto simp: split_whitespace_def)
  have "set gs \<subseteq> set (chars s)" using words_by_subset [OF gs(1)] by simp
  then have "set (concat gs) \<subseteq> set (concat (chars s))" unfolding set_concat by blast
  then show ?thesis by (simp add: gs(2))
qed

text \<open>A text without a single ASCII byte passes the guard.\<close>

lemma no_ascii_not_secret:
  assumes "\<forall>c \<in> set v. 128 \<le> byte c"
  shows "\<not> contains_secret_shaped_text C v"
proof -
  have absent: "\<not> set l \<subseteq> set v" if "\<exists>c \<in> set l. byte c < 128" for l
    using that assms by fastforce
  have lower: "to_ascii_lowercase v = v"
    using assms by (auto simp: to_ascii_lowercase_def lower_byte_def is_ascii_uppercase_def intro!: map_idI)
  have upper: "to_ascii_uppercase v = v"
    using assms by (auto simp: to_ascii_uppercase_def upper_byte_def is_ascii_lowercase_def intro!: map_idI)
  have no: "v \<noteq> a @ l @ b" if "\<exists>c \<in> set l. byte c < 128" for a l b
    using absent [OF that] by auto
  have ascii: "\<exists>c \<in> set l. byte c < 128" if "l \<in> set (credential_labels @ credential_prefixes @ private_key_markers)" for l
    using that by (auto simp: credential_labels_def credential_prefixes_def private_key_markers_def byte_def)
  have "\<not> mentions_private_key v" "\<not> mentions_labeled_value v" "\<not> mentions_prefixed_token v"
    unfolding mentions_private_key_def mentions_labeled_value_def mentions_prefixed_token_def lower upper
    using no [OF ascii] by auto
  moreover have jwt: "\<not> is_compact_jwt C w" if "set w \<subseteq> set v" for w
  proof (rule no_dot_no_jwt)
    have "CHR ''.'' \<notin> set v" using assms by (auto simp: byte_def)
    with that show "CHR ''.'' \<notin> set w" by blast
  qed
  moreover have "\<not> secret_word C w" if w: "w \<in> set (split_whitespace v)" for w
  proof -
    define t where "t = trim_matches (byte_in (quote_marks @ '',;()[]{}'')) w"
    have t: "set t \<subseteq> set v" using trim_matches_set split_whitespace_subset [OF w] by (auto simp: t_def)
    have no_c: "c \<notin> set t" if "byte c < 128" for c using t assms that by fastforce
    have "\<not> starts_with ''-'' t" using no_c [of "CHR ''-''"] by (cases t) (auto simp: byte_def)
    moreover have "split_once (CHR ''='') (dropWhile (\<lambda>c. c = CHR ''-'') t) = None"
      using no_c [of "CHR ''=''"] by (auto simp: split_once_None_iff byte_def dest!: set_dropWhileD)
    ultimately show ?thesis using jwt [OF t] by (simp add: secret_word_def Let_def t_def [symmetric])
  qed
  ultimately show ?thesis
    using jwt [of "trim v"] trim_matches_set [of _ is_whitespace v]
    unfolding contains_secret_shaped_text_def private_key_guard_iff [symmetric] labeled_credential_iff [symmetric]
      credential_prefix_iff [symmetric] list_ex_iff trim_def
    by (metis private_key_guard_iff labeled_credential_iff credential_prefix_iff list_ex_iff subsetI)
qed

lemma chunk_bytes_replicate: "chunk_bytes (replicate n (ReadChunk b)) = concat (replicate n b)"
  by (induction n) simp_all

lemma concat_replicate_replicate: "concat (replicate m (replicate n x)) = replicate (m * n) x"
  by (induction m) (simp_all add: replicate_add)

definition binary_run :: child_run where
  "binary_run =
     \<lparr>cr_stdout = replicate 49 (ReadChunk (replicate 8192 (CHR 0xFF))), cr_stderr = [],
      cr_turns = [(False, ChildExited (Some 0))], cr_duration_ms = 1\<rparr>"


section \<open>The doctor's report\<close>

definition strip_finding :: "doctor_finding \<Rightarrow> worker_doctor_finding" where
  "strip_finding f =
     \<lparr>wf_id = df_id f, wf_state = df_state f, wf_severity = df_severity f, wf_message = df_message f,
      wf_remediation = map_option (\<lambda>r. \<lparr>wr_summary = rm_summary r, wr_styrn_args = map_option command_args (rm_command r)\<rparr>)
        (df_remediation f)\<rparr>"

lemma state_roundtrip [simp]: "finding_state_of (JString (state_text s)) = Some s"
  by (cases s) (simp_all add: finding_state_of_def)

lemma severity_roundtrip [simp]: "severity_of (JString (severity_text s)) = Some s"
  by (cases s) (simp_all add: severity_of_def)

lemma those_map_Some_id [simp]: "those (map Some xs) = Some xs"
  by (induction xs) simp_all

lemma those_strings: "those (map as_str (map JString xs)) = Some xs"
  by (induction xs) simp_all

lemma canonical_strings: "map canonical (map JString xs) = map JString xs"
  by (induction xs) simp_all

lemma remediation_roundtrip [simp]: "worker_remediation_of (canonical (worker_remediation_json r)) = Some r"
  by (cases "wr_styrn_args r")
    (simp_all add: worker_remediation_of_def worker_remediation_json_def req_field_def opt_field_def field_ordered
      string_list_of_def those_strings comp_def)

lemma remediation_not_null: "canonical (worker_remediation_json r) \<noteq> JNull"
  by (simp add: worker_remediation_json_def)

lemma finding_roundtrip: "worker_finding_of (canonical (worker_finding_json f)) = Some f"
proof (cases "wf_remediation f")
  case (Some r)
  have "opt_field worker_remediation_of ''remediation'' kvs = Some (Some r)"
    if "field ''remediation'' kvs = Some (canonical (worker_remediation_json r))" for kvs
    by (subst opt_field_present [OF that remediation_not_null]) simp
  with Some show ?thesis
    by (simp add: worker_finding_of_def worker_finding_json_def req_field_def field_ordered)
qed (simp add: worker_finding_of_def worker_finding_json_def req_field_def opt_field_def field_ordered)

lemma report_roundtrip: "report_of (canonical (report_json r)) = Some r"
proof -
  have "those (map worker_finding_of (map canonical (map worker_finding_json fs))) = Some fs" for fs
    by (induction fs) (simp_all add: finding_roundtrip)
  then show ?thesis
    by (simp add: report_of_def report_json_def req_field_def field_ordered comp_def)
qed

lemma component_finding_stripped:
  assumes "component_finding c f" "c \<in> set component_names"
  shows "worker_finding_of (canonical (doctor_finding_json C f)) = Some (strip_finding f)"
proof -
  have "df_remediation f = None" using assms(1) by (simp add: component_finding_def)
  then have "doctor_finding_json C f = worker_finding_json (strip_finding f)"
    using component_finding_safe(1) [OF assms, of C]
    by (simp add: doctor_finding_json_def worker_finding_json_def strip_finding_def safe_static_text_def remediation_field_def)
  then show ?thesis by (simp only: finding_roundtrip)
qed

section \<open>The report is free of secrets\<close>

definition mild_text :: "string \<Rightarrow> bool" where
  "mild_text v \<longleftrightarrow> (\<exists>ws. mild_sentence ws \<and> v = sentence ws)"

lemma mild_textI: "mild_sentence ws \<Longrightarrow> mild_text (sentence ws)"
  by (auto simp: mild_text_def)

lemma mild_word_text: "mild_word w \<Longrightarrow> mild_text w"
  using mild_textI [of "[w]"] by (simp add: sentence_without_def)

lemma mild_not_secret: "mild_text v \<Longrightarrow> \<not> contains_secret_shaped_text C v"
  by (auto simp: mild_text_def sentence_not_secret)

lemma mild_keyed:
  assumes "mild_word (k @ '':'')" "mild_text v"
  shows "\<not> contains_secret_shaped_text C (k @ '': '' @ v)"
proof -
  obtain ws where ws: "mild_sentence ws" "v = sentence ws" using assms(2) by (auto simp: mild_text_def)
  then have "ws \<noteq> []" by (simp add: sentence_without_def)
  then have "k @ '': '' @ v = sentence ((k @ '':'') # ws)" by (simp add: sentence_Cons ws(2))
  moreover have "mild_sentence ((k @ '':'') # ws)" using assms(1) ws(1) by (simp add: sentence_without_def)
  ultimately show ?thesis using sentence_not_secret [of "(k @ '':'') # ws" C] by simp
qed

definition report_keys :: "string list" where
  "report_keys =
     [''findings'', ''coverage'', ''complete'', ''id'', ''state'', ''severity'', ''message'', ''remediation'', ''summary'']"

lemma report_keys_mild: "k \<in> set report_keys \<Longrightarrow> mild_word k \<and> mild_word (k @ '':'')"
proof -
  have "list_all (\<lambda>k. mild_word k \<and> mild_word (k @ '':'')) report_keys" by code_simp
  then show "k \<in> set report_keys \<Longrightarrow> mild_word k \<and> mild_word (k @ '':'')" unfolding list_all_iff by blast
qed

text \<open>A value in which every key is one of the report and every text is a mild sentence.\<close>

fun mild_value :: "json \<Rightarrow> bool" where
  "mild_value (JObject kvs) = list_all (\<lambda>kv. fst kv \<in> set report_keys \<and> mild_value (snd kv)) kvs"
| "mild_value (JArray vs) = list_all mild_value vs"
| "mild_value (JString s) = mild_text s"
| "mild_value _ = True"

lemma mild_value_canonical: "mild_value v \<Longrightarrow> mild_value (canonical v)"
proof (induction v rule: canonical.induct)
  case (1 xs)
  then show ?case by (auto simp: list_all_iff)
next
  case (2 kvs)
  then have "\<forall>kv \<in> set (map (\<lambda>kv. (fst kv, canonical (snd kv))) kvs). fst kv \<in> set report_keys \<and> mild_value (snd kv)"
    by (force simp: list_all_iff)
  then show ?case
    unfolding canonical.simps mild_value.simps list_all_iff
    using set_object_of [of "map (\<lambda>kv. (fst kv, canonical (snd kv))) kvs"] by blast
qed simp_all

lemma mild_value_no_secret: "mild_value v \<Longrightarrow> \<not> remote_value_contains_secret C v"
proof (induction v)
  case (JObject kvs)
  have "\<not> contains_secret_shaped_text C (fst kv) \<and>
      \<not> is_some_and (\<lambda>t. contains_secret_shaped_text C (fst kv @ '': '' @ t)) (as_str (snd kv)) \<and>
      \<not> remote_value_contains_secret C (snd kv)" if kv: "kv \<in> set kvs" for kv
  proof -
    have k: "fst kv \<in> set report_keys" "mild_value (snd kv)" using JObject.prems kv by (auto simp: list_all_iff)
    have "\<not> remote_value_contains_secret C (snd kv)"
      using JObject.IH [of kv "snd kv"] kv k by (cases kv) auto
    moreover have "\<not> is_some_and (\<lambda>t. contains_secret_shaped_text C (fst kv @ '': '' @ t)) (as_str (snd kv))"
      using k report_keys_mild mild_keyed by (cases "snd kv") (auto simp: as_str_def)
    ultimately show ?thesis using mild_not_secret [OF mild_word_text] report_keys_mild [OF k(1)] by blast
  qed
  then show ?case by (auto simp: list_ex_iff)
next
  case (JArray vs)
  then show ?case by (auto simp: list_ex_iff list_all_iff)
qed (simp_all add: mild_not_secret)

lemma fixed_words: "mild_word (state_text s)" "mild_word (severity_text v)" "mild_word ''phase1_minimum''"
proof -
  have "list_all mild_word (map state_text [PassState, FailState, UnknownState] @
      map severity_text [InfoSeverity, WarningSeverity, ErrorSeverity] @ [''phase1_minimum''])" by code_simp
  then have all: "mild_word (state_text PassState)" "mild_word (state_text FailState)" "mild_word (state_text UnknownState)"
    "mild_word (severity_text InfoSeverity)" "mild_word (severity_text WarningSeverity)" "mild_word (severity_text ErrorSeverity)"
    "mild_word ''phase1_minimum''"
    unfolding list_all_append list.map list.pred_inject by blast+
  show "mild_word (state_text s)" by (cases s) (use all in \<open>simp_all only:\<close>)
  show "mild_word (severity_text v)" by (cases v) (use all in \<open>simp_all only:\<close>)
  show "mild_word ''phase1_minimum''" by (rule all)
qed

definition pendings :: "machine_manifest \<Rightarrow> pending_action list" where
  "pendings m = (case pending_actions m of None \<Rightarrow> [] | Some actions \<Rightarrow> actions)"

definition pending_id :: "nat \<Rightarrow> string" where
  "pending_id i = ''pending.action-'' @ show_nat (i + 1)"

lemma contains_before_digits:
  assumes "contains p (w @ ds)" "list_all is_ascii_digit ds" "p \<noteq> []" "\<not> list_ex is_ascii_digit p"
  shows "contains p w"
proof -
  obtain a b where ab: "w @ ds = a @ p @ b" using assms(1) by (auto simp: contains_sublist sublist_def)
  then obtain us where "w = a @ us \<and> us @ ds = p @ b \<or> w @ us = a \<and> ds = us @ p @ b"
    by (auto simp: append_eq_append_conv2)
  then show ?thesis
  proof
    assume *: "w @ us = a \<and> ds = us @ p @ b"
    then have "list_all is_ascii_digit p" using assms(2) by simp
    then show ?thesis using assms(3,4) by (cases p) auto
  next
    assume *: "w = a @ us \<and> us @ ds = p @ b"
    then obtain vs where "us = p @ vs \<or> p = us @ vs \<and> ds = vs @ b"
      by (auto simp: append_eq_append_conv2)
    moreover have "vs = []" if "p = us @ vs" "ds = vs @ b"
      using that assms(2,4) by (cases vs) auto
    ultimately obtain vs where "w = a @ p @ vs" using * by auto
    then show ?thesis by (simp add: containsI)
  qed
qed

lemma pending_id_word: "mild_word (pending_id i)" "mild_word (''id:'')"
proof -
  have base: "mild_word ''pending.action-''" by code_simp
  have patterns: "\<forall>p \<in> set label_patterns. p \<noteq> [] \<and> \<not> list_ex is_ascii_digit p" by (simp add: label_patterns_def is_ascii_digit_def byte_def)
  have digits: "list_all is_ascii_digit (show_nat n)" for n by (rule show_nat_digits)
  then have "list_all plain_byte (show_nat n)" for n by (auto simp: list_all_iff plain_byte_def)
  moreover have "\<not> list_ex (\<lambda>p. contains p (''pending.action-'' @ show_nat (i + 1))) label_patterns"
    using base contains_before_digits [OF _ digits] patterns unfolding word_without_def list_ex_iff by blast
  ultimately show "mild_word (pending_id i)"
    using base by (simp add: word_without_def pending_id_def)
qed code_simp

lemma pending_id_valid: "valid_probe_id (pending_id i)"
proof -
  have digits: "list_all is_ascii_digit (show_nat n)" for n by (rule show_nat_digits)
  have "CHR ''.'' \<notin> set (show_nat n)" for n using digits [of n] by (auto simp: list_all_iff is_ascii_digit_def byte_def)
  then have "split_on (CHR ''.'') (''action-'' @ show_nat n) = [''action-'' @ show_nat n]" for n
    by (intro split_on_no_sep) simp
  then have "split_on (CHR ''.'') (pending_id i) = [''pending'', ''action-'' @ show_nat (i + 1)]"
    by (simp add: pending_id_def)
  moreover have "is_ascii_digit (last (show_nat n))" for n
    using digits [of n] by (auto simp: list_all_iff)
  ultimately show ?thesis
    using digits [of "i + 1"]
    by (auto simp: valid_probe_id_def valid_probe_id_segment_def list_all_iff is_ascii_lowercase_def byte_def)
qed

definition acceptable_finding :: "crates \<Rightarrow> worker_doctor_finding \<Rightarrow> bool" where
  "acceptable_finding C f \<longleftrightarrow>
     valid_probe_id (wf_id f) \<and> report_text_ok C (wf_message f) \<and>
     (\<forall>r. wf_remediation f = Some r \<longrightarrow> report_text_ok C (wr_summary r) \<and> wr_styrn_args r = None)"

lemma report_findings_accepted:
  "(\<forall>f \<in> set fs. acceptable_finding C f \<and> wf_id f \<notin> ids) \<Longrightarrow> distinct (map wf_id fs) \<Longrightarrow> report_findings_ok C ids fs"
proof (induction fs arbitrary: ids)
  case (Cons f fs)
  then have "\<forall>g \<in> set fs. acceptable_finding C g \<and> wf_id g \<notin> insert (wf_id f) ids"
    by (simp add: image_iff) metis
  with Cons show ?case
    by (cases "wf_remediation f") (auto simp: acceptable_finding_def parse_probe_id_def)
qed simp

definition mild_finding :: "worker_doctor_finding \<Rightarrow> bool" where
  "mild_finding f \<longleftrightarrow>
     mild_text (wf_id f) \<and> mild_text (wf_message f) \<and>
     (\<forall>r. wf_remediation f = Some r \<longrightarrow> mild_text (wr_summary r) \<and> wr_styrn_args r = None)"

lemma mild_finding_json: "mild_finding f \<Longrightarrow> mild_value (worker_finding_json f)"
  by (auto simp: mild_finding_def worker_finding_json_def worker_remediation_json_def report_keys_def
      mild_word_text fixed_words split: option.splits)

lemma component_finding_accepted:
  assumes "component_finding c f" "c \<in> set component_names"
  shows "acceptable_finding C (strip_finding f)" "mild_finding (strip_finding f)"
proof -
  obtain ws where ws: "ws \<in> set detail_words" "df_message f = sentence ([c, ''baseline'', ''readiness:''] @ ws)"
    using assms(1) by (auto simp: component_finding_def)
  have plain: "plain_sentence ([c, ''baseline'', ''readiness:''] @ ws)"
    using details_plain [OF ws(1)] component_plain [OF assms(2)] label_plain by (simp add: sentence_without_def)
  have ids: "list_all (\<lambda>c. mild_word (component_id c)) component_names" by code_simp
  then have "mild_text (component_id c)" using assms(2) by (simp add: list_all_iff mild_word_text)
  then show "mild_finding (strip_finding f)"
    using assms(1) mild_textI [OF plain_mild [OF plain]] ws(2)
    by (simp add: mild_finding_def strip_finding_def component_finding_def)
  show "acceptable_finding C (strip_finding f)"
    using component_finding_safe(2) [OF assms, of C] component_finding_safe(3-5) [OF assms] component_ids [OF assms(2)] assms(1)
    by (simp add: acceptable_finding_def strip_finding_def component_finding_def report_text_ok_def)
qed

definition pending_message_words :: "string list" where
  "pending_message_words = [''a'', ''worker'', ''manifest'', ''pending'', ''action'', ''remains'', ''unresolved'']"

definition pending_summary_words :: "string list" where
  "pending_summary_words =
     [''complete'', ''the'', ''corresponding'', ''pending'', ''action'', ''in'', ''the'', ''worker'', ''manifest,'',
      ''then'', ''rerun'', ''styrn'', ''host'', ''doctor'']"

lemma pending_words_mild: "mild_sentence pending_message_words" "mild_sentence pending_summary_words"
  by code_simp+

lemma from_pending_action_words:
  "from_pending_action i a =
     \<lparr>wf_id = pending_id i, wf_state = FailState, wf_severity = pending_severity_finding (pe_severity a),
      wf_message = sentence pending_message_words,
      wf_remediation = Some \<lparr>wr_summary = sentence pending_summary_words, wr_styrn_args = None\<rparr>\<rparr>"
  by (simp add: from_pending_action_def pending_id_def pending_message_words_def pending_summary_words_def sentence_Cons)

lemma mild_sentence_text_ok:
  "mild_sentence ws \<Longrightarrow> length (sentence ws) \<le> 1024 \<Longrightarrow> report_text_ok C (sentence ws)"
  by (simp add: report_text_ok_def sentence_ne sentence_no_control sentence_not_secret)

lemma pending_finding_accepted:
  "acceptable_finding C (from_pending_action i a)" "mild_finding (from_pending_action i a)"
proof -
  have "length (sentence pending_message_words) \<le> 1024" "length (sentence pending_summary_words) \<le> 1024"
    by (simp_all add: pending_message_words_def pending_summary_words_def sentence_Cons)
  then show "acceptable_finding C (from_pending_action i a)"
    using pending_words_mild
    by (simp add: acceptable_finding_def from_pending_action_words pending_id_valid mild_sentence_text_ok)
  show "mild_finding (from_pending_action i a)"
    using pending_words_mild mild_word_text [OF pending_id_word(1)]
    by (simp add: mild_finding_def from_pending_action_words mild_textI)
qed

section \<open>Delivery\<close>

definition pending_findings :: "machine_manifest \<Rightarrow> worker_doctor_finding list" where
  "pending_findings m = map (\<lambda>(index, action). from_pending_action index action) (enumerate 0 (pendings m))"

lemma pending_findings_ids: "map wf_id (pending_findings m) = map pending_id [0..<length (pendings m)]"
  by (rule nth_equalityI) (simp_all add: pending_findings_def enumerate_eq_zip from_pending_action_words)

lemma pending_findings_accepted: "f \<in> set (pending_findings m) \<Longrightarrow> acceptable_finding C f \<and> mild_finding f"
  by (auto simp: pending_findings_def pending_finding_accepted)

lemma component_findings_delivered:
  assumes "list_all2 component_finding (doctor_components m) fs"
  shows "those (map (\<lambda>f. worker_finding_of (canonical (doctor_finding_json C f))) fs) = Some (map strip_finding fs)"
    "map wf_id (map strip_finding fs) = map component_id (doctor_components m)"
    "f \<in> set (map strip_finding fs) \<Longrightarrow> acceptable_finding C f \<and> mild_finding f"
proof -
  have each: "\<exists>c \<in> set component_names. component_finding c g" if "g \<in> set fs" for g
    using assms that doctor_components_known by (auto simp: list_all2_conv_all_nth in_set_conv_nth) (metis nth_mem subsetD)
  then show "those (map (\<lambda>f. worker_finding_of (canonical (doctor_finding_json C f))) fs) = Some (map strip_finding fs)"
    using component_finding_stripped by (intro those_map_Some) blast
  show "map wf_id (map strip_finding fs) = map component_id (doctor_components m)"
    using assms by (auto simp: list_all2_conv_all_nth component_finding_def strip_finding_def intro!: nth_equalityI)
  show "f \<in> set (map strip_finding fs) \<Longrightarrow> acceptable_finding C f \<and> mild_finding f"
    using each component_finding_accepted by (auto, blast+)
qed

lemma report_ids_distinct: "distinct (map component_id (doctor_components m) @ map pending_id [0..<n])"
proof -
  have "pending_id i \<noteq> component_id c" if "c \<in> set component_names" for i c
  proof
    assume "pending_id i = component_id c"
    then have "starts_with ''pending.'' (component_id c)" by (simp flip: \<open>pending_id i = _\<close> add: pending_id_def starts_with_prefix)
    then show False using component_ids [OF that] by blast
  qed
  then have "set (map component_id (doctor_components m)) \<inter> set (map pending_id [0..<n]) = {}"
    using doctor_components_known by (fastforce simp: disjoint_iff)
  moreover have "distinct (map component_id (doctor_components m))"
    using doctor_components_distinct doctor_components_known component_id_inj
    by (auto simp: distinct_map inj_on_subset)
  moreover have "distinct (map pending_id [0..<n])"
    by (auto simp: distinct_map inj_on_def pending_id_def)
  ultimately show ?thesis by simp
qed

lemma mild_report: "(\<forall>f \<in> set fs. mild_finding f) \<Longrightarrow>
    mild_value (report_json \<lparr>wr_findings = fs, wr_coverage = ''phase1_minimum'', wr_complete = b\<rparr>)"
  by (simp add: report_json_def list_all_iff mild_finding_json mild_word_text fixed_words) (simp add: report_keys_def)

lemma doctor_report_outcome:
  assumes fs: "list_all2 component_finding (doctor_components m) fs"
  defines "report \<equiv> \<lparr>wr_findings = map strip_finding fs @ pending_findings m, wr_coverage = ''phase1_minimum'', wr_complete = False\<rparr>"
  shows "doctor_report C m (Inr fs) =
      (if length (doctor_components m) + length (pendings m) \<le> 64 then Inr (canonical (report_json report)) else Inl HandlerRemote)"
    "length (doctor_components m) + length (pendings m) \<le> 64 \<Longrightarrow>
       report_from_remote_value C (canonical (report_json report)) = Inr report"
proof -
  have len: "length fs = length (doctor_components m)" "length (pending_findings m) = length (pendings m)" "fs \<noteq> []"
    using list_all2_lengthD [OF fs] doctor_components_length [of m] by (auto simp: pending_findings_def)
  have all: "\<forall>f \<in> set (wr_findings report). acceptable_finding C f \<and> mild_finding f"
    using component_findings_delivered(3) [OF fs] pending_findings_accepted by (auto simp: report_def)
  have "distinct (map wf_id (wr_findings report))"
    using report_ids_distinct [of m "length (pendings m)"]
    unfolding report_def worker_doctor_report.simps map_append component_findings_delivered(2) [OF fs] pending_findings_ids .
  with all have "report_findings_ok C {} (wr_findings report)" by (intro report_findings_accepted) auto
  then have valid: "validate_report_for_client C report =
      (if length (doctor_components m) + length (pendings m) \<le> 64 then Inr () else Inl doctor_response_invalid)"
    using len by (auto simp: validate_report_for_client_def report_def)
  then show "doctor_report C m (Inr fs) =
      (if length (doctor_components m) + length (pendings m) \<le> 64 then Inr (canonical (report_json report)) else Inl HandlerRemote)"
    by (simp add: doctor_report_def component_findings_delivered(1) [OF fs] pendings_def [symmetric]
        pending_findings_def [symmetric] report_def [symmetric] Let_def)
  have "mild_value (report_json report)" using all unfolding report_def by (intro mild_report) auto
  then have "\<not> remote_value_contains_secret C (canonical (report_json report))"
    by (intro mild_value_no_secret mild_value_canonical)
  then show "length (doctor_components m) + length (pendings m) \<le> 64 \<Longrightarrow>
       report_from_remote_value C (canonical (report_json report)) = Inr report"
    by (simp add: report_from_remote_value_def validate_remote_value_def reject_if_def report_roundtrip valid)
qed


definition demo_key_crates :: crates where
  "demo_key_crates =
     demo_crates\<lparr>b64_std_decode := (\<lambda>_. Some (ssh_string ed25519 @ ssh_string (replicate 32 (CHR ''k''))))\<rparr>"

lemma demo_key_accepted:
  "canonical_authorized_public_key demo_key_crates ''ssh-ed25519 AAAA host'' = Inr ''ssh-ed25519 AAAA''"
proof -
  have split: "split_ascii_whitespace ''ssh-ed25519 AAAA host'' = [''ssh-ed25519'', ''AAAA'', ''host'']" by code_simp
  have "take_ssh_wire_string (ssh_string ed25519 @ rest) = Some (ed25519, rest)" for rest
    using key_types_short [of ed25519] by (simp add: take_ssh_wire_string_iff)
  moreover have "key_body ed25519 (ssh_string (replicate 32 (CHR ''k''))) = Some []"
    unfolding key_body_ed25519 by (metis length_replicate)
  ultimately have "parse_authorized_key_line demo_key_crates ''ssh-ed25519 AAAA host'' = Some \<lparr>ak_type = ed25519, ak_encoded = ''AAAA''\<rparr>"
    unfolding parse_authorized_key_line_def split demo_key_crates_def
    by (simp add: ed25519_def [symmetric] del: replicate.simps)
  then show ?thesis by (simp add: canonical_authorized_public_key_def split)
qed


end
