(* ===== verification/Directory.thy ===== *)
theory Directory
  imports Prelude
begin

text \<open>
  The contract of a directory of records: each record has a key, under which it is looked up,
  and an identity, which no two records share. A record is inserted or replaced as a whole; an
  operation that fails changes nothing. The clients are histories of such operations.
\<close>

datatype 'h edit = Insert_edit 'h | Replace_edit 'h 'h

primrec edited_record :: "'h edit \<Rightarrow> 'h" where
  "edited_record (Insert_edit h) = h"
| "edited_record (Replace_edit e h) = h"

fun edit_with ::
  "('h \<Rightarrow> 'd \<Rightarrow> ('e + bool) \<times> 'd) \<Rightarrow> ('h \<Rightarrow> 'h \<Rightarrow> 'd \<Rightarrow> ('e + unit) \<times> 'd) \<Rightarrow> 'h edit \<Rightarrow> 'd \<Rightarrow> 'd" where
  "edit_with add swap (Insert_edit h) d = snd (add h d)"
| "edit_with add swap (Replace_edit e h) d = snd (swap e h d)"

definition edits_with ::
  "('h \<Rightarrow> 'd \<Rightarrow> ('e + bool) \<times> 'd) \<Rightarrow> ('h \<Rightarrow> 'h \<Rightarrow> 'd \<Rightarrow> ('e + unit) \<times> 'd) \<Rightarrow> 'h edit list \<Rightarrow> 'd \<Rightarrow> 'd" where
  "edits_with add swap es d = fold (edit_with add swap) es d"

locale directory =
  fixes ok :: "'d \<Rightarrow> bool"
    and lookup :: "'d \<Rightarrow> 'k \<Rightarrow> 'h option"
    and add :: "'h \<Rightarrow> 'd \<Rightarrow> ('e + bool) \<times> 'd"
    and swap :: "'h \<Rightarrow> 'h \<Rightarrow> 'd \<Rightarrow> ('e + unit) \<times> 'd"
    and key :: "'h \<Rightarrow> 'k"
    and ident :: "'h \<Rightarrow> 'i"
    and fit :: "'h \<Rightarrow> bool"
  assumes lookup_key: "ok d \<Longrightarrow> lookup d k = Some h \<Longrightarrow> key h = k"
    and ident_unique: "ok d \<Longrightarrow> lookup d k = Some h \<Longrightarrow> lookup d l = Some g \<Longrightarrow> ident h = ident g \<Longrightarrow> k = l"
    and add_failed: "add h d = (Inl e, d') \<Longrightarrow> d' = d"
    and add_there: "ok d \<Longrightarrow> add h d = (Inr False, d') \<Longrightarrow> d' = d \<and> lookup d (key h) = Some h"
    and add_new: "ok d \<Longrightarrow> fit h \<Longrightarrow> add h d = (Inr True, d') \<Longrightarrow>
      ok d' \<and> lookup d (key h) = None \<and> lookup d' = (lookup d)(key h \<mapsto> h)"
    and swap_failed: "swap g h d = (Inl e, d') \<Longrightarrow> d' = d"
    and swap_done: "ok d \<Longrightarrow> fit h \<Longrightarrow> swap g h d = (Inr (), d') \<Longrightarrow>
      ok d' \<and> key g = key h \<and> ident g = ident h \<and> lookup d (key g) = Some g \<and> lookup d' = (lookup d)(key g \<mapsto> h)"
begin

lemma add_outcome:
  assumes "ok d" "fit h" "add h d = (r, d')"
  shows "ok d' \<and> (\<forall>k g. lookup d k = Some g \<longrightarrow> lookup d' k = Some g) \<and> (\<forall>b. r = Inr b \<longrightarrow> lookup d' (key h) = Some h)"
proof (cases r)
  case (Inl e)
  then show ?thesis using add_failed [of h d e d'] assms by simp
next
  case (Inr b)
  then show ?thesis
    using add_there [of d h d'] add_new [of d h d'] assms by (cases b) auto
qed

lemma swap_outcome:
  assumes "ok d" "fit h" "swap g h d = (r, d')"
  shows "ok d' \<and> (\<forall>k e. lookup d k = Some e \<longrightarrow> (\<exists>e'. lookup d' k = Some e' \<and> ident e' = ident e)) \<and>
    (r = Inr () \<longrightarrow> lookup d' (key h) = Some h)"
proof (cases r)
  case (Inl e)
  then show ?thesis using swap_failed [of g h d e d'] assms by simp
next
  case (Inr u)
  then show ?thesis using swap_done [of d h g d'] assms by auto
qed

lemma edit_outcome:
  assumes "ok d" "fit (edited_record e)"
  shows "ok (edit_with add swap e d) \<and>
    (\<forall>k g. lookup d k = Some g \<longrightarrow> (\<exists>g'. lookup (edit_with add swap e d) k = Some g' \<and> ident g' = ident g))"
proof (cases e)
  case (Insert_edit h)
  then show ?thesis using assms add_outcome [of d h "fst (add h d)" "snd (add h d)"] by auto
next
  case (Replace_edit g h)
  then show ?thesis using assms swap_outcome [of d h g "fst (swap g h d)" "snd (swap g h d)"] by auto
qed

lemma history:
  "ok d \<Longrightarrow> (\<forall>e \<in> set es. fit (edited_record e)) \<Longrightarrow>
   ok (edits_with add swap es d) \<and>
   (\<forall>k g. lookup d k = Some g \<longrightarrow> (\<exists>g'. lookup (edits_with add swap es d) k = Some g' \<and> ident g' = ident g))"
proof (induction es arbitrary: d)
  case (Cons e es)
  have step: "ok (edit_with add swap e d)"
    "\<forall>k g. lookup d k = Some g \<longrightarrow> (\<exists>g'. lookup (edit_with add swap e d) k = Some g' \<and> ident g' = ident g)"
    using edit_outcome [of d e] Cons.prems by auto
  from Cons.IH [OF step(1)] Cons.prems(2) step(2) show ?case
    by (simp add: edits_with_def) metis
qed (simp add: edits_with_def)

end

end
