(* ===== verification/Inventory.thy ===== *)
theory Inventory
  imports Directory ManifestStore Output PlainText
begin

text \<open>
  The controller's inventory of hosts (\<open>src/inventory/store.rs\<close>): stored endpoints, the document
  with its insertion, replacement and selection, the cached manifest of a host, and their
  canonical texts. The TOML crate with the derived (de)serialisers is a parameter
  (\<open>inventory_toml\<close>) that reads and prints the wire values.
\<close>

section \<open>Data\<close>

definition inventory_schema_version :: nat where "inventory_schema_version = 1"

definition cache_schema_version :: nat where "cache_schema_version = 1"

definition max_hosts :: nat where "max_hosts = 1024"

definition max_document_bytes :: nat where "max_document_bytes = 4 * 1024 * 1024"

datatype inventory_error = InventoryArgument | InventoryConfig

definition inventory_error_code :: "inventory_error \<Rightarrow> error_code" where
  "inventory_error_code e =
     (case e of InventoryArgument \<Rightarrow> UsageInvalidArgument | InventoryConfig \<Rightarrow> UsageConfigInvalid)"

record stored_ssh =
  ssh_host :: string
  ssh_user :: string
  ssh_port :: nat
  ssh_identity :: string
  ssh_host_key :: pinned_host_key

definition ssh_rpc_target :: "stored_ssh \<Rightarrow> transport_error + rpc_target" where
  "ssh_rpc_target s = new_rpc_target (ssh_host s) (ssh_user s) (ssh_port s) (ssh_identity s) (ssh_host_key s)"

definition new_stored_ssh ::
  "string \<Rightarrow> string \<Rightarrow> nat \<Rightarrow> string \<Rightarrow> pinned_host_key \<Rightarrow> inventory_error + stored_ssh" where
  "new_stored_ssh host user port identity key =
     and_then (map_err (\<lambda>_. InventoryArgument) (validate_ssh_destination host user port)) (\<lambda>_.
     and_then (map_err (\<lambda>_. InventoryArgument) (new_rpc_target host user port identity key)) (\<lambda>_.
       Inr \<lparr>ssh_host = host, ssh_user = user, ssh_port = port, ssh_identity = identity, ssh_host_key = key\<rparr>))"

record inventory_host =
  ih_name :: string
  ih_machine_id :: uuid
  ih_manifest_cache :: string
  ih_transport :: stored_ssh

definition bounded_clean_text :: "crates \<Rightarrow> nat \<Rightarrow> string \<Rightarrow> bool" where
  "bounded_clean_text C limit t \<longleftrightarrow>
     t \<noteq> [] \<and> length t \<le> limit \<and> \<not> any_control t \<and> \<not> contains_secret_shaped_text C t"

definition valid_name :: "crates \<Rightarrow> string \<Rightarrow> bool" where
  "valid_name C t = bounded_clean_text C 255 t"

definition valid_version :: "crates \<Rightarrow> string \<Rightarrow> bool" where
  "valid_version C t = bounded_clean_text C 128 t"

definition cache_reference :: "crates \<Rightarrow> uuid \<Rightarrow> string" where
  "cache_reference C u = ''manifests/'' @ uuid_text C u @ ''.toml''"

definition new_inventory_host :: "crates \<Rightarrow> string \<Rightarrow> uuid \<Rightarrow> stored_ssh \<Rightarrow> inventory_error + inventory_host" where
  "new_inventory_host C name u endpoint =
     (if \<not> valid_name C name \<or> \<not> is_uuid_v7 C u then Inl InventoryArgument
      else Inr \<lparr>ih_name = name, ih_machine_id = u, ih_manifest_cache = cache_reference C u, ih_transport = endpoint\<rparr>)"

section \<open>The document\<close>

type_synonym inventory_document = "inventory_host list"

fun hosts_scan :: "crates \<Rightarrow> string set \<Rightarrow> uuid set \<Rightarrow> string option \<Rightarrow> inventory_host list \<Rightarrow> bool" where
  "hosts_scan C names ids previous [] = True"
| "hosts_scan C names ids previous (h # hs) =
     (if \<not> valid_name C (ih_name h) \<or> ih_name h \<in> names \<or> ih_machine_id h \<in> ids
         \<or> is_some_and (\<lambda>p. ih_name h \<le> p) previous
         \<or> ih_manifest_cache h \<noteq> cache_reference C (ih_machine_id h)
         \<or> \<not> is_ok (ssh_rpc_target (ih_transport h))
      then False
      else hosts_scan C (insert (ih_name h) names) (insert (ih_machine_id h) ids) (Some (ih_name h)) hs)"

definition validate_hosts :: "crates \<Rightarrow> inventory_host list \<Rightarrow> bool" where
  "validate_hosts C hs \<longleftrightarrow> length hs \<le> max_hosts \<and> hosts_scan C {} {} None hs"

definition new_document :: "crates \<Rightarrow> inventory_host list \<Rightarrow> inventory_error + inventory_document" where
  "new_document C hs =
     (let sorted = sort_key ih_name hs
      in if validate_hosts C sorted then Inr sorted else Inl InventoryArgument)"

definition find_host :: "inventory_document \<Rightarrow> string \<Rightarrow> inventory_host option" where
  "find_host doc name = find_first (\<lambda>h. ih_name h = name) doc"

definition select_host :: "inventory_document \<Rightarrow> string option \<Rightarrow> inventory_error + inventory_host" where
  "select_host doc name =
     (case name of
        Some name \<Rightarrow> ok_or (find_host doc name) InventoryArgument
      | None \<Rightarrow> (case doc of [h] \<Rightarrow> Inr h | _ \<Rightarrow> Inl InventoryArgument))"

text \<open>The operations that change the document return it beside their result.\<close>

definition upsert_exact ::
  "inventory_host \<Rightarrow> inventory_document \<Rightarrow> (inventory_error + bool) \<times> inventory_document" where
  "upsert_exact h doc =
     (case find_first (\<lambda>e. ih_name e = ih_name h \<or> ih_machine_id e = ih_machine_id h) doc of
        Some existing \<Rightarrow> (if existing = h then Inr False else Inl InventoryConfig, doc)
      | None \<Rightarrow>
          if length doc = max_hosts then (Inl InventoryArgument, doc)
          else (Inr True, sort_key ih_name (doc @ [h])))"

fun replace_first :: "('a \<Rightarrow> bool) \<Rightarrow> 'a \<Rightarrow> 'a list \<Rightarrow> 'a list" where
  "replace_first p y [] = []"
| "replace_first p y (x # xs) = (if p x then y # xs else x # replace_first p y xs)"

definition replace_exact ::
  "inventory_host \<Rightarrow> inventory_host \<Rightarrow> inventory_document \<Rightarrow> (inventory_error + unit) \<times> inventory_document" where
  "replace_exact expected replacement doc =
     (if ih_name expected \<noteq> ih_name replacement \<or> ih_machine_id expected \<noteq> ih_machine_id replacement
      then (Inl InventoryArgument, doc)
      else (case find_first (\<lambda>h. ih_name h = ih_name expected) doc of
              None \<Rightarrow> (Inl InventoryConfig, doc)
            | Some current \<Rightarrow>
                if current \<noteq> expected then (Inl InventoryConfig, doc)
                else (Inr (), replace_first (\<lambda>h. ih_name h = ih_name expected) replacement doc)))"

section \<open>Wire values\<close>

record stored_ssh_wire =
  sw_kind :: string
  sw_host :: string
  sw_user :: string
  sw_port :: nat
  sw_identity :: string
  sw_host_key_algorithm :: string
  sw_host_key_base64 :: string
  sw_host_key_fingerprint :: string

record inventory_host_wire =
  hw_name :: string
  hw_machine_id :: uuid
  hw_manifest_cache :: string
  hw_transport :: stored_ssh_wire

record inventory_wire =
  iw_schema_version :: nat
  iw_hosts :: "inventory_host_wire list"

record manifest_cache_wire =
  cw_schema_version :: nat
  cw_cached_at :: string
  cw_styrn_version :: string
  cw_manifest_schema_version :: nat
  cw_manifest_toml :: string

record inventory_toml =
  inventory_from_str :: "string \<Rightarrow> inventory_wire option"
  inventory_to_string :: "inventory_wire \<Rightarrow> string option"
  cache_from_str :: "string \<Rightarrow> manifest_cache_wire option"
  cache_to_string :: "manifest_cache_wire \<Rightarrow> string option"

definition host_wire :: "inventory_host \<Rightarrow> inventory_host_wire" where
  "host_wire h =
     (let s = ih_transport h; key = ssh_host_key s
      in \<lparr>hw_name = ih_name h, hw_machine_id = ih_machine_id h, hw_manifest_cache = ih_manifest_cache h,
          hw_transport =
            \<lparr>sw_kind = ''ssh'', sw_host = ssh_host s, sw_user = ssh_user s, sw_port = ssh_port s,
             sw_identity = from_utf8_lossy (ssh_identity s), sw_host_key_algorithm = key_algorithm key,
             sw_host_key_base64 = key_base64 key, sw_host_key_fingerprint = key_fingerprint key\<rparr>\<rparr>)"

definition document_wire :: "inventory_document \<Rightarrow> inventory_wire" where
  "document_wire doc = \<lparr>iw_schema_version = inventory_schema_version, iw_hosts = map host_wire doc\<rparr>"

definition document_toml :: "crates \<Rightarrow> inventory_toml \<Rightarrow> inventory_document \<Rightarrow> inventory_error + string" where
  "document_toml C T doc =
     (if \<not> validate_hosts C doc then Inl InventoryConfig
      else ok_or (inventory_to_string T (document_wire doc)) InventoryConfig)"

definition host_of_wire :: "crates \<Rightarrow> inventory_host_wire \<Rightarrow> inventory_error + inventory_host" where
  "host_of_wire C w =
     (let t = hw_transport w
      in if hw_manifest_cache w \<noteq> cache_reference C (hw_machine_id w) \<or> sw_kind t \<noteq> ''ssh'' then Inl InventoryConfig
         else and_then (map_err (\<lambda>_. InventoryConfig)
                (from_parts C (sw_host_key_algorithm t) (sw_host_key_base64 t) (sw_host_key_fingerprint t))) (\<lambda>pin.
              and_then (map_err (\<lambda>_. InventoryConfig)
                (new_stored_ssh (sw_host t) (sw_user t) (sw_port t) (sw_identity t) pin)) (\<lambda>endpoint.
              and_then (map_err (\<lambda>_. InventoryConfig) (new_inventory_host C (hw_name w) (hw_machine_id w) endpoint)) (\<lambda>h.
                Inr (h\<lparr>ih_manifest_cache := hw_manifest_cache w\<rparr>)))))"

fun hosts_of_wire :: "crates \<Rightarrow> inventory_host_wire list \<Rightarrow> inventory_error + inventory_host list" where
  "hosts_of_wire C [] = Inr []"
| "hosts_of_wire C (w # ws) =
     and_then (host_of_wire C w) (\<lambda>h. and_then (hosts_of_wire C ws) (\<lambda>hs. Inr (h # hs)))"

definition parse_document :: "crates \<Rightarrow> inventory_toml \<Rightarrow> string \<Rightarrow> inventory_error + inventory_document" where
  "parse_document C T input =
     (if contains_secret_shaped_text C input then Inl InventoryConfig
      else and_then (ok_or (inventory_from_str T input) InventoryConfig) (\<lambda>wire.
           if iw_schema_version wire \<noteq> inventory_schema_version then Inl InventoryConfig
           else and_then (hosts_of_wire C (iw_hosts wire)) (\<lambda>hs.
                  map_err (\<lambda>_. InventoryConfig) (new_document C hs))))"

section \<open>The cached manifest of a host\<close>

record manifest_cache =
  mc_cached_at :: nat
  mc_styrn_version :: string
  mc_manifest_schema_version :: nat
  mc_manifest_toml :: string
  mc_machine_id :: uuid

definition cached_manifest :: "crates \<Rightarrow> toml_api \<Rightarrow> manifest_cache \<Rightarrow> inventory_error + machine_manifest" where
  "cached_manifest C M c = map_err (\<lambda>_. InventoryConfig) (parse_toml C M (mc_manifest_toml c))"

definition validate_cache :: "crates \<Rightarrow> toml_api \<Rightarrow> manifest_cache \<Rightarrow> inventory_error + unit" where
  "validate_cache C M c =
     and_then (cached_manifest C M c) (\<lambda>m.
       if mc_manifest_schema_version c \<noteq> schema_version m \<or> mc_machine_id c \<noteq> machine_id m
          \<or> \<not> valid_version C (mc_styrn_version c) \<or> to_toml C M m \<noteq> Inr (mc_manifest_toml c)
       then Inl InventoryConfig else Inr ())"

definition new_manifest_cache ::
  "crates \<Rightarrow> toml_api \<Rightarrow> nat \<Rightarrow> string \<Rightarrow> machine_manifest \<Rightarrow> inventory_error + manifest_cache" where
  "new_manifest_cache C M time version m =
     (if \<not> valid_version C version then Inl InventoryArgument
      else and_then (map_err (\<lambda>_. InventoryArgument) (to_toml C M m)) (\<lambda>document.
           let c = \<lparr>mc_cached_at = time, mc_styrn_version = version, mc_manifest_schema_version = schema_version m,
                    mc_manifest_toml = document, mc_machine_id = machine_id m\<rparr>
           in and_then (map_err (\<lambda>_. InventoryArgument) (validate_cache C M c)) (\<lambda>_. Inr c)))"

definition cache_toml :: "crates \<Rightarrow> toml_api \<Rightarrow> inventory_toml \<Rightarrow> manifest_cache \<Rightarrow> inventory_error + string" where
  "cache_toml C M T c =
     and_then (validate_cache C M c) (\<lambda>_.
       ok_or (cache_to_string T
         \<lparr>cw_schema_version = cache_schema_version, cw_cached_at = rfc3339_text C (mc_cached_at c),
          cw_styrn_version = mc_styrn_version c, cw_manifest_schema_version = mc_manifest_schema_version c,
          cw_manifest_toml = mc_manifest_toml c\<rparr>) InventoryConfig)"

definition parse_cache ::
  "crates \<Rightarrow> toml_api \<Rightarrow> inventory_toml \<Rightarrow> string \<Rightarrow> uuid \<Rightarrow> inventory_error + manifest_cache" where
  "parse_cache C M T input u =
     (if contains_secret_shaped_text C input then Inl InventoryConfig
      else and_then (ok_or (cache_from_str T input) InventoryConfig) (\<lambda>wire.
           if cw_schema_version wire \<noteq> cache_schema_version then Inl InventoryConfig
           else and_then (ok_or (rfc3339_parse C (cw_cached_at wire)) InventoryConfig) (\<lambda>time.
                let c = \<lparr>mc_cached_at = time, mc_styrn_version = cw_styrn_version wire,
                         mc_manifest_schema_version = cw_manifest_schema_version wire,
                         mc_manifest_toml = cw_manifest_toml wire, mc_machine_id = u\<rparr>
                in and_then (validate_cache C M c) (\<lambda>_. Inr c))))"

section \<open>What a valid document is\<close>

text \<open>A host whose fields every reader accepts.\<close>

definition sound_host :: "crates \<Rightarrow> inventory_host \<Rightarrow> bool" where
  "sound_host C h \<longleftrightarrow>
     valid_name C (ih_name h) \<and> ih_manifest_cache h = cache_reference C (ih_machine_id h) \<and>
     is_ok (ssh_rpc_target (ih_transport h))"

definition valid_document :: "crates \<Rightarrow> inventory_document \<Rightarrow> bool" where
  "valid_document C doc \<longleftrightarrow>
     length doc \<le> max_hosts \<and> sorted_wrt (<) (map ih_name doc) \<and> distinct (map ih_machine_id doc) \<and>
     (\<forall>h \<in> set doc. sound_host C h)"

lemma hosts_scan_iff:
  assumes "\<forall>n \<in> names. \<exists>p. previous = Some p \<and> n \<le> p"
  shows "hosts_scan C names ids previous hs \<longleftrightarrow>
     (\<forall>h \<in> set hs. sound_host C h \<and> ih_machine_id h \<notin> ids \<and> (\<forall>p. previous = Some p \<longrightarrow> p < ih_name h)) \<and>
     sorted_wrt (<) (map ih_name hs) \<and> distinct (map ih_machine_id hs)"
  using assms
proof (induction hs arbitrary: names ids previous)
  case (Cons h hs)
  have names: "\<forall>n \<in> insert (ih_name h) names. \<exists>p. Some (ih_name h) = Some p \<and> n \<le> p"
    if "\<forall>p. previous = Some p \<longrightarrow> p < ih_name h"
    using Cons.prems that by force
  have fresh: "ih_name h \<notin> names" if "\<forall>p. previous = Some p \<longrightarrow> p < ih_name h"
    using Cons.prems that by force
  have above: "is_some_and (\<lambda>p. ih_name h \<le> p) previous \<longleftrightarrow> \<not> (\<forall>p. previous = Some p \<longrightarrow> p < ih_name h)"
    by (cases previous) auto
  show ?case
  proof (cases "\<forall>p. previous = Some p \<longrightarrow> p < ih_name h")
    case True
    note ih = Cons.IH [OF names [OF True], of "insert (ih_machine_id h) ids"]
    show ?thesis
      using True fresh [OF True] unfolding hosts_scan.simps above ih
      by (auto simp: sound_host_def image_iff dest: less_trans)
  qed (simp add: above)
qed simp

lemma validate_hosts_iff: "validate_hosts C doc \<longleftrightarrow> valid_document C doc"
  by (auto simp: validate_hosts_def valid_document_def hosts_scan_iff)

lemma valid_names: "valid_document C doc \<Longrightarrow> distinct (map ih_name doc)"
  by (metis valid_document_def strict_sorted_iff)

lemma valid_names_sorted: "valid_document C doc \<Longrightarrow> sorted (map ih_name doc)"
  by (metis valid_document_def strict_sorted_iff)

lemma find_host_member:
  assumes "distinct (map ih_name doc)"
  shows "find_host doc n = Some h \<longleftrightarrow> h \<in> set doc \<and> ih_name h = n"
proof
  assume "find_host doc n = Some h"
  then show "h \<in> set doc \<and> ih_name h = n" unfolding find_host_def by (auto dest: find_first_SomeD)
next
  assume h: "h \<in> set doc \<and> ih_name h = n"
  have "e = h" if "e \<in> set doc" "ih_name e = n" for e
    using that h assms by (auto simp: distinct_map inj_on_def)
  with h show "find_host doc n = Some h"
    unfolding find_host_def by (intro find_first_unique) auto
qed

lemma sort_hosts:
  fixes hs :: "inventory_host list"
  shows "set (sort_key ih_name hs) = set hs"
    "distinct (map ih_machine_id (sort_key ih_name hs)) \<longleftrightarrow> distinct (map ih_machine_id hs)"
    "distinct (map ih_name (sort_key ih_name hs)) \<longleftrightarrow> distinct (map ih_name hs)"
  by (simp_all add: distinct_map)

lemma valid_sorted:
  assumes "distinct (map ih_name hs)" "distinct (map ih_machine_id hs)" "length hs \<le> max_hosts" "\<forall>h \<in> set hs. sound_host C h"
  shows "valid_document C (sort_key ih_name hs)"
  using assms sort_hosts [of hs] by (simp add: valid_document_def strict_sorted_iff)

lemma valid_document_sorted_id: "valid_document C doc \<Longrightarrow> sort_key ih_name doc = doc"
  using valid_names_sorted by (simp add: sort_key_id_if_sorted)

section \<open>The document as a directory\<close>

lemma upsert_exact_cases:
  assumes "valid_document C doc"
  shows "upsert_exact h doc =
     (if find_host doc (ih_name h) = Some h then (Inr False, doc)
      else if \<exists>e \<in> set doc. ih_name e = ih_name h \<or> ih_machine_id e = ih_machine_id h then (Inl InventoryConfig, doc)
      else if length doc = max_hosts then (Inl InventoryArgument, doc)
      else (Inr True, sort_key ih_name (doc @ [h])))"
proof (cases "find_first (\<lambda>e. ih_name e = ih_name h \<or> ih_machine_id e = ih_machine_id h) doc")
  case None
  then have "\<not> (\<exists>e \<in> set doc. ih_name e = ih_name h \<or> ih_machine_id e = ih_machine_id h)"
    by (simp add: find_first_None_iff)
  moreover from this have "find_host doc (ih_name h) = None" by (auto simp: find_host_def find_first_None_iff)
  ultimately show ?thesis using None by (simp add: upsert_exact_def)
next
  case (Some e)
  then have e: "e \<in> set doc" "ih_name e = ih_name h \<or> ih_machine_id e = ih_machine_id h" by (auto dest: find_first_SomeD)
  have "find_host doc (ih_name h) = Some h \<longleftrightarrow> h \<in> set doc"
    using find_host_member [OF valid_names [OF assms]] by simp
  also have "\<dots> \<longleftrightarrow> e = h"
    using e assms valid_names [OF assms] by (auto simp: valid_document_def distinct_map inj_on_def)
  finally show ?thesis using Some e by (auto simp: upsert_exact_def)
qed

lemma find_host_sorted:
  assumes "distinct (map ih_name (doc @ [h]))"
  shows "find_host (sort_key ih_name (doc @ [h])) = (find_host doc)(ih_name h \<mapsto> h)"
proof (rule ext, rule option.expand)
  fix n
  have d: "distinct (map ih_name (sort_key ih_name (doc @ [h])))" "distinct (map ih_name doc)"
    using assms sort_hosts(3) [of "doc @ [h]"] by simp_all
  note m = find_host_member [OF d(1), of n] find_host_member [OF d(2), of n]
  have *: "find_host (sort_key ih_name (doc @ [h])) n = Some g \<longleftrightarrow> ((find_host doc)(ih_name h \<mapsto> h)) n = Some g" for g
    using assms by (auto simp: m sort_hosts(1) image_iff)
  then show "(find_host (sort_key ih_name (doc @ [h])) n = None) = (((find_host doc)(ih_name h \<mapsto> h)) n = None)"
    by (metis not_None_eq)
  show "the (find_host (sort_key ih_name (doc @ [h])) n) = the (((find_host doc)(ih_name h \<mapsto> h)) n)"
    using * by (metis not_None_eq)
qed

lemma upsert_new:
  assumes "valid_document C doc" "sound_host C h" "upsert_exact h doc = (Inr True, doc')"
  shows "valid_document C doc' \<and> find_host doc (ih_name h) = None \<and> find_host doc' = (find_host doc)(ih_name h \<mapsto> h)"
proof -
  have new: "\<not> (\<exists>e \<in> set doc. ih_name e = ih_name h \<or> ih_machine_id e = ih_machine_id h)"
    and len: "length doc \<noteq> max_hosts" and doc': "doc' = sort_key ih_name (doc @ [h])"
    using assms(3) unfolding upsert_exact_cases [OF assms(1)] by (auto split: if_splits)
  have d: "distinct (map ih_name (doc @ [h]))" "distinct (map ih_machine_id (doc @ [h]))"
    using new valid_names [OF assms(1)] assms(1) by (auto simp: valid_document_def)
  have "valid_document C doc'"
    unfolding doc' using d assms(1,2) len by (intro valid_sorted) (auto simp: valid_document_def)
  moreover have "find_host doc (ih_name h) = None" using new by (auto simp: find_host_def find_first_None_iff)
  ultimately show ?thesis using find_host_sorted [OF d(1)] doc' by simp
qed

lemma replace_first_map:
  "distinct (map f xs) \<Longrightarrow> f y = k \<Longrightarrow> replace_first (\<lambda>x. f x = k) y xs = map (\<lambda>x. if f x = k then y else x) xs"
  by (induction xs) (auto intro!: map_idI [symmetric] simp: image_iff)

lemma replace_done:
  assumes "valid_document C doc" "sound_host C h" "replace_exact g h doc = (Inr (), doc')"
  shows "valid_document C doc' \<and> ih_name g = ih_name h \<and> ih_machine_id g = ih_machine_id h \<and>
    find_host doc (ih_name g) = Some g \<and> find_host doc' = (find_host doc)(ih_name g \<mapsto> h)"
proof -
  have same: "ih_name g = ih_name h" "ih_machine_id g = ih_machine_id h"
    and there: "find_host doc (ih_name g) = Some g"
    and doc': "doc' = replace_first (\<lambda>e. ih_name e = ih_name g) h doc"
    using assms(3) by (auto simp: replace_exact_def find_host_def split: if_splits option.splits)
  define swap where "swap e = (if ih_name e = ih_name g then h else e)" for e
  have names: "distinct (map ih_name doc)" by (rule valid_names [OF assms(1)])
  have doc: "doc' = map swap doc"
    unfolding doc' swap_def using replace_first_map [OF names] same by simp
  have id: "ih_machine_id (swap e) = ih_machine_id e" if "e \<in> set doc" for e
    using that there find_host_member [OF names] same names
    by (auto simp: swap_def distinct_map inj_on_def)
  have name: "ih_name (swap e) = ih_name e" for e by (simp add: swap_def same)
  have maps: "map ih_name doc' = map ih_name doc" "map ih_machine_id doc' = map ih_machine_id doc"
    using id by (simp_all add: doc name)
  have "valid_document C doc'"
    using assms(1,2) unfolding valid_document_def maps by (auto simp: doc swap_def)
  moreover have "find_host doc' = (find_host doc)(ih_name g \<mapsto> h)"
  proof
    fix n
    have "find_host doc' n = map_option swap (find_host doc n)"
      unfolding find_host_def doc by (induction doc) (simp_all add: name)
    also have "\<dots> = ((find_host doc)(ih_name g \<mapsto> h)) n"
      using there by (cases "find_host doc n") (auto simp: swap_def same find_host_def dest: find_first_SomeD)
    finally show "find_host doc' n = ((find_host doc)(ih_name g \<mapsto> h)) n" .
  qed
  ultimately show ?thesis using same there by blast
qed

interpretation inventory: directory "valid_document C" find_host upsert_exact replace_exact ih_name ih_machine_id "sound_host C"
  for C
proof
  fix d :: inventory_document and k l h g e d'
  show "valid_document C d \<Longrightarrow> find_host d k = Some h \<Longrightarrow> ih_name h = k"
    by (simp add: find_host_member valid_names)
  show "valid_document C d \<Longrightarrow> find_host d k = Some h \<Longrightarrow> find_host d l = Some g \<Longrightarrow>
      ih_machine_id h = ih_machine_id g \<Longrightarrow> k = l"
    using valid_names [of C d] by (auto simp: find_host_member valid_document_def distinct_map inj_on_def)
  show "upsert_exact h d = (Inl e, d') \<Longrightarrow> d' = d"
    by (auto simp: upsert_exact_def split: option.splits if_splits)
  show "valid_document C d \<Longrightarrow> upsert_exact h d = (Inr False, d') \<Longrightarrow> d' = d \<and> find_host d (ih_name h) = Some h"
    by (auto simp: upsert_exact_cases split: if_splits)
  show "valid_document C d \<Longrightarrow> sound_host C h \<Longrightarrow> upsert_exact h d = (Inr True, d') \<Longrightarrow>
      valid_document C d' \<and> find_host d (ih_name h) = None \<and> find_host d' = (find_host d)(ih_name h \<mapsto> h)"
    by (rule upsert_new)
  show "replace_exact g h d = (Inl e, d') \<Longrightarrow> d' = d"
    by (auto simp: replace_exact_def split: option.splits if_splits)
  show "valid_document C d \<Longrightarrow> sound_host C h \<Longrightarrow> replace_exact g h d = (Inr (), d') \<Longrightarrow>
      valid_document C d' \<and> ih_name g = ih_name h \<and> ih_machine_id g = ih_machine_id h \<and>
      find_host d (ih_name g) = Some g \<and> find_host d' = (find_host d)(ih_name g \<mapsto> h)"
    by (rule replace_done)
qed

lemma document_dom: "valid_document C doc \<Longrightarrow> card (dom (find_host doc)) = length doc"
proof -
  assume v: "valid_document C doc"
  have "dom (find_host doc) = ih_name ` set doc"
    using find_host_member [OF valid_names [OF v]] by (auto simp: dom_def)
  then show ?thesis using valid_names [OF v] by (metis distinct_card length_map set_map)
qed

lemma document_determined:
  assumes "valid_document C a" "valid_document C b" "find_host a = find_host b"
  shows "a = b"
proof -
  have "h \<in> set a \<longleftrightarrow> h \<in> set b" for h
    using find_host_member [OF valid_names [OF assms(1)]] find_host_member [OF valid_names [OF assms(2)]] assms(3)
    by metis
  then have "set a = set b" by blast
  moreover have "sorted (map ih_name a)" "sorted (map ih_name b)" "distinct (map ih_name a)" "distinct (map ih_name b)"
    using assms(1,2) valid_names valid_names_sorted by blast+
  moreover have "inj_on ih_name (set a \<union> set b)"
    using calculation(1) valid_names [OF assms(1)] by (simp add: distinct_map)
  ultimately show "a = b" by (metis map_sorted_distinct_set_unique)
qed

lemma select_only:
  assumes "valid_document C doc"
  shows "select_host doc None = Inr h \<longleftrightarrow> find_host doc = [ih_name h \<mapsto> h]"
proof
  assume "select_host doc None = Inr h"
  then have "doc = [h]" by (auto simp: select_host_def split: list.splits)
  then show "find_host doc = [ih_name h \<mapsto> h]" by (auto simp: find_host_def)
next
  assume m: "find_host doc = [ih_name h \<mapsto> h]"
  then have "length doc = 1" using document_dom [OF assms] by simp
  then obtain g where "doc = [g]" by (auto simp: length_Suc_conv)
  moreover have "g = h" using m calculation by (auto simp: find_host_def fun_eq_iff split: if_splits)
  ultimately show "select_host doc None = Inr h" by (simp add: select_host_def)
qed

lemma upsert_refines:
  assumes doc: "valid_document C doc" and h: "sound_host C h" and u: "upsert_exact h doc = (r, doc')"
  shows "if find_host doc (ih_name h) = Some h then r = Inr False \<and> doc' = doc
     else if \<exists>n e. find_host doc n = Some e \<and> (n = ih_name h \<or> ih_machine_id e = ih_machine_id h)
          then r = Inl InventoryConfig \<and> doc' = doc
     else if card (dom (find_host doc)) = 1024 then r = Inl InventoryArgument \<and> doc' = doc
     else r = Inr True \<and> find_host doc' = (find_host doc)(ih_name h \<mapsto> h)"
proof -
  have there: "(\<exists>n e. find_host doc n = Some e \<and> (n = ih_name h \<or> ih_machine_id e = ih_machine_id h)) \<longleftrightarrow>
      (\<exists>e \<in> set doc. ih_name e = ih_name h \<or> ih_machine_id e = ih_machine_id h)"
    using find_host_member [OF valid_names [OF doc]] by auto
  have new: "find_host doc' = (find_host doc)(ih_name h \<mapsto> h)" if "r = Inr True"
    using upsert_new [OF doc h] u that by blast
  define B where "B \<longleftrightarrow> (\<exists>e \<in> set doc. ih_name e = ih_name h \<or> ih_machine_id e = ih_machine_id h)"
  show ?thesis
    unfolding there document_dom [OF doc] B_def [symmetric] using u new
    unfolding upsert_exact_cases [OF doc] max_hosts_def B_def [symmetric] by (auto split: if_splits)
qed

lemma replace_refines:
  assumes doc: "valid_document C doc" and h: "sound_host C h" and u: "replace_exact g h doc = (r, doc')"
  shows "if ih_name g \<noteq> ih_name h \<or> ih_machine_id g \<noteq> ih_machine_id h then r = Inl InventoryArgument \<and> doc' = doc
     else if find_host doc (ih_name g) \<noteq> Some g then r = Inl InventoryConfig \<and> doc' = doc
     else r = Inr () \<and> find_host doc' = (find_host doc)(ih_name g \<mapsto> h)"
proof -
  have new: "find_host doc' = (find_host doc)(ih_name g \<mapsto> h)" if "r = Inr ()"
    using replace_done [OF doc h] u that by blast
  show ?thesis
    using u new unfolding replace_exact_def find_host_def [symmetric] by (auto split: if_splits option.splits)
qed

text \<open>
  C26. The inventory is a finite map from aliases to hosts: a valid document is determined by
  its map; inserting and replacing keep it valid and are exactly the map's update, refused
  without a change when the alias or the machine is already there with other data, when the
  1024 places are taken, or when the replaced record is not the one expected; and a host is
  selected without an alias exactly when it is the only one.
\<close>

theorem inventory_refines_map:
  assumes doc: "valid_document C doc" and h: "sound_host C h"
  defines "m \<equiv> find_host doc"
  shows
    "(case upsert_exact h doc of (r, doc') \<Rightarrow>
        valid_document C doc' \<and>
        (if m (ih_name h) = Some h then r = Inr False \<and> doc' = doc
         else if \<exists>n e. m n = Some e \<and> (n = ih_name h \<or> ih_machine_id e = ih_machine_id h)
              then r = Inl InventoryConfig \<and> doc' = doc
         else if card (dom m) = 1024 then r = Inl InventoryArgument \<and> doc' = doc
         else r = Inr True \<and> find_host doc' = m(ih_name h \<mapsto> h))) \<and>
     (case replace_exact g h doc of (r, doc') \<Rightarrow>
        valid_document C doc' \<and>
        (if ih_name g \<noteq> ih_name h \<or> ih_machine_id g \<noteq> ih_machine_id h then r = Inl InventoryArgument \<and> doc' = doc
         else if m (ih_name g) \<noteq> Some g then r = Inl InventoryConfig \<and> doc' = doc
         else r = Inr () \<and> find_host doc' = m(ih_name g \<mapsto> h))) \<and>
     select_host doc (Some n) = ok_or (m n) InventoryArgument \<and>
     (select_host doc None = Inr e \<longleftrightarrow> m = [ih_name e \<mapsto> e]) \<and>
     (valid_document C other \<longrightarrow> find_host other = m \<longrightarrow> other = doc)"
proof (intro conjI)
  obtain r doc' where u: "upsert_exact h doc = (r, doc')" by force
  show "case upsert_exact h doc of (r, doc') \<Rightarrow>
        valid_document C doc' \<and>
        (if m (ih_name h) = Some h then r = Inr False \<and> doc' = doc
         else if \<exists>n e. m n = Some e \<and> (n = ih_name h \<or> ih_machine_id e = ih_machine_id h)
              then r = Inl InventoryConfig \<and> doc' = doc
         else if card (dom m) = 1024 then r = Inl InventoryArgument \<and> doc' = doc
         else r = Inr True \<and> find_host doc' = m(ih_name h \<mapsto> h))"
    unfolding m_def u prod.case using upsert_refines [OF doc h u] inventory.add_outcome [OF doc h u] by blast
  obtain r2 doc2 where v: "replace_exact g h doc = (r2, doc2)" by force
  show "case replace_exact g h doc of (r, doc') \<Rightarrow>
        valid_document C doc' \<and>
        (if ih_name g \<noteq> ih_name h \<or> ih_machine_id g \<noteq> ih_machine_id h then r = Inl InventoryArgument \<and> doc' = doc
         else if m (ih_name g) \<noteq> Some g then r = Inl InventoryConfig \<and> doc' = doc
         else r = Inr () \<and> find_host doc' = m(ih_name g \<mapsto> h))"
    unfolding m_def v prod.case using replace_refines [OF doc h v] inventory.swap_outcome [OF doc h v] by blast
  show "select_host doc None = Inr e \<longleftrightarrow> m = [ih_name e \<mapsto> e]" unfolding m_def by (rule select_only [OF doc])
  show "valid_document C other \<longrightarrow> find_host other = m \<longrightarrow> other = doc"
    using document_determined doc by (auto simp: m_def)
qed (simp add: select_host_def m_def)

section \<open>Reading back\<close>

text \<open>What the TOML crate documents: a printed value is UTF-8 and is read back.\<close>

definition inventory_text_law :: "inventory_toml \<Rightarrow> bool" where
  "inventory_text_law T \<longleftrightarrow>
     (\<forall>w t. inventory_to_string T w = Some t \<longrightarrow> inventory_from_str T t = Some w \<and> utf8_valid t) \<and>
     (\<forall>w t. cache_to_string T w = Some t \<longrightarrow> cache_from_str T t = Some w \<and> utf8_valid t)"

text \<open>A host that can be enrolled: a UUID of version 7 and a key a scan offered.\<close>

definition enrolled_host :: "crates \<Rightarrow> inventory_host \<Rightarrow> bool" where
  "enrolled_host C h \<longleftrightarrow>
     is_uuid_v7 C (ih_machine_id h) \<and> (\<exists>scan. ssh_host_key (ih_transport h) \<in> offered_keys C scan)"

lemma new_target_checks:
  "new_rpc_target host user port identity key = Inr t \<Longrightarrow>
     validate_ssh_destination host user port = Inr () \<and> utf8_valid identity"
  by (auto simp: new_rpc_target_def validate_ssh_destination_def validate_transport_path_def path_to_str_def
      result_simps split: if_splits)

lemma host_of_wire_back:
  assumes "base64_laws C" "sound_host C h" "enrolled_host C h"
  shows "host_of_wire C (host_wire h) = Inr h"
proof -
  let ?s = "ih_transport h"
  obtain scan where "ssh_host_key ?s \<in> offered_keys C scan" using assms(3) by (auto simp: enrolled_host_def)
  then have pin: "from_parts C (key_algorithm (ssh_host_key ?s)) (key_base64 (ssh_host_key ?s)) (key_fingerprint (ssh_host_key ?s)) =
      Inr (ssh_host_key ?s)"
    by (rule offered_reread [OF assms(1)])
  obtain t where t: "new_rpc_target (ssh_host ?s) (ssh_user ?s) (ssh_port ?s) (ssh_identity ?s) (ssh_host_key ?s) = Inr t"
    using assms(2) by (auto simp: sound_host_def ssh_rpc_target_def is_ok_iff)
  have id: "from_utf8_lossy (ssh_identity ?s) = ssh_identity ?s"
    using new_target_checks [OF t] lossy_valid by blast
  have "new_stored_ssh (ssh_host ?s) (ssh_user ?s) (ssh_port ?s) (ssh_identity ?s) (ssh_host_key ?s) = Inr ?s"
    using t new_target_checks [OF t] by (simp add: new_stored_ssh_def)
  moreover have "new_inventory_host C (ih_name h) (ih_machine_id h) ?s = Inr h"
    using assms(2,3) by (simp add: new_inventory_host_def sound_host_def enrolled_host_def)
  moreover have "ih_manifest_cache h = cache_reference C (ih_machine_id h)" using assms(2) by (simp add: sound_host_def)
  ultimately show ?thesis by (simp add: host_of_wire_def host_wire_def Let_def pin id)
qed

lemma hosts_of_wire_back:
  "base64_laws C \<Longrightarrow> \<forall>h \<in> set hs. sound_host C h \<and> enrolled_host C h \<Longrightarrow> hosts_of_wire C (map host_wire hs) = Inr hs"
  by (induction hs) (simp_all add: host_of_wire_back)

lemma document_read_back:
  assumes "inventory_text_law T" "base64_laws C" "document_toml C T doc = Inr t"
    and "\<not> contains_secret_shaped_text C t" "\<forall>h \<in> set doc. enrolled_host C h"
  shows "parse_document C T t = Inr doc"
proof -
  have v: "valid_document C doc" and w: "inventory_to_string T (document_wire doc) = Some t"
    using assms(3) by (auto simp: document_toml_def validate_hosts_iff result_simps split: if_splits)
  have r: "inventory_from_str T t = Some (document_wire doc)" using assms(1) w by (simp add: inventory_text_law_def)
  have "hosts_of_wire C (map host_wire doc) = Inr doc"
    using v assms(2,5) by (intro hosts_of_wire_back) (auto simp: valid_document_def)
  moreover have "new_document C doc = Inr doc"
    using v by (simp add: new_document_def valid_document_sorted_id validate_hosts_iff)
  ultimately show ?thesis
    using r assms(4) by (simp add: parse_document_def document_wire_def)
qed

lemma from_parts_offered: "from_parts C a b f = Inr key \<Longrightarrow> \<exists>scan. key \<in> offered_keys C scan"
  unfolding from_parts_def select_by_fingerprint by blast

lemma host_of_wire_sound:
  assumes "host_of_wire C w = Inr h"
  shows "sound_host C h \<and> enrolled_host C h"
proof -
  let ?t = "hw_transport w"
  obtain pin s where p: "from_parts C (sw_host_key_algorithm ?t) (sw_host_key_base64 ?t) (sw_host_key_fingerprint ?t) = Inr pin"
    "new_stored_ssh (sw_host ?t) (sw_user ?t) (sw_port ?t) (sw_identity ?t) pin = Inr s"
    "new_inventory_host C (hw_name w) (hw_machine_id w) s = Inr h"
    "hw_manifest_cache w = cache_reference C (hw_machine_id w)"
    using assms by (auto simp: host_of_wire_def Let_def result_simps new_inventory_host_def split: if_splits)
  obtain t where t: "new_rpc_target (sw_host ?t) (sw_user ?t) (sw_port ?t) (sw_identity ?t) pin = Inr t"
    and s: "s = \<lparr>ssh_host = sw_host ?t, ssh_user = sw_user ?t, ssh_port = sw_port ?t, ssh_identity = sw_identity ?t, ssh_host_key = pin\<rparr>"
    using p(2) by (auto simp: new_stored_ssh_def result_simps)
  show ?thesis
    using p(3) from_parts_offered [OF p(1)] t
    by (auto simp: new_inventory_host_def sound_host_def enrolled_host_def ssh_rpc_target_def s is_ok_iff split: if_splits)
qed

lemma hosts_of_wire_sound:
  "hosts_of_wire C ws = Inr hs \<Longrightarrow> \<forall>h \<in> set hs. sound_host C h \<and> enrolled_host C h"
  by (induction ws arbitrary: hs) (auto simp: result_simps dest: host_of_wire_sound)

lemma parse_document_sound:
  assumes "parse_document C T t = Inr doc"
  shows "valid_document C doc \<and> (\<forall>h \<in> set doc. enrolled_host C h)"
proof -
  obtain wire :: inventory_wire and hs where "hosts_of_wire C (iw_hosts wire) = Inr hs" "new_document C hs = Inr doc"
    using assms by (auto simp: parse_document_def result_simps split: if_splits)
  then show ?thesis
    using hosts_of_wire_sound [of C "iw_hosts wire" hs]
    by (auto simp: new_document_def Let_def validate_hosts_iff split: if_splits)
qed

text \<open>
  C32. The inventory file is faithful: what the parser accepts is a valid document of machines
  with a UUID of version 7 and keys that a scan could have offered; and the canonical text of
  such a document, when it passes the secret guard every writer applies, is read back as the
  same document, names, endpoints, pinned keys and order included.
\<close>

theorem inventory_roundtrip:
  assumes "inventory_text_law T" "base64_laws C"
  shows "(parse_document C T input = Inr doc \<longrightarrow> valid_document C doc \<and> (\<forall>h \<in> set doc. enrolled_host C h)) \<and>
    (document_toml C T doc = Inr t \<longrightarrow> \<not> contains_secret_shaped_text C t \<longrightarrow> (\<forall>h \<in> set doc. enrolled_host C h) \<longrightarrow>
       parse_document C T t = Inr doc)"
  using parse_document_sound document_read_back [OF assms] by blast

lemma cache_read_back:
  assumes "inventory_text_law T" "rfc3339_parse C (rfc3339_text C (mc_cached_at c)) = Some (mc_cached_at c)"
    and "cache_toml C M T c = Inr t" "\<not> contains_secret_shaped_text C t"
  shows "parse_cache C M T t (mc_machine_id c) = Inr c"
proof -
  have v: "validate_cache C M c = Inr ()"
    and w: "cache_to_string T \<lparr>cw_schema_version = cache_schema_version, cw_cached_at = rfc3339_text C (mc_cached_at c),
      cw_styrn_version = mc_styrn_version c, cw_manifest_schema_version = mc_manifest_schema_version c,
      cw_manifest_toml = mc_manifest_toml c\<rparr> = Some t"
    using assms(3) by (auto simp: cache_toml_def result_simps)
  have "cache_from_str T t = Some \<lparr>cw_schema_version = cache_schema_version, cw_cached_at = rfc3339_text C (mc_cached_at c),
      cw_styrn_version = mc_styrn_version c, cw_manifest_schema_version = mc_manifest_schema_version c,
      cw_manifest_toml = mc_manifest_toml c\<rparr>"
    using assms(1) w by (simp add: inventory_text_law_def)
  then show ?thesis using v assms(2,4) by (cases c) (simp add: parse_cache_def)
qed

section \<open>A concrete inventory\<close>

definition demo_endpoint :: stored_ssh where
  "demo_endpoint =
     \<lparr>ssh_host = ''atlas'', ssh_user = ''styrn'', ssh_port = 22, ssh_identity = ''/key'', ssh_host_key = demo_key\<rparr>"

definition demo_host_record :: inventory_host where
  "demo_host_record =
     \<lparr>ih_name = ''atlas'', ih_machine_id = demo_uuid, ih_manifest_cache = cache_reference demo_scan_crates demo_uuid,
      ih_transport = demo_endpoint\<rparr>"

definition demo_inventory_toml :: inventory_toml where
  "demo_inventory_toml =
     \<lparr>inventory_from_str = (\<lambda>_. Some (document_wire [demo_host_record])),
      inventory_to_string = (\<lambda>w. if w = document_wire [demo_host_record] then Some ''hosts'' else None),
      cache_from_str = (\<lambda>_. None), cache_to_string = (\<lambda>_. None)\<rparr>"

lemma demo_toml_law: "inventory_text_law demo_inventory_toml"
proof -
  have "utf8_valid ''hosts''" by code_simp
  then show ?thesis by (auto simp: inventory_text_law_def demo_inventory_toml_def)
qed

lemma demo_words: "mild_sentence [''atlas'']" "mild_sentence [''hosts'']"
  by code_simp+

lemma demo_name_clean: "bounded_clean_text C 255 ''atlas''"
  using sentence_not_secret [OF demo_words(1), of C] sentence_no_control [OF demo_words(1)]
  by (simp add: bounded_clean_text_def)

lemma demo_host_sound: "sound_host demo_scan_crates demo_host_record"
proof -
  have "validate_host ''atlas'' = Inr ()" "validate_user ''styrn'' = Inr ()" "validate_transport_path ''/key'' = Inr ''/key''"
    by code_simp+
  then show ?thesis
    by (simp add: sound_host_def demo_host_record_def valid_name_def demo_name_clean ssh_rpc_target_def demo_endpoint_def
        new_rpc_target_def)
qed

lemma demo_host_enrolled: "enrolled_host demo_scan_crates demo_host_record"
proof -
  have "is_uuid_v7 demo_scan_crates demo_uuid"
    using demo_uuid_v7 by (simp add: is_uuid_v7_def demo_scan_crates_def)
  then show ?thesis using demo_offered by (auto simp: enrolled_host_def demo_host_record_def demo_endpoint_def)
qed

lemma demo_document_valid: "valid_document demo_scan_crates [demo_host_record]"
  using demo_host_sound by (simp add: valid_document_def max_hosts_def)

theorem inventory_roundtrip_witness:
  "parse_document demo_scan_crates demo_inventory_toml ''hosts'' = Inr [demo_host_record]"
proof -
  have "document_toml demo_scan_crates demo_inventory_toml [demo_host_record] = Inr ''hosts''"
    using demo_document_valid by (simp add: document_toml_def validate_hosts_iff demo_inventory_toml_def)
  moreover have "\<not> contains_secret_shaped_text demo_scan_crates ''hosts''"
    using sentence_not_secret [OF demo_words(2)] by simp
  ultimately show ?thesis
    using inventory_roundtrip [OF demo_toml_law demo_base64_laws, where t = "''hosts''" and doc = "[demo_host_record]"]
      demo_host_enrolled by simp
qed

lemma find_host_empty: "find_host [] = Map.empty"
  by (rule ext) (simp add: find_host_def)

theorem inventory_refines_map_witness:
  "upsert_exact demo_host_record [] = (Inr True, [demo_host_record])"
proof -
  have "valid_document demo_scan_crates []" by (simp add: valid_document_def)
  from inventory_refines_map [OF this demo_host_sound, of demo_host_record "''atlas''" demo_host_record "[]"]
  have "(case upsert_exact demo_host_record [] of (r, doc') \<Rightarrow>
      valid_document demo_scan_crates doc' \<and> r = Inr True \<and> find_host doc' = [ih_name demo_host_record \<mapsto> demo_host_record])"
    by (elim conjE, unfold find_host_empty dom_empty card.empty) simp
  moreover have "find_host [demo_host_record] = [ih_name demo_host_record \<mapsto> demo_host_record]" by (auto simp: find_host_def)
  ultimately show ?thesis
    using document_determined [OF _ demo_document_valid] by (auto split: prod.splits)
qed

end
