(* ===== verification/InventoryStore.thy ===== *)
theory InventoryStore
  imports Inventory
begin

text \<open>
  The inventory on disk (\<open>InventoryStore\<close>, \<open>InventoryLock\<close> and the verified file functions of
  \<open>src/inventory/store.rs\<close>): verified reads and atomic verified writes below a private root,
  the locked sections, the manifest caches and the candidate \<open>known_hosts\<close> file. The disk and
  its native calls are those of \<open>Disk\<close>; the identity of a file at a moment is an answer of the
  host, so a file exchanged between two checks is part of the model.
\<close>

record inventory_world =
  nw_crates :: crates
  nw_manifests :: toml_api
  nw_toml :: inventory_toml
  nw_calls :: host_calls
  nw_file_id :: "nat \<Rightarrow> path \<Rightarrow> nat"
  nw_fresh :: "nat \<Rightarrow> uuid"

type_synonym 'a inventory_op = "(inventory_error, 'a) disk_op"

record inventory_store =
  is_root :: path

definition is_inventory :: "inventory_store \<Rightarrow> path" where "is_inventory s = is_root s @ [''inventory.toml'']"

definition is_manifests :: "inventory_store \<Rightarrow> path" where "is_manifests s = is_root s @ [''manifests'']"

definition is_known_hosts :: "inventory_store \<Rightarrow> path" where "is_known_hosts s = is_root s @ [''known_hosts'']"

definition config_call :: "inventory_world \<Rightarrow> native_call \<Rightarrow> (disk \<Rightarrow> disk) \<Rightarrow> unit inventory_op" where
  "config_call W c change = native (nw_calls W) (\<lambda>_. InventoryConfig) c change"

text \<open>The root must be absolute, without dot components, and written as it is printed.\<close>

definition validate_root_path :: "string \<Rightarrow> inventory_error + path" where
  "validate_root_path t =
     (let p = normal_components t
      in if \<not> starts_with ''/'' t \<or> p = [] \<or> ''..'' \<in> set p \<or> render_path p \<noteq> t then Inl InventoryConfig else Inr p)"

definition configured_root :: "operating_system \<Rightarrow> (string \<Rightarrow> string option) \<Rightarrow> inventory_error + string" where
  "configured_root os env =
     (case env ''STYRN_CONFIG_DIR'' of
        Some base \<Rightarrow> Inr base
      | None \<Rightarrow>
          ok_or (case os of
                   Linux \<Rightarrow>
                     map_option (\<lambda>base. join_path base ''styrn'')
                       (case env ''XDG_CONFIG_HOME'' of
                          Some base \<Rightarrow> Some base
                        | None \<Rightarrow> map_option (\<lambda>home. join_path home ''.config'') (env ''HOME''))
                 | Macos \<Rightarrow> map_option (\<lambda>home. join_path home ''Library/Application Support/Styrn'') (env ''HOME'')
                 | Windows \<Rightarrow> map_option (\<lambda>base. join_path base ''Styrn'') (env ''APPDATA''))
            InventoryConfig)"

definition store_at_root :: "string \<Rightarrow> io_error + worker_principal \<Rightarrow> inventory_error + inventory_store" where
  "store_at_root t current =
     and_then (validate_root_path t) (\<lambda>base.
     and_then (map_err (\<lambda>_. InventoryConfig) current) (\<lambda>_. Inr \<lparr>is_root = base\<rparr>))"

section \<open>Verified files\<close>

datatype read_verified_error = ReadMissing | ReadInvalid

type_synonym 'a read_op = "(read_verified_error, 'a) disk_op"

definition private_file_identity :: "inventory_world \<Rightarrow> path \<Rightarrow> nat read_op" where
  "private_file_identity W p = (\<lambda>d.
     (case (case nw_calls W (disk_clock d) (CallFileIdentity p) of
              Some e \<Rightarrow> Some e
            | None \<Rightarrow> if exists_on d p then None else Some not_found) of
        Some e \<Rightarrow> Inl (if io_error_kind e = NotFound then ReadMissing else ReadInvalid)
      | None \<Rightarrow> Inr (nw_file_id W (disk_clock d) p),
      d\<lparr>disk_clock := Suc (disk_clock d)\<rparr>))"

definition handle_identity :: "inventory_world \<Rightarrow> path \<Rightarrow> nat read_op" where
  "handle_identity W p =
     bind_op (native (nw_calls W) (\<lambda>_. ReadInvalid) (CallHandleIdentity p) id) (\<lambda>_.
       at_clock (\<lambda>t. Inr (nw_file_id W t p)))"

definition contents_of :: "path \<Rightarrow> string read_op" where
  "contents_of p = (\<lambda>d. (ok_or (disk_files d p) ReadInvalid, d))"

definition read_verified :: "inventory_world \<Rightarrow> path \<Rightarrow> string read_op" where
  "read_verified W p =
     bind_op (private_file_identity W p) (\<lambda>expected.
     bind_op (native (nw_calls W) (\<lambda>_. ReadInvalid) (CallOpenVerified p) id) (\<lambda>_.
     bind_op (contents_of p) (\<lambda>bytes.
     bind_op (handle_identity W p) (\<lambda>opened.
       if opened \<noteq> expected then stop ReadInvalid
       else bind_op (native (nw_calls W) (\<lambda>_. ReadInvalid) (CallMetadata p) id) (\<lambda>_.
         if max_document_bytes < length bytes then stop ReadInvalid
         else bind_op (native (nw_calls W) (\<lambda>_. ReadInvalid) (CallRead p) id) (\<lambda>_.
              bind_op (recover_op (private_file_identity W p) (\<lambda>_. stop ReadInvalid)) (\<lambda>again.
                if again \<noteq> expected \<or> \<not> utf8_valid bytes then stop ReadInvalid else ok_op bytes)))))))"

definition refused_contents :: "inventory_world \<Rightarrow> string \<Rightarrow> bool" where
  "refused_contents W contents \<longleftrightarrow>
     max_document_bytes < length contents \<or> contains_secret_shaped_text (nw_crates W) contents"

definition verify_replace_target :: "inventory_world \<Rightarrow> path \<Rightarrow> unit inventory_op" where
  "verify_replace_target W p =
     bind_op (stat_path (nw_calls W) (\<lambda>_. InventoryConfig) p) (\<lambda>there.
       if there then config_call W (CallFileTarget p) id else ok_op ())"

definition write_new_verified :: "inventory_world \<Rightarrow> path \<Rightarrow> string \<Rightarrow> unit inventory_op" where
  "write_new_verified W p contents =
     (if refused_contents W contents then stop InventoryConfig
      else bind_op (create_new (nw_calls W) (\<lambda>_. InventoryConfig) p) (\<lambda>_.
           bind_op (config_call W (CallWrite p) (put_file p contents)) (\<lambda>_.
           bind_op (config_call W (CallSync p) id) (\<lambda>_.
           bind_op (config_call W (CallHardenFile p) id) (\<lambda>_.
             config_call W (CallVerifySecurity p) id)))))"

text \<open>Removing a file, whatever becomes of it.\<close>

definition try_remove :: "inventory_world \<Rightarrow> path \<Rightarrow> disk \<Rightarrow> disk" where
  "try_remove W p d = snd (config_call W (CallRemoveFile p) (erase_file p) d)"

definition cleaned_up :: "inventory_world \<Rightarrow> path \<Rightarrow> 'a inventory_op \<Rightarrow> 'a inventory_op" where
  "cleaned_up W tmp m = (\<lambda>d.
     case m d of (Inr x, d) \<Rightarrow> (Inr x, d) | (Inl e, d) \<Rightarrow> (Inl e, try_remove W tmp d))"

definition document_staging :: "inventory_world \<Rightarrow> path \<Rightarrow> nat \<Rightarrow> path" where
  "document_staging W parent t = parent @ [''.inventory-document-'' @ uuid_text (nw_crates W) (nw_fresh W t) @ ''.tmp'']"

definition replace_verified :: "inventory_world \<Rightarrow> path \<Rightarrow> string \<Rightarrow> path \<Rightarrow> unit inventory_op" where
  "replace_verified W p contents tmp =
     bind_op (write_new_verified W tmp contents) (\<lambda>_.
     bind_op (config_call W (CallParentChain (butlast p)) id) (\<lambda>_.
     bind_op (verify_replace_target W p) (\<lambda>_.
     bind_op (config_call W (CallReplace tmp p) (move_file tmp p)) (\<lambda>_.
     bind_op (recover_op (read_verified W p) (\<lambda>_. stop InventoryConfig)) (\<lambda>read_back.
       if read_back \<noteq> contents then stop InventoryConfig
       else config_call W (CallSyncParent (butlast p)) id)))))"

definition write_verified :: "inventory_world \<Rightarrow> path \<Rightarrow> string \<Rightarrow> unit inventory_op" where
  "write_verified W p contents =
     (if refused_contents W contents then stop InventoryConfig
      else bind_op (verify_replace_target W p) (\<lambda>_.
           if p = [] then stop InventoryConfig
           else bind_op (at_clock (\<lambda>t. Inr (document_staging W (butlast p) t))) (\<lambda>tmp.
                  cleaned_up W tmp (replace_verified W p contents tmp))))"

section \<open>Directories\<close>

fun missing_directories :: "inventory_world \<Rightarrow> nat \<Rightarrow> path \<Rightarrow> path list inventory_op" where
  "missing_directories W 0 p =
     bind_op (stat_path (nw_calls W) (\<lambda>_. InventoryConfig) p) (\<lambda>there.
       if there then ok_op [] else stop InventoryConfig)"
| "missing_directories W (Suc n) p =
     bind_op (stat_path (nw_calls W) (\<lambda>_. InventoryConfig) p) (\<lambda>there.
       if there then ok_op [] else bind_op (missing_directories W n (butlast p)) (\<lambda>ps. ok_op (p # ps)))"

text \<open>A directory another process made meanwhile is accepted; the checks at the end look at it.\<close>

definition create_private_directory :: "inventory_world \<Rightarrow> path \<Rightarrow> unit inventory_op" where
  "create_private_directory W p = (\<lambda>d.
     let now = d\<lparr>disk_clock := Suc (disk_clock d)\<rparr>
     in case (if exists_on d p then Some (IoError AlreadyExists ''file exists'')
              else nw_calls W (disk_clock d) (CallCreateStaging p)) of
          Some e \<Rightarrow> (if io_error_kind e = AlreadyExists then Inr () else Inl InventoryConfig, now)
        | None \<Rightarrow>
            bind_op (config_call W (CallHardenDirectory p) id) (\<lambda>_. config_call W (CallSyncParent (butlast p)) id)
              (make_dir p now))"

fun each_op :: "('a \<Rightarrow> unit inventory_op) \<Rightarrow> 'a list \<Rightarrow> unit inventory_op" where
  "each_op f [] = ok_op ()"
| "each_op f (x # xs) = bind_op (f x) (\<lambda>_. each_op f xs)"

definition verify_directory_chain :: "inventory_world \<Rightarrow> path \<Rightarrow> unit inventory_op" where
  "verify_directory_chain W p =
     bind_op (config_call W (CallParentChain p) id) (\<lambda>_. config_call W (CallDirectorySecurity p) id)"

definition prepare_private_directory :: "inventory_world \<Rightarrow> path \<Rightarrow> unit inventory_op" where
  "prepare_private_directory W p =
     bind_op (missing_directories W (length p) p) (\<lambda>missing.
     bind_op (each_op (create_private_directory W) (rev missing)) (\<lambda>_. verify_directory_chain W p))"

definition verify_root :: "inventory_world \<Rightarrow> inventory_store \<Rightarrow> unit inventory_op" where
  "verify_root W s =
     bind_op (verify_directory_chain W (is_root s)) (\<lambda>_. config_call W (CallDirectorySecurity (is_manifests s)) id)"

definition ensure_for_write :: "inventory_world \<Rightarrow> inventory_store \<Rightarrow> unit inventory_op" where
  "ensure_for_write W s =
     bind_op (prepare_private_directory W (is_root s)) (\<lambda>_.
     bind_op (prepare_private_directory W (is_manifests s)) (\<lambda>_. verify_root W s))"

section \<open>The store\<close>

definition read_inventory :: "inventory_world \<Rightarrow> inventory_store \<Rightarrow> inventory_document inventory_op" where
  "read_inventory W s =
     bind_op (stat_path (nw_calls W) (\<lambda>_. InventoryConfig) (is_root s)) (\<lambda>there.
       if \<not> there then ok_op []
       else bind_op (verify_directory_chain W (is_root s)) (\<lambda>_ d.
              case read_verified W (is_inventory s) d of
                (Inr input, d) \<Rightarrow> (parse_document (nw_crates W) (nw_toml W) input, d)
              | (Inl ReadMissing, d) \<Rightarrow> (Inr [], d)
              | (Inl ReadInvalid, d) \<Rightarrow> (Inl InventoryConfig, d)))"

definition inventory_lock :: "inventory_store \<Rightarrow> path" where
  "inventory_lock s = is_root s @ [''.inventory.toml.lock'']"

definition with_lock :: "inventory_world \<Rightarrow> inventory_store \<Rightarrow> 'a inventory_op \<Rightarrow> 'a inventory_op" where
  "with_lock W s operation =
     bind_op (ensure_for_write W s) (\<lambda>_.
     bind_op (config_call W (CallOpenLock (inventory_lock s))
       (\<lambda>d. if disk_files d (inventory_lock s) = None then put_file (inventory_lock s) [] d else d)) (\<lambda>_.
     bind_op (config_call W (CallTakeLock (inventory_lock s)) id) (\<lambda>_. operation)))"

definition replace_inventory :: "inventory_world \<Rightarrow> inventory_store \<Rightarrow> inventory_document \<Rightarrow> unit inventory_op" where
  "replace_inventory W s doc =
     bind_op (lift (document_toml (nw_crates W) (nw_toml W) doc)) (\<lambda>bytes. write_verified W (is_inventory s) bytes)"

fun known_hosts_contents :: "inventory_document \<Rightarrow> inventory_error + string" where
  "known_hosts_contents [] = Inr []"
| "known_hosts_contents (h # hs) =
     and_then (map_err (\<lambda>_. InventoryConfig)
         (known_hosts_line (ssh_host_key (ih_transport h)) (ssh_host (ih_transport h)) (ssh_port (ih_transport h)))) (\<lambda>line.
     and_then (known_hosts_contents hs) (\<lambda>rest. Inr (line @ rest)))"

definition rebuild_known_hosts :: "inventory_world \<Rightarrow> inventory_store \<Rightarrow> inventory_document \<Rightarrow> unit inventory_op" where
  "rebuild_known_hosts W s doc =
     bind_op (lift (known_hosts_contents doc)) (\<lambda>contents d.
       case read_verified W (is_known_hosts s) d of
         (r, d) \<Rightarrow> if r = Inr contents then (Inr (), d) else write_verified W (is_known_hosts s) contents d)"

definition cache_path :: "inventory_world \<Rightarrow> inventory_store \<Rightarrow> uuid \<Rightarrow> inventory_error + path" where
  "cache_path W s u =
     (if is_uuid_v7 (nw_crates W) u then Inr (is_manifests s @ [uuid_text (nw_crates W) u @ ''.toml''])
      else Inl InventoryArgument)"

definition write_cache :: "inventory_world \<Rightarrow> inventory_store \<Rightarrow> manifest_cache \<Rightarrow> unit inventory_op" where
  "write_cache W s c =
     bind_op (ensure_for_write W s) (\<lambda>_.
     bind_op (lift (cache_toml (nw_crates W) (nw_manifests W) (nw_toml W) c)) (\<lambda>bytes.
     bind_op (lift (cache_path W s (mc_machine_id c))) (\<lambda>p. write_verified W p bytes)))"

definition read_cache :: "inventory_world \<Rightarrow> inventory_store \<Rightarrow> uuid \<Rightarrow> manifest_cache inventory_op" where
  "read_cache W s u =
     bind_op (verify_root W s) (\<lambda>_.
     bind_op (lift (cache_path W s u)) (\<lambda>p.
     bind_op (recover_op (read_verified W p) (\<lambda>_. stop InventoryConfig)) (\<lambda>input.
       lift (parse_cache (nw_crates W) (nw_manifests W) (nw_toml W) input u))))"

text \<open>The candidate file of an enrolment, which exists until \<open>drop_candidate\<close>.\<close>

definition candidate_known_hosts ::
  "inventory_world \<Rightarrow> inventory_store \<Rightarrow> string \<Rightarrow> nat \<Rightarrow> pinned_host_key \<Rightarrow> path inventory_op" where
  "candidate_known_hosts W s host port pin =
     bind_op (ensure_for_write W s) (\<lambda>_.
     bind_op (lift (map_err (\<lambda>_. InventoryArgument) (known_hosts_line pin host port))) (\<lambda>contents.
     bind_op (at_clock (\<lambda>t. Inr (is_root s @
       [''.enrollment-known-hosts-'' @ uuid_text (nw_crates W) (nw_fresh W t) @ ''.tmp'']))) (\<lambda>p.
     bind_op (cleaned_up W p (write_new_verified W p contents)) (\<lambda>_. ok_op p))))"

definition drop_candidate :: "inventory_world \<Rightarrow> path \<Rightarrow> unit inventory_op" where
  "drop_candidate W p = (\<lambda>d. (Inr (), try_remove W p d))"

section \<open>Files the operations leave alone\<close>

lemma keeps_config_call [keeps_rules]:
  "(\<And>d. disk_files (change d) p = disk_files d p) \<Longrightarrow> keeps p (config_call W c change)"
  unfolding config_call_def by (rule keeps_native)

lemma keeps_file_identity [keeps_rules]: "keeps p (private_file_identity W q)"
  by (simp add: keeps_def private_file_identity_def)

lemma keeps_handle [keeps_rules]: "keeps p (handle_identity W q)"
  unfolding handle_identity_def by (intro keeps_rules) simp

lemma keeps_contents [keeps_rules]: "keeps p (contents_of q)"
  by (simp add: keeps_def contents_of_def)

lemma keeps_read_verified [keeps_rules]: "keeps p (read_verified W q)"
  unfolding read_verified_def by (intro keeps_rules) simp_all

lemma keeps_replace_target [keeps_rules]: "keeps p (verify_replace_target W q)"
  unfolding verify_replace_target_def by (intro keeps_rules) simp

lemma keeps_write_new [keeps_rules]: "p \<noteq> q \<Longrightarrow> keeps p (write_new_verified W q c)"
  unfolding write_new_verified_def by (intro keeps_rules) simp_all

lemma try_remove_files: "p \<noteq> q \<Longrightarrow> disk_files (try_remove W q d) p = disk_files d p"
  by (auto simp: try_remove_def config_call_def native_def Let_def split: option.splits)

lemma keeps_cleaned [keeps_rules]: "p \<noteq> q \<Longrightarrow> keeps p m \<Longrightarrow> keeps p (cleaned_up W q m)"
  by (auto simp: keeps_def cleaned_up_def try_remove_files split: prod.splits sum.splits) (metis snd_conv)+

lemma keeps_replace_verified [keeps_rules]:
  "p \<noteq> q \<Longrightarrow> p \<noteq> tmp \<Longrightarrow> keeps p (replace_verified W q c tmp)"
  unfolding replace_verified_def by (intro keeps_rules) simp_all

lemma staging_dotted: "dotted (document_staging W q t)"
  by (simp add: document_staging_def dotted_def starts_with_prefix)

lemma keeps_write_verified [keeps_rules]:
  assumes "p \<noteq> q" "identity_file p"
  shows "keeps p (write_verified W q c)"
proof -
  have tmp: "p \<noteq> document_staging W (butlast q) t" for t
    using dotted_differs [OF assms(2) staging_dotted] .
  have put: "keeps p (bind_op (at_clock (\<lambda>t. Inr (document_staging W (butlast q) t)))
      (\<lambda>tmp. cleaned_up W tmp (replace_verified W q c tmp)))"
    using keeps_cleaned [OF tmp keeps_replace_verified [OF assms(1) tmp]]
    by (simp add: bind_op_def at_clock_def keeps_def)
  show ?thesis unfolding write_verified_def by (intro keeps_if keeps_stop keeps_bind [OF keeps_replace_target] put)
qed

lemma keeps_missing_directories [keeps_rules]: "keeps p (missing_directories W n q)"
proof (induction n arbitrary: q)
  case 0
  show ?case unfolding missing_directories.simps by (intro keeps_rules)
next
  case (Suc n)
  show ?case unfolding missing_directories.simps by (intro keeps_rules Suc.IH)
qed

lemma keeps_create_directory [keeps_rules]: "keeps p (create_private_directory W q)"
proof -
  have "keeps p (bind_op (config_call W (CallHardenDirectory q) id) (\<lambda>_. config_call W (CallSyncParent (butlast q)) id))"
    by (intro keeps_rules) simp_all
  then show ?thesis by (auto simp: keeps_def create_private_directory_def Let_def split: option.splits)
qed

lemma keeps_each [keeps_rules]: "(\<And>x. keeps p (f x)) \<Longrightarrow> keeps p (each_op f xs)"
proof (induction xs)
  case (Cons x xs)
  show ?case unfolding each_op.simps by (intro keeps_rules Cons.IH Cons.prems)
qed (simp add: keeps_ok)

lemma keeps_chain [keeps_rules]: "keeps p (verify_directory_chain W q)"
  unfolding verify_directory_chain_def by (intro keeps_rules) simp_all

lemma keeps_prepare_directory [keeps_rules]: "keeps p (prepare_private_directory W q)"
  unfolding prepare_private_directory_def by (intro keeps_rules)

lemma keeps_verify_root [keeps_rules]: "keeps p (verify_root W s)"
  unfolding verify_root_def by (intro keeps_rules) simp_all

lemma keeps_ensure [keeps_rules]: "keeps p (ensure_for_write W s)"
  unfolding ensure_for_write_def by (intro keeps_rules)

lemma keeps_read_inventory [keeps_rules]: "keeps p (read_inventory W s)"
proof -
  have "keeps p (\<lambda>d. case read_verified W (is_inventory s) d of
                (Inr input, d) \<Rightarrow> (parse_document (nw_crates W) (nw_toml W) input, d)
              | (Inl ReadMissing, d) \<Rightarrow> (Inr [], d)
              | (Inl ReadInvalid, d) \<Rightarrow> (Inl InventoryConfig, d))"
    using keeps_read_verified [of p W "is_inventory s"]
    by (auto simp: keeps_def split: prod.splits sum.splits read_verified_error.splits) (metis snd_conv)+
  then show ?thesis unfolding read_inventory_def by (intro keeps_rules)
qed

lemma keeps_replace_inventory [keeps_rules]:
  "p \<noteq> is_inventory s \<Longrightarrow> identity_file p \<Longrightarrow> keeps p (replace_inventory W s doc)"
  unfolding replace_inventory_def by (intro keeps_rules)

lemma keeps_rebuild [keeps_rules]:
  assumes "p \<noteq> is_known_hosts s" "identity_file p"
  shows "keeps p (rebuild_known_hosts W s doc)"
proof -
  note w = keeps_write_verified [OF assms, of W]
  have "keeps p (\<lambda>d. case read_verified W (is_known_hosts s) d of
      (r, d) \<Rightarrow> if r = Inr contents then (Inr (), d) else write_verified W (is_known_hosts s) contents d)" for contents
    using keeps_read_verified [of p W "is_known_hosts s"] w [of contents]
    by (auto simp: keeps_def split: prod.splits) (metis snd_conv)+
  then show ?thesis unfolding rebuild_known_hosts_def by (intro keeps_rules)
qed

lemma keeps_write_cache [keeps_rules]:
  assumes "identity_file p" "\<not> prefix (is_manifests s) p"
  shows "keeps p (write_cache W s c)"
proof -
  have put: "keeps p (bind_op (lift (cache_path W s u)) (\<lambda>q. write_verified W q bytes))" for u bytes
  proof (cases "cache_path W s u")
    case (Inr q)
    then have "p \<noteq> q" using assms(2) by (auto simp: cache_path_def split: if_splits)
    then show ?thesis using keeps_write_verified [OF _ assms(1), of q W bytes] Inr
      by (simp add: bind_op_def lift_def keeps_def)
  qed (simp add: bind_op_def lift_def keeps_def)
  show ?thesis unfolding write_cache_def by (intro keeps_bind keeps_ensure keeps_lift put)
qed

lemma keeps_read_cache [keeps_rules]: "keeps p (read_cache W s u)"
  unfolding read_cache_def by (intro keeps_rules)

section \<open>A verified write is atomic\<close>

lemma write_new_result:
  assumes "write_new_verified W q c d = (Inr (), d')"
  shows "disk_files d' q = Some c \<and> \<not> refused_contents W c"
proof -
  have ok: "\<not> refused_contents W c" using assms by (auto simp: write_new_verified_def stop_def split: if_splits)
  obtain d1 d2 d3 d4 where
    w: "config_call W (CallWrite q) (put_file q c) d1 = (Inr (), d2)" and
    s: "config_call W (CallSync q) id d2 = (Inr (), d3)" and
    h: "config_call W (CallHardenFile q) id d3 = (Inr (), d4)" and
    v: "config_call W (CallVerifySecurity q) id d4 = (Inr (), d')"
    using assms ok unfolding write_new_verified_def by (auto simp: bind_op_Inr)
  have "disk_files d2 q = Some c"
    using native_cases [OF w [unfolded config_call_def]] by (auto simp: put_file_def)
  moreover have "disk_files d' q = disk_files d2 q"
    using native_cases [OF s [unfolded config_call_def]] native_cases [OF h [unfolded config_call_def]]
      native_cases [OF v [unfolded config_call_def]] by auto
  ultimately show ?thesis using ok by simp
qed

lemma replace_verified_outcome:
  assumes "p \<noteq> tmp" "replace_verified W p c tmp d = (r, d')"
  shows "(disk_files d' p = disk_files d p \<and> r \<noteq> Inr ()) \<or> (disk_files d' p = Some c \<and> \<not> refused_contents W c)"
proof -
  define ready where "ready = bind_op (write_new_verified W tmp c) (\<lambda>_.
     bind_op (config_call W (CallParentChain (butlast p)) id) (\<lambda>_. verify_replace_target W p))"
  define finish where "finish = bind_op (recover_op (read_verified W p) (\<lambda>_. stop InventoryConfig)) (\<lambda>read_back.
       if read_back \<noteq> c then stop InventoryConfig else config_call W (CallSyncParent (butlast p)) id)"
  have run: "replace_verified W p c tmp =
      bind_op ready (\<lambda>_. bind_op (config_call W (CallReplace tmp p) (move_file tmp p)) (\<lambda>_. finish))"
    by (simp add: replace_verified_def ready_def finish_def bind_op_assoc)
  have ready: "keeps p ready" unfolding ready_def by (intro keeps_rules assms(1)) simp_all
  have finish: "keeps p finish" unfolding finish_def by (intro keeps_rules) simp_all
  obtain q d1 where q: "ready d = (q, d1)" by force
  note d1 = keepsD [OF ready q]
  show ?thesis
  proof (cases q)
    case (Inl e)
    with assms(2) q run d1 show ?thesis by (auto simp: bind_op_def)
  next
    case (Inr u)
    obtain d0 where n: "write_new_verified W tmp c d = (Inr (), d0)"
      and rest: "bind_op (config_call W (CallParentChain (butlast p)) id) (\<lambda>_. verify_replace_target W p) d0 = (Inr (), d1)"
      using q Inr unfolding ready_def by (auto simp: bind_op_Inr)
    have "keeps tmp (bind_op (config_call W (CallParentChain (butlast p)) id) (\<lambda>_. verify_replace_target W p))"
      by (intro keeps_rules) simp
    from keepsD [OF this rest] have tmp: "disk_files d1 tmp = Some c" "\<not> refused_contents W c"
      using write_new_result [OF n] by simp_all
    obtain m d2 where m: "config_call W (CallReplace tmp p) (move_file tmp p) d1 = (m, d2)" by force
    have moved: "(m = Inr () \<and> disk_files d2 p = Some c) \<or> (m \<noteq> Inr () \<and> disk_files d2 p = disk_files d1 p)"
      using native_cases [OF m [unfolded config_call_def]] tmp(1) assms(1) by (auto simp: move_file_def)
    show ?thesis
    proof (cases m)
      case (Inl e)
      with assms(2) q Inr m run moved d1 show ?thesis by (auto simp: bind_op_def)
    next
      case fine: (Inr v)
      obtain f d3 where f: "finish d2 = (f, d3)" by force
      then have "d' = d3" "r = f" using assms(2) q Inr m fine run by (auto simp: bind_op_def)
      then show ?thesis using keepsD [OF finish f] moved fine tmp(2) by auto
    qed
  qed
qed

lemma write_verified_outcome:
  assumes "identity_file p" "write_verified W p c d = (r, d')"
  shows "(disk_files d' p = disk_files d p \<and> r \<noteq> Inr ()) \<or> (disk_files d' p = Some c \<and> \<not> refused_contents W c)"
proof (cases "refused_contents W c")
  case True
  then show ?thesis using assms(2) by (auto simp: write_verified_def stop_def)
next
  case False
  obtain q d1 where q: "verify_replace_target W p d = (q, d1)" by force
  note d1 = keepsD [OF keeps_replace_target q]
  show ?thesis
  proof (cases q)
    case (Inl e)
    with assms(2) q False d1 show ?thesis by (auto simp: write_verified_def bind_op_def)
  next
    case (Inr u)
    define tmp where "tmp = document_staging W (butlast p) (disk_clock d1)"
    define d2 where "d2 = d1\<lparr>disk_clock := Suc (disk_clock d1)\<rparr>"
    have ne: "p \<noteq> tmp" unfolding tmp_def using dotted_differs [OF assms(1) staging_dotted] .
    obtain x d3 where x: "replace_verified W p c tmp d2 = (x, d3)" by force
    have "p \<noteq> []" using assms(1) by (simp add: identity_file_def)
    then have run: "(r, d') = (case x of Inr u \<Rightarrow> (Inr u, d3) | Inl e \<Rightarrow> (Inl e, try_remove W tmp d3))"
      using assms(2) q Inr False x
      by (auto simp: write_verified_def bind_op_def at_clock_def cleaned_up_def tmp_def d2_def split: sum.splits)
    have files: "disk_files d' p = disk_files d3 p" and res: "r = x"
      using run try_remove_files [OF ne] by (auto split: sum.splits)
    show ?thesis
      using replace_verified_outcome [OF ne x] d1 by (simp add: files res d2_def)
  qed
qed

lemma store_files [simp]:
  "identity_file (is_inventory s)" "identity_file (is_known_hosts s)" "is_inventory s \<noteq> is_known_hosts s"
  "is_known_hosts s \<noteq> is_inventory s" "\<not> prefix (is_manifests s) (is_inventory s)" "\<not> prefix (is_manifests s) (is_known_hosts s)"
  by (auto simp: is_inventory_def is_known_hosts_def is_manifests_def identity_file_def starts_with_prefix prefix_append)

definition printed_document :: "inventory_world \<Rightarrow> inventory_document \<Rightarrow> string option" where
  "printed_document W doc =
     (case document_toml (nw_crates W) (nw_toml W) doc of
        Inl _ \<Rightarrow> None
      | Inr t \<Rightarrow> if refused_contents W t then None else Some t)"

interpretation inventory_file: atomic_file "is_inventory s" "replace_inventory W s" "printed_document W"
  for W s
proof
  fix doc d r d'
  assume "replace_inventory W s doc d = (r, d')"
  then show "disk_files d' (is_inventory s) = disk_files d (is_inventory s) \<or>
      (\<exists>t. printed_document W doc = Some t \<and> disk_files d' (is_inventory s) = Some t)"
    using write_verified_outcome [of "is_inventory s" W]
    by (fastforce simp: replace_inventory_def bind_op_def lift_def printed_document_def split: sum.splits)
next
  fix doc d d'
  assume "replace_inventory W s doc d = (Inr (), d')"
  then show "\<exists>t. printed_document W doc = Some t \<and> disk_files d' (is_inventory s) = Some t"
    using write_verified_outcome [of "is_inventory s" W]
    by (fastforce simp: replace_inventory_def bind_op_def lift_def printed_document_def split: sum.splits)
qed

end
