(* ===== verification/FleetInventory.thy ===== *)
theory FleetInventory
  imports InventoryStore
begin

text \<open>
  The locked sections of the host commands (\<open>src/main.rs\<close>: \<open>host_enroll\<close>, \<open>host_trust\<close>,
  \<open>select_host_for_network\<close>) and a fleet of controllers that run them on one inventory. The
  advisory lock makes a section one step; the other operations touch other files.
\<close>

section \<open>Sections\<close>

text \<open>A rebuild that fails is a warning: the result is whether it failed.\<close>

definition attempted :: "unit inventory_op \<Rightarrow> bool inventory_op" where
  "attempted m = (\<lambda>d. case m d of (r, d) \<Rightarrow> (Inr (\<not> is_ok r), d))"

definition enroll_section ::
  "inventory_world \<Rightarrow> inventory_store \<Rightarrow> inventory_host \<Rightarrow> manifest_cache \<Rightarrow> (bool \<times> bool) inventory_op" where
  "enroll_section W s record cache =
     with_lock W s (bind_op (read_inventory W s) (\<lambda>doc.
       case upsert_exact record doc of
         (Inl e, _) \<Rightarrow> stop e
       | (Inr created, doc') \<Rightarrow>
           bind_op (write_cache W s cache) (\<lambda>_.
           bind_op (if created then replace_inventory W s doc' else ok_op ()) (\<lambda>_.
           bind_op (attempted (rebuild_known_hosts W s doc')) (\<lambda>failed. ok_op (created, failed))))))"

definition trust_decision ::
  "inventory_host \<Rightarrow> inventory_host \<Rightarrow> inventory_document \<Rightarrow> inventory_error + inventory_document \<times> inventory_document option"
where
  "trust_decision existing replacement doc =
     (case replace_exact existing replacement doc of
        (Inl e, _) \<Rightarrow> Inl e
      | (Inr _, doc') \<Rightarrow> Inr (doc', Some doc'))"

definition trust_section ::
  "inventory_world \<Rightarrow> inventory_store \<Rightarrow> inventory_host \<Rightarrow> inventory_host \<Rightarrow> bool inventory_op" where
  "trust_section W s existing replacement =
     with_lock W s
       (bind_op (update_with (read_inventory W s) (trust_decision existing replacement) (replace_inventory W s)) (\<lambda>doc'.
          attempted (rebuild_known_hosts W s doc')))"

definition select_section ::
  "inventory_world \<Rightarrow> inventory_store \<Rightarrow> string option \<Rightarrow> inventory_host inventory_op" where
  "select_section W s name =
     with_lock W s (bind_op (read_inventory W s) (\<lambda>doc.
       bind_op (lift (select_host doc name)) (\<lambda>h.
       bind_op (rebuild_known_hosts W s doc) (\<lambda>_. ok_op h))))"

section \<open>Reading under the lock\<close>

definition document_on_disk :: "inventory_world \<Rightarrow> inventory_store \<Rightarrow> disk \<Rightarrow> inventory_error + inventory_document" where
  "document_on_disk W s d =
     (case disk_files d (is_inventory s) of
        None \<Rightarrow> Inr []
      | Some t \<Rightarrow> if utf8_valid t then parse_document (nw_crates W) (nw_toml W) t else Inl InventoryConfig)"

text \<open>Whether a path exists is a fact of the disk, not an answer of the host.\<close>

definition truthful :: "inventory_world \<Rightarrow> bool" where
  "truthful W \<longleftrightarrow>
     (\<forall>t p e. (nw_calls W t (CallFileIdentity p) = Some e \<longrightarrow> io_error_kind e \<noteq> NotFound) \<and>
        (nw_calls W t (CallCreateStaging p) = Some e \<longrightarrow> io_error_kind e \<noteq> AlreadyExists))"

named_theorems stays_rules \<open>operations after which a path that exists still exists\<close>

definition stays :: "path \<Rightarrow> ('e, 'a) disk_op \<Rightarrow> bool" where
  "stays q m \<longleftrightarrow> (\<forall>d. exists_on d q \<longrightarrow> exists_on (snd (m d)) q)"

lemma staysD: "stays q m \<Longrightarrow> m d = (r, d') \<Longrightarrow> exists_on d q \<Longrightarrow> exists_on d' q"
  by (metis stays_def snd_conv)

lemma exists_clock [simp]: "exists_on (d\<lparr>disk_clock := n\<rparr>) q \<longleftrightarrow> exists_on d q"
  by (simp add: exists_on_def)

lemma exists_make_dir [simp]: "exists_on (make_dir p d) q \<longleftrightarrow> q = p \<or> exists_on d q"
  by (auto simp: exists_on_def make_dir_def)

lemma stays_simple [stays_rules]: "stays q (ok_op x)" "stays q (stop e)" "stays q (lift r)" "stays q (at_clock f)"
  by (simp_all add: stays_def ok_op_def stop_def lift_def at_clock_def)

lemma stays_bind [stays_rules]: "stays q m \<Longrightarrow> (\<And>x. stays q (f x)) \<Longrightarrow> stays q (bind_op m f)"
  by (auto simp: stays_def bind_op_def split: prod.splits sum.splits)

lemma stays_if [stays_rules]: "stays q a \<Longrightarrow> stays q b \<Longrightarrow> stays q (if c then a else b)"
  by simp

lemma stays_config [stays_rules]:
  "(\<And>d. exists_on d q \<Longrightarrow> exists_on (change d) q) \<Longrightarrow> stays q (config_call W c change)"
  by (auto simp: stays_def config_call_def native_def Let_def split: option.splits)

lemma stays_stat [stays_rules]: "stays q (stat_path N wrap p)"
  by (auto simp: stays_def stat_path_def bind_op_def native_def Let_def split: option.splits)

lemma stays_missing [stays_rules]: "stays q (missing_directories W n p)"
proof (induction n arbitrary: p)
  case 0
  show ?case unfolding missing_directories.simps by (intro stays_rules)
next
  case (Suc n)
  show ?case unfolding missing_directories.simps by (intro stays_rules Suc.IH)
qed

lemma stays_create [stays_rules]: "stays q (create_private_directory W p)"
proof -
  have "stays q (bind_op (config_call W (CallHardenDirectory p) id) (\<lambda>_. config_call W (CallSyncParent (butlast p)) id))"
    by (intro stays_rules) simp_all
  then show ?thesis by (auto simp: stays_def create_private_directory_def Let_def split: option.splits)
qed

lemma stays_each [stays_rules]: "(\<And>x. stays q (f x)) \<Longrightarrow> stays q (each_op f xs)"
proof (induction xs)
  case (Cons x xs)
  show ?case unfolding each_op.simps by (intro stays_rules Cons.IH Cons.prems)
qed (simp add: stays_rules)

lemma stays_chain [stays_rules]: "stays q (verify_directory_chain W p)"
  unfolding verify_directory_chain_def by (intro stays_rules) simp_all

lemma stays_prepare [stays_rules]: "stays q (prepare_private_directory W p)"
  unfolding prepare_private_directory_def by (intro stays_rules)

lemma stays_verify_root [stays_rules]: "stays q (verify_root W s)"
  unfolding verify_root_def by (intro stays_rules) simp_all

lemma missing_lists:
  "missing_directories W n p d = (Inr ps, d') \<Longrightarrow> exists_on d' p \<or> (\<exists>qs. ps = p # qs)"
proof (cases n)
  case 0
  assume "missing_directories W n p d = (Inr ps, d')"
  with 0 show ?thesis
    by (auto simp: bind_op_Inr stop_def ok_op_def stat_path_def native_def Let_def split: if_splits option.splits)
next
  case (Suc k)
  assume "missing_directories W n p d = (Inr ps, d')"
  with Suc obtain there d1 where t: "stat_path (nw_calls W) (\<lambda>_. InventoryConfig) p d = (Inr there, d1)"
    and r: "(if there then ok_op [] else bind_op (missing_directories W k (butlast p)) (\<lambda>ps. ok_op (p # ps))) d1 = (Inr ps, d')"
    by (auto simp: bind_op_Inr)
  show ?thesis
  proof (cases there)
    case True
    then have "d' = d1" using r by (simp add: ok_op_def)
    with t True show ?thesis by (auto simp: stat_path_def bind_op_Inr native_def Let_def split: option.splits)
  next
    case False
    with r show ?thesis by (auto simp: bind_op_Inr ok_op_def)
  qed
qed

lemma created_exists:
  assumes "truthful W" "create_private_directory W p d = (Inr (), d')"
  shows "exists_on d' p"
proof (cases "exists_on d p")
  case True
  with assms(2) show ?thesis by (auto simp: create_private_directory_def Let_def)
next
  case False
  let ?rest = "bind_op (config_call W (CallHardenDirectory p) id) (\<lambda>_. config_call W (CallSyncParent (butlast p)) id)"
  have "nw_calls W (disk_clock d) (CallCreateStaging p) = None"
    using assms False by (auto simp: create_private_directory_def Let_def truthful_def split: option.splits if_splits)
  then have "?rest (make_dir p (d\<lparr>disk_clock := Suc (disk_clock d)\<rparr>)) = (Inr (), d')"
    using assms(2) False by (simp add: create_private_directory_def Let_def)
  moreover have "stays p ?rest" by (intro stays_rules) simp_all
  ultimately show ?thesis by (metis exists_make_dir staysD)
qed

lemma each_op_append:
  "each_op f (xs @ ys) = bind_op (each_op f xs) (\<lambda>_. each_op f ys)"
  by (induction xs) (simp_all add: bind_op_assoc)

lemma prepared_exists:
  assumes "truthful W" "prepare_private_directory W p d = (Inr (), d')"
  shows "exists_on d' p"
proof -
  obtain ps d1 d2 where m: "missing_directories W (length p) p d = (Inr ps, d1)"
    and c: "each_op (create_private_directory W) (rev ps) d1 = (Inr (), d2)"
    and v: "verify_directory_chain W p d2 = (Inr (), d')"
    using assms(2) unfolding prepare_private_directory_def by (auto simp: bind_op_Inr)
  have "exists_on d2 p"
  proof (cases "exists_on d1 p")
    case True
    have "stays p (each_op (create_private_directory W) (rev ps))" by (intro stays_rules)
    then show ?thesis using c True staysD by metis
  next
    case False
    then obtain qs where "ps = p # qs" using missing_lists [OF m] by blast
    then obtain d3 where "create_private_directory W p d3 = (Inr (), d2)"
      using c by (auto simp: each_op_append bind_op_Inr ok_op_def)
    then show ?thesis by (rule created_exists [OF assms(1)])
  qed
  moreover have "stays p (verify_directory_chain W p)" by (rule stays_rules)
  ultimately show ?thesis using v staysD by metis
qed

lemma locked_start:
  assumes "truthful W" "with_lock W s m d = (r, d')"
  obtains e where "r = Inl e" "\<And>p. identity_file p \<Longrightarrow> disk_files d' p = disk_files d p"
  | d1 where "m d1 = (r, d')" "exists_on d1 (is_root s)" "\<And>p. identity_file p \<Longrightarrow> disk_files d1 p = disk_files d p"
proof -
  let ?open = "config_call W (CallOpenLock (inventory_lock s))
       (\<lambda>d. if disk_files d (inventory_lock s) = None then put_file (inventory_lock s) [] d else d)"
  let ?take = "config_call W (CallTakeLock (inventory_lock s)) id"
  define entry where "entry = bind_op (ensure_for_write W s) (\<lambda>_. bind_op ?open (\<lambda>_. ?take))"
  have lock: "dotted (inventory_lock s)" by (simp add: inventory_lock_def dotted_def starts_with_prefix)
  have run: "with_lock W s m = bind_op entry (\<lambda>_. m)" by (simp add: with_lock_def entry_def bind_op_assoc)
  have keep: "keeps p entry" if "identity_file p" for p
    unfolding entry_def using dotted_differs [OF that lock] by (intro keeps_rules) simp_all
  obtain q d1 where q: "entry d = (q, d1)" by force
  show ?thesis
  proof (cases q)
    case (Inl e)
    then have "r = Inl e" "d' = d1" using assms(2) q run by (auto simp: bind_op_def)
    then show ?thesis using keepsD [OF keep q] by (intro that(1)) auto
  next
    case (Inr u)
    obtain d2 d3 where e: "ensure_for_write W s d = (Inr (), d2)" "?open d2 = (Inr (), d3)" "?take d3 = (Inr (), d1)"
      using q Inr unfolding entry_def by (auto simp: bind_op_Inr)
    obtain d4 where "prepare_private_directory W (is_root s) d = (Inr (), d4)"
      and rest: "bind_op (prepare_private_directory W (is_manifests s)) (\<lambda>_. verify_root W s) d4 = (Inr (), d2)"
      using e(1) unfolding ensure_for_write_def by (auto simp: bind_op_Inr)
    then have x: "exists_on d4 (is_root s)" using prepared_exists [OF assms(1)] by blast
    have "stays (is_root s) (bind_op (prepare_private_directory W (is_manifests s)) (\<lambda>_. verify_root W s))"
      by (intro stays_rules)
    note d2 = staysD [OF this rest x]
    have "stays (is_root s) ?open" by (intro stays_rules) (simp add: exists_on_def put_file_def)
    note d3 = staysD [OF this e(2) d2]
    have "stays (is_root s) ?take" by (intro stays_rules) simp
    note d1 = staysD [OF this e(3) d3]
    moreover have "m d1 = (r, d')" using assms(2) q Inr run by (simp add: bind_op_def)
    ultimately show ?thesis using keepsD [OF keep q] d1 by (intro that(2) [of d1]) auto
  qed
qed

text \<open>Computations with a single error.\<close>

definition only_error :: "'e \<Rightarrow> ('e, 'a) disk_op \<Rightarrow> bool" where
  "only_error e m \<longleftrightarrow> (\<forall>d x. fst (m d) = Inl x \<longrightarrow> x = e)"

lemma only_error_basic: "only_error e (ok_op x)" "only_error e (stop e)" "only_error e (native N (\<lambda>_. e) c change)"
  "only_error e (at_clock (\<lambda>t. Inr (f t)))"
  by (auto simp: only_error_def ok_op_def stop_def native_def at_clock_def Let_def split: option.splits)

lemma only_error_bind: "only_error e m \<Longrightarrow> (\<And>x. only_error e (f x)) \<Longrightarrow> only_error e (bind_op m f)"
  by (auto simp: only_error_def bind_op_def split: prod.splits sum.splits) (metis fst_conv)

lemma only_error_recover: "(\<And>x. only_error e (f x)) \<Longrightarrow> only_error e (recover_op m f)"
  by (auto simp: only_error_def recover_op_def split: prod.splits sum.splits)

lemma only_error_if: "only_error e a \<Longrightarrow> only_error e b \<Longrightarrow> only_error e (if c then a else b)"
  by simp

lemma only_error_reads: "only_error ReadInvalid (contents_of p)" "only_error ReadInvalid (handle_identity W p)"
proof -
  show "only_error ReadInvalid (contents_of p)"
    by (auto simp: only_error_def contents_of_def ok_or_def split: option.splits)
  show "only_error ReadInvalid (handle_identity W p)"
    unfolding handle_identity_def by (intro only_error_bind only_error_basic)
qed

lemmas only_error_rules = only_error_basic only_error_bind only_error_recover only_error_if only_error_reads

lemma read_verified_result:
  assumes "read_verified W p d = (r, d')"
  shows "(\<forall>b. r = Inr b \<longrightarrow> disk_files d p = Some b \<and> utf8_valid b) \<and>
    (r = Inl ReadMissing \<longrightarrow> truthful W \<longrightarrow> disk_files d p = None)"
proof -
  obtain q d1 where q: "private_file_identity W p d = (q, d1)" by force
  note d1 = keepsD [OF keeps_file_identity q]
  show ?thesis
  proof (cases q)
    case (Inl e)
    then have "r = Inl e" using assms q by (simp add: read_verified_def bind_op_def)
    moreover have "truthful W \<Longrightarrow> e = ReadMissing \<Longrightarrow> \<not> exists_on d p"
      using q Inl by (auto simp: private_file_identity_def truthful_def split: option.splits if_splits)
    ultimately show ?thesis by (auto simp: exists_on_def)
  next
    case (Inr expected)
    define rest where "rest = bind_op (native (nw_calls W) (\<lambda>_. ReadInvalid) (CallOpenVerified p) id) (\<lambda>_.
     bind_op (contents_of p) (\<lambda>bytes.
     bind_op (handle_identity W p) (\<lambda>opened.
       if opened \<noteq> expected then stop ReadInvalid
       else bind_op (native (nw_calls W) (\<lambda>_. ReadInvalid) (CallMetadata p) id) (\<lambda>_.
         if max_document_bytes < length bytes then stop ReadInvalid
         else bind_op (native (nw_calls W) (\<lambda>_. ReadInvalid) (CallRead p) id) (\<lambda>_.
              bind_op (recover_op (private_file_identity W p) (\<lambda>_. stop ReadInvalid)) (\<lambda>again.
                if again \<noteq> expected \<or> \<not> utf8_valid bytes then stop ReadInvalid else ok_op bytes))))))"
    have r: "rest d1 = (r, d')" using assms q Inr by (simp add: read_verified_def bind_op_def rest_def)
    have "only_error ReadInvalid rest" unfolding rest_def by (intro only_error_rules)
    then have "\<forall>e. r = Inl e \<longrightarrow> e = ReadInvalid" using r by (metis only_error_def fst_conv)
    moreover have "disk_files d p = Some b \<and> utf8_valid b" if rb: "r = Inr b" for b
    proof -
      obtain d2 bytes d3 where "native (nw_calls W) (\<lambda>_. ReadInvalid) (CallOpenVerified p) id d1 = (Inr (), d2)"
        "contents_of p d2 = (Inr bytes, d3)" "bytes = b" "utf8_valid b"
        using r [unfolded rb rest_def] by (auto simp: bind_op_Inr stop_def ok_op_def split: if_splits)
      then show ?thesis using native_cases d1 by (fastforce simp: contents_of_def ok_or_def split: option.splits)
    qed
    ultimately show ?thesis by auto
  qed
qed

section \<open>What a section leaves on disk\<close>

definition store_laws :: "inventory_world \<Rightarrow> bool" where
  "store_laws W \<longleftrightarrow> truthful W \<and> inventory_text_law (nw_toml W) \<and> base64_laws (nw_crates W)"

lemma read_locked:
  assumes "truthful W" "exists_on d (is_root s)" "read_inventory W s d = (Inr doc, d')"
  shows "document_on_disk W s d = Inr doc"
proof -
  obtain there d1 where t: "stat_path (nw_calls W) (\<lambda>_. InventoryConfig) (is_root s) d = (Inr there, d1)"
    and r: "(if \<not> there then ok_op []
       else bind_op (verify_directory_chain W (is_root s)) (\<lambda>_ d.
              case read_verified W (is_inventory s) d of
                (Inr input, d) \<Rightarrow> (parse_document (nw_crates W) (nw_toml W) input, d)
              | (Inl ReadMissing, d) \<Rightarrow> (Inr [], d)
              | (Inl ReadInvalid, d) \<Rightarrow> (Inl InventoryConfig, d))) d1 = (Inr doc, d')"
    using assms(3) unfolding read_inventory_def by (rule bind_op_InrE)
  have "there" using t assms(2) by (auto simp: stat_path_def bind_op_Inr native_def Let_def split: option.splits)
  then obtain d2 where c: "verify_directory_chain W (is_root s) d1 = (Inr (), d2)"
    and v: "(case read_verified W (is_inventory s) d2 of
                (Inr input, d) \<Rightarrow> (parse_document (nw_crates W) (nw_toml W) input, d)
              | (Inl ReadMissing, d) \<Rightarrow> (Inr [], d)
              | (Inl ReadInvalid, d) \<Rightarrow> (Inl InventoryConfig, d)) = (Inr doc, d')"
    using r by (auto simp: bind_op_Inr)
  have files: "disk_files d2 (is_inventory s) = disk_files d (is_inventory s)"
    using keepsD [OF keeps_stat t] keepsD [OF keeps_chain c] by simp
  obtain q d3 where q: "read_verified W (is_inventory s) d2 = (q, d3)" by force
  show ?thesis
    using v q read_verified_result [OF q] assms(1) files
    by (auto simp: document_on_disk_def split: sum.splits read_verified_error.splits)
qed

lemma printed_on_disk:
  assumes "store_laws W" "printed_document W doc = Some t" "disk_files d (is_inventory s) = Some t"
    "\<forall>h \<in> set doc. enrolled_host (nw_crates W) h"
  shows "document_on_disk W s d = Inr doc"
proof -
  have p: "document_toml (nw_crates W) (nw_toml W) doc = Inr t" "\<not> contains_secret_shaped_text (nw_crates W) t"
    using assms(2) by (auto simp: printed_document_def refused_contents_def split: sum.splits if_splits)
  have "inventory_to_string (nw_toml W) (document_wire doc) = Some t"
    using p(1) by (auto simp: document_toml_def result_simps split: if_splits)
  then have "utf8_valid t" using assms(1) by (auto simp: store_laws_def inventory_text_law_def)
  then show ?thesis
    using document_read_back [of "nw_toml W" "nw_crates W" doc t] assms p by (auto simp: document_on_disk_def store_laws_def)
qed

lemma on_disk_sound:
  "document_on_disk W s d = Inr doc \<Longrightarrow>
     valid_document (nw_crates W) doc \<and> (\<forall>h \<in> set doc. enrolled_host (nw_crates W) h)"
  using parse_document_sound
  by (auto simp: document_on_disk_def valid_document_def split: option.splits if_splits)

lemma on_disk_same:
  "disk_files d' (is_inventory s) = disk_files d (is_inventory s) \<Longrightarrow> document_on_disk W s d' = document_on_disk W s d"
  by (simp add: document_on_disk_def)

lemma keeps_attempted [keeps_rules]: "keeps p m \<Longrightarrow> keeps p (attempted m)"
  by (auto simp: keeps_def attempted_def split: prod.splits) (metis snd_conv)

lemma upsert_members: "upsert_exact h doc = (r, doc') \<Longrightarrow> set doc' \<subseteq> insert h (set doc)"
  by (auto simp: upsert_exact_def split: option.splits if_splits)

lemma replace_first_members: "set (replace_first p y xs) \<subseteq> insert y (set xs)"
  by (induction xs) auto

lemma replace_members: "replace_exact g h doc = (r, doc') \<Longrightarrow> set doc' \<subseteq> insert h (set doc)"
  using replace_first_members by (fastforce simp: replace_exact_def split: option.splits if_splits)

lemma locked_read:
  assumes "store_laws W" "document_on_disk W s d = Inr doc"
    "with_lock W s (bind_op (read_inventory W s) body) d = (r, d')"
  obtains e where "r = Inl e" "document_on_disk W s d' = Inr doc"
  | d2 where "body doc d2 = (r, d')" "document_on_disk W s d2 = Inr doc"
proof -
  have tr: "truthful W" using assms(1) by (simp add: store_laws_def)
  show ?thesis
    using assms(3)
  proof (rule locked_start [OF tr])
    fix e assume "r = Inl e" "\<And>p. identity_file p \<Longrightarrow> disk_files d' p = disk_files d p"
    then show ?thesis using on_disk_same [of d' s d W] assms(2) by (intro that(1)) simp_all
  next
    fix d1
    assume run: "bind_op (read_inventory W s) body d1 = (r, d')" and root: "exists_on d1 (is_root s)"
      and same: "\<And>p. identity_file p \<Longrightarrow> disk_files d1 p = disk_files d p"
    obtain q d2 where q: "read_inventory W s d1 = (q, d2)" by force
    have "disk_files d2 (is_inventory s) = disk_files d (is_inventory s)"
      using keepsD [OF keeps_read_inventory q] same by simp
    note here = on_disk_same [OF this, of W, unfolded assms(2)]
    show ?thesis
    proof (cases q)
      case (Inl e)
      then have "r = Inl e" "d' = d2" using run q by (simp_all add: bind_op_def)
      then show ?thesis using here by (intro that(1)) simp_all
    next
      case (Inr doc0)
      have "document_on_disk W s d1 = document_on_disk W s d" by (rule on_disk_same) (simp add: same)
      then have "doc0 = doc" using read_locked [OF tr root] q Inr assms(2) by simp
      then have "body doc d2 = (r, d')" using run q Inr by (simp add: bind_op_def)
      then show ?thesis using here by (rule that(2))
    qed
  qed
qed

lemma put_document:
  assumes "store_laws W" "document_on_disk W s d = Inr doc" "\<forall>h \<in> set doc'. enrolled_host (nw_crates W) h"
    "replace_inventory W s doc' d = (r, d')"
  shows "(document_on_disk W s d' = Inr doc \<and> r \<noteq> Inr ()) \<or> document_on_disk W s d' = Inr doc'"
proof (cases "r = Inr ()")
  case True
  obtain t where "printed_document W doc' = Some t" "disk_files d' (is_inventory s) = Some t"
    using inventory_file.write_done [OF assms(4) [unfolded True]] by (elim exE conjE)
  then show ?thesis using printed_on_disk [OF assms(1) _ _ assms(3)] by simp
next
  case False
  show ?thesis
    using inventory_file.write_atomic [OF assms(4)]
  proof
    assume "disk_files d' (is_inventory s) = disk_files d (is_inventory s)"
    from on_disk_same [OF this, of W] show ?thesis using False assms(2) by simp
  next
    assume "\<exists>t. printed_document W doc' = Some t \<and> disk_files d' (is_inventory s) = Some t"
    then obtain t where "printed_document W doc' = Some t" "disk_files d' (is_inventory s) = Some t" by (elim exE conjE)
    then show ?thesis using printed_on_disk [OF assms(1) _ _ assms(3)] by simp
  qed
qed

lemma commit_document:
  assumes laws: "store_laws W" and doc: "document_on_disk W s d = Inr doc"
    and enrolled: "\<forall>h \<in> set doc'. enrolled_host (nw_crates W) h" and unchanged: "\<not> b \<Longrightarrow> doc' = doc"
    and k: "keeps (is_inventory s) rest"
    and run: "bind_op (if b then replace_inventory W s doc' else ok_op ()) (\<lambda>_. rest) d = (r, d')"
  shows "(document_on_disk W s d' = Inr doc \<and> (\<exists>e. r = Inl e)) \<or> document_on_disk W s d' = Inr doc'"
proof -
  obtain w d4 where w: "(if b then replace_inventory W s doc' else ok_op ()) d = (w, d4)" by force
  have outcome: "(document_on_disk W s d4 = Inr doc \<and> w \<noteq> Inr ()) \<or> document_on_disk W s d4 = Inr doc'"
  proof (cases b)
    case True
    with w put_document [OF laws doc enrolled] show ?thesis by simp
  next
    case False
    with w doc unchanged show ?thesis by (simp add: ok_op_def)
  qed
  show ?thesis
  proof (cases w)
    case (Inl e)
    then have "r = Inl e" "d' = d4" using run w by (simp_all add: bind_op_def)
    then show ?thesis using outcome by auto
  next
    case (Inr u)
    then have "rest d4 = (r, d')" using run w by (simp add: bind_op_def)
    from on_disk_same [OF keepsD [OF k this], of W] show ?thesis using outcome Inr by simp
  qed
qed

lemma enroll_document:
  assumes laws: "store_laws W" and doc: "document_on_disk W s d = Inr doc"
    and h: "enrolled_host (nw_crates W) h"
    and run: "enroll_section W s h cache d = (r, d')"
  shows "(document_on_disk W s d' = Inr doc \<and> (\<exists>e. r = Inl e)) \<or> document_on_disk W s d' = Inr (snd (upsert_exact h doc))"
  using run unfolding enroll_section_def
proof (rule locked_read [OF laws doc])
  fix d2
  obtain u doc' where u: "upsert_exact h doc = (u, doc')" by force
  assume body: "(case upsert_exact h doc of
         (Inl e, _) \<Rightarrow> stop e
       | (Inr created, doc') \<Rightarrow>
           bind_op (write_cache W s cache) (\<lambda>_.
           bind_op (if created then replace_inventory W s doc' else ok_op ()) (\<lambda>_.
           bind_op (attempted (rebuild_known_hosts W s doc')) (\<lambda>failed. ok_op (created, failed))))) d2 = (r, d')"
    and here: "document_on_disk W s d2 = Inr doc"
  show ?thesis
  proof (cases u)
    case (Inl e)
    then show ?thesis using body here u by (auto simp: stop_def)
  next
    case (Inr b)
    define rest where "rest = bind_op (attempted (rebuild_known_hosts W s doc')) (\<lambda>failed. ok_op (b, failed))"
    have k: "keeps (is_inventory s) rest" unfolding rest_def by (intro keeps_rules) simp_all
    have enrolled: "\<forall>g \<in> set doc'. enrolled_host (nw_crates W) g"
      using upsert_members [OF u] on_disk_sound [OF doc] h by auto
    have unchanged: "doc' = doc" if "\<not> b"
      using u Inr that by (auto simp: upsert_exact_def split: option.splits if_splits)
    have run: "bind_op (write_cache W s cache) (\<lambda>_.
        bind_op (if b then replace_inventory W s doc' else ok_op ()) (\<lambda>_. rest)) d2 = (r, d')"
      using body u Inr by (simp add: rest_def)
    obtain c d3 where c: "write_cache W s cache d2 = (c, d3)" by force
    have "keeps (is_inventory s) (write_cache W s cache)" by (intro keeps_rules) simp_all
    from on_disk_same [OF keepsD [OF this c], of W] here have now: "document_on_disk W s d3 = Inr doc" by simp
    show ?thesis
    proof (cases c)
      case (Inl e)
      then show ?thesis using run c now by (auto simp: bind_op_def)
    next
      case (Inr v)
      then have "bind_op (if b then replace_inventory W s doc' else ok_op ()) (\<lambda>_. rest) d3 = (r, d')"
        using run c by (simp add: bind_op_def)
      from commit_document [OF laws now enrolled unchanged k this] show ?thesis using u by simp
    qed
  qed
qed auto

lemma trust_document:
  assumes laws: "store_laws W" and doc: "document_on_disk W s d = Inr doc"
    and h: "enrolled_host (nw_crates W) h"
    and run: "trust_section W s g h d = (r, d')"
  shows "(document_on_disk W s d' = Inr doc \<and> (\<exists>e. r = Inl e)) \<or> document_on_disk W s d' = Inr (snd (replace_exact g h doc))"
proof -
  obtain u doc' where u: "replace_exact g h doc = (u, doc')" by force
  have "with_lock W s (bind_op (read_inventory W s) (\<lambda>doc.
      case replace_exact g h doc of
        (Inl e, _) \<Rightarrow> stop e
      | (Inr _, doc') \<Rightarrow> bind_op (replace_inventory W s doc') (\<lambda>_. attempted (rebuild_known_hosts W s doc')))) d = (r, d')"
  proof -
    have "bind_op (update_with (read_inventory W s) (trust_decision g h) (replace_inventory W s)) (\<lambda>doc'.
          attempted (rebuild_known_hosts W s doc')) =
      bind_op (read_inventory W s) (\<lambda>doc.
      case replace_exact g h doc of
        (Inl e, _) \<Rightarrow> stop e
      | (Inr _, doc') \<Rightarrow> bind_op (replace_inventory W s doc') (\<lambda>_. attempted (rebuild_known_hosts W s doc')))"
      by (auto simp: update_with_def trust_decision_def bind_op_assoc fun_eq_iff bind_op_def stop_def ok_op_def lift_def
            split: prod.splits sum.splits)
    then show ?thesis using run by (simp add: trust_section_def)
  qed
  then show ?thesis
  proof (rule locked_read [OF laws doc])
    fix d2
    assume body: "(case replace_exact g h doc of
        (Inl e, _) \<Rightarrow> stop e
      | (Inr _, doc') \<Rightarrow> bind_op (replace_inventory W s doc') (\<lambda>_. attempted (rebuild_known_hosts W s doc'))) d2 = (r, d')"
      and here: "document_on_disk W s d2 = Inr doc"
    show ?thesis
    proof (cases u)
      case (Inl e)
      then show ?thesis using body here u by (auto simp: stop_def)
    next
      case (Inr b)
      have enrolled: "\<forall>g \<in> set doc'. enrolled_host (nw_crates W) g"
        using replace_members [OF u] on_disk_sound [OF doc] h by auto
      have k: "keeps (is_inventory s) (attempted (rebuild_known_hosts W s doc'))" by (intro keeps_rules) simp_all
      have "bind_op (if True then replace_inventory W s doc' else ok_op ())
          (\<lambda>_. attempted (rebuild_known_hosts W s doc')) d2 = (r, d')"
        using body u Inr by simp
      from commit_document [OF laws here enrolled _ k this] show ?thesis using u by simp
    qed
  qed auto
qed

end
