(* ===== verification/FleetHistory.thy ===== *)
theory FleetHistory
  imports FleetInventory
begin

text \<open>
  A fleet of controllers on one inventory: their runs as a step relation, the sequential history
  that explains any interleaving, and the pin of a selected host.
\<close>

section \<open>A fleet of controllers\<close>

text \<open>One run of an operation of the store by some controller, with its result.\<close>

datatype fleet_event =
    Enroll_run inventory_host manifest_cache "inventory_error + bool \<times> bool"
  | Trust_run inventory_host inventory_host "inventory_error + bool"
  | Select_run "string option" "inventory_error + inventory_host"
  | Read_run "inventory_error + inventory_document"
  | Write_cache_run manifest_cache "inventory_error + unit"
  | Read_cache_run uuid "inventory_error + manifest_cache"
  | Candidate_run string nat pinned_host_key "inventory_error + path"
  | Discard_run path
  | Idle

inductive fleet_step :: "inventory_world \<Rightarrow> inventory_store \<Rightarrow> disk \<Rightarrow> fleet_event \<Rightarrow> disk \<Rightarrow> bool"
  for W s where
  enroll: "enroll_section W s h c d = (r, d') \<Longrightarrow> sound_host (nw_crates W) h \<Longrightarrow> enrolled_host (nw_crates W) h \<Longrightarrow>
     fleet_step W s d (Enroll_run h c r) d'"
| trust: "trust_section W s g h d = (r, d') \<Longrightarrow> sound_host (nw_crates W) h \<Longrightarrow> enrolled_host (nw_crates W) h \<Longrightarrow>
     fleet_step W s d (Trust_run g h r) d'"
| select: "select_section W s n d = (r, d') \<Longrightarrow> fleet_step W s d (Select_run n r) d'"
| read: "read_inventory W s d = (r, d') \<Longrightarrow> fleet_step W s d (Read_run r) d'"
| write_cache: "write_cache W s c d = (r, d') \<Longrightarrow> fleet_step W s d (Write_cache_run c r) d'"
| read_cache: "read_cache W s u d = (r, d') \<Longrightarrow> fleet_step W s d (Read_cache_run u r) d'"
| candidate: "candidate_known_hosts W s host port pin d = (r, d') \<Longrightarrow> fleet_step W s d (Candidate_run host port pin r) d'"
| discard: "p = is_root s @ [''.enrollment-known-hosts-'' @ u] \<Longrightarrow> fleet_step W s d (Discard_run p) (try_remove W p d)"
| idle: "fleet_step W s d Idle (d\<lparr>disk_clock := Suc (disk_clock d)\<rparr>)"

inductive fleet_run :: "inventory_world \<Rightarrow> inventory_store \<Rightarrow> disk \<Rightarrow> fleet_event list \<Rightarrow> disk \<Rightarrow> bool"
  for W s d where
  start: "fleet_run W s d [] d"
| more: "fleet_run W s d evs d1 \<Longrightarrow> fleet_step W s d1 ev d2 \<Longrightarrow> fleet_run W s d (evs @ [ev]) d2"

text \<open>The edits that runs asked for, and those they reported as done.\<close>

fun asked :: "fleet_event \<Rightarrow> inventory_host edit list" where
  "asked (Enroll_run h c r) = [Insert_edit h]"
| "asked (Trust_run g h r) = [Replace_edit g h]"
| "asked _ = []"

fun reported :: "fleet_event \<Rightarrow> inventory_host edit list" where
  "reported (Enroll_run h c r) = (if is_ok r then [Insert_edit h] else [])"
| "reported (Trust_run g h r) = (if is_ok r then [Replace_edit g h] else [])"
| "reported _ = []"

abbreviation edited :: "inventory_host edit list \<Rightarrow> inventory_document \<Rightarrow> inventory_document" where
  "edited \<equiv> edits_with upsert_exact replace_exact"

lemma keeps_locked_run:
  "keeps (is_inventory s) m \<Longrightarrow> keeps (is_inventory s) (with_lock W s m)"
proof -
  assume m: "keeps (is_inventory s) m"
  have "is_inventory s \<noteq> inventory_lock s" by (simp add: is_inventory_def inventory_lock_def)
  then show ?thesis unfolding with_lock_def by (intro keeps_rules m) simp_all
qed

lemma keeps_select: "keeps (is_inventory s) (select_section W s n)"
  unfolding select_section_def by (intro keeps_locked_run keeps_rules) simp_all

lemma keeps_candidate: "keeps (is_inventory s) (candidate_known_hosts W s host port pin)"
proof -
  have put: "keeps (is_inventory s) (bind_op (at_clock (\<lambda>t. Inr (is_root s @
       [''.enrollment-known-hosts-'' @ uuid_text (nw_crates W) (nw_fresh W t) @ ''.tmp''])))
     (\<lambda>p. bind_op (cleaned_up W p (write_new_verified W p contents)) (\<lambda>_. ok_op p)))" for contents
  proof -
    have ne: "is_inventory s \<noteq> is_root s @ [''.enrollment-known-hosts-'' @ u]" for u by (simp add: is_inventory_def)
    have "keeps (is_inventory s) (bind_op (cleaned_up W p (write_new_verified W p contents)) (\<lambda>_. ok_op p))"
      if "is_inventory s \<noteq> p" for p
      using that by (intro keeps_rules)
    from this [OF ne] show ?thesis by (simp add: bind_op_def at_clock_def keeps_def)
  qed
  show ?thesis unfolding candidate_known_hosts_def by (intro keeps_bind keeps_ensure keeps_lift put)
qed

lemma kept_document:
  "keeps (is_inventory s) m \<Longrightarrow> m d = (r, d') \<Longrightarrow> document_on_disk W s d = Inr doc \<Longrightarrow> reported ev = [] \<Longrightarrow>
   \<exists>es. document_on_disk W s d' = Inr (edited es doc) \<and> subseq (reported ev) es \<and> subseq es (asked ev)"
  by (rule exI [of _ "[]"]) (simp add: edits_with_def on_disk_same [OF keepsD])

text \<open>
  A step changes the document as if its edit had been done at that moment, or not at all; a
  step that reports success has done it.
\<close>

lemma step_document:
  assumes laws: "store_laws W" and doc: "document_on_disk W s d = Inr doc" and step: "fleet_step W s d ev d'"
  shows "\<exists>es. document_on_disk W s d' = Inr (edited es doc) \<and> subseq (reported ev) es \<and> subseq es (asked ev)"
  using step
proof cases
  case (enroll h c r)
  then consider e where "document_on_disk W s d' = Inr doc" "r = Inl e"
    | "document_on_disk W s d' = Inr (snd (upsert_exact h doc))"
    using enroll_document [OF laws doc enroll(4,2)] by blast
  then show ?thesis
  proof cases
    case 1
    then show ?thesis using enroll(1) by (intro exI [of _ "[]"]) (simp add: edits_with_def)
  next
    case 2
    then show ?thesis using enroll(1) by (intro exI [of _ "[Insert_edit h]"]) (simp add: edits_with_def)
  qed
next
  case (trust g h r)
  then consider e where "document_on_disk W s d' = Inr doc" "r = Inl e"
    | "document_on_disk W s d' = Inr (snd (replace_exact g h doc))"
    using trust_document [OF laws doc trust(4,2)] by blast
  then show ?thesis
  proof cases
    case 1
    then show ?thesis using trust(1) by (intro exI [of _ "[]"]) (simp add: edits_with_def)
  next
    case 2
    then show ?thesis using trust(1) by (intro exI [of _ "[Replace_edit g h]"]) (simp add: edits_with_def)
  qed
next
  case (select n r)
  then show ?thesis using kept_document [OF keeps_select _ doc, of W n r d' ev] by simp
next
  case (read r)
  then show ?thesis using kept_document [OF keeps_read_inventory _ doc, of W s r d' ev] by simp
next
  case (write_cache c r)
  have "keeps (is_inventory s) (write_cache W s c)" by (intro keeps_rules) simp_all
  from kept_document [OF this write_cache(2) doc, of ev] show ?thesis using write_cache(1) by simp
next
  case (read_cache u r)
  then show ?thesis using kept_document [OF keeps_read_cache _ doc, of W s u r d' ev] by simp
next
  case (candidate host port pin r)
  then show ?thesis using kept_document [OF keeps_candidate _ doc, of W host port pin r d' ev] by simp
next
  case (discard p u)
  then have "disk_files d' (is_inventory s) = disk_files d (is_inventory s)"
    using try_remove_files [of "is_inventory s" p W d] by (simp add: is_inventory_def)
  from on_disk_same [OF this, of W] have "document_on_disk W s d' = Inr (edited [] doc)"
    using doc by (simp add: edits_with_def)
  then show ?thesis using discard by (intro exI [of _ "[]"]) simp
next
  case idle
  have "document_on_disk W s d' = Inr (edited [] doc)"
    using on_disk_same [of d' s d W] idle doc by (simp add: edits_with_def)
  then show ?thesis using idle by (intro exI [of _ "[]"]) simp
qed

lemma edited_append: "edited (xs @ ys) doc = edited ys (edited xs doc)"
  by (simp add: edits_with_def)

lemma run_document:
  assumes "store_laws W" "document_on_disk W s d = Inr doc" "fleet_run W s d evs d'"
  shows "\<exists>es. document_on_disk W s d' = Inr (edited es doc) \<and>
    subseq (concat (map reported evs)) es \<and> subseq es (concat (map asked evs))"
  using assms(3)
proof induction
  case start
  show ?case using assms(2) by (intro exI [of _ "[]"]) (simp add: edits_with_def)
next
  case (more evs d1 ev d2)
  then obtain es fs where "document_on_disk W s d1 = Inr (edited es doc)"
    "subseq (concat (map reported evs)) es" "subseq es (concat (map asked evs))"
    "document_on_disk W s d2 = Inr (edited fs (edited es doc))" "subseq (reported ev) fs" "subseq fs (asked ev)"
    using step_document [OF assms(1)] by metis
  then show ?case
    by (intro exI [of _ "es @ fs"]) (simp add: edited_append list_emb_append_mono)
qed

lemma asked_fit:
  assumes "fleet_run W s d evs d'" "e \<in> set (concat (map asked evs))"
  shows "sound_host (nw_crates W) (edited_record e)"
  using assms
proof induction
  case (more evs d1 ev d2)
  then show ?case by (auto elim!: fleet_step.cases)
qed simp


section \<open>The host a command talks to\<close>

lemma rebuild_result:
  assumes "rebuild_known_hosts W s doc d = (Inr (), d')"
  shows "\<exists>t. known_hosts_contents doc = Inr t \<and> disk_files d' (is_known_hosts s) = Some t"
proof -
  obtain t where t: "known_hosts_contents doc = Inr t"
    using assms by (auto simp: rebuild_known_hosts_def bind_op_def lift_def split: sum.splits)
  obtain q d1 where q: "read_verified W (is_known_hosts s) d = (q, d1)" by force
  have "disk_files d' (is_known_hosts s) = Some t"
  proof (cases "q = Inr t")
    case True
    then have "d' = d1" using assms t q by (simp add: rebuild_known_hosts_def bind_op_def lift_def)
    then show ?thesis using read_verified_result [OF q] keepsD [OF keeps_read_verified q] True by simp
  next
    case False
    then have "write_verified W (is_known_hosts s) t d1 = (Inr (), d')"
      using assms t q by (simp add: rebuild_known_hosts_def bind_op_def lift_def)
    from write_verified_outcome [OF store_files(2) this] show ?thesis by simp
  qed
  then show ?thesis using t by blast
qed

lemma pinned_line:
  "known_hosts_contents doc = Inr t \<Longrightarrow> h \<in> set doc \<Longrightarrow>
   \<exists>before line after. t = before @ line @ after \<and>
     known_hosts_line (ssh_host_key (ih_transport h)) (ssh_host (ih_transport h)) (ssh_port (ih_transport h)) = Inr line"
proof (induction doc arbitrary: t)
  case (Cons g doc)
  obtain line rest where l: "known_hosts_line (ssh_host_key (ih_transport g)) (ssh_host (ih_transport g)) (ssh_port (ih_transport g)) = Inr line"
    and r: "known_hosts_contents doc = Inr rest" "t = line @ rest"
    using Cons.prems(1) by (auto simp: result_simps)
  show ?case
  proof (cases "h = g")
    case True
    then show ?thesis using l r(2) by (intro exI [of _ "[]"] exI [of _ line] exI [of _ rest]) simp
  next
    case False
    then obtain before l' after where "rest = before @ l' @ after"
      "known_hosts_line (ssh_host_key (ih_transport h)) (ssh_host (ih_transport h)) (ssh_port (ih_transport h)) = Inr l'"
      using Cons.IH [OF r(1)] Cons.prems(2) by auto
    then show ?thesis using r(2) by (intro exI [of _ "line @ before"] exI [of _ l'] exI [of _ after]) simp
  qed
qed simp

lemma selected_member: "select_host doc n = Inr h \<Longrightarrow> h \<in> set doc"
  by (auto simp: select_host_def find_host_def ok_or_def dest: find_first_SomeD split: option.splits list.splits)

text \<open>
  A command connects only to a host the inventory names: when a selection succeeds, the
  inventory read under the lock is the one on disk, the host is the record it has under the
  given alias (or its only record), and the \<open>known_hosts\<close> file that ssh is then given is the one
  derived from that inventory, with the line that pins this host's endpoint to its recorded key.
\<close>

lemma selection_pinned:
  assumes "truthful W" "select_section W s n d = (Inr h, d')"
  shows "\<exists>doc t before line after. document_on_disk W s d = Inr doc \<and> document_on_disk W s d' = Inr doc \<and>
    (case n of Some k \<Rightarrow> find_host doc k = Some h | None \<Rightarrow> doc = [h]) \<and>
    known_hosts_contents doc = Inr t \<and> disk_files d' (is_known_hosts s) = Some t \<and>
    t = before @ line @ after \<and>
    known_hosts_line (ssh_host_key (ih_transport h)) (ssh_host (ih_transport h)) (ssh_port (ih_transport h)) = Inr line"
  using assms(2) unfolding select_section_def
proof (rule locked_start [OF assms(1)])
  fix d1
  assume run: "bind_op (read_inventory W s) (\<lambda>doc. bind_op (lift (select_host doc n)) (\<lambda>h.
      bind_op (rebuild_known_hosts W s doc) (\<lambda>_. ok_op h))) d1 = (Inr h, d')"
    and root: "exists_on d1 (is_root s)" and same: "\<And>p. identity_file p \<Longrightarrow> disk_files d1 p = disk_files d p"
  obtain doc d2 where r: "read_inventory W s d1 = (Inr doc, d2)"
    and sel: "select_host doc n = Inr h" and k: "rebuild_known_hosts W s doc d2 = (Inr (), d')"
    using run by (auto simp: bind_op_Inr lift_def ok_op_def)
  obtain t where t: "known_hosts_contents doc = Inr t" "disk_files d' (is_known_hosts s) = Some t"
    using rebuild_result [OF k] by blast
  obtain before line after where l: "t = before @ line @ after"
    "known_hosts_line (ssh_host_key (ih_transport h)) (ssh_host (ih_transport h)) (ssh_port (ih_transport h)) = Inr line"
    using pinned_line [OF t(1) selected_member [OF sel]] by blast
  have "document_on_disk W s d1 = Inr doc" by (rule read_locked [OF assms(1) root r])
  moreover have "document_on_disk W s d1 = document_on_disk W s d" by (rule on_disk_same) (simp add: same)
  moreover have "document_on_disk W s d' = document_on_disk W s d"
    by (rule on_disk_same) (use keepsD [OF keeps_select assms(2)] in simp)
  ultimately have "document_on_disk W s d = Inr doc" "document_on_disk W s d' = Inr doc" by simp_all
  moreover have "case n of Some k \<Rightarrow> find_host doc k = Some h | None \<Rightarrow> doc = [h]"
    using sel by (auto simp: select_host_def ok_or_def split: option.splits list.splits)
  ultimately show ?thesis using t l by blast
qed simp

section \<open>A concrete fleet\<close>

definition demo_inventory_world :: inventory_world where
  "demo_inventory_world =
     \<lparr>nw_crates = demo_scan_crates, nw_manifests = demo_toml, nw_toml = demo_inventory_toml, nw_calls = (\<lambda>_ _. None),
      nw_file_id = (\<lambda>_ _. 0), nw_fresh = (\<lambda>_. demo_uuid)\<rparr>"

definition demo_inventory_store :: inventory_store where
  "demo_inventory_store = \<lparr>is_root = [''styrn'']\<rparr>"

definition demo_pin_line :: string where
  "demo_pin_line = ''atlas ssh-ed25519 AAAA'' @ [CHR 0x0A]"

definition demo_inventory_disk :: disk where
  "demo_inventory_disk =
     \<lparr>disk_files = [[''styrn'', ''inventory.toml''] \<mapsto> ''hosts'', [''styrn'', ''known_hosts''] \<mapsto> demo_pin_line],
      disk_dirs = {[''styrn''], [''styrn'', ''manifests'']}, disk_clock = 0\<rparr>"

lemma demo_fleet_sel [simp]:
  "nw_crates demo_inventory_world = demo_scan_crates" "nw_toml demo_inventory_world = demo_inventory_toml"
  "nw_calls demo_inventory_world t c = None" "nw_file_id demo_inventory_world t p = 0"
  by (simp_all add: demo_inventory_world_def)

abbreviation at_time :: "disk \<Rightarrow> nat \<Rightarrow> disk" where
  "at_time d n \<equiv> d\<lparr>disk_clock := n\<rparr>"

lemma demo_call: "config_call demo_inventory_world c change d = (Inr (), change (at_time d (Suc (disk_clock d))))"
  by (simp add: config_call_def native_def)

lemma demo_fleet_native: "native (nw_calls demo_inventory_world) wrap c change d = (Inr (), change (at_time d (Suc (disk_clock d))))"
  by (simp add: native_def)

lemma demo_file_identity:
  "exists_on d p \<Longrightarrow> private_file_identity demo_inventory_world p d = (Inr 0, at_time d (Suc (disk_clock d)))"
  by (simp add: private_file_identity_def)

lemma demo_chain: "\<exists>n. verify_directory_chain demo_inventory_world p d = (Inr (), at_time d n)"
  by (auto simp: verify_directory_chain_def bind_op_def demo_call)

lemma demo_prepare:
  assumes "exists_on d p"
  shows "\<exists>n. prepare_private_directory demo_inventory_world p d = (Inr (), at_time d n)"
proof -
  have "missing_directories demo_inventory_world (length p) p d = (Inr [], at_time d (Suc (disk_clock d)))"
    using assms by (cases "length p") (simp_all add: bind_op_def stat_path_def demo_fleet_native ok_op_def)
  moreover obtain n where
    "verify_directory_chain demo_inventory_world p (at_time d (Suc (disk_clock d))) = (Inr (), at_time (at_time d (Suc (disk_clock d))) n)"
    using demo_chain by blast
  ultimately show ?thesis by (auto simp: prepare_private_directory_def bind_op_def ok_op_def)
qed

lemma demo_ensure:
  assumes "exists_on d (is_root s)" "exists_on d (is_manifests s)"
  shows "\<exists>n. ensure_for_write demo_inventory_world s d = (Inr (), at_time d n)"
proof -
  obtain n where n: "prepare_private_directory demo_inventory_world (is_root s) d = (Inr (), at_time d n)"
    using demo_prepare [OF assms(1)] by blast
  obtain m where m: "prepare_private_directory demo_inventory_world (is_manifests s) (at_time d n) = (Inr (), at_time d m)"
    using demo_prepare [of "at_time d n" "is_manifests s"] assms(2) by auto
  show ?thesis
    using demo_chain [of "is_root s" "at_time d m"]
    by (auto simp: ensure_for_write_def verify_root_def bind_op_def n m demo_call)
qed

lemma demo_read:
  assumes "disk_files d p = Some c" "utf8_valid c" "length c \<le> max_document_bytes"
  shows "\<exists>n. read_verified demo_inventory_world p d = (Inr c, at_time d n)"
proof -
  have there: "exists_on (at_time d n) p" for n using assms(1) by (simp add: exists_on_def)
  show ?thesis
    using assms there [of "disk_clock d"]
    by (auto simp add: read_verified_def bind_op_def demo_file_identity there demo_fleet_native contents_of_def ok_or_def handle_identity_def
        at_clock_def recover_op_def ok_op_def not_less)
qed

lemma demo_fleet_lock:
  assumes "exists_on d (is_root s)" "exists_on d (is_manifests s)"
  shows "\<exists>n. with_lock demo_inventory_world s m d =
    m (at_time (if disk_files d (inventory_lock s) = None then put_file (inventory_lock s) [] d else d) n)"
proof -
  obtain n where "ensure_for_write demo_inventory_world s d = (Inr (), at_time d n)" using demo_ensure [OF assms] by blast
  then show ?thesis by (auto simp: with_lock_def bind_op_def demo_call put_file_def)
qed

lemma demo_fleet_write:
  assumes "\<not> refused_contents demo_inventory_world c" "utf8_valid c" "p \<noteq> []" "identity_file p"
    and fresh: "\<not> exists_on d (document_staging demo_inventory_world (butlast p) 0)"
  shows "\<exists>n. write_verified demo_inventory_world p c d = (Inr (), (put_file p c d)\<lparr>disk_clock := n\<rparr>)"
proof -
  define q where "q = document_staging demo_inventory_world (butlast p) 0"
  have tmp: "document_staging demo_inventory_world (butlast p) t = q" for t
    by (simp add: q_def document_staging_def demo_inventory_world_def)
  have ne: "p \<noteq> q" unfolding q_def using dotted_differs [OF assms(4) staging_dotted] .
  have target: "\<exists>m. verify_replace_target demo_inventory_world p e = (Inr (), at_time e m)" for e
    by (auto simp: verify_replace_target_def stat_path_def bind_op_def demo_fleet_native demo_call ok_op_def)
  have new: "\<exists>m. write_new_verified demo_inventory_world q c e = (Inr (), at_time (put_file q c e) m)" if "\<not> exists_on e q" for e
    using that assms(1) by (auto simp: write_new_verified_def bind_op_def create_new_def demo_fleet_native demo_call put_file_def)
  obtain n1 where t1: "verify_replace_target demo_inventory_world p d = (Inr (), at_time d n1)" using target by blast
  obtain n2 where w: "write_new_verified demo_inventory_world q c (at_time d (Suc n1)) = (Inr (), at_time (put_file q c d) n2)"
  proof -
    have "\<not> exists_on (at_time d (Suc n1)) q" using fresh by (simp add: q_def)
    from new [OF this] obtain m where
      "write_new_verified demo_inventory_world q c (at_time d (Suc n1)) = (Inr (), at_time (put_file q c (at_time d (Suc n1))) m)"
      by blast
    moreover have "at_time (put_file q c (at_time d (Suc n1))) m = at_time (put_file q c d) m" by (simp add: put_file_def)
    ultimately show thesis using that by simp
  qed
  obtain n3 where t2: "verify_replace_target demo_inventory_world p (at_time (put_file q c d) (Suc n2)) =
      (Inr (), at_time (put_file q c d) n3)"
  proof -
    obtain m where "verify_replace_target demo_inventory_world p (at_time (put_file q c d) (Suc n2)) =
        (Inr (), at_time (at_time (put_file q c d) (Suc n2)) m)" using target by blast
    moreover have "at_time (at_time (put_file q c d) (Suc n2)) m = at_time (put_file q c d) m" by simp
    ultimately show thesis using that by simp
  qed
  have moved: "move_file q p (at_time (put_file q c d) n) = at_time (put_file p c d) n" for n
    using fresh ne by (auto simp: move_file_def put_file_def q_def exists_on_def fun_eq_iff)
  obtain n4 where r: "read_verified demo_inventory_world p (at_time (put_file p c d) (Suc n3)) = (Inr c, at_time (put_file p c d) n4)"
  proof -
    have "disk_files (at_time (put_file p c d) (Suc n3)) p = Some c" "length c \<le> max_document_bytes"
      using assms(1) by (simp_all add: put_file_def refused_contents_def)
    from demo_read [OF this(1) assms(2) this(2)] show thesis using that by auto
  qed
  have again: "recover_op (read_verified demo_inventory_world p) (\<lambda>_. stop InventoryConfig) (at_time (put_file p c d) (Suc n3)) =
      (Inr c, at_time (put_file p c d) n4)"
    using r by (simp add: recover_op_def)
  have "replace_verified demo_inventory_world p c q (at_time d (Suc n1)) = (Inr (), at_time (put_file p c d) (Suc n4))"
    by (simp add: replace_verified_def bind_op_Inr w demo_call t2 moved again)
  then have "write_verified demo_inventory_world p c d = (Inr (), at_time (put_file p c d) (Suc n4))"
    using assms(1,3) by (simp add: write_verified_def t1 bind_op_Inr at_clock_def tmp cleaned_up_def)
  then show ?thesis by blast
qed

lemma demo_parse: "parse_document demo_scan_crates demo_inventory_toml ''hosts'' = Inr [demo_host_record]"
  and demo_printed: "document_toml demo_scan_crates demo_inventory_toml [demo_host_record] = Inr ''hosts''"
  and demo_hosts_fine: "\<not> refused_contents demo_inventory_world ''hosts''" "utf8_valid ''hosts''"
proof -
  show p: "document_toml demo_scan_crates demo_inventory_toml [demo_host_record] = Inr ''hosts''"
    using demo_document_valid by (simp add: document_toml_def validate_hosts_iff demo_inventory_toml_def)
  have clean: "\<not> contains_secret_shaped_text demo_scan_crates ''hosts''"
    using sentence_not_secret [OF demo_words(2)] by simp
  then show "\<not> refused_contents demo_inventory_world ''hosts''"
    by (simp add: refused_contents_def max_document_bytes_def)
  show "utf8_valid ''hosts''" by code_simp
  show "parse_document demo_scan_crates demo_inventory_toml ''hosts'' = Inr [demo_host_record]"
    by (rule document_read_back [OF demo_toml_law demo_base64_laws p clean]) (simp add: demo_host_enrolled)
qed

lemma demo_pin: "known_hosts_contents [demo_host_record] = Inr demo_pin_line"
  and demo_pin_fine: "utf8_valid demo_pin_line" "length demo_pin_line \<le> max_document_bytes"
proof -
  have "validate_host ''atlas'' = Inr ()" by code_simp
  then show "known_hosts_contents [demo_host_record] = Inr demo_pin_line"
    by (simp add: known_hosts_line_def demo_host_record_def demo_endpoint_def demo_key_def demo_pin_line_def)
  show "utf8_valid demo_pin_line" by code_simp
  show "length demo_pin_line \<le> max_document_bytes" by (simp add: demo_pin_line_def max_document_bytes_def)
qed

lemma demo_laws: "store_laws demo_inventory_world"
  using demo_toml_law demo_base64_laws by (simp add: store_laws_def truthful_def)

lemma demo_on_disk:
  "disk_files d (is_inventory s) = Some ''hosts'' \<Longrightarrow> document_on_disk demo_inventory_world s d = Inr [demo_host_record]"
  by (simp add: document_on_disk_def demo_parse demo_hosts_fine del: utf8_valid.simps)

lemma demo_read_inventory:
  assumes "disk_files d (is_inventory s) = Some ''hosts''" "exists_on d (is_root s)"
  shows "\<exists>n. read_inventory demo_inventory_world s d = (Inr [demo_host_record], at_time d n)"
proof -
  obtain n where n: "verify_directory_chain demo_inventory_world (is_root s) (at_time d (Suc (disk_clock d))) = (Inr (), at_time d n)"
    using demo_chain [of "is_root s" "at_time d (Suc (disk_clock d))"] by auto
  obtain m where m: "read_verified demo_inventory_world (is_inventory s) (at_time d n) = (Inr ''hosts'', at_time d m)"
    using demo_read [of "at_time d n" "is_inventory s" "''hosts''"] assms(1) demo_hosts_fine
    by (auto simp: refused_contents_def)
  show ?thesis
    using assms(2) by (auto simp: read_inventory_def bind_op_def stat_path_def demo_fleet_native n m demo_parse)
qed

lemma demo_rebuild:
  assumes "disk_files d (is_known_hosts s) = Some demo_pin_line"
  shows "\<exists>n. rebuild_known_hosts demo_inventory_world s [demo_host_record] d = (Inr (), at_time d n)"
proof -
  obtain m where m: "read_verified demo_inventory_world (is_known_hosts s) d = (Inr demo_pin_line, at_time d m)"
    using demo_read [OF assms demo_pin_fine] by blast
  show ?thesis by (auto simp: rebuild_known_hosts_def bind_op_def lift_def m simp del: known_hosts_contents.simps simp add: demo_pin)
qed

text \<open>The disk once the lock file is there.\<close>

abbreviation demo_locked :: disk where
  "demo_locked \<equiv> put_file (inventory_lock demo_inventory_store) [] demo_inventory_disk"

lemma demo_locked_files:
  "disk_files demo_locked (is_inventory demo_inventory_store) = Some ''hosts''" "disk_files demo_locked (is_known_hosts demo_inventory_store) = Some demo_pin_line"
  "exists_on demo_locked (is_root demo_inventory_store)"
  by (simp_all add: demo_inventory_disk_def demo_inventory_store_def is_inventory_def is_known_hosts_def inventory_lock_def put_file_def exists_on_def)

lemma demo_enter: "\<exists>n. with_lock demo_inventory_world demo_inventory_store m demo_inventory_disk = m (at_time demo_locked n)"
proof -
  have "exists_on demo_inventory_disk (is_root demo_inventory_store)" "exists_on demo_inventory_disk (is_manifests demo_inventory_store)"
    "disk_files demo_inventory_disk (inventory_lock demo_inventory_store) = None"
    by (simp_all add: demo_inventory_disk_def demo_inventory_store_def is_manifests_def inventory_lock_def exists_on_def)
  then show ?thesis using demo_fleet_lock [of demo_inventory_disk demo_inventory_store m] by auto
qed

lemma demo_selected:
  "\<exists>n. select_section demo_inventory_world demo_inventory_store None demo_inventory_disk = (Inr demo_host_record, at_time demo_locked n)"
proof -
  obtain n where enter: "select_section demo_inventory_world demo_inventory_store None demo_inventory_disk =
      bind_op (read_inventory demo_inventory_world demo_inventory_store) (\<lambda>doc.
       bind_op (lift (select_host doc None)) (\<lambda>h.
       bind_op (rebuild_known_hosts demo_inventory_world demo_inventory_store doc) (\<lambda>_. ok_op h))) (at_time demo_locked n)"
    unfolding select_section_def using demo_enter by blast
  obtain m where r: "read_inventory demo_inventory_world demo_inventory_store (at_time demo_locked n) = (Inr [demo_host_record], at_time demo_locked m)"
    using demo_read_inventory [of "at_time demo_locked n" demo_inventory_store] demo_locked_files by auto
  obtain k where "rebuild_known_hosts demo_inventory_world demo_inventory_store [demo_host_record] (at_time demo_locked m) = (Inr (), at_time demo_locked k)"
    using demo_rebuild [of "at_time demo_locked m" demo_inventory_store] demo_locked_files by auto
  then show ?thesis by (auto simp: enter bind_op_def r lift_def ok_op_def select_host_def)
qed

lemma selection_pinned_example:
  "\<exists>d' before line after. select_section demo_inventory_world demo_inventory_store None demo_inventory_disk = (Inr demo_host_record, d') \<and>
     disk_files d' (is_known_hosts demo_inventory_store) = Some (before @ line @ after) \<and>
     known_hosts_line demo_key ''atlas'' 22 = Inr line"
proof -
  obtain d' where run: "select_section demo_inventory_world demo_inventory_store None demo_inventory_disk = (Inr demo_host_record, d')"
    using demo_selected by blast
  have "truthful demo_inventory_world" using demo_laws by (simp add: store_laws_def)
  from selection_pinned [OF this run] show ?thesis
    using run by (auto simp: demo_host_record_def demo_endpoint_def)
qed

text \<open>A trust run that reports success, after a selection.\<close>

lemma demo_trusted:
  "\<exists>d'. trust_section demo_inventory_world demo_inventory_store demo_host_record demo_host_record demo_inventory_disk = (Inr False, d')"
proof -
  have swap: "trust_decision demo_host_record demo_host_record [demo_host_record] = Inr ([demo_host_record], Some [demo_host_record])"
    by (simp add: trust_decision_def replace_exact_def)
  obtain n where enter: "trust_section demo_inventory_world demo_inventory_store demo_host_record demo_host_record demo_inventory_disk =
      bind_op (update_with (read_inventory demo_inventory_world demo_inventory_store) (trust_decision demo_host_record demo_host_record)
        (replace_inventory demo_inventory_world demo_inventory_store)) (\<lambda>doc'.
          attempted (rebuild_known_hosts demo_inventory_world demo_inventory_store doc')) (at_time demo_locked n)"
    unfolding trust_section_def using demo_enter by blast
  obtain m where r: "read_inventory demo_inventory_world demo_inventory_store (at_time demo_locked n) = (Inr [demo_host_record], at_time demo_locked m)"
    using demo_read_inventory [of "at_time demo_locked n" demo_inventory_store] demo_locked_files by auto
  have "\<not> exists_on (at_time demo_locked m) (document_staging demo_inventory_world (butlast (is_inventory demo_inventory_store)) 0)"
    by (simp add: exists_on_def put_file_def demo_inventory_disk_def demo_inventory_store_def is_inventory_def document_staging_def
        inventory_lock_def)
  then obtain k where "write_verified demo_inventory_world (is_inventory demo_inventory_store) ''hosts'' (at_time demo_locked m) =
      (Inr (), at_time (put_file (is_inventory demo_inventory_store) ''hosts'' (at_time demo_locked m)) k)"
    using demo_fleet_write [OF demo_hosts_fine, of "is_inventory demo_inventory_store" "at_time demo_locked m"]
      store_files(1) [of demo_inventory_store]
    by (auto simp: is_inventory_def)
  then have w: "replace_inventory demo_inventory_world demo_inventory_store [demo_host_record] (at_time demo_locked m) =
      (Inr (), at_time (put_file (is_inventory demo_inventory_store) ''hosts'' demo_locked) k)"
    by (simp add: replace_inventory_def bind_op_def lift_def demo_printed put_file_def)
  define later where "later = at_time (put_file (is_inventory demo_inventory_store) ''hosts'' demo_locked) k"
  have "disk_files later (is_known_hosts demo_inventory_store) = Some demo_pin_line"
    using demo_locked_files(2) by (simp add: later_def put_file_def)
  then obtain j where "rebuild_known_hosts demo_inventory_world demo_inventory_store [demo_host_record] later = (Inr (), at_time later j)"
    using demo_rebuild by blast
  then show ?thesis
    by (simp add: enter update_with_def bind_op_Inr r lift_def swap w ok_op_def attempted_def later_def [symmetric])
qed


end
