(* ===== verification/HostCommands.thy ===== *)
theory HostCommands
  imports FleetHistory RpcClient ControllerIdentity StoreIdentity Resources
begin

text \<open>
  The controller's commands of \<open>src/main.rs\<close>: \<open>controller init\<close>, the \<open>host\<close> commands and
  \<open>exec\<close>, composed from the inventory, the manifest store, the controller identity, the
  transport and the RPC client, with their errors, their output and their rendering. One disk
  is threaded through all of them; its clock numbers the answers of the outside world:
  \<open>ssh-keyscan\<close>, the spawned \<open>ssh\<close>, the time and the user's answer.
\<close>

section \<open>Errors and warnings\<close>

record phase1_error =
  p1_code :: error_code
  p1_message :: string
  p1_recovery :: "path option"

definition new_phase1_error :: "error_code \<Rightarrow> string \<Rightarrow> phase1_error" where
  "new_phase1_error code message = \<lparr>p1_code = code, p1_message = message, p1_recovery = None\<rparr>"

definition with_public_key_recovery :: "path \<Rightarrow> phase1_error \<Rightarrow> phase1_error" where
  "with_public_key_recovery p e = e\<lparr>p1_recovery := Some p\<rparr>"

record phase1_warning =
  p1w_code :: string
  p1w_message :: string

definition known_hosts_warning :: phase1_warning where
  "known_hosts_warning =
     \<lparr>p1w_code = ''inventory.known_hosts_rebuild_failed'',
      p1w_message = ''the host was committed but the derived known-hosts file needs repair''\<rparr>"

text \<open>A command fails with an error, or panics in an \<open>expect\<close>.\<close>

datatype command_error = Failed phase1_error | Command_panic

type_synonym 'a command = "(command_error, 'a) disk_op"

type_synonym command_success = "json \<times> string \<times> phase1_warning list"

definition machine_manifest_error :: phase1_error where
  "machine_manifest_error =
     new_phase1_error MachineManifestInvalid ''the local machine manifest is invalid; run styrn setup --yes''"

definition inventory_phase1_error :: "inventory_error \<Rightarrow> phase1_error" where
  "inventory_phase1_error e =
     new_phase1_error (inventory_error_code e)
       (if inventory_error_code e = UsageInvalidArgument then ''the requested host is not uniquely enrolled''
        else ''the local host inventory is invalid or insecure'')"

definition invalid_ssh_argument :: phase1_error where
  "invalid_ssh_argument =
     new_phase1_error UsageInvalidArgument ''the SSH host, user, or fingerprint argument is invalid''"

definition identity_phase1_error :: "identity_error \<Rightarrow> phase1_error" where
  "identity_phase1_error e =
     (case e of
        IdentityCapabilityUnavailable \<Rightarrow> new_phase1_error CapabilityUnsatisfied ''OpenSSH ssh-keygen is unavailable''
      | IdentityInvalid \<Rightarrow> machine_manifest_error
      | _ \<Rightarrow> new_phase1_error UsageConfigInvalid ''the controller SSH identity is invalid or insecure'')"

definition transport_error_code :: "transport_error \<Rightarrow> error_code" where
  "transport_error_code e =
     (case e of
        CapabilityUnavailable \<Rightarrow> CapabilityUnsatisfied
      | Unreachable \<Rightarrow> TransportUnreachable
      | Authentication \<Rightarrow> TransportAuthFailed)"

definition transport_phase1_error :: "transport_error \<Rightarrow> phase1_error" where
  "transport_phase1_error e =
     new_phase1_error (transport_error_code e)
       (case transport_error_code e of
          CapabilityUnsatisfied \<Rightarrow> ''a required OpenSSH tool is unavailable''
        | TransportAuthFailed \<Rightarrow> ''the worker SSH identity or authentication could not be verified''
        | _ \<Rightarrow> ''the worker host is unreachable'')"

definition rpc_phase1_error :: "rpc_error \<Rightarrow> phase1_error" where
  "rpc_phase1_error e =
     new_phase1_error (err_code e)
       (case err_code e of
          TransportAuthFailed \<Rightarrow> ''SSH authentication failed before RPC hello''
        | TransportSessionLost \<Rightarrow> ''the worker RPC session was lost''
        | ProtocolIncompatible \<Rightarrow> ''the controller and worker RPC versions are incompatible''
        | ProtocolMalformed \<Rightarrow> ''the worker RPC response was malformed''
        | RemoteExecutionFailed \<Rightarrow> ''the worker could not execute the RPC method''
        | MachineManifestInvalid \<Rightarrow> ''the worker machine manifest is invalid''
        | UsageInvalidArgument \<Rightarrow> ''the RPC request is invalid''
        | _ \<Rightarrow> ''the worker RPC operation failed'')"

section \<open>The world of a command\<close>

datatype tool_run = Tool_missing | Tool_broken | Tool_done bool string

record command_world =
  xw_inventory :: inventory_world
  xw_manifest :: world
  xw_identity :: identity_world
  xw_env :: "string \<Rightarrow> string option"
  xw_prepare :: "path \<Rightarrow> (io_error, unit) disk_op"
  xw_keyscan :: "nat \<Rightarrow> string list \<Rightarrow> tool_run"
  xw_ssh :: "nat \<Rightarrow> string list \<Rightarrow> io_error + bool option \<times> sink \<times> source"
  xw_now :: "nat \<Rightarrow> nat"
  xw_seconds :: "nat \<Rightarrow> int"
  xw_elapsed :: "nat \<Rightarrow> nat \<Rightarrow> int"
  xw_answer :: "nat \<Rightarrow> string option"

abbreviation xw_crates :: "command_world \<Rightarrow> crates" where
  "xw_crates X \<equiv> nw_crates (xw_inventory X)"

abbreviation xw_toml :: "command_world \<Rightarrow> toml_api" where
  "xw_toml X \<equiv> nw_manifests (xw_inventory X)"

definition failing :: "('e \<Rightarrow> phase1_error) \<Rightarrow> ('e, 'a) disk_op \<Rightarrow> 'a command" where
  "failing wrap m = (\<lambda>d. case m d of (Inl e, d) \<Rightarrow> (Inl (Failed (wrap e)), d) | (Inr x, d) \<Rightarrow> (Inr x, d))"

definition fail_command :: "phase1_error \<Rightarrow> 'a command" where
  "fail_command e = stop (Failed e)"

definition outcome_of :: "('e, 'a) disk_op \<Rightarrow> ('e + 'a) command" where
  "outcome_of m = (\<lambda>d. case m d of (r, d) \<Rightarrow> (Inr r, d))"

definition the_time :: "command_world \<Rightarrow> nat command" where
  "the_time X = at_clock (\<lambda>t. Inr (xw_now X t))"

text \<open>A call on the RPC client; the client of a call that failed is dropped.\<close>

definition rpc_call :: "'a call \<Rightarrow> rpc_client \<Rightarrow> ('a \<times> rpc_client) command" where
  "rpc_call f c =
     (case f c of (Inl e, _) \<Rightarrow> fail_command (rpc_phase1_error e) | (Inr x, c) \<Rightarrow> ok_op (x, c))"

definition rpc_finish :: "rpc_client \<Rightarrow> unit command" where
  "rpc_finish c = failing rpc_phase1_error (lift (fst (client_finish c)))"

section \<open>The tools\<close>

text \<open>\<open>run_bounded_tool\<close> on a run that its time limit did not cut.\<close>

definition run_bounded_tool :: "tool_run \<Rightarrow> transport_error + bool \<times> string" where
  "run_bounded_tool r =
     (case r of
        Tool_missing \<Rightarrow> Inl CapabilityUnavailable
      | Tool_broken \<Rightarrow> Inl Unreachable
      | Tool_done success out \<Rightarrow>
          (case read_bounded max_keyscan_bytes out of
             (bytes, overflowed) \<Rightarrow> if overflowed then Inl Authentication else Inr (success, bytes)))"

definition scan_with ::
  "command_world \<Rightarrow> string \<Rightarrow> nat \<Rightarrow> (string \<Rightarrow> transport_error + 'a) \<Rightarrow> (transport_error, 'a) disk_op" where
  "scan_with X host port judge =
     bind_op (lift (ssh_keyscan_arguments host port)) (\<lambda>arguments.
     bind_op (at_clock (\<lambda>t. run_bounded_tool (xw_keyscan X t arguments))) (\<lambda>(success, out).
       if \<not> success then stop Unreachable else lift (judge out)))"

definition scan_host_key ::
  "command_world \<Rightarrow> string \<Rightarrow> nat \<Rightarrow> string option \<Rightarrow> (transport_error, pinned_host_key) disk_op" where
  "scan_host_key X host port fingerprint =
     scan_with X host port (\<lambda>out. select_scan (xw_crates X) out fingerprint)"

definition verify_host_key :: "command_world \<Rightarrow> rpc_target \<Rightarrow> (transport_error, unit) disk_op" where
  "verify_host_key X target =
     scan_with X (target_host target) (target_port target) (verify_scanned_host_key (xw_crates X) target)"

definition ssh_connect :: "command_world \<Rightarrow> path \<Rightarrow> rpc_target \<Rightarrow> (transport_error, rpc_process) disk_op" where
  "ssh_connect X known_hosts target =
     bind_op (verify_host_key X target) (\<lambda>_.
     bind_op (lift (ssh_arguments target (render_path known_hosts))) (\<lambda>arguments.
     at_clock (\<lambda>t.
       case xw_ssh X t arguments of
         Inl e \<Rightarrow> Inl (if io_error_kind e = NotFound then CapabilityUnavailable else Authentication)
       | Inr (child, input, out) \<Rightarrow> Inr (new_ssh_process child input out))))"

section \<open>The configured stores and the controller identity\<close>

definition canonical_manifest_path ::
  "operating_system \<Rightarrow> (string \<Rightarrow> string option) \<Rightarrow> installation_scope \<Rightarrow> manifest_error + string" where
  "canonical_manifest_path os env scope =
     (if scope = SystemScope
      then Inr (case os of
                  Linux \<Rightarrow> ''/etc/styrn/machine.toml''
                | Macos \<Rightarrow> ''/Library/Application Support/Styrn/machine.toml''
                | Windows \<Rightarrow> ''C:'' @ [CHR 0x5C] @ ''ProgramData'' @ [CHR 0x5C] @ ''Styrn'' @ [CHR 0x5C] @ ''machine.toml'')
      else and_then (ok_or
             (case os of
                Linux \<Rightarrow>
                  (case env ''XDG_CONFIG_HOME'' of
                     Some base \<Rightarrow> Some base
                   | None \<Rightarrow> map_option (\<lambda>home. join_path home ''.config'') (env ''HOME''))
              | Macos \<Rightarrow> map_option (\<lambda>home. join_path home ''Library/Application Support'') (env ''HOME'')
              | Windows \<Rightarrow> env ''APPDATA'')
             UserConfigDirectoryUnavailable) (\<lambda>base.
             if \<not> is_absolute base then Inl UserConfigDirectoryUnavailable
             else Inr (join_path (join_path base (if os = Linux then ''styrn'' else ''Styrn'')) ''machine.toml'')))"

definition configured_manifest_store_for ::
  "world \<Rightarrow> (string \<Rightarrow> string option) \<Rightarrow> nat \<Rightarrow> installation_scope \<Rightarrow> worker_principal \<Rightarrow> manifest_error + manifest_store"
where
  "configured_manifest_store_for W env t scope pr =
     and_then (canonical_manifest_path (host_os (w_host W)) env scope) (\<lambda>p.
       if scope = UserScope then new_user W t p pr else new_system W t p pr)"

definition configured_manifest_store ::
  "world \<Rightarrow> (string \<Rightarrow> string option) \<Rightarrow> nat \<Rightarrow> manifest_error + manifest_store" where
  "configured_manifest_store W env t =
     and_then (map_err CallerIdentityError (current_principal (w_host W) t)) (\<lambda>pr.
       case env ''STYRN_CONFIG_DIR'' of
         Some dir \<Rightarrow> new_user_override W t (join_path dir ''machine.toml'') pr
       | None \<Rightarrow> configured_manifest_store_for W env t UserScope pr)"

definition configured_inventory :: "command_world \<Rightarrow> (inventory_error, inventory_store) disk_op" where
  "configured_inventory X =
     bind_op (lift (configured_root (host_os (w_host (xw_manifest X))) (xw_env X))) (\<lambda>base.
       at_clock (\<lambda>t. store_at_root base (current_principal (w_host (xw_manifest X)) t)))"

definition home_variable :: "operating_system \<Rightarrow> string" where
  "home_variable os = (if os = Windows then ''USERPROFILE'' else ''HOME'')"

definition load_or_create_configured ::
  "command_world \<Rightarrow> machine_manifest \<Rightarrow> (identity_error, controller_identity option) disk_op" where
  "load_or_create_configured X m =
     bind_op (lift (ok_or (filter_opt is_absolute (xw_env X (home_variable (host_os (w_host (xw_manifest X))))))
       IdentityInvalid)) (\<lambda>home.
       let dir = normal_components home @ [''.ssh'']
       in bind_op (recover_op (xw_prepare X dir) (\<lambda>_. stop IdentityConflict)) (\<lambda>_.
            load_or_create (xw_identity X) m dir))"

definition or_panic :: "'a option \<Rightarrow> 'a command" where
  "or_panic x = (case x of None \<Rightarrow> stop Command_panic | Some y \<Rightarrow> ok_op y)"

definition configured_controller_identity :: "command_world \<Rightarrow> controller_identity command" where
  "configured_controller_identity X =
     bind_op (failing (\<lambda>_. machine_manifest_error)
       (at_clock (\<lambda>t. configured_manifest_store (xw_manifest X) (xw_env X) t))) (\<lambda>store.
     bind_op (failing (\<lambda>_. machine_manifest_error) (read_manifest (xw_manifest X) store)) (\<lambda>loaded.
     bind_op (failing identity_phase1_error (load_or_create_configured X (ro_manifest loaded))) or_panic))"

section \<open>The selected host and its session\<close>

definition select_host_for_network :: "command_world \<Rightarrow> inventory_store \<Rightarrow> string option \<Rightarrow> inventory_host command" where
  "select_host_for_network X s name = failing inventory_phase1_error (select_section (xw_inventory X) s name)"

text \<open>A stored path and the path of the identity file are compared by their components.\<close>

definition same_path :: "path \<Rightarrow> string \<Rightarrow> bool" where
  "same_path p t \<longleftrightarrow> is_absolute t \<and> normal_components t = p"

definition different_identity :: phase1_error where
  "different_identity =
     new_phase1_error UsageConfigInvalid ''the enrolled host refers to a different controller identity''"

definition open_session :: "command_world \<Rightarrow> path \<Rightarrow> rpc_target \<Rightarrow> rpc_client command" where
  "open_session X known_hosts target =
     bind_op (failing transport_phase1_error (ssh_connect X known_hosts target)) (\<lambda>process.
       failing rpc_phase1_error (lift (map_err fst (connect (xw_crates X) process))))"

definition connect_host ::
  "command_world \<Rightarrow> inventory_store \<Rightarrow> inventory_host \<Rightarrow> (controller_identity \<times> rpc_client) command" where
  "connect_host X s h =
     bind_op (configured_controller_identity X) (\<lambda>identity.
       if \<not> same_path (ci_private_path identity) (ssh_identity (ih_transport h)) then fail_command different_identity
       else bind_op (failing transport_phase1_error (lift (ssh_rpc_target (ih_transport h)))) (\<lambda>target.
            bind_op (open_session X (is_known_hosts s) target) (\<lambda>client. ok_op (identity, client))))"

definition expected_peer_of :: "command_world \<Rightarrow> inventory_host \<Rightarrow> expected_peer command" where
  "expected_peer_of X h =
     failing rpc_phase1_error
       (lift (new_expected_peer (xw_crates X) (ih_machine_id h) (ih_name h) (ssh_user (ih_transport h))))"

definition manifest_matches_host :: "machine_manifest \<Rightarrow> inventory_host \<Rightarrow> bool" where
  "manifest_matches_host m h \<longleftrightarrow>
     machine_id m = ih_machine_id h \<and> machine_name m = ih_name h \<and>
     (case worker_identity m of None \<Rightarrow> False | Some i \<Rightarrow> wi_name i = ssh_user (ih_transport h)) \<and>
     (case transport m of
        None \<Rightarrow> False
      | Some t \<Rightarrow>
          tr_host t = ssh_host (ih_transport h) \<and>
          (case tr_port t of None \<Rightarrow> 22 | Some p \<Rightarrow> p) = ssh_port (ih_transport h) \<and>
          tr_user t = Some (ssh_user (ih_transport h)))"

definition manifest_mismatch :: phase1_error where
  "manifest_mismatch =
     new_phase1_error ProtocolMalformed ''the worker manifest identity and endpoint do not match the selected host''"

definition validate_manifest_endpoint :: "machine_manifest \<Rightarrow> inventory_host \<Rightarrow> unit command" where
  "validate_manifest_endpoint m h = (if manifest_matches_host m h then ok_op () else fail_command manifest_mismatch)"

definition the_manifest :: "command_world \<Rightarrow> expected_peer \<Rightarrow> rpc_client \<Rightarrow> (machine_manifest \<times> rpc_client) command" where
  "the_manifest X expected = rpc_call (client_manifest (xw_crates X) (xw_toml X) expected)"

section \<open>Commands that read the inventory\<close>

definition host_json :: "crates \<Rightarrow> inventory_host \<Rightarrow> json" where
  "host_json C h =
     (let t = ih_transport h
      in JObject (object_of
           [(''name'', JString (ih_name h)), (''machine_id'', JString (uuid_text C (ih_machine_id h))),
            (''manifest_cache'', JString (ih_manifest_cache h)),
            (''transport'', JObject (object_of
               [(''kind'', JString ''ssh''), (''host'', JString (ssh_host t)), (''user'', JString (ssh_user t)),
                (''port'', nat_json (ssh_port t)), (''identity'', JString (ssh_identity t)),
                (''host_key_algorithm'', JString (key_algorithm (ssh_host_key t))),
                (''host_key_fingerprint'', JString (key_fingerprint (ssh_host_key t)))]))]))"

definition newline :: string where "newline = [CHR 0x0A]"

definition read_configured :: "command_world \<Rightarrow> (inventory_store \<times> inventory_document) command" where
  "read_configured X =
     bind_op (failing inventory_phase1_error (configured_inventory X)) (\<lambda>s.
     bind_op (failing inventory_phase1_error (read_inventory (xw_inventory X) s)) (\<lambda>doc. ok_op (s, doc)))"

definition host_list :: "command_world \<Rightarrow> command_success command" where
  "host_list X =
     bind_op (read_configured X) (\<lambda>(_, doc).
       ok_op (JObject (object_of [(''hosts'', JArray (map (host_json (xw_crates X)) doc))]),
              if doc = [] then ''No enrolled hosts.'' @ newline else concat (map (\<lambda>h. ih_name h @ newline) doc), []))"

definition host_summary :: "crates \<Rightarrow> inventory_host \<Rightarrow> string" where
  "host_summary C h =
     (let t = ih_transport h
      in ih_name h @ newline @
         ''  machine_id  '' @ uuid_text C (ih_machine_id h) @ newline @
         ''  endpoint    '' @ ssh_host t @ '':'' @ show_nat (ssh_port t) @ newline @
         ''  user        '' @ ssh_user t @ newline @
         ''  fingerprint '' @ key_fingerprint (ssh_host_key t) @ newline)"

definition host_show :: "command_world \<Rightarrow> string \<Rightarrow> command_success command" where
  "host_show X name =
     bind_op (read_configured X) (\<lambda>(_, doc).
     bind_op (failing inventory_phase1_error (lift (select_host doc (Some name)))) (\<lambda>h.
       ok_op (host_json (xw_crates X) h, host_summary (xw_crates X) h, [])))"

section \<open>Commands that talk to a worker\<close>

definition status_summary :: "inventory_host \<Rightarrow> machine_status \<Rightarrow> string" where
  "status_summary h st =
     ih_name h @ '': '' @ show_nat (cpu_logical (st_cpu st)) @ '' CPUs, '' @
     show_nat (mem_available_bytes (st_memory st)) @ '' bytes available memory, '' @
     show_nat (disk_free_bytes (st_disk st)) @ '' bytes free disk'' @ newline"

definition host_status :: "command_world \<Rightarrow> string option \<Rightarrow> command_success command" where
  "host_status X name =
     bind_op (failing inventory_phase1_error (configured_inventory X)) (\<lambda>s.
     bind_op (select_host_for_network X s name) (\<lambda>h.
     bind_op (connect_host X s h) (\<lambda>(_, client).
     bind_op (expected_peer_of X h) (\<lambda>expected.
     bind_op (the_manifest X expected client) (\<lambda>(m, client).
     bind_op (validate_manifest_endpoint m h) (\<lambda>_.
     bind_op (rpc_call (client_status (xw_crates X)) client) (\<lambda>(st, client).
     bind_op (rpc_finish client) (\<lambda>_.
       ok_op (JObject (object_of [(''host'', JString (ih_name h)), (''status'', status_json (xw_crates X) st)]),
              status_summary h st, [])))))))))"

definition host_refresh :: "command_world \<Rightarrow> string option \<Rightarrow> command_success command" where
  "host_refresh X name =
     bind_op (failing inventory_phase1_error (configured_inventory X)) (\<lambda>s.
     bind_op (select_host_for_network X s name) (\<lambda>h.
     bind_op (connect_host X s h) (\<lambda>(_, client).
     bind_op (expected_peer_of X h) (\<lambda>expected.
     let version = hello_styrn_version (cl_hello client) in
     bind_op (the_manifest X expected client) (\<lambda>(m, client).
     bind_op (validate_manifest_endpoint m h) (\<lambda>_.
     bind_op (rpc_finish client) (\<lambda>_.
     bind_op (the_time X) (\<lambda>time.
     bind_op (failing inventory_phase1_error (lift
       (new_manifest_cache (xw_crates X) (xw_toml X) time version m))) (\<lambda>cache.
     bind_op (failing inventory_phase1_error (write_cache (xw_inventory X) s cache)) (\<lambda>_.
       ok_op (JObject (object_of
                [(''host'', JString (ih_name h)), (''machine_id'', JString (uuid_text (xw_crates X) (ih_machine_id h))),
                 (''refreshed'', JBool True)]),
              ''Refreshed '' @ ih_name h @ newline, [])))))))))))"

text \<open>The remote part of \<open>exec\<close>; the argument vector was checked before.\<close>

definition remote_exec :: "command_world \<Rightarrow> string \<Rightarrow> string list \<Rightarrow> exec_result command" where
  "remote_exec X host argv =
     bind_op (failing inventory_phase1_error (configured_inventory X)) (\<lambda>s.
     bind_op (select_host_for_network X s (Some host)) (\<lambda>h.
     bind_op (connect_host X s h) (\<lambda>(_, client).
     bind_op (expected_peer_of X h) (\<lambda>expected.
     bind_op (the_manifest X expected client) (\<lambda>(m, client).
     bind_op (validate_manifest_endpoint m h) (\<lambda>_.
     bind_op (rpc_call (client_exec (xw_crates X) argv) client) (\<lambda>(result, client).
     bind_op (rpc_finish client) (\<lambda>_. ok_op result))))))))"

definition shell_unavailable :: phase1_error where
  "shell_unavailable =
     new_phase1_error UsageInvalidArgument ''exec --shell is not available; pass an argv vector after --''"

definition run_exec_command :: "command_world \<Rightarrow> bool \<Rightarrow> string \<Rightarrow> string list \<Rightarrow> exec_result command" where
  "run_exec_command X shell host argv =
     (if shell then fail_command shell_unavailable
      else bind_op (failing rpc_phase1_error (lift (validate_exec_argv (xw_crates X) argv))) (\<lambda>_.
           remote_exec X host argv))"

text \<open>What \<open>exec --json\<close> prints and how it exits; \<open>None\<close> is the panic of the \<open>expect\<close>.\<close>

definition exec_json_outcome :: "crates \<Rightarrow> nat \<Rightarrow> exec_result \<Rightarrow> exec_outcome option" where
  "exec_json_outcome C time r =
     (case exec_outcome_sanitized C time (ex_exit_code r) (ex_stdout r) (ex_stderr r) (ex_duration_ms r)
             (ex_stdout_lossy r) (ex_stderr_lossy r) (ex_stdout_redacted r) (ex_stderr_redacted r) of
        Inl _ \<Rightarrow> None
      | Inr outcome \<Rightarrow> Some outcome)"

section \<open>The doctor's findings about the controller\<close>

definition configured_disk_floor :: "machine_manifest \<Rightarrow> nat option" where
  "configured_disk_floor m =
     Option.bind (resources m) (\<lambda>res. Option.bind (re_policy res) (\<lambda>policy.
       case po_reserved_disk_bytes policy of
         Some bytes \<Rightarrow> Some bytes
       | None \<Rightarrow>
           Option.bind (po_reserved_disk_percent policy) (\<lambda>percent.
           Option.bind (Option.bind (re_detected res) de_disk_bytes) (\<lambda>size.
             if u64_max < size * percent then None else Some (size * percent div 100)))))"

definition doctor_remediation :: "string \<Rightarrow> string list option \<Rightarrow> json" where
  "doctor_remediation summary args =
     JObject (object_of
       [(''summary'', JString summary),
        (''styrn_args'', case args of None \<Rightarrow> JNull | Some xs \<Rightarrow> JArray (map JString xs))])"

definition finding_json :: "string \<Rightarrow> string \<Rightarrow> string \<Rightarrow> string \<Rightarrow> json \<Rightarrow> json" where
  "finding_json i state severity message remediation =
     JObject (object_of
       [(''id'', JString i), (''state'', JString state), (''severity'', JString severity),
        (''message'', JString message), (''remediation'', remediation)])"

definition clock_healthy :: "command_world \<Rightarrow> machine_status \<Rightarrow> nat \<Rightarrow> bool" where
  "clock_healthy X st now =
     (case rfc3339_parse (xw_crates X) (st_time st) of
        None \<Rightarrow> False
      | Some worker_time \<Rightarrow> \<bar>xw_seconds X now - xw_seconds X worker_time\<bar> \<le> 30)"

definition seven_days :: int where
  "seven_days = 7 * 86400 * 10 ^ 9"

definition ok_part :: "'e + 'a \<Rightarrow> 'a option" where
  "ok_part r = (case r of Inl _ \<Rightarrow> None | Inr x \<Rightarrow> Some x)"

definition cache_bound_to_live_worker ::
  "command_world \<Rightarrow> inventory_host \<Rightarrow> machine_manifest \<Rightarrow> manifest_cache \<Rightarrow> bool" where
  "cache_bound_to_live_worker X h m cache =
     (case cached_manifest (xw_crates X) (xw_toml X) cache of
        Inl _ \<Rightarrow> False
      | Inr cached \<Rightarrow>
          manifest_matches_host cached h \<and>
          ok_part (to_toml (xw_crates X) (xw_toml X) cached) = ok_part (to_toml (xw_crates X) (xw_toml X) m))"

definition cache_healthy ::
  "command_world \<Rightarrow> inventory_host \<Rightarrow> machine_manifest \<Rightarrow> string \<Rightarrow> nat \<Rightarrow> inventory_error + manifest_cache \<Rightarrow> bool" where
  "cache_healthy X h m version now cache =
     (case cache of
        Inl _ \<Rightarrow> False
      | Inr c \<Rightarrow>
          cache_bound_to_live_worker X h m c \<and> \<not> seven_days < xw_elapsed X now (mc_cached_at c) \<and>
          mc_styrn_version c = version)"

definition disk_state :: "machine_manifest \<Rightarrow> machine_status \<Rightarrow> string" where
  "disk_state m st =
     (case configured_disk_floor m of
        Some level \<Rightarrow> if level \<le> disk_free_bytes (st_disk st) then ''pass'' else ''fail''
      | None \<Rightarrow> ''unknown'')"

definition pending_of :: "machine_manifest \<Rightarrow> pending_action list" where
  "pending_of m = (case pending_actions m of None \<Rightarrow> [] | Some xs \<Rightarrow> xs)"

definition controller_findings ::
  "inventory_host \<Rightarrow> bool \<Rightarrow> bool \<Rightarrow> string \<Rightarrow> string \<Rightarrow> json" where
  "controller_findings h clock cache disk pending =
     JArray
       [finding_json ''controller.transport.ssh'' ''pass'' ''info'' ''SSH and RPC completed'' JNull,
        finding_json ''controller.protocol.compatible'' ''pass'' ''info'' ''RPC protocol is compatible'' JNull,
        finding_json ''controller.manifest.binding'' ''pass'' ''info'' ''worker identity and manifest are bound'' JNull,
        finding_json ''controller.clock.skew'' (if clock then ''pass'' else ''fail'') (if clock then ''info'' else ''warning'')
          ''worker clock skew was checked''
          (if clock then JNull
           else doctor_remediation ''synchronize the controller and worker system clocks, then rerun styrn host doctor'' None),
        finding_json ''controller.cache.state'' (if cache then ''pass'' else ''fail'') (if cache then ''info'' else ''warning'')
          ''manifest cache binding, age, and worker version were checked''
          (if cache then JNull
           else doctor_remediation ''refresh the selected worker manifest cache'' (Some [''host'', ''refresh'', ih_name h])),
        finding_json ''worker.disk.floor'' disk (if disk = ''fail'' then ''error'' else ''info'')
          ''live free disk space was checked against the configured hard floor''
          (if disk = ''pass'' then JNull
           else doctor_remediation
             (''free disk space or correct the worker'' @ [CHR 0x27] @
              ''s configured disk reserve, then rerun styrn host doctor'') None),
        finding_json ''worker.pending_actions'' pending (if pending = ''fail'' then ''warning'' else ''info'')
          (if pending = ''fail'' then ''the worker manifest has unresolved pending actions''
           else ''the worker manifest has no unresolved pending actions'')
          (if pending = ''pass'' then JNull
           else doctor_remediation
             ''complete each pending action reported by the worker manifest, then rerun styrn host doctor'' None),
        finding_json ''controller.coverage.deferred'' ''unknown'' ''info''
          ''remaining fleet and platform-specific checks are deferred''
          (doctor_remediation ''run the documented native platform acceptance checks for the deferred doctor coverage'' None)]"

definition doctor_data ::
  "crates \<Rightarrow> inventory_host \<Rightarrow> json \<Rightarrow> machine_manifest \<Rightarrow> worker_doctor_report \<Rightarrow> machine_status \<Rightarrow> json" where
  "doctor_data C h findings m report st =
     JObject (object_of
       [(''host'', JString (ih_name h)), (''coverage'', JString ''phase1_minimum''), (''complete'', JBool False),
        (''controller_findings'', findings), (''pending_actions'', JArray (map pending_action_json (pending_of m))),
        (''worker'', report_json report), (''status'', status_json C st)])"

definition host_doctor :: "command_world \<Rightarrow> string option \<Rightarrow> command_success command" where
  "host_doctor X name =
     bind_op (failing inventory_phase1_error (configured_inventory X)) (\<lambda>s.
     bind_op (select_host_for_network X s name) (\<lambda>h.
     bind_op (outcome_of (read_cache (xw_inventory X) s (ih_machine_id h))) (\<lambda>cache.
     bind_op (connect_host X s h) (\<lambda>(identity, client).
     bind_op (expected_peer_of X h) (\<lambda>expected.
     let version = hello_styrn_version (cl_hello client) in
     bind_op (the_manifest X expected client) (\<lambda>(m, client).
     bind_op (validate_manifest_endpoint m h) (\<lambda>_.
     bind_op (rpc_call (client_status (xw_crates X)) client) (\<lambda>(st, client).
     bind_op (rpc_call (client_doctor (xw_crates X) (ci_public_line identity)) client) (\<lambda>(report, client).
     bind_op (rpc_finish client) (\<lambda>_.
     bind_op (the_time X) (\<lambda>skew_time.
     bind_op (the_time X) (\<lambda>age_time.
       let clock = clock_healthy X st skew_time;
           cache_ok = cache_healthy X h m version age_time cache;
           pending = (if pending_of m = [] then ''pass'' else ''fail'')
       in ok_op
            (doctor_data (xw_crates X) h (controller_findings h clock cache_ok (disk_state m st) pending) m report st,
             ''Doctor completed for '' @ ih_name h @ '' (phase1 minimum; incomplete)'' @ newline, [])))))))))))))"

section \<open>Enrolling\<close>

definition non_interactive :: phase1_error where
  "non_interactive = new_phase1_error UsageInvalidArgument ''non-interactive enrollment requires --fingerprint''"

definition ambiguous_endpoint :: phase1_error where
  "ambiguous_endpoint =
     new_phase1_error UsageConfigInvalid ''the enrollment endpoint is ambiguous in local inventory''"

definition key_not_confirmed :: phase1_error where
  "key_not_confirmed = new_phase1_error TransportAuthFailed ''the worker host key was not confirmed''"

definition binding_conflict :: phase1_error where
  "binding_conflict =
     new_phase1_error UsageConfigInvalid
       ''the enrolled host endpoint or trust binding conflicts with local inventory''"

definition other_name :: phase1_error where
  "other_name =
     new_phase1_error UsageConfigInvalid ''the worker machine identity is already enrolled under another name''"

text \<open>\<open>confirm_host_key\<close>: the line the user answers, \<open>None\<close> when reading or prompting fails.\<close>

definition confirm_host_key :: "command_world \<Rightarrow> bool command" where
  "confirm_host_key X =
     at_clock (\<lambda>t. Inr (case xw_answer X t of None \<Rightarrow> False | Some line \<Rightarrow> trim line \<in> {''y'', ''yes''}))"

text \<open>The record that the name or the endpoint already has; \<open>Inl\<close> when that is ambiguous.\<close>

definition previous_record :: "inventory_document \<Rightarrow> string \<Rightarrow> string \<Rightarrow> phase1_error + inventory_host option" where
  "previous_record doc host user =
     (let named = find_host doc host;
          matches = filter (\<lambda>h. ssh_host (ih_transport h) = host \<and> ssh_user (ih_transport h) = user) doc;
          endpoint = (case matches of [] \<Rightarrow> None | h # _ \<Rightarrow> Some h);
          differ = (case (named, endpoint) of (Some a, Some b) \<Rightarrow> a \<noteq> b | _ \<Rightarrow> False)
      in if 1 < length matches \<or> differ then Inl ambiguous_endpoint
         else Inr (case named of None \<Rightarrow> endpoint | Some h \<Rightarrow> Some h))"

definition confirmed_pin :: "command_world \<Rightarrow> string \<Rightarrow> string option \<Rightarrow> pinned_host_key command" where
  "confirmed_pin X host fingerprint =
     bind_op (failing transport_phase1_error (scan_host_key X host 22 fingerprint)) (\<lambda>pin.
       if fingerprint \<noteq> None then ok_op pin
       else bind_op (confirm_host_key X) (\<lambda>yes. if yes then ok_op pin else fail_command key_not_confirmed))"

text \<open>
  The first session with the worker, over a candidate \<open>known_hosts\<close> file that is removed at the
  end, whatever comes of the session.
\<close>

record enrolled_worker =
  ew_record :: inventory_host
  ew_manifest :: machine_manifest
  ew_version :: string
  ew_status :: machine_status
  ew_doctor :: worker_doctor_report

definition first_session ::
  "command_world \<Rightarrow> controller_identity \<Rightarrow> inventory_host option \<Rightarrow> string \<Rightarrow> stored_ssh \<Rightarrow> path \<Rightarrow> enrolled_worker command"
where
  "first_session X identity previous user stored candidate =
     bind_op (failing transport_phase1_error (lift (ssh_rpc_target stored))) (\<lambda>target.
     bind_op (open_session X candidate target) (\<lambda>client.
     let hello = cl_hello client;
         machine = (case previous of None \<Rightarrow> hello_machine_id hello | Some h \<Rightarrow> ih_machine_id h);
         name = (case previous of None \<Rightarrow> hello_name hello | Some h \<Rightarrow> ih_name h)
     in bind_op (failing rpc_phase1_error (lift (new_expected_peer (xw_crates X) machine name user))) (\<lambda>expected.
        bind_op (the_manifest X expected client) (\<lambda>(m, client).
        bind_op (failing inventory_phase1_error (lift
          (new_inventory_host (xw_crates X) (machine_name m) (machine_id m) stored))) (\<lambda>record.
        bind_op (validate_manifest_endpoint m record) (\<lambda>_.
        bind_op (rpc_call (client_status (xw_crates X)) client) (\<lambda>(st, client).
        bind_op (rpc_call (client_doctor (xw_crates X) (ci_public_line identity)) client) (\<lambda>(doctor, client).
        bind_op (rpc_finish client) (\<lambda>_.
          ok_op \<lparr>ew_record = record, ew_manifest = m, ew_version = hello_styrn_version hello,
                 ew_status = st, ew_doctor = doctor\<rparr>)))))))))"

definition with_candidate :: "command_world \<Rightarrow> path \<Rightarrow> 'a command \<Rightarrow> 'a command" where
  "with_candidate X p m = (\<lambda>d. case m d of (r, d) \<Rightarrow> (r, snd (drop_candidate (xw_inventory X) p d)))"

definition enroll_data ::
  "crates \<Rightarrow> inventory_host \<Rightarrow> bool \<Rightarrow> pinned_host_key \<Rightarrow> machine_status \<Rightarrow> worker_doctor_report \<Rightarrow> json" where
  "enroll_data C h created pin st doctor =
     JObject (object_of
       [(''host'', JString (ih_name h)), (''machine_id'', JString (uuid_text C (ih_machine_id h))),
        (''created'', JBool created), (''fingerprint'', JString (key_fingerprint pin)),
        (''status'', status_json C st), (''doctor'', report_json doctor)])"

definition warnings_of :: "bool \<Rightarrow> phase1_warning list" where
  "warnings_of failed = (if failed then [known_hosts_warning] else [])"

text \<open>The closure of \<open>host_enroll\<close>, under the controller identity.\<close>

definition enroll_with ::
  "command_world \<Rightarrow> controller_identity \<Rightarrow> string \<Rightarrow> string \<Rightarrow> string option \<Rightarrow> command_success command" where
  "enroll_with X identity host user fingerprint =
     bind_op (read_configured X) (\<lambda>(s, snapshot).
     bind_op (lift (map_err Failed (previous_record snapshot host user))) (\<lambda>previous.
     bind_op (confirmed_pin X host fingerprint) (\<lambda>pin.
     bind_op (failing inventory_phase1_error (lift
       (new_stored_ssh host user 22 (render_path (ci_private_path identity)) pin))) (\<lambda>stored.
       if (case previous of None \<Rightarrow> False | Some h \<Rightarrow> ih_transport h \<noteq> stored) then fail_command binding_conflict
       else
     bind_op (failing inventory_phase1_error (candidate_known_hosts (xw_inventory X) s host 22 pin)) (\<lambda>candidate.
     bind_op (with_candidate X candidate (first_session X identity previous user stored candidate)) (\<lambda>w.
       let record = ew_record w
       in if list_ex (\<lambda>h. ih_machine_id h = ih_machine_id record \<and> ih_name h \<noteq> ih_name record) snapshot
          then fail_command other_name
          else
     bind_op (the_time X) (\<lambda>time.
     bind_op (failing inventory_phase1_error (lift
       (new_manifest_cache (xw_crates X) (xw_toml X) time (ew_version w) (ew_manifest w)))) (\<lambda>cache.
     bind_op (failing inventory_phase1_error (enroll_section (xw_inventory X) s record cache)) (\<lambda>(created, failed).
       ok_op (enroll_data (xw_crates X) record created pin (ew_status w) (ew_doctor w),
              ''Enrolled '' @ ih_name record @ newline, warnings_of failed))))))))))"

definition recovering :: "controller_identity \<Rightarrow> command_error \<Rightarrow> command_error" where
  "recovering identity e =
     (case e of
        Failed f \<Rightarrow> Failed (if ci_created identity then with_public_key_recovery (ci_public_path identity) f else f)
      | Command_panic \<Rightarrow> Command_panic)"

definition host_enroll ::
  "command_world \<Rightarrow> string \<Rightarrow> string \<Rightarrow> string option \<Rightarrow> bool \<Rightarrow> bool \<Rightarrow> command_success command" where
  "host_enroll X host user fingerprint json terminal =
     bind_op (failing (\<lambda>_. invalid_ssh_argument) (lift (validate_ssh_destination host user 22))) (\<lambda>_.
     bind_op (case fingerprint of
                Some f \<Rightarrow> failing (\<lambda>_. invalid_ssh_argument) (lift (validate_fingerprint (xw_crates X) f))
              | None \<Rightarrow> if json \<or> \<not> terminal then fail_command non_interactive else ok_op []) (\<lambda>_.
     bind_op (configured_controller_identity X) (\<lambda>identity d.
       case enroll_with X identity host user fingerprint d of
         (Inl e, d) \<Rightarrow> (Inl (recovering identity e), d)
       | (Inr x, d) \<Rightarrow> (Inr x, d))))"

section \<open>Trusting another key\<close>

definition host_trust :: "command_world \<Rightarrow> string \<Rightarrow> string \<Rightarrow> command_success command" where
  "host_trust X name fingerprint =
     bind_op (failing (\<lambda>_. invalid_ssh_argument) (lift (validate_fingerprint (xw_crates X) fingerprint))) (\<lambda>_.
     bind_op (read_configured X) (\<lambda>(s, snapshot).
     bind_op (failing inventory_phase1_error (lift (select_host snapshot (Some name)))) (\<lambda>existing.
     let t = ih_transport existing in
     bind_op (failing transport_phase1_error (scan_host_key X (ssh_host t) (ssh_port t) (Some fingerprint))) (\<lambda>pin.
     bind_op (failing inventory_phase1_error (lift
       (new_stored_ssh (ssh_host t) (ssh_user t) (ssh_port t) (ssh_identity t) pin))) (\<lambda>stored.
     bind_op (failing inventory_phase1_error (lift
       (new_inventory_host (xw_crates X) (ih_name existing) (ih_machine_id existing) stored))) (\<lambda>replacement.
     bind_op (failing inventory_phase1_error (trust_section (xw_inventory X) s existing replacement)) (\<lambda>failed.
       ok_op (JObject (object_of
                [(''host'', JString (ih_name existing)), (''fingerprint'', JString (key_fingerprint pin))]),
              ''Updated host-key trust for '' @ ih_name existing @ newline, warnings_of failed))))))))"

section \<open>Dispatch and rendering\<close>

datatype host_action =
    Host_list
  | Host_show string
  | Host_status "string option"
  | Host_enroll string string "string option"
  | Host_doctor "string option"
  | Host_refresh "string option"
  | Host_trust string string

definition host_command_name :: "host_action \<Rightarrow> string" where
  "host_command_name a =
     (case a of
        Host_list \<Rightarrow> ''host list''
      | Host_show _ \<Rightarrow> ''host show''
      | Host_status _ \<Rightarrow> ''host status''
      | Host_enroll _ _ _ \<Rightarrow> ''host enroll''
      | Host_doctor _ \<Rightarrow> ''host doctor''
      | Host_refresh _ \<Rightarrow> ''host refresh''
      | Host_trust _ _ \<Rightarrow> ''host trust'')"

definition host_command :: "command_world \<Rightarrow> bool \<Rightarrow> bool \<Rightarrow> host_action \<Rightarrow> command_success command" where
  "host_command X json terminal a =
     (case a of
        Host_list \<Rightarrow> host_list X
      | Host_show host \<Rightarrow> host_show X host
      | Host_status name \<Rightarrow> host_status X name
      | Host_enroll host user fingerprint \<Rightarrow> host_enroll X host user fingerprint json terminal
      | Host_doctor name \<Rightarrow> host_doctor X name
      | Host_refresh name \<Rightarrow> host_refresh X name
      | Host_trust host fingerprint \<Rightarrow> host_trust X host fingerprint)"

definition controller_init :: "command_world \<Rightarrow> command_success command" where
  "controller_init X =
     bind_op (configured_controller_identity X) (\<lambda>i.
       ok_op (JObject (object_of
                [(''created'', JBool (ci_created i)), (''private_path'', JString (render_path (ci_private_path i))),
                 (''public_path'', JString (render_path (ci_public_path i))),
                 (''public_key'', JString (ci_public_line i)), (''fingerprint'', JString (ci_fingerprint i))]),
              ''Controller identity '' @ render_path (ci_public_path i) @ newline @
              ''Public key: '' @ ci_public_line i @ newline @ ''Fingerprint: '' @ ci_fingerprint i @ newline, []))"

text \<open>What a process leaves: its two output streams and its exit status.\<close>

record process_end =
  pe_stdout :: string
  pe_stderr :: string
  pe_exit :: int

definition diagnostics_of :: "phase1_warning list \<Rightarrow> (output_error + diagnostic) list" where
  "diagnostics_of ws = map (\<lambda>w. new_diagnostic (p1w_code w) (p1w_message w) None) ws"

fun collect_ok :: "('e + 'a) list \<Rightarrow> 'e + 'a list" where
  "collect_ok [] = Inr []"
| "collect_ok (x # xs) = and_then x (\<lambda>x. and_then (collect_ok xs) (\<lambda>xs. Inr (x # xs)))"

text \<open>\<open>None\<close> is the panic of an \<open>expect\<close>.\<close>

definition render_phase1_success ::
  "crates \<Rightarrow> nat \<Rightarrow> bool \<Rightarrow> string \<Rightarrow> command_success \<Rightarrow> process_end option" where
  "render_phase1_success C time json command result =
     (case result of (data, human, ws) \<Rightarrow>
        if json
        then (case and_then (collect_ok (diagnostics_of ws)) (envelope_success C command time data) of
                Inl _ \<Rightarrow> None
              | Inr e \<Rightarrow> Some \<lparr>pe_stdout = to_json C e, pe_stderr = [], pe_exit = 0\<rparr>)
        else Some \<lparr>pe_stdout = human, pe_stderr = concat (map (\<lambda>w. ''warning: '' @ p1w_message w @ newline) ws), pe_exit = 0\<rparr>)"

definition recovery_details :: "phase1_error \<Rightarrow> json option" where
  "recovery_details e =
     map_option (\<lambda>p. JObject (object_of
       [(''public_key_path'', JString (render_path p)),
        (''next_step'', JString
           ''authorize the public key at this path for the requested SSH user, then rerun styrn host enroll'')]))
       (p1_recovery e)"

definition recovery_lines :: "phase1_error \<Rightarrow> string" where
  "recovery_lines e =
     (case p1_recovery e of
        None \<Rightarrow> []
      | Some p \<Rightarrow>
          ''Controller public key: '' @ render_path p @ newline @
          ''Authorize the public key at this path for the requested SSH user, then rerun styrn host enroll.'' @ newline)"

definition fail_phase1 :: "crates \<Rightarrow> nat \<Rightarrow> bool \<Rightarrow> string \<Rightarrow> phase1_error \<Rightarrow> process_end option" where
  "fail_phase1 C time json command e =
     (if json
      then (case and_then (new_error_diagnostic (p1_code e) (p1_message e) (recovery_details e)) (\<lambda>d.
                   envelope_failure C command time [d] []) of
              Inl _ \<Rightarrow> None
            | Inr envelope \<Rightarrow>
                Some \<lparr>pe_stdout = to_json C envelope, pe_stderr = [], pe_exit = Output.as_i32 (code_exit (p1_code e))\<rparr>)
      else Some \<lparr>pe_stdout = [], pe_stderr = p1_message e @ newline @ recovery_lines e,
                 pe_exit = Output.as_i32 (code_exit (p1_code e))\<rparr>)"

definition render_command ::
  "crates \<Rightarrow> nat \<Rightarrow> bool \<Rightarrow> string \<Rightarrow> command_error + command_success \<Rightarrow> process_end option" where
  "render_command C time json command r =
     (case r of
        Inr result \<Rightarrow> render_phase1_success C time json command result
      | Inl (Failed e) \<Rightarrow> fail_phase1 C time json command e
      | Inl Command_panic \<Rightarrow> None)"

definition run_host_command :: "command_world \<Rightarrow> host_action \<Rightarrow> bool \<Rightarrow> bool \<Rightarrow> disk \<Rightarrow> process_end option \<times> disk" where
  "run_host_command X a json terminal d =
     (case host_command X json terminal a d of
        (r, d) \<Rightarrow> (render_command (xw_crates X) (xw_now X (disk_clock d)) json (host_command_name a) r, d))"

definition run_controller_command :: "command_world \<Rightarrow> bool \<Rightarrow> disk \<Rightarrow> process_end option \<times> disk" where
  "run_controller_command X json d =
     (case controller_init X d of
        (r, d) \<Rightarrow> (render_command (xw_crates X) (xw_now X (disk_clock d)) json ''controller init'' r, d))"

definition exec_process :: "command_world \<Rightarrow> bool \<Rightarrow> string \<Rightarrow> string list \<Rightarrow> bool \<Rightarrow> disk \<Rightarrow> process_end option \<times> disk" where
  "exec_process X shell host argv json d =
     (case run_exec_command X shell host argv d of
        (Inl (Failed e), d) \<Rightarrow> (fail_phase1 (xw_crates X) (xw_now X (disk_clock d)) json ''exec'' e, d)
      | (Inl Command_panic, d) \<Rightarrow> (None, d)
      | (Inr r, d) \<Rightarrow>
          ((if json
            then map_option (\<lambda>out.
                   \<lparr>pe_stdout = to_json (xw_crates X) (eo_envelope out), pe_stderr = [], pe_exit = eo_process_exit_code out\<rparr>)
                   (exec_json_outcome (xw_crates X) (xw_now X (disk_clock d)) r)
            else Some \<lparr>pe_stdout = ex_stdout r, pe_stderr = ex_stderr r, pe_exit = ex_exit_code r\<rparr>), d))"

end
