(* ===== verification/HostGuarantees.thy ===== *)
theory HostGuarantees
  imports HostCommands
begin

text \<open>
  What the commands of \<open>HostCommands\<close> guarantee: whom they have talked to when they succeed, what a
  completed enrolment rests on, and that each of them ends with a report.
\<close>

section \<open>What a command has checked when it succeeds\<close>

lemma failing_Inr [simp]: "failing wrap m d = (Inr x, d') \<longleftrightarrow> m d = (Inr x, d')"
  by (auto simp: failing_def split: prod.splits sum.splits)

lemma lift_Inr [simp]: "lift r d = (Inr x, d') \<longleftrightarrow> r = Inr x \<and> d' = d"
  by (auto simp: lift_def)

lemma fail_command_Inr [simp]: "fail_command e d \<noteq> (Inr x, d')"
  by (simp add: fail_command_def stop_def)

lemma rpc_call_Inr: "rpc_call f c d = (Inr (x, c'), d') \<longleftrightarrow> f c = (Inr x, c') \<and> d' = d"
  by (auto simp: rpc_call_def ok_op_def split: prod.splits sum.splits)

text \<open>What \<open>ssh-keyscan\<close> printed, at some moment, for an endpoint.\<close>

definition scanned :: "command_world \<Rightarrow> string \<Rightarrow> nat \<Rightarrow> string \<Rightarrow> bool" where
  "scanned X host port scan \<longleftrightarrow>
     (\<exists>t arguments. ssh_keyscan_arguments host port = Inr arguments \<and>
        xw_keyscan X t arguments = Tool_done True scan \<and> length scan \<le> max_keyscan_bytes)"

lemma scan_with_scanned:
  assumes "scan_with X host port judge d = (Inr x, d')"
  shows "\<exists>scan. scanned X host port scan \<and> judge scan = Inr x"
proof -
  obtain arguments success out where a: "ssh_keyscan_arguments host port = Inr arguments"
    and r: "run_bounded_tool (xw_keyscan X (disk_clock d) arguments) = Inr (success, out)" and s: success "judge out = Inr x"
    using assms by (auto simp: scan_with_def bind_op_Inr at_clock_def stop_def split: if_splits)
  have "xw_keyscan X (disk_clock d) arguments = Tool_done True out \<and> length out \<le> max_keyscan_bytes"
    using r s by (auto simp: run_bounded_tool_def read_bounded_def Let_def min_def split: tool_run.splits if_splits)
  then show ?thesis using a s(2) by (auto simp: scanned_def)
qed

text \<open>The key a connection accepted: recorded for the host, and the only one with its fingerprint that a scan offered.\<close>

definition key_observed :: "command_world \<Rightarrow> inventory_host \<Rightarrow> bool" where
  "key_observed X h \<longleftrightarrow>
     (let t = ih_transport h
      in \<exists>scan. scanned X (ssh_host t) (ssh_port t) scan \<and> ssh_host_key t \<in> offered_keys (xw_crates X) scan \<and>
           (\<forall>k \<in> offered_keys (xw_crates X) scan. key_fingerprint k = key_fingerprint (ssh_host_key t) \<longrightarrow> k = ssh_host_key t))"

lemma ssh_connect_observed:
  assumes "ssh_rpc_target (ih_transport h) = Inr target" "ssh_connect X p target d = (Inr process, d')"
  shows "key_observed X h"
proof -
  let ?t = "ih_transport h"
  have t: "target_host target = ssh_host ?t" "target_port target = ssh_port ?t" "target_host_key target = ssh_host_key ?t"
    using assms(1) by (auto simp: ssh_rpc_target_def new_rpc_target_def result_simps split: if_splits)
  obtain d1 where "verify_host_key X target d = (Inr (), d1)"
    using assms(2) by (auto simp: ssh_connect_def bind_op_Inr)
  then obtain scan where "scanned X (ssh_host ?t) (ssh_port ?t) scan" "verify_scanned_host_key (xw_crates X) target scan = Inr ()"
    using scan_with_scanned unfolding verify_host_key_def t by metis
  then show ?thesis
    by (auto simp: key_observed_def Let_def verify_scanned_host_key_def result_simps t select_by_fingerprint
        split: if_splits intro!: exI [of _ scan])
qed

lemma open_session_observed:
  assumes "ssh_rpc_target (ih_transport h) = Inr target" "open_session X p target d = (Inr c, d')"
  shows "key_observed X h"
  using assms(2) ssh_connect_observed [OF assms(1)] by (auto simp: open_session_def bind_op_Inr)

lemma connect_host_observed:
  "connect_host X s h d = (Inr (i, c), d') \<Longrightarrow>
     key_observed X h \<and> same_path (ci_private_path i) (ssh_identity (ih_transport h))"
  using open_session_observed [of h] by (auto simp: connect_host_def bind_op_Inr ok_op_def split: if_splits)

lemma endpoint_validated: "validate_manifest_endpoint m h d = (Inr u, d') \<longleftrightarrow> manifest_matches_host m h \<and> d' = d"
  by (auto simp: validate_manifest_endpoint_def ok_op_def)

lemma the_manifest_valid:
  assumes "the_manifest X expected c d = (Inr (m, c'), d')"
  shows "validate (xw_crates X) m = Inr () \<and> d' = d"
proof -
  have "client_manifest (xw_crates X) (xw_toml X) expected c = (Inr m, c')" and d: "d' = d"
    using assms by (simp_all add: the_manifest_def rpc_call_Inr)
  then obtain data c1 where "accept_manifest (xw_crates X) (xw_toml X) expected data c1 = Inr m"
    by (auto simp: client_manifest_def checked_request_def terminate_def split: prod.splits sum.splits)
  then obtain t where "parse_toml (xw_crates X) (xw_toml X) t = Inr m"
    by (auto simp: accept_manifest_def result_simps)
  then show ?thesis using d by (auto simp: parse_toml_def result_simps Let_def split: option.splits)
qed

text \<open>The host a command talks to: in the inventory, with the key and the manifest that were checked.\<close>

definition spoken_to :: "command_world \<Rightarrow> disk \<Rightarrow> inventory_store \<Rightarrow> string option \<Rightarrow> inventory_host \<Rightarrow> machine_manifest \<Rightarrow> bool" where
  "spoken_to X d s name h m \<longleftrightarrow>
     (\<exists>doc. document_on_disk (xw_inventory X) s d = Inr doc \<and>
        (case name of Some k \<Rightarrow> find_host doc k = Some h | None \<Rightarrow> doc = [h])) \<and>
     key_observed X h \<and> validate (xw_crates X) m = Inr () \<and> manifest_matches_host m h"

definition bound_to :: "command_world \<Rightarrow> disk \<Rightarrow> string option \<Rightarrow> bool" where
  "bound_to X d name \<longleftrightarrow> (\<exists>s d1 h m. configured_inventory X d = (Inr s, d1) \<and> spoken_to X d s name h m)"

lemma configured_clock: "configured_inventory X d = (r, d') \<Longrightarrow> disk_files d' = disk_files d"
  by (auto simp: configured_inventory_def bind_op_def at_clock_def lift_def split: sum.splits)

lemma session_spoken:
  assumes "truthful (xw_inventory X)" "configured_inventory X d = (Inr s, d1)"
    "select_section (xw_inventory X) s name d1 = (Inr h, d2)" "connect_host X s h e = (Inr (i, c), d3)"
    "the_manifest X expected c d4 = (Inr (m, c'), d5)" "manifest_matches_host m h"
  shows "spoken_to X d s name h m"
proof -
  obtain doc where doc: "document_on_disk (xw_inventory X) s d1 = Inr doc"
    "case name of Some k \<Rightarrow> find_host doc k = Some h | None \<Rightarrow> doc = [h]"
    using selection_pinned [OF assms(1,3)] by blast
  have "document_on_disk (xw_inventory X) s d1 = document_on_disk (xw_inventory X) s d"
    by (rule on_disk_same) (simp add: configured_clock [OF assms(2)])
  then have "document_on_disk (xw_inventory X) s d = Inr doc" using doc(1) by simp
  then show ?thesis
    using doc(2) connect_host_observed [OF assms(4)] the_manifest_valid [OF assms(5)] assms(6)
    unfolding spoken_to_def by blast
qed

lemma status_spoken:
  assumes "truthful (xw_inventory X)" "host_status X name d = (Inr r, d')"
  shows "bound_to X d name"
proof -
  obtain s h d1 d2 i c d3 expected d4 m c' d5 where s: "configured_inventory X d = (Inr s, d1)"
    and "select_section (xw_inventory X) s name d1 = (Inr h, d2)" "connect_host X s h d2 = (Inr (i, c), d3)"
    "the_manifest X expected c d4 = (Inr (m, c'), d5)" "manifest_matches_host m h"
    using assms(2) by (auto simp: host_status_def bind_op_Inr select_host_for_network_def endpoint_validated)
  from session_spoken [OF assms(1) this] s show ?thesis unfolding bound_to_def by blast
qed

lemma refresh_spoken:
  assumes "truthful (xw_inventory X)" "host_refresh X name d = (Inr r, d')"
  shows "bound_to X d name"
proof -
  obtain s h d1 d2 i c d3 expected d4 m c' d5 where s: "configured_inventory X d = (Inr s, d1)"
    and "select_section (xw_inventory X) s name d1 = (Inr h, d2)" "connect_host X s h d2 = (Inr (i, c), d3)"
    "the_manifest X expected c d4 = (Inr (m, c'), d5)" "manifest_matches_host m h"
    using assms(2) by (auto simp: host_refresh_def bind_op_Inr select_host_for_network_def endpoint_validated Let_def)
  from session_spoken [OF assms(1) this] s show ?thesis unfolding bound_to_def by blast
qed

lemma exec_spoken:
  assumes "truthful (xw_inventory X)" "remote_exec X host argv d = (Inr r, d')"
  shows "bound_to X d (Some host)"
proof -
  obtain s h d1 d2 i c d3 expected d4 m c' d5 where s: "configured_inventory X d = (Inr s, d1)"
    and "select_section (xw_inventory X) s (Some host) d1 = (Inr h, d2)" "connect_host X s h d2 = (Inr (i, c), d3)"
    "the_manifest X expected c d4 = (Inr (m, c'), d5)" "manifest_matches_host m h"
    using assms(2) by (auto simp: remote_exec_def bind_op_Inr select_host_for_network_def endpoint_validated)
  from session_spoken [OF assms(1) this] s show ?thesis unfolding bound_to_def by blast
qed

lemma doctor_spoken:
  assumes "truthful (xw_inventory X)" "host_doctor X name d = (Inr r, d')"
  shows "bound_to X d name"
proof -
  obtain s h d1 d2 k e i c d3 expected d4 m c' d5 where s: "configured_inventory X d = (Inr s, d1)"
    and h: "select_section (xw_inventory X) s name d1 = (Inr h, d2)" and r: "outcome_of (read_cache (xw_inventory X) s (ih_machine_id h)) d2 = (Inr k, e)"
    and c: "connect_host X s h e = (Inr (i, c), d3)" "the_manifest X expected c d4 = (Inr (m, c'), d5)" "manifest_matches_host m h"
    using assms(2) by (auto simp: host_doctor_def bind_op_Inr select_host_for_network_def endpoint_validated Let_def)
  from session_spoken [OF assms(1) s h c] s show ?thesis unfolding bound_to_def by blast
qed

section \<open>Every command reports\<close>

named_theorems command_rules \<open>computations whose failures are errors that can be reported\<close>

definition fault_ok :: "command_error \<Rightarrow> bool" where
  "fault_ok e = (case e of Failed f \<Rightarrow> p1_message f \<noteq> [] | Command_panic \<Rightarrow> False)"

definition gives :: "('a \<Rightarrow> bool) \<Rightarrow> 'a command \<Rightarrow> bool" where
  "gives P m \<longleftrightarrow> (\<forall>d. case fst (m d) of Inl e \<Rightarrow> fault_ok e | Inr x \<Rightarrow> P x)"

abbreviation faults :: "'a command \<Rightarrow> bool" where
  "faults m \<equiv> gives (\<lambda>_. True) m"

lemma gives_bind [command_rules]:
  assumes "faults m" "\<And>x. gives P (f x)"
  shows "gives P (bind_op m f)"
  unfolding gives_def
proof
  fix d
  obtain r d1 where r: "m d = (r, d1)" by force
  have "case r of Inl e \<Rightarrow> fault_ok e | Inr x \<Rightarrow> True" using assms(1) r by (auto simp: gives_def dest: spec [of _ d])
  then show "case fst (bind_op m f d) of Inl e \<Rightarrow> fault_ok e | Inr x \<Rightarrow> P x"
    using assms(2) r by (cases r) (simp_all add: bind_op_def gives_def)
qed

lemma gives_ok [command_rules]: "P x \<Longrightarrow> gives P (ok_op x)"
  by (simp add: gives_def ok_op_def)

lemma gives_fail [command_rules]: "p1_message e \<noteq> [] \<Longrightarrow> gives P (fail_command e)"
  by (simp add: gives_def fail_command_def stop_def fault_ok_def)

lemma gives_if [command_rules]: "gives P a \<Longrightarrow> gives P b \<Longrightarrow> gives P (if c then a else b)"
  by simp

lemma gives_prod [command_rules]: "(\<And>a b. gives P (f a b)) \<Longrightarrow> gives P (case x of (a, b) \<Rightarrow> f a b)"
  by (cases x) simp

lemma gives_failing [command_rules]: "(\<And>e. p1_message (wrap e) \<noteq> []) \<Longrightarrow> faults (failing wrap m)"
  by (auto simp: gives_def failing_def fault_ok_def split: prod.splits sum.splits)

lemma phase1_messages [simp]:
  "p1_message (new_phase1_error c t) = t" "p1_code (new_phase1_error c t) = c" "p1_message (inventory_phase1_error e) \<noteq> []"
  "p1_message machine_manifest_error \<noteq> []" "p1_message invalid_ssh_argument \<noteq> []"
  by (simp_all add: new_phase1_error_def inventory_phase1_error_def machine_manifest_error_def invalid_ssh_argument_def)

lemma identity_message [simp]: "p1_message (identity_phase1_error e) \<noteq> []"
  by (cases e) (simp_all add: identity_phase1_error_def)

lemma transport_message [simp]: "p1_message (transport_phase1_error e) \<noteq> []"
  by (cases e) (simp_all add: transport_phase1_error_def transport_error_code_def)

lemma rpc_message [simp]: "p1_message (rpc_phase1_error e) \<noteq> []"
  by (cases "err_code e") (simp_all add: rpc_phase1_error_def)

lemma gives_time [command_rules]: "faults (the_time X)" "faults (outcome_of m)" "faults (confirm_host_key X)"
  by (simp_all add: gives_def the_time_def at_clock_def outcome_of_def confirm_host_key_def split: prod.splits)

lemma gives_rpc [command_rules]: "faults (rpc_call f c)"
  by (auto simp: gives_def rpc_call_def fail_command_def stop_def ok_op_def fault_ok_def split: prod.splits sum.splits)

lemma gives_identity [command_rules]: "faults (configured_controller_identity X)"
proof -
  have loaded: "i \<noteq> None" if run: "load_or_create_configured X m d = (Inr i, d')" for m i d d'
  proof -
    obtain dir e where "load_or_create (xw_identity X) m dir e = (Inr i, d')"
      using run unfolding load_or_create_configured_def Let_def bind_op_Inr by blast
    from load_or_create_result [OF this refl refl] show ?thesis using holds_created by blast
  qed
  have "faults (bind_op (failing identity_phase1_error (load_or_create_configured X m)) or_panic)" for m
  proof (unfold gives_def, intro allI)
    fix d
    obtain r d1 where r: "load_or_create_configured X m d = (r, d1)" by force
    then show "case fst (bind_op (failing identity_phase1_error (load_or_create_configured X m)) or_panic d) of
        Inl e \<Rightarrow> fault_ok e | Inr x \<Rightarrow> True"
      using loaded [of m d] by (auto simp: bind_op_def failing_def or_panic_def ok_op_def fault_ok_def split: sum.splits option.splits)
  qed
  note rest = this
  show ?thesis
    unfolding configured_controller_identity_def
    by (rule gives_bind [OF gives_failing gives_bind [OF gives_failing rest]]) simp_all
qed

lemma gives_reads [command_rules]: "faults (read_configured X)" "faults (select_host_for_network X s name)"
  "faults (open_session X p t)" "faults (connect_host X s h)" "faults (expected_peer_of X h)"
  "faults (validate_manifest_endpoint m h)" "faults (the_manifest X expected c)" "faults (rpc_finish c)"
  "faults (confirmed_pin X host fingerprint)"
proof -
  note defs = read_configured_def select_host_for_network_def open_session_def expected_peer_of_def
    validate_manifest_endpoint_def the_manifest_def rpc_finish_def confirmed_pin_def
  have m: "p1_message manifest_mismatch \<noteq> []" "p1_message different_identity \<noteq> []" "p1_message key_not_confirmed \<noteq> []"
    by (simp_all add: manifest_mismatch_def different_identity_def key_not_confirmed_def)
  show "faults (read_configured X)" "faults (select_host_for_network X s name)"
    "faults (expected_peer_of X h)" "faults (validate_manifest_endpoint m h)" "faults (the_manifest X expected c)"
    "faults (rpc_finish c)" "faults (confirmed_pin X host fingerprint)"
    unfolding defs by (intro command_rules; simp add: m)+
  show o: "faults (open_session X p t)" for p t unfolding defs by (intro command_rules) simp_all
  show "faults (connect_host X s h)"
    unfolding connect_host_def by (intro command_rules o) (simp_all add: m)
qed

definition warning_ok :: "phase1_warning \<Rightarrow> bool" where
  "warning_ok w \<longleftrightarrow> is_ok (new_diagnostic (p1w_code w) (p1w_message w) None)"

definition success_ok :: "command_success \<Rightarrow> bool" where
  "success_ok r \<longleftrightarrow> (case r of (data, _, ws) \<Rightarrow> is_object data \<and> list_all warning_ok ws)"

lemma known_hosts_warning_ok: "warning_ok known_hosts_warning"
proof -
  have "is_diagnostic_code ''inventory.known_hosts_rebuild_failed''" by code_simp
  then show ?thesis by (simp add: warning_ok_def known_hosts_warning_def new_diagnostic_def validate_diagnostic_parts_def)
qed

lemma success_ok_simps [simp]:
  "success_ok (JObject kvs, t, [])" "success_ok (JObject kvs, t, warnings_of b)"
  by (simp_all add: success_ok_def warnings_of_def known_hosts_warning_ok)

lemma gives_lift_failed: "(\<And>e. r = Inl e \<Longrightarrow> p1_message e \<noteq> []) \<Longrightarrow> faults (lift (map_err Failed r))"
  by (cases r) (simp_all add: gives_def lift_def fault_ok_def)

lemma gives_with_candidate [command_rules]: "gives P m \<Longrightarrow> gives P (with_candidate X p m)"
  by (auto simp: gives_def with_candidate_def split: prod.splits) (metis fst_conv)

lemma gives_first_session [command_rules]: "faults (first_session X i previous user stored candidate)"
  unfolding first_session_def Let_def by (intro command_rules) simp_all

lemma reads_report: "gives success_ok (host_list X)" "gives success_ok (host_show X n)" "gives success_ok (controller_init X)"
  unfolding host_list_def host_show_def controller_init_def host_json_def Let_def by (intro command_rules; simp)+

lemma status_reports: "gives success_ok (host_status X name)"
  unfolding host_status_def by (intro command_rules) simp_all

lemma refresh_reports: "gives success_ok (host_refresh X name)"
  unfolding host_refresh_def Let_def by (intro command_rules) simp_all

lemma doctor_reports: "gives success_ok (host_doctor X name)"
  unfolding host_doctor_def Let_def doctor_data_def by (intro command_rules) simp_all

lemma trust_reports: "gives success_ok (host_trust X name fingerprint)"
  unfolding host_trust_def Let_def by (intro command_rules) simp_all

lemma exec_reports: "faults (run_exec_command X shell host argv)"
  unfolding run_exec_command_def remote_exec_def by (intro command_rules) (simp_all add: shell_unavailable_def)

lemma enroll_with_reports: "gives success_ok (enroll_with X i host user fingerprint)"
proof -
  have m: "p1_message ambiguous_endpoint \<noteq> []" "p1_message binding_conflict \<noteq> []" "p1_message other_name \<noteq> []"
    by (simp_all add: ambiguous_endpoint_def binding_conflict_def other_name_def)
  have p: "faults (lift (map_err Failed (previous_record doc host user)))" for doc
    by (rule gives_lift_failed) (auto simp: previous_record_def Let_def m split: if_splits)
  show ?thesis
    unfolding enroll_with_def Let_def enroll_data_def by (intro command_rules p) (simp_all add: m)
qed

lemma enroll_reports: "gives success_ok (host_enroll X host user fingerprint json terminal)"
proof -
  have last: "gives success_ok (\<lambda>d. case enroll_with X i host user fingerprint d of
       (Inl e, d) \<Rightarrow> (Inl (recovering i e), d) | (Inr x, d) \<Rightarrow> (Inr x, d))" for i
  proof (unfold gives_def, intro allI)
    fix d
    obtain r d1 where r: "enroll_with X i host user fingerprint d = (r, d1)" by force
    moreover have "case r of Inl e \<Rightarrow> fault_ok e | Inr x \<Rightarrow> success_ok x"
      using enroll_with_reports [of X i host user fingerprint] r by (auto simp: gives_def dest: spec [of _ d])
    ultimately show "case fst (case enroll_with X i host user fingerprint d of
       (Inl e, d) \<Rightarrow> (Inl (recovering i e), d) | (Inr x, d) \<Rightarrow> (Inr x, d)) of
       Inl e \<Rightarrow> fault_ok e | Inr x \<Rightarrow> success_ok x"
      by (auto simp: recovering_def fault_ok_def with_public_key_recovery_def split: sum.splits command_error.splits)
  qed
  have check: "faults (case fingerprint of
                Some f \<Rightarrow> failing (\<lambda>_. invalid_ssh_argument) (lift (validate_fingerprint (xw_crates X) f))
              | None \<Rightarrow> if json \<or> \<not> terminal then fail_command non_interactive else ok_op [])"
    by (cases fingerprint) (auto intro!: command_rules simp: non_interactive_def)
  show ?thesis unfolding host_enroll_def by (intro gives_bind last check command_rules) simp_all
qed

lemma action_reports: "gives success_ok (host_command X json terminal a)"
  by (cases a) (simp_all add: host_command_def reads_report status_reports refresh_reports doctor_reports trust_reports enroll_reports)

section \<open>What a command leaves on its streams\<close>

definition leaves :: "crates \<Rightarrow> bool \<Rightarrow> string \<Rightarrow> bool \<Rightarrow> process_end option \<Rightarrow> bool" where
  "leaves C json command success p \<longleftrightarrow>
     (\<exists>e. p = Some e \<and> (pe_exit e = 0 \<longleftrightarrow> success) \<and>
        (if json
         then pe_stderr e = [] \<and>
              (\<exists>env. pe_stdout e = to_json C env \<and> envelope_ok env \<and> env_command env = command \<and> env_ok env = success)
         else success \<or> (pe_stdout e = [] \<and> pe_stderr e \<noteq> [])))"

lemma exit_nonzero: "Output.as_i32 (code_exit c) \<noteq> 0"
  by (cases c) simp_all

lemma collect_warnings:
  "list_all warning_ok ws \<Longrightarrow> \<exists>ds. collect_ok (diagnostics_of ws) = Inr ds \<and> list_all diagnostic_ok ds"
proof (induction ws)
  case (Cons w ws)
  then obtain d ds where "new_diagnostic (p1w_code w) (p1w_message w) None = Inr d"
    "collect_ok (diagnostics_of ws) = Inr ds" "list_all diagnostic_ok ds"
    by (auto simp: warning_ok_def is_ok_iff)
  then show ?case using new_diagnostic_ok by (auto simp: diagnostics_of_def)
qed (simp add: diagnostics_of_def)

lemma success_leaves:
  assumes "success_ok r" "trim command \<noteq> []"
  shows "leaves C json command True (render_phase1_success C time json command r)"
proof -
  obtain data human ws where r: "r = (data, human, ws)" by (cases r)
  obtain ds where ds: "collect_ok (diagnostics_of ws) = Inr ds" "list_all diagnostic_ok ds"
    using collect_warnings assms(1) r by (auto simp: success_ok_def)
  obtain e where e: "envelope_success C command time data ds = Inr e" "env_command e = command"
    using assms r by (auto simp: envelope_success_def validate_command_def success_ok_def)
  show ?thesis
    using envelope_success_ok [OF e(1) ds(2)] e by (auto simp: leaves_def render_phase1_success_def r ds(1))
qed

lemma failure_leaves:
  assumes "p1_message e \<noteq> []" "trim command \<noteq> []"
  shows "leaves C json command False (fail_phase1 C time json command e)"
proof -
  have "is_some_and (\<lambda>d. \<not> is_object d) (recovery_details e) = False"
    by (cases "p1_recovery e") (simp_all add: recovery_details_def)
  then obtain d where d: "new_error_diagnostic (p1_code e) (p1_message e) (recovery_details e) = Inr d"
    using assms(1) by (simp add: new_error_diagnostic_def validate_diagnostic_parts_def)
  obtain env where env: "envelope_failure C command time [d] [] = Inr env" "env_command env = command"
    using assms(2) by (auto simp: envelope_failure_def validate_command_def)
  show ?thesis
    using envelope_failure_ok [OF env(1)] new_error_diagnostic_ok [OF d] env assms(1)
    by (auto simp: leaves_def fail_phase1_def d exit_nonzero newline_def)
qed

lemma command_names: "trim (host_command_name a) \<noteq> []" "trim ''controller init'' \<noteq> []" "trim ''exec'' \<noteq> []"
proof -
  show "trim ''controller init'' \<noteq> []" "trim ''exec'' \<noteq> []" by code_simp+
  have "list_all (\<lambda>n. trim n \<noteq> []) [''host list'', ''host show'', ''host status'', ''host enroll'', ''host doctor'', ''host refresh'', ''host trust'']"
    by code_simp
  then show "trim (host_command_name a) \<noteq> []" by (cases a) (simp_all add: host_command_name_def)
qed

lemma rendered_leaves:
  assumes "gives success_ok m" "m d = (r, d')" "trim command \<noteq> []"
  shows "leaves C json command (is_ok r) (render_command C time json command r)"
proof -
  have "case r of Inl e \<Rightarrow> fault_ok e | Inr x \<Rightarrow> success_ok x" using assms(1,2) by (auto simp: gives_def dest: spec [of _ d])
  then show ?thesis
    using success_leaves assms(3) failure_leaves by (auto simp: render_command_def fault_ok_def split: sum.splits command_error.splits)
qed

lemma exec_leaves:
  assumes "run_exec_command X shell host argv d = (r, d1)"
  shows "case exec_process X shell host argv json d of (p, d2) \<Rightarrow>
        d2 = d1 \<and>
        (case r of
           Inl _ \<Rightarrow> leaves (xw_crates X) json ''exec'' False p
         | Inr result \<Rightarrow>
             (\<exists>e. p = Some e \<and> pe_exit e = ex_exit_code result \<and>
                (if json then pe_stderr e = [] \<and> (\<exists>env. pe_stdout e = to_json (xw_crates X) env \<and> envelope_ok env)
                 else pe_stdout e = ex_stdout result \<and> pe_stderr e = ex_stderr result)))"
proof (cases r)
  case (Inl e)
  have "fault_ok e" using exec_reports [of X shell host argv] assms Inl by (auto simp: gives_def dest: spec [of _ d])
  then obtain f where "e = Failed f" "p1_message f \<noteq> []" by (auto simp: fault_ok_def split: command_error.splits)
  then show ?thesis using failure_leaves command_names(3) assms Inl by (simp add: exec_process_def)
next
  case (Inr result)
  let ?time = "xw_now X (disk_clock d1)"
  obtain out where out: "exec_outcome_sanitized (xw_crates X) ?time (ex_exit_code result) (ex_stdout result) (ex_stderr result)
      (ex_duration_ms result) (ex_stdout_lossy result) (ex_stderr_lossy result) (ex_stdout_redacted result)
      (ex_stderr_redacted result) = Inr out"
    using command_names(3) by (auto simp: exec_outcome_sanitized_def Let_def envelope_success_def validate_command_def)
  then have "eo_process_exit_code out = ex_exit_code result" "envelope_ok (eo_envelope out)"
    using envelope_success_ok by (auto simp: exec_outcome_sanitized_def Let_def result_simps)
  then show ?thesis using assms Inr out by (auto simp: exec_process_def exec_json_outcome_def)
qed


section \<open>What enrolling has established\<close>

lemma enroll_success:
  assumes "truthful W" "enroll_section W s h c d = (Inr (b, failed), d')"
  shows "\<exists>doc. document_on_disk W s d = Inr doc \<and> fst (upsert_exact h doc) = Inr b"
  using assms(2) unfolding enroll_section_def
proof (rule locked_start [OF assms(1)])
  fix d1
  assume run: "bind_op (read_inventory W s) (\<lambda>doc.
       case upsert_exact h doc of
         (Inl e, _) \<Rightarrow> stop e
       | (Inr created, doc') \<Rightarrow>
           bind_op (write_cache W s c) (\<lambda>_.
           bind_op (if created then replace_inventory W s doc' else ok_op ()) (\<lambda>_.
           bind_op (attempted (rebuild_known_hosts W s doc')) (\<lambda>failed. ok_op (created, failed))))) d1 = (Inr (b, failed), d')"
    and root: "exists_on d1 (is_root s)" and same: "\<And>p. identity_file p \<Longrightarrow> disk_files d1 p = disk_files d p"
  obtain doc d2 where r: "read_inventory W s d1 = (Inr doc, d2)" using run by (rule bind_op_InrE) blast
  have "fst (upsert_exact h doc) = Inr b"
    using run r by (auto simp: bind_op_Inr ok_op_def stop_def split: prod.splits sum.splits)
  moreover have "document_on_disk W s d1 = document_on_disk W s d" by (rule on_disk_same) (simp add: same)
  then have "document_on_disk W s d = Inr doc" using read_locked [OF assms(1) root r] by simp
  ultimately show ?thesis by blast
qed simp

lemma enrolled_document:
  assumes laws: "store_laws W" and h: "sound_host (nw_crates W) h" "enrolled_host (nw_crates W) h"
    and run: "enroll_section W s h c d = (Inr (b, failed), d')"
  shows "\<exists>doc doc'. document_on_disk W s d = Inr doc \<and> document_on_disk W s d' = Inr doc' \<and>
    find_host doc' (ih_name h) = Some h \<and> (\<forall>n g. find_host doc n = Some g \<longrightarrow> find_host doc' n = Some g)"
proof -
  have "truthful W" using laws by (simp add: store_laws_def)
  then obtain doc where doc: "document_on_disk W s d = Inr doc" and u: "fst (upsert_exact h doc) = Inr b"
    using enroll_success run by blast
  obtain doc' where u': "upsert_exact h doc = (Inr b, doc')" using u by (cases "upsert_exact h doc") simp
  have "document_on_disk W s d' = Inr doc'" using enroll_document [OF laws doc h(2) run] u' by simp
  moreover have "valid_document (nw_crates W) doc" using on_disk_sound [OF doc] by simp
  ultimately show ?thesis using doc inventory.add_outcome [OF _ h(1) u'] by blast
qed

lemma select_offered: "select_scan C scan f = Inr key \<Longrightarrow> key \<in> offered_keys C scan"
  by (cases f) (simp_all add: select_by_fingerprint select_by_priority)

lemma confirmed_pin_result:
  assumes "confirmed_pin X host fingerprint d = (Inr pin, d')"
  shows "\<exists>scan. scanned X host 22 scan \<and> select_scan (xw_crates X) scan fingerprint = Inr pin \<and>
    (fingerprint = None \<longrightarrow> (\<exists>t line. xw_answer X t = Some line \<and> trim line \<in> {''y'', ''yes''}))"
proof -
  obtain key d1 where s: "scan_host_key X host 22 fingerprint d = (Inr key, d1)"
    and r: "(if fingerprint \<noteq> None then ok_op key
       else bind_op (confirm_host_key X) (\<lambda>yes. if yes then ok_op key else fail_command key_not_confirmed)) d1 = (Inr pin, d')"
    using assms by (auto simp: confirmed_pin_def bind_op_Inr)
  have "key = pin" using r by (auto simp: ok_op_def bind_op_Inr split: if_splits)
  moreover have "\<exists>t line. xw_answer X t = Some line \<and> trim line \<in> {''y'', ''yes''}" if "fingerprint = None"
  proof -
    have "(case xw_answer X (disk_clock d1) of None \<Rightarrow> False | Some line \<Rightarrow> trim line \<in> {''y'', ''yes''})"
      using r that by (auto simp: bind_op_Inr confirm_host_key_def at_clock_def split: if_splits)
    then show ?thesis by (auto split: option.splits)
  qed
  ultimately show ?thesis using scan_with_scanned [OF s [unfolded scan_host_key_def]] by blast
qed

lemma first_session_result:
  assumes "first_session X i previous user stored p d = (Inr w, d')"
  shows "new_inventory_host (xw_crates X) (machine_name (ew_manifest w)) (machine_id (ew_manifest w)) stored = Inr (ew_record w) \<and>
    manifest_matches_host (ew_manifest w) (ew_record w) \<and> validate (xw_crates X) (ew_manifest w) = Inr () \<and>
    key_observed X (ew_record w)"
proof -
  obtain target d1 c d2 expected m c' d3 h where t: "ssh_rpc_target stored = Inr target"
    "open_session X p target d1 = (Inr c, d2)" "the_manifest X expected c d2 = (Inr (m, c'), d3)"
    and r: "new_inventory_host (xw_crates X) (machine_name m) (machine_id m) stored = Inr h" "manifest_matches_host m h"
    and w: "ew_manifest w = m" "ew_record w = h"
    using assms by (auto simp: first_session_def Let_def bind_op_Inr endpoint_validated ok_op_def)
  have "ih_transport h = stored" using r(1) by (auto simp: new_inventory_host_def split: if_splits)
  then have "key_observed X h" using open_session_observed [of h target X p d1 c d2] t by simp
  then show ?thesis using the_manifest_valid [OF t(3)] r w by simp
qed

lemma new_host_sound:
  assumes "new_inventory_host C name u stored = Inr h" "new_stored_ssh host user port identity pin = Inr stored"
    "pin \<in> offered_keys C scan"
  shows "sound_host C h \<and> enrolled_host C h \<and> ssh_host (ih_transport h) = host \<and> ssh_user (ih_transport h) = user \<and>
    ssh_port (ih_transport h) = port \<and> ssh_host_key (ih_transport h) = pin"
proof -
  obtain t where t: "new_rpc_target host user port identity pin = Inr t"
    and s: "stored = \<lparr>ssh_host = host, ssh_user = user, ssh_port = port, ssh_identity = identity, ssh_host_key = pin\<rparr>"
    using assms(2) by (auto simp: new_stored_ssh_def result_simps)
  show ?thesis
    using assms(1,3) t
    by (auto simp: new_inventory_host_def sound_host_def enrolled_host_def ssh_rpc_target_def s is_ok_iff split: if_splits)
qed

lemma host_enroll_parts:
  assumes "host_enroll X host user fingerprint json terminal d = (Inr out, d')"
  shows "\<exists>i e. enroll_with X i host user fingerprint e = (Inr out, d') \<and> (fingerprint = None \<longrightarrow> terminal \<and> \<not> json)"
proof -
  obtain x d1 i d2 where c: "(case fingerprint of
                Some f \<Rightarrow> failing (\<lambda>_. invalid_ssh_argument) (lift (validate_fingerprint (xw_crates X) f))
              | None \<Rightarrow> if json \<or> \<not> terminal then fail_command non_interactive else ok_op []) d = (Inr x, d1)"
    and r: "(case enroll_with X i host user fingerprint d2 of
       (Inl e, d) \<Rightarrow> (Inl (recovering i e), d) | (Inr x, d) \<Rightarrow> (Inr x, d)) = (Inr out, d')"
    using assms unfolding host_enroll_def bind_op_Inr failing_Inr lift_Inr by blast
  have "fingerprint = None \<longrightarrow> terminal \<and> \<not> json" using c by (auto split: if_splits)
  moreover obtain q d3 where q: "enroll_with X i host user fingerprint d2 = (q, d3)" by force
  then have "q = Inr out \<and> d3 = d'" using r by (cases q) simp_all
  ultimately show ?thesis using q by blast
qed

text \<open>The record that a successful enrolment put into the inventory, and what it rests on.\<close>

definition enrolled_by ::
  "command_world \<Rightarrow> string \<Rightarrow> string \<Rightarrow> string option \<Rightarrow> disk \<Rightarrow> inventory_host \<Rightarrow> bool" where
  "enrolled_by X host user fingerprint d' h \<longleftrightarrow>
     (\<exists>s c result d1 doc doc' scan m.
        enroll_section (xw_inventory X) s h c d1 = (Inr result, d') \<and>
        document_on_disk (xw_inventory X) s d1 = Inr doc \<and> document_on_disk (xw_inventory X) s d' = Inr doc' \<and>
        find_host doc' (ih_name h) = Some h \<and> (\<forall>n g. find_host doc n = Some g \<longrightarrow> find_host doc' n = Some g) \<and>
        ssh_host (ih_transport h) = host \<and> ssh_user (ih_transport h) = user \<and> ssh_port (ih_transport h) = 22 \<and>
        scanned X host 22 scan \<and> select_scan (xw_crates X) scan fingerprint = Inr (ssh_host_key (ih_transport h)) \<and>
        key_observed X h \<and> validate (xw_crates X) m = Inr () \<and> manifest_matches_host m h)"

lemma enroll_with_result:
  assumes laws: "store_laws (xw_inventory X)" and run: "enroll_with X i host user fingerprint e = (Inr out, d')"
  shows "\<exists>h. enrolled_by X host user fingerprint d' h \<and>
    (fingerprint = None \<longrightarrow> (\<exists>t line. xw_answer X t = Some line \<and> trim line \<in> {''y'', ''yes''}))"
proof -
  obtain s previous pin stored p w c result d1 e1 e2 e3 e4 where
    pin: "confirmed_pin X host fingerprint e1 = (Inr pin, e2)"
    and stored: "new_stored_ssh host user 22 (render_path (ci_private_path i)) pin = Inr stored"
    and w: "with_candidate X p (first_session X i previous user stored p) e3 = (Inr w, e4)"
    and put: "enroll_section (xw_inventory X) s (ew_record w) c d1 = (Inr result, d')"
    using run by (auto simp: enroll_with_def bind_op_Inr Let_def ok_op_def split: if_splits)
  obtain scan where scan: "scanned X host 22 scan" "select_scan (xw_crates X) scan fingerprint = Inr pin"
    and answer: "fingerprint = None \<longrightarrow> (\<exists>t line. xw_answer X t = Some line \<and> trim line \<in> {''y'', ''yes''})"
    using confirmed_pin_result [OF pin] by blast
  obtain e6 where "first_session X i previous user stored p e3 = (Inr w, e6)"
    using w by (auto simp: with_candidate_def split: prod.splits)
  note session = first_session_result [OF this]
  note sound = new_host_sound [OF conjunct1 [OF session] stored select_offered [OF scan(2)]]
  obtain b failed where "result = (b, failed)" by force
  then obtain doc doc' where doc: "document_on_disk (xw_inventory X) s d1 = Inr doc"
    "document_on_disk (xw_inventory X) s d' = Inr doc'" "find_host doc' (ih_name (ew_record w)) = Some (ew_record w)"
    "\<forall>n g. find_host doc n = Some g \<longrightarrow> find_host doc' n = Some g"
    using enrolled_document [OF laws _ _ put [unfolded \<open>result = _\<close>]] sound by blast
  have key: "ssh_host_key (ih_transport (ew_record w)) = pin" using sound by simp
  have "enrolled_by X host user fingerprint d' (ew_record w)"
    unfolding enrolled_by_def key
    using put doc scan sound session by blast
  then show ?thesis using answer by blast
qed

text \<open>
  C5. Enrolling is never silent: a host is enrolled only with a key that \<open>ssh-keyscan\<close> offered for
  the given endpoint, that has the fingerprint the user gave or that the user, at a terminal and
  without \<open>--json\<close>, confirmed with y or yes; only after a session over a connection to that very
  key, whose valid manifest names the recorded machine and endpoint; and it changes nothing
  else: every host that was enrolled when the locked section began still has the same record,
  key included.
\<close>

theorem enrollment_confirmed:
  assumes "store_laws (xw_inventory X)"
  shows "case host_enroll X host user fingerprint json terminal d of
      (Inl e, _) \<Rightarrow> e \<noteq> Command_panic
    | (Inr _, d') \<Rightarrow>
        \<exists>h. enrolled_by X host user fingerprint d' h \<and>
          (case fingerprint of
             Some f \<Rightarrow> key_fingerprint (ssh_host_key (ih_transport h)) = f
           | None \<Rightarrow> terminal \<and> \<not> json \<and> (\<exists>t line. xw_answer X t = Some line \<and> trim line \<in> {''y'', ''yes''}))"
proof -
  obtain r d' where run: "host_enroll X host user fingerprint json terminal d = (r, d')" by force
  show ?thesis
  proof (cases r)
    case (Inl e)
    then show ?thesis
      using run enroll_reports [of X host user fingerprint json terminal]
      by (auto simp: gives_def fault_ok_def dest: spec [of _ d])
  next
    case (Inr out)
    then obtain i e where e: "enroll_with X i host user fingerprint e = (Inr out, d')"
      "fingerprint = None \<longrightarrow> terminal \<and> \<not> json"
      using host_enroll_parts run by blast
    obtain h where h: "enrolled_by X host user fingerprint d' h"
      "fingerprint = None \<longrightarrow> (\<exists>t line. xw_answer X t = Some line \<and> trim line \<in> {''y'', ''yes''})"
      using enroll_with_result [OF assms e(1)] by blast
    have "case fingerprint of
             Some f \<Rightarrow> key_fingerprint (ssh_host_key (ih_transport h)) = f
           | None \<Rightarrow> terminal \<and> \<not> json \<and> (\<exists>t line. xw_answer X t = Some line \<and> trim line \<in> {''y'', ''yes''})"
      using h e(2) by (cases fingerprint) (auto simp: enrolled_by_def select_by_fingerprint)
    then show ?thesis using run Inr h(1) by auto
  qed
qed

section \<open>Whom the commands talk to\<close>

lemma command_outcome:
  assumes "gives P m" "\<And>r d'. m d = (Inr r, d') \<Longrightarrow> Q"
  shows "case m d of (Inl e, _) \<Rightarrow> e \<noteq> Command_panic | (Inr _, _) \<Rightarrow> Q"
proof -
  obtain r d' where r: "m d = (r, d')" by force
  have "case fst (m d) of Inl e \<Rightarrow> fault_ok e | Inr x \<Rightarrow> P x" using assms(1) unfolding gives_def by blast
  then show ?thesis using assms(2) r by (cases r) (auto simp: fault_ok_def)
qed

text \<open>
  C3. No command gets an answer from a machine that is not the enrolled one: when \<open>status\<close>,
  \<open>refresh\<close>, \<open>doctor\<close> or \<open>exec\<close> succeeds, the inventory on disk has the host under the alias that
  was given (or as its only host), \<open>ssh-keyscan\<close> offered for the host's endpoint the very key it
  is recorded with and no other key of that fingerprint, and the worker's manifest is valid and
  has the recorded machine, alias, account, address and port.
\<close>

theorem network_commands_bound:
  assumes "truthful (xw_inventory X)"
  shows "(case host_status X name d of (Inl e, _) \<Rightarrow> e \<noteq> Command_panic | (Inr _, _) \<Rightarrow> bound_to X d name) \<and>
    (case host_refresh X name d of (Inl e, _) \<Rightarrow> e \<noteq> Command_panic | (Inr _, _) \<Rightarrow> bound_to X d name) \<and>
    (case host_doctor X name d of (Inl e, _) \<Rightarrow> e \<noteq> Command_panic | (Inr _, _) \<Rightarrow> bound_to X d name) \<and>
    (case run_exec_command X shell host argv d of
       (Inl e, _) \<Rightarrow> e \<noteq> Command_panic
     | (Inr _, _) \<Rightarrow> \<not> shell \<and> validate_exec_argv (xw_crates X) argv = Inr () \<and> bound_to X d (Some host))"
  by (intro conjI command_outcome [OF status_reports] command_outcome [OF refresh_reports]
      command_outcome [OF doctor_reports] command_outcome [OF exec_reports])
     (auto simp: run_exec_command_def bind_op_Inr split: if_splits
        intro: status_spoken [OF assms] refresh_spoken [OF assms] doctor_spoken [OF assms] exec_spoken [OF assms])

section \<open>A concrete controller\<close>

definition demo_command_world :: command_world where
  "demo_command_world =
     \<lparr>xw_inventory = demo_inventory_world, xw_manifest = demo_world, xw_identity = demo_identity_world,
      xw_env = (\<lambda>k. if k = ''STYRN_CONFIG_DIR'' then Some ''/styrn'' else None), xw_prepare = (\<lambda>_. ok_op ()),
      xw_keyscan = (\<lambda>_ _. Tool_done True demo_scan), xw_ssh = (\<lambda>_ _. Inl not_found), xw_now = id, xw_seconds = int,
      xw_elapsed = (\<lambda>a b. int a - int b), xw_answer = (\<lambda>_. None)\<rparr>"

lemma demo_command_sel [simp]:
  "xw_inventory demo_command_world = demo_inventory_world" "xw_env demo_command_world ''STYRN_CONFIG_DIR'' = Some ''/styrn''"
  "current_principal (w_host (xw_manifest demo_command_world)) t = Inr demo_principal"
  by (simp_all add: demo_command_world_def demo_world_def demo_host_def)

lemma demo_configured:
  "configured_inventory demo_command_world d = (Inr demo_inventory_store, d\<lparr>disk_clock := Suc (disk_clock d)\<rparr>)"
proof -
  have "validate_root_path ''/styrn'' = Inr [''styrn'']" by code_simp
  then show ?thesis
    by (simp add: configured_inventory_def bind_op_def at_clock_def lift_def configured_root_def store_at_root_def
        demo_inventory_store_def)
qed

text \<open>A host that is not enrolled is refused; the inventory of the example has \<open>atlas\<close> only.\<close>

theorem network_commands_bound_witness:
  "\<exists>e d'. host_status demo_command_world (Some ''other'') demo_inventory_disk = (Inl e, d') \<and> e \<noteq> Command_panic"
proof -
  have "document_on_disk demo_inventory_world demo_inventory_store demo_inventory_disk = Inr [demo_host_record]"
    by (rule demo_on_disk) (simp add: demo_inventory_disk_def demo_inventory_store_def is_inventory_def)
  moreover have "find_host [demo_host_record] ''other'' = None" by (simp add: find_host_def demo_host_record_def)
  ultimately have "\<not> bound_to demo_command_world demo_inventory_disk (Some ''other'')"
    by (auto simp: bound_to_def spoken_to_def demo_configured)
  moreover have "truthful (xw_inventory demo_command_world)" using demo_laws by (simp add: store_laws_def)
  ultimately show ?thesis
    using network_commands_bound [THEN conjunct1, of demo_command_world demo_inventory_disk "Some ''other''"]
    by (auto split: prod.splits sum.splits)
qed

text \<open>A user who does not answer enrolls nothing.\<close>

theorem enrollment_confirmed_witness:
  "\<exists>e d'. host_enroll demo_command_world ''atlas'' ''styrn'' None False True demo_inventory_disk = (Inl e, d') \<and> e \<noteq> Command_panic"
proof -
  have "store_laws (xw_inventory demo_command_world)" using demo_laws by simp
  moreover have "xw_answer demo_command_world t = None" for t by (simp add: demo_command_world_def)
  ultimately show ?thesis
    using enrollment_confirmed [where X = demo_command_world and host = "''atlas''" and user = "''styrn''" and
        fingerprint = None and json = False and terminal = True and d = demo_inventory_disk]
    by (auto split: prod.splits sum.splits)
qed

end
