(* ===== verification/SetupPlan.thy ===== *)
theory SetupPlan
  imports Probes PlainText
begin

text \<open>
  Setup planning (\<open>src/setup/plan/mod.rs\<close> and the plan-only actions of \<open>src/setup/action/mod.rs\<close>):
  action names and texts, desired changes with their cross links, the plan computed from an
  observation, and its dry-run rendering.
\<close>

section \<open>Actions\<close>

datatype privilege = No_privilege | Root_privilege | Admin_privilege

datatype plan_operation = Op_create | Op_reconfigure | Op_done | Op_needs_human | Op_skipped | Op_remove

datatype unsupported_operation = Revert | RenderPosix | RenderPowerShell

datatype action_error =
    InvalidActionName
  | InvalidDescription
  | InvalidInstructions
  | InvalidScriptFragment
  | InvalidDedicatedAccountSelection
  | CheckFailed string
  | ApplyFailed string
  | UnsupportedUntilPhase7 string unsupported_operation

definition action_error_id :: "action_error \<Rightarrow> string option" where
  "action_error_id e =
     (case e of
        CheckFailed action \<Rightarrow> Some action
      | ApplyFailed action \<Rightarrow> Some action
      | UnsupportedUntilPhase7 action _ \<Rightarrow> Some action
      | _ \<Rightarrow> None)"

definition safe_cause :: "action_error \<Rightarrow> string" where
  "safe_cause e =
     (case e of
        CheckFailed _ \<Rightarrow> ''action_check''
      | ApplyFailed _ \<Rightarrow> ''action_apply''
      | UnsupportedUntilPhase7 _ _ \<Rightarrow> ''action_unsupported''
      | _ \<Rightarrow> ''action_validation'')"

definition valid_action_name_segment :: "string \<Rightarrow> bool" where
  "valid_action_name_segment segment \<longleftrightarrow>
     (case segment of
        [] \<Rightarrow> False
      | first # rest \<Rightarrow>
          is_ascii_lowercase first \<and> \<not> ends_with ''-'' segment \<and>
          list_all (\<lambda>c. is_ascii_lowercase c \<or> is_ascii_digit c \<or> c = CHR ''-'') rest)"

definition valid_action_name :: "string \<Rightarrow> bool" where
  "valid_action_name t \<longleftrightarrow>
     2 \<le> length (split_on (CHR ''.'') t) \<and> list_all valid_action_name_segment (split_on (CHR ''.'') t)"

definition parse_action_name :: "crates \<Rightarrow> string \<Rightarrow> action_error + string" where
  "parse_action_name C t =
     (if valid_action_name t \<and> validate_static_text C t then Inr t else Inl InvalidActionName)"

definition checked_text :: "crates \<Rightarrow> string \<Rightarrow> action_error \<Rightarrow> action_error + string" where
  "checked_text C t e = (if validate_static_text C t then Inr t else Inl e)"

datatype needs_human_severity = Human_info | Human_warning | Human_error

record needs_human =
  nh_severity :: needs_human_severity
  nh_instructions :: string
  nh_fragment :: "string option"

datatype action_check = Check_done | Check_todo | Check_needs_human needs_human

record foundation_action =
  fa_name :: string
  fa_description :: string
  fa_privilege :: privilege
  fa_operation :: plan_operation
  fa_check :: action_check

definition planned :: "string \<Rightarrow> string \<Rightarrow> privilege \<Rightarrow> plan_operation \<Rightarrow> foundation_action" where
  "planned name description privilege operation =
     \<lparr>fa_name = name, fa_description = description, fa_privilege = privilege, fa_operation = operation,
      fa_check = (case operation of
          Op_create \<Rightarrow> Check_todo
        | Op_reconfigure \<Rightarrow> Check_todo
        | Op_remove \<Rightarrow> Check_todo
        | Op_done \<Rightarrow> Check_done
        | Op_skipped \<Rightarrow> Check_done
        | Op_needs_human \<Rightarrow>
            Check_needs_human \<lparr>nh_severity = Human_warning, nh_instructions = description, nh_fragment = None\<rparr>)\<rparr>"

section \<open>Desired changes\<close>

datatype plan_error =
    InvalidAction
  | InvalidComponent
  | InvalidCrossLink
  | DuplicateDesiredSubject
  | MissingObservation
  | UnknowableObservation
  | ExceptionalObservationMismatch

record desired_action =
  da_subject :: string
  da_name :: string
  da_description :: string
  da_privilege :: privilege
  da_operation :: plan_operation

definition new_desired_action ::
  "crates \<Rightarrow> string \<Rightarrow> string \<Rightarrow> string \<Rightarrow> privilege \<Rightarrow> plan_operation \<Rightarrow> plan_error + desired_action" where
  "new_desired_action C subject name description privilege operation =
     and_then (map_err (\<lambda>_. InvalidAction) (parse_action_name C name)) (\<lambda>name.
     and_then (map_err (\<lambda>_. InvalidAction) (checked_text C description InvalidDescription)) (\<lambda>description.
       Inr \<lparr>da_subject = subject, da_name = name, da_description = description, da_privilege = privilege,
            da_operation = operation\<rparr>))"

definition into_action :: "desired_action \<Rightarrow> foundation_action" where
  "into_action a = planned (da_name a) (da_description a) (da_privilege a) (da_operation a)"

datatype exceptional_observation = Required_absent | Required_human | Required_healthy

datatype desired_behavior =
    Converge desired_action desired_action desired_action
  | Exceptional desired_action exceptional_observation
  | AdoptOrDefer desired_action desired_action

record desired_change =
  dc_subject :: string
  dc_component :: string
  dc_behavior :: desired_behavior

definition parse_component_name :: "crates \<Rightarrow> string \<Rightarrow> plan_error + string" where
  "parse_component_name C t = (if validate_static_text C t then Inr t else Inl InvalidComponent)"

definition adopt_or_defer ::
  "crates \<Rightarrow> string \<Rightarrow> string \<Rightarrow> desired_action \<Rightarrow> desired_action \<Rightarrow> plan_error + desired_change" where
  "adopt_or_defer C subject component adopt defer_to =
     (if list_ex (\<lambda>a. da_subject a \<noteq> subject \<or> da_privilege a \<noteq> No_privilege) [adopt, defer_to]
         \<or> da_operation adopt \<noteq> Op_done \<or> da_operation defer_to \<noteq> Op_needs_human
      then Inl InvalidCrossLink
      else and_then (parse_component_name C component) (\<lambda>component.
             Inr \<lparr>dc_subject = subject, dc_component = component, dc_behavior = AdoptOrDefer adopt defer_to\<rparr>))"

definition converge ::
  "crates \<Rightarrow> string \<Rightarrow> string \<Rightarrow> desired_action \<Rightarrow> desired_action \<Rightarrow> desired_action \<Rightarrow> plan_error + desired_change" where
  "converge C subject component create repair finished =
     and_then (parse_component_name C component) (\<lambda>component.
       if list_ex (\<lambda>a. da_subject a \<noteq> subject) [create, repair, finished]
          \<or> da_operation create \<noteq> Op_create \<or> da_operation repair \<noteq> Op_reconfigure \<or> da_operation finished \<noteq> Op_done
       then Inl InvalidCrossLink
       else Inr \<lparr>dc_subject = subject, dc_component = component, dc_behavior = Converge create repair finished\<rparr>)"

definition exceptional ::
  "crates \<Rightarrow> string \<Rightarrow> string \<Rightarrow> desired_action \<Rightarrow> plan_operation \<Rightarrow> exceptional_observation \<Rightarrow>
     plan_error + desired_change" where
  "exceptional C subject component action expected required =
     (if da_subject action \<noteq> subject \<or> da_operation action \<noteq> expected then Inl InvalidCrossLink
      else and_then (parse_component_name C component) (\<lambda>component.
             Inr \<lparr>dc_subject = subject, dc_component = component, dc_behavior = Exceptional action required\<rparr>))"

definition change_needs_human :: "crates \<Rightarrow> string \<Rightarrow> string \<Rightarrow> desired_action \<Rightarrow> plan_error + desired_change" where
  "change_needs_human C subject component action = exceptional C subject component action Op_needs_human Required_human"

definition change_skipped :: "crates \<Rightarrow> string \<Rightarrow> string \<Rightarrow> desired_action \<Rightarrow> plan_error + desired_change" where
  "change_skipped C subject component action = exceptional C subject component action Op_skipped Required_absent"

definition change_remove :: "crates \<Rightarrow> string \<Rightarrow> string \<Rightarrow> desired_action \<Rightarrow> plan_error + desired_change" where
  "change_remove C subject component action = exceptional C subject component action Op_remove Required_healthy"

section \<open>The plan\<close>

definition is_healthy :: "probe_status \<Rightarrow> bool" where
  "is_healthy s \<longleftrightarrow>
     (case s of ProbePresent _ healthy \<Rightarrow> healthy | ProbeTailscale _ healthy _ \<Rightarrow> healthy | _ \<Rightarrow> False)"

definition is_unknowable :: "probe_status \<Rightarrow> bool" where
  "is_unknowable s \<longleftrightarrow> (case s of ProbeUnknowable _ \<Rightarrow> True | _ \<Rightarrow> False)"

definition tolerates_unknowable :: "desired_behavior \<Rightarrow> bool" where
  "tolerates_unknowable b \<longleftrightarrow>
     (case b of Exceptional _ required \<Rightarrow> required = Required_human | AdoptOrDefer _ _ \<Rightarrow> True | _ \<Rightarrow> False)"

definition matches_required :: "exceptional_observation \<Rightarrow> probe_status \<Rightarrow> bool" where
  "matches_required required s \<longleftrightarrow>
     (case required of
        Required_absent \<Rightarrow> s = ProbeAbsent
      | Required_human \<Rightarrow>
          (case s of ProbeAbsent \<Rightarrow> True | ProbeBroken _ \<Rightarrow> True | ProbeUnknowable _ \<Rightarrow> True | _ \<Rightarrow> False)
      | Required_healthy \<Rightarrow> is_healthy s)"

fun check_changes ::
  "probe_observation list \<Rightarrow> string set \<Rightarrow> desired_change list \<Rightarrow> plan_error + unit" where
  "check_changes observed subjects [] = Inr ()"
| "check_changes observed subjects (change # rest) =
     (if dc_subject change \<in> subjects then Inl DuplicateDesiredSubject
      else case observed_get observed (dc_subject change) of
             None \<Rightarrow> Inl MissingObservation
           | Some observation \<Rightarrow>
               if is_unknowable (ob_status observation) \<and> \<not> tolerates_unknowable (dc_behavior change)
               then Inl UnknowableObservation
               else if (case dc_behavior change of
                          Exceptional _ required \<Rightarrow> \<not> matches_required required (ob_status observation)
                        | _ \<Rightarrow> False)
                    then Inl ExceptionalObservationMismatch
                    else check_changes observed (insert (dc_subject change) subjects) rest)"

text \<open>\<open>None\<close> is the \<open>unreachable!\<close> of an unknowable observation.\<close>

definition chosen_action :: "desired_behavior \<Rightarrow> probe_status \<Rightarrow> desired_action option" where
  "chosen_action b s =
     (case b of
        Converge create repair finished \<Rightarrow>
          (case s of
             ProbeAbsent \<Rightarrow> Some create
           | ProbePresent _ healthy \<Rightarrow> Some (if healthy then finished else repair)
           | ProbeTailscale _ healthy _ \<Rightarrow> Some (if healthy then finished else repair)
           | ProbeBroken _ \<Rightarrow> Some repair
           | ProbeUnknowable _ \<Rightarrow> None)
      | Exceptional action _ \<Rightarrow> Some action
      | AdoptOrDefer adopt defer_to \<Rightarrow> Some (if is_healthy s then adopt else defer_to))"

record plan_entry =
  pl_subject :: string
  pl_component :: string
  pl_action :: foundation_action

definition entry_for :: "probe_observation list \<Rightarrow> desired_change \<Rightarrow> plan_entry option" where
  "entry_for observed change =
     Option.bind (observed_get observed (dc_subject change)) (\<lambda>observation.
     Option.bind (chosen_action (dc_behavior change) (ob_status observation)) (\<lambda>action.
       Some \<lparr>pl_subject = dc_subject change, pl_component = dc_component change, pl_action = into_action action\<rparr>))"

fun collect_entries :: "'a option list \<Rightarrow> 'a list option" where
  "collect_entries [] = Some []"
| "collect_entries (x # xs) = Option.bind x (\<lambda>y. map_option ((#) y) (collect_entries xs))"

text \<open>\<open>None\<close> is a panic; the theorem of this theory shows that there is none.\<close>

definition compute_plan :: "probe_observation list \<Rightarrow> desired_change list \<Rightarrow> (plan_error + plan_entry list) option" where
  "compute_plan observed desired =
     (case check_changes observed {} desired of
        Inl e \<Rightarrow> Some (Inl e)
      | Inr _ \<Rightarrow> map_option Inr (collect_entries (map (entry_for observed) desired)))"

section \<open>The dry run\<close>

definition display_operation :: "plan_operation \<Rightarrow> action_check \<Rightarrow> plan_operation" where
  "display_operation desired check =
     (case check of Check_done \<Rightarrow> Op_done | Check_todo \<Rightarrow> desired | Check_needs_human _ \<Rightarrow> Op_needs_human)"

primrec operation_mark :: "plan_operation \<Rightarrow> string" where
  "operation_mark Op_create = ''+''"
| "operation_mark Op_reconfigure = [CHR 0x7E]"
| "operation_mark Op_done = [CHR 0xE2, CHR 0x9C, CHR 0x93]"
| "operation_mark Op_needs_human = ''!''"
| "operation_mark Op_skipped = ''.''"
| "operation_mark Op_remove = ''-''"

primrec privilege_suffix :: "privilege \<Rightarrow> string" where
  "privilege_suffix No_privilege = []"
| "privilege_suffix Root_privilege = '' [sudo]''"
| "privilege_suffix Admin_privilege = '' [admin]''"

fun add_to_group ::
  "'c \<Rightarrow> 'e \<Rightarrow> ('c \<times> 'e list) list \<Rightarrow> ('c \<times> 'e list) list" where
  "add_to_group c e [] = [(c, [e])]"
| "add_to_group c e ((k, es) # groups) = (if k = c then (k, es @ [e]) # groups else (k, es) # add_to_group c e groups)"

definition shown_operation :: "plan_entry \<Rightarrow> plan_operation" where
  "shown_operation e = display_operation (fa_operation (pl_action e)) (fa_check (pl_action e))"

definition plan_groups :: "plan_entry list \<Rightarrow> (string \<times> (plan_entry \<times> plan_operation) list) list" where
  "plan_groups entries = foldl (\<lambda>groups e. add_to_group (pl_component e) (e, shown_operation e) groups) [] entries"

definition entry_line :: "plan_entry \<times> plan_operation \<Rightarrow> string" where
  "entry_line x =
     (case x of (e, operation) \<Rightarrow>
        ''  '' @ operation_mark operation @ '' '' @ fa_description (pl_action e) @
        privilege_suffix (fa_privilege (pl_action e)) @ [CHR 0x0A])"

definition format_plan :: "plan_entry list \<Rightarrow> string" where
  "format_plan entries =
     concat (map (\<lambda>(component, es). component @ '':'' @ [CHR 0x0A] @ concat (map entry_line es)) (plan_groups entries))"

text \<open>
  The writer is a parameter: the strings \<open>write_all\<close> accepts. Every check of an action succeeds here, so
  the rendering itself cannot fail; the whole text is written at once or not at all.
\<close>

datatype dry_run_error = DryRunPlan plan_error | DryRunAction action_error | DryRunWrite

definition render_dry_run :: "(string \<Rightarrow> bool) \<Rightarrow> plan_entry list \<Rightarrow> dry_run_error + string" where
  "render_dry_run writes plan = (if writes (format_plan plan) then Inr (format_plan plan) else Inl DryRunWrite)"

definition dry_run_observed ::
  "(string \<Rightarrow> bool) \<Rightarrow> probe_observation list \<Rightarrow> desired_change list \<Rightarrow>
     (dry_run_error + plan_entry list \<times> string) option" where
  "dry_run_observed writes observed desired =
     map_option (\<lambda>r. and_then (map_err DryRunPlan r) (\<lambda>plan.
       and_then (render_dry_run writes plan) (\<lambda>output. Inr (plan, output)))) (compute_plan observed desired)"

definition dry_run ::
  "crates \<Rightarrow> (string \<Rightarrow> bool) \<Rightarrow> worker_probe list \<Rightarrow> desired_change list \<Rightarrow>
     (dry_run_error + plan_entry list \<times> string) option" where
  "dry_run C writes catalog desired = dry_run_observed writes (observe C catalog) desired"

section \<open>What a plan is\<close>

text \<open>The action a behaviour asks for in an observed state; \<open>None\<close> where it must not be planned.\<close>

fun planned_action :: "desired_behavior \<Rightarrow> probe_status \<Rightarrow> desired_action option" where
  "planned_action (Converge create repair finished) s =
     (if s = ProbeAbsent then Some create
      else if is_unknowable s then None
      else if is_healthy s then Some finished else Some repair)"
| "planned_action (Exceptional action Required_absent) s = (if s = ProbeAbsent then Some action else None)"
| "planned_action (Exceptional action Required_healthy) s = (if is_healthy s then Some action else None)"
| "planned_action (Exceptional action Required_human) s =
     (if s = ProbeAbsent \<or> is_unknowable s \<or> (\<exists>reason. s = ProbeBroken reason) then Some action else None)"
| "planned_action (AdoptOrDefer adopt defer_to) s = (if is_healthy s then Some adopt else Some defer_to)"

definition change_outcome ::
  "probe_observation list \<Rightarrow> desired_change \<Rightarrow> plan_error + plan_entry" where
  "change_outcome observed change =
     (case observed_get observed (dc_subject change) of
        None \<Rightarrow> Inl MissingObservation
      | Some ob \<Rightarrow>
          (case planned_action (dc_behavior change) (ob_status ob) of
             None \<Rightarrow> Inl (if is_unknowable (ob_status ob) then UnknowableObservation
                          else ExceptionalObservationMismatch)
           | Some a \<Rightarrow> Inr \<lparr>pl_subject = dc_subject change, pl_component = dc_component change,
                            pl_action = into_action a\<rparr>))"

text \<open>The plan, change by change: a subject that came before is refused.\<close>

fun reference_plan ::
  "probe_observation list \<Rightarrow> string list \<Rightarrow> desired_change list \<Rightarrow> plan_error + plan_entry list" where
  "reference_plan observed before [] = Inr []"
| "reference_plan observed before (change # rest) =
     (if dc_subject change \<in> set before then Inl DuplicateDesiredSubject
      else and_then (change_outcome observed change) (\<lambda>e.
           and_then (reference_plan observed (dc_subject change # before) rest) (\<lambda>es. Inr (e # es))))"

lemma chosen_is_planned:
  "planned_action b s =
     (if is_unknowable s \<and> \<not> tolerates_unknowable b then None
      else case b of
             Exceptional a required \<Rightarrow> if matches_required required s then Some a else None
           | _ \<Rightarrow> chosen_action b s)"
  by (cases "(b, s)" rule: planned_action.cases)
    (auto simp: is_unknowable_def tolerates_unknowable_def matches_required_def chosen_action_def is_healthy_def
      split: probe_status.splits)

lemma chosen_when_planned: "planned_action b s = Some a \<Longrightarrow> chosen_action b s = Some a"
  unfolding chosen_is_planned by (auto simp: chosen_action_def split: if_splits desired_behavior.splits)

lemma matches_required_known:
  "is_unknowable s \<Longrightarrow> matches_required required s \<longleftrightarrow> required = Required_human"
  by (cases required; cases s) (auto simp: is_unknowable_def matches_required_def is_healthy_def)

lemma check_first:
  "check_changes observed (set before) (change # rest) =
     (if dc_subject change \<in> set before then Inl DuplicateDesiredSubject
      else and_then (change_outcome observed change) (\<lambda>_.
           check_changes observed (set (dc_subject change # before)) rest))"
proof (cases "observed_get observed (dc_subject change)")
  case None
  then show ?thesis by (simp add: change_outcome_def)
next
  case (Some ob)
  show ?thesis
    using Some
    by (cases "dc_behavior change"; cases "is_unknowable (ob_status ob)")
      (auto simp: change_outcome_def chosen_is_planned tolerates_unknowable_def matches_required_known
        chosen_action_def is_unknowable_def split: probe_status.splits if_splits)
qed

lemma entry_for_outcome: "change_outcome observed change = Inr e \<Longrightarrow> entry_for observed change = Some e"
  by (auto simp: change_outcome_def entry_for_def dest: chosen_when_planned split: option.splits)

lemma reference_plan_is_checked:
  "reference_plan observed before desired =
     (case check_changes observed (set before) desired of
        Inl e \<Rightarrow> Inl e
      | Inr _ \<Rightarrow> Inr (the (collect_entries (map (entry_for observed) desired)))) \<and>
   (\<forall>u. check_changes observed (set before) desired = Inr u \<longrightarrow>
        collect_entries (map (entry_for observed) desired) \<noteq> None)"
proof (induction desired arbitrary: before)
  case (Cons change rest)
  note ih = Cons.IH[of "dc_subject change # before"]
  show ?case
  proof (cases "dc_subject change \<in> set before")
    case False
    show ?thesis
    proof (cases "change_outcome observed change")
      case (Inr e)
      show ?thesis
        unfolding check_first reference_plan.simps
        using ih entry_for_outcome[OF Inr] False Inr
        by (auto split: sum.splits)
    qed (simp add: check_first False del: check_changes.simps)
  qed (simp add: check_first del: check_changes.simps)
qed simp

text \<open>
  C20. The plan of a desired state is total and exact: \<open>SetupPlan::compute\<close> never reaches its
  \<open>expect\<close> or its \<open>unreachable!\<close>, and its result is, change by change and in their order, the action
  the change asks for in the observed state, or the error of the first change that repeats a subject, has
  no observation, or meets a state it must not act on.
\<close>

theorem setup_plan_exact: "compute_plan observed desired = Some (reference_plan observed [] desired)"
  using reference_plan_is_checked[of observed "[]" desired]
  by (auto simp: compute_plan_def split: sum.splits)

section \<open>What a dry run shows\<close>

text \<open>A desired change comes from one of the five constructors.\<close>

definition constructed :: "crates \<Rightarrow> desired_change \<Rightarrow> bool" where
  "constructed C change \<longleftrightarrow>
     (\<exists>subject component a b c.
        converge C subject component a b c = Inr change \<or> adopt_or_defer C subject component a b = Inr change \<or>
        change_needs_human C subject component a = Inr change \<or> change_skipped C subject component a = Inr change \<or>
        change_remove C subject component a = Inr change)"

text \<open>The operation each kind of change promises in an observed state.\<close>

fun promised_operation :: "desired_behavior \<Rightarrow> probe_status \<Rightarrow> plan_operation" where
  "promised_operation (Converge _ _ _) s =
     (if s = ProbeAbsent then Op_create else if is_healthy s then Op_done else Op_reconfigure)"
| "promised_operation (Exceptional _ Required_absent) s = Op_done"
| "promised_operation (Exceptional _ Required_human) s = Op_needs_human"
| "promised_operation (Exceptional _ Required_healthy) s = Op_remove"
| "promised_operation (AdoptOrDefer _ _) s = (if is_healthy s then Op_done else Op_needs_human)"

fun well_linked :: "desired_behavior \<Rightarrow> bool" where
  "well_linked (Converge create repair finished) \<longleftrightarrow>
     da_operation create = Op_create \<and> da_operation repair = Op_reconfigure \<and> da_operation finished = Op_done"
| "well_linked (Exceptional action Required_absent) \<longleftrightarrow> da_operation action = Op_skipped"
| "well_linked (Exceptional action Required_human) \<longleftrightarrow> da_operation action = Op_needs_human"
| "well_linked (Exceptional action Required_healthy) \<longleftrightarrow> da_operation action = Op_remove"
| "well_linked (AdoptOrDefer adopt defer_to) \<longleftrightarrow> da_operation adopt = Op_done \<and> da_operation defer_to = Op_needs_human"

lemma constructed_linked: "constructed C change \<Longrightarrow> well_linked (dc_behavior change)"
  by (auto simp: constructed_def converge_def adopt_or_defer_def exceptional_def change_needs_human_def
      change_skipped_def change_remove_def result_simps split: if_splits)

lemma shown_into_action:
  "shown_operation \<lparr>pl_subject = i, pl_component = c, pl_action = into_action a\<rparr> =
     (if da_operation a = Op_skipped then Op_done else da_operation a)"
  by (cases "da_operation a") (simp_all add: shown_operation_def into_action_def planned_def display_operation_def)

lemma promised_shown:
  "well_linked b \<Longrightarrow> planned_action b s = Some a \<Longrightarrow>
     shown_operation \<lparr>pl_subject = i, pl_component = c, pl_action = into_action a\<rparr> = promised_operation b s"
  by (cases "(b, s)" rule: planned_action.cases) (auto simp: shown_into_action split: if_splits)

text \<open>An entry and the change it stands for.\<close>

definition carries_out :: "probe_observation list \<Rightarrow> desired_change \<Rightarrow> plan_entry \<Rightarrow> bool" where
  "carries_out observed change e \<longleftrightarrow>
     pl_subject e = dc_subject change \<and> pl_component e = dc_component change \<and>
     (case observed_get observed (dc_subject change) of
        None \<Rightarrow> False
      | Some ob \<Rightarrow> shown_operation e = promised_operation (dc_behavior change) (ob_status ob))"

lemma outcome_carries_out:
  assumes "change_outcome observed change = Inr e" and "constructed C change"
  shows "carries_out observed change e"
  using assms(1) promised_shown[OF constructed_linked[OF assms(2)]]
  by (auto simp: change_outcome_def carries_out_def split: option.splits)

lemma reference_carries_out:
  "reference_plan observed before desired = Inr plan \<Longrightarrow> \<forall>change\<in>set desired. constructed C change \<Longrightarrow>
     list_all2 (carries_out observed) desired plan \<and>
     distinct (map dc_subject desired) \<and> set (map dc_subject desired) \<inter> set before = {}"
  by (induction observed before desired arbitrary: plan rule: reference_plan.induct)
    (fastforce simp: result_simps intro: outcome_carries_out split: if_splits)+

lemma promised_not_skipped: "promised_operation b s \<noteq> Op_skipped"
  by (cases "(b, s)" rule: promised_operation.cases) auto

lemma carried_not_skipped:
  "list_all2 (carries_out observed) desired plan \<Longrightarrow> Op_skipped \<notin> shown_operation ` set plan"
proof (induction rule: list_all2_induct)
  case (Cons change changes e es)
  have "shown_operation e \<noteq> Op_skipped"
    using Cons.hyps(1) by (auto simp: carries_out_def promised_not_skipped split: option.splits)
  then show ?case using Cons.IH by auto
qed simp


definition demo_tool_action :: "plan_operation \<Rightarrow> desired_action" where
  "demo_tool_action operation =
     \<lparr>da_subject = ''tool.git'', da_name = ''tool.git'', da_description = ''git'', da_privilege = No_privilege,
      da_operation = operation\<rparr>"

definition demo_change :: desired_change where
  "demo_change =
     \<lparr>dc_subject = ''tool.git'', dc_component = ''tools'',
      dc_behavior = Exceptional (demo_tool_action Op_skipped) Required_absent\<rparr>"

definition demo_absent :: "probe_observation list" where
  "demo_absent =
     [\<lparr>ob_descriptor = \<lparr>pd_id = ''tool.git'', pd_label = ''git'', pd_severity = InfoSeverity, pd_remediation = None\<rparr>, ob_status = ProbeAbsent\<rparr>]"

lemma demo_constructed: "\<forall>change\<in>set [demo_change]. constructed demo_crates change"
proof -
  have "plain_sentence [''tools'']" by code_simp
  then have "validate_static_text demo_crates ''tools''"
    using sentence_safe[of "[''tools'']"] by (simp add: validate_static_text_def sentence_def)
  then have "change_skipped demo_crates ''tool.git'' ''tools'' (demo_tool_action Op_skipped) = Inr demo_change"
    by (simp add: change_skipped_def exceptional_def parse_component_name_def demo_change_def demo_tool_action_def)
  then show ?thesis by (auto simp: constructed_def)
qed

lemma demo_dry_run:
  "dry_run_observed (\<lambda>_. True) demo_absent [demo_change] =
     Some (Inr ([\<lparr>pl_subject = ''tool.git'', pl_component = ''tools'',
                 pl_action = into_action (demo_tool_action Op_skipped)\<rparr>],
       ''tools:'' @ [CHR 0x0A] @ ''  '' @ operation_mark Op_done @ '' git'' @ [CHR 0x0A]))"
  by code_simp


text \<open>The reference layout: one block per component, in the order of first appearance.\<close>

definition first_occurrences :: "'a list \<Rightarrow> 'a list" where
  "first_occurrences xs = rev (remdups (rev xs))"

definition component_block :: "plan_entry list \<Rightarrow> string \<Rightarrow> (plan_entry \<times> plan_operation) list" where
  "component_block entries component =
     map (\<lambda>e. (e, shown_operation e)) (filter (\<lambda>e. pl_component e = component) entries)"

definition reference_layout :: "plan_entry list \<Rightarrow> string" where
  "reference_layout entries =
     concat (map (\<lambda>component. component @ '':'' @ [CHR 0x0A] @ concat (map entry_line (component_block entries component)))
       (first_occurrences (map pl_component entries)))"

lemma first_occurrences_snoc:
  "first_occurrences (xs @ [x]) = (if x \<in> set xs then first_occurrences xs else first_occurrences xs @ [x])"
  by (simp add: first_occurrences_def)

lemma set_first_occurrences [simp]: "set (first_occurrences xs) = set xs"
  and distinct_first_occurrences [simp]: "distinct (first_occurrences xs)"
  by (simp_all add: first_occurrences_def)

lemma add_to_group_map:
  "distinct ks \<Longrightarrow>
     add_to_group c e (map (\<lambda>k. (k, f k)) ks) =
       (if c \<in> set ks then map (\<lambda>k. (k, if k = c then f k @ [e] else f k)) ks
        else map (\<lambda>k. (k, f k)) ks @ [(c, [e])])"
  by (induction ks) auto

lemma plan_groups_blocks:
  "plan_groups entries =
     map (\<lambda>c. (c, component_block entries c)) (first_occurrences (map pl_component entries))"
proof (induction entries rule: rev_induct)
  case Nil
  show ?case by (simp add: plan_groups_def first_occurrences_def)
next
  case (snoc e es)
  have empty: "component_block es (pl_component e) = []" if "pl_component e \<notin> set (map pl_component es)"
    using that by (simp add: component_block_def filter_empty_conv) (metis image_iff)
  have "plan_groups (es @ [e]) = add_to_group (pl_component e) (e, shown_operation e) (plan_groups es)"
    by (simp add: plan_groups_def)
  also have "\<dots> = map (\<lambda>c. (c, component_block (es @ [e]) c))
      (first_occurrences (map pl_component es @ [pl_component e]))"
    unfolding snoc.IH first_occurrences_snoc
    using empty by (auto simp: add_to_group_map component_block_def intro!: map_cong)
  finally show ?case by simp
qed

lemma sum_blocks:
  "distinct ks \<Longrightarrow> (\<Sum>c\<leftarrow>ks. count_list (map fst (component_block entries c)) e) =
     (if pl_component e \<in> set ks then count_list entries e else 0)"
proof (induction ks)
  case (Cons k ks)
  have "count_list (map fst (component_block entries k)) e = (if pl_component e = k then count_list entries e else 0)"
    by (induction entries) (auto simp: component_block_def)
  then show ?case using Cons by auto
qed simp

text \<open>
  The dry run prints one block per component, in the order in which the components first appear in the
  plan; in a block the component's entries stand in plan order, each with the mark of the operation shown
  and the badge of its privilege, and every entry of the plan is printed as often as it occurs in it.
\<close>

theorem dry_run_layout:
  "format_plan entries = reference_layout entries \<and>
   (\<Sum>group\<leftarrow>plan_groups entries. count_list (map fst (snd group)) e) = count_list entries e"
proof
  show "format_plan entries = reference_layout entries"
    by (simp add: format_plan_def reference_layout_def plan_groups_blocks o_def)
  have "(\<Sum>group\<leftarrow>plan_groups entries. count_list (map fst (snd group)) e) =
      (if pl_component e \<in> set (map pl_component entries) then count_list entries e else 0)"
    by (simp only: plan_groups_blocks map_map o_def snd_conv sum_blocks[OF distinct_first_occurrences]
        set_first_occurrences)
  also have "\<dots> = count_list entries e" by (auto simp: count_list_0_iff)
  finally show "(\<Sum>group\<leftarrow>plan_groups entries. count_list (map fst (snd group)) e) = count_list entries e" .
qed

end
