(* ===== verification/ReceiptTypes.thy ===== *)
theory ReceiptTypes
  imports SetupPlan WorkerLayout
begin

text \<open>
  The entries of the setup receipt (\<open>src/setup/receipt/mod.rs\<close>): identifiers, recorded paths and
  digests, the parameters of each action, what an action changed, and every check an entry has to pass.
  The operating system the code is compiled for, its rule for account names, the crates and the pretty printer of
  \<open>serde_json\<close> (\<open>to_vec_pretty\<close>) are one record.
\<close>

section \<open>Environment\<close>

record receipt_env =
  re_crates :: crates
  re_os :: operating_system
  re_account_name :: "string \<Rightarrow> bool"
  re_pretty :: "json \<Rightarrow> string"

section \<open>Errors\<close>

datatype receipt_error =
    ReceiptParse
  | ReceiptSerialize
  | UnknownSchemaVersion
  | MissingInstallationScope
  | PrivilegeOutsideScope
  | DuplicateEntryId
  | DuplicatePendingPublicationId
  | DuplicatePendingPublicationTimestamp
  | DuplicatePendingPublicationLink
  | InvalidPendingPublicationLink
  | InvalidPendingPublicationOrder
  | InvalidEntryId
  | InvalidActionIdentifier
  | InvalidWorkerDirectoryAction
  | InvalidCurrentUserSshAction
  | InvalidDedicatedAccountPrerequisite
  | InvalidDeferredSystemAction
  | InvalidScopePromotion
  | InvalidWorkerPrincipal
  | InvalidTimestamp
  | InvalidRecordedPath
  | InvalidSha256
  | InvalidResourceIdentifier
  | ConflictingResources
  | InvalidPendingEntry
  | InvalidProvenanceUrl
  | InvalidVersionIdentifier
  | MetadataUnavailable

section \<open>Text values\<close>

definition safe_text :: "receipt_env \<Rightarrow> string \<Rightarrow> bool" where
  "safe_text E value \<longleftrightarrow> length value \<le> 4096 \<and> validate_static_text (re_crates E) value"

definition validate_entry_id :: "receipt_env \<Rightarrow> string \<Rightarrow> receipt_error + unit" where
  "validate_entry_id E value =
     (case uuid_parse (re_crates E) value of
        None \<Rightarrow> Inl InvalidEntryId
      | Some i \<Rightarrow>
          if uuid_version (re_crates E) i \<noteq> 7 \<or> uuid_text (re_crates E) i \<noteq> value then Inl InvalidEntryId
          else Inr ())"

definition valid_action_segment :: "string \<Rightarrow> bool" where
  "valid_action_segment segment \<longleftrightarrow>
     (case segment of
        [] \<Rightarrow> False
      | first # rest \<Rightarrow>
          is_ascii_lowercase first \<and> \<not> ends_with ''-'' segment \<and>
          list_all (\<lambda>c. is_ascii_lowercase c \<or> is_ascii_digit c \<or> c = CHR ''-'') rest)"

definition validate_action_identifier :: "receipt_env \<Rightarrow> string \<Rightarrow> receipt_error + unit" where
  "validate_action_identifier E value =
     (case split_on (CHR ''.'') value of
        [] \<Rightarrow> Inl InvalidActionIdentifier
      | first # segments \<Rightarrow>
          if \<not> valid_action_segment first \<or> segments = [] \<or> \<not> list_all valid_action_segment segments
             \<or> \<not> safe_text E value
          then Inl InvalidActionIdentifier else Inr ())"

text \<open>A text that ends with \<open>Z\<close> has the offset zero, so the offset needs no check of its own.\<close>

definition validate_timestamp :: "receipt_env \<Rightarrow> string \<Rightarrow> receipt_error + unit" where
  "validate_timestamp E value =
     (case rfc3339_parse (re_crates E) value of
        None \<Rightarrow> Inl InvalidTimestamp
      | Some t \<Rightarrow>
          if \<not> ends_with ''Z'' value \<or> rfc3339_text (re_crates E) t \<noteq> value then Inl InvalidTimestamp
          else Inr ())"

definition is_normalized_unix_path :: "string \<Rightarrow> bool" where
  "is_normalized_unix_path value \<longleftrightarrow>
     starts_with ''/'' value \<and>
     (value = ''/'' \<or>
      (\<not> ends_with ''/'' value \<and> \<not> contains ''//'' value \<and>
       list_all (\<lambda>segment. segment \<noteq> [] \<and> segment \<noteq> ''.'' \<and> segment \<noteq> ''..'')
         (drop 1 (split_on (CHR ''/'') value))))"

definition recorded_segment_ok :: "string \<Rightarrow> bool" where
  "recorded_segment_ok segment \<longleftrightarrow>
     segment \<noteq> [] \<and> segment \<noteq> ''.'' \<and> segment \<noteq> ''..'' \<and> CHR '':'' \<notin> set segment
     \<and> last segment \<noteq> CHR ''.'' \<and> last segment \<noteq> CHR '' ''
     \<and> \<not> list_ex (\<lambda>c. c \<in> {CHR ''<'', CHR ''>'', CHR 0x22, CHR ''|'', CHR ''?'', CHR ''*''}) segment
     \<and> \<not> is_reserved_windows_device_name segment"

definition is_normalized_windows_path :: "string \<Rightarrow> bool" where
  "is_normalized_windows_path value \<longleftrightarrow>
     3 \<le> length value \<and> is_ascii_alphabetic (value ! 0) \<and> value ! 1 = CHR '':'' \<and> value ! 2 = CHR 0x5C
     \<and> \<not> starts_with [CHR 0x5C, CHR 0x5C] value
     \<and> \<not> starts_with [CHR 0x5C, CHR 0x5C, CHR ''?'', CHR 0x5C] value
     \<and> \<not> starts_with [CHR 0x5C, CHR 0x5C, CHR ''.'', CHR 0x5C] value
     \<and> \<not> contains ''/'' value \<and> \<not> ends_with [CHR 0x5C] value \<and> \<not> contains [CHR 0x5C, CHR 0x5C] value
     \<and> list_all recorded_segment_ok (drop 1 (split_on (CHR 0x5C) value))"

definition is_normalized_absolute_path :: "receipt_env \<Rightarrow> string \<Rightarrow> bool" where
  "is_normalized_absolute_path E value \<longleftrightarrow>
     (case re_os E of Windows \<Rightarrow> is_normalized_windows_path value | _ \<Rightarrow> is_normalized_unix_path value)"

definition validate_recorded_path :: "receipt_env \<Rightarrow> string \<Rightarrow> receipt_error + unit" where
  "validate_recorded_path E value =
     (if \<not> safe_text E value \<or> \<not> is_normalized_absolute_path E value then Inl InvalidRecordedPath else Inr ())"

definition validate_sha256 :: "string \<Rightarrow> receipt_error + unit" where
  "validate_sha256 value =
     (if length value \<noteq> 64 \<or> \<not> list_all (\<lambda>b. is_ascii_digit b \<or> (97 \<le> byte b \<and> byte b \<le> 102)) value
      then Inl InvalidSha256 else Inr ())"

definition validate_resource_identifier :: "receipt_env \<Rightarrow> string \<Rightarrow> receipt_error + unit" where
  "validate_resource_identifier E value =
     (if value = [] \<or> 512 < length value \<or> \<not> safe_text E value then Inl InvalidResourceIdentifier else Inr ())"

definition validate_registry_key :: "receipt_env \<Rightarrow> string \<Rightarrow> receipt_error + unit" where
  "validate_registry_key E value =
     and_then (validate_resource_identifier E value) (\<lambda>_.
       if \<not> starts_with (''HKLM'' @ [CHR 0x5C]) value \<and> \<not> starts_with (''HKEY_LOCAL_MACHINE'' @ [CHR 0x5C]) value
       then Inl InvalidResourceIdentifier else Inr ())"

definition valid_port :: "string \<Rightarrow> bool" where
  "valid_port port \<longleftrightarrow>
     port \<noteq> [] \<and> list_all is_ascii_digit port \<and>
     is_some_and (\<lambda>n. n \<noteq> 0) (parse_unsigned 65535 port)"

definition valid_optional_port :: "string \<Rightarrow> bool" where
  "valid_optional_port rest \<longleftrightarrow> rest = [] \<or> is_some_and valid_port (strip_prefix '':'' rest)"

definition valid_host_label :: "string \<Rightarrow> bool" where
  "valid_host_label label \<longleftrightarrow>
     label \<noteq> [] \<and> \<not> starts_with ''-'' label \<and> \<not> ends_with ''-'' label \<and>
     list_all (\<lambda>b. is_ascii_alphanumeric b \<or> b = CHR ''-'') label"

definition valid_https_host :: "string \<Rightarrow> bool" where
  "valid_https_host host \<longleftrightarrow>
     host \<noteq> [] \<and> \<not> starts_with ''.'' host \<and> \<not> ends_with ''.'' host \<and>
     list_all valid_host_label (split_on (CHR ''.'') host)"

text \<open>\<open>rsplit_once\<close> splits at the last separator.\<close>

definition rsplit_once :: "char \<Rightarrow> string \<Rightarrow> (string \<times> string) option" where
  "rsplit_once c s = map_option (\<lambda>(a, b). (rev b, rev a)) (split_once c (rev s))"

definition valid_https_authority :: "string \<Rightarrow> bool" where
  "valid_https_authority authority \<longleftrightarrow>
     (case strip_prefix ''['' authority of
        Some ipv6 \<Rightarrow>
          (case split_once (CHR '']'') ipv6 of
             None \<Rightarrow> False
           | Some (host, rest) \<Rightarrow> is_ipv6_addr host \<and> valid_optional_port rest)
      | None \<Rightarrow>
          (case rsplit_once (CHR '':'') authority of
             None \<Rightarrow> valid_https_host authority
           | Some (host, port) \<Rightarrow> port \<noteq> [] \<and> valid_https_host host \<and> valid_port port))"

definition validate_https_url :: "receipt_env \<Rightarrow> string \<Rightarrow> receipt_error + unit" where
  "validate_https_url E value =
     (case strip_prefix ''https://'' value of
        None \<Rightarrow> Inl InvalidProvenanceUrl
      | Some remainder \<Rightarrow>
          (let authority = takeWhile (\<lambda>c. c \<notin> {CHR ''/'', CHR ''?'', CHR ''#''}) remainder
           in if \<not> safe_text E value \<or> \<not> list_all (\<lambda>c. byte c < 128) value \<or> CHR 0x5C \<in> set value
                 \<or> CHR ''#'' \<in> set value \<or> authority = [] \<or> CHR ''@'' \<in> set authority
                 \<or> list_ex is_whitespace (chars authority) \<or> \<not> valid_https_authority authority
              then Inl InvalidProvenanceUrl else Inr ()))"

definition validate_version_identifier :: "receipt_env \<Rightarrow> string \<Rightarrow> receipt_error + unit" where
  "validate_version_identifier E value =
     (if 128 < length value \<or> \<not> safe_text E value \<or> value = [] \<or> \<not> is_ascii_alphanumeric (hd value)
         \<or> \<not> list_all (\<lambda>b. is_ascii_alphanumeric b \<or> b \<in> {CHR ''.'', CHR ''_'', CHR ''+'', CHR ''-''}) value
      then Inl InvalidVersionIdentifier else Inr ())"

text \<open>\<open>manifest_digest\<close>: the digest in lowercase hexadecimal.\<close>

definition lower_hex :: "string \<Rightarrow> string" where
  "lower_hex bytes = concat (map (\<lambda>b. [hex_digit (byte b div 16), hex_digit (byte b mod 16)]) bytes)"

definition manifest_digest :: "receipt_env \<Rightarrow> string \<Rightarrow> string" where
  "manifest_digest E bytes = lower_hex (sha256 (re_crates E) bytes)"

section \<open>Paths by components\<close>

text \<open>
  \<open>Path\<close> compares by components: on Windows the drive letter without its case. These are applied to
  recorded paths, which are normalized.
\<close>

definition recorded_components :: "receipt_env \<Rightarrow> string \<Rightarrow> string list" where
  "recorded_components E value =
     (case re_os E of
        Windows \<Rightarrow>
          (case split_on (CHR 0x5C) value of
             [] \<Rightarrow> []
           | drive # segments \<Rightarrow> to_ascii_uppercase drive # filter (\<lambda>c. c \<noteq> [] \<and> c \<noteq> ''.'') segments)
      | _ \<Rightarrow> normal_components value)"

definition recorded_file_name :: "receipt_env \<Rightarrow> string \<Rightarrow> string option" where
  "recorded_file_name E value =
     (let cs = (case re_os E of Windows \<Rightarrow> drop 1 (recorded_components E value) | _ \<Rightarrow> recorded_components E value)
      in if cs = [] \<or> last cs = ''..'' then None else Some (last cs))"

section \<open>Parameters of the actions\<close>

record receipt_principal =
  rp_policy :: account_policy
  rp_kind :: principal_kind
  rp_id :: string
  rp_name :: string

definition from_worker_principal :: "worker_principal \<Rightarrow> receipt_principal" where
  "from_worker_principal p = \<lparr>rp_policy = wp_policy p, rp_kind = wp_kind p, rp_id = wp_id p, rp_name = wp_name p\<rparr>"

definition principal_kind_is_native :: "receipt_env \<Rightarrow> principal_kind \<Rightarrow> bool" where
  "principal_kind_is_native E kind \<longleftrightarrow> kind = (case re_os E of Windows \<Rightarrow> WindowsSid | _ \<Rightarrow> UnixUid)"

definition to_worker_principal :: "receipt_env \<Rightarrow> receipt_principal \<Rightarrow> receipt_error + worker_principal" where
  "to_worker_principal E p =
     (if \<not> safe_text E (rp_id p) \<or> \<not> safe_text E (rp_name p) \<or> \<not> principal_kind_is_native E (rp_kind p)
      then Inl InvalidWorkerPrincipal
      else map_err (\<lambda>_. InvalidWorkerPrincipal)
             (new_worker_principal (rp_kind p) (rp_id p) (rp_name p) (rp_policy p)))"

definition validate_receipt_principal :: "receipt_env \<Rightarrow> receipt_principal \<Rightarrow> receipt_error + unit" where
  "validate_receipt_principal E p = and_then (to_worker_principal E p) (\<lambda>_. Inr ())"

record ssh_parameters =
  sp_action_id :: string
  sp_principal :: receipt_principal
  sp_directory :: string
  sp_path :: string
  sp_stanza_id :: "string option"
  sp_stanza_sha256 :: "string option"

definition optional :: "('a \<Rightarrow> 'e + unit) \<Rightarrow> 'a option \<Rightarrow> 'e + unit" where
  "optional f x = (case x of None \<Rightarrow> Inr () | Some y \<Rightarrow> f y)"

definition validate_ssh_parameters :: "receipt_env \<Rightarrow> ssh_parameters \<Rightarrow> receipt_error + unit" where
  "validate_ssh_parameters E p =
     and_then (validate_action_identifier E (sp_action_id p)) (\<lambda>_.
     and_then (validate_receipt_principal E (sp_principal p)) (\<lambda>_.
     and_then (validate_recorded_path E (sp_directory p)) (\<lambda>_.
     and_then (validate_recorded_path E (sp_path p)) (\<lambda>_.
     and_then (optional validate_sha256 (sp_stanza_id p)) (\<lambda>_.
     and_then (optional validate_sha256 (sp_stanza_sha256 p)) (\<lambda>_.
       if (sp_stanza_id p \<noteq> None) \<noteq> (sp_stanza_sha256 p \<noteq> None) then Inl InvalidCurrentUserSshAction
       else if rp_policy (sp_principal p) \<noteq> CurrentUserPolicy
               \<or> recorded_file_name E (sp_directory p) \<noteq> Some ''.ssh''
       then Inl InvalidCurrentUserSshAction
       else and_then
              (if sp_action_id p = ''ssh.directory'' \<and> sp_stanza_id p = None
               then Inr (recorded_components E (sp_directory p))
               else if sp_action_id p = ''ssh.authorized-keys''
               then Inr (recorded_components E (sp_directory p) @ [''authorized_keys''])
               else Inl InvalidCurrentUserSshAction) (\<lambda>expected.
            if recorded_components E (sp_path p) \<noteq> expected then Inl InvalidCurrentUserSshAction
            else Inr ())))))))"

record prerequisite_parameters =
  dp_action_id :: string
  dp_target_scope :: installation_scope
  dp_selector :: string

definition dedicated_account_prerequisite_action_id :: "receipt_env \<Rightarrow> string \<Rightarrow> action_error + string" where
  "dedicated_account_prerequisite_action_id E name =
     parse_action_name (re_crates E)
       (''identity.account.dedicated.sha256-'' @ lower_hex (sha256 (re_crates E) name))"

definition validate_prerequisite_parameters ::
  "receipt_env \<Rightarrow> prerequisite_parameters \<Rightarrow> receipt_error + unit" where
  "validate_prerequisite_parameters E p =
     and_then (validate_action_identifier E (dp_action_id p)) (\<lambda>_.
       if dp_target_scope p \<noteq> SystemScope then Inl InvalidDedicatedAccountPrerequisite
       else and_then (map_err (\<lambda>_. InvalidDedicatedAccountPrerequisite)
                        (new_dedicated_account_spec (re_account_name E) (dp_selector p))) (\<lambda>name.
            and_then (map_err (\<lambda>_. InvalidDedicatedAccountPrerequisite)
                        (dedicated_account_prerequisite_action_id E name)) (\<lambda>expected.
              if dp_action_id p \<noteq> expected then Inl InvalidDedicatedAccountPrerequisite else Inr ())))"

record deferred_parameters =
  de_action_id :: string
  de_target_scope :: installation_scope
  de_target_principal :: receipt_principal
  de_parameter_sha256 :: string

definition validate_deferred_parameters :: "receipt_env \<Rightarrow> deferred_parameters \<Rightarrow> receipt_error + unit" where
  "validate_deferred_parameters E p =
     and_then (validate_action_identifier E (de_action_id p)) (\<lambda>_.
     and_then (validate_receipt_principal E (de_target_principal p)) (\<lambda>_.
     and_then (validate_sha256 (de_parameter_sha256 p)) (\<lambda>_.
       if de_target_scope p \<noteq> SystemScope \<or> rp_policy (de_target_principal p) \<noteq> DedicatedPolicy
       then Inl InvalidDeferredSystemAction else Inr ())))"

record promotion_parameters =
  pp_action_id :: string
  pp_machine_id :: string
  pp_source_scope :: installation_scope
  pp_target_scope :: installation_scope
  pp_user_manifest_path :: string
  pp_user_manifest_sha256 :: string
  pp_system_manifest_path :: string
  pp_system_manifest_sha256 :: string
  pp_system_manifest_identity_sha256 :: "string option"
  pp_system_receipt_path :: "string option"
  pp_system_receipt_sha256 :: "string option"
  pp_system_receipt_identity_sha256 :: "string option"
  pp_authorization_request_id :: "string option"
  pp_authorization_request_sha256 :: "string option"
  pp_authorization_record_path :: "string option"
  pp_authorization_record_sha256 :: "string option"
  pp_authorization_record_identity_sha256 :: "string option"
  pp_promotion_intent_path :: "string option"
  pp_promotion_intent_sha256 :: "string option"
  pp_promotion_intent_identity_sha256 :: "string option"
  pp_completion_record_path :: "string option"
  pp_completion_record_sha256 :: "string option"
  pp_completion_record_identity_sha256 :: "string option"
  pp_original_operator :: receipt_principal
  pp_target_principal :: receipt_principal
  pp_selector_sha256 :: string
  pp_promotion_intent_id :: string

text \<open>The evidence of a protected promotion, with the check of each part: all of it or none.\<close>

definition promotion_evidence ::
  "receipt_env \<Rightarrow> promotion_parameters \<Rightarrow> (string option \<times> (string \<Rightarrow> receipt_error + unit)) list" where
  "promotion_evidence E p =
     [(pp_system_manifest_identity_sha256 p, validate_sha256),
      (pp_system_receipt_path p, validate_recorded_path E),
      (pp_system_receipt_sha256 p, validate_sha256),
      (pp_system_receipt_identity_sha256 p, validate_sha256),
      (pp_authorization_request_id p, validate_entry_id E),
      (pp_authorization_request_sha256 p, validate_sha256),
      (pp_authorization_record_path p, validate_recorded_path E),
      (pp_authorization_record_sha256 p, validate_sha256),
      (pp_authorization_record_identity_sha256 p, validate_sha256),
      (pp_promotion_intent_path p, validate_recorded_path E),
      (pp_promotion_intent_sha256 p, validate_sha256),
      (pp_promotion_intent_identity_sha256 p, validate_sha256),
      (pp_completion_record_path p, validate_recorded_path E),
      (pp_completion_record_sha256 p, validate_sha256),
      (pp_completion_record_identity_sha256 p, validate_sha256)]"

definition validate_promotion_evidence ::
  "(string option \<times> (string \<Rightarrow> receipt_error + unit)) list \<Rightarrow> receipt_error + unit" where
  "validate_promotion_evidence evidence =
     (if list_all (\<lambda>(x, _). x \<noteq> None) evidence then check_all (\<lambda>(x, check). optional check x) evidence
      else if list_all (\<lambda>(x, _). x = None) evidence then Inr ()
      else Inl InvalidScopePromotion)"

definition validate_promotion_parameters ::
  "receipt_env \<Rightarrow> promotion_parameters \<Rightarrow> receipt_error + unit" where
  "validate_promotion_parameters E p =
     and_then (validate_action_identifier E (pp_action_id p)) (\<lambda>_.
     and_then (validate_entry_id E (pp_machine_id p)) (\<lambda>_.
     and_then (validate_recorded_path E (pp_user_manifest_path p)) (\<lambda>_.
     and_then (validate_sha256 (pp_user_manifest_sha256 p)) (\<lambda>_.
     and_then (validate_recorded_path E (pp_system_manifest_path p)) (\<lambda>_.
     and_then (validate_sha256 (pp_system_manifest_sha256 p)) (\<lambda>_.
     and_then (validate_promotion_evidence (promotion_evidence E p)) (\<lambda>_.
     and_then (validate_receipt_principal E (pp_original_operator p)) (\<lambda>_.
     and_then (validate_receipt_principal E (pp_target_principal p)) (\<lambda>_.
     and_then (validate_sha256 (pp_selector_sha256 p)) (\<lambda>_.
     and_then (validate_entry_id E (pp_promotion_intent_id p)) (\<lambda>_.
       if pp_action_id p \<noteq> ''identity.scope-promotion''
          \<or> pp_source_scope p \<noteq> UserScope
          \<or> pp_target_scope p \<noteq> SystemScope
          \<or> pp_user_manifest_path p = pp_system_manifest_path p
          \<or> rp_policy (pp_original_operator p) \<noteq> CurrentUserPolicy
          \<or> rp_policy (pp_target_principal p) \<noteq> DedicatedPolicy
          \<or> pp_original_operator p = pp_target_principal p
          \<or> manifest_digest E (rp_name (pp_target_principal p)) \<noteq> pp_selector_sha256 p
       then Inl InvalidScopePromotion else Inr ())))))))))))"

datatype directory_node_kind =
  Node_support | Node_root | Node_repos | Node_jobs | Node_cache | Node_artifacts | Node_logs

record directory_node =
  dn_kind :: directory_node_kind
  dn_ordinal :: "nat option"

definition node_leaf :: "directory_node_kind \<Rightarrow> string" where
  "node_leaf k =
     (case k of
        Node_repos \<Rightarrow> ''repos'' | Node_jobs \<Rightarrow> ''jobs'' | Node_cache \<Rightarrow> ''cache''
      | Node_artifacts \<Rightarrow> ''artifacts'' | Node_logs \<Rightarrow> ''logs'' | _ \<Rightarrow> [])"

definition node_action_id :: "directory_node \<Rightarrow> string" where
  "node_action_id n =
     (case (dn_kind n, dn_ordinal n) of
        (Node_support, Some ordinal) \<Rightarrow> ''identity.directory.support-'' @ show_nat ordinal
      | (Node_support, None) \<Rightarrow> []
      | (Node_root, None) \<Rightarrow> ''identity.directory.root''
      | (k, None) \<Rightarrow> ''identity.directory.'' @ node_leaf k
      | _ \<Rightarrow> [])"

definition node_path_matches :: "receipt_env \<Rightarrow> directory_node \<Rightarrow> string \<Rightarrow> string \<Rightarrow> bool" where
  "node_path_matches E n base path \<longleftrightarrow>
     (let b = recorded_components E base; p = recorded_components E path
      in case (dn_kind n, dn_ordinal n) of
           (Node_support, Some _) \<Rightarrow> p \<noteq> b \<and> prefix p b
         | (Node_support, None) \<Rightarrow> False
         | (Node_root, None) \<Rightarrow> path = base
         | (k, None) \<Rightarrow> p = b @ [node_leaf k]
         | _ \<Rightarrow> False)"

definition platform_node :: "directory_node \<Rightarrow> receipt_error + worker_node" where
  "platform_node n =
     (case (dn_kind n, dn_ordinal n) of
        (Node_support, Some ordinal) \<Rightarrow> Inr (SupportNode ordinal)
      | (Node_root, None) \<Rightarrow> Inr RootNode
      | (Node_repos, None) \<Rightarrow> Inr ReposNode
      | (Node_jobs, None) \<Rightarrow> Inr JobsNode
      | (Node_cache, None) \<Rightarrow> Inr CacheNode
      | (Node_artifacts, None) \<Rightarrow> Inr ArtifactsNode
      | (Node_logs, None) \<Rightarrow> Inr LogsNode
      | _ \<Rightarrow> Inl InvalidWorkerDirectoryAction)"

primrec node_from_platform :: "worker_node \<Rightarrow> directory_node" where
  "node_from_platform (SupportNode ordinal) = \<lparr>dn_kind = Node_support, dn_ordinal = Some ordinal\<rparr>"
| "node_from_platform RootNode = \<lparr>dn_kind = Node_root, dn_ordinal = None\<rparr>"
| "node_from_platform ReposNode = \<lparr>dn_kind = Node_repos, dn_ordinal = None\<rparr>"
| "node_from_platform JobsNode = \<lparr>dn_kind = Node_jobs, dn_ordinal = None\<rparr>"
| "node_from_platform CacheNode = \<lparr>dn_kind = Node_cache, dn_ordinal = None\<rparr>"
| "node_from_platform ArtifactsNode = \<lparr>dn_kind = Node_artifacts, dn_ordinal = None\<rparr>"
| "node_from_platform LogsNode = \<lparr>dn_kind = Node_logs, dn_ordinal = None\<rparr>"

record directory_parameters =
  wd_action_id :: string
  wd_scope :: installation_scope
  wd_principal :: receipt_principal
  wd_root :: string
  wd_node :: directory_node
  wd_path :: string

definition validate_directory_parameters ::
  "receipt_env \<Rightarrow> directory_parameters \<Rightarrow> receipt_error + unit" where
  "validate_directory_parameters E p =
     and_then (validate_action_identifier E (wd_action_id p)) (\<lambda>_.
       if (wd_scope p, rp_policy (wd_principal p)) \<notin> {(UserScope, CurrentUserPolicy), (SystemScope, DedicatedPolicy)}
       then Inl InvalidWorkerDirectoryAction
       else and_then (validate_receipt_principal E (wd_principal p)) (\<lambda>_.
            and_then (validate_recorded_path E (wd_root p)) (\<lambda>_.
            and_then (validate_recorded_path E (wd_path p)) (\<lambda>_.
              if recorded_file_name E (wd_root p) = None \<or> recorded_file_name E (wd_path p) = None
                 \<or> wd_action_id p \<noteq> node_action_id (wd_node p)
                 \<or> \<not> node_path_matches E (wd_node p) (wd_root p) (wd_path p)
              then Inl InvalidWorkerDirectoryAction else Inr ()))))"

section \<open>Actions\<close>

datatype receipt_action =
    Act_foundation string
  | Act_current_user_ssh ssh_parameters
  | Act_prerequisite prerequisite_parameters
  | Act_deferred deferred_parameters
  | Act_promotion promotion_parameters
  | Act_directory directory_parameters

primrec receipt_action_id :: "receipt_action \<Rightarrow> string" where
  "receipt_action_id (Act_foundation i) = i"
| "receipt_action_id (Act_current_user_ssh p) = sp_action_id p"
| "receipt_action_id (Act_prerequisite p) = dp_action_id p"
| "receipt_action_id (Act_deferred p) = de_action_id p"
| "receipt_action_id (Act_promotion p) = pp_action_id p"
| "receipt_action_id (Act_directory p) = wd_action_id p"

definition is_worker_directory :: "receipt_action \<Rightarrow> bool" where
  "is_worker_directory a \<longleftrightarrow> (case a of Act_directory _ \<Rightarrow> True | _ \<Rightarrow> False)"

definition requires_current_v1_digest :: "receipt_action \<Rightarrow> bool" where
  "requires_current_v1_digest a \<longleftrightarrow> (case a of Act_foundation _ \<Rightarrow> False | _ \<Rightarrow> True)"

primrec validate_receipt_action :: "receipt_env \<Rightarrow> receipt_action \<Rightarrow> receipt_error + unit" where
  "validate_receipt_action E (Act_foundation i) =
     and_then (validate_action_identifier E i) (\<lambda>_.
       if i = ''ssh.directory'' \<or> i = ''ssh.authorized-keys'' then Inl InvalidCurrentUserSshAction else Inr ())"
| "validate_receipt_action E (Act_current_user_ssh p) = validate_ssh_parameters E p"
| "validate_receipt_action E (Act_prerequisite p) = validate_prerequisite_parameters E p"
| "validate_receipt_action E (Act_deferred p) = validate_deferred_parameters E p"
| "validate_receipt_action E (Act_promotion p) = validate_promotion_parameters E p"
| "validate_receipt_action E (Act_directory p) = validate_directory_parameters E p"

primrec validate_action_scope :: "installation_scope \<Rightarrow> receipt_action \<Rightarrow> receipt_error + unit" where
  "validate_action_scope scope (Act_foundation _) = Inr ()"
| "validate_action_scope scope (Act_current_user_ssh _) = reject_if (scope \<noteq> UserScope) InvalidCurrentUserSshAction"
| "validate_action_scope scope (Act_prerequisite _) =
     reject_if (scope \<noteq> UserScope) InvalidDedicatedAccountPrerequisite"
| "validate_action_scope scope (Act_deferred _) = reject_if (scope \<noteq> UserScope) InvalidDeferredSystemAction"
| "validate_action_scope scope (Act_promotion _) = reject_if (scope \<noteq> UserScope) InvalidScopePromotion"
| "validate_action_scope scope (Act_directory p) = reject_if (scope \<noteq> wd_scope p) InvalidWorkerDirectoryAction"

primrec validate_action_principal ::
  "receipt_env \<Rightarrow> worker_principal \<Rightarrow> receipt_action \<Rightarrow> receipt_error + unit" where
  "validate_action_principal E w (Act_foundation _) = Inr ()"
| "validate_action_principal E w (Act_current_user_ssh p) =
     and_then (to_worker_principal E (sp_principal p)) (\<lambda>q. reject_if (q \<noteq> w) InvalidWorkerPrincipal)"
| "validate_action_principal E w (Act_prerequisite _) =
     reject_if (wp_policy w \<noteq> CurrentUserPolicy) InvalidWorkerPrincipal"
| "validate_action_principal E w (Act_deferred _) = reject_if (wp_policy w \<noteq> CurrentUserPolicy) InvalidWorkerPrincipal"
| "validate_action_principal E w (Act_promotion p) =
     and_then (to_worker_principal E (pp_original_operator p)) (\<lambda>q.
       reject_if (q \<noteq> w \<or> wp_policy w \<noteq> CurrentUserPolicy) InvalidWorkerPrincipal)"
| "validate_action_principal E w (Act_directory p) =
     and_then (to_worker_principal E (wd_principal p)) (\<lambda>q. reject_if (q \<noteq> w) InvalidWorkerPrincipal)"

definition validate_action_layout ::
  "receipt_env \<Rightarrow> worker_layout \<Rightarrow> receipt_action \<Rightarrow> receipt_error + unit" where
  "validate_action_layout E layout a =
     (case a of
        Act_directory p \<Rightarrow>
          and_then (platform_node (wd_node p)) (\<lambda>node.
          and_then (ok_or (path_for_node layout node) InvalidWorkerDirectoryAction) (\<lambda>expected.
            reject_if
              (recorded_components E (wd_root p) \<noteq> recorded_components E (wl_root layout)
               \<or> recorded_components E (wd_path p) \<noteq> recorded_components E expected
               \<or> node \<notin> set (materialization_nodes layout))
              InvalidWorkerDirectoryAction))
      | _ \<Rightarrow> Inr ())"

section \<open>Effects\<close>

datatype receipt_privilege = Used_none | Used_root | Used_admin

datatype receipt_status = Applied | Pending | Adopted

record created_file =
  cf_path :: string
  cf_sha256 :: string

record modified_file =
  mf_path :: string
  mf_before_sha256 :: string
  mf_backup_path :: string

record appended_file =
  af_path :: string
  af_stanza_id :: string
  af_appended_sha256 :: string

record download_provenance =
  dw_url :: string
  dw_version :: string
  dw_sha256 :: string

text \<open>What an action changed; \<open>ActionEffect\<close> of the action and the lists of an entry have the same fields.\<close>

record action_effect =
  ef_directories_created :: "string list"
  ef_files_created :: "created_file list"
  ef_files_modified :: "modified_file list"
  ef_files_appended :: "appended_file list"
  ef_services :: "string list"
  ef_accounts :: "string list"
  ef_registry_keys :: "string list"
  ef_firewall_rules :: "string list"
  ef_download_provenance :: "download_provenance option"

definition no_effect :: action_effect where
  "no_effect = \<lparr>ef_directories_created = [], ef_files_created = [], ef_files_modified = [], ef_files_appended = [],
     ef_services = [], ef_accounts = [], ef_registry_keys = [], ef_firewall_rules = [],
     ef_download_provenance = None\<rparr>"

record receipt_entry =
  en_id :: string
  en_action :: receipt_action
  en_timestamp :: string
  en_privilege :: receipt_privilege
  en_effect :: action_effect
  en_status :: receipt_status

text \<open>Checks a list of values and the names they claim; a name may be claimed once.\<close>

fun claim_all ::
  "('a \<Rightarrow> receipt_error + unit) \<Rightarrow> ('a \<Rightarrow> string list) \<Rightarrow> string set \<Rightarrow> 'a list \<Rightarrow> receipt_error + string set" where
  "claim_all check names claimed [] = Inr claimed"
| "claim_all check names claimed (x # xs) =
     and_then (check x) (\<lambda>_.
       if set (names x) \<inter> claimed \<noteq> {} \<or> \<not> distinct (names x) then Inl ConflictingResources
       else claim_all check names (claimed \<union> set (names x)) xs)"

definition validate_effect :: "receipt_env \<Rightarrow> action_effect \<Rightarrow> receipt_error + unit" where
  "validate_effect E f =
     and_then (claim_all (validate_recorded_path E) (\<lambda>p. [p]) {} (ef_directories_created f)) (\<lambda>claimed.
     and_then (claim_all (\<lambda>x. and_then (validate_recorded_path E (cf_path x)) (\<lambda>_. validate_sha256 (cf_sha256 x)))
                 (\<lambda>x. [cf_path x]) claimed (ef_files_created f)) (\<lambda>claimed.
     and_then (claim_all (\<lambda>x. and_then (validate_recorded_path E (mf_path x)) (\<lambda>_.
                                and_then (validate_sha256 (mf_before_sha256 x)) (\<lambda>_.
                                  validate_recorded_path E (mf_backup_path x))))
                 (\<lambda>x. [mf_path x, mf_backup_path x]) claimed (ef_files_modified f)) (\<lambda>claimed.
     and_then (claim_all (\<lambda>x. and_then (validate_recorded_path E (af_path x)) (\<lambda>_.
                                and_then (validate_sha256 (af_stanza_id x)) (\<lambda>_.
                                  validate_sha256 (af_appended_sha256 x))))
                 (\<lambda>x. [af_path x]) claimed (ef_files_appended f)) (\<lambda>_.
     and_then (claim_all (validate_resource_identifier E) (\<lambda>n. [n]) {} (ef_services f)) (\<lambda>_.
     and_then (claim_all (validate_resource_identifier E) (\<lambda>n. [n]) {} (ef_accounts f)) (\<lambda>_.
     and_then (claim_all (validate_registry_key E) (\<lambda>n. [n]) {} (ef_registry_keys f)) (\<lambda>_.
     and_then (claim_all (validate_resource_identifier E) (\<lambda>n. [n]) {} (ef_firewall_rules f)) (\<lambda>_.
       optional (\<lambda>d. and_then (validate_https_url E (dw_url d)) (\<lambda>_.
                     and_then (validate_version_identifier E (dw_version d)) (\<lambda>_.
                       validate_sha256 (dw_sha256 d)))) (ef_download_provenance f)))))))))"

text \<open>An entry of an action that only asks: no privilege and no effect, with the given status.\<close>

definition claims_nothing :: "receipt_entry \<Rightarrow> bool" where
  "claims_nothing e \<longleftrightarrow> en_privilege e = Used_none \<and> en_effect e = no_effect"

definition validate_ssh_effect :: "receipt_entry \<Rightarrow> ssh_parameters \<Rightarrow> receipt_error + unit" where
  "validate_ssh_effect e p =
     (let f = en_effect e
      in if en_status e = Pending then Inr ()
         else if \<not> (en_status e = Applied \<and> en_privilege e = Used_none \<and> ef_services f = [] \<and> ef_accounts f = []
                    \<and> ef_registry_keys f = [] \<and> ef_firewall_rules f = [] \<and> ef_download_provenance f = None)
         then Inl InvalidCurrentUserSshAction
         else if sp_action_id p = ''ssh.directory'' \<and> ef_directories_created f = [sp_path p]
                 \<and> ef_files_created f = [] \<and> ef_files_modified f = [] \<and> ef_files_appended f = []
         then Inr ()
         else if sp_action_id p = ''ssh.authorized-keys'' \<and> ef_directories_created f = []
         then reject_if
                (\<not> (case ef_files_created f of
                      [x] \<Rightarrow> cf_path x = sp_path p \<and> ef_files_modified f = [] \<and> ef_files_appended f = []
                             \<and> is_none_or (\<lambda>digest. cf_sha256 x = digest) (sp_stanza_sha256 p)
                    | [] \<Rightarrow>
                        (case ef_files_appended f of
                           [x] \<Rightarrow> ef_files_modified f = [] \<and> af_path x = sp_path p
                                  \<and> sp_stanza_id p = Some (af_stanza_id x)
                                  \<and> sp_stanza_sha256 p = Some (af_appended_sha256 x)
                         | _ \<Rightarrow> False)
                    | _ \<Rightarrow> False))
                InvalidCurrentUserSshAction
         else Inl InvalidCurrentUserSshAction)"

definition validate_directory_effect ::
  "receipt_env \<Rightarrow> receipt_entry \<Rightarrow> directory_parameters \<Rightarrow> receipt_error + unit" where
  "validate_directory_effect E e p =
     (if en_status e = Pending then reject_if (wd_scope p \<noteq> UserScope) InvalidWorkerDirectoryAction
      else reject_if
             (en_status e \<noteq> Applied
              \<or> en_privilege e \<noteq> (case wd_scope p of
                                     UserScope \<Rightarrow> Used_none
                                   | SystemScope \<Rightarrow> (case re_os E of Windows \<Rightarrow> Used_admin | _ \<Rightarrow> Used_root))
              \<or> en_effect e \<noteq> no_effect\<lparr>ef_directories_created := [wd_path p]\<rparr>)
             InvalidWorkerDirectoryAction)"

definition validate_action_effect :: "receipt_env \<Rightarrow> receipt_entry \<Rightarrow> receipt_error + unit" where
  "validate_action_effect E e =
     (case en_action e of
        Act_promotion _ \<Rightarrow> reject_if (en_status e \<noteq> Applied \<or> \<not> claims_nothing e) InvalidScopePromotion
      | Act_prerequisite _ \<Rightarrow>
          reject_if (en_status e \<noteq> Pending \<or> \<not> claims_nothing e) InvalidDedicatedAccountPrerequisite
      | Act_deferred _ \<Rightarrow> reject_if (en_status e \<noteq> Pending \<or> \<not> claims_nothing e) InvalidDeferredSystemAction
      | Act_current_user_ssh p \<Rightarrow> validate_ssh_effect e p
      | Act_directory p \<Rightarrow> validate_directory_effect E e p
      | Act_foundation _ \<Rightarrow> Inr ())"

definition validate_entry :: "receipt_env \<Rightarrow> receipt_entry \<Rightarrow> receipt_error + unit" where
  "validate_entry E e =
     and_then (validate_entry_id E (en_id e)) (\<lambda>_.
     and_then (validate_receipt_action E (en_action e)) (\<lambda>_.
     and_then (validate_timestamp E (en_timestamp e)) (\<lambda>_.
     and_then (validate_effect E (en_effect e)) (\<lambda>_.
     and_then (validate_action_effect E e) (\<lambda>_.
       reject_if (en_status e = Pending \<and> \<not> claims_nothing e) InvalidPendingEntry)))))"

section \<open>Entries from actions\<close>

text \<open>
  \<open>ActionParameters\<close>, what an action hands to the receipt. A path that is not UTF-8 is refused; the text
  of the others is kept.
\<close>

datatype action_parameters =
    Par_foundation string
  | Par_current_user_ssh string worker_principal string string "string option" "string option"
  | Par_prerequisite string installation_scope string
  | Par_deferred string installation_scope worker_principal string
  | Par_directory string installation_scope worker_principal string worker_node string

primrec parameters_action_id :: "action_parameters \<Rightarrow> string" where
  "parameters_action_id (Par_foundation i) = i"
| "parameters_action_id (Par_current_user_ssh i _ _ _ _ _) = i"
| "parameters_action_id (Par_prerequisite i _ _) = i"
| "parameters_action_id (Par_deferred i _ _ _) = i"
| "parameters_action_id (Par_directory i _ _ _ _ _) = i"

definition recorded_path :: "string \<Rightarrow> receipt_error + string" where
  "recorded_path p = ok_or (path_to_str p) InvalidRecordedPath"

primrec from_action_parameters :: "action_parameters \<Rightarrow> receipt_error + receipt_action" where
  "from_action_parameters (Par_foundation i) = Inr (Act_foundation i)"
| "from_action_parameters (Par_current_user_ssh i w directory path stanza digest) =
     and_then (recorded_path directory) (\<lambda>directory.
     and_then (recorded_path path) (\<lambda>path.
       Inr (Act_current_user_ssh
         \<lparr>sp_action_id = i, sp_principal = from_worker_principal w, sp_directory = directory, sp_path = path,
          sp_stanza_id = stanza, sp_stanza_sha256 = digest\<rparr>)))"
| "from_action_parameters (Par_prerequisite i scope selector) =
     Inr (Act_prerequisite \<lparr>dp_action_id = i, dp_target_scope = scope, dp_selector = selector\<rparr>)"
| "from_action_parameters (Par_deferred i scope w digest) =
     Inr (Act_deferred \<lparr>de_action_id = i, de_target_scope = scope, de_target_principal = from_worker_principal w,
                        de_parameter_sha256 = digest\<rparr>)"
| "from_action_parameters (Par_directory i scope w base node path) =
     and_then (recorded_path base) (\<lambda>base.
     and_then (recorded_path path) (\<lambda>path.
       Inr (Act_directory
         \<lparr>wd_action_id = i, wd_scope = scope, wd_principal = from_worker_principal w, wd_root = base,
          wd_node = node_from_platform node, wd_path = path\<rparr>)))"

record receipt_metadata =
  md_entry_id :: string
  md_timestamp :: string

primrec used_privilege :: "privilege \<Rightarrow> receipt_privilege" where
  "used_privilege No_privilege = Used_none"
| "used_privilege Root_privilege = Used_root"
| "used_privilege Admin_privilege = Used_admin"

definition checked_entry :: "receipt_env \<Rightarrow> receipt_entry \<Rightarrow> receipt_error + receipt_entry" where
  "checked_entry E e = and_then (validate_entry E e) (\<lambda>_. Inr e)"

definition pending_entry ::
  "receipt_env \<Rightarrow> action_parameters \<Rightarrow> receipt_metadata \<Rightarrow> receipt_error + receipt_entry" where
  "pending_entry E parameters m =
     and_then (from_action_parameters parameters) (\<lambda>action.
       checked_entry E \<lparr>en_id = md_entry_id m, en_action = action, en_timestamp = md_timestamp m,
                        en_privilege = Used_none, en_effect = no_effect, en_status = Pending\<rparr>)"

definition applied_entry ::
  "receipt_env \<Rightarrow> action_parameters \<Rightarrow> action_effect \<Rightarrow> privilege \<Rightarrow> receipt_metadata \<Rightarrow>
     receipt_error + receipt_entry" where
  "applied_entry E parameters effect pr m =
     and_then (from_action_parameters parameters) (\<lambda>action.
       checked_entry E \<lparr>en_id = md_entry_id m, en_action = action, en_timestamp = md_timestamp m,
                        en_privilege = used_privilege pr, en_effect = effect, en_status = Applied\<rparr>)"

end
