(* ===== verification/ReceiptDocument.thy ===== *)
theory ReceiptDocument
  imports ReceiptTypes
begin

text \<open>
  The receipt as a document (\<open>src/setup/receipt/mod.rs\<close>): its entries in the order they were appended, the
  publications that say which pending entries were current at some moment, the checks on both, and the current
  occurrence of a pending action. The second half relates a document to what it means: a map from the actions
  that still wait for a human to the entry that recorded them.
\<close>

section \<open>Documents\<close>

record publication_link =
  lk_action_id :: string
  lk_entry_id :: string

record pending_publication =
  pb_id :: string
  pb_timestamp :: string
  pb_entry_count :: nat
  pb_pending :: "publication_link list"

record receipt_document =
  rd_version :: nat
  rd_scope :: installation_scope
  rd_entries :: "receipt_entry list"
  rd_publications :: "pending_publication list"

definition receipt_schema_version :: nat where
  "receipt_schema_version = 1"

definition empty_receipt :: "installation_scope \<Rightarrow> receipt_document" where
  "empty_receipt scope =
     \<lparr>rd_version = receipt_schema_version, rd_scope = scope, rd_entries = [], rd_publications = []\<rparr>"

definition pending_for :: "string \<Rightarrow> receipt_entry \<Rightarrow> bool" where
  "pending_for a e \<longleftrightarrow> en_status e = Pending \<and> receipt_action_id (en_action e) = a"

section \<open>Structure\<close>

fun validate_links ::
  "receipt_env \<Rightarrow> receipt_entry list \<Rightarrow> string set \<Rightarrow> string set \<Rightarrow> publication_link list \<Rightarrow> receipt_error + unit"
where
  "validate_links E visible actions ids [] = Inr ()"
| "validate_links E visible actions ids (l # ls) =
     and_then (validate_action_identifier E (lk_action_id l)) (\<lambda>_.
     and_then (validate_entry_id E (lk_entry_id l)) (\<lambda>_.
       if lk_action_id l \<in> actions \<or> lk_entry_id l \<in> ids then Inl DuplicatePendingPublicationLink
       else case find_first (pending_for (lk_action_id l)) (rev visible) of
              None \<Rightarrow> Inl InvalidPendingPublicationLink
            | Some target \<Rightarrow>
                if en_id target \<noteq> lk_entry_id l then Inl InvalidPendingPublicationLink
                else validate_links E visible (insert (lk_action_id l) actions) (insert (lk_entry_id l) ids) ls))"

definition validate_publication ::
  "receipt_env \<Rightarrow> receipt_entry list \<Rightarrow> pending_publication \<Rightarrow> receipt_error + unit" where
  "validate_publication E entries p =
     and_then (validate_entry_id E (pb_id p)) (\<lambda>_.
     and_then (validate_timestamp E (pb_timestamp p)) (\<lambda>_.
       if list_ex (\<lambda>e. en_id e = pb_id p) entries then Inl DuplicatePendingPublicationId
       else if length entries < pb_entry_count p then Inl InvalidPendingPublicationLink
       else validate_links E (take (pb_entry_count p) entries) {} {} (pb_pending p)))"

fun validate_entries ::
  "receipt_env \<Rightarrow> installation_scope \<Rightarrow> string set \<Rightarrow> receipt_entry list \<Rightarrow> receipt_error + unit" where
  "validate_entries E scope ids [] = Inr ()"
| "validate_entries E scope ids (e # es) =
     and_then (validate_entry E e) (\<lambda>_.
     and_then (validate_action_scope scope (en_action e)) (\<lambda>_.
       if scope = UserScope \<and> en_privilege e \<noteq> Used_none then Inl PrivilegeOutsideScope
       else if en_id e \<in> ids then Inl DuplicateEntryId
       else validate_entries E scope (insert (en_id e) ids) es))"

fun validate_publications ::
  "receipt_env \<Rightarrow> receipt_entry list \<Rightarrow> nat \<Rightarrow> string set \<Rightarrow> string set \<Rightarrow> pending_publication list \<Rightarrow>
     receipt_error + unit" where
  "validate_publications E entries previous ids timestamps [] = Inr ()"
| "validate_publications E entries previous ids timestamps (p # ps) =
     and_then (validate_publication E entries p) (\<lambda>_.
       if pb_entry_count p < previous then Inl InvalidPendingPublicationOrder
       else if pb_id p \<in> ids then Inl DuplicatePendingPublicationId
       else if pb_timestamp p \<in> timestamps then Inl DuplicatePendingPublicationTimestamp
       else validate_publications E entries (pb_entry_count p) (insert (pb_id p) ids)
              (insert (pb_timestamp p) timestamps) ps)"

definition validate_structure :: "receipt_env \<Rightarrow> receipt_document \<Rightarrow> receipt_error + unit" where
  "validate_structure E d =
     (if rd_version d \<noteq> receipt_schema_version then Inl UnknownSchemaVersion
      else and_then (validate_entries E (rd_scope d) {} (rd_entries d)) (\<lambda>_.
           validate_publications E (rd_entries d) 0 {} {} (rd_publications d)))"

section \<open>Epochs\<close>

text \<open>The pending entries of a segment, collected by action; none may be current or come twice.\<close>

fun collect_unpublished ::
  "(string \<rightharpoonup> string) \<Rightarrow> (string \<rightharpoonup> string) \<Rightarrow> receipt_entry list \<Rightarrow> receipt_error + (string \<rightharpoonup> string)" where
  "collect_unpublished current unpublished [] = Inr unpublished"
| "collect_unpublished current unpublished (e # es) =
     (if en_status e \<noteq> Pending then collect_unpublished current unpublished es
      else let a = receipt_action_id (en_action e)
           in if current a \<noteq> None \<or> unpublished a \<noteq> None then Inl InvalidPendingPublicationOrder
              else collect_unpublished current (unpublished(a \<mapsto> en_id e)) es)"

fun publish_links ::
  "(string \<rightharpoonup> string) \<Rightarrow> (string \<rightharpoonup> string) \<Rightarrow> (string \<rightharpoonup> string) \<Rightarrow> publication_link list \<Rightarrow>
     receipt_error + (string \<rightharpoonup> string)" where
  "publish_links current unpublished next_map [] = Inr next_map"
| "publish_links current unpublished next_map (l # ls) =
     (case current (lk_action_id l) of
        Some i \<Rightarrow>
          if i \<noteq> lk_entry_id l then Inl InvalidPendingPublicationOrder
          else publish_links current unpublished (next_map(lk_action_id l \<mapsto> i)) ls
      | None \<Rightarrow>
          (case unpublished (lk_action_id l) of
             Some i \<Rightarrow>
               if i = lk_entry_id l
               then publish_links current (unpublished(lk_action_id l := None)) (next_map(lk_action_id l \<mapsto> i)) ls
               else Inl InvalidPendingPublicationOrder
           | None \<Rightarrow> Inl InvalidPendingPublicationOrder))"

fun check_epochs ::
  "receipt_entry list \<Rightarrow> nat \<Rightarrow> (string \<rightharpoonup> string) \<Rightarrow> pending_publication list \<Rightarrow> receipt_error + unit" where
  "check_epochs entries cursor current [] =
     and_then (collect_unpublished current Map.empty (drop cursor entries)) (\<lambda>_. Inr ())"
| "check_epochs entries cursor current (p # ps) =
     and_then (collect_unpublished current Map.empty (drop cursor (take (pb_entry_count p) entries))) (\<lambda>unpublished.
     and_then (publish_links current unpublished Map.empty (pb_pending p)) (\<lambda>next_map.
       check_epochs entries (pb_entry_count p) next_map ps))"

definition validate_pending_publication_epochs :: "receipt_document \<Rightarrow> receipt_error + unit" where
  "validate_pending_publication_epochs d = check_epochs (rd_entries d) 0 Map.empty (rd_publications d)"

definition validate_document :: "receipt_env \<Rightarrow> receipt_document \<Rightarrow> receipt_error + unit" where
  "validate_document E d = and_then (validate_structure E d) (\<lambda>_. validate_pending_publication_epochs d)"

definition validate_document_principal ::
  "receipt_env \<Rightarrow> worker_principal \<Rightarrow> receipt_document \<Rightarrow> receipt_error + unit" where
  "validate_document_principal E w d = check_all (\<lambda>e. validate_action_principal E w (en_action e)) (rd_entries d)"

definition validate_document_layout ::
  "receipt_env \<Rightarrow> worker_layout \<Rightarrow> receipt_document \<Rightarrow> receipt_error + unit" where
  "validate_document_layout E layout d = check_all (\<lambda>e. validate_action_layout E layout (en_action e)) (rd_entries d)"

definition has_worker_directory_action :: "receipt_document \<Rightarrow> bool" where
  "has_worker_directory_action d \<longleftrightarrow> list_ex (\<lambda>e. is_worker_directory (en_action e)) (rd_entries d)"

section \<open>A publication under way\<close>

text \<open>
  What the durable intent of a publication says about the receipt: the number of publications before it and the
  publication itself; the intent's other fields are in \<open>ReceiptWire\<close>.
\<close>

type_synonym publication_under_way = "(nat \<times> pending_publication) option"

definition with_publication :: "publication_under_way \<Rightarrow> receipt_document \<Rightarrow> receipt_document" where
  "with_publication under_way d =
     (case under_way of
        None \<Rightarrow> d
      | Some (count, p) \<Rightarrow>
          if length (rd_publications d) = count then d\<lparr>rd_publications := rd_publications d @ [p]\<rparr> else d)"

definition validate_with_intent :: "receipt_env \<Rightarrow> publication_under_way \<Rightarrow> receipt_document \<Rightarrow> receipt_error + unit" where
  "validate_with_intent E under_way d =
     and_then (validate_structure E d) (\<lambda>_. validate_pending_publication_epochs (with_publication under_way d))"

definition latest_publication :: "receipt_document \<Rightarrow> publication_under_way \<Rightarrow> pending_publication option" where
  "latest_publication d under_way =
     (case under_way of
        Some (_, p) \<Rightarrow> Some p
      | None \<Rightarrow> if rd_publications d = [] then None else Some (last (rd_publications d)))"

definition current_pending_occurrence ::
  "receipt_document \<Rightarrow> string \<Rightarrow> publication_under_way \<Rightarrow> publication_link option" where
  "current_pending_occurrence d a under_way =
     (let found = (\<lambda>es. map_option (\<lambda>e. \<lparr>lk_action_id = a, lk_entry_id = en_id e\<rparr>) (find_first (pending_for a) es))
      in case latest_publication d under_way of
           None \<Rightarrow> found (rd_entries d)
         | Some p \<Rightarrow>
             (case find_first (\<lambda>l. lk_action_id l = a) (pb_pending p) of
                Some l \<Rightarrow> Some l
              | None \<Rightarrow> found (drop (pb_entry_count p) (rd_entries d))))"

definition effective_document ::
  "receipt_env \<Rightarrow> publication_under_way \<Rightarrow> receipt_document \<Rightarrow> receipt_error + receipt_document" where
  "effective_document E under_way d =
     and_then (validate_with_intent E under_way d) (\<lambda>_.
     and_then (validate_document E (with_publication under_way d)) (\<lambda>_. Inr (with_publication under_way d)))"

definition appended_only :: "receipt_document \<Rightarrow> receipt_document \<Rightarrow> bool" where
  "appended_only existing candidate \<longleftrightarrow>
     length (rd_entries candidate) = length (rd_entries existing) + 1
     \<and> rd_scope candidate = rd_scope existing
     \<and> prefix (rd_entries existing) (rd_entries candidate)
     \<and> rd_publications candidate = rd_publications existing"

definition last_status :: "receipt_document \<Rightarrow> receipt_status option" where
  "last_status d = (if rd_entries d = [] then None else Some (en_status (last (rd_entries d))))"

section \<open>The open occurrences\<close>

definition occurrence_of :: "receipt_entry \<Rightarrow> string \<times> string" where
  "occurrence_of e = (receipt_action_id (en_action e), en_id e)"

definition pending_occurrences :: "receipt_entry list \<Rightarrow> (string \<times> string) list" where
  "pending_occurrences es = map occurrence_of (filter (\<lambda>e. en_status e = Pending) es)"

definition link_pair :: "publication_link \<Rightarrow> string \<times> string" where
  "link_pair l = (lk_action_id l, lk_entry_id l)"

definition links_map :: "publication_link list \<Rightarrow> string \<rightharpoonup> string" where
  "links_map ls = map_of (map link_pair ls)"

definition epoch_start :: "pending_publication list \<Rightarrow> nat" where
  "epoch_start ps = (if ps = [] then 0 else pb_entry_count (last ps))"

definition epoch_links :: "pending_publication list \<Rightarrow> string \<rightharpoonup> string" where
  "epoch_links ps = (if ps = [] then Map.empty else links_map (pb_pending (last ps)))"

text \<open>The actions that wait for a human, each with the entry that recorded it.\<close>

definition open_occurrences :: "receipt_document \<Rightarrow> string \<rightharpoonup> string" where
  "open_occurrences d =
     map_of (pending_occurrences (drop (epoch_start (rd_publications d)) (rd_entries d)))
       ++ epoch_links (rd_publications d)"

lemma pending_occurrences_append [simp]:
  "pending_occurrences (xs @ ys) = pending_occurrences xs @ pending_occurrences ys"
  by (simp add: pending_occurrences_def)

lemma pending_occurrences_simps [simp]:
  "pending_occurrences [] = []"
  "pending_occurrences (e # es) =
     (if en_status e = Pending then occurrence_of e # pending_occurrences es else pending_occurrences es)"
  by (simp_all add: pending_occurrences_def)

lemma find_pending:
  "map_option en_id (find_first (pending_for a) es) = map_of (pending_occurrences es) a"
  by (induction es) (auto simp: pending_for_def occurrence_of_def)

lemma find_link:
  "find_first (\<lambda>l. lk_action_id l = a) ls =
     map_option (\<lambda>i. \<lparr>lk_action_id = a, lk_entry_id = i\<rparr>) (links_map ls a)"
  by (induction ls) (auto simp: links_map_def link_pair_def)

text \<open>The code's search finds exactly the open occurrence.\<close>

lemma current_occurrence_is_open:
  "current_pending_occurrence d a None =
     map_option (\<lambda>i. \<lparr>lk_action_id = a, lk_entry_id = i\<rparr>) (open_occurrences d a)"
proof -
  have found: "map_option (\<lambda>e. \<lparr>lk_action_id = a, lk_entry_id = en_id e\<rparr>) (find_first (pending_for a) es) =
      map_option (\<lambda>i. \<lparr>lk_action_id = a, lk_entry_id = i\<rparr>) (map_of (pending_occurrences es) a)" for es
    unfolding find_pending[symmetric] by (simp add: option.map_comp o_def)
  show ?thesis
    by (simp add: current_pending_occurrence_def Let_def latest_publication_def open_occurrences_def
        epoch_start_def epoch_links_def found find_link map_add_def split: option.splits)
qed

section \<open>Exact epochs\<close>

lemma collect_unpublished_exact:
  "collect_unpublished current u es =
     (if distinct (map fst (pending_occurrences es)) \<and>
         (\<forall>a\<in>fst ` set (pending_occurrences es). current a = None \<and> u a = None)
      then Inr (u ++ map_of (pending_occurrences es)) else Inl InvalidPendingPublicationOrder)"
proof (induction es arbitrary: u)
  case (Cons e es)
  let ?a = "receipt_action_id (en_action e)" and ?P = "pending_occurrences es"
  have swap: "u(?a \<mapsto> en_id e) ++ map_of ?P = u ++ map_of ((?a, en_id e) # ?P)" if "?a \<notin> fst ` set ?P"
  proof -
    have "map_of ?P ?a = None" using that by (simp add: map_of_eq_None_iff)
    then show ?thesis by (auto simp: fun_eq_iff map_add_def split: option.splits)
  qed
  show ?case
  proof (cases "en_status e = Pending \<and> current ?a = None \<and> u ?a = None")
    case True
    show ?thesis
    proof (cases "?a \<in> fst ` set ?P")
      case True
      then obtain b where "(?a, b) \<in> set ?P" by force
      with True \<open>_ \<and> _\<close> show ?thesis by (force simp: Cons.IH Let_def occurrence_of_def)
    next
      case False
      then have "x \<in> set ?P \<Longrightarrow> fst x \<noteq> ?a" for x by (metis image_eqI)
      with \<open>_ \<and> _\<close> False swap show ?thesis
        by (auto simp: Cons.IH Let_def occurrence_of_def simp del: map_of.simps)
    qed
  qed (auto simp: Cons.IH Let_def occurrence_of_def)
qed simp

lemma publish_links_exact:
  "distinct (map lk_action_id ls) \<Longrightarrow>
     publish_links current u m ls =
       (if \<forall>l\<in>set ls. (u ++ current) (lk_action_id l) = Some (lk_entry_id l)
        then Inr (m ++ links_map ls) else Inl InvalidPendingPublicationOrder)"
proof (induction ls arbitrary: u m)
  case (Cons l ls)
  have a: "lk_action_id l \<notin> lk_action_id ` set ls" and d: "distinct (map lk_action_id ls)"
    using Cons.prems by auto
  have links: "m(lk_action_id l \<mapsto> lk_entry_id l) ++ links_map ls = m ++ links_map (l # ls)" for m
  proof -
    have "links_map ls (lk_action_id l) = None"
      using a by (auto simp: links_map_def link_pair_def map_of_eq_None_iff image_iff)
    then show ?thesis by (auto simp: links_map_def link_pair_def fun_eq_iff map_add_def split: option.splits)
  qed
  have erased: "(u(lk_action_id l := None) ++ current) (lk_action_id k) = (u ++ current) (lk_action_id k)"
    if "k \<in> set ls" for k
  proof -
    have "lk_action_id k \<noteq> lk_action_id l" using a that by (metis image_eqI)
    then show ?thesis by (cases "current (lk_action_id k)") (simp_all add: map_add_def)
  qed
  show ?case
    using Cons.IH[OF d] erased links
    by (cases "current (lk_action_id l)"; cases "u (lk_action_id l)") (auto simp: map_add_def)
qed (simp add: links_map_def)

text \<open>The checks on the publications, apart from the links of each.\<close>

lemma validate_links_distinct:
  "validate_links E visible actions ids ls = Inr () \<Longrightarrow>
     distinct (map lk_action_id ls) \<and> lk_action_id ` set ls \<inter> actions = {} \<and>
     distinct (map lk_entry_id ls) \<and> lk_entry_id ` set ls \<inter> ids = {}"
  by (induction E visible actions ids ls rule: validate_links.induct)
    (auto simp: result_simps split: if_splits option.splits)

lemma validate_links_exact:
  "validate_links E visible actions ids ls = Inr () \<longleftrightarrow>
     distinct (map lk_action_id ls) \<and> lk_action_id ` set ls \<inter> actions = {} \<and>
     distinct (map lk_entry_id ls) \<and> lk_entry_id ` set ls \<inter> ids = {} \<and>
     (\<forall>l\<in>set ls. validate_action_identifier E (lk_action_id l) = Inr () \<and>
        validate_entry_id E (lk_entry_id l) = Inr () \<and>
        map_option en_id (find_first (pending_for (lk_action_id l)) (rev visible)) = Some (lk_entry_id l))"
  by (induction E visible actions ids ls rule: validate_links.induct)
    (auto simp: result_simps split: if_splits option.splits)

lemma validate_publication_distinct:
  "validate_publication E entries p = Inr () \<Longrightarrow>
     distinct (map lk_action_id (pb_pending p)) \<and> pb_entry_count p \<le> length entries"
  by (auto simp: validate_publication_def result_simps dest: validate_links_distinct split: if_splits)

lemma validate_publications_exact:
  "validate_publications E entries previous ids timestamps ps = Inr () \<longleftrightarrow>
     (\<forall>p\<in>set ps. validate_publication E entries p = Inr ()) \<and>
     sorted (previous # map pb_entry_count ps) \<and>
     distinct (map pb_id ps) \<and> pb_id ` set ps \<inter> ids = {} \<and>
     distinct (map pb_timestamp ps) \<and> pb_timestamp ` set ps \<inter> timestamps = {}"
proof (induction E entries previous ids timestamps ps rule: validate_publications.induct)
  case (2 E entries previous ids timestamps p ps)
  have "sorted (previous # pb_entry_count p # ns) \<longleftrightarrow> previous \<le> pb_entry_count p \<and> sorted (pb_entry_count p # ns)"
    for ns by auto
  with 2 show ?case by (cases "pb_entry_count p < previous") (auto simp: result_simps)
qed simp

lemma validate_entries_append:
  "validate_entries E scope ids (es @ [e]) = Inr () \<longleftrightarrow>
     validate_entries E scope ids es = Inr () \<and> validate_entry E e = Inr () \<and>
     validate_action_scope scope (en_action e) = Inr () \<and>
     (scope = UserScope \<longrightarrow> en_privilege e = Used_none) \<and> en_id e \<notin> ids \<union> en_id ` set es"
  by (induction E scope ids es rule: validate_entries.induct) (auto simp: result_simps split: if_splits)

lemma epochs_end:
  assumes "\<forall>p\<in>set ps. distinct (map lk_action_id (pb_pending p))"
  shows "check_epochs entries cursor current ps = Inr () \<longleftrightarrow>
    check_epochs entries cursor current ps = Inr () \<and>
    (let start = (if ps = [] then cursor else epoch_start ps);
         links = (if ps = [] then current else epoch_links ps)
     in collect_unpublished links Map.empty (drop start entries) =
          Inr (map_of (pending_occurrences (drop start entries))))"
  using assms
proof (induction entries cursor current ps rule: check_epochs.induct)
  case (1 entries cursor current)
  then show ?case by (auto simp: Let_def result_simps collect_unpublished_exact split: if_splits)
next
  case (2 entries cursor current p ps)
  then show ?case
    by (cases "ps = []")
      (auto simp: Let_def result_simps publish_links_exact epoch_start_def epoch_links_def split: if_splits)
qed

lemma epochs_append:
  assumes "\<forall>p\<in>set ps. distinct (map lk_action_id (pb_pending p)) \<and> pb_entry_count p \<le> length entries"
    and "cursor \<le> length entries"
  shows "check_epochs (entries @ [e]) cursor current ps = Inr () \<longleftrightarrow>
    check_epochs entries cursor current ps = Inr () \<and>
    (en_status e = Pending \<longrightarrow>
       (map_of (pending_occurrences (drop (if ps = [] then cursor else epoch_start ps) entries)) ++
        (if ps = [] then current else epoch_links ps)) (receipt_action_id (en_action e)) = None)"
  using assms
proof (induction entries cursor current ps rule: check_epochs.induct)
  case (1 entries cursor current)
  have none: "map_of ps a = None \<longleftrightarrow> a \<notin> fst ` set ps" for a and ps :: "(string \<times> string) list"
    by (rule map_of_eq_None_iff)
  show ?case
    using 1 by (auto simp: result_simps collect_unpublished_exact none map_add_None occurrence_of_def split: if_splits)
next
  case (2 entries cursor current p ps)
  then have count: "pb_entry_count p \<le> length entries" by simp
  then have same: "take (pb_entry_count p) (entries @ [e]) = take (pb_entry_count p) entries" by simp
  show ?case
    using 2 count
    by (cases "ps = []")
      (auto simp: same result_simps publish_links_exact epoch_start_def epoch_links_def links_map_def split: if_splits)
qed

lemma epochs_publish:
  assumes "\<forall>q\<in>set (ps @ [p]). distinct (map lk_action_id (pb_pending q)) \<and> pb_entry_count q \<le> length entries"
    and "pb_entry_count p = length entries"
  shows "check_epochs entries cursor current (ps @ [p]) = Inr () \<longleftrightarrow>
    check_epochs entries cursor current ps = Inr () \<and>
    (\<forall>l\<in>set (pb_pending p).
       (map_of (pending_occurrences (drop (if ps = [] then cursor else epoch_start ps) entries)) ++
        (if ps = [] then current else epoch_links ps)) (lk_action_id l) = Some (lk_entry_id l))"
  using assms
proof (induction entries cursor current ps rule: check_epochs.induct)
  case (1 entries cursor current)
  then show ?case by (auto simp: result_simps collect_unpublished_exact publish_links_exact split: if_splits)
next
  case (2 entries cursor current q ps)
  then show ?case
    by (cases "ps = []")
      (auto simp: result_simps publish_links_exact epoch_start_def epoch_links_def links_map_def split: if_splits)
qed

lemma map_of_rev_distinct: "distinct (map fst xs) \<Longrightarrow> map_of (rev xs) = map_of xs"
  by (rule map_of_eqI) (auto simp: rev_map[symmetric] map_of_eq_Some_iff)

lemma find_first_append: "find_first P (xs @ ys) = (case find_first P xs of None \<Rightarrow> find_first P ys | Some x \<Rightarrow> Some x)"
  by (induction xs) auto

lemma pending_occurrences_rev: "pending_occurrences (rev es) = rev (pending_occurrences es)"
  by (simp add: pending_occurrences_def rev_map rev_filter)

section \<open>Valid documents\<close>

definition valid_receipt :: "receipt_env \<Rightarrow> receipt_document \<Rightarrow> bool" where
  "valid_receipt E d \<longleftrightarrow> validate_document E d = Inr ()"

lemma valid_receiptD:
  assumes "valid_receipt E d"
  shows "validate_entries E (rd_scope d) {} (rd_entries d) = Inr ()"
    and "\<forall>p\<in>set (rd_publications d). validate_publication E (rd_entries d) p = Inr ()"
    and "check_epochs (rd_entries d) 0 Map.empty (rd_publications d) = Inr ()"
    and "\<forall>p\<in>set (rd_publications d).
      distinct (map lk_action_id (pb_pending p)) \<and> pb_entry_count p \<le> length (rd_entries d)"
  using assms validate_publication_distinct
  by (auto simp: valid_receipt_def validate_document_def validate_structure_def result_simps
      validate_pending_publication_epochs_def validate_publications_exact split: if_splits)

lemma valid_receipt_segment:
  assumes "valid_receipt E d"
  defines "rest \<equiv> pending_occurrences (drop (epoch_start (rd_publications d)) (rd_entries d))"
  shows "distinct (map fst rest)" and "a \<in> fst ` set rest \<Longrightarrow> epoch_links (rd_publications d) a = None"
proof -
  have "collect_unpublished (epoch_links (rd_publications d)) Map.empty
      (drop (epoch_start (rd_publications d)) (rd_entries d)) = Inr (map_of rest)"
    using epochs_end[of "rd_publications d" "rd_entries d" 0 Map.empty] valid_receiptD(3,4)[OF assms(1)]
    by (cases "rd_publications d = []") (auto simp: rest_def epoch_start_def epoch_links_def Let_def)
  then show "distinct (map fst rest)" and "a \<in> fst ` set rest \<Longrightarrow> epoch_links (rd_publications d) a = None"
    by (auto simp: collect_unpublished_exact rest_def split: if_splits)
qed

text \<open>The last pending entry of an action is the open one.\<close>

lemma open_is_latest:
  assumes "valid_receipt E d" and "open_occurrences d a = Some i"
  shows "map_option en_id (find_first (pending_for a) (rev (rd_entries d))) = Some i"
proof -
  let ?start = "epoch_start (rd_publications d)" and ?es = "rd_entries d"
  let ?rest = "pending_occurrences (drop ?start ?es)"
  have late: "map_option en_id (find_first (pending_for a) (rev (drop ?start ?es))) = map_of ?rest a"
    using valid_receipt_segment(1)[OF assms(1)] by (simp add: find_pending pending_occurrences_rev map_of_rev_distinct)
  have split: "rev ?es = rev (drop ?start ?es) @ rev (take ?start ?es)"
    by (metis append_take_drop_id rev_append)
  show ?thesis
  proof (cases "map_of ?rest a")
    case (Some j)
    then have "a \<in> fst ` set ?rest" by (metis map_of_eq_None_iff option.distinct(1))
    then have "epoch_links (rd_publications d) a = None" by (rule valid_receipt_segment(2)[OF assms(1)])
    then have "j = i" using assms(2) Some by (simp add: open_occurrences_def map_add_def)
    then show ?thesis using late Some split by (auto simp: find_first_append split: option.splits)
  next
    case None
    then have links: "epoch_links (rd_publications d) a = Some i"
      using assms(2) by (auto simp: open_occurrences_def map_add_def split: option.splits)
    then have ne: "rd_publications d \<noteq> []" by (auto simp: epoch_links_def)
    let ?p = "last (rd_publications d)"
    have "validate_publication E ?es ?p = Inr ()" using valid_receiptD(2)[OF assms(1)] ne by simp
    moreover obtain l where "l \<in> set (pb_pending ?p)" "lk_action_id l = a" "lk_entry_id l = i"
      using links ne by (auto simp: epoch_links_def links_map_def link_pair_def dest!: map_of_SomeD)
    ultimately have "map_option en_id (find_first (pending_for a) (rev (take ?start ?es))) = Some i"
      using ne by (auto simp: validate_publication_def result_simps validate_links_exact epoch_start_def split: if_splits)
    then show ?thesis using late None split by (auto simp: find_first_append split: option.splits)
  qed
qed

section \<open>The operations on a document\<close>

definition append_entry :: "receipt_entry \<Rightarrow> receipt_document \<Rightarrow> receipt_document" where
  "append_entry e d = d\<lparr>rd_entries := rd_entries d @ [e]\<rparr>"

definition append_publication :: "pending_publication \<Rightarrow> receipt_document \<Rightarrow> receipt_document" where
  "append_publication p d = d\<lparr>rd_publications := rd_publications d @ [p]\<rparr>"

text \<open>An entry that fits a document apart from the epochs.\<close>

definition entry_fits :: "receipt_env \<Rightarrow> receipt_document \<Rightarrow> receipt_entry \<Rightarrow> bool" where
  "entry_fits E d e \<longleftrightarrow>
     validate_entry E e = Inr () \<and> validate_action_scope (rd_scope d) (en_action e) = Inr () \<and>
     (rd_scope d = UserScope \<longrightarrow> en_privilege e = Used_none) \<and>
     en_id e \<notin> en_id ` set (rd_entries d) \<union> pb_id ` set (rd_publications d)"

definition publication_fits :: "receipt_env \<Rightarrow> receipt_document \<Rightarrow> pending_publication \<Rightarrow> bool" where
  "publication_fits E d p \<longleftrightarrow>
     validate_entry_id E (pb_id p) = Inr () \<and> validate_timestamp E (pb_timestamp p) = Inr () \<and>
     pb_id p \<notin> en_id ` set (rd_entries d) \<union> pb_id ` set (rd_publications d) \<and>
     pb_timestamp p \<notin> pb_timestamp ` set (rd_publications d) \<and>
     pb_entry_count p = length (rd_entries d) \<and>
     distinct (map lk_action_id (pb_pending p)) \<and> distinct (map lk_entry_id (pb_pending p)) \<and>
     (\<forall>l\<in>set (pb_pending p). validate_action_identifier E (lk_action_id l) = Inr () \<and>
        validate_entry_id E (lk_entry_id l) = Inr ())"

lemma publication_append_entry:
  "pb_entry_count p \<le> length es \<Longrightarrow>
     validate_publication E (es @ [e]) p = Inr () \<longleftrightarrow> validate_publication E es p = Inr () \<and> pb_id p \<noteq> en_id e"
  by (auto simp: validate_publication_def result_simps split: if_splits)

lemma open_append_entry:
  assumes "valid_receipt E d"
  shows "open_occurrences (append_entry e d) =
    (if en_status e = Pending \<and> open_occurrences d (receipt_action_id (en_action e)) = None
     then (open_occurrences d)(receipt_action_id (en_action e) \<mapsto> en_id e)
     else open_occurrences d)"
proof -
  have "epoch_start (rd_publications d) \<le> length (rd_entries d)"
    using valid_receiptD(4)[OF assms] by (cases "rd_publications d = []") (auto simp: epoch_start_def)
  then show ?thesis
    by (auto simp: open_occurrences_def append_entry_def occurrence_of_def map_add_def fun_eq_iff split: option.splits)
qed

lemma valid_append_entry:
  assumes "valid_receipt E d"
  shows "valid_receipt E (append_entry e d) \<longleftrightarrow>
    entry_fits E d e \<and> (en_status e = Pending \<longrightarrow> open_occurrences d (receipt_action_id (en_action e)) = None)"
proof -
  note parts = valid_receiptD[OF assms]
  have pubs: "validate_publications E (rd_entries d @ [e]) 0 {} {} (rd_publications d) = Inr () \<longleftrightarrow>
      en_id e \<notin> pb_id ` set (rd_publications d)"
    using assms parts(4) publication_append_entry[of _ "rd_entries d" E e]
    by (auto simp: validate_publications_exact valid_receipt_def validate_document_def validate_structure_def
        result_simps image_iff split: if_splits)
  have epochs: "check_epochs (rd_entries d @ [e]) 0 Map.empty (rd_publications d) = Inr () \<longleftrightarrow>
      (en_status e = Pending \<longrightarrow> open_occurrences d (receipt_action_id (en_action e)) = None)"
    using epochs_append[OF parts(4), of 0 e Map.empty] parts(3)
    by (cases "rd_publications d = []") (auto simp: open_occurrences_def epoch_start_def epoch_links_def)
  have version: "rd_version d = receipt_schema_version"
    using assms by (auto simp: valid_receipt_def validate_document_def validate_structure_def result_simps split: if_splits)
  show ?thesis
    using parts(1) pubs epochs version
    by (auto simp: valid_receipt_def validate_document_def validate_structure_def append_entry_def result_simps
        validate_entries_append validate_pending_publication_epochs_def entry_fits_def)
qed

lemma open_append_publication:
  "pb_entry_count p = length (rd_entries d) \<Longrightarrow>
     open_occurrences (append_publication p d) = links_map (pb_pending p)"
  by (simp add: open_occurrences_def append_publication_def epoch_start_def epoch_links_def)

lemma links_le_open:
  assumes "distinct (map lk_action_id ls)"
  shows "links_map ls \<subseteq>\<^sub>m m \<longleftrightarrow> (\<forall>l\<in>set ls. m (lk_action_id l) = Some (lk_entry_id l))"
proof -
  have "distinct (map fst (map link_pair ls))" using assms by (simp add: link_pair_def o_def)
  then have member: "links_map ls a = Some i \<longleftrightarrow> (\<exists>l\<in>set ls. a = lk_action_id l \<and> i = lk_entry_id l)" for a i
    by (auto simp: links_map_def map_of_eq_Some_iff link_pair_def)
  show ?thesis
  proof
    assume le: "links_map ls \<subseteq>\<^sub>m m"
    show "\<forall>l\<in>set ls. m (lk_action_id l) = Some (lk_entry_id l)"
    proof
      fix l assume "l \<in> set ls"
      then have "links_map ls (lk_action_id l) = Some (lk_entry_id l)" using member by blast
      then show "m (lk_action_id l) = Some (lk_entry_id l)" using le by (metis domI map_le_def)
    qed
  next
    assume all: "\<forall>l\<in>set ls. m (lk_action_id l) = Some (lk_entry_id l)"
    show "links_map ls \<subseteq>\<^sub>m m"
      unfolding map_le_def
    proof
      fix a assume "a \<in> dom (links_map ls)"
      then obtain i where i: "links_map ls a = Some i" by blast
      then show "links_map ls a = m a" using all member by fastforce
    qed
  qed
qed

lemma valid_append_publication:
  assumes valid: "valid_receipt E d" and count: "pb_entry_count p = length (rd_entries d)"
  shows "valid_receipt E (append_publication p d) \<longleftrightarrow>
    publication_fits E d p \<and> links_map (pb_pending p) \<subseteq>\<^sub>m open_occurrences d"
proof -
  note parts = valid_receiptD[OF valid]
  let ?es = "rd_entries d" and ?ps = "rd_publications d"
  have old: "sorted (0 # map pb_entry_count ?ps)" "distinct (map pb_id ?ps)" "distinct (map pb_timestamp ?ps)"
      "rd_version d = receipt_schema_version"
    using valid
    by (auto simp: valid_receipt_def validate_document_def validate_structure_def result_simps
        validate_publications_exact split: if_splits)
  have links: "(\<forall>l\<in>set (pb_pending p). open_occurrences d (lk_action_id l) = Some (lk_entry_id l)) \<Longrightarrow>
      \<forall>l\<in>set (pb_pending p).
        map_option en_id (find_first (pending_for (lk_action_id l)) (rev ?es)) = Some (lk_entry_id l)"
    using open_is_latest[OF valid] by blast
  have one: "validate_publication E ?es p = Inr () \<longleftrightarrow> publication_fits E d p"
    if "\<forall>l\<in>set (pb_pending p). open_occurrences d (lk_action_id l) = Some (lk_entry_id l)"
      "pb_id p \<notin> pb_id ` set ?ps" "pb_timestamp p \<notin> pb_timestamp ` set ?ps"
    using links[OF that(1)] that(2,3) count
    by (simp add: validate_publication_def publication_fits_def result_simps validate_links_exact list_ex_iff image_iff)
      metis
  have all: "validate_publications E ?es 0 {} {} (?ps @ [p]) = Inr () \<longleftrightarrow>
      validate_publication E ?es p = Inr () \<and> pb_id p \<notin> pb_id ` set ?ps \<and> pb_timestamp p \<notin> pb_timestamp ` set ?ps"
    using old parts(2,4) count by (auto simp: validate_publications_exact sorted_append)
  have epochs: "check_epochs ?es 0 Map.empty (?ps @ [p]) = Inr () \<longleftrightarrow>
      (\<forall>l\<in>set (pb_pending p). open_occurrences d (lk_action_id l) = Some (lk_entry_id l))"
    if "distinct (map lk_action_id (pb_pending p))"
    using epochs_publish[of ?ps p ?es 0 Map.empty] parts(3,4) count that
    by (cases "?ps = []") (auto simp: open_occurrences_def epoch_start_def epoch_links_def)
  have whole: "valid_receipt E (append_publication p d) \<longleftrightarrow>
      validate_publication E ?es p = Inr () \<and> pb_id p \<notin> pb_id ` set ?ps \<and> pb_timestamp p \<notin> pb_timestamp ` set ?ps \<and>
      check_epochs ?es 0 Map.empty (?ps @ [p]) = Inr ()"
    using old(4) parts(1) all
    by (simp add: valid_receipt_def validate_document_def validate_structure_def append_publication_def result_simps
        validate_pending_publication_epochs_def)
  show ?thesis
  proof
    assume "valid_receipt E (append_publication p d)"
    then have *: "validate_publication E ?es p = Inr ()" "pb_id p \<notin> pb_id ` set ?ps"
        "pb_timestamp p \<notin> pb_timestamp ` set ?ps" "check_epochs ?es 0 Map.empty (?ps @ [p]) = Inr ()"
      using whole by auto
    then have "distinct (map lk_action_id (pb_pending p))" using validate_publication_distinct by blast
    then show "publication_fits E d p \<and> links_map (pb_pending p) \<subseteq>\<^sub>m open_occurrences d"
      using * one epochs links_le_open by blast
  next
    assume *: "publication_fits E d p \<and> links_map (pb_pending p) \<subseteq>\<^sub>m open_occurrences d"
    then have d: "distinct (map lk_action_id (pb_pending p))" "pb_id p \<notin> pb_id ` set ?ps"
        "pb_timestamp p \<notin> pb_timestamp ` set ?ps"
      by (auto simp: publication_fits_def)
    then show "valid_receipt E (append_publication p d)"
      using * whole one epochs links_le_open by blast
  qed
qed

section \<open>The receipt implements a map\<close>

text \<open>What an entry and a publication mean for the map from waiting actions to their entries.\<close>

definition note_entry :: "receipt_entry \<Rightarrow> (string \<rightharpoonup> string) \<Rightarrow> (string \<rightharpoonup> string) option" where
  "note_entry e m =
     (let a = receipt_action_id (en_action e)
      in if en_status e \<noteq> Pending then Some m
         else if m a = None then Some (m(a \<mapsto> en_id e)) else None)"

definition note_publication :: "pending_publication \<Rightarrow> (string \<rightharpoonup> string) \<Rightarrow> (string \<rightharpoonup> string) option" where
  "note_publication p m =
     (if links_map (pb_pending p) \<subseteq>\<^sub>m m then Some (m |` (lk_action_id ` set (pb_pending p))) else None)"

lemma restrict_links: "links_map ls \<subseteq>\<^sub>m m \<Longrightarrow> m |` (lk_action_id ` set ls) = links_map ls"
proof -
  assume le: "links_map ls \<subseteq>\<^sub>m m"
  have dom: "dom (links_map ls) = lk_action_id ` set ls"
    by (auto simp: links_map_def dom_map_of_conv_image_fst link_pair_def image_image)
  show ?thesis
  proof
    fix a show "(m |` (lk_action_id ` set ls)) a = links_map ls a"
    proof (cases "a \<in> dom (links_map ls)")
      case True
      then show ?thesis using le dom by (auto simp: map_le_def restrict_map_def)
    next
      case False
      then show ?thesis unfolding dom[symmetric] by (simp add: restrict_map_def domIff)
    qed
  qed
qed

text \<open>
  C6. A receipt is a ledger of a map from the actions that wait for a human to the entry that recorded each.
  For a receipt the code accepts: the code's backward and forward search returns the map's value at an action;
  appending an entry is accepted exactly when the entry by itself fits and, for a pending one, the map has
  nothing at its action, and then the map gains that binding, while any other entry leaves it alone; appending a
  publication of the whole ledger is accepted exactly when the publication by itself fits and it names only
  bindings of the map, and then the map is cut down to the actions it names.
\<close>

theorem receipt_refines_open_map:
  assumes "valid_receipt E d"
  shows "current_pending_occurrence d a None =
      map_option (\<lambda>i. \<lparr>lk_action_id = a, lk_entry_id = i\<rparr>) (open_occurrences d a)
    \<and> (if valid_receipt E (append_entry e d) then Some (open_occurrences (append_entry e d)) else None) =
        (if entry_fits E d e then note_entry e (open_occurrences d) else None)
    \<and> (pb_entry_count p = length (rd_entries d) \<longrightarrow>
        (if valid_receipt E (append_publication p d) then Some (open_occurrences (append_publication p d)) else None) =
        (if publication_fits E d p then note_publication p (open_occurrences d) else None))"
  using current_occurrence_is_open valid_append_entry[OF assms] valid_append_publication[OF assms]
    open_append_entry[OF assms] open_append_publication restrict_links
  by (auto simp: note_entry_def note_publication_def Let_def)

text \<open>A receipt with one pending entry.\<close>

definition demo_receipt_env :: receipt_env where
  "demo_receipt_env =
     \<lparr>re_crates = demo_crates\<lparr>rfc3339_parse := \<lambda>s. Some (length s),
                              rfc3339_text := \<lambda>n. replicate (n - 1) (CHR ''0'') @ ''Z''\<rparr>,
      re_os = Linux, re_account_name = (\<lambda>_. True), re_pretty = (\<lambda>_. ''{}'')\<rparr>"

definition demo_entry_id :: string where
  "demo_entry_id = uuid_text demo_crates demo_uuid"

definition demo_publication_id :: string where
  "demo_publication_id = uuid_text demo_crates (demo_uuid + 1)"

definition demo_waiting :: receipt_entry where
  "demo_waiting =
     \<lparr>en_id = demo_entry_id, en_action = Act_foundation ''tools.install'',
      en_timestamp = ''00Z'', en_privilege = Used_none, en_effect = no_effect, en_status = Pending\<rparr>"

definition demo_publication :: pending_publication where
  "demo_publication =
     \<lparr>pb_id = demo_publication_id, pb_timestamp = ''000Z'', pb_entry_count = 1,
      pb_pending = [\<lparr>lk_action_id = ''tools.install'', lk_entry_id = demo_entry_id\<rparr>]\<rparr>"

definition demo_receipt :: receipt_document where
  "demo_receipt = append_entry demo_waiting (empty_receipt UserScope)"

lemma demo_action_identifier: "validate_action_identifier E ''tools.install'' = Inr ()"
proof -
  have "plain_sentence [''tools.install'']" by code_simp
  then have "validate_static_text C ''tools.install''" for C
    using sentence_safe[of "[''tools.install'']"] by (simp add: validate_static_text_def sentence_def)
  moreover have "valid_action_segment ''tools'' \<and> valid_action_segment ''install''" by code_simp
  moreover have "split_on (CHR ''.'') ''tools.install'' = [''tools'', ''install'']" by code_simp
  ultimately show ?thesis by (simp add: validate_action_identifier_def safe_text_def)
qed

text \<open>The environments that read identifiers and times as the example does.\<close>

definition demo_like :: "receipt_env \<Rightarrow> bool" where
  "demo_like E \<longleftrightarrow>
     uuid_parse (re_crates E) = uuid_parse demo_crates \<and> uuid_text (re_crates E) = uuid_text demo_crates \<and>
     uuid_version (re_crates E) = uuid_version demo_crates \<and>
     (\<forall>t. rfc3339_parse (re_crates E) t = Some (length t)) \<and>
     (\<forall>n. rfc3339_text (re_crates E) n = replicate (n - 1) (CHR ''0'') @ ''Z'')"

lemma demo_receipt_env_like [simp]: "demo_like demo_receipt_env"
  by (simp add: demo_like_def demo_receipt_env_def)

lemma demo_entry_ids:
  "demo_like E \<Longrightarrow> validate_entry_id E demo_entry_id = Inr ()"
  "demo_like E \<Longrightarrow> validate_entry_id E demo_publication_id = Inr ()"
  "demo_entry_id \<noteq> demo_publication_id"
proof -
  have version: "uuid_version demo_crates demo_uuid = 7" "uuid_version demo_crates (demo_uuid + 1) = 7"
    by (simp_all add: demo_uuid_def drop_bit_eq_div unat_div)
  show "demo_like E \<Longrightarrow> validate_entry_id E demo_entry_id = Inr ()"
    "demo_like E \<Longrightarrow> validate_entry_id E demo_publication_id = Inr ()"
    using demo_uuid_text_parses version
    by (simp_all add: validate_entry_id_def demo_entry_id_def demo_publication_id_def demo_like_def
        del: demo_crates_sel)
  have "(demo_uuid :: uuid) \<noteq> demo_uuid + 1" by (simp add: demo_uuid_def)
  then have "uuid_parse demo_crates demo_entry_id \<noteq> uuid_parse demo_crates demo_publication_id"
    unfolding demo_entry_id_def demo_publication_id_def demo_uuid_text_parses by simp
  then show "demo_entry_id \<noteq> demo_publication_id" by metis
qed

lemma demo_timestamps:
  "demo_like E \<Longrightarrow> validate_timestamp E ''00Z'' = Inr ()" "demo_like E \<Longrightarrow> validate_timestamp E ''000Z'' = Inr ()"
  by (simp_all add: demo_like_def validate_timestamp_def ends_with_def numeral_nat)

lemma demo_entry_fits: "demo_like E \<Longrightarrow> entry_fits E (empty_receipt UserScope) demo_waiting"
  using demo_action_identifier demo_entry_ids demo_timestamps
  by (simp add: entry_fits_def demo_waiting_def empty_receipt_def validate_entry_def result_simps no_effect_def
      validate_effect_def validate_action_effect_def claims_nothing_def optional_def reject_if_def)

lemma empty_receipt_valid: "valid_receipt E (empty_receipt scope)"
  by (simp add: valid_receipt_def validate_document_def validate_structure_def empty_receipt_def
      validate_pending_publication_epochs_def result_simps)

lemma demo_receipt_valid: "valid_receipt E (empty_receipt UserScope)" "demo_like E \<Longrightarrow> valid_receipt E demo_receipt"
proof -
  show *: "valid_receipt E (empty_receipt UserScope)"
    by (rule empty_receipt_valid)
  show "demo_like E \<Longrightarrow> valid_receipt E demo_receipt"
    using demo_entry_fits valid_append_entry[OF *]
    by (simp add: demo_receipt_def open_occurrences_def empty_receipt_def epoch_links_def)
qed

theorem receipt_refines_open_map_witness:
  "valid_receipt demo_receipt_env (append_publication demo_publication demo_receipt)
   \<and> \<not> valid_receipt demo_receipt_env (append_entry demo_waiting demo_receipt)"
proof -
  have map: "open_occurrences demo_receipt = [''tools.install'' \<mapsto> demo_entry_id]"
    by (simp add: open_occurrences_def demo_receipt_def append_entry_def empty_receipt_def epoch_start_def
        epoch_links_def demo_waiting_def occurrence_of_def)
  have fits: "publication_fits demo_receipt_env demo_receipt demo_publication"
    using demo_action_identifier demo_entry_ids demo_timestamps
    by (simp add: publication_fits_def demo_publication_def demo_receipt_def append_entry_def empty_receipt_def
        demo_waiting_def)
  have le: "links_map (pb_pending demo_publication) \<subseteq>\<^sub>m open_occurrences demo_receipt"
    by (simp add: map demo_publication_def links_map_def link_pair_def)
  note claim = receipt_refines_open_map[OF demo_receipt_valid(2)[OF demo_receipt_env_like], of "''tools.install''" demo_waiting demo_publication]
  have "pb_entry_count demo_publication = length (rd_entries demo_receipt)"
    by (simp add: demo_publication_def demo_receipt_def append_entry_def empty_receipt_def)
  then have "valid_receipt demo_receipt_env (append_publication demo_publication demo_receipt)"
    using claim fits le by (auto simp: note_publication_def split: if_splits)
  moreover have "note_entry demo_waiting (open_occurrences demo_receipt) = None"
    by (simp add: map note_entry_def demo_waiting_def)
  then have "\<not> valid_receipt demo_receipt_env (append_entry demo_waiting demo_receipt)"
    using claim by (auto split: if_splits)
  ultimately show ?thesis by blast
qed

end
