(* ===== verification/ReceiptWire.thy ===== *)
theory ReceiptWire
  imports ReceiptDocument
begin

text \<open>
  The JSON of the setup receipt: the derived serialisers and deserialisers of
  \<open>src/setup/receipt/mod.rs\<close>. A derived structure is read from an object whose fields are known and come once, or
  from an array of its fields in order; an optional field may be missing or \<open>null\<close>, a defaulted one may be
  missing; a unit variant is its name, or an object that maps its name to \<open>null\<close>. The text of a tree
  (\<open>to_vec_pretty\<close>) and the tree of a text are the crate's.
\<close>

section \<open>Derived structures\<close>

text \<open>The fields of a structure, each with the value it is written with, if it is written.\<close>

definition struct_json :: "(string \<times> json option) list \<Rightarrow> json" where
  "struct_json kvs = JObject (concat (map (\<lambda>(k, v). case v of None \<Rightarrow> [] | Some j \<Rightarrow> [(k, j)]) kvs))"

text \<open>A derived reader: the names of the fields, each with whether it has a default.\<close>

definition wire_fields :: "(string \<times> bool) list \<Rightarrow> json \<Rightarrow> (string \<Rightarrow> json option) option" where
  "wire_fields names v =
     (case v of
        JObject kvs \<Rightarrow>
          if distinct (map fst kvs) \<and> fst ` set kvs \<subseteq> fst ` set names then Some (map_of kvs) else None
      | JArray xs \<Rightarrow>
          if length xs \<le> length names \<and> list_all snd (drop (length xs) names)
          then Some (map_of (zip (map fst names) xs)) else None
      | _ \<Rightarrow> None)"

definition required :: "(json \<Rightarrow> 'a option) \<Rightarrow> json option \<Rightarrow> 'a option" where
  "required conv v = Option.bind v conv"

definition optional_json :: "(json \<Rightarrow> 'a option) \<Rightarrow> json \<Rightarrow> 'a option option" where
  "optional_json conv v = (if v = JNull then Some None else map_option Some (conv v))"

definition option_field :: "(json \<Rightarrow> 'a option) \<Rightarrow> json option \<Rightarrow> 'a option option" where
  "option_field conv v = (case v of None \<Rightarrow> Some None | Some j \<Rightarrow> optional_json conv j)"

definition default_list :: "(json \<Rightarrow> 'a list option) \<Rightarrow> json option \<Rightarrow> 'a list option" where
  "default_list conv v = (case v of None \<Rightarrow> Some [] | Some j \<Rightarrow> conv j)"

fun each_json :: "(json \<Rightarrow> 'a option) \<Rightarrow> json list \<Rightarrow> 'a list option" where
  "each_json conv [] = Some []"
| "each_json conv (x # xs) = Option.bind (conv x) (\<lambda>y. map_option ((#) y) (each_json conv xs))"

definition list_json :: "(json \<Rightarrow> 'a option) \<Rightarrow> json \<Rightarrow> 'a list option" where
  "list_json conv v = (case v of JArray xs \<Rightarrow> each_json conv xs | _ \<Rightarrow> None)"

definition unit_variant :: "(string \<times> 'a) list \<Rightarrow> json \<Rightarrow> 'a option" where
  "unit_variant names v =
     (case v of
        JString s \<Rightarrow> map_of names s
      | JObject [(s, JNull)] \<Rightarrow> map_of names s
      | _ \<Rightarrow> None)"

definition variant_name :: "(string \<times> 'a) list \<Rightarrow> 'a \<Rightarrow> json" where
  "variant_name names x = JString (case find_first (\<lambda>p. snd p = x) names of Some (s, _) \<Rightarrow> s | None \<Rightarrow> [])"

lemma wire_present:
  assumes "map fst kvs = map fst names" "distinct (map fst names)"
  shows "wire_fields names (struct_json kvs) = Some (\<lambda>k. Option.bind (map_of kvs k) id)"
proof -
  let ?f = "\<lambda>(k, v). case v of None \<Rightarrow> [] | Some j \<Rightarrow> [(k :: string, j :: json)]"
  have sub: "fst ` set (concat (map ?f xs)) \<subseteq> fst ` set xs" for xs
    by (auto split: option.splits) force
  have distinct: "distinct (map fst xs) \<Longrightarrow> distinct (map fst (concat (map ?f xs)))" for xs
  proof (induction xs)
    case (Cons x xs)
    have "fst ` set (concat (map ?f xs)) \<subseteq> fst ` set xs" by (rule sub)
    moreover have "fst x \<notin> fst ` set xs" using Cons.prems by simp
    ultimately have "fst x \<notin> fst ` set (concat (map ?f xs))" by blast
    moreover have "distinct (map fst (concat (map ?f xs)))" using Cons by simp
    ultimately show ?case by (cases x) (simp split: option.splits del: set_concat)
  qed simp
  have find: "distinct (map fst xs) \<Longrightarrow> map_of (concat (map ?f xs)) k = Option.bind (map_of xs k) id" for xs k
  proof (induction xs)
    case (Cons x xs)
    obtain a v where x: "x = (a, v)" by force
    have "map_of xs a = None" using Cons.prems x by (simp add: map_of_eq_None_iff)
    then show ?case using Cons x by (auto split: option.splits)
  qed simp
  have "distinct (map fst kvs)" using assms by simp
  moreover have "fst ` set kvs = fst ` set names" using assms(1) by (metis set_map)
  ultimately show ?thesis
    using distinct[of kvs] sub[of kvs] find[of kvs]
    by (auto simp: wire_fields_def struct_json_def fun_eq_iff)
qed

lemma required_Some [simp]: "required conv (Some v) = conv v"
  by (simp add: required_def)

lemma option_field_written [simp]:
  "(\<And>x. y = Some x \<Longrightarrow> f x \<noteq> JNull \<and> conv (f x) = Some x) \<Longrightarrow> option_field conv (map_option f y) = Some y"
  by (cases y) (auto simp: option_field_def optional_json_def)

lemma option_field_optional [simp]:
  "option_field as_str (Option.bind (Some (map_option JString y)) id) = Some y"
  "option_field as_str (map_option JString y) = Some y"
  by (cases y; simp add: option_field_def optional_json_def)+

lemma option_field_ordinal [simp]:
  "is_none_or (\<lambda>n. n \<le> 65535) y \<Longrightarrow> option_field (as_unsigned 65535) (map_option (\<lambda>n. JInt (int n)) y) = Some y"
  by (cases y) (auto simp: option_field_def optional_json_def is_none_or_def)

lemma each_json_map: "(\<And>x. x \<in> set xs \<Longrightarrow> conv (f x) = Some x) \<Longrightarrow> each_json conv (map f xs) = Some xs"
  by (induction xs) auto

lemma list_json_map: "(\<And>x. x \<in> set xs \<Longrightarrow> conv (f x) = Some x) \<Longrightarrow> list_json conv (JArray (map f xs)) = Some xs"
  by (simp add: list_json_def each_json_map)

lemma unit_variant_name:
  fixes x :: 'a
  shows "distinct (map fst names) \<Longrightarrow> x \<in> snd ` set names \<Longrightarrow> unit_variant names (variant_name names x) = Some x"
proof -
  assume d: "distinct (map fst names)" and x: "x \<in> snd ` set names"
  have found: "x \<in> snd ` set ns \<Longrightarrow> \<exists>s. find_first (\<lambda>p. snd p = x) ns = Some (s, x) \<and> (s, x) \<in> set ns" for ns :: "(string \<times> 'a) list"
    by (induction ns) auto
  from found[OF x] obtain s where "find_first (\<lambda>p. snd p = x) names = Some (s, x)" "(s, x) \<in> set names" by blast
  then show ?thesis using d by (simp add: unit_variant_def variant_name_def)
qed

section \<open>Names\<close>

definition scope_names :: "(string \<times> installation_scope) list" where
  "scope_names = [(''user'', UserScope), (''system'', SystemScope)]"

definition policy_names :: "(string \<times> account_policy) list" where
  "policy_names = [(''current-user'', CurrentUserPolicy), (''dedicated'', DedicatedPolicy)]"

definition kind_names :: "(string \<times> principal_kind) list" where
  "kind_names = [(''unix-uid'', UnixUid), (''windows-sid'', WindowsSid)]"

definition node_names :: "(string \<times> directory_node_kind) list" where
  "node_names =
     [(''support'', Node_support), (''root'', Node_root), (''repos'', Node_repos), (''jobs'', Node_jobs),
      (''cache'', Node_cache), (''artifacts'', Node_artifacts), (''logs'', Node_logs)]"

definition used_privilege_names :: "(string \<times> receipt_privilege) list" where
  "used_privilege_names = [(''none'', Used_none), (''root'', Used_root), (''admin'', Used_admin)]"

definition status_names :: "(string \<times> receipt_status) list" where
  "status_names = [(''applied'', Applied), (''pending'', Pending), (''adopted'', Adopted)]"

lemmas wire_names = scope_names_def policy_names_def kind_names_def node_names_def used_privilege_names_def
  status_names_def

lemma names_read [simp]:
  "unit_variant scope_names (variant_name scope_names s) = Some s"
  "unit_variant policy_names (variant_name policy_names p) = Some p"
  "unit_variant kind_names (variant_name kind_names k) = Some k"
  "unit_variant node_names (variant_name node_names n) = Some n"
  "unit_variant used_privilege_names (variant_name used_privilege_names u) = Some u"
  "unit_variant status_names (variant_name status_names t) = Some t"
  by ((rule unit_variant_name; simp add: wire_names), (cases s; simp add: wire_names))
    ((rule unit_variant_name; simp add: wire_names), (cases p; simp add: wire_names),
     (rule unit_variant_name; simp add: wire_names), (cases k; simp add: wire_names),
     (rule unit_variant_name; simp add: wire_names), (cases n; simp add: wire_names),
     (rule unit_variant_name; simp add: wire_names), (cases u; simp add: wire_names),
     (rule unit_variant_name; simp add: wire_names), (cases t; simp add: wire_names))

lemma variant_name_not_null [simp]: "variant_name names x \<noteq> JNull"
  by (simp add: variant_name_def)

section \<open>Parameters\<close>

text \<open>Reading one structure: its fields are looked up and converted.\<close>

definition read_struct :: "(string \<times> bool) list \<Rightarrow> ((string \<Rightarrow> json option) \<Rightarrow> 'a option) \<Rightarrow> json \<Rightarrow> 'a option" where
  "read_struct names build v = Option.bind (wire_fields names v) build"

lemma read_present:
  "map fst kvs = map fst names \<Longrightarrow> distinct (map fst names) \<Longrightarrow>
     read_struct names build (struct_json kvs) = build (\<lambda>k. Option.bind (map_of kvs k) id)"
  by (simp add: read_struct_def wire_present)

definition plain_names :: "string list \<Rightarrow> (string \<times> bool) list" where
  "plain_names ks = map (\<lambda>k. (k, False)) ks"

lemma plain_names_fst [simp]: "map fst (plain_names ks) = ks"
  by (simp add: plain_names_def o_def)

definition text_json :: "string \<Rightarrow> json option" where
  "text_json s = Some (JString s)"

definition principal_fields :: "string list" where
  "principal_fields = [''account_policy'', ''principal_kind'', ''principal_id'', ''name'']"

definition receipt_principal_json :: "receipt_principal \<Rightarrow> json" where
  "receipt_principal_json p = struct_json
     [(''account_policy'', Some (variant_name policy_names (rp_policy p))),
      (''principal_kind'', Some (variant_name kind_names (rp_kind p))),
      (''principal_id'', text_json (rp_id p)), (''name'', text_json (rp_name p))]"

definition json_receipt_principal :: "json \<Rightarrow> receipt_principal option" where
  "json_receipt_principal = read_struct (plain_names principal_fields) (\<lambda>f.
     Option.bind (required (unit_variant policy_names) (f ''account_policy'')) (\<lambda>policy.
     Option.bind (required (unit_variant kind_names) (f ''principal_kind'')) (\<lambda>kind.
     Option.bind (required as_str (f ''principal_id'')) (\<lambda>i.
     Option.bind (required as_str (f ''name'')) (\<lambda>n.
       Some \<lparr>rp_policy = policy, rp_kind = kind, rp_id = i, rp_name = n\<rparr>)))))"

lemma receipt_principal_read [simp]: "json_receipt_principal (receipt_principal_json p) = Some p"
  unfolding json_receipt_principal_def receipt_principal_json_def
  by (subst read_present) (simp_all add: principal_fields_def text_json_def)

definition ssh_field_names :: "(string \<times> bool) list" where
  "ssh_field_names =
     [(''action_id'', False), (''principal'', False), (''directory'', False), (''path'', False),
      (''owned_stanza_id'', True), (''owned_stanza_sha256'', True)]"

definition ssh_action_json :: "ssh_parameters \<Rightarrow> json" where
  "ssh_action_json x = struct_json
     [(''action_id'', text_json (sp_action_id x)),
      (''principal'', Some (receipt_principal_json (sp_principal x))),
      (''directory'', text_json (sp_directory x)), (''path'', text_json (sp_path x)),
      (''owned_stanza_id'', map_option JString (sp_stanza_id x)),
      (''owned_stanza_sha256'', map_option JString (sp_stanza_sha256 x))]"

definition json_ssh :: "json \<Rightarrow> ssh_parameters option" where
  "json_ssh = read_struct ssh_field_names (\<lambda>f.
     Option.bind (required as_str (f ''action_id'')) (\<lambda>v0.
     Option.bind (required json_receipt_principal (f ''principal'')) (\<lambda>v1.
     Option.bind (required as_str (f ''directory'')) (\<lambda>v2.
     Option.bind (required as_str (f ''path'')) (\<lambda>v3.
     Option.bind (option_field as_str (f ''owned_stanza_id'')) (\<lambda>v4.
     Option.bind (option_field as_str (f ''owned_stanza_sha256'')) (\<lambda>v5.
       Some \<lparr>sp_action_id = v0, sp_principal = v1, sp_directory = v2, sp_path = v3, sp_stanza_id = v4,
             sp_stanza_sha256 = v5\<rparr>)))))))"

lemma ssh_read [simp]: "json_ssh (ssh_action_json x) = Some x"
  unfolding json_ssh_def ssh_action_json_def
  by (subst read_present) (auto simp: ssh_field_names_def text_json_def)

definition prerequisite_field_names :: "(string \<times> bool) list" where
  "prerequisite_field_names =
     [(''action_id'', False), (''target_scope'', False), (''selector'', False)]"

definition prerequisite_json :: "prerequisite_parameters \<Rightarrow> json" where
  "prerequisite_json x = struct_json
     [(''action_id'', text_json (dp_action_id x)),
      (''target_scope'', Some (variant_name scope_names (dp_target_scope x))),
      (''selector'', text_json (dp_selector x))]"

definition json_prerequisite :: "json \<Rightarrow> prerequisite_parameters option" where
  "json_prerequisite = read_struct prerequisite_field_names (\<lambda>f.
     Option.bind (required as_str (f ''action_id'')) (\<lambda>v0.
     Option.bind (required (unit_variant scope_names) (f ''target_scope'')) (\<lambda>v1.
     Option.bind (required as_str (f ''selector'')) (\<lambda>v2.
       Some \<lparr>dp_action_id = v0, dp_target_scope = v1, dp_selector = v2\<rparr>))))"

lemma prerequisite_read [simp]: "json_prerequisite (prerequisite_json x) = Some x"
  unfolding json_prerequisite_def prerequisite_json_def
  by (subst read_present) (auto simp: prerequisite_field_names_def text_json_def)

definition deferred_field_names :: "(string \<times> bool) list" where
  "deferred_field_names =
     [(''action_id'', False), (''target_scope'', False), (''target_principal'', False),
      (''parameter_sha256'', False)]"

definition deferred_json :: "deferred_parameters \<Rightarrow> json" where
  "deferred_json x = struct_json
     [(''action_id'', text_json (de_action_id x)),
      (''target_scope'', Some (variant_name scope_names (de_target_scope x))),
      (''target_principal'', Some (receipt_principal_json (de_target_principal x))),
      (''parameter_sha256'', text_json (de_parameter_sha256 x))]"

definition json_deferred :: "json \<Rightarrow> deferred_parameters option" where
  "json_deferred = read_struct deferred_field_names (\<lambda>f.
     Option.bind (required as_str (f ''action_id'')) (\<lambda>v0.
     Option.bind (required (unit_variant scope_names) (f ''target_scope'')) (\<lambda>v1.
     Option.bind (required json_receipt_principal (f ''target_principal'')) (\<lambda>v2.
     Option.bind (required as_str (f ''parameter_sha256'')) (\<lambda>v3.
       Some \<lparr>de_action_id = v0, de_target_scope = v1, de_target_principal = v2, de_parameter_sha256 = v3\<rparr>)))))"

lemma deferred_read [simp]: "json_deferred (deferred_json x) = Some x"
  unfolding json_deferred_def deferred_json_def
  by (subst read_present) (auto simp: deferred_field_names_def text_json_def)

definition promotion_field_names :: "(string \<times> bool) list" where
  "promotion_field_names =
     [(''action_id'', False), (''machine_id'', False), (''source_scope'', False), (''target_scope'', False),
      (''user_manifest_path'', False), (''user_manifest_sha256'', False), (''system_manifest_path'', False),
      (''system_manifest_sha256'', False), (''system_manifest_identity_sha256'', True),
      (''system_receipt_path'', True), (''system_receipt_sha256'', True),
      (''system_receipt_identity_sha256'', True), (''authorization_request_id'', True),
      (''authorization_request_sha256'', True), (''authorization_record_path'', True),
      (''authorization_record_sha256'', True), (''authorization_record_identity_sha256'', True),
      (''promotion_intent_path'', True), (''promotion_intent_sha256'', True),
      (''promotion_intent_identity_sha256'', True), (''completion_record_path'', True),
      (''completion_record_sha256'', True), (''completion_record_identity_sha256'', True),
      (''original_operator'', False), (''target_principal'', False), (''selector_sha256'', False),
      (''promotion_intent_id'', False)]"

definition promotion_json :: "promotion_parameters \<Rightarrow> json" where
  "promotion_json x = struct_json
     [(''action_id'', text_json (pp_action_id x)), (''machine_id'', text_json (pp_machine_id x)),
      (''source_scope'', Some (variant_name scope_names (pp_source_scope x))),
      (''target_scope'', Some (variant_name scope_names (pp_target_scope x))),
      (''user_manifest_path'', text_json (pp_user_manifest_path x)),
      (''user_manifest_sha256'', text_json (pp_user_manifest_sha256 x)),
      (''system_manifest_path'', text_json (pp_system_manifest_path x)),
      (''system_manifest_sha256'', text_json (pp_system_manifest_sha256 x)),
      (''system_manifest_identity_sha256'', map_option JString (pp_system_manifest_identity_sha256 x)),
      (''system_receipt_path'', map_option JString (pp_system_receipt_path x)),
      (''system_receipt_sha256'', map_option JString (pp_system_receipt_sha256 x)),
      (''system_receipt_identity_sha256'', map_option JString (pp_system_receipt_identity_sha256 x)),
      (''authorization_request_id'', map_option JString (pp_authorization_request_id x)),
      (''authorization_request_sha256'', map_option JString (pp_authorization_request_sha256 x)),
      (''authorization_record_path'', map_option JString (pp_authorization_record_path x)),
      (''authorization_record_sha256'', map_option JString (pp_authorization_record_sha256 x)),
      (''authorization_record_identity_sha256'', map_option JString (pp_authorization_record_identity_sha256 x)),
      (''promotion_intent_path'', map_option JString (pp_promotion_intent_path x)),
      (''promotion_intent_sha256'', map_option JString (pp_promotion_intent_sha256 x)),
      (''promotion_intent_identity_sha256'', map_option JString (pp_promotion_intent_identity_sha256 x)),
      (''completion_record_path'', map_option JString (pp_completion_record_path x)),
      (''completion_record_sha256'', map_option JString (pp_completion_record_sha256 x)),
      (''completion_record_identity_sha256'', map_option JString (pp_completion_record_identity_sha256 x)),
      (''original_operator'', Some (receipt_principal_json (pp_original_operator x))),
      (''target_principal'', Some (receipt_principal_json (pp_target_principal x))),
      (''selector_sha256'', text_json (pp_selector_sha256 x)),
      (''promotion_intent_id'', text_json (pp_promotion_intent_id x))]"

definition json_promotion :: "json \<Rightarrow> promotion_parameters option" where
  "json_promotion = read_struct promotion_field_names (\<lambda>f.
     Option.bind (required as_str (f ''action_id'')) (\<lambda>v0.
     Option.bind (required as_str (f ''machine_id'')) (\<lambda>v1.
     Option.bind (required (unit_variant scope_names) (f ''source_scope'')) (\<lambda>v2.
     Option.bind (required (unit_variant scope_names) (f ''target_scope'')) (\<lambda>v3.
     Option.bind (required as_str (f ''user_manifest_path'')) (\<lambda>v4.
     Option.bind (required as_str (f ''user_manifest_sha256'')) (\<lambda>v5.
     Option.bind (required as_str (f ''system_manifest_path'')) (\<lambda>v6.
     Option.bind (required as_str (f ''system_manifest_sha256'')) (\<lambda>v7.
     Option.bind (option_field as_str (f ''system_manifest_identity_sha256'')) (\<lambda>v8.
     Option.bind (option_field as_str (f ''system_receipt_path'')) (\<lambda>v9.
     Option.bind (option_field as_str (f ''system_receipt_sha256'')) (\<lambda>v10.
     Option.bind (option_field as_str (f ''system_receipt_identity_sha256'')) (\<lambda>v11.
     Option.bind (option_field as_str (f ''authorization_request_id'')) (\<lambda>v12.
     Option.bind (option_field as_str (f ''authorization_request_sha256'')) (\<lambda>v13.
     Option.bind (option_field as_str (f ''authorization_record_path'')) (\<lambda>v14.
     Option.bind (option_field as_str (f ''authorization_record_sha256'')) (\<lambda>v15.
     Option.bind (option_field as_str (f ''authorization_record_identity_sha256'')) (\<lambda>v16.
     Option.bind (option_field as_str (f ''promotion_intent_path'')) (\<lambda>v17.
     Option.bind (option_field as_str (f ''promotion_intent_sha256'')) (\<lambda>v18.
     Option.bind (option_field as_str (f ''promotion_intent_identity_sha256'')) (\<lambda>v19.
     Option.bind (option_field as_str (f ''completion_record_path'')) (\<lambda>v20.
     Option.bind (option_field as_str (f ''completion_record_sha256'')) (\<lambda>v21.
     Option.bind (option_field as_str (f ''completion_record_identity_sha256'')) (\<lambda>v22.
     Option.bind (required json_receipt_principal (f ''original_operator'')) (\<lambda>v23.
     Option.bind (required json_receipt_principal (f ''target_principal'')) (\<lambda>v24.
     Option.bind (required as_str (f ''selector_sha256'')) (\<lambda>v25.
     Option.bind (required as_str (f ''promotion_intent_id'')) (\<lambda>v26.
       Some \<lparr>pp_action_id = v0, pp_machine_id = v1, pp_source_scope = v2, pp_target_scope = v3,
             pp_user_manifest_path = v4, pp_user_manifest_sha256 = v5, pp_system_manifest_path = v6,
             pp_system_manifest_sha256 = v7, pp_system_manifest_identity_sha256 = v8,
             pp_system_receipt_path = v9, pp_system_receipt_sha256 = v10,
             pp_system_receipt_identity_sha256 = v11, pp_authorization_request_id = v12,
             pp_authorization_request_sha256 = v13, pp_authorization_record_path = v14,
             pp_authorization_record_sha256 = v15, pp_authorization_record_identity_sha256 = v16,
             pp_promotion_intent_path = v17, pp_promotion_intent_sha256 = v18,
             pp_promotion_intent_identity_sha256 = v19, pp_completion_record_path = v20,
             pp_completion_record_sha256 = v21, pp_completion_record_identity_sha256 = v22,
             pp_original_operator = v23, pp_target_principal = v24, pp_selector_sha256 = v25,
             pp_promotion_intent_id = v26\<rparr>))))))))))))))))))))))))))))"

lemma promotion_read [simp]: "json_promotion (promotion_json x) = Some x"
  unfolding json_promotion_def promotion_json_def
  by (subst read_present) (auto simp: promotion_field_names_def text_json_def)

definition node_field_names :: "(string \<times> bool) list" where
  "node_field_names =
     [(''type'', False), (''ordinal'', False)]"

definition node_json :: "directory_node \<Rightarrow> json" where
  "node_json x = struct_json
     [(''type'', Some (variant_name node_names (dn_kind x))),
      (''ordinal'', map_option (\<lambda>n. JInt (int n)) (dn_ordinal x))]"

definition json_node :: "json \<Rightarrow> directory_node option" where
  "json_node = read_struct node_field_names (\<lambda>f.
     Option.bind (required (unit_variant node_names) (f ''type'')) (\<lambda>v0.
     Option.bind (option_field (as_unsigned 65535) (f ''ordinal'')) (\<lambda>v1.
       Some \<lparr>dn_kind = v0, dn_ordinal = v1\<rparr>)))"

lemma node_read: "is_none_or (\<lambda>n. n \<le> 65535) (dn_ordinal x) \<Longrightarrow> json_node (node_json x) = Some x"
  unfolding json_node_def node_json_def
  by (subst read_present) (auto simp: node_field_names_def text_json_def)

definition directory_field_names :: "(string \<times> bool) list" where
  "directory_field_names =
     [(''action_id'', False), (''installation_scope'', False), (''principal'', False), (''root'', False),
      (''node'', False), (''path'', False)]"

definition directory_json :: "directory_parameters \<Rightarrow> json" where
  "directory_json x = struct_json
     [(''action_id'', text_json (wd_action_id x)),
      (''installation_scope'', Some (variant_name scope_names (wd_scope x))),
      (''principal'', Some (receipt_principal_json (wd_principal x))), (''root'', text_json (wd_root x)),
      (''node'', Some (node_json (wd_node x))), (''path'', text_json (wd_path x))]"

definition json_directory :: "json \<Rightarrow> directory_parameters option" where
  "json_directory = read_struct directory_field_names (\<lambda>f.
     Option.bind (required as_str (f ''action_id'')) (\<lambda>v0.
     Option.bind (required (unit_variant scope_names) (f ''installation_scope'')) (\<lambda>v1.
     Option.bind (required json_receipt_principal (f ''principal'')) (\<lambda>v2.
     Option.bind (required as_str (f ''root'')) (\<lambda>v3.
     Option.bind (required json_node (f ''node'')) (\<lambda>v4.
     Option.bind (required as_str (f ''path'')) (\<lambda>v5.
       Some \<lparr>wd_action_id = v0, wd_scope = v1, wd_principal = v2, wd_root = v3, wd_node = v4, wd_path = v5\<rparr>)))))))"

lemma directory_read: "is_none_or (\<lambda>n. n \<le> 65535) (dn_ordinal (wd_node x)) \<Longrightarrow> json_directory (directory_json x) = Some x"
  unfolding json_directory_def directory_json_def
  by (subst read_present) (simp_all add: directory_field_names_def text_json_def node_read)

section \<open>Actions\<close>

text \<open>An adjacently tagged variant: its tag and its content.\<close>

definition foundation_field_names :: "(string \<times> bool) list" where
  "foundation_field_names =
     [(''action_id'', False)]"

definition foundation_json :: "string \<Rightarrow> json" where
  "foundation_json x = struct_json
     [(''action_id'', text_json x)]"

definition json_foundation :: "json \<Rightarrow> string option" where
  "json_foundation = read_struct foundation_field_names (\<lambda>f.
     Option.bind (required as_str (f ''action_id'')) (\<lambda>v0.
       Some v0))"

lemma foundation_read [simp]: "json_foundation (foundation_json x) = Some x"
  unfolding json_foundation_def foundation_json_def
  by (subst read_present) (simp_all add: foundation_field_names_def text_json_def)

definition tagged :: "string \<Rightarrow> json \<Rightarrow> json" where
  "tagged tag content = struct_json [(''type'', text_json tag), (''parameters'', Some content)]"

primrec action_json :: "receipt_action \<Rightarrow> json" where
  "action_json (Act_foundation i) = tagged ''foundation'' (foundation_json i)"
| "action_json (Act_current_user_ssh p) = tagged ''current_user_ssh'' (ssh_action_json p)"
| "action_json (Act_prerequisite p) = tagged ''dedicated_account_prerequisite'' (prerequisite_json p)"
| "action_json (Act_deferred p) = tagged ''deferred_system_action'' (deferred_json p)"
| "action_json (Act_promotion p) = tagged ''scope_promotion'' (promotion_json p)"
| "action_json (Act_directory p) = tagged ''worker_directory'' (directory_json p)"

definition action_content :: "string \<Rightarrow> json \<Rightarrow> receipt_action option" where
  "action_content tag content =
     (if tag = ''foundation'' then map_option Act_foundation (json_foundation content)
      else if tag = ''current_user_ssh'' then map_option Act_current_user_ssh (json_ssh content)
      else if tag = ''dedicated_account_prerequisite'' then map_option Act_prerequisite (json_prerequisite content)
      else if tag = ''deferred_system_action'' then map_option Act_deferred (json_deferred content)
      else if tag = ''scope_promotion'' then map_option Act_promotion (json_promotion content)
      else if tag = ''worker_directory'' then map_option Act_directory (json_directory content)
      else None)"

definition json_action :: "json \<Rightarrow> receipt_action option" where
  "json_action = read_struct (plain_names [''type'', ''parameters'']) (\<lambda>f.
     Option.bind (required as_str (f ''type'')) (\<lambda>tag. Option.bind (f ''parameters'') (action_content tag)))"

lemma json_tagged [simp]: "json_action (tagged tag content) = action_content tag content"
  unfolding json_action_def tagged_def by (subst read_present) (simp_all add: text_json_def)

text \<open>The ordinal of a support directory is a \<open>u16\<close>.\<close>

definition sized_action :: "receipt_action \<Rightarrow> bool" where
  "sized_action a \<longleftrightarrow> (case a of Act_directory p \<Rightarrow> is_none_or (\<lambda>n. n \<le> 65535) (dn_ordinal (wd_node p)) | _ \<Rightarrow> True)"

lemma action_read: "sized_action a \<Longrightarrow> json_action (action_json a) = Some a"
  by (cases a) (simp_all add: action_content_def sized_action_def directory_read)

section \<open>Entries\<close>

definition created_directory_field_names :: "(string \<times> bool) list" where
  "created_directory_field_names =
     [(''path'', False)]"

definition created_directory_json :: "string \<Rightarrow> json" where
  "created_directory_json x = struct_json
     [(''path'', text_json x)]"

definition json_created_directory :: "json \<Rightarrow> string option" where
  "json_created_directory = read_struct created_directory_field_names (\<lambda>f.
     Option.bind (required as_str (f ''path'')) (\<lambda>v0.
       Some v0))"

lemma created_directory_read [simp]: "json_created_directory (created_directory_json x) = Some x"
  unfolding json_created_directory_def created_directory_json_def
  by (subst read_present) (simp_all add: created_directory_field_names_def text_json_def)

definition named_field_names :: "(string \<times> bool) list" where
  "named_field_names =
     [(''name'', False)]"

definition named_json :: "string \<Rightarrow> json" where
  "named_json x = struct_json
     [(''name'', text_json x)]"

definition json_named :: "json \<Rightarrow> string option" where
  "json_named = read_struct named_field_names (\<lambda>f.
     Option.bind (required as_str (f ''name'')) (\<lambda>v0.
       Some v0))"

lemma named_read [simp]: "json_named (named_json x) = Some x"
  unfolding json_named_def named_json_def
  by (subst read_present) (simp_all add: named_field_names_def text_json_def)

definition created_file_field_names :: "(string \<times> bool) list" where
  "created_file_field_names =
     [(''path'', False), (''sha256'', False)]"

definition created_file_json :: "created_file \<Rightarrow> json" where
  "created_file_json x = struct_json
     [(''path'', text_json (cf_path x)), (''sha256'', text_json (cf_sha256 x))]"

definition json_created_file :: "json \<Rightarrow> created_file option" where
  "json_created_file = read_struct created_file_field_names (\<lambda>f.
     Option.bind (required as_str (f ''path'')) (\<lambda>v0.
     Option.bind (required as_str (f ''sha256'')) (\<lambda>v1.
       Some \<lparr>cf_path = v0, cf_sha256 = v1\<rparr>)))"

lemma created_file_read [simp]: "json_created_file (created_file_json x) = Some x"
  unfolding json_created_file_def created_file_json_def
  by (subst read_present) (simp_all add: created_file_field_names_def text_json_def)

definition modified_file_field_names :: "(string \<times> bool) list" where
  "modified_file_field_names =
     [(''path'', False), (''before_sha256'', False), (''backup_path'', False)]"

definition modified_file_json :: "modified_file \<Rightarrow> json" where
  "modified_file_json x = struct_json
     [(''path'', text_json (mf_path x)), (''before_sha256'', text_json (mf_before_sha256 x)),
      (''backup_path'', text_json (mf_backup_path x))]"

definition json_modified_file :: "json \<Rightarrow> modified_file option" where
  "json_modified_file = read_struct modified_file_field_names (\<lambda>f.
     Option.bind (required as_str (f ''path'')) (\<lambda>v0.
     Option.bind (required as_str (f ''before_sha256'')) (\<lambda>v1.
     Option.bind (required as_str (f ''backup_path'')) (\<lambda>v2.
       Some \<lparr>mf_path = v0, mf_before_sha256 = v1, mf_backup_path = v2\<rparr>))))"

lemma modified_file_read [simp]: "json_modified_file (modified_file_json x) = Some x"
  unfolding json_modified_file_def modified_file_json_def
  by (subst read_present) (simp_all add: modified_file_field_names_def text_json_def)

definition appended_file_field_names :: "(string \<times> bool) list" where
  "appended_file_field_names =
     [(''path'', False), (''stanza_id'', False), (''appended_sha256'', False)]"

definition appended_file_json :: "appended_file \<Rightarrow> json" where
  "appended_file_json x = struct_json
     [(''path'', text_json (af_path x)), (''stanza_id'', text_json (af_stanza_id x)),
      (''appended_sha256'', text_json (af_appended_sha256 x))]"

definition json_appended_file :: "json \<Rightarrow> appended_file option" where
  "json_appended_file = read_struct appended_file_field_names (\<lambda>f.
     Option.bind (required as_str (f ''path'')) (\<lambda>v0.
     Option.bind (required as_str (f ''stanza_id'')) (\<lambda>v1.
     Option.bind (required as_str (f ''appended_sha256'')) (\<lambda>v2.
       Some \<lparr>af_path = v0, af_stanza_id = v1, af_appended_sha256 = v2\<rparr>))))"

lemma appended_file_read [simp]: "json_appended_file (appended_file_json x) = Some x"
  unfolding json_appended_file_def appended_file_json_def
  by (subst read_present) (simp_all add: appended_file_field_names_def text_json_def)

definition download_field_names :: "(string \<times> bool) list" where
  "download_field_names =
     [(''url'', False), (''version'', False), (''sha256'', False)]"

definition download_json :: "download_provenance \<Rightarrow> json" where
  "download_json x = struct_json
     [(''url'', text_json (dw_url x)), (''version'', text_json (dw_version x)),
      (''sha256'', text_json (dw_sha256 x))]"

definition json_download :: "json \<Rightarrow> download_provenance option" where
  "json_download = read_struct download_field_names (\<lambda>f.
     Option.bind (required as_str (f ''url'')) (\<lambda>v0.
     Option.bind (required as_str (f ''version'')) (\<lambda>v1.
     Option.bind (required as_str (f ''sha256'')) (\<lambda>v2.
       Some \<lparr>dw_url = v0, dw_version = v1, dw_sha256 = v2\<rparr>))))"

lemma download_read [simp]: "json_download (download_json x) = Some x"
  unfolding json_download_def download_json_def
  by (subst read_present) (simp_all add: download_field_names_def text_json_def)

definition slot_json :: "download_provenance option \<Rightarrow> json" where
  "slot_json d = (case d of None \<Rightarrow> JNull | Some x \<Rightarrow> download_json x)"

lemma slot_read [simp]: "option_field json_download (Some (slot_json d)) = Some d"
proof -
  have "download_json x \<noteq> JNull" for x by (simp add: download_json_def struct_json_def)
  then show ?thesis by (cases d) (simp_all add: slot_json_def option_field_def optional_json_def)
qed

lemma listed_read [simp]:
  "(\<And>x. conv (f x) = Some x) \<Longrightarrow> list_json conv (JArray (map f xs)) = Some xs"
  "(\<And>x. conv (f x) = Some x) \<Longrightarrow> default_list (list_json conv) (Some (JArray (map f xs))) = Some xs"
  "(\<And>x. conv (f x) = Some x) \<Longrightarrow>
     default_list (list_json conv) (if xs = [] then None else Some (JArray (map f xs))) = Some xs"
  by (auto simp: list_json_map default_list_def)

definition entry_field_names :: "(string \<times> bool) list" where
  "entry_field_names =
     [(''entry_id'', False), (''action'', False), (''timestamp'', False), (''privilege_used'', False),
      (''directories_created'', True), (''files_created'', False), (''files_modified'', False),
      (''files_appended'', True), (''services'', False), (''accounts'', False), (''registry_keys'', False),
      (''firewall_rules'', False), (''download_provenance'', False), (''status'', False)]"

definition entry_json :: "receipt_entry \<Rightarrow> json" where
  "entry_json x = struct_json
     [(''entry_id'', text_json (en_id x)), (''action'', Some (action_json (en_action x))),
      (''timestamp'', text_json (en_timestamp x)),
      (''privilege_used'', Some (variant_name used_privilege_names (en_privilege x))),
      (''directories_created'', Some (JArray (map created_directory_json (ef_directories_created (en_effect x))))),
      (''files_created'', Some (JArray (map created_file_json (ef_files_created (en_effect x))))),
      (''files_modified'', Some (JArray (map modified_file_json (ef_files_modified (en_effect x))))),
      (''files_appended'', (if ef_files_appended (en_effect x) = [] then None else Some (JArray (map appended_file_json (ef_files_appended (en_effect x)))))),
      (''services'', Some (JArray (map named_json (ef_services (en_effect x))))),
      (''accounts'', Some (JArray (map named_json (ef_accounts (en_effect x))))),
      (''registry_keys'', Some (JArray (map created_directory_json (ef_registry_keys (en_effect x))))),
      (''firewall_rules'', Some (JArray (map named_json (ef_firewall_rules (en_effect x))))),
      (''download_provenance'', Some (slot_json (ef_download_provenance (en_effect x)))),
      (''status'', Some (variant_name status_names (en_status x)))]"

definition json_entry :: "json \<Rightarrow> receipt_entry option" where
  "json_entry = read_struct entry_field_names (\<lambda>f.
     Option.bind (required as_str (f ''entry_id'')) (\<lambda>v0.
     Option.bind (required json_action (f ''action'')) (\<lambda>v1.
     Option.bind (required as_str (f ''timestamp'')) (\<lambda>v2.
     Option.bind (required (unit_variant used_privilege_names) (f ''privilege_used'')) (\<lambda>v3.
     Option.bind (default_list (list_json json_created_directory) (f ''directories_created'')) (\<lambda>v4.
     Option.bind (required (list_json json_created_file) (f ''files_created'')) (\<lambda>v5.
     Option.bind (required (list_json json_modified_file) (f ''files_modified'')) (\<lambda>v6.
     Option.bind (default_list (list_json json_appended_file) (f ''files_appended'')) (\<lambda>v7.
     Option.bind (required (list_json json_named) (f ''services'')) (\<lambda>v8.
     Option.bind (required (list_json json_named) (f ''accounts'')) (\<lambda>v9.
     Option.bind (required (list_json json_created_directory) (f ''registry_keys'')) (\<lambda>v10.
     Option.bind (required (list_json json_named) (f ''firewall_rules'')) (\<lambda>v11.
     Option.bind (option_field json_download (f ''download_provenance'')) (\<lambda>v12.
     Option.bind (required (unit_variant status_names) (f ''status'')) (\<lambda>v13.
       Some \<lparr>en_id = v0, en_action = v1, en_timestamp = v2, en_privilege = v3,
             en_effect = \<lparr>ef_directories_created = v4, ef_files_created = v5, ef_files_modified = v6,
                          ef_files_appended = v7, ef_services = v8, ef_accounts = v9, ef_registry_keys = v10,
                          ef_firewall_rules = v11, ef_download_provenance = v12\<rparr>,
             en_status = v13\<rparr>)))))))))))))))"

lemma entry_read: "sized_action (en_action x) \<Longrightarrow> json_entry (entry_json x) = Some x"
  unfolding json_entry_def entry_json_def
  by (subst read_present) (simp_all add: entry_field_names_def text_json_def action_read)

section \<open>Documents\<close>

definition link_field_names :: "(string \<times> bool) list" where
  "link_field_names =
     [(''action_id'', False), (''entry_id'', False)]"

definition link_json :: "publication_link \<Rightarrow> json" where
  "link_json x = struct_json
     [(''action_id'', text_json (lk_action_id x)), (''entry_id'', text_json (lk_entry_id x))]"

definition json_link :: "json \<Rightarrow> publication_link option" where
  "json_link = read_struct link_field_names (\<lambda>f.
     Option.bind (required as_str (f ''action_id'')) (\<lambda>v0.
     Option.bind (required as_str (f ''entry_id'')) (\<lambda>v1.
       Some \<lparr>lk_action_id = v0, lk_entry_id = v1\<rparr>)))"

lemma link_read [simp]: "json_link (link_json x) = Some x"
  unfolding json_link_def link_json_def
  by (subst read_present) (simp_all add: link_field_names_def text_json_def)

definition publication_field_names :: "(string \<times> bool) list" where
  "publication_field_names =
     [(''publication_id'', False), (''timestamp'', False), (''receipt_entry_count'', False),
      (''pending'', False)]"

definition publication_json :: "pending_publication \<Rightarrow> json" where
  "publication_json x = struct_json
     [(''publication_id'', text_json (pb_id x)), (''timestamp'', text_json (pb_timestamp x)),
      (''receipt_entry_count'', Some (JInt (int (pb_entry_count x)))),
      (''pending'', Some (JArray (map link_json (pb_pending x))))]"

definition json_publication :: "json \<Rightarrow> pending_publication option" where
  "json_publication = read_struct publication_field_names (\<lambda>f.
     Option.bind (required as_str (f ''publication_id'')) (\<lambda>v0.
     Option.bind (required as_str (f ''timestamp'')) (\<lambda>v1.
     Option.bind (required (as_unsigned u64_max) (f ''receipt_entry_count'')) (\<lambda>v2.
     Option.bind (required (list_json json_link) (f ''pending'')) (\<lambda>v3.
       Some \<lparr>pb_id = v0, pb_timestamp = v1, pb_entry_count = v2, pb_pending = v3\<rparr>)))))"

lemma publication_read: "pb_entry_count x \<le> u64_max \<Longrightarrow> json_publication (publication_json x) = Some x"
  unfolding json_publication_def publication_json_def
  by (subst read_present) (simp_all add: publication_field_names_def text_json_def)

definition document_field_names :: "(string \<times> bool) list" where
  "document_field_names =
     [(''schema_version'', False), (''installation_scope'', False), (''entries'', False),
      (''pending_publications'', True)]"

definition document_json :: "receipt_document \<Rightarrow> json" where
  "document_json x = struct_json
     [(''schema_version'', Some (JInt (int (rd_version x)))),
      (''installation_scope'', Some (variant_name scope_names (rd_scope x))),
      (''entries'', Some (JArray (map entry_json (rd_entries x)))),
      (''pending_publications'',
         if rd_publications x = [] then None else Some (JArray (map publication_json (rd_publications x))))]"

text \<open>\<open>ReceiptDocumentWire\<close>: the scope may be missing, which is an error of its own.\<close>

record receipt_document_wire =
  dwi_version :: nat
  dwi_scope :: "installation_scope option"
  dwi_entries :: "receipt_entry list"
  dwi_publications :: "pending_publication list"

definition json_receipt_document :: "json \<Rightarrow> receipt_document_wire option" where
  "json_receipt_document = read_struct document_field_names (\<lambda>f.
     Option.bind (required (as_unsigned u32_max) (f ''schema_version'')) (\<lambda>v0.
     Option.bind (option_field (unit_variant scope_names) (f ''installation_scope'')) (\<lambda>v1.
     Option.bind (required (list_json json_entry) (f ''entries'')) (\<lambda>v2.
     Option.bind (default_list (list_json json_publication) (f ''pending_publications'')) (\<lambda>v3.
       Some \<lparr>dwi_version = v0, dwi_scope = v1, dwi_entries = v2, dwi_publications = v3\<rparr>)))))"

definition parsed :: "receipt_env \<Rightarrow> (json \<Rightarrow> 'a option) \<Rightarrow> string \<Rightarrow> receipt_error + 'a" where
  "parsed E conv bytes = ok_or (Option.bind (json_parse (re_crates E) bytes) conv) ReceiptParse"

definition from_json_without_epoch_validation :: "receipt_env \<Rightarrow> string \<Rightarrow> receipt_error + receipt_document" where
  "from_json_without_epoch_validation E bytes =
     and_then (parsed E json_receipt_document bytes) (\<lambda>w.
     and_then (ok_or (dwi_scope w) MissingInstallationScope) (\<lambda>scope.
       let d = \<lparr>rd_version = dwi_version w, rd_scope = scope, rd_entries = dwi_entries w,
                rd_publications = dwi_publications w\<rparr>
       in and_then (validate_structure E d) (\<lambda>_. Inr d)))"

definition receipt_from_json :: "receipt_env \<Rightarrow> string \<Rightarrow> receipt_error + receipt_document" where
  "receipt_from_json E bytes =
     and_then (from_json_without_epoch_validation E bytes) (\<lambda>d.
     and_then (validate_pending_publication_epochs d) (\<lambda>_. Inr d))"

definition pretty_line :: "receipt_env \<Rightarrow> json \<Rightarrow> string" where
  "pretty_line E v = re_pretty E v @ [CHR 0x0A]"

definition serialize_json :: "receipt_env \<Rightarrow> receipt_document \<Rightarrow> string" where
  "serialize_json E d = pretty_line E (document_json d)"

definition receipt_to_json :: "receipt_env \<Rightarrow> receipt_document \<Rightarrow> receipt_error + string" where
  "receipt_to_json E d = and_then (validate_document E d) (\<lambda>_. Inr (serialize_json E d))"

definition to_json_with_intent ::
  "receipt_env \<Rightarrow> publication_under_way \<Rightarrow> receipt_document \<Rightarrow> receipt_error + string" where
  "to_json_with_intent E under_way d =
     and_then (validate_with_intent E under_way d) (\<lambda>_. Inr (serialize_json E d))"

text \<open>The values the machine's integers can hold.\<close>

definition sized_document :: "receipt_document \<Rightarrow> bool" where
  "sized_document d \<longleftrightarrow>
     (\<forall>e\<in>set (rd_entries d). sized_action (en_action e)) \<and>
     (\<forall>p\<in>set (rd_publications d). pb_entry_count p \<le> u64_max)"

lemma structure_version: "validate_structure E d = Inr () \<Longrightarrow> rd_version d = receipt_schema_version"
  by (auto simp: validate_structure_def split: if_splits)

lemma document_read:
  assumes "validate_structure E d = Inr ()" "sized_document d"
  shows "json_receipt_document (document_json d) =
    Some \<lparr>dwi_version = rd_version d, dwi_scope = Some (rd_scope d), dwi_entries = rd_entries d,
          dwi_publications = rd_publications d\<rparr>"
proof -
  have entries: "list_json json_entry (JArray (map entry_json (rd_entries d))) = Some (rd_entries d)"
    using assms(2) by (intro list_json_map entry_read) (simp add: sized_document_def)
  have "list_json json_publication (JArray (map publication_json (rd_publications d))) = Some (rd_publications d)"
    using assms(2) by (intro list_json_map publication_read) (simp add: sized_document_def)
  then have publications: "default_list (list_json json_publication)
      (if rd_publications d = [] then None else Some (JArray (map publication_json (rd_publications d)))) =
      Some (rd_publications d)"
    by (simp add: default_list_def)
  have version: "as_unsigned u32_max (JInt (int (rd_version d))) = Some (rd_version d)"
    using structure_version[OF assms(1)] using as_unsigned_int[of 1 u32_max] by (simp add: receipt_schema_version_def u32_max_def)
  have scope: "option_field (unit_variant scope_names) (Some (variant_name scope_names (rd_scope d))) =
      Some (Some (rd_scope d))"
    by (simp add: option_field_def optional_json_def)
  show ?thesis
    unfolding json_receipt_document_def document_json_def
    by (subst read_present) (simp_all add: document_field_names_def entries publications version scope)
qed

lemma rebuilt_document:
  "\<lparr>rd_version = rd_version d, rd_scope = rd_scope d, rd_entries = rd_entries d, rd_publications = rd_publications d\<rparr> = d"
  by simp

lemma serialized_reads:
  assumes "validate_structure E d = Inr ()" "sized_document d"
    and "json_parse (re_crates E) (serialize_json E d) = Some (document_json d)"
  shows "from_json_without_epoch_validation E (serialize_json E d) = Inr d"
  using assms by (simp add: from_json_without_epoch_validation_def parsed_def document_read rebuilt_document ok_or_def Let_def)

text \<open>
  C30. A receipt that is written is read back as it was: for every receipt the code agrees to write, whether or not
  a publication is under way, reading the bytes gives the same receipt, as long as the JSON crate reads the text
  it printed. The receipt may have any mixture of actions, effects, optional evidence and publications, and every
  field that is left out when it is empty.
\<close>

theorem receipt_roundtrip:
  assumes "sized_document d" and "json_parse (re_crates E) (serialize_json E d) = Some (document_json d)"
  shows "(case receipt_to_json E d of Inl _ \<Rightarrow> True | Inr bytes \<Rightarrow> receipt_from_json E bytes = Inr d)
    \<and> (case to_json_with_intent E under_way d of
         Inl _ \<Rightarrow> True | Inr bytes \<Rightarrow> from_json_without_epoch_validation E bytes = Inr d)"
proof -
  have "validate_document E d = Inr () \<Longrightarrow> receipt_from_json E (serialize_json E d) = Inr d"
    using serialized_reads[OF _ assms]
    by (simp add: receipt_from_json_def validate_document_def result_simps)
  moreover have "validate_with_intent E under_way d = Inr () \<Longrightarrow>
      from_json_without_epoch_validation E (serialize_json E d) = Inr d"
    using serialized_reads[OF _ assms] by (simp add: validate_with_intent_def result_simps)
  ultimately show ?thesis
    by (auto simp: receipt_to_json_def to_json_with_intent_def result_simps split: sum.splits)
qed

text \<open>The receipt of the example, with a JSON crate that knows its text.\<close>

definition demo_wire_env :: receipt_env where
  "demo_wire_env = demo_receipt_env
     \<lparr>re_crates := (re_crates demo_receipt_env)\<lparr>json_parse := \<lambda>_. Some (document_json demo_receipt)\<rparr>\<rparr>"

theorem receipt_roundtrip_witness:
  "\<exists>bytes. receipt_to_json demo_wire_env demo_receipt = Inr bytes \<and> receipt_from_json demo_wire_env bytes = Inr demo_receipt"
proof -
  have sized: "sized_document demo_receipt"
    by (simp add: sized_document_def demo_receipt_def append_entry_def empty_receipt_def demo_waiting_def
        sized_action_def u64_max_def)
  have parse: "json_parse (re_crates demo_wire_env) (serialize_json demo_wire_env demo_receipt) =
      Some (document_json demo_receipt)"
    by (simp add: demo_wire_env_def)
  have "demo_like demo_wire_env"
    using demo_receipt_env_like by (simp add: demo_wire_env_def demo_like_def del: demo_receipt_env_like)
  then have "valid_receipt demo_wire_env demo_receipt" by (rule demo_receipt_valid(2))
  then have "receipt_to_json demo_wire_env demo_receipt = Inr (serialize_json demo_wire_env demo_receipt)"
    by (simp add: receipt_to_json_def valid_receipt_def result_simps)
  then show ?thesis using receipt_roundtrip[OF sized parse, THEN conjunct1] by simp
qed

end
