(* ===== verification/ReceiptIntents.thy ===== *)
theory ReceiptIntents
  imports ReceiptWire Manifest
begin

text \<open>
  The two intents that make changes of the receipt durable before they happen (\<open>src/setup/receipt/mod.rs\<close>): the
  intent of one applied action, and the intent of a publication, which also binds the receipt it extends, by a
  digest of its prefix, and the manifest it will write. Their JSON, their checks and the legacy digest.
\<close>

section \<open>The intent of an action\<close>

datatype intent_phase = Prepared | Succeeded

record action_intent =
  in_version :: nat
  in_intent_scope :: installation_scope
  in_phase :: intent_phase
  in_entry :: receipt_entry

definition phase_names :: "(string \<times> intent_phase) list" where
  "phase_names = [(''prepared'', Prepared), (''succeeded'', Succeeded)]"

lemma phase_read [simp]: "unit_variant phase_names (variant_name phase_names p) = Some p"
  by (rule unit_variant_name; cases p) (simp_all add: phase_names_def)

definition intent_field_names :: "(string \<times> bool) list" where
  "intent_field_names =
     [(''schema_version'', False), (''installation_scope'', False), (''phase'', False), (''entry'', False)]"

definition intent_json :: "action_intent \<Rightarrow> json" where
  "intent_json x = struct_json
     [(''schema_version'', Some (JInt (int (in_version x)))),
      (''installation_scope'', Some (variant_name scope_names (in_intent_scope x))),
      (''phase'', Some (variant_name phase_names (in_phase x))), (''entry'', Some (entry_json (in_entry x)))]"

definition json_intent :: "json \<Rightarrow> action_intent option" where
  "json_intent = read_struct intent_field_names (\<lambda>f.
     Option.bind (required (as_unsigned u32_max) (f ''schema_version'')) (\<lambda>v0.
     Option.bind (required (unit_variant scope_names) (f ''installation_scope'')) (\<lambda>v1.
     Option.bind (required (unit_variant phase_names) (f ''phase'')) (\<lambda>v2.
     Option.bind (required json_entry (f ''entry'')) (\<lambda>v3.
       Some \<lparr>in_version = v0, in_intent_scope = v1, in_phase = v2, in_entry = v3\<rparr>)))))"

lemma intent_read:
  "in_version x \<le> u32_max \<Longrightarrow> sized_action (en_action (in_entry x)) \<Longrightarrow> json_intent (intent_json x) = Some x"
  unfolding json_intent_def intent_json_def
  by (subst read_present) (simp_all add: intent_field_names_def entry_read)

definition validate_intent :: "receipt_env \<Rightarrow> action_intent \<Rightarrow> receipt_error + unit" where
  "validate_intent E i =
     (if in_version i \<noteq> receipt_schema_version then Inl UnknownSchemaVersion
      else if in_intent_scope i = UserScope \<and> en_privilege (in_entry i) \<noteq> Used_none then Inl PrivilegeOutsideScope
      else and_then (validate_entry E (in_entry i)) (\<lambda>_.
           validate_action_scope (in_intent_scope i) (en_action (in_entry i))))"

definition intent_to_json :: "receipt_env \<Rightarrow> action_intent \<Rightarrow> receipt_error + string" where
  "intent_to_json E i = and_then (validate_intent E i) (\<lambda>_. Inr (pretty_line E (intent_json i)))"

definition intent_from_json :: "receipt_env \<Rightarrow> string \<Rightarrow> receipt_error + action_intent" where
  "intent_from_json E bytes =
     and_then (parsed E json_intent bytes) (\<lambda>i. and_then (validate_intent E i) (\<lambda>_. Inr i))"

lemma intent_written_reads:
  assumes "intent_to_json E i = Inr bytes" "sized_action (en_action (in_entry i))"
    and "json_parse (re_crates E) (pretty_line E (intent_json i)) = Some (intent_json i)"
  shows "intent_from_json E bytes = Inr i"
proof -
  have "in_version i \<le> u32_max"
    using assms(1)
    by (auto simp: intent_to_json_def validate_intent_def result_simps receipt_schema_version_def u32_max_def split: if_splits)
  then show ?thesis
    using assms by (auto simp: intent_to_json_def intent_from_json_def parsed_def result_simps intent_read)
qed

section \<open>Principals\<close>

definition worker_field_names :: "(string \<times> bool) list" where
  "worker_field_names =
     [(''principal_kind'', False), (''principal_id'', False), (''name'', False), (''account_policy'', False)]"

definition worker_principal_json :: "worker_principal \<Rightarrow> json" where
  "worker_principal_json x = struct_json
     [(''principal_kind'', Some (variant_name kind_names (wp_kind x))),
      (''principal_id'', text_json (wp_id x)), (''name'', text_json (wp_name x)),
      (''account_policy'', Some (variant_name policy_names (wp_policy x)))]"

definition json_worker_principal :: "json \<Rightarrow> worker_principal option" where
  "json_worker_principal = read_struct worker_field_names (\<lambda>f.
     Option.bind (required (unit_variant kind_names) (f ''principal_kind'')) (\<lambda>v0.
     Option.bind (required as_str (f ''principal_id'')) (\<lambda>v1.
     Option.bind (required as_str (f ''name'')) (\<lambda>v2.
     Option.bind (required (unit_variant policy_names) (f ''account_policy'')) (\<lambda>v3.
       (case new_worker_principal v0 v1 v2 v3 of Inl _ \<Rightarrow> None | Inr w \<Rightarrow> Some w))))))"

section \<open>The intent of a publication\<close>

record publication_intent =
  pi_version :: nat
  pi_scope :: installation_scope
  pi_receipt_path :: string
  pi_worker :: worker_principal
  pi_entry_count :: nat
  pi_publication_count :: nat
  pi_prefix_sha256 :: string
  pi_manifest_path :: string
  pi_manifest_scope :: installation_scope
  pi_manifest_worker :: worker_principal
  pi_machine_id :: string
  pi_before_sha256 :: "string option"
  pi_after_sha256 :: string
  pi_publication :: pending_publication
  pi_candidate :: string

definition publication_intent_field_names :: "(string \<times> bool) list" where
  "publication_intent_field_names =
     [(''schema_version'', False), (''installation_scope'', False), (''receipt_path'', False),
      (''worker_principal'', False), (''receipt_entry_count'', False), (''pending_publication_count'', False),
      (''receipt_prefix_sha256'', False), (''manifest_path'', False), (''manifest_scope'', False),
      (''manifest_worker_principal'', False), (''machine_id'', False), (''before_manifest_sha256'', False),
      (''after_manifest_sha256'', False), (''publication'', False), (''candidate_manifest'', False)]"

definition publication_intent_json :: "publication_intent \<Rightarrow> json" where
  "publication_intent_json x = struct_json
     [(''schema_version'', Some (JInt (int (pi_version x)))),
      (''installation_scope'', Some (variant_name scope_names (pi_scope x))),
      (''receipt_path'', text_json (pi_receipt_path x)),
      (''worker_principal'', Some (worker_principal_json (pi_worker x))),
      (''receipt_entry_count'', Some (JInt (int (pi_entry_count x)))),
      (''pending_publication_count'', Some (JInt (int (pi_publication_count x)))),
      (''receipt_prefix_sha256'', text_json (pi_prefix_sha256 x)),
      (''manifest_path'', text_json (pi_manifest_path x)),
      (''manifest_scope'', Some (variant_name scope_names (pi_manifest_scope x))),
      (''manifest_worker_principal'', Some (worker_principal_json (pi_manifest_worker x))),
      (''machine_id'', text_json (pi_machine_id x)),
      (''before_manifest_sha256'', Some (case pi_before_sha256 x of None \<Rightarrow> JNull | Some s \<Rightarrow> JString s)),
      (''after_manifest_sha256'', text_json (pi_after_sha256 x)),
      (''publication'', Some (publication_json (pi_publication x))),
      (''candidate_manifest'', text_json (pi_candidate x))]"

definition json_publication_intent :: "json \<Rightarrow> publication_intent option" where
  "json_publication_intent = read_struct publication_intent_field_names (\<lambda>f.
     Option.bind (required (as_unsigned u32_max) (f ''schema_version'')) (\<lambda>v0.
     Option.bind (required (unit_variant scope_names) (f ''installation_scope'')) (\<lambda>v1.
     Option.bind (required as_str (f ''receipt_path'')) (\<lambda>v2.
     Option.bind (required json_worker_principal (f ''worker_principal'')) (\<lambda>v3.
     Option.bind (required (as_unsigned u64_max) (f ''receipt_entry_count'')) (\<lambda>v4.
     Option.bind (required (as_unsigned u64_max) (f ''pending_publication_count'')) (\<lambda>v5.
     Option.bind (required as_str (f ''receipt_prefix_sha256'')) (\<lambda>v6.
     Option.bind (required as_str (f ''manifest_path'')) (\<lambda>v7.
     Option.bind (required (unit_variant scope_names) (f ''manifest_scope'')) (\<lambda>v8.
     Option.bind (required json_worker_principal (f ''manifest_worker_principal'')) (\<lambda>v9.
     Option.bind (required as_str (f ''machine_id'')) (\<lambda>v10.
     Option.bind (option_field as_str (f ''before_manifest_sha256'')) (\<lambda>v11.
     Option.bind (required as_str (f ''after_manifest_sha256'')) (\<lambda>v12.
     Option.bind (required json_publication (f ''publication'')) (\<lambda>v13.
     Option.bind (required as_str (f ''candidate_manifest'')) (\<lambda>v14.
       Some \<lparr>pi_version = v0, pi_scope = v1, pi_receipt_path = v2, pi_worker = v3, pi_entry_count = v4,
             pi_publication_count = v5, pi_prefix_sha256 = v6, pi_manifest_path = v7, pi_manifest_scope = v8,
             pi_manifest_worker = v9, pi_machine_id = v10, pi_before_sha256 = v11, pi_after_sha256 = v12,
             pi_publication = v13, pi_candidate = v14\<rparr>))))))))))))))))"

fun check_link_names ::
  "receipt_env \<Rightarrow> string set \<Rightarrow> string set \<Rightarrow> publication_link list \<Rightarrow> receipt_error + unit" where
  "check_link_names E actions ids [] = Inr ()"
| "check_link_names E actions ids (l # ls) =
     and_then (validate_action_identifier E (lk_action_id l)) (\<lambda>_.
     and_then (validate_entry_id E (lk_entry_id l)) (\<lambda>_.
       if lk_action_id l \<in> actions \<or> lk_entry_id l \<in> ids then Inl DuplicatePendingPublicationLink
       else check_link_names E (insert (lk_action_id l) actions) (insert (lk_entry_id l) ids) ls))"

text \<open>The candidate is the canonical text of a valid manifest with the recorded id, digest and pending actions.\<close>

definition validate_candidate ::
  "receipt_env \<Rightarrow> toml_api \<Rightarrow> publication_intent \<Rightarrow> receipt_error + unit" where
  "validate_candidate E T i =
     and_then (map_err (\<lambda>_. InvalidPendingPublicationLink) (parse_toml (re_crates E) T (pi_candidate i))) (\<lambda>m.
     and_then (map_err (\<lambda>_. ReceiptSerialize) (to_toml (re_crates E) T m)) (\<lambda>canonical.
       if canonical \<noteq> pi_candidate i \<or> uuid_text (re_crates E) (machine_id m) \<noteq> pi_machine_id i
          \<or> manifest_digest E (pi_candidate i) \<noteq> pi_after_sha256 i
       then Inl InvalidPendingPublicationLink
       else if map pe_id (case pending_actions m of None \<Rightarrow> [] | Some actions \<Rightarrow> actions) \<noteq>
               map lk_action_id (pb_pending (pi_publication i))
       then Inl InvalidPendingPublicationLink else Inr ()))"

definition validate_shape :: "receipt_env \<Rightarrow> toml_api \<Rightarrow> publication_intent \<Rightarrow> receipt_error + unit" where
  "validate_shape E T i =
     (if pi_version i \<noteq> receipt_schema_version then Inl UnknownSchemaVersion
      else if \<not> is_normalized_absolute_path E (pi_receipt_path i)
              \<or> \<not> is_normalized_absolute_path E (pi_manifest_path i) then Inl InvalidRecordedPath
      else and_then (validate_sha256 (pi_prefix_sha256 i)) (\<lambda>_.
           and_then (optional validate_sha256 (pi_before_sha256 i)) (\<lambda>_.
           and_then (validate_sha256 (pi_after_sha256 i)) (\<lambda>_.
           and_then (validate_entry_id E (pi_machine_id i)) (\<lambda>_.
           and_then (validate_entry_id E (pb_id (pi_publication i))) (\<lambda>_.
           and_then (validate_timestamp E (pb_timestamp (pi_publication i))) (\<lambda>_.
             if pb_entry_count (pi_publication i) \<noteq> pi_entry_count i then Inl InvalidPendingPublicationLink
             else and_then (check_link_names E {} {} (pb_pending (pi_publication i))) (\<lambda>_.
                  validate_candidate E T i))))))))"

definition publication_intent_to_json :: "receipt_env \<Rightarrow> toml_api \<Rightarrow> publication_intent \<Rightarrow> receipt_error + string" where
  "publication_intent_to_json E T i =
     and_then (validate_shape E T i) (\<lambda>_. Inr (pretty_line E (publication_intent_json i)))"

definition publication_intent_from_json ::
  "receipt_env \<Rightarrow> toml_api \<Rightarrow> string \<Rightarrow> receipt_error + publication_intent" where
  "publication_intent_from_json E T bytes =
     and_then (parsed E json_publication_intent bytes) (\<lambda>i. and_then (validate_shape E T i) (\<lambda>_. Inr i))"

definition under_way :: "publication_intent option \<Rightarrow> publication_under_way" where
  "under_way i = map_option (\<lambda>i. (pi_publication_count i, pi_publication i)) i"

section \<open>Digests of the receipt\<close>

definition receipt_document_digest :: "receipt_env \<Rightarrow> receipt_document \<Rightarrow> receipt_error + string" where
  "receipt_document_digest E d = and_then (receipt_to_json E d) (\<lambda>bytes. Inr (manifest_digest E bytes))"

definition receipt_entries_digest :: "receipt_env \<Rightarrow> receipt_document \<Rightarrow> receipt_error + string" where
  "receipt_entries_digest E d =
     and_then (validate_document E d) (\<lambda>_.
       Inr (manifest_digest E (re_pretty E (JArray (map entry_json (rd_entries d))))))"

text \<open>The entries as they were written before directories and appended files were recorded.\<close>

definition legacy_entry_json :: "receipt_entry \<Rightarrow> json" where
  "legacy_entry_json e =
     (case entry_json e of
        JObject kvs \<Rightarrow> JObject (filter (\<lambda>kv. fst kv \<notin> {''directories_created'', ''files_appended''}) kvs)
      | v \<Rightarrow> v)"

definition legacy_document_json :: "receipt_document \<Rightarrow> json" where
  "legacy_document_json d = struct_json
     [(''schema_version'', Some (JInt (int (rd_version d)))),
      (''installation_scope'', Some (variant_name scope_names (rd_scope d))),
      (''entries'', Some (JArray (map legacy_entry_json (rd_entries d)))),
      (''pending_publications'',
         if rd_publications d = [] then None else Some (JArray (map publication_json (rd_publications d))))]"

definition legacy_v1_receipt_document_digest :: "receipt_env \<Rightarrow> receipt_document \<Rightarrow> receipt_error + string" where
  "legacy_v1_receipt_document_digest E d =
     and_then (validate_document E d) (\<lambda>_. Inr (manifest_digest E (pretty_line E (legacy_document_json d))))"

definition needs_current_digest :: "receipt_entry \<Rightarrow> bool" where
  "needs_current_digest e \<longleftrightarrow>
     requires_current_v1_digest (en_action e) \<or> ef_directories_created (en_effect e) \<noteq> []"

definition pending_publication_prefix_digest_matches ::
  "receipt_env \<Rightarrow> receipt_document \<Rightarrow> string \<Rightarrow> receipt_error + bool" where
  "pending_publication_prefix_digest_matches E d expected =
     and_then (receipt_document_digest E d) (\<lambda>digest.
       if digest = expected then Inr True
       else if rd_version d \<noteq> 1 \<or> list_ex needs_current_digest (rd_entries d) then Inr False
       else and_then (legacy_v1_receipt_document_digest E d) (\<lambda>digest. Inr (digest = expected)))"

end
