(* ===== verification/ReceiptStore.thy ===== *)
theory ReceiptStore
  imports ReceiptIntents ManifestStore
begin

text \<open>
  The receipt on disk (\<open>ReceiptStore\<close> in \<open>src/setup/receipt/mod.rs\<close>), on the Unix build: the destination, the
  verified read under the lock and the lock-free snapshot, the replacement of the file, the intent of a
  publication, and the conditions under which an entry or a publication may be appended. As in \<open>ManifestStore\<close>
  every native call may fail at its moment; an interrupted process is a host that refuses every call from then on.
\<close>

section \<open>The store\<close>

datatype receipt_store_error =
    Store_document receipt_error
  | Store_read io_error
  | Store_write io_error
  | Store_security io_error
  | Store_post_replace_security io_error
  | Store_invalid_destination
  | Store_prefix_conflict
  | Store_intent_conflict
  | Store_invalid_principal io_error
  | Store_scope_mismatch
  | Store_user_state_unavailable

type_synonym 'a receipt_op = "(receipt_store_error, 'a) disk_op"

text \<open>
  What the store runs against, besides the world of the manifest store: the account rule, the pretty printer, the
  text of the time, whether two names are one file at a moment, and the names a directory lists.
\<close>

record receipt_world =
  rw_world :: world
  rw_account_name :: "string \<Rightarrow> bool"
  rw_pretty :: "json \<Rightarrow> string"
  rw_now :: "nat \<Rightarrow> string"
  rw_same_file :: "nat \<Rightarrow> path \<Rightarrow> path \<Rightarrow> bool"
  rw_listing :: "disk \<Rightarrow> path \<Rightarrow> string list"

abbreviation rw_calls :: "receipt_world \<Rightarrow> host_calls" where
  "rw_calls R \<equiv> w_calls (rw_world R)"

definition receipt_env_of :: "receipt_world \<Rightarrow> receipt_env" where
  "receipt_env_of R =
     \<lparr>re_crates = w_crates (rw_world R), re_os = host_os (w_host (rw_world R)), re_account_name = rw_account_name R,
      re_pretty = rw_pretty R\<rparr>"

record receipt_store =
  rs_scope :: installation_scope
  rs_path_text :: string
  rs_path :: path
  rs_trusted_root :: path
  rs_worker :: worker_principal

definition documented :: "receipt_error + 'a \<Rightarrow> receipt_store_error + 'a" where
  "documented r = map_err Store_document r"

definition receipt_directory :: "receipt_store \<Rightarrow> path" where
  "receipt_directory s = butlast (rs_path s)"

definition receipt_destination_policy :: "receipt_store \<Rightarrow> receipt_store_error + path" where
  "receipt_destination_policy s =
     (if rs_path s = [] \<or> \<not> starts_with ''/'' (rs_path_text s) \<or> last (rs_path s) \<noteq> ''receipt.json''
         \<or> list_ex (\<lambda>c. c \<in> {''.'', ''..''}) (rs_path s) \<or> render_path (rs_path s) \<noteq> rs_path_text s
         \<or> (case rs_scope s of
              SystemScope \<Rightarrow> receipt_directory s \<noteq> rs_trusted_root s
            | UserScope \<Rightarrow> receipt_directory s = [] \<or> butlast (receipt_directory s) \<noteq> rs_trusted_root s)
         \<or> length (receipt_directory s) < 2
      then Inl Store_invalid_destination else Inr (receipt_directory s))"

definition receipt_bound_principal :: "receipt_world \<Rightarrow> receipt_store \<Rightarrow> nat \<Rightarrow> receipt_store_error + unit" where
  "receipt_bound_principal R s t =
     (let H = w_host (rw_world R)
      in and_then (map_err Store_invalid_principal (answered (principal_verified H t (rs_worker s)))) (\<lambda>_.
           if rs_scope s = UserScope
           then and_then (map_err Store_invalid_principal (current_principal H t)) (\<lambda>current.
                  reject_if (current \<noteq> rs_worker s)
                    (Store_invalid_principal
                       (IoError io_kind.PermissionDenied ''user receipt principal is not the current caller'')))
           else Inr ()))"

definition receipt_store_at :: "installation_scope \<Rightarrow> string \<Rightarrow> path \<Rightarrow> worker_principal \<Rightarrow> receipt_store" where
  "receipt_store_at scope path_text trusted w =
     \<lparr>rs_scope = scope, rs_path_text = path_text, rs_path = normal_components path_text, rs_trusted_root = trusted,
      rs_worker = w\<rparr>"

definition checked_receipt_store :: "receipt_world \<Rightarrow> nat \<Rightarrow> receipt_store \<Rightarrow> receipt_store_error + receipt_store" where
  "checked_receipt_store R t s =
     and_then (receipt_destination_policy s) (\<lambda>_. and_then (receipt_bound_principal R s t) (\<lambda>_. Inr s))"

definition new_system_receipt ::
  "receipt_world \<Rightarrow> nat \<Rightarrow> string \<Rightarrow> worker_principal \<Rightarrow> receipt_store_error + receipt_store" where
  "new_system_receipt R t path_text w =
     checked_receipt_store R t (receipt_store_at SystemScope path_text (butlast (normal_components path_text)) w)"

definition new_user_receipt ::
  "receipt_world \<Rightarrow> nat \<Rightarrow> string \<Rightarrow> worker_principal \<Rightarrow> receipt_store_error + receipt_store" where
  "new_user_receipt R t path_text w =
     checked_receipt_store R t (receipt_store_at UserScope path_text (butlast (butlast (normal_components path_text))) w)"

text \<open>The canonical path of the Unix builds; \<open>env\<close> is the environment.\<close>

definition canonical_receipt_path ::
  "operating_system \<Rightarrow> (string \<Rightarrow> string option) \<Rightarrow> installation_scope \<Rightarrow> receipt_store_error + string" where
  "canonical_receipt_path os env scope =
     (case scope of
        SystemScope \<Rightarrow>
          Inr (if os = Macos then ''/Library/Application Support/Styrn/receipt.json'' else ''/var/lib/styrn/receipt.json'')
      | UserScope \<Rightarrow>
          (let home = env ''HOME'';
               base = (if os = Macos then map_option (\<lambda>h. join_path h ''Library/Application Support'') home
                       else case env ''XDG_STATE_HOME'' of
                              Some v \<Rightarrow> Some v
                            | None \<Rightarrow> map_option (\<lambda>h. join_path h ''.local/state'') home)
           in case base of
                None \<Rightarrow> Inl Store_user_state_unavailable
              | Some base \<Rightarrow>
                  if \<not> starts_with ''/'' base then Inl Store_user_state_unavailable
                  else Inr (join_path (join_path base (if os = Macos then ''Styrn'' else ''styrn'')) ''receipt.json'')))"

definition configured_receipt_store_for ::
  "receipt_world \<Rightarrow> (string \<Rightarrow> string option) \<Rightarrow> nat \<Rightarrow> installation_scope \<Rightarrow> worker_principal \<Rightarrow>
     receipt_store_error + receipt_store" where
  "configured_receipt_store_for R env t scope w =
     and_then (canonical_receipt_path (host_os (w_host (rw_world R))) env scope) (\<lambda>path_text.
       case scope of
         UserScope \<Rightarrow> new_user_receipt R t path_text w
       | SystemScope \<Rightarrow> new_system_receipt R t path_text w)"

definition configured_receipt_store ::
  "receipt_world \<Rightarrow> (string \<Rightarrow> string option) \<Rightarrow> nat \<Rightarrow> receipt_store_error + receipt_store" where
  "configured_receipt_store R env t =
     and_then (map_err Store_invalid_principal (current_principal (w_host (rw_world R)) t)) (\<lambda>w.
       configured_receipt_store_for R env t UserScope w)"

text \<open>A check that depends on the moment.\<close>

definition at_moment :: "(nat \<Rightarrow> receipt_store_error + 'a) \<Rightarrow> 'a receipt_op" where
  "at_moment f = at_clock f"

section \<open>Preparing the destination\<close>

definition receipt_call ::
  "receipt_world \<Rightarrow> (io_error \<Rightarrow> receipt_store_error) \<Rightarrow> native_call \<Rightarrow> (disk \<Rightarrow> disk) \<Rightarrow> unit receipt_op" where
  "receipt_call R wrap call change = native (rw_calls R) wrap call change"

fun receipt_missing_ancestors :: "receipt_world \<Rightarrow> nat \<Rightarrow> path \<Rightarrow> path list receipt_op" where
  "receipt_missing_ancestors R 0 p =
     bind_op (stat_path (rw_calls R) Store_read p) (\<lambda>there.
       if there then bind_op (receipt_call R Store_security (CallAncestors p p) id) (\<lambda>_. ok_op [])
       else stop Store_invalid_destination)"
| "receipt_missing_ancestors R (Suc n) p =
     bind_op (stat_path (rw_calls R) Store_read p) (\<lambda>there.
       if there then bind_op (receipt_call R Store_security (CallAncestors p p) id) (\<lambda>_. ok_op [])
       else bind_op (receipt_missing_ancestors R n (butlast p)) (\<lambda>ps. ok_op (p # ps)))"

definition receipt_root_directory :: "receipt_world \<Rightarrow> path \<Rightarrow> unit receipt_op" where
  "receipt_root_directory R p = (\<lambda>d.
     case (if exists_on d p then Some (IoError AlreadyExists ''file exists'')
           else rw_calls R (disk_clock d) (CallCreateStaging p)) of
       Some e \<Rightarrow>
         (if io_error_kind e = AlreadyExists
          then receipt_call R Store_security (CallAncestors p p) id
          else stop (Store_write e)) (d\<lparr>disk_clock := Suc (disk_clock d)\<rparr>)
     | None \<Rightarrow>
         bind_op (receipt_call R Store_write (CallHardenDirectory p) id) (\<lambda>_.
           receipt_call R Store_write (CallSyncParent (butlast p)) id)
           (make_dir p (d\<lparr>disk_clock := Suc (disk_clock d)\<rparr>)))"

fun each_receipt_op :: "('a \<Rightarrow> ('e, unit) disk_op) \<Rightarrow> 'a list \<Rightarrow> ('e, unit) disk_op" where
  "each_receipt_op f [] = ok_op ()"
| "each_receipt_op f (x # xs) = bind_op (f x) (\<lambda>_. each_receipt_op f xs)"

definition receipt_trusted_root :: "receipt_world \<Rightarrow> receipt_store \<Rightarrow> unit receipt_op" where
  "receipt_trusted_root R s =
     bind_op (receipt_missing_ancestors R (length (rs_trusted_root s)) (rs_trusted_root s)) (\<lambda>missing.
       each_receipt_op (receipt_root_directory R) (rev missing))"

definition verify_receipt_directory :: "receipt_world \<Rightarrow> receipt_store \<Rightarrow> path \<Rightarrow> unit receipt_op" where
  "verify_receipt_directory R s dir =
     bind_op (receipt_call R Store_security (CallAncestors dir (rs_trusted_root s)) id) (\<lambda>_.
       receipt_call R Store_security (CallDirectorySecurity dir) id)"

text \<open>A directory of another process that appears before the staging directory is published is verified instead.\<close>

definition publish_receipt_directory :: "receipt_world \<Rightarrow> receipt_store \<Rightarrow> path \<Rightarrow> path \<Rightarrow> unit receipt_op" where
  "publish_receipt_directory R s staging dir = (\<lambda>d.
     case (if exists_on d dir then Some (IoError AlreadyExists ''file exists'')
           else rw_calls R (disk_clock d) (CallPublishDirectory staging dir)) of
       None \<Rightarrow> (Inr (), make_dir dir (drop_dir staging (d\<lparr>disk_clock := Suc (disk_clock d)\<rparr>)))
     | Some e \<Rightarrow>
         (if io_error_kind e = AlreadyExists
          then bind_op (verify_receipt_directory R s dir) (\<lambda>_.
                 receipt_call R Store_write (CallRemoveDirectory staging) (drop_dir staging))
          else stop (Store_write e)) (d\<lparr>disk_clock := Suc (disk_clock d)\<rparr>))"

definition create_receipt_directory :: "receipt_world \<Rightarrow> receipt_store \<Rightarrow> path \<Rightarrow> unit receipt_op" where
  "create_receipt_directory R s dir =
     bind_op (case rs_scope s of
                SystemScope \<Rightarrow> receipt_call R Store_security (CallParentChain (butlast dir)) id
              | UserScope \<Rightarrow> receipt_call R Store_security (CallAncestors (butlast dir) (rs_trusted_root s)) id) (\<lambda>_.
     bind_op (at_moment (\<lambda>t. Inr (staging_name (rw_world R) (butlast dir) ''styrn'' t))) (\<lambda>staging.
     bind_op (receipt_call R Store_write (CallCreateStaging staging) (make_dir staging)) (\<lambda>_ d.
       case bind_op (receipt_call R Store_write (CallHardenDirectory staging) id) (\<lambda>_.
            bind_op (publish_receipt_directory R s staging dir) (\<lambda>_.
              receipt_call R Store_write (CallSyncParent (butlast dir)) id)) d of
         (Inr _, d) \<Rightarrow> (Inr (), d)
       | (Inl e, d) \<Rightarrow>
           (Inl e, snd (receipt_call R Store_write (CallRemoveDirectory staging) (drop_dir staging) d)))))"

definition prepare_receipt_destination :: "receipt_world \<Rightarrow> receipt_store \<Rightarrow> path \<Rightarrow> unit receipt_op" where
  "prepare_receipt_destination R s dir =
     bind_op (if rs_scope s = UserScope then receipt_trusted_root R s else ok_op ()) (\<lambda>_.
     bind_op (stat_path (rw_calls R) Store_write dir) (\<lambda>there.
       if there then verify_receipt_directory R s dir else create_receipt_directory R s dir))"

section \<open>Files beside the receipt\<close>

definition receipt_lock_path :: "receipt_store \<Rightarrow> path" where
  "receipt_lock_path s = receipt_directory s @ [''.receipt.json.lock'']"

definition publication_intent_path :: "receipt_store \<Rightarrow> path" where
  "publication_intent_path s = receipt_directory s @ [''.receipt.json.pending-publication.json'']"

definition publication_temporary_path :: "receipt_store \<Rightarrow> string \<Rightarrow> path" where
  "publication_temporary_path s i = receipt_directory s @ [''.receipt.json.pending-publication.'' @ i @ ''.tmp'']"

definition transaction_prefix :: string where
  "transaction_prefix = ''.receipt.json.transaction.''"

definition transaction_path :: "receipt_store \<Rightarrow> string \<Rightarrow> path" where
  "transaction_path s i = receipt_directory s @ [transaction_prefix @ i @ ''.json'']"

definition fresh_text :: "receipt_world \<Rightarrow> nat \<Rightarrow> string" where
  "fresh_text R t = uuid_text (w_crates (rw_world R)) (fresh_uuid (w_host (rw_world R)) t)"

definition receipt_temporary :: "receipt_world \<Rightarrow> receipt_store \<Rightarrow> nat \<Rightarrow> path" where
  "receipt_temporary R s t = receipt_directory s @ [''.receipt.json.'' @ fresh_text R t @ ''.tmp'']"

definition intent_temporary :: "receipt_world \<Rightarrow> path \<Rightarrow> nat \<Rightarrow> path" where
  "intent_temporary R dir t = dir @ [''.receipt.json.intent.'' @ fresh_text R t @ ''.tmp'']"

text \<open>The bytes of a file that an open verified by its identity reads; absence is an error of the open.\<close>

definition open_verified ::
  "receipt_world \<Rightarrow> path \<Rightarrow> (io_error \<Rightarrow> receipt_store_error) \<Rightarrow> unit receipt_op" where
  "open_verified R p wrap = (\<lambda>d.
     if disk_files d p = None then (Inl (wrap not_found), d\<lparr>disk_clock := Suc (disk_clock d)\<rparr>)
     else receipt_call R wrap (CallOpenVerified p) id d)"

definition read_bytes :: "receipt_world \<Rightarrow> path \<Rightarrow> string receipt_op" where
  "read_bytes R p = bind_op (receipt_call R Store_read (CallRead p) id) (\<lambda>_ d.
     (case disk_files d p of None \<Rightarrow> (Inl (Store_read not_found), d) | Some bytes \<Rightarrow> (Inr bytes, d)))"

text \<open>The identity of a named file, or that there is none; any other failure is an error.\<close>

definition file_identity :: "receipt_world \<Rightarrow> path \<Rightarrow> bool receipt_op" where
  "file_identity R p = (\<lambda>d.
     if disk_files d p = None then (Inr False, d\<lparr>disk_clock := Suc (disk_clock d)\<rparr>)
     else case rw_calls R (disk_clock d) (CallFileIdentity p) of
            None \<Rightarrow> (Inr True, d\<lparr>disk_clock := Suc (disk_clock d)\<rparr>)
          | Some e \<Rightarrow>
              (if io_error_kind e = NotFound then Inr False else Inl (Store_security e),
               d\<lparr>disk_clock := Suc (disk_clock d)\<rparr>))"

definition remove_private_file :: "receipt_world \<Rightarrow> path \<Rightarrow> unit receipt_op" where
  "remove_private_file R p =
     bind_op (receipt_call R Store_security (CallVerifyFile p) id) (\<lambda>_.
     bind_op (receipt_call R Store_write (CallRemoveFile p) (erase_file p)) (\<lambda>_.
       receipt_call R Store_write (CallSyncParent (butlast p)) id))"

section \<open>The intent of a publication\<close>

definition receipt_path_text :: "receipt_world \<Rightarrow> receipt_store \<Rightarrow> receipt_store_error + string" where
  "receipt_path_text R s =
     (if is_normalized_absolute_path (receipt_env_of R) (rs_path_text s) \<and> utf8_valid (rs_path_text s)
      then Inr (rs_path_text s) else Inl Store_invalid_destination)"

definition receipt_prefix ::
  "receipt_env \<Rightarrow> receipt_document \<Rightarrow> nat \<Rightarrow> nat \<Rightarrow> receipt_store_error + receipt_document" where
  "receipt_prefix E d entry_count publication_count =
     (if length (rd_entries d) < entry_count \<or> length (rd_publications d) < publication_count
      then Inl Store_intent_conflict
      else let p = d\<lparr>rd_entries := take entry_count (rd_entries d),
                     rd_publications := take publication_count (rd_publications d)\<rparr>
           in and_then (documented (validate_document E p)) (\<lambda>_. Inr p))"

definition validate_publication_append ::
  "receipt_env \<Rightarrow> receipt_document \<Rightarrow> receipt_document \<Rightarrow> receipt_store_error + unit" where
  "validate_publication_append E existing candidate =
     and_then (documented (validate_document E candidate)) (\<lambda>_.
       reject_if
         (rd_scope candidate \<noteq> rd_scope existing \<or> rd_entries candidate \<noteq> rd_entries existing
          \<or> length (rd_publications candidate) \<noteq> length (rd_publications existing) + 1
          \<or> \<not> prefix (rd_publications existing) (rd_publications candidate))
         Store_prefix_conflict)"

definition validate_receipt_binding ::
  "receipt_world \<Rightarrow> receipt_store \<Rightarrow> publication_intent \<Rightarrow> receipt_document \<Rightarrow> receipt_store_error + unit" where
  "validate_receipt_binding R s i d =
     (let E = receipt_env_of R; before = receipt_prefix E d (pi_entry_count i) (pi_publication_count i)
      in and_then (documented (validate_shape E (w_toml (rw_world R)) i)) (\<lambda>_.
         if pi_scope i \<noteq> rs_scope s \<or> pi_worker i \<noteq> rs_worker s then Inl Store_intent_conflict
         else and_then (receipt_path_text R s) (\<lambda>path_text.
           if pi_receipt_path i \<noteq> path_text \<or> length (rd_entries d) < pi_entry_count i
              \<or> length (rd_publications d) < pi_publication_count i
              \<or> pi_publication_count i + 1 < length (rd_publications d)
           then Inl Store_intent_conflict
           else and_then before (\<lambda>p.
                and_then (documented (pending_publication_prefix_digest_matches E p (pi_prefix_sha256 i))) (\<lambda>same.
                if \<not> same then Inl Store_intent_conflict
                else and_then (documented (validate_publication E (rd_entries d) (pi_publication i))) (\<lambda>_.
                     and_then before (\<lambda>existing.
                     and_then (validate_publication_append E existing (append_publication (pi_publication i) p)) (\<lambda>_.
                       reject_if
                         (length (rd_publications d) = pi_publication_count i + 1
                          \<and> rd_publications d ! pi_publication_count i \<noteq> pi_publication i)
                         Store_intent_conflict))))))))"

definition read_verified_publication_intent ::
  "receipt_world \<Rightarrow> receipt_store \<Rightarrow> publication_intent option receipt_op" where
  "read_verified_publication_intent R s =
     (let p = publication_intent_path s
      in bind_op (file_identity R p) (\<lambda>there.
         if \<not> there then ok_op None
         else bind_op (open_verified R p Store_security) (\<lambda>_.
              bind_op (read_bytes R p) (\<lambda>bytes.
              bind_op (lift (documented
                  (publication_intent_from_json (receipt_env_of R) (w_toml (rw_world R)) bytes))) (\<lambda>i.
                ok_op (Some i))))))"

text \<open>Only the temporary name that belongs to the intent is removed, and only while it is the same file.\<close>

definition remove_publication_temporary ::
  "receipt_world \<Rightarrow> receipt_store \<Rightarrow> publication_intent \<Rightarrow> unit receipt_op" where
  "remove_publication_temporary R s i =
     (let tmp = publication_temporary_path s (pb_id (pi_publication i))
      in bind_op (file_identity R tmp) (\<lambda>there.
         if \<not> there then ok_op ()
         else bind_op (at_moment (\<lambda>t. Inr (rw_same_file R t tmp (publication_intent_path s)))) (\<lambda>same.
              if \<not> same then stop Store_intent_conflict else remove_private_file R tmp)))"

definition read_publication_intent ::
  "receipt_world \<Rightarrow> receipt_store \<Rightarrow> receipt_document \<Rightarrow> publication_intent option receipt_op" where
  "read_publication_intent R s d =
     bind_op (read_verified_publication_intent R s) (\<lambda>i.
       case i of
         None \<Rightarrow> ok_op None
       | Some i \<Rightarrow>
           bind_op (lift (validate_receipt_binding R s i d)) (\<lambda>_.
           bind_op (remove_publication_temporary R s i) (\<lambda>_. ok_op (Some i))))"

section \<open>Reading\<close>

definition receipt_layout :: "receipt_world \<Rightarrow> receipt_store \<Rightarrow> nat \<Rightarrow> receipt_store_error + worker_layout" where
  "receipt_layout R s t =
     map_err (\<lambda>_. Store_document InvalidWorkerDirectoryAction)
       (resolve_worker_directory_layout (w_host (rw_world R)) t (rs_scope s) (rs_worker s))"

definition validate_directory_document :: "receipt_world \<Rightarrow> receipt_store \<Rightarrow> receipt_document \<Rightarrow> unit receipt_op" where
  "validate_directory_document R s d =
     (if \<not> has_worker_directory_action d then ok_op ()
      else at_moment (\<lambda>t. and_then (receipt_layout R s t) (\<lambda>layout.
             documented (validate_document_layout (receipt_env_of R) layout d))))"

definition validate_directory_action :: "receipt_world \<Rightarrow> receipt_store \<Rightarrow> receipt_action \<Rightarrow> unit receipt_op" where
  "validate_directory_action R s a =
     (if \<not> is_worker_directory a then ok_op ()
      else at_moment (\<lambda>t. and_then (receipt_layout R s t) (\<lambda>layout.
             documented (validate_action_layout (receipt_env_of R) layout a))))"

text \<open>The document in the bytes of the file, checked against the store; the epochs are checked by the caller.\<close>

definition document_of_bytes :: "receipt_world \<Rightarrow> receipt_store \<Rightarrow> string \<Rightarrow> receipt_document receipt_op" where
  "document_of_bytes R s bytes =
     bind_op (lift (documented (from_json_without_epoch_validation (receipt_env_of R) bytes))) (\<lambda>d.
       if rd_scope d \<noteq> rs_scope s then stop Store_scope_mismatch
       else bind_op (lift (documented (validate_document_principal (receipt_env_of R) (rs_worker s) d))) (\<lambda>_.
            bind_op (validate_directory_document R s d) (\<lambda>_. ok_op d)))"

text \<open>Whether the receipt could be opened; exact absence is no error.\<close>

definition open_receipt :: "receipt_world \<Rightarrow> receipt_store \<Rightarrow> bool receipt_op" where
  "open_receipt R s = (\<lambda>d.
     let now = d\<lparr>disk_clock := Suc (disk_clock d)\<rparr>
     in if disk_files d (rs_path s) = None then (Inr False, now)
        else case rw_calls R (disk_clock d) (CallOpenVerified (rs_path s)) of
               None \<Rightarrow> (Inr True, now)
             | Some e \<Rightarrow> (if io_error_kind e = NotFound then Inr False else Inl (Store_security e), now))"

definition read_locked :: "receipt_world \<Rightarrow> receipt_store \<Rightarrow> receipt_document receipt_op" where
  "read_locked R s =
     bind_op (open_receipt R s) (\<lambda>there.
       if \<not> there then ok_op (empty_receipt (rs_scope s))
       else bind_op (read_bytes R (rs_path s)) (\<lambda>bytes.
            bind_op (document_of_bytes R s bytes) (\<lambda>d.
            bind_op (read_publication_intent R s d) (\<lambda>i.
            bind_op (lift (documented (validate_with_intent (receipt_env_of R) (under_way i) d))) (\<lambda>_.
              ok_op d)))))"

text \<open>The lock-free read opens the intent of a publication before the receipt it may have changed.\<close>

definition read_snapshot :: "receipt_world \<Rightarrow> receipt_store \<Rightarrow> receipt_document receipt_op" where
  "read_snapshot R s =
     bind_op (lift (receipt_destination_policy s)) (\<lambda>dir.
     bind_op (at_moment (receipt_bound_principal R s)) (\<lambda>_.
     bind_op (stat_path (rw_calls R) Store_read dir) (\<lambda>there.
       if \<not> there then ok_op (empty_receipt (rs_scope s))
       else bind_op (verify_receipt_directory R s dir) (\<lambda>_.
            bind_op (read_verified_publication_intent R s) (\<lambda>i.
            bind_op (open_receipt R s) (\<lambda>there.
              if \<not> there then (if i = None then ok_op (empty_receipt (rs_scope s)) else stop Store_intent_conflict)
              else bind_op (stat_path (rw_calls R) Store_read (receipt_lock_path s)) (\<lambda>locked.
                   if \<not> locked then stop Store_intent_conflict
                   else bind_op (receipt_call R Store_security (CallFileTarget (receipt_lock_path s)) id) (\<lambda>_.
                        bind_op (read_bytes R (rs_path s)) (\<lambda>bytes.
                        bind_op (document_of_bytes R s bytes) (\<lambda>d.
                        bind_op (lift (case i of None \<Rightarrow> Inr () | Some i \<Rightarrow> validate_receipt_binding R s i d)) (\<lambda>_.
                        bind_op (lift (documented (validate_with_intent (receipt_env_of R) (under_way i) d))) (\<lambda>_.
                          ok_op d))))))))))))"

section \<open>Writing\<close>

text \<open>The new file is complete, synced and hardened before it takes the name of the receipt.\<close>

definition replace_receipt :: "receipt_world \<Rightarrow> receipt_store \<Rightarrow> string \<Rightarrow> path \<Rightarrow> unit receipt_op" where
  "replace_receipt R s bytes tmp =
     bind_op (create_new (rw_calls R) Store_write tmp) (\<lambda>_.
     bind_op (receipt_call R Store_write (CallWrite tmp) (put_file tmp bytes)) (\<lambda>_.
     bind_op (receipt_call R Store_write (CallSync tmp) id) (\<lambda>_.
     bind_op (receipt_call R Store_write (CallHardenFile tmp) id) (\<lambda>_.
     bind_op (receipt_call R Store_write (CallReplace tmp (rs_path s)) (move_file tmp (rs_path s))) (\<lambda>_.
     bind_op (receipt_call R Store_post_replace_security (CallVerifySecurity (rs_path s)) id) (\<lambda>_.
       receipt_call R Store_write (CallSyncParent (receipt_directory s)) id))))))"

text \<open>A failure removes the temporary name, whatever it names by then.\<close>

definition with_cleanup :: "receipt_world \<Rightarrow> path \<Rightarrow> 'a receipt_op \<Rightarrow> 'a receipt_op" where
  "with_cleanup R tmp m = (\<lambda>d.
     case m d of
       (Inr x, d) \<Rightarrow> (Inr x, d)
     | (Inl e, d) \<Rightarrow> (Inl e, snd (receipt_call R Store_write (CallRemoveFile tmp) (erase_file tmp) d)))"

definition write_document ::
  "receipt_world \<Rightarrow> receipt_store \<Rightarrow> receipt_document \<Rightarrow> publication_intent option \<Rightarrow> unit receipt_op" where
  "write_document R s d i =
     bind_op (lift (documented (to_json_with_intent (receipt_env_of R) (under_way i) d))) (\<lambda>bytes.
     bind_op (at_moment (\<lambda>t. Inr (receipt_temporary R s t))) (\<lambda>tmp.
       with_cleanup R tmp (replace_receipt R s bytes tmp)))"

end
