(* ===== verification/ReceiptJournal.thy ===== *)
theory ReceiptJournal
  imports ReceiptStore
begin

text \<open>
  The journal of setup: the session that holds the receipt's lock (\<open>ReceiptApplySession\<close> in
  \<open>src/setup/receipt/mod.rs\<close>) and the run of a plan over it (\<open>src/setup/action/execution.rs\<close>). Before an action
  changes anything, the entry it will have is written to a transaction file; when the change is done and verified
  the file is marked, the entry is appended to the receipt and the file is removed. A run starts with what an
  interrupted run left.
\<close>

section \<open>Appending to a receipt\<close>

definition validate_pending_intent_prefix ::
  "receipt_env \<Rightarrow> receipt_document \<Rightarrow> receipt_document \<Rightarrow> publication_intent option \<Rightarrow> receipt_store_error + unit" where
  "validate_pending_intent_prefix E existing candidate i =
     (case i of
        None \<Rightarrow> Inr ()
      | Some i \<Rightarrow>
          (let matches = (\<lambda>d. and_then (receipt_prefix E d (pi_entry_count i) (pi_publication_count i)) (\<lambda>p.
                              documented (pending_publication_prefix_digest_matches E p (pi_prefix_sha256 i))))
           in and_then (documented (validate_publication E (rd_entries candidate) (pi_publication i))) (\<lambda>_.
              and_then (matches existing) (\<lambda>same.
                if \<not> same then Inl Store_prefix_conflict
                else and_then (matches candidate) (\<lambda>same. reject_if (\<not> same) Store_prefix_conflict)))))"

definition validate_append_candidate ::
  "receipt_env \<Rightarrow> receipt_document \<Rightarrow> receipt_document \<Rightarrow> publication_intent option \<Rightarrow> receipt_store_error + unit" where
  "validate_append_candidate E existing candidate i =
     and_then (documented (validate_with_intent E (under_way i) candidate)) (\<lambda>_.
     and_then (validate_pending_intent_prefix E existing candidate i) (\<lambda>_.
       reject_if (\<not> appended_only existing candidate \<or> last_status candidate \<noteq> Some Applied)
         Store_prefix_conflict))"

definition validate_pending_append_candidate ::
  "receipt_env \<Rightarrow> receipt_document \<Rightarrow> receipt_document \<Rightarrow> publication_intent option \<Rightarrow> receipt_store_error + unit" where
  "validate_pending_append_candidate E existing candidate i =
     and_then (documented (validate_with_intent E (under_way i) candidate)) (\<lambda>_.
     and_then (validate_pending_intent_prefix E existing candidate i) (\<lambda>_.
       reject_if
         (\<not> appended_only existing candidate \<or> last_status candidate \<noteq> Some Pending
          \<or> current_pending_occurrence existing (receipt_action_id (en_action (last (rd_entries candidate))))
              (under_way i) \<noteq> None)
         Store_prefix_conflict))"

text \<open>A fresh identifier and the time.\<close>

definition next_metadata :: "receipt_world \<Rightarrow> receipt_metadata receipt_op" where
  "next_metadata R = at_moment (\<lambda>t.
     let m = \<lparr>md_entry_id = fresh_text R t, md_timestamp = rw_now R t\<rparr>; E = receipt_env_of R
     in documented (and_then (validate_entry_id E (md_entry_id m)) (\<lambda>_.
          and_then (validate_timestamp E (md_timestamp m)) (\<lambda>_. Inr m))))"

section \<open>The session\<close>

definition preflight_writer_state :: "receipt_world \<Rightarrow> receipt_store \<Rightarrow> unit receipt_op" where
  "preflight_writer_state R s =
     bind_op (stat_path (rw_calls R) Store_read (rs_path s)) (\<lambda>there.
       if \<not> there then ok_op ()
       else bind_op (receipt_call R Store_security (CallFileTarget (rs_path s)) id) (\<lambda>_.
            bind_op (receipt_call R Store_security (CallVerifySecurity (rs_path s)) id) (\<lambda>_.
            bind_op (stat_path (rw_calls R) Store_read (receipt_lock_path s)) (\<lambda>locked.
              if locked then ok_op () else stop Store_intent_conflict))))"

definition begin_apply :: "receipt_world \<Rightarrow> receipt_store \<Rightarrow> unit receipt_op" where
  "begin_apply R s =
     bind_op (lift (receipt_destination_policy s)) (\<lambda>dir.
     bind_op (at_moment (receipt_bound_principal R s)) (\<lambda>_.
     bind_op (prepare_receipt_destination R s dir) (\<lambda>_.
     bind_op (preflight_writer_state R s) (\<lambda>_.
       let lock = receipt_lock_path s
       in bind_op (receipt_call R Store_write (CallOpenLock lock)
            (\<lambda>d. if disk_files d lock = None then put_file lock [] d else d)) (\<lambda>_.
          bind_op (receipt_call R Store_write (CallTakeLock lock) id) (\<lambda>_.
          bind_op (read_locked R s) (\<lambda>_. ok_op ())))))))"

definition validate_action_privilege :: "receipt_store \<Rightarrow> privilege \<Rightarrow> receipt_store_error + unit" where
  "validate_action_privilege s pr =
     reject_if (rs_scope s = UserScope \<and> pr \<noteq> No_privilege) (Store_document PrivilegeOutsideScope)"

text \<open>One unresolved occurrence of an action that waits for a human; an open occurrence is used again.\<close>

definition record_pending :: "receipt_world \<Rightarrow> receipt_store \<Rightarrow> action_parameters \<Rightarrow> publication_link receipt_op" where
  "record_pending R s parameters =
     (let E = receipt_env_of R; action_id = parameters_action_id parameters
      in bind_op (read_locked R s) (\<lambda>existing.
         bind_op (read_publication_intent R s existing) (\<lambda>i.
         bind_op (lift (documented (and_then (from_action_parameters parameters) (\<lambda>action.
             and_then (validate_receipt_action E action) (\<lambda>_.
             and_then (validate_action_scope (rs_scope s) action) (\<lambda>_.
             and_then (validate_action_principal E (rs_worker s) action) (\<lambda>_. Inr action))))))) (\<lambda>action.
         bind_op (validate_directory_action R s action) (\<lambda>_.
           case current_pending_occurrence existing action_id (under_way i) of
             Some occurrence \<Rightarrow>
               (case find_first (\<lambda>e. en_id e = lk_entry_id occurrence) (rd_entries existing) of
                  None \<Rightarrow> stop Store_intent_conflict
                | Some e \<Rightarrow> if en_action e \<noteq> action then stop Store_intent_conflict else ok_op occurrence)
           | None \<Rightarrow>
               bind_op (next_metadata R) (\<lambda>m.
               bind_op (lift (documented (pending_entry E parameters m))) (\<lambda>e.
               bind_op (lift (validate_pending_append_candidate E existing (append_entry e existing) i)) (\<lambda>_.
               bind_op (write_document R s (append_entry e existing) i) (\<lambda>_.
                 ok_op \<lparr>lk_action_id = action_id, lk_entry_id = md_entry_id m\<rparr>)))))))))"

record execution_witness =
  ew_scope :: installation_scope
  ew_worker :: worker_principal
  ew_receipt_path :: string
  ew_entry_count :: nat
  ew_publication_count :: nat
  ew_entries_sha256 :: string
  ew_effective_sha256 :: string

fun check_occurrences ::
  "receipt_document \<Rightarrow> publication_under_way \<Rightarrow> string set \<Rightarrow> string set \<Rightarrow> publication_link list \<Rightarrow>
     receipt_store_error + unit" where
  "check_occurrences d i actions ids [] = Inr ()"
| "check_occurrences d i actions ids (l # ls) =
     (if lk_action_id l \<in> actions \<or> lk_entry_id l \<in> ids then Inl Store_prefix_conflict
      else if current_pending_occurrence d (lk_action_id l) i \<noteq> Some l then Inl Store_intent_conflict
      else check_occurrences d i (insert (lk_action_id l) actions) (insert (lk_entry_id l) ids) ls)"

definition complete_execution ::
  "receipt_world \<Rightarrow> receipt_store \<Rightarrow> publication_link list \<Rightarrow> execution_witness receipt_op" where
  "complete_execution R s occurrences =
     (let E = receipt_env_of R
      in bind_op (read_locked R s) (\<lambda>d.
         bind_op (read_publication_intent R s d) (\<lambda>i.
         bind_op (lift (check_occurrences d (under_way i) {} {} occurrences)) (\<lambda>_.
         bind_op (lift (documented (effective_document E (under_way i) d))) (\<lambda>effective.
         bind_op (lift (receipt_path_text R s)) (\<lambda>path_text.
         bind_op (lift (documented (receipt_entries_digest E effective))) (\<lambda>entries_digest.
         bind_op (lift (documented (receipt_document_digest E effective))) (\<lambda>digest.
           ok_op \<lparr>ew_scope = rs_scope s, ew_worker = rs_worker s, ew_receipt_path = path_text,
                  ew_entry_count = length (rd_entries effective),
                  ew_publication_count = length (rd_publications effective),
                  ew_entries_sha256 = entries_digest, ew_effective_sha256 = digest\<rparr>))))))))"

section \<open>Transactions\<close>

text \<open>An intent in memory: its file, its phase and its entry.\<close>

record journal_intent =
  ji_entry :: receipt_entry
  ji_path :: path
  ji_phase :: intent_phase

definition read_intent :: "receipt_world \<Rightarrow> receipt_store \<Rightarrow> path \<Rightarrow> journal_intent receipt_op" where
  "read_intent R s p =
     (let E = receipt_env_of R
      in bind_op (open_verified R p Store_security) (\<lambda>_.
         bind_op (read_bytes R p) (\<lambda>bytes.
         bind_op (lift (documented (intent_from_json E bytes))) (\<lambda>i.
           if in_intent_scope i \<noteq> rs_scope s then stop Store_scope_mismatch
           else bind_op (lift (documented (validate_action_principal E (rs_worker s) (en_action (in_entry i))))) (\<lambda>_.
                bind_op (validate_directory_action R s (en_action (in_entry i))) (\<lambda>_.
                  if transaction_path s (en_id (in_entry i)) \<noteq> p then stop Store_intent_conflict
                  else ok_op \<lparr>ji_entry = in_entry i, ji_path = p, ji_phase = in_phase i\<rparr>))))))"

definition transaction_names :: "receipt_world \<Rightarrow> receipt_store \<Rightarrow> disk \<Rightarrow> string list" where
  "transaction_names R s d = filter (starts_with transaction_prefix) (rw_listing R d (receipt_directory s))"

text \<open>
  What an interrupted run left: at most one transaction. The code sorts the paths it finds, which orders at most
  one.
\<close>

fun identify_all :: "receipt_world \<Rightarrow> path list \<Rightarrow> unit receipt_op" where
  "identify_all R [] = ok_op ()"
| "identify_all R (p # ps) =
     bind_op (file_identity R p) (\<lambda>there.
       if there then identify_all R ps else stop (Store_security not_found))"

definition pending_intents :: "receipt_world \<Rightarrow> receipt_store \<Rightarrow> journal_intent option receipt_op" where
  "pending_intents R s =
     bind_op (receipt_call R Store_read (CallRead (receipt_directory s)) id) (\<lambda>_ d.
       (let ps = map (\<lambda>n. receipt_directory s @ [n]) (transaction_names R s d)
        in bind_op (identify_all R ps) (\<lambda>_.
             case ps of
               [] \<Rightarrow> ok_op None
             | [p] \<Rightarrow> bind_op (read_intent R s p) (\<lambda>i. ok_op (Some i))
             | _ \<Rightarrow> stop Store_intent_conflict)) d)"

text \<open>The bytes are written, synced and verified under the name of the transaction; a failure removes the file.\<close>

definition write_transaction :: "receipt_world \<Rightarrow> path \<Rightarrow> string \<Rightarrow> unit receipt_op" where
  "write_transaction R p bytes =
     bind_op (receipt_call R Store_write (CallWrite p) (put_file p bytes)) (\<lambda>_.
     bind_op (receipt_call R Store_write (CallSync p) id) (\<lambda>_.
     bind_op (open_verified R p Store_security) (\<lambda>_.
       receipt_call R Store_write (CallSyncParent (butlast p)) id)))"

definition remove_transaction :: "receipt_world \<Rightarrow> path \<Rightarrow> unit receipt_op" where
  "remove_transaction R p =
     bind_op (receipt_call R Store_security (CallVerifyFile p) id) (\<lambda>_.
       receipt_call R Store_write (CallRemoveFile p) (erase_file p))"

definition prepare_intent ::
  "receipt_world \<Rightarrow> receipt_store \<Rightarrow> privilege \<Rightarrow> action_parameters \<Rightarrow> action_effect \<Rightarrow> journal_intent receipt_op" where
  "prepare_intent R s pr parameters effect =
     (let E = receipt_env_of R
      in bind_op (lift (validate_action_privilege s pr)) (\<lambda>_.
         bind_op (next_metadata R) (\<lambda>m.
         bind_op (lift (documented (and_then (applied_entry E parameters effect pr m) (\<lambda>e.
             and_then (validate_action_scope (rs_scope s) (en_action e)) (\<lambda>_.
             and_then (validate_action_principal E (rs_worker s) (en_action e)) (\<lambda>_. Inr e)))))) (\<lambda>e.
         bind_op (validate_directory_action R s (en_action e)) (\<lambda>_.
           let p = transaction_path s (en_id e)
           in bind_op (lift (documented (intent_to_json E
                \<lparr>in_version = receipt_schema_version, in_intent_scope = rs_scope s, in_phase = Prepared,
                 in_entry = e\<rparr>))) (\<lambda>bytes.
              bind_op (create_new (rw_calls R) Store_write p) (\<lambda>_.
              bind_op (receipt_call R Store_security (CallHandleIdentity p) id) (\<lambda>_ d.
                case write_transaction R p bytes d of
                  (Inr _, d) \<Rightarrow> (Inr \<lparr>ji_entry = e, ji_path = p, ji_phase = Prepared\<rparr>, d)
                | (Inl x, d) \<Rightarrow> (Inl x, snd (remove_transaction R p d))))))))))"

definition replace_intent :: "receipt_world \<Rightarrow> path \<Rightarrow> string \<Rightarrow> unit receipt_op" where
  "replace_intent R p bytes =
     bind_op (at_moment (\<lambda>t. Inr (intent_temporary R (butlast p) t))) (\<lambda>tmp.
       with_cleanup R tmp
         (bind_op (create_new (rw_calls R) Store_write tmp) (\<lambda>_.
          bind_op (receipt_call R Store_security (CallHandleIdentity tmp) id) (\<lambda>_.
          bind_op (receipt_call R Store_write (CallWrite tmp) (put_file tmp bytes)) (\<lambda>_.
          bind_op (receipt_call R Store_write (CallSync tmp) id) (\<lambda>_.
          bind_op (receipt_call R Store_write (CallReplace tmp p) (move_file tmp p)) (\<lambda>_.
          bind_op (open_verified R p Store_post_replace_security) (\<lambda>_.
            receipt_call R Store_write (CallSyncParent (butlast p)) id))))))))"

definition mark_intent_succeeded ::
  "receipt_world \<Rightarrow> receipt_store \<Rightarrow> journal_intent \<Rightarrow> journal_intent receipt_op" where
  "mark_intent_succeeded R s i =
     (if ji_phase i \<noteq> Prepared then stop Store_intent_conflict
      else bind_op (lift (documented (intent_to_json (receipt_env_of R)
             \<lparr>in_version = receipt_schema_version, in_intent_scope = rs_scope s, in_phase = Succeeded,
              in_entry = ji_entry i\<rparr>))) (\<lambda>bytes.
           bind_op (replace_intent R (ji_path i) bytes) (\<lambda>_. ok_op (i\<lparr>ji_phase := Succeeded\<rparr>))))"

text \<open>Appending the entry of a finished transaction; an entry that is there already has to be the same.\<close>

definition append_succeeded_intent :: "receipt_world \<Rightarrow> receipt_store \<Rightarrow> journal_intent \<Rightarrow> unit receipt_op" where
  "append_succeeded_intent R s i =
     (if ji_phase i \<noteq> Succeeded then stop Store_intent_conflict
      else bind_op (read_locked R s) (\<lambda>existing.
           case find_first (\<lambda>e. en_id e = en_id (ji_entry i)) (rd_entries existing) of
             Some e \<Rightarrow> if e \<noteq> ji_entry i then stop Store_intent_conflict else ok_op ()
           | None \<Rightarrow>
               bind_op (read_publication_intent R s existing) (\<lambda>publication.
                 let candidate = append_entry (ji_entry i) existing
                 in bind_op (lift (validate_append_candidate (receipt_env_of R) existing candidate publication)) (\<lambda>_.
                      write_document R s candidate publication))))"

definition retire_finalized_intent :: "receipt_world \<Rightarrow> receipt_store \<Rightarrow> journal_intent \<Rightarrow> unit receipt_op" where
  "retire_finalized_intent R s i =
     (if ji_phase i \<noteq> Succeeded then stop Store_intent_conflict
      else bind_op (remove_transaction R (ji_path i)) (\<lambda>_.
             receipt_call R Store_write (CallSyncParent (receipt_directory s)) id))"

definition intent_matches ::
  "receipt_world \<Rightarrow> journal_intent \<Rightarrow> privilege \<Rightarrow> action_parameters \<Rightarrow> action_effect \<Rightarrow> receipt_store_error + bool" where
  "intent_matches R i pr parameters effect =
     and_then (documented (applied_entry (receipt_env_of R) parameters effect pr
       \<lparr>md_entry_id = en_id (ji_entry i), md_timestamp = en_timestamp (ji_entry i)\<rparr>)) (\<lambda>e.
       Inr (e = ji_entry i))"

end
