(* ===== verification/SetupRun.thy ===== *)
theory SetupRun
  imports ReceiptJournal
begin

text \<open>
  The run of a setup plan under the journal (\<open>apply_plan_with_runner\<close> in \<open>src/setup/action/execution.rs\<close>). An
  action is what the run uses of \<open>Action\<close>: its name, its privilege, what it hands to the receipt, its check, the
  effect it expects, its mutation with the verified effect, and what it does once the effect is bound.
\<close>

section \<open>Actions and outcomes\<close>

datatype execution_error = Exec_action action_error | Exec_conflict

datatype completion = Fully_applied | Applied_then_failed action_error | Applied_retaining_intent action_error

record setup_action =
  sa_name :: string
  sa_privilege :: privilege
  sa_parameters :: action_parameters
  sa_check :: "(action_error, action_check) disk_op"
  sa_effect :: "(action_error, action_effect) disk_op"
  sa_mutate :: "(execution_error, action_effect) disk_op"
  sa_finish :: "disk \<Rightarrow> completion \<times> disk"

datatype apply_plan_error = Plan_action action_error | Plan_receipt receipt_store_error

type_synonym 'a plan_op = "(apply_plan_error, 'a) disk_op"

definition on_receipt :: "'a receipt_op \<Rightarrow> 'a plan_op" where
  "on_receipt m = recover_op m (\<lambda>e. stop (Plan_receipt e))"

definition on_action :: "(action_error, 'a) disk_op \<Rightarrow> 'a plan_op" where
  "on_action m = recover_op m (\<lambda>e. stop (Plan_action e))"

definition apply_exit_code :: nat where
  "apply_exit_code = 13"

definition apply_error_code :: "apply_plan_error \<Rightarrow> string" where
  "apply_error_code e = (case e of Plan_action _ \<Rightarrow> ''setup.apply_failed'' | Plan_receipt _ \<Rightarrow> ''setup.receipt_conflict'')"

definition apply_error_action :: "apply_plan_error \<Rightarrow> string option" where
  "apply_error_action e = (case e of Plan_action e \<Rightarrow> action_error_id e | Plan_receipt _ \<Rightarrow> None)"

definition apply_safe_cause :: "apply_plan_error \<Rightarrow> string" where
  "apply_safe_cause e = (case e of Plan_action e \<Rightarrow> safe_cause e | Plan_receipt _ \<Rightarrow> ''receipt_journal'')"

section \<open>One mutation\<close>

datatype receipt_binding = Entry_appended | Succeeded_only receipt_store_error

text \<open>
  The mutation, and while its effect is verified the two durable steps: the transaction is marked, the entry is
  appended. A failure of the second leaves the marked transaction.
\<close>

definition execute_and_bind ::
  "receipt_world \<Rightarrow> receipt_store \<Rightarrow> setup_action \<Rightarrow> action_effect \<Rightarrow> journal_intent \<Rightarrow>
     (journal_intent \<times> completion \<times> receipt_binding) plan_op" where
  "execute_and_bind R s a expected i = (\<lambda>d.
     case sa_mutate a d of
       (Inl (Exec_action e), d) \<Rightarrow> (Inl (Plan_action e), d)
     | (Inl Exec_conflict, d) \<Rightarrow> (Inl (Plan_receipt Store_intent_conflict), d)
     | (Inr effect, d) \<Rightarrow>
         if effect \<noteq> expected then (Inl (Plan_receipt Store_intent_conflict), d)
         else case mark_intent_succeeded R s i d of
                (Inl e, d) \<Rightarrow> (Inl (Plan_receipt e), d)
              | (Inr i, d) \<Rightarrow>
                  (case append_succeeded_intent R s i d of
                     (r, d) \<Rightarrow>
                       (case sa_finish a d of
                          (c, d) \<Rightarrow>
                            (Inr (i, c, case r of Inr _ \<Rightarrow> Entry_appended | Inl e \<Rightarrow> Succeeded_only e), d))))"

definition finish_bound_mutation ::
  "receipt_world \<Rightarrow> receipt_store \<Rightarrow> journal_intent \<Rightarrow> completion \<Rightarrow> receipt_binding \<Rightarrow> unit plan_op" where
  "finish_bound_mutation R s i c binding =
     (case binding of
        Succeeded_only e \<Rightarrow> stop (Plan_receipt e)
      | Entry_appended \<Rightarrow>
          (case c of
             Fully_applied \<Rightarrow> on_receipt (retire_finalized_intent R s i)
           | Applied_then_failed e \<Rightarrow>
               bind_op (on_receipt (retire_finalized_intent R s i)) (\<lambda>_. stop (Plan_action e))
           | Applied_retaining_intent e \<Rightarrow> stop (Plan_action e)))"

definition journaled_mutation ::
  "receipt_world \<Rightarrow> receipt_store \<Rightarrow> setup_action \<Rightarrow> action_effect \<Rightarrow> journal_intent \<Rightarrow> unit plan_op" where
  "journaled_mutation R s a expected i =
     bind_op (execute_and_bind R s a expected i) (\<lambda>(i, c, binding). finish_bound_mutation R s i c binding)"

section \<open>The run\<close>

datatype execution_status = Status_applied | Status_recovered | Status_unchanged | Status_pending

definition status_str :: "execution_status \<Rightarrow> string" where
  "status_str t =
     (case t of Status_applied \<Rightarrow> ''applied'' | Status_recovered \<Rightarrow> ''recovered'' | Status_unchanged \<Rightarrow> ''unchanged''
      | Status_pending \<Rightarrow> ''pending'')"

record run_state =
  rn_applied :: nat
  rn_recovered :: nat
  rn_noop :: nat
  rn_results :: "string \<rightharpoonup> execution_status"
  rn_recovered_order :: "string list"
  rn_pending :: "(action_parameters \<times> needs_human) list"
  rn_occurrences :: "publication_link list"

definition fresh_run :: run_state where
  "fresh_run = \<lparr>rn_applied = 0, rn_recovered = 0, rn_noop = 0, rn_results = Map.empty, rn_recovered_order = [],
     rn_pending = [], rn_occurrences = []\<rparr>"

definition applied_result :: "setup_action \<Rightarrow> run_state \<Rightarrow> run_state" where
  "applied_result a st =
     st\<lparr>rn_applied := rn_applied st + 1, rn_results := (rn_results st)(sa_name a \<mapsto> Status_applied)\<rparr>"

text \<open>The evidence a directory action keeps until its entry is safe; \<open>retire\<close> is the platform's part.\<close>

type_synonym retire_evidence = "worker_layout \<Rightarrow> worker_node \<Rightarrow> (io_error, unit) disk_op"

definition retire_succeeded_evidence ::
  "receipt_world \<Rightarrow> receipt_store \<Rightarrow> retire_evidence \<Rightarrow> journal_intent \<Rightarrow> (action_error, unit) disk_op" where
  "retire_succeeded_evidence R s retire i =
     (case en_action (ji_entry i) of
        Act_directory p \<Rightarrow>
          (let failed = ApplyFailed (wd_action_id p)
           in bind_op (at_clock (\<lambda>t. map_err (\<lambda>_. failed) (receipt_layout R s t))) (\<lambda>layout.
              bind_op (lift (map_err (\<lambda>_. failed) (platform_node (wd_node p)))) (\<lambda>node.
              bind_op (lift (map_err (\<lambda>_. failed)
                  (validate_action_layout (receipt_env_of R) layout (en_action (ji_entry i))))) (\<lambda>_.
                recover_op (retire layout node) (\<lambda>_. stop failed)))))
      | _ \<Rightarrow> ok_op ())"

text \<open>A transaction that was marked is finished, one that was only prepared is carried out again.\<close>

definition recover_intent ::
  "receipt_world \<Rightarrow> receipt_store \<Rightarrow> retire_evidence \<Rightarrow> setup_action list \<Rightarrow> journal_intent \<Rightarrow> run_state \<Rightarrow>
     run_state plan_op" where
  "recover_intent R s retire plan i st =
     (let action_id = receipt_action_id (en_action (ji_entry i))
      in case ji_phase i of
           Succeeded \<Rightarrow>
             bind_op (lift (map_err (\<lambda>_. Plan_receipt Store_intent_conflict)
                 (parse_action_name (w_crates (rw_world R)) action_id))) (\<lambda>name.
             bind_op (on_receipt (append_succeeded_intent R s i)) (\<lambda>_.
             bind_op (on_action (retire_succeeded_evidence R s retire i)) (\<lambda>_.
             bind_op (on_receipt (retire_finalized_intent R s i)) (\<lambda>_.
               ok_op (st\<lparr>rn_recovered := rn_recovered st + 1, rn_recovered_order := rn_recovered_order st @ [name],
                        rn_results := (rn_results st)(name \<mapsto> Status_recovered)\<rparr>)))))
         | Prepared \<Rightarrow>
             (case find_first (\<lambda>a. sa_name a = action_id) plan of
                None \<Rightarrow> stop (Plan_receipt Store_intent_conflict)
              | Some a \<Rightarrow>
                  bind_op (on_action (sa_effect a)) (\<lambda>expected.
                  bind_op (on_receipt (lift (intent_matches R i (sa_privilege a) (sa_parameters a) expected))) (\<lambda>same.
                    if \<not> same then stop (Plan_receipt Store_intent_conflict)
                    else bind_op (on_action (sa_check a)) (\<lambda>check.
                         case check of
                           Check_todo \<Rightarrow>
                             bind_op (journaled_mutation R s a expected i) (\<lambda>_. ok_op (applied_result a st))
                         | _ \<Rightarrow> stop (Plan_receipt Store_intent_conflict))))))"

definition run_action :: "receipt_world \<Rightarrow> receipt_store \<Rightarrow> setup_action \<Rightarrow> run_state \<Rightarrow> run_state plan_op" where
  "run_action R s a st =
     bind_op (on_action (sa_check a)) (\<lambda>check.
       case check of
         Check_done \<Rightarrow>
           ok_op (st\<lparr>rn_noop := rn_noop st + 1,
                    rn_results := (case rn_results st (sa_name a) of
                                     None \<Rightarrow> (rn_results st)(sa_name a \<mapsto> Status_unchanged)
                                   | Some _ \<Rightarrow> rn_results st)\<rparr>)
       | Check_todo \<Rightarrow>
           bind_op (on_action (sa_effect a)) (\<lambda>expected.
           bind_op (on_receipt (prepare_intent R s (sa_privilege a) (sa_parameters a) expected)) (\<lambda>i.
           bind_op (journaled_mutation R s a expected i) (\<lambda>_. ok_op (applied_result a st))))
       | Check_needs_human h \<Rightarrow>
           bind_op (on_receipt (record_pending R s (sa_parameters a))) (\<lambda>occurrence.
             ok_op (st\<lparr>rn_pending := rn_pending st @ [(sa_parameters a, h)],
                      rn_occurrences := rn_occurrences st @ [occurrence],
                      rn_results := (rn_results st)(sa_name a \<mapsto> Status_pending)\<rparr>)))"

fun run_actions :: "receipt_world \<Rightarrow> receipt_store \<Rightarrow> setup_action list \<Rightarrow> run_state \<Rightarrow> run_state plan_op" where
  "run_actions R s [] st = ok_op st"
| "run_actions R s (a # plan) st = bind_op (run_action R s a st) (run_actions R s plan)"

text \<open>The results in the order of the names, each name once.\<close>

fun ordered_results :: "string list \<Rightarrow> (string \<rightharpoonup> execution_status) \<Rightarrow> (string \<times> execution_status) list" where
  "ordered_results [] results = []"
| "ordered_results (n # ns) results =
     (case results n of
        None \<Rightarrow> ordered_results ns results
      | Some t \<Rightarrow> (n, t) # ordered_results ns (results(n := None)))"

record completed_execution =
  ce_pending :: "(action_parameters \<times> needs_human) list"
  ce_occurrences :: "publication_link list"
  ce_witness :: execution_witness

definition new_completed_execution ::
  "(action_parameters \<times> needs_human) list \<Rightarrow> publication_link list \<Rightarrow> execution_witness \<Rightarrow>
     receipt_store_error + completed_execution" where
  "new_completed_execution pending occurrences w =
     (let ids = map (\<lambda>p. parameters_action_id (fst p)) pending
      in if length pending \<noteq> length occurrences \<or> ids \<noteq> map lk_action_id occurrences then Inl Store_intent_conflict
         else if \<not> distinct ids then Inl Store_prefix_conflict
         else Inr \<lparr>ce_pending = pending, ce_occurrences = occurrences, ce_witness = w\<rparr>)"

record apply_report =
  ar_applied :: nat
  ar_recovered :: nat
  ar_noop :: nat
  ar_completion :: completed_execution
  ar_results :: "(string \<times> execution_status) list"

definition is_nothing_to_do :: "apply_report \<Rightarrow> bool" where
  "is_nothing_to_do r \<longleftrightarrow> ar_applied r = 0 \<and> ar_recovered r = 0 \<and> ce_pending (ar_completion r) = []"

definition report_message :: "apply_report \<Rightarrow> string" where
  "report_message r =
     (if is_nothing_to_do r then ''nothing to do''
      else if ar_applied r = 0 \<and> ce_pending (ar_completion r) \<noteq> [] then ''setup actions need human attention''
      else if ar_applied r = 0 \<and> ar_recovered r \<noteq> 0 then ''receipt recovered''
      else ''setup actions applied'')"

text \<open>The names that stand in the results are those of the plan and the recovered one, so none is left over.\<close>

definition run_under_lock ::
  "receipt_world \<Rightarrow> receipt_store \<Rightarrow> retire_evidence \<Rightarrow> setup_action list \<Rightarrow> apply_report plan_op" where
  "run_under_lock R s retire plan =
     bind_op (on_receipt (pending_intents R s)) (\<lambda>left.
     bind_op (case left of None \<Rightarrow> ok_op fresh_run | Some i \<Rightarrow> recover_intent R s retire plan i fresh_run) (\<lambda>st.
     bind_op (run_actions R s plan st) (\<lambda>st.
     bind_op (on_receipt (complete_execution R s (rn_occurrences st))) (\<lambda>w.
     bind_op (on_receipt (lift (new_completed_execution (rn_pending st) (rn_occurrences st) w))) (\<lambda>completion.
       ok_op \<lparr>ar_applied = rn_applied st, ar_recovered = rn_recovered st, ar_noop = rn_noop st,
              ar_completion = completion,
              ar_results = ordered_results (map sa_name plan @ rn_recovered_order st) (rn_results st)\<rparr>)))))"

definition apply_plan ::
  "receipt_world \<Rightarrow> receipt_store \<Rightarrow> retire_evidence \<Rightarrow> setup_action list \<Rightarrow> apply_report plan_op" where
  "apply_plan R s retire plan =
     (if \<not> distinct (map sa_name plan) then stop (Plan_receipt Store_intent_conflict)
      else bind_op (on_receipt (lift (check_all (\<lambda>a. validate_action_privilege s (sa_privilege a)) plan))) (\<lambda>_.
           bind_op (on_receipt (begin_apply R s)) (\<lambda>_.
             run_under_lock R s retire plan)))"

section \<open>Completing an execution that was authorized\<close>

text \<open>
  After the privileged part of a plan was handed over, its pending actions are recorded and the whole is completed
  again, in the order in which the plan was displayed.
\<close>

fun check_displayed :: "string list \<Rightarrow> string set \<Rightarrow> string list \<Rightarrow> receipt_store_error + unit" where
  "check_displayed displayed seen [] = Inr ()"
| "check_displayed displayed seen (i # ids) =
     (if i \<in> seen then Inl Store_prefix_conflict
      else if i \<notin> set displayed then Inl Store_intent_conflict
      else check_displayed displayed (insert i seen) ids)"

definition displayed_position :: "string list \<Rightarrow> string \<Rightarrow> nat" where
  "displayed_position displayed i = length (takeWhile (\<lambda>n. n \<noteq> i) displayed)"

fun record_all ::
  "receipt_world \<Rightarrow> receipt_store \<Rightarrow> (action_parameters \<times> needs_human) list \<Rightarrow>
     ((action_parameters \<times> needs_human) \<times> publication_link) list receipt_op" where
  "record_all R s [] = ok_op []"
| "record_all R s (p # ps) =
     bind_op (record_pending R s (fst p)) (\<lambda>occurrence.
     bind_op (record_all R s ps) (\<lambda>rest. ok_op ((p, occurrence) # rest)))"

definition complete_authorized_execution ::
  "receipt_world \<Rightarrow> receipt_store \<Rightarrow> apply_report \<Rightarrow> (action_parameters \<times> needs_human) list \<Rightarrow> string list \<Rightarrow>
     (nat \<times> nat \<times> nat \<times> completed_execution) plan_op" where
  "complete_authorized_execution R s ordinary privileged displayed =
     (let done_before = ar_completion ordinary;
          ids = map (\<lambda>p. parameters_action_id (fst p)) (ce_pending done_before @ privileged)
      in if \<not> distinct displayed then stop (Plan_receipt Store_prefix_conflict)
         else on_receipt (
           bind_op (lift (check_displayed displayed {} ids)) (\<lambda>_.
           bind_op (begin_apply R s) (\<lambda>_.
           bind_op (complete_execution R s (ce_occurrences done_before)) (\<lambda>current.
             if current \<noteq> ce_witness done_before then stop Store_intent_conflict
             else bind_op (record_all R s privileged) (\<lambda>recorded.
                  let all = sort_key (\<lambda>p. displayed_position displayed (parameters_action_id (fst (fst p))))
                              (zip (ce_pending done_before) (ce_occurrences done_before) @ recorded)
                  in bind_op (complete_execution R s (map snd all)) (\<lambda>w.
                     bind_op (lift (new_completed_execution (map fst all) (map snd all) w)) (\<lambda>completion.
                       ok_op (ar_applied ordinary, ar_recovered ordinary, ar_noop ordinary, completion)))))))))"

end
