(* ===== verification/ReceiptLedger.thy ===== *)
theory ReceiptLedger
  imports SetupRun
begin

text \<open>
  What the journal promises. The ledger is what the receipt and the transaction files say was done; no step of a
  run loses an entry of it, and an entry is in it before its action changes anything.
\<close>

section \<open>Values that were read fit the machine\<close>

lemma as_unsigned_le: "as_unsigned m v = Some n \<Longrightarrow> n \<le> m"
  by (cases v) (auto simp: as_unsigned_def split: if_splits)

lemma option_field_le: "option_field (as_unsigned m) v = Some x \<Longrightarrow> is_none_or (\<lambda>n. n \<le> m) x"
  by (auto simp: option_field_def optional_json_def is_none_or_def dest: as_unsigned_le split: option.splits if_splits)

lemma node_read_sized: "json_node v = Some n \<Longrightarrow> is_none_or (\<lambda>k. k \<le> 65535) (dn_ordinal n)"
  by (auto simp: json_node_def read_struct_def bind_eq_Some_conv dest: option_field_le)

lemma directory_read_sized: "json_directory v = Some p \<Longrightarrow> is_none_or (\<lambda>k. k \<le> 65535) (dn_ordinal (wd_node p))"
  using node_read_sized by (auto simp: json_directory_def read_struct_def bind_eq_Some_conv required_def)

lemma action_read_sized: "json_action v = Some a \<Longrightarrow> sized_action a"
  using directory_read_sized
  by (auto simp: json_action_def read_struct_def bind_eq_Some_conv action_content_def sized_action_def split: if_splits)

lemma entry_read_sized: "json_entry v = Some e \<Longrightarrow> sized_action (en_action e)"
  using action_read_sized by (auto simp: json_entry_def read_struct_def bind_eq_Some_conv required_def)

lemma publication_read_sized: "json_publication v = Some p \<Longrightarrow> pb_entry_count p \<le> u64_max"
  by (auto simp: json_publication_def read_struct_def bind_eq_Some_conv required_def dest: as_unsigned_le)

lemma each_json_all: "each_json conv xs = Some ys \<Longrightarrow> y \<in> set ys \<Longrightarrow> \<exists>x. conv x = Some y"
  by (induction xs arbitrary: ys) (auto simp: bind_eq_Some_conv)

lemma list_json_all: "list_json conv v = Some ys \<Longrightarrow> y \<in> set ys \<Longrightarrow> \<exists>x. conv x = Some y"
  using each_json_all by (fastforce simp: list_json_def split: json.splits)

lemma document_read_sized:
  assumes "json_receipt_document v = Some w"
  shows "e \<in> set (dwi_entries w) \<Longrightarrow> sized_action (en_action e)"
    and "p \<in> set (dwi_publications w) \<Longrightarrow> pb_entry_count p \<le> u64_max"
proof -
  obtain x y where es: "list_json json_entry x = Some (dwi_entries w)"
      and ps: "default_list (list_json json_publication) y = Some (dwi_publications w)"
    using assms by (auto simp: json_receipt_document_def read_struct_def bind_eq_Some_conv required_def)
  show "e \<in> set (dwi_entries w) \<Longrightarrow> sized_action (en_action e)"
    using list_json_all[OF es] entry_read_sized by blast
  have "dwi_publications w = [] \<or> (\<exists>z. list_json json_publication z = Some (dwi_publications w))"
    using ps by (cases y) (auto simp: default_list_def)
  then show "p \<in> set (dwi_publications w) \<Longrightarrow> pb_entry_count p \<le> u64_max"
    using list_json_all[of json_publication] publication_read_sized by fastforce
qed

lemma document_sized_read:
  assumes "from_json_without_epoch_validation E bytes = Inr d"
  shows "sized_document d"
proof -
  obtain w where "parsed E json_receipt_document bytes = Inr w" "rd_entries d = dwi_entries w"
      "rd_publications d = dwi_publications w"
    using assms by (auto simp: from_json_without_epoch_validation_def result_simps Let_def)
  then show ?thesis
    using document_read_sized by (auto simp: sized_document_def parsed_def result_simps bind_eq_Some_conv)
qed

section \<open>The ledger\<close>

definition ledger_file :: "receipt_store \<Rightarrow> path \<Rightarrow> bool" where
  "ledger_file s p \<longleftrightarrow>
     p = rs_path s \<or> (\<exists>n. p = receipt_directory s @ [n] \<and> starts_with transaction_prefix n)"

definition receipt_entries :: "receipt_world \<Rightarrow> receipt_store \<Rightarrow> disk \<Rightarrow> receipt_entry list" where
  "receipt_entries R s d =
     (case disk_files d (rs_path s) of
        None \<Rightarrow> []
      | Some bytes \<Rightarrow>
          (case parsed (receipt_env_of R) json_receipt_document bytes of Inl _ \<Rightarrow> [] | Inr w \<Rightarrow> dwi_entries w))"

definition transaction_intent :: "receipt_world \<Rightarrow> disk \<Rightarrow> path \<Rightarrow> action_intent option" where
  "transaction_intent R d p =
     Option.bind (disk_files d p) (\<lambda>bytes.
       case parsed (receipt_env_of R) json_intent bytes of Inl _ \<Rightarrow> None | Inr i \<Rightarrow> Some i)"

definition in_transaction :: "receipt_world \<Rightarrow> receipt_store \<Rightarrow> disk \<Rightarrow> receipt_entry \<Rightarrow> bool" where
  "in_transaction R s d e \<longleftrightarrow>
     map_option in_entry (transaction_intent R d (transaction_path s (en_id e))) = Some e"

text \<open>Whether an entry is recorded, in the receipt or in the transaction of its identifier.\<close>

definition recorded :: "receipt_world \<Rightarrow> receipt_store \<Rightarrow> disk \<Rightarrow> receipt_entry \<Rightarrow> bool" where
  "recorded R s d e \<longleftrightarrow> e \<in> set (receipt_entries R s d) \<or> in_transaction R s d e"

text \<open>The laws of the crates and the host, and the shape of the store's path, which its constructors check.\<close>

definition journal_laws :: "receipt_world \<Rightarrow> bool" where
  "journal_laws R \<longleftrightarrow>
     (\<forall>d. rd_version d = receipt_schema_version \<longrightarrow> sized_document d \<longrightarrow>
        json_parse (w_crates (rw_world R)) (serialize_json (receipt_env_of R) d) = Some (document_json d)) \<and>
     (\<forall>i. in_version i = receipt_schema_version \<longrightarrow> sized_action (en_action (in_entry i)) \<longrightarrow>
        json_parse (w_crates (rw_world R)) (pretty_line (receipt_env_of R) (intent_json i)) = Some (intent_json i)) \<and>
     (\<forall>u. CHR ''t'' \<notin> set (uuid_text (w_crates (rw_world R)) u)) \<and>
     (\<forall>t p e. rw_calls R t (CallOpenVerified p) = Some e \<longrightarrow> io_error_kind e \<noteq> NotFound)"

definition named_receipt :: "receipt_store \<Rightarrow> bool" where
  "named_receipt s \<longleftrightarrow> rs_path s \<noteq> [] \<and> last (rs_path s) = ''receipt.json''"

lemma named_path: "named_receipt s \<Longrightarrow> rs_path s = receipt_directory s @ [''receipt.json'']"
  by (metis append_butlast_last_id named_receipt_def receipt_directory_def)

lemma transaction_ledger_file: "ledger_file s (transaction_path s i)"
  by (simp add: ledger_file_def transaction_path_def starts_with_def)

lemma receipt_ledger_file: "ledger_file s (rs_path s)"
  by (simp add: ledger_file_def)

text \<open>The other files of the journal are none of the ledger's.\<close>

lemma transaction_like:
  assumes "CHR ''t'' \<notin> set u"
  shows "\<not> starts_with transaction_prefix (''.receipt.json.'' @ u @ ''.tmp'')"
  using assms by (cases u) (auto simp: transaction_prefix_def starts_with_def)

text \<open>A bystander is a file of the ledger or one outside the directory of the receipt.\<close>

definition outside :: "receipt_store \<Rightarrow> path \<Rightarrow> bool" where
  "outside s p \<longleftrightarrow> (\<forall>n. p \<noteq> receipt_directory s @ [n])"

definition bystander :: "receipt_store \<Rightarrow> path \<Rightarrow> bool" where
  "bystander s p \<longleftrightarrow> ledger_file s p \<or> outside s p"

lemma bystander_ledger: "ledger_file s p \<Longrightarrow> bystander s p" and bystander_outside: "outside s p \<Longrightarrow> bystander s p"
  by (simp_all add: bystander_def)

lemma other_files:
  assumes "named_receipt s" "bystander s p"
  shows "p \<noteq> receipt_lock_path s" "p \<noteq> publication_intent_path s" "p \<noteq> publication_temporary_path s i"
    "p \<noteq> intent_temporary R (receipt_directory s) t"
  using assms named_path[OF assms(1)]
  by (auto simp: bystander_def outside_def ledger_file_def receipt_lock_path_def publication_intent_path_def
      publication_temporary_path_def intent_temporary_def transaction_prefix_def starts_with_def)

lemma receipt_temporary_differs:
  assumes "named_receipt s" "bystander s p" "journal_laws R"
  shows "p \<noteq> receipt_temporary R s t"
proof -
  have "CHR ''t'' \<notin> set (fresh_text R t)" using assms(3) by (simp add: journal_laws_def fresh_text_def)
  then have "\<not> starts_with transaction_prefix (''.receipt.json.'' @ fresh_text R t @ ''.tmp'')"
    by (rule transaction_like)
  moreover have "''receipt.json'' \<noteq> ''.receipt.json.'' @ fresh_text R t @ ''.tmp''" by simp
  ultimately show ?thesis
    using assms(2) named_path[OF assms(1)] unfolding bystander_def outside_def ledger_file_def receipt_temporary_def
    by auto
qed

section \<open>Steps that leave the ledger alone\<close>

text \<open>A step that leaves every file of the ledger as it is.\<close>

definition quiet :: "receipt_store \<Rightarrow> ('e, 'a) disk_op \<Rightarrow> bool" where
  "quiet s m \<longleftrightarrow> (\<forall>p. ledger_file s p \<longrightarrow> keeps p m)"

lemma quietI: "(\<And>p. bystander s p \<Longrightarrow> keeps p m) \<Longrightarrow> quiet s m"
  by (simp add: quiet_def bystander_ledger)

lemma quiet_recorded: "quiet s m \<Longrightarrow> m d = (r, d') \<Longrightarrow> recorded R s d' e = recorded R s d e"
  using keepsD[of "rs_path s" m d r d'] keepsD[of "transaction_path s (en_id e)" m d r d']
  by (simp add: quiet_def receipt_ledger_file transaction_ledger_file recorded_def receipt_entries_def in_transaction_def
      transaction_intent_def)

lemma keeps_option [keeps_rules]:
  "keeps p a \<Longrightarrow> (\<And>x. keeps p (f x)) \<Longrightarrow> keeps p (case v of None \<Rightarrow> a | Some x \<Rightarrow> f x)"
  by (cases v) simp_all

lemma keeps_at_moment [keeps_rules]: "keeps p (at_moment f)"
  unfolding at_moment_def by (rule keeps_at_clock)

lemma keeps_receipt_call [keeps_rules]:
  "(\<And>d. disk_files (change d) p = disk_files d p) \<Longrightarrow> keeps p (receipt_call R wrap call change)"
  unfolding receipt_call_def by (rule keeps_native)

lemma keeps_open_verified [keeps_rules]: "keeps p (open_verified R q wrap)"
  by (simp add: keeps_def open_verified_def receipt_call_def native_def Let_def split: option.splits)

lemma keeps_read_bytes [keeps_rules]: "keeps p (read_bytes R q)"
  unfolding read_bytes_def
  by (intro keeps_bind keeps_receipt_call) (simp_all add: keeps_def split: option.splits)

lemma keeps_receipt_identity [keeps_rules]: "keeps p (file_identity R q)"
  by (simp add: keeps_def file_identity_def split: option.splits)

lemma keeps_open_receipt [keeps_rules]: "keeps p (open_receipt R s)"
  by (simp add: keeps_def open_receipt_def Let_def split: option.splits)

lemma keeps_remove_file: "p \<noteq> q \<Longrightarrow> keeps p (remove_private_file R q)"
  unfolding remove_private_file_def by (intro keeps_rules) simp_all

lemma keeps_directory_document [keeps_rules]: "keeps p (validate_directory_document R s d)"
  unfolding validate_directory_document_def by (intro keeps_rules)

lemma keeps_directory_action [keeps_rules]: "keeps p (validate_directory_action R s a)"
  unfolding validate_directory_action_def by (intro keeps_rules)

lemma keeps_document_of_bytes [keeps_rules]: "keeps p (document_of_bytes R s bytes)"
  unfolding document_of_bytes_def by (intro keeps_rules)

lemma keeps_read_intent_file [keeps_rules]: "keeps p (read_verified_publication_intent R s)"
  unfolding read_verified_publication_intent_def Let_def by (intro keeps_rules)

lemma keeps_read_publication_intent:
  "named_receipt s \<Longrightarrow> bystander s p \<Longrightarrow> keeps p (read_publication_intent R s d)"
  unfolding read_publication_intent_def remove_publication_temporary_def Let_def
  by (intro keeps_rules keeps_remove_file other_files(3))

lemma keeps_read_locked: "named_receipt s \<Longrightarrow> bystander s p \<Longrightarrow> keeps p (read_locked R s)"
  unfolding read_locked_def by (intro keeps_rules keeps_read_publication_intent)

lemma keeps_next_metadata [keeps_rules]: "keeps p (next_metadata R)"
  unfolding next_metadata_def by (rule keeps_at_moment)

lemma keeps_missing_receipt [keeps_rules]: "keeps p (receipt_missing_ancestors R n q)"
proof (induction n arbitrary: q)
  case 0
  show ?case unfolding receipt_missing_ancestors.simps by (intro keeps_rules) simp
next
  case (Suc n)
  show ?case unfolding receipt_missing_ancestors.simps by (intro keeps_rules Suc.IH) simp
qed

lemma keeps_each_receipt [keeps_rules]: "(\<And>x. keeps p (f x)) \<Longrightarrow> keeps p (each_receipt_op f xs)"
proof (induction xs)
  case (Cons x xs)
  show ?case unfolding each_receipt_op.simps by (intro keeps_rules Cons.IH Cons.prems)
qed (simp add: keeps_ok)

lemma keeps_with_cleanup: "keeps p m \<Longrightarrow> p \<noteq> tmp \<Longrightarrow> keeps p (with_cleanup R tmp m)"
  by (auto simp: keeps_def with_cleanup_def receipt_call_def native_def Let_def split: prod.splits sum.splits option.splits)
    (metis snd_conv)+

lemma files_lock [simp]: "p \<noteq> l \<Longrightarrow> disk_files (if disk_files d l = None then put_file l [] d else d) p = disk_files d p"
  by simp

lemma keeps_root_directory [keeps_rules]: "keeps p (receipt_root_directory R q)"
proof -
  have "keeps p (receipt_call R Store_security (CallAncestors q q) id)"
    "keeps p (bind_op (receipt_call R Store_write (CallHardenDirectory q) id) (\<lambda>_.
       receipt_call R Store_write (CallSyncParent (butlast q)) id))"
    by (intro keeps_rules; simp)+
  then show ?thesis
    by (auto simp: keeps_def receipt_root_directory_def stop_def split: option.splits if_splits)
qed

lemma keeps_verify_directory [keeps_rules]: "keeps p (verify_receipt_directory R s dir)"
  unfolding verify_receipt_directory_def by (intro keeps_rules) simp_all

lemma keeps_publish_directory_receipt [keeps_rules]: "keeps p (publish_receipt_directory R s staging dir)"
proof -
  have "keeps p (bind_op (verify_receipt_directory R s dir) (\<lambda>_.
      receipt_call R Store_write (CallRemoveDirectory staging) (drop_dir staging)))"
    by (intro keeps_rules) simp
  then show ?thesis
    by (auto simp: keeps_def publish_receipt_directory_def stop_def split: option.splits if_splits)
qed

lemma keeps_after_failure:
  assumes "keeps p m" "keeps p c"
  shows "keeps p (\<lambda>d. case m d of (Inr x, d) \<Rightarrow> (Inr (f x), d) | (Inl e, d) \<Rightarrow> (Inl e, snd (c d)))"
proof -
  have "disk_files (snd (case m d of (Inr x, d) \<Rightarrow> (Inr (f x), d) | (Inl e, d) \<Rightarrow> (Inl e, snd (c d)))) p = disk_files d p"
    for d
  proof -
    obtain r d' where m: "m d = (r, d')" by force
    then have "disk_files d' p = disk_files d p" using assms(1) keepsD by metis
    moreover have "disk_files (snd (c d')) p = disk_files d' p" using assms(2) by (simp add: keeps_def)
    ultimately show ?thesis by (simp add: m split: sum.split)
  qed
  then show ?thesis by (simp add: keeps_def)
qed

lemma keeps_create_receipt_directory [keeps_rules]: "keeps p (create_receipt_directory R s dir)"
proof -
  have "keeps p (case rs_scope s of
        SystemScope \<Rightarrow> receipt_call R Store_security (CallParentChain (butlast dir)) id
      | UserScope \<Rightarrow> receipt_call R Store_security (CallAncestors (butlast dir) (rs_trusted_root s)) id)"
    by (cases "rs_scope s") (simp_all add: keeps_receipt_call)
  moreover have "keeps p (\<lambda>d. case bind_op (receipt_call R Store_write (CallHardenDirectory q) id) (\<lambda>_.
            bind_op (publish_receipt_directory R s q dir) (\<lambda>_.
              receipt_call R Store_write (CallSyncParent (butlast dir)) id)) d of
         (Inr _, d) \<Rightarrow> (Inr (), d)
       | (Inl e, d) \<Rightarrow> (Inl e, snd (receipt_call R Store_write (CallRemoveDirectory q) (drop_dir q) d)))" for q
    by (rule keeps_after_failure; intro keeps_rules) simp_all
  ultimately show ?thesis
    unfolding create_receipt_directory_def by (intro keeps_bind keeps_rules) simp_all
qed

lemma keeps_prepare_receipt [keeps_rules]: "keeps p (prepare_receipt_destination R s dir)"
  unfolding prepare_receipt_destination_def receipt_trusted_root_def by (intro keeps_rules)

lemma keeps_preflight_writer [keeps_rules]: "keeps p (preflight_writer_state R s)"
  unfolding preflight_writer_state_def by (intro keeps_rules) simp_all

lemma keeps_begin_apply: "named_receipt s \<Longrightarrow> bystander s p \<Longrightarrow> keeps p (begin_apply R s)"
  unfolding begin_apply_def Let_def
  by (intro keeps_rules keeps_read_locked) (simp_all add: other_files)

lemma keeps_read_intent [keeps_rules]: "keeps p (read_intent R s q)"
  unfolding read_intent_def Let_def by (intro keeps_rules)

lemma keeps_identify [keeps_rules]: "keeps p (identify_all R ps)"
proof (induction ps)
  case (Cons q ps)
  show ?case unfolding identify_all.simps by (intro keeps_rules Cons.IH)
qed (simp add: keeps_ok)

lemma keeps_pending_intents [keeps_rules]: "keeps p (pending_intents R s)"
proof -
  have "keeps p (case ps of [] \<Rightarrow> ok_op None | [q] \<Rightarrow> bind_op (read_intent R s q) (\<lambda>i. ok_op (Some i))
      | _ \<Rightarrow> stop Store_intent_conflict)" for ps
    by (auto simp: keeps_ok keeps_stop split: list.split intro!: keeps_bind keeps_read_intent)
  then have "keeps p (bind_op (identify_all R ps) (\<lambda>_. case ps of [] \<Rightarrow> ok_op None
      | [q] \<Rightarrow> bind_op (read_intent R s q) (\<lambda>i. ok_op (Some i)) | _ \<Rightarrow> stop Store_intent_conflict))" for ps
    by (intro keeps_bind keeps_identify)
  then have "keeps p (\<lambda>d. (let ps = map (\<lambda>n. receipt_directory s @ [n]) (transaction_names R s d)
        in bind_op (identify_all R ps) (\<lambda>_. case ps of [] \<Rightarrow> ok_op None
             | [p] \<Rightarrow> bind_op (read_intent R s p) (\<lambda>i. ok_op (Some i)) | _ \<Rightarrow> stop Store_intent_conflict)) d)"
    by (simp add: keeps_def Let_def)
  then show ?thesis
    unfolding pending_intents_def by (intro keeps_bind keeps_receipt_call) simp_all
qed

lemma keeps_complete: "named_receipt s \<Longrightarrow> bystander s p \<Longrightarrow> keeps p (complete_execution R s ls)"
  unfolding complete_execution_def Let_def by (intro keeps_rules keeps_read_locked keeps_read_publication_intent)

section \<open>Reading and writing the receipt\<close>

lemma receipt_entries_cong: "disk_files d' (rs_path s) = disk_files d (rs_path s) \<Longrightarrow> receipt_entries R s d' = receipt_entries R s d"
  by (simp add: receipt_entries_def)

lemma in_transaction_cong:
  "disk_files d' (transaction_path s (en_id e)) = disk_files d (transaction_path s (en_id e)) \<Longrightarrow>
     in_transaction R s d' e = in_transaction R s d e"
  by (simp add: in_transaction_def transaction_intent_def)

lemma open_receipt_found:
  assumes "open_receipt R s d = (Inr b, d')" "journal_laws R"
  shows "b \<longleftrightarrow> disk_files d (rs_path s) \<noteq> None" "disk_files d' = disk_files d"
  using assms by (auto simp: open_receipt_def Let_def journal_laws_def split: option.splits if_splits)

lemma read_bytes_found:
  assumes "read_bytes R p d = (Inr bytes, d')"
  shows "disk_files d p = Some bytes" "disk_files d' = disk_files d"
  using assms
  by (auto simp: read_bytes_def bind_op_def receipt_call_def native_def Let_def split: option.splits prod.splits sum.splits)

lemma read_entries:
  assumes "read_locked R s d = (Inr doc, d')" "journal_laws R" "named_receipt s"
  shows "rd_entries doc = receipt_entries R s d" "sized_document doc" "rd_scope doc = rs_scope s"
proof -
  obtain b d1 where o: "open_receipt R s d = (Inr b, d1)"
    and rest: "(if \<not> b then ok_op (empty_receipt (rs_scope s))
       else bind_op (read_bytes R (rs_path s)) (\<lambda>bytes.
            bind_op (document_of_bytes R s bytes) (\<lambda>d.
            bind_op (read_publication_intent R s d) (\<lambda>i.
            bind_op (lift (documented (validate_with_intent (receipt_env_of R) (under_way i) d))) (\<lambda>_.
              ok_op d))))) d1 = (Inr doc, d')"
    using assms(1) unfolding read_locked_def by (rule bind_op_InrE)
  note found = open_receipt_found[OF o assms(2)]
  have "rd_entries doc = receipt_entries R s d \<and> sized_document doc \<and> rd_scope doc = rs_scope s"
  proof (cases b)
    case False
    then show ?thesis
      using rest found(1) by (auto simp: ok_op_def empty_receipt_def receipt_entries_def sized_document_def)
  next
    case True
    then obtain bytes d2 d3 d4 i where bytes: "read_bytes R (rs_path s) d1 = (Inr bytes, d2)"
      and doc: "document_of_bytes R s bytes d2 = (Inr doc, d3)"
      using rest by (auto simp: bind_op_Inr lift_def ok_op_def)
    then have json: "from_json_without_epoch_validation (receipt_env_of R) bytes = Inr doc" "rd_scope doc = rs_scope s"
      by (auto simp: document_of_bytes_def bind_op_Inr lift_def ok_op_def stop_def documented_def result_simps
          split: if_splits)
    have "disk_files d (rs_path s) = Some bytes" using read_bytes_found[OF bytes] found(2) by simp
    then have "rd_entries doc = receipt_entries R s d"
      using json(1) by (auto simp: receipt_entries_def from_json_without_epoch_validation_def result_simps Let_def
          split: sum.splits)
    then show ?thesis using json(2) document_sized_read[OF json(1)] by simp
  qed
  then show "rd_entries doc = receipt_entries R s d" "sized_document doc" "rd_scope doc = rs_scope s" by auto
qed

text \<open>The replacement is atomic: the old receipt or the whole new one, and the new one when it succeeds.\<close>

lemma receipt_call_cases:
  assumes "receipt_call R wrap call change d = (r, d')"
  shows "(r \<noteq> Inr () \<and> disk_files d' = disk_files d) \<or>
    (r = Inr () \<and> d' = change (d\<lparr>disk_clock := Suc (disk_clock d)\<rparr>))"
  using native_cases[OF assms[unfolded receipt_call_def]] by auto

lemma staged_files:
  fixes stage after :: "unit receipt_op"
  assumes run: "bind_op stage (\<lambda>_. bind_op (receipt_call R Store_write (CallReplace tmp target) (move_file tmp target))
      (\<lambda>_. after)) d = (r, d')"
    and target: "tmp \<noteq> target"
    and stage: "\<And>q. q \<noteq> tmp \<Longrightarrow> keeps q stage" "\<And>e e'. stage e = (Inr (), e') \<Longrightarrow> disk_files e' tmp = Some bytes"
    and after: "\<And>q. keeps q after"
  shows "disk_files d' target = disk_files d target \<or> disk_files d' target = Some bytes"
    and "r = Inr () \<Longrightarrow> disk_files d' target = Some bytes"
    and "q \<noteq> tmp \<Longrightarrow> q \<noteq> target \<Longrightarrow> disk_files d' q = disk_files d q"
proof -
  let ?move = "receipt_call R Store_write (CallReplace tmp target) (move_file tmp target)"
  obtain r1 d1 where st: "stage d = (r1, d1)" by force
  have old: "disk_files d1 q = disk_files d q" if "q \<noteq> tmp" for q
    using keepsD[OF stage(1)[OF that] st] .
  have "(r \<noteq> Inr () \<and> (\<forall>q. q \<noteq> tmp \<longrightarrow> disk_files d' q = disk_files d q)) \<or>
      (disk_files d' target = Some bytes \<and> (\<forall>q. q \<noteq> tmp \<longrightarrow> q \<noteq> target \<longrightarrow> disk_files d' q = disk_files d q))"
  proof (cases r1)
    case (Inl e)
    then show ?thesis using run st old by (auto simp: bind_op_def)
  next
    case (Inr u)
    obtain r2 d2 where m: "?move d1 = (r2, d2)" by force
    show ?thesis
    proof (cases "r2 = Inr ()")
      case True
      then have moved: "after d2 = (r, d')" using run st Inr m by (auto simp: bind_op_def)
      have tmp: "disk_files d1 tmp = Some bytes" using stage(2) st Inr by simp
      have d2: "d2 = move_file tmp target (d1\<lparr>disk_clock := Suc (disk_clock d1)\<rparr>)"
        using receipt_call_cases[OF m] True by simp
      have "disk_files d' q = disk_files d2 q" for q using keepsD[OF after moved] .
      then show ?thesis using tmp d2 old target by (auto simp: move_file_def)
    next
      case False
      then have "r \<noteq> Inr ()" "d' = d2" using run st Inr m by (cases r2; auto simp: bind_op_def)+
      moreover have "disk_files d2 = disk_files d1" using receipt_call_cases[OF m] False by simp
      ultimately show ?thesis using old by auto
    qed
  qed
  then show "disk_files d' target = disk_files d target \<or> disk_files d' target = Some bytes"
    and "r = Inr () \<Longrightarrow> disk_files d' target = Some bytes"
    and "q \<noteq> tmp \<Longrightarrow> q \<noteq> target \<Longrightarrow> disk_files d' q = disk_files d q"
    using target by auto
qed

lemma written_file:
  assumes "receipt_call R wrap call (put_file p bytes) d = (Inr (), d1)" "m d1 = (r, d')" "keeps p m"
  shows "disk_files d' p = Some bytes"
  using receipt_call_cases[OF assms(1)] keepsD[OF assms(3,2)] by (auto simp: put_file_def)

lemma replace_receipt_files:
  assumes "replace_receipt R s bytes tmp d = (r, d')" "tmp \<noteq> rs_path s"
  shows "disk_files d' (rs_path s) = disk_files d (rs_path s) \<or> disk_files d' (rs_path s) = Some bytes"
    and "r = Inr () \<Longrightarrow> disk_files d' (rs_path s) = Some bytes"
    and "q \<noteq> tmp \<Longrightarrow> q \<noteq> rs_path s \<Longrightarrow> disk_files d' q = disk_files d q"
proof -
  let ?stage = "bind_op (create_new (rw_calls R) Store_write tmp) (\<lambda>_.
     bind_op (receipt_call R Store_write (CallWrite tmp) (put_file tmp bytes)) (\<lambda>_.
     bind_op (receipt_call R Store_write (CallSync tmp) id) (\<lambda>_.
       receipt_call R Store_write (CallHardenFile tmp) id)))"
  let ?after = "bind_op (receipt_call R Store_post_replace_security (CallVerifySecurity (rs_path s)) id) (\<lambda>_.
       receipt_call R Store_write (CallSyncParent (receipt_directory s)) id)"
  have run: "bind_op ?stage (\<lambda>_. bind_op (receipt_call R Store_write (CallReplace tmp (rs_path s)) (move_file tmp (rs_path s)))
      (\<lambda>_. ?after)) d = (r, d')"
    using assms(1) unfolding replace_receipt_def by (simp add: bind_op_assoc)
  have sync: "keeps tmp (bind_op (receipt_call R Store_write (CallSync tmp) id) (\<lambda>_.
      receipt_call R Store_write (CallHardenFile tmp) id))"
    by (intro keeps_rules) simp_all
  have stage: "disk_files e' tmp = Some bytes" if staged: "?stage e = (Inr (), e')" for e e'
  proof -
    obtain e1 e2 where "receipt_call R Store_write (CallWrite tmp) (put_file tmp bytes) e1 = (Inr (), e2)"
        "bind_op (receipt_call R Store_write (CallSync tmp) id) (\<lambda>_.
           receipt_call R Store_write (CallHardenFile tmp) id) e2 = (Inr (), e')"
      using staged by (auto simp: bind_op_Inr)
    then show ?thesis using sync by (rule written_file)
  qed
  have kept: "keeps q ?stage" if "q \<noteq> tmp" for q
    using that by (intro keeps_rules) simp_all
  have after: "keeps q ?after" for q
    by (intro keeps_rules) simp_all
  show "disk_files d' (rs_path s) = disk_files d (rs_path s) \<or> disk_files d' (rs_path s) = Some bytes"
    and "r = Inr () \<Longrightarrow> disk_files d' (rs_path s) = Some bytes"
    and "q \<noteq> tmp \<Longrightarrow> q \<noteq> rs_path s \<Longrightarrow> disk_files d' q = disk_files d q"
    by (rule staged_files[OF run assms(2) kept stage after]; assumption)+
qed

lemma cleanup_files:
  assumes "with_cleanup R tmp m d = (r, d')"
  obtains d1 where "m d = (r, d1)" "\<And>q. q \<noteq> tmp \<Longrightarrow> disk_files d' q = disk_files d1 q" "r = Inr x \<Longrightarrow> d' = d1"
proof -
  obtain r1 d1 where m: "m d = (r1, d1)" by force
  show ?thesis
  proof (cases r1)
    case (Inl e)
    have "keeps q (receipt_call R Store_write (CallRemoveFile tmp) (erase_file tmp))" if "q \<noteq> tmp" for q
      using that by (intro keeps_receipt_call) simp
    then show ?thesis
      using assms m Inl by (intro that[of d1]) (auto simp: with_cleanup_def keeps_def)
  next
    case (Inr y)
    then show ?thesis using assms m by (intro that[of d1]) (auto simp: with_cleanup_def)
  qed
qed

lemma write_document_files:
  assumes "write_document R s doc i d = (r, d')" "journal_laws R" "named_receipt s" "sized_document doc"
  shows "receipt_entries R s d' = receipt_entries R s d \<or> receipt_entries R s d' = rd_entries doc"
    and "r = Inr () \<Longrightarrow> receipt_entries R s d' = rd_entries doc"
    and "bystander s q \<Longrightarrow> q \<noteq> rs_path s \<Longrightarrow> disk_files d' q = disk_files d q"
proof -
  let ?E = "receipt_env_of R"
  have "(receipt_entries R s d' = receipt_entries R s d \<or> receipt_entries R s d' = rd_entries doc) \<and>
      (r = Inr () \<longrightarrow> receipt_entries R s d' = rd_entries doc) \<and>
      (bystander s q \<longrightarrow> q \<noteq> rs_path s \<longrightarrow> disk_files d' q = disk_files d q)"
  proof (cases "to_json_with_intent ?E (under_way i) doc")
    case (Inl x)
    then show ?thesis
      using assms(1) by (auto simp: write_document_def bind_op_def lift_def documented_def map_err_def)
  next
    case (Inr bytes)
    then have bytes: "bytes = serialize_json ?E doc" and valid: "validate_structure ?E doc = Inr ()"
      by (auto simp: to_json_with_intent_def validate_with_intent_def result_simps)
    let ?tmp = "receipt_temporary R s (disk_clock d)" and ?d0 = "d\<lparr>disk_clock := Suc (disk_clock d)\<rparr>"
    have run: "with_cleanup R ?tmp (replace_receipt R s bytes ?tmp) ?d0 = (r, d')"
      using assms(1) Inr
      by (simp add: write_document_def bind_op_def lift_def documented_def map_err_def at_moment_def at_clock_def)
    obtain d1 where m: "replace_receipt R s bytes ?tmp ?d0 = (r, d1)"
      and kept: "\<And>q. q \<noteq> ?tmp \<Longrightarrow> disk_files d' q = disk_files d1 q"
      using cleanup_files[OF run] by metis
    have differs: "bystander s p \<Longrightarrow> p \<noteq> ?tmp" for p
      by (rule receipt_temporary_differs[OF assms(3) _ assms(2)])
    have path: "?tmp \<noteq> rs_path s" using differs[OF bystander_ledger[OF receipt_ledger_file]] by metis
    note files = replace_receipt_files[OF m path]
    have written: "receipt_entries R s d' = rd_entries doc" if "disk_files d' (rs_path s) = Some bytes"
      using that bytes document_read[OF valid assms(4)] structure_version[OF valid] assms(2,4)
      by (simp add: receipt_entries_def parsed_def journal_laws_def receipt_env_of_def ok_or_def)
    have same: "receipt_entries R s d' = receipt_entries R s d" if "disk_files d' (rs_path s) = disk_files d (rs_path s)"
      using that by (rule receipt_entries_cong)
    have here: "disk_files d' (rs_path s) = disk_files d1 (rs_path s)" using kept path by metis
    show ?thesis
    proof (intro conjI impI)
      show "receipt_entries R s d' = receipt_entries R s d \<or> receipt_entries R s d' = rd_entries doc"
        using files(1) here same written by auto
      show "r = Inr () \<Longrightarrow> receipt_entries R s d' = rd_entries doc"
        using files(2) here written by auto
      assume q: "bystander s q" "q \<noteq> rs_path s"
      show "disk_files d' q = disk_files d q"
        using files(3)[OF differs[OF q(1)] q(2)] kept[OF differs[OF q(1)]] by simp
    qed
  qed
  then show "receipt_entries R s d' = receipt_entries R s d \<or> receipt_entries R s d' = rd_entries doc"
    and "r = Inr () \<Longrightarrow> receipt_entries R s d' = rd_entries doc"
    and "bystander s q \<Longrightarrow> q \<noteq> rs_path s \<Longrightarrow> disk_files d' q = disk_files d q"
    by auto
qed

section \<open>Steps that lose no entry\<close>

text \<open>The receipt only grows at its end, and what is recorded stays recorded.\<close>

definition loses_nothing :: "receipt_world \<Rightarrow> receipt_store \<Rightarrow> disk \<Rightarrow> disk \<Rightarrow> bool" where
  "loses_nothing R s d d' \<longleftrightarrow>
     prefix (receipt_entries R s d) (receipt_entries R s d') \<and> (\<forall>e. recorded R s d e \<longrightarrow> recorded R s d' e)"

lemma loses_refl [simp]: "loses_nothing R s d d"
  by (simp add: loses_nothing_def)

lemma loses_trans: "loses_nothing R s d d1 \<Longrightarrow> loses_nothing R s d1 d2 \<Longrightarrow> loses_nothing R s d d2"
  by (auto simp: loses_nothing_def intro: prefix_order.trans)

lemma quiet_loses:
  assumes "quiet s m" "m d = (r, d')"
  shows "loses_nothing R s d d'"
proof -
  have "receipt_entries R s d' = receipt_entries R s d"
    using assms keepsD[of "rs_path s" m d r d'] by (intro receipt_entries_cong) (auto simp: quiet_def receipt_ledger_file)
  then show ?thesis using quiet_recorded[OF assms] by (simp add: loses_nothing_def)
qed

text \<open>Appending to the receipt that was read.\<close>

lemma append_loses_nothing:
  assumes "write_document R s (append_entry e existing) i d = (r, d')" "journal_laws R" "named_receipt s"
    "rd_entries existing = receipt_entries R s d" "sized_document existing" "sized_action (en_action e)"
  shows "loses_nothing R s d d'" and "r = Inr () \<Longrightarrow> e \<in> set (receipt_entries R s d')"
    and "bystander s q \<Longrightarrow> q \<noteq> rs_path s \<Longrightarrow> disk_files d' q = disk_files d q"
proof -
  have sized: "sized_document (append_entry e existing)"
    using assms(5,6) by (simp add: sized_document_def append_entry_def)
  have entries: "rd_entries (append_entry e existing) = receipt_entries R s d @ [e]"
    using assms(4) by (simp add: append_entry_def)
  note files = write_document_files[OF assms(1-3) sized, unfolded entries]
  have tx: "transaction_path s j \<noteq> rs_path s" for j
    using named_path[OF assms(3)] by (simp add: transaction_path_def transaction_prefix_def)
  have "in_transaction R s d' x = in_transaction R s d x" for x
    using files(3)[OF bystander_ledger[OF transaction_ledger_file] tx] by (intro in_transaction_cong)
  then show "loses_nothing R s d d'"
    using files(1) by (auto simp: loses_nothing_def recorded_def)
  show "r = Inr () \<Longrightarrow> e \<in> set (receipt_entries R s d')" using files(2) by simp
  show "bystander s q \<Longrightarrow> q \<noteq> rs_path s \<Longrightarrow> disk_files d' q = disk_files d q" by (rule files(3))
qed

end
