(* ===== verification/JournalSteps.thy ===== *)
theory JournalSteps
  imports ReceiptLedger
begin

text \<open>
  The steps of the journal as careful computations: a step is careful when it loses no entry of the ledger and
  changes a watched file only if a recorded entry accounts for it. Rules for sequences, then the reads, the append,
  and the life of a transaction file.
\<close>

section \<open>Careful computations\<close>

text \<open>
  \<open>touches\<close> says which files an action, as the receipt names it, may change; \<open>watched\<close> are files outside the
  directory of the receipt. A changed file is accounted for by a recorded entry of an applied action.
\<close>

definition accounted :: "receipt_world \<Rightarrow> receipt_store \<Rightarrow> (receipt_action \<Rightarrow> path \<Rightarrow> bool) \<Rightarrow> disk \<Rightarrow> path \<Rightarrow> bool" where
  "accounted R s touches d p \<longleftrightarrow>
     (\<exists>e. recorded R s d e \<and> en_status e = Applied \<and> touches (en_action e) p)"

definition careful_step ::
  "receipt_world \<Rightarrow> receipt_store \<Rightarrow> (receipt_action \<Rightarrow> path \<Rightarrow> bool) \<Rightarrow> (path \<Rightarrow> bool) \<Rightarrow> disk \<Rightarrow> disk \<Rightarrow> bool" where
  "careful_step R s touches watched d d' \<longleftrightarrow>
     loses_nothing R s d d' \<and>
     (\<forall>p. watched p \<longrightarrow> disk_files d' p \<noteq> disk_files d p \<longrightarrow> accounted R s touches d' p)"

definition careful ::
  "receipt_world \<Rightarrow> receipt_store \<Rightarrow> (receipt_action \<Rightarrow> path \<Rightarrow> bool) \<Rightarrow> (path \<Rightarrow> bool) \<Rightarrow> (disk \<Rightarrow> bool) \<Rightarrow>
     ('e, 'a) disk_op \<Rightarrow> ('a \<Rightarrow> disk \<Rightarrow> bool) \<Rightarrow> bool" where
  "careful R s touches watched P m Q \<longleftrightarrow>
     (\<forall>d r d'. P d \<longrightarrow> m d = (r, d') \<longrightarrow>
        careful_step R s touches watched d d' \<and> (\<forall>x. r = Inr x \<longrightarrow> Q x d'))"

lemma carefulI:
  assumes "\<And>d r d'. P d \<Longrightarrow> m d = (r, d') \<Longrightarrow> careful_step R s T W d d'"
    and "\<And>d x d'. P d \<Longrightarrow> m d = (Inr x, d') \<Longrightarrow> Q x d'"
  shows "careful R s T W P m Q"
  using assms unfolding careful_def by blast

lemma carefulD:
  assumes "careful R s T W P m Q" "P d" "m d = (r, d')"
  shows "careful_step R s T W d d'" "r = Inr x \<Longrightarrow> Q x d'"
  using assms unfolding careful_def by blast+

lemma careful_step_refl: "careful_step R s T W d d"
  by (simp add: careful_step_def)

lemma careful_step_trans:
  assumes "careful_step R s T W d d1" "careful_step R s T W d1 d2"
  shows "careful_step R s T W d d2"
  using assms loses_trans[of R s d d1 d2] unfolding careful_step_def accounted_def loses_nothing_def by metis

lemma careful_bind:
  assumes "careful R s T W P m Q" "\<And>x. careful R s T W (Q x) (f x) S"
  shows "careful R s T W P (bind_op m f) S"
proof (rule carefulI)
  fix d r d' assume P: "P d" and run: "bind_op m f d = (r, d')"
  obtain r1 d1 where m: "m d = (r1, d1)" by force
  note one = carefulD[OF assms(1) P m]
  show "careful_step R s T W d d'"
  proof (cases r1)
    case (Inl e)
    then show ?thesis using run m one(1) by (simp add: bind_op_def)
  next
    case (Inr x)
    then have "f x d1 = (r, d')" using run m by (simp add: bind_op_def)
    then show ?thesis using careful_step_trans[OF one(1)] carefulD(1)[OF assms(2) one(2)[OF Inr]] by blast
  qed
next
  fix d y d' assume P: "P d" and run: "bind_op m f d = (Inr y, d')"
  from run obtain x d1 where m: "m d = (Inr x, d1)" and f: "f x d1 = (Inr y, d')" by (rule bind_op_InrE)
  show "S y d'" using carefulD(2)[OF assms(2) carefulD(2)[OF assms(1) P m refl] f refl] .
qed

lemma careful_ok: "(\<And>d. P d \<Longrightarrow> Q x d) \<Longrightarrow> careful R s T W P (ok_op x) Q"
  by (auto simp: careful_def ok_op_def careful_step_refl)

lemma careful_stop: "careful R s T W P (stop e) Q"
  by (auto simp: careful_def stop_def careful_step_refl)

lemma careful_lift: "(\<And>x d. r = Inr x \<Longrightarrow> P d \<Longrightarrow> Q x d) \<Longrightarrow> careful R s T W P (lift r) Q"
  by (auto simp: careful_def lift_def careful_step_refl)

lemma careful_wrap: "careful R s T W P m Q \<Longrightarrow> careful R s T W P (recover_op m (\<lambda>e. stop (g e))) Q"
  unfolding careful_def recover_op_def stop_def by (auto split: prod.splits sum.splits)

lemma careful_if:
  "(c \<Longrightarrow> careful R s T W P a Q) \<Longrightarrow> (\<not> c \<Longrightarrow> careful R s T W P b Q) \<Longrightarrow> careful R s T W P (if c then a else b) Q"
  by simp

lemma careful_option:
  "(v = None \<Longrightarrow> careful R s T W P a Q) \<Longrightarrow> (\<And>x. v = Some x \<Longrightarrow> careful R s T W P (f x) Q) \<Longrightarrow>
     careful R s T W P (case v of None \<Rightarrow> a | Some x \<Rightarrow> f x) Q"
  by (cases v) simp_all

lemma careful_weaken:
  "careful R s T W P' m Q' \<Longrightarrow> (\<And>d. P d \<Longrightarrow> P' d) \<Longrightarrow> (\<And>x d. Q' x d \<Longrightarrow> Q x d) \<Longrightarrow> careful R s T W P m Q"
  unfolding careful_def by blast

text \<open>What only needs entries of the receipt to be there is kept by every careful computation.\<close>

definition lasting :: "receipt_world \<Rightarrow> receipt_store \<Rightarrow> (disk \<Rightarrow> bool) \<Rightarrow> bool" where
  "lasting R s F \<longleftrightarrow> (\<forall>d d'. set (receipt_entries R s d) \<subseteq> set (receipt_entries R s d') \<longrightarrow> F d \<longrightarrow> F d')"

lemma careful_frame:
  assumes "careful R s T W P m Q" "lasting R s F"
  shows "careful R s T W (\<lambda>d. P d \<and> F d) m (\<lambda>x d. Q x d \<and> F d)"
proof (rule carefulI)
  fix d r d' assume "P d \<and> F d" "m d = (r, d')"
  then show "careful_step R s T W d d'" using carefulD(1)[OF assms(1)] by blast
next
  fix d x d' assume pre: "P d \<and> F d" and run: "m d = (Inr x, d')"
  then have "set (receipt_entries R s d) \<subseteq> set (receipt_entries R s d')"
    using carefulD(1)[OF assms(1) _ run] by (auto simp: careful_step_def loses_nothing_def dest: set_mono_prefix)
  then show "Q x d' \<and> F d'"
    using carefulD(2)[OF assms(1) _ run refl] pre assms(2) by (auto simp: lasting_def)
qed

text \<open>A computation that leaves the bystanders alone.\<close>

definition untouched :: "receipt_store \<Rightarrow> (path \<Rightarrow> bool) \<Rightarrow> disk \<Rightarrow> disk \<Rightarrow> bool" where
  "untouched s watched d d' \<longleftrightarrow> (\<forall>p. ledger_file s p \<or> watched p \<longrightarrow> disk_files d' p = disk_files d p)"

definition calm :: "receipt_store \<Rightarrow> (path \<Rightarrow> bool) \<Rightarrow> ('e, 'a) disk_op \<Rightarrow> bool" where
  "calm s watched m \<longleftrightarrow> (\<forall>p. ledger_file s p \<or> watched p \<longrightarrow> keeps p m)"

lemma calmI: "(\<And>p. bystander s p \<Longrightarrow> keeps p m) \<Longrightarrow> (\<And>p. W p \<Longrightarrow> outside s p) \<Longrightarrow> calm s W m"
  by (auto simp: calm_def bystander_def)

lemma calm_untouched: "calm s W m \<Longrightarrow> m d = (r, d') \<Longrightarrow> untouched s W d d'"
  using keepsD[of _ m d r d'] by (auto simp: calm_def untouched_def)

lemma untouched_ledger:
  assumes "untouched s W d d'"
  shows "receipt_entries R s d' = receipt_entries R s d" "in_transaction R s d' e = in_transaction R s d e"
    "recorded R s d' e = recorded R s d e"
proof -
  show entries: "receipt_entries R s d' = receipt_entries R s d"
    using assms by (intro receipt_entries_cong) (simp add: untouched_def receipt_ledger_file)
  show tx: "in_transaction R s d' e = in_transaction R s d e"
    using assms by (intro in_transaction_cong) (simp add: untouched_def transaction_ledger_file)
  show "recorded R s d' e = recorded R s d e" by (simp add: recorded_def entries tx)
qed

lemma untouched_careful: "untouched s W d d' \<Longrightarrow> careful_step R s T W d d'"
  using untouched_ledger[of s W d d' R] by (simp add: careful_step_def loses_nothing_def untouched_def)

lemma careful_calm:
  assumes "calm s W m" "\<And>d x d'. P d \<Longrightarrow> m d = (Inr x, d') \<Longrightarrow> untouched s W d d' \<Longrightarrow> Q x d'"
  shows "careful R s T W P m Q"
  using assms calm_untouched[OF assms(1)] by (intro carefulI) (auto intro: untouched_careful)

section \<open>The receipt grows\<close>

lemma transaction_not_receipt: "named_receipt s \<Longrightarrow> transaction_path s i \<noteq> rs_path s"
  using named_path[of s] by (simp add: transaction_path_def transaction_prefix_def)

text \<open>What is known while the receipt is read and written: the transactions that exist, and the document read.\<close>

definition in_transactions :: "receipt_world \<Rightarrow> receipt_store \<Rightarrow> receipt_entry set \<Rightarrow> disk \<Rightarrow> bool" where
  "in_transactions R s X d \<longleftrightarrow> (\<forall>x\<in>X. in_transaction R s d x)"

definition document_read_is ::
  "receipt_world \<Rightarrow> receipt_store \<Rightarrow> receipt_entry set \<Rightarrow> receipt_document \<Rightarrow> disk \<Rightarrow> bool" where
  "document_read_is R s X doc d \<longleftrightarrow>
     sized_document doc \<and> rd_entries doc = receipt_entries R s d \<and> in_transactions R s X d"

definition entry_appended ::
  "receipt_world \<Rightarrow> receipt_store \<Rightarrow> receipt_entry set \<Rightarrow> receipt_entry \<Rightarrow> disk \<Rightarrow> bool" where
  "entry_appended R s X e d \<longleftrightarrow> e \<in> set (receipt_entries R s d) \<and> in_transactions R s X d"

lemma untouched_known:
  assumes "untouched s W d d'"
  shows "in_transactions R s X d' = in_transactions R s X d" "document_read_is R s X doc d' = document_read_is R s X doc d"
    "entry_appended R s X e d' = entry_appended R s X e d"
  using untouched_ledger[OF assms]
  by (simp_all add: in_transactions_def document_read_is_def entry_appended_def)

lemma careful_lift_then:
  assumes "\<And>x. r = Inr x \<Longrightarrow> careful R s T W P (f x) Q"
  shows "careful R s T W P (bind_op (lift r) f) Q"
  using assms by (cases r) (auto simp: careful_def bind_op_def lift_def careful_step_refl)

lemma careful_calm_then:
  assumes "calm s W m" "\<And>d d'. untouched s W d d' \<Longrightarrow> P d' = P d" "\<And>x. careful R s T W P (f x) Q"
  shows "careful R s T W P (bind_op m f) Q"
  by (rule careful_bind[where Q = "\<lambda>_. P", OF careful_calm[OF assms(1)] assms(3)]) (simp add: assms(2))

lemma careful_read_locked:
  assumes "journal_laws R" "named_receipt s" "\<And>p. W p \<Longrightarrow> outside s p"
  shows "careful R s T W (in_transactions R s X) (read_locked R s) (document_read_is R s X)"
proof (rule careful_calm)
  show "calm s W (read_locked R s)" by (intro calmI keeps_read_locked assms)
next
  fix d doc d' assume "in_transactions R s X d" "read_locked R s d = (Inr doc, d')" "untouched s W d d'"
  then show "document_read_is R s X doc d'"
    using read_entries[OF _ assms(1,2)] by (simp add: untouched_known document_read_is_def untouched_ledger)
qed

lemma calm_publication_intent:
  "named_receipt s \<Longrightarrow> (\<And>p. W p \<Longrightarrow> outside s p) \<Longrightarrow> calm s W (read_publication_intent R s doc)"
  by (intro calmI keeps_read_publication_intent)

lemma careful_append:
  assumes "journal_laws R" "named_receipt s" "\<And>p. W p \<Longrightarrow> outside s p" "sized_action (en_action e)"
  shows "careful R s T W (document_read_is R s X doc) (write_document R s (append_entry e doc) i)
    (\<lambda>_. entry_appended R s X e)"
proof (rule carefulI)
  fix d r d' assume pre: "document_read_is R s X doc d" and run: "write_document R s (append_entry e doc) i d = (r, d')"
  note app = append_loses_nothing[OF run assms(1,2) _ _ assms(4)]
  have "disk_files d' p = disk_files d p" if "W p" for p
    using app(3)[of p] pre bystander_outside[OF assms(3)[OF that]] assms(3)[OF that] named_path[OF assms(2)]
    by (auto simp: outside_def document_read_is_def)
  then show "careful_step R s T W d d'" using app(1) pre by (simp add: careful_step_def document_read_is_def)
next
  fix d x d' assume pre: "document_read_is R s X doc d" and run: "write_document R s (append_entry e doc) i d = (Inr x, d')"
  note app = append_loses_nothing[OF run assms(1,2) _ _ assms(4)]
  have "disk_files d' (transaction_path s j) = disk_files d (transaction_path s j)" for j
    using app(3)[OF _ _ bystander_ledger[OF transaction_ledger_file] transaction_not_receipt[OF assms(2)]] pre
    by (simp add: document_read_is_def)
  then have "in_transaction R s d' y = in_transaction R s d y" for y by (intro in_transaction_cong)
  then show "entry_appended R s X e d'"
    using app(2) pre by (simp add: document_read_is_def entry_appended_def in_transactions_def)
qed

lemma careful_append_succeeded:
  assumes "journal_laws R" "named_receipt s" "\<And>p. W p \<Longrightarrow> outside s p" "sized_action (en_action (ji_entry i))"
  shows "careful R s T W (in_transactions R s X) (append_succeeded_intent R s i) (\<lambda>_. entry_appended R s X (ji_entry i))"
proof (cases "ji_phase i = Succeeded")
  case True
  have "careful R s T W (document_read_is R s X doc)
      (case find_first (\<lambda>e. en_id e = en_id (ji_entry i)) (rd_entries doc) of
         Some e \<Rightarrow> if e \<noteq> ji_entry i then stop Store_intent_conflict else ok_op ()
       | None \<Rightarrow>
           bind_op (read_publication_intent R s doc) (\<lambda>publication.
             let candidate = append_entry (ji_entry i) doc
             in bind_op (lift (validate_append_candidate (receipt_env_of R) doc candidate publication)) (\<lambda>_.
                  write_document R s candidate publication)))
      (\<lambda>_. entry_appended R s X (ji_entry i))" for doc
  proof (cases "find_first (\<lambda>e. en_id e = en_id (ji_entry i)) (rd_entries doc)")
    case None
    show ?thesis
      unfolding None option.case Let_def
      by (intro careful_calm_then careful_lift_then careful_append assms calm_publication_intent untouched_known)
  next
    case (Some e)
    then show ?thesis
      using find_first_SomeD[OF Some]
      by (auto simp: entry_appended_def document_read_is_def intro!: careful_if careful_stop careful_ok)
  qed
  then show ?thesis
    using True unfolding append_succeeded_intent_def by (auto intro!: careful_bind[OF careful_read_locked[OF assms(1-3)]])
qed (simp add: append_succeeded_intent_def careful_stop)

lemma careful_record_pending:
  assumes "journal_laws R" "named_receipt s" "\<And>p. W p \<Longrightarrow> outside s p"
    and sized: "\<And>a. from_action_parameters parameters = Inr a \<Longrightarrow> sized_action a"
  shows "careful R s T W (in_transactions R s {}) (record_pending R s parameters)
    (\<lambda>_ d. \<exists>e\<in>set (receipt_entries R s d). from_action_parameters parameters = Inr (en_action e))"
proof -
  let ?E = "receipt_env_of R"
  have new: "careful R s T W (document_read_is R s {} doc)
      (bind_op (next_metadata R) (\<lambda>m.
       bind_op (lift (documented (pending_entry ?E parameters m))) (\<lambda>e.
       bind_op (lift (validate_pending_append_candidate ?E doc (append_entry e doc) i)) (\<lambda>_.
       bind_op (write_document R s (append_entry e doc) i) (\<lambda>_.
         ok_op \<lparr>lk_action_id = parameters_action_id parameters, lk_entry_id = md_entry_id m\<rparr>)))))
      (\<lambda>_ d. \<exists>e\<in>set (receipt_entries R s d). from_action_parameters parameters = Inr (en_action e))" for doc i
  proof (rule careful_calm_then, goal_cases)
    case 1
    show ?case by (simp add: calm_def keeps_next_metadata)
  next
    case 2
    then show ?case by (rule untouched_known)
  next
    case (3 m)
    have made: "from_action_parameters parameters = Inr (en_action e)"
      if "documented (pending_entry ?E parameters m) = Inr e" for e
      using that by (auto simp: pending_entry_def checked_entry_def result_simps documented_def)
    show ?case
      by (intro careful_lift_then careful_bind[OF careful_append[OF assms(1-3)]] careful_ok)
        (auto simp: entry_appended_def dest: made sized)
  qed
  have pub: "calm s W (read_publication_intent R s doc)" for doc
    by (rule calm_publication_intent[OF assms(2,3)])
  have layout: "calm s W (validate_directory_action R s a)" for a
    by (simp add: calm_def keeps_directory_action)
  have kept: "careful R s T W (document_read_is R s {} doc)
      (case find_first (\<lambda>e. en_id e = lk_entry_id l) (rd_entries doc) of
         None \<Rightarrow> stop Store_intent_conflict
       | Some e \<Rightarrow> if en_action e \<noteq> action then stop Store_intent_conflict else ok_op l)
      (\<lambda>_ d. \<exists>e\<in>set (receipt_entries R s d). from_action_parameters parameters = Inr (en_action e))"
    if "documented (and_then (from_action_parameters parameters) (\<lambda>action.
        and_then (validate_receipt_action ?E action) (\<lambda>_.
        and_then (validate_action_scope (rs_scope s) action) (\<lambda>_.
        and_then (validate_action_principal ?E (rs_worker s) action) (\<lambda>_. Inr action))))) = Inr action" for doc l action
  proof -
    have "from_action_parameters parameters = Inr action" using that by (auto simp: documented_def result_simps)
    then show ?thesis
      by (intro careful_option careful_stop careful_if careful_ok)
        (auto simp: document_read_is_def dest!: find_first_SomeD)
  qed
  show ?thesis
    unfolding record_pending_def Let_def
    by (intro careful_bind[OF careful_read_locked[OF assms(1-3)]] careful_calm_then[OF pub] careful_lift_then
        careful_calm_then[OF layout] careful_option[where v = "current_pending_occurrence _ _ _"] new untouched_known)
      (rule kept | assumption)+
qed

section \<open>The steps of a transaction\<close>

text \<open>The transaction of an entry, as it is known in memory: the file is there and holds the entry.\<close>

definition intent_there :: "receipt_world \<Rightarrow> receipt_store \<Rightarrow> journal_intent \<Rightarrow> disk \<Rightarrow> bool" where
  "intent_there R s i d \<longleftrightarrow>
     ji_path i = transaction_path s (en_id (ji_entry i)) \<and> sized_action (en_action (ji_entry i)) \<and>
     in_transaction R s d (ji_entry i)"

lemma untouched_intent: "untouched s W d d' \<Longrightarrow> intent_there R s i d' = intent_there R s i d"
  by (simp add: intent_there_def untouched_ledger)

lemma one_transaction:
  "in_transaction R s d e \<Longrightarrow> in_transaction R s d x \<Longrightarrow> transaction_path s (en_id e) = transaction_path s (en_id x) \<Longrightarrow> e = x"
  unfolding in_transaction_def by (metis option.inject)

text \<open>A step that changes one transaction file only, and leaves in it an entry that was there.\<close>

lemma transaction_step:
  assumes "named_receipt s" and W: "\<And>p. W p \<Longrightarrow> outside s p"
    and others: "\<And>q. bystander s q \<Longrightarrow> q \<noteq> transaction_path s j \<Longrightarrow> disk_files d' q = disk_files d q"
    and same: "\<And>e. transaction_path s (en_id e) = transaction_path s j \<Longrightarrow> in_transaction R s d e \<Longrightarrow>
      recorded R s d' e"
  shows "careful_step R s T W d d'"
proof -
  have entries: "receipt_entries R s d' = receipt_entries R s d"
    by (intro receipt_entries_cong others bystander_ledger[OF receipt_ledger_file] transaction_not_receipt[symmetric] assms(1))
  have "recorded R s d' e" if "recorded R s d e" for e
  proof (cases "transaction_path s (en_id e) = transaction_path s j")
    case True
    then show ?thesis using that same entries by (auto simp: recorded_def)
  next
    case False
    then have "in_transaction R s d' e = in_transaction R s d e"
      by (intro in_transaction_cong others bystander_ledger[OF transaction_ledger_file])
    then show ?thesis using that entries by (simp add: recorded_def)
  qed
  moreover have "disk_files d' p = disk_files d p" if "W p" for p
    using others[OF bystander_outside[OF W[OF that]]] W[OF that] by (auto simp: outside_def transaction_path_def)
  ultimately show ?thesis using entries by (simp add: careful_step_def loses_nothing_def)
qed

lemma written_intent:
  assumes "journal_laws R" "disk_files d p = Some bytes" "intent_to_json (receipt_env_of R) x = Inr bytes"
    "sized_action (en_action (in_entry x))"
  shows "transaction_intent R d p = Some x"
proof -
  let ?E = "receipt_env_of R"
  have version: "in_version x = receipt_schema_version"
    using assms(3) by (auto simp: intent_to_json_def validate_intent_def result_simps split: if_splits)
  have "intent_from_json ?E bytes = Inr x"
    using assms(1,3,4) version
    by (intro intent_written_reads) (simp_all add: journal_laws_def receipt_env_of_def)
  then show ?thesis
    using assms(2) by (auto simp: intent_from_json_def result_simps transaction_intent_def split: sum.splits)
qed

lemma moment_then:
  "bind_op (at_moment (\<lambda>t. Inr (g t))) f d = f (g (disk_clock d)) (d\<lparr>disk_clock := Suc (disk_clock d)\<rparr>)"
  by (simp add: at_moment_def at_clock_def bind_op_def)

lemma replace_intent_files:
  assumes "replace_intent R p bytes d = (r, d')" "intent_temporary R (butlast p) (disk_clock d) \<noteq> p"
  shows "disk_files d' p = disk_files d p \<or> disk_files d' p = Some bytes"
    and "r = Inr () \<Longrightarrow> disk_files d' p = Some bytes"
    and "q \<noteq> intent_temporary R (butlast p) (disk_clock d) \<Longrightarrow> q \<noteq> p \<Longrightarrow> disk_files d' q = disk_files d q"
proof -
  let ?tmp = "intent_temporary R (butlast p) (disk_clock d)" and ?d0 = "d\<lparr>disk_clock := Suc (disk_clock d)\<rparr>"
  let ?stage = "bind_op (create_new (rw_calls R) Store_write ?tmp) (\<lambda>_.
     bind_op (receipt_call R Store_security (CallHandleIdentity ?tmp) id) (\<lambda>_.
     bind_op (receipt_call R Store_write (CallWrite ?tmp) (put_file ?tmp bytes)) (\<lambda>_.
       receipt_call R Store_write (CallSync ?tmp) id)))"
  let ?move = "receipt_call R Store_write (CallReplace ?tmp p) (move_file ?tmp p)"
  let ?after = "bind_op (open_verified R p Store_post_replace_security) (\<lambda>_.
       receipt_call R Store_write (CallSyncParent (butlast p)) id)"
  have whole: "with_cleanup R ?tmp (bind_op ?stage (\<lambda>_. bind_op ?move (\<lambda>_. ?after))) ?d0 = (r, d')"
    using assms(1) by (simp only: replace_intent_def moment_then bind_op_assoc)
  obtain d1 where m: "bind_op ?stage (\<lambda>_. bind_op ?move (\<lambda>_. ?after)) ?d0 = (r, d1)"
    and kept: "\<And>q. q \<noteq> ?tmp \<Longrightarrow> disk_files d' q = disk_files d1 q"
    using cleanup_files[OF whole] by metis
  have stage: "disk_files e' ?tmp = Some bytes" if staged: "?stage e = (Inr (), e')" for e e'
  proof -
    obtain e1 e2 where "receipt_call R Store_write (CallWrite ?tmp) (put_file ?tmp bytes) e1 = (Inr (), e2)"
        "receipt_call R Store_write (CallSync ?tmp) id e2 = (Inr (), e')"
      using staged by (auto simp: bind_op_Inr)
    then show ?thesis by (rule written_file) (intro keeps_rules; simp)
  qed
  have quiet: "keeps q ?stage" if "q \<noteq> ?tmp" for q
    using that by (intro keeps_rules) simp_all
  have after: "keeps q ?after" for q
    by (intro keeps_rules) simp_all
  have here: "disk_files d' p = disk_files d1 p" using kept assms(2) by metis
  note files = staged_files[OF m assms(2) quiet stage after]
  show "disk_files d' p = disk_files d p \<or> disk_files d' p = Some bytes"
    using files(1) here by simp
  show "r = Inr () \<Longrightarrow> disk_files d' p = Some bytes" using files(2) here by simp
  show "q \<noteq> ?tmp \<Longrightarrow> q \<noteq> p \<Longrightarrow> disk_files d' q = disk_files d q" using files(3) kept by simp
qed

lemma replace_intent_ledger:
  assumes run: "replace_intent R p bytes d = (r, d')" and there: "intent_there R s i d" and p: "p = ji_path i"
    and laws: "journal_laws R" "named_receipt s" "\<And>p. W p \<Longrightarrow> outside s p"
    and bytes: "intent_to_json (receipt_env_of R) x = Inr bytes" "in_entry x = ji_entry i"
  shows "careful_step R s T W d d'" and "in_transaction R s d' (ji_entry i)"
proof -
  let ?e = "ji_entry i"
  have path: "p = transaction_path s (en_id ?e)" "butlast p = receipt_directory s"
    using there p by (simp_all add: intent_there_def transaction_path_def)
  have tmp: "bystander s q \<Longrightarrow> q \<noteq> intent_temporary R (butlast p) (disk_clock d)" for q
    using other_files(4)[OF laws(2)] path(2) by simp
  have p_tmp: "intent_temporary R (butlast p) (disk_clock d) \<noteq> p"
    using tmp[OF bystander_ledger[OF transaction_ledger_file]] path(1) by metis
  note files = replace_intent_files[OF run p_tmp]
  have sized: "sized_action (en_action (in_entry x))" using there bytes(2) by (simp add: intent_there_def)
  show still: "in_transaction R s d' ?e"
    using files(1)
  proof
    assume "disk_files d' p = disk_files d p"
    then show ?thesis using there path(1) by (simp add: intent_there_def in_transaction_def transaction_intent_def)
  next
    assume "disk_files d' p = Some bytes"
    from written_intent[OF laws(1) this bytes(1) sized] show ?thesis
      using path(1) bytes(2) by (simp add: in_transaction_def)
  qed
  show "careful_step R s T W d d'"
  proof (rule transaction_step[OF laws(2,3)])
    fix q assume "bystander s q" "q \<noteq> transaction_path s (en_id ?e)"
    then show "disk_files d' q = disk_files d q" using files(3)[OF tmp] path(1) by simp
  next
    fix e assume "transaction_path s (en_id e) = transaction_path s (en_id ?e)" "in_transaction R s d e"
    then have "e = ?e" using there by (simp add: intent_there_def one_transaction)
    then show "recorded R s d' e" using still by (simp add: recorded_def)
  qed
qed

lemma careful_mark:
  assumes "journal_laws R" "named_receipt s" "\<And>p. W p \<Longrightarrow> outside s p"
  shows "careful R s T W (intent_there R s i) (mark_intent_succeeded R s i)
    (\<lambda>j d. j = i\<lparr>ji_phase := Succeeded\<rparr> \<and> intent_there R s j d)"
proof (cases "ji_phase i = Prepared")
  case True
  let ?x = "\<lparr>in_version = receipt_schema_version, in_intent_scope = rs_scope s, in_phase = Succeeded, in_entry = ji_entry i\<rparr>"
  have replace: "careful R s T W (intent_there R s i) (replace_intent R (ji_path i) bytes)
      (\<lambda>_. intent_there R s (i\<lparr>ji_phase := Succeeded\<rparr>))"
    if bytes: "intent_to_json (receipt_env_of R) ?x = Inr bytes" for bytes
  proof (rule carefulI)
    fix d r d' assume pre: "intent_there R s i d" and run: "replace_intent R (ji_path i) bytes d = (r, d')"
    show "careful_step R s T W d d'" by (rule replace_intent_ledger[OF run pre refl assms bytes]) simp_all
  next
    fix d x d' assume pre: "intent_there R s i d" and run: "replace_intent R (ji_path i) bytes d = (Inr x, d')"
    have "in_transaction R s d' (ji_entry i)" by (rule replace_intent_ledger[OF run pre refl assms bytes]) simp_all
    then show "intent_there R s (i\<lparr>ji_phase := Succeeded\<rparr>) d'" using pre by (simp add: intent_there_def)
  qed
  show ?thesis
    unfolding mark_intent_succeeded_def using True
    by (auto simp: documented_def result_simps intro!: careful_lift_then careful_bind[OF replace] careful_ok)
qed (simp add: mark_intent_succeeded_def careful_stop)

text \<open>What is removed is in the receipt.\<close>

lemma careful_retire:
  assumes "named_receipt s" "\<And>p. W p \<Longrightarrow> outside s p"
  shows "careful R s T W (\<lambda>d. intent_there R s i d \<and> ji_entry i \<in> set (receipt_entries R s d))
    (retire_finalized_intent R s i) (\<lambda>_ d. ji_entry i \<in> set (receipt_entries R s d))"
proof (rule carefulI)
  fix d and r :: "receipt_store_error + unit" and d'
  assume pre: "intent_there R s i d \<and> ji_entry i \<in> set (receipt_entries R s d)"
    and run: "retire_finalized_intent R s i d = (r, d')"
  have path: "ji_path i = transaction_path s (en_id (ji_entry i))" using pre by (simp add: intent_there_def)
  have "keeps q (retire_finalized_intent R s i)" if "q \<noteq> ji_path i" for q
    using that unfolding retire_finalized_intent_def remove_transaction_def by (intro keeps_rules) simp_all
  note kept = this
  have others: "disk_files d' q = disk_files d q" if "q \<noteq> ji_path i" for q
    by (rule keepsD[where m = "retire_finalized_intent R s i"]) (simp_all add: run that kept)
  have entries: "receipt_entries R s d' = receipt_entries R s d"
    by (intro receipt_entries_cong others) (metis path transaction_not_receipt[OF assms(1)])
  show "careful_step R s T W d d'"
  proof (rule transaction_step[OF assms])
    fix q assume "q \<noteq> transaction_path s (en_id (ji_entry i))"
    then show "disk_files d' q = disk_files d q" using others path by simp
  next
    fix e assume "transaction_path s (en_id e) = transaction_path s (en_id (ji_entry i))" "in_transaction R s d e"
    then have "e = ji_entry i" using pre by (simp add: intent_there_def one_transaction)
    then show "recorded R s d' e" using pre entries by (simp add: recorded_def)
  qed
next
  fix d x d'
  assume pre: "intent_there R s i d \<and> ji_entry i \<in> set (receipt_entries R s d)"
    and run: "retire_finalized_intent R s i d = (Inr x, d')"
  have "rs_path s \<noteq> ji_path i"
    using pre transaction_not_receipt[OF assms(1)] by (simp add: intent_there_def eq_commute)
  then have "keeps (rs_path s) (retire_finalized_intent R s i)"
    unfolding retire_finalized_intent_def remove_transaction_def by (intro keeps_rules) simp_all
  then show "ji_entry i \<in> set (receipt_entries R s d')"
    using pre keepsD[where m = "retire_finalized_intent R s i", OF _ run] receipt_entries_cong by metis
qed

text \<open>A new transaction takes a name that no file has, so what fails while it is written loses nothing.\<close>

lemma new_transaction:
  assumes "journal_laws R" "named_receipt s" "\<And>p. W p \<Longrightarrow> outside s p"
    and bytes: "intent_to_json (receipt_env_of R) x = Inr bytes" and e: "in_entry x = e" "sized_action (en_action e)"
    and p: "p = transaction_path s (en_id e)"
  shows "careful R s T W (\<lambda>_. True)
    (bind_op (create_new (rw_calls R) Store_write p) (\<lambda>_.
     bind_op (receipt_call R Store_security (CallHandleIdentity p) id) (\<lambda>_ d.
       case write_transaction R p bytes d of
         (Inr _, d) \<Rightarrow> (Inr \<lparr>ji_entry = e, ji_path = p, ji_phase = Prepared\<rparr>, d)
       | (Inl x, d) \<Rightarrow> (Inl x, snd (remove_transaction R p d)))))
    (\<lambda>i d. ji_entry i = e \<and> intent_there R s i d)" (is "careful R s T W _ ?m _")
proof -
  let ?body = "\<lambda>d. case write_transaction R p bytes d of
       (Inr _, d) \<Rightarrow> (Inr \<lparr>ji_entry = e, ji_path = p, ji_phase = Prepared\<rparr>, d)
     | (Inl x, d) \<Rightarrow> (Inl x, snd (remove_transaction R p d))"
  have keep: "keeps q ?m" if "q \<noteq> p" for q
    unfolding write_transaction_def remove_transaction_def using that
    by (intro keeps_bind keeps_create_new keeps_receipt_call keeps_after_failure keeps_open_verified) simp_all
  have new: "disk_files d p = None \<or> d' = d\<lparr>disk_clock := Suc (disk_clock d)\<rparr>" if "?m d = (r, d')" for d r d'
    using that by (auto simp: bind_op_def create_new_def exists_on_def split: if_splits)
  have wrote: "disk_files d' p = Some bytes" if "write_transaction R p bytes d = (Inr (), d')" for d d'
  proof -
    from that obtain d1 where "receipt_call R Store_write (CallWrite p) (put_file p bytes) d = (Inr (), d1)"
        "bind_op (receipt_call R Store_write (CallSync p) id) (\<lambda>_. bind_op (open_verified R p Store_security) (\<lambda>_.
           receipt_call R Store_write (CallSyncParent (butlast p)) id)) d1 = (Inr (), d')"
      unfolding write_transaction_def by (rule bind_op_InrE) auto
    then show ?thesis by (rule written_file) (intro keeps_rules; simp)
  qed
  show ?thesis
  proof (rule carefulI)
    fix d r d' assume run: "?m d = (r, d')"
    have others: "disk_files d' q = disk_files d q" if "q \<noteq> p" for q
      using keepsD[OF keep[OF that] run] .
    have "in_transaction R s d' y" if "in_transaction R s d y" "transaction_path s (en_id y) = p" for y
      using that new[OF run] by (auto simp: in_transaction_def transaction_intent_def)
    then show "careful_step R s T W d d'"
      by (intro transaction_step[OF assms(2,3), where j = "en_id e"] others) (auto simp: p recorded_def)
  next
    fix d i d' assume "?m d = (Inr i, d')"
    then obtain d1 where body: "?body d1 = (Inr i, d')" by (elim bind_op_InrE)
    obtain r2 d2 where w: "write_transaction R p bytes d1 = (r2, d2)" by force
    have "write_transaction R p bytes d1 = (Inr (), d')" "i = \<lparr>ji_entry = e, ji_path = p, ji_phase = Prepared\<rparr>"
      using body w by (cases r2; simp)+
    then show "ji_entry i = e \<and> intent_there R s i d'"
      using written_intent[OF assms(1) wrote bytes] e p by (simp add: intent_there_def in_transaction_def)
  qed
qed

lemma careful_prepare:
  assumes "journal_laws R" "named_receipt s" "\<And>p. W p \<Longrightarrow> outside s p"
    and sized: "\<And>a. from_action_parameters parameters = Inr a \<Longrightarrow> sized_action a"
  shows "careful R s T W (\<lambda>_. True) (prepare_intent R s pr parameters effect)
    (\<lambda>i d. intent_there R s i d \<and> en_status (ji_entry i) = Applied \<and>
       from_action_parameters parameters = Inr (en_action (ji_entry i)))"
proof -
  have calm: "calm s W (next_metadata R)" "calm s W (validate_directory_action R s a)" for a
    by (simp_all add: calm_def keeps_next_metadata keeps_directory_action)
  have new: "careful R s T W (\<lambda>_. True)
    (bind_op (create_new (rw_calls R) Store_write (transaction_path s (en_id e))) (\<lambda>_.
     bind_op (receipt_call R Store_security (CallHandleIdentity (transaction_path s (en_id e))) id) (\<lambda>_ d.
       case write_transaction R (transaction_path s (en_id e)) bytes d of
         (Inr _, d) \<Rightarrow> (Inr \<lparr>ji_entry = e, ji_path = transaction_path s (en_id e), ji_phase = Prepared\<rparr>, d)
       | (Inl x, d) \<Rightarrow> (Inl x, snd (remove_transaction R (transaction_path s (en_id e)) d)))))
    (\<lambda>i d. intent_there R s i d \<and> en_status (ji_entry i) = Applied \<and>
       from_action_parameters parameters = Inr (en_action (ji_entry i)))"
    if e: "documented (and_then (applied_entry (receipt_env_of R) parameters effect pr m) (\<lambda>e.
        and_then (validate_action_scope (rs_scope s) (en_action e)) (\<lambda>_.
        and_then (validate_action_principal (receipt_env_of R) (rs_worker s) (en_action e)) (\<lambda>_. Inr e)))) = Inr e"
      and bytes: "documented (intent_to_json (receipt_env_of R)
        \<lparr>in_version = receipt_schema_version, in_intent_scope = rs_scope s, in_phase = Prepared, in_entry = e\<rparr>) = Inr bytes"
    for m e bytes
  proof -
    have applied: "en_status e = Applied" "from_action_parameters parameters = Inr (en_action e)"
      using e by (auto simp: documented_def applied_entry_def checked_entry_def result_simps)
    show ?thesis
      by (rule careful_weaken[OF new_transaction[OF assms(1-3)]])
        (use bytes applied sized in \<open>auto simp: documented_def result_simps\<close>)
  qed
  show ?thesis
    unfolding prepare_intent_def Let_def
    by (intro careful_lift_then careful_calm_then[OF calm(1)] careful_calm_then[OF calm(2)] refl)
      (rule new; assumption)
qed

text \<open>What an interrupted run left is what its file says.\<close>

lemma read_intent_there:
  assumes "read_intent R s p d = (Inr i, d')"
  shows "intent_there R s i d'"
proof -
  from assms obtain x d1 d2 bytes where bytes: "read_bytes R p d1 = (Inr bytes, d2)"
    and x: "intent_from_json (receipt_env_of R) bytes = Inr x" "i = \<lparr>ji_entry = in_entry x, ji_path = p, ji_phase = in_phase x\<rparr>"
      "transaction_path s (en_id (in_entry x)) = p"
    and rest: "validate_directory_action R s (en_action (in_entry x)) d2 = (Inr (), d')"
    unfolding read_intent_def Let_def
    by (auto simp: bind_op_Inr lift_def documented_def result_simps ok_op_def stop_def split: if_splits)
  have "disk_files d' p = Some bytes"
    using read_bytes_found[OF bytes] keepsD[OF keeps_directory_action rest] by simp
  moreover have "parsed (receipt_env_of R) json_intent bytes = Inr x"
    using x(1) by (auto simp: intent_from_json_def result_simps)
  moreover have "sized_action (en_action (in_entry x))"
    using calculation(2) entry_read_sized
    by (auto simp: parsed_def result_simps json_intent_def read_struct_def bind_eq_Some_conv required_def ok_or_def
        split: option.splits)
  ultimately show ?thesis
    using x by (simp add: intent_there_def in_transaction_def transaction_intent_def)
qed

lemma left_intent_there:
  assumes "(case ps of [] \<Rightarrow> ok_op None | [p] \<Rightarrow> bind_op (read_intent R s p) (\<lambda>i. ok_op (Some i))
      | _ \<Rightarrow> stop Store_intent_conflict) d = (Inr (Some i), d')"
  shows "intent_there R s i d'"
  using assms by (cases ps; cases "tl ps") (auto simp: ok_op_def stop_def bind_op_Inr intro: read_intent_there)

lemma careful_pending_intents:
  "careful R s T W (\<lambda>_. True) (pending_intents R s) (\<lambda>left d. \<forall>i. left = Some i \<longrightarrow> intent_there R s i d)"
proof (rule careful_calm)
  show "calm s W (pending_intents R s)" by (simp add: calm_def keeps_pending_intents)
next
  fix d left d' assume "pending_intents R s d = (Inr left, d')"
  then show "\<forall>i. left = Some i \<longrightarrow> intent_there R s i d'"
    unfolding pending_intents_def Let_def by (elim bind_op_InrE) (auto intro: left_intent_there)
qed

end
