(* ===== verification/JournalSafety.thy ===== *)
theory JournalSafety
  imports JournalSteps
begin

text \<open>
  The safety of a run (\<open>JournalSteps\<close> for the parts): whatever happens, and so also when the host fails from any
  moment on, no entry is lost and no file changes that an entry does not account for; and what the report of a
  successful run says is in the receipt.
\<close>

section \<open>One mutation\<close>

text \<open>
  An action looks without changing anything, leaves the ledger to the journal, and changes only files that the
  receipt's name for it accounts for; the ordinal of a directory is a 16 bit number.
\<close>

definition accountable :: "receipt_store \<Rightarrow> (receipt_action \<Rightarrow> path \<Rightarrow> bool) \<Rightarrow> (path \<Rightarrow> bool) \<Rightarrow> setup_action \<Rightarrow> bool" where
  "accountable s touches watched a \<longleftrightarrow>
     calm s watched (sa_check a) \<and> calm s watched (sa_effect a) \<and>
     (\<forall>act. from_action_parameters (sa_parameters a) = Inr act \<longrightarrow>
        sized_action act \<and>
        (\<forall>p. ledger_file s p \<or> (watched p \<and> \<not> touches act p) \<longrightarrow>
           keeps p (sa_mutate a) \<and> (\<forall>d. disk_files (snd (sa_finish a d)) p = disk_files d p)))"

text \<open>The entry that stands for an action while it runs.\<close>

definition entry_of :: "setup_action \<Rightarrow> receipt_entry \<Rightarrow> bool" where
  "entry_of a e \<longleftrightarrow> en_status e = Applied \<and> from_action_parameters (sa_parameters a) = Inr (en_action e)"

lemma careful_change:
  assumes kept: "\<And>p. ledger_file s p \<or> (W p \<and> \<not> T (en_action e) p) \<Longrightarrow> keeps p m" and applied: "en_status e = Applied"
    and P: "\<And>d. P d \<Longrightarrow> recorded R s d e" and ledger: "\<And>d d'. untouched s (\<lambda>_. False) d d' \<Longrightarrow> P d' = P d"
  shows "careful R s T W P m (\<lambda>_. P)"
proof -
  have same: "untouched s (\<lambda>_. False) d d'" if "m d = (r, d')" for d r d'
    using keepsD[OF kept that] by (simp add: untouched_def)
  show ?thesis
  proof (rule carefulI)
    fix d r d' assume pre: "P d" and run: "m d = (r, d')"
    note l = same[OF run]
    have "accounted R s T d' p" if "W p" "disk_files d' p \<noteq> disk_files d p" for p
    proof -
      have "T (en_action e) p" using keepsD[OF kept run] that by blast
      then show ?thesis using P[OF pre] untouched_ledger(3)[OF l] applied by (auto simp: accounted_def)
    qed
    then show "careful_step R s T W d d'"
      using untouched_ledger[OF l] by (simp add: careful_step_def loses_nothing_def)
  qed (use ledger same in blast)
qed

text \<open>The mutation of an action as a sequence of computations.\<close>

definition exec_failure :: "execution_error \<Rightarrow> apply_plan_error" where
  "exec_failure e = (case e of Exec_action e \<Rightarrow> Plan_action e | Exec_conflict \<Rightarrow> Plan_receipt Store_intent_conflict)"

definition caught :: "('e, 'a) disk_op \<Rightarrow> ('f, 'e + 'a) disk_op" where
  "caught m = (\<lambda>d. case m d of (r, d) \<Rightarrow> (Inr r, d))"

definition finish_op :: "setup_action \<Rightarrow> ('f, completion) disk_op" where
  "finish_op a = (\<lambda>d. case sa_finish a d of (c, d) \<Rightarrow> (Inr c, d))"

lemma execute_and_bind_sequence:
  "execute_and_bind R s a expected i =
     bind_op (recover_op (sa_mutate a) (\<lambda>e. stop (exec_failure e))) (\<lambda>effect.
       if effect \<noteq> expected then stop (Plan_receipt Store_intent_conflict)
       else bind_op (on_receipt (mark_intent_succeeded R s i)) (\<lambda>j.
            bind_op (caught (append_succeeded_intent R s j)) (\<lambda>r.
            bind_op (finish_op a) (\<lambda>c.
              ok_op (j, c, case r of Inr _ \<Rightarrow> Entry_appended | Inl e \<Rightarrow> Succeeded_only e)))))"
  by (rule ext) (simp add: execute_and_bind_def bind_op_def recover_op_def stop_def ok_op_def on_receipt_def caught_def
      finish_op_def exec_failure_def split: prod.splits sum.splits execution_error.splits)

lemma careful_caught_append:
  assumes "journal_laws R" "named_receipt s" "\<And>p. W p \<Longrightarrow> outside s p"
  shows "careful R s T W (intent_there R s i) (caught (append_succeeded_intent R s i))
    (\<lambda>r d. recorded R s d (ji_entry i) \<and>
       (r = Inr () \<longrightarrow> intent_there R s i d \<and> ji_entry i \<in> set (receipt_entries R s d)))"
proof -
  have step: "careful_step R s T W d d' \<and> (x = Inr () \<longrightarrow> entry_appended R s {ji_entry i} (ji_entry i) d')"
    if "intent_there R s i d" "append_succeeded_intent R s i d = (x, d')" for d x d'
    using carefulD[OF careful_append_succeeded[OF assms, where X = "{ji_entry i}"] _ that(2)] that(1)
    by (auto simp: intent_there_def in_transactions_def)
  show ?thesis
  proof (rule carefulI)
    fix d r d' assume "intent_there R s i d" "caught (append_succeeded_intent R s i) d = (r, d')"
    then show "careful_step R s T W d d'" using step by (auto simp: caught_def split: prod.splits)
  next
    fix d r d' assume pre: "intent_there R s i d" and run: "caught (append_succeeded_intent R s i) d = (Inr r, d')"
    then have a: "append_succeeded_intent R s i d = (r, d')" by (auto simp: caught_def split: prod.splits)
    have "recorded R s d (ji_entry i)" using pre by (simp add: intent_there_def recorded_def)
    then show "recorded R s d' (ji_entry i) \<and>
        (r = Inr () \<longrightarrow> intent_there R s i d' \<and> ji_entry i \<in> set (receipt_entries R s d'))"
      using step[OF pre a] pre
      by (auto simp: careful_step_def loses_nothing_def entry_appended_def in_transactions_def intent_there_def)
  qed
qed

text \<open>When the entry was appended, the transaction can go.\<close>

definition retirable :: "receipt_world \<Rightarrow> receipt_store \<Rightarrow> journal_intent \<Rightarrow> disk \<Rightarrow> bool" where
  "retirable R s i d \<longleftrightarrow> intent_there R s i d \<and> ji_entry i \<in> set (receipt_entries R s d)"

lemma ledger_same:
  assumes "untouched s W d d'"
  shows "intent_there R s i d' = intent_there R s i d" "retirable R s i d' = retirable R s i d"
    "recorded R s d' e = recorded R s d e"
  using untouched_ledger[OF assms] by (simp_all add: intent_there_def retirable_def)

lemma careful_execute:
  assumes laws: "journal_laws R" "named_receipt s" "\<And>p. W p \<Longrightarrow> outside s p"
    and a: "accountable s T W a" "entry_of a (ji_entry i)"
  shows "careful R s T W (intent_there R s i) (execute_and_bind R s a expected i)
    (\<lambda>(j, _, binding) d. binding = Entry_appended \<longrightarrow> retirable R s j d \<and> ji_entry j = ji_entry i)"
proof -
  let ?e = "ji_entry i"
  have kept: "keeps p (sa_mutate a)" "keeps p (finish_op a)" if "ledger_file s p \<or> (W p \<and> \<not> T (en_action ?e) p)" for p
  proof -
    have "\<forall>d. disk_files (snd (sa_finish a d)) p = disk_files d p" "keeps p (sa_mutate a)"
      using a that by (auto simp: accountable_def entry_of_def)
    then show "keeps p (sa_mutate a)" "keeps p (finish_op a)"
      by (auto simp: keeps_def finish_op_def split: prod.split) (metis snd_conv)
  qed
  have applied: "en_status ?e = Applied" using a(2) by (simp add: entry_of_def)
  have finish: "careful R s T W (\<lambda>d. recorded R s d ?e \<and> (c \<longrightarrow> retirable R s j d)) (finish_op a)
      (\<lambda>_ d. recorded R s d ?e \<and> (c \<longrightarrow> retirable R s j d))" for c j
    by (rule careful_change[OF kept(2) applied]) (auto simp: ledger_same)
  have mutate: "careful R s T W (intent_there R s i) (recover_op (sa_mutate a) (\<lambda>e. stop (exec_failure e)))
      (\<lambda>_. intent_there R s i)"
    by (rule careful_wrap[OF careful_change[OF kept(1) applied]]) (auto simp: untouched_ledger intent_there_def recorded_def)
  have rest: "careful R s T W (\<lambda>d. j = i\<lparr>ji_phase := Succeeded\<rparr> \<and> intent_there R s j d)
      (bind_op (caught (append_succeeded_intent R s j)) (\<lambda>r. bind_op (finish_op a) (\<lambda>c.
         ok_op (j, c, case r of Inr _ \<Rightarrow> Entry_appended | Inl e \<Rightarrow> Succeeded_only e))))
      (\<lambda>(j, _, binding) d. binding = Entry_appended \<longrightarrow> retirable R s j d \<and> ji_entry j = ji_entry i)" for j
  proof (cases "j = i\<lparr>ji_phase := Succeeded\<rparr>")
    case True
    then have entry: "ji_entry j = ?e" by simp
    have append: "careful R s T W (\<lambda>d. j = i\<lparr>ji_phase := Succeeded\<rparr> \<and> intent_there R s j d)
        (caught (append_succeeded_intent R s j)) (\<lambda>r d. recorded R s d ?e \<and> (r = Inr () \<longrightarrow> retirable R s j d))"
      by (rule careful_weaken[OF careful_caught_append[OF laws, where i = j]]) (auto simp: retirable_def entry)
    show ?thesis
      by (intro careful_bind[OF append] careful_bind[OF finish] careful_ok) (auto simp: entry split: sum.splits)
  qed (simp add: careful_def)
  show ?thesis
    unfolding execute_and_bind_sequence on_receipt_def
    by (intro careful_bind[OF mutate] careful_if careful_stop careful_bind[OF careful_wrap[OF careful_mark[OF laws]]] rest)
qed

lemma careful_finish_retire:
  assumes "named_receipt s" "\<And>p. W p \<Longrightarrow> outside s p"
  shows "careful R s T W (retirable R s i) (on_receipt (retire_finalized_intent R s i))
    (\<lambda>_ d. ji_entry i \<in> set (receipt_entries R s d))"
  unfolding retirable_def on_receipt_def by (rule careful_wrap[OF careful_retire[OF assms]])

lemma careful_journaled:
  assumes laws: "journal_laws R" "named_receipt s" "\<And>p. W p \<Longrightarrow> outside s p"
    and a: "accountable s T W a" "entry_of a (ji_entry i)"
  shows "careful R s T W (intent_there R s i) (journaled_mutation R s a expected i)
    (\<lambda>_ d. ji_entry i \<in> set (receipt_entries R s d))"
proof -
  note retire = careful_finish_retire[OF laws(2,3)]
  have "careful R s T W (\<lambda>d. binding = Entry_appended \<longrightarrow> retirable R s j d \<and> ji_entry j = ji_entry i)
      (finish_bound_mutation R s j c binding) (\<lambda>_ d. ji_entry i \<in> set (receipt_entries R s d))" for j c binding
  proof (cases binding)
    case Entry_appended
    show ?thesis
    proof (cases "ji_entry j = ji_entry i")
      case True
      show ?thesis
        unfolding finish_bound_mutation_def Entry_appended receipt_binding.case
        by (cases c) (auto simp flip: True intro!: careful_stop retire careful_bind[OF retire])
    qed (simp add: Entry_appended careful_def)
  qed (simp add: finish_bound_mutation_def careful_stop)
  then show ?thesis
    unfolding journaled_mutation_def
    by (intro careful_bind[OF careful_execute[OF laws a]]) (auto split: prod.split)
qed

section \<open>The run\<close>

definition accountable_evidence ::
  "receipt_store \<Rightarrow> (path \<Rightarrow> bool) \<Rightarrow> retire_evidence \<Rightarrow> bool" where
  "accountable_evidence s watched retire \<longleftrightarrow> (\<forall>layout node. calm s watched (retire layout node))"

lemma calm_retire_evidence:
  assumes "accountable_evidence s W retire"
  shows "calm s W (retire_succeeded_evidence R s retire i)"
proof -
  have "keeps p (retire_succeeded_evidence R s retire i)" if "\<And>l n. keeps p (retire l n)" for p
    unfolding retire_succeeded_evidence_def Let_def
    by (cases "en_action (ji_entry i)") (auto intro!: keeps_rules that)
  then show ?thesis using assms by (auto simp: accountable_evidence_def calm_def)
qed

lemma calm_wrap: "calm s W m \<Longrightarrow> calm s W (recover_op m (\<lambda>e. stop (g e)))"
  by (simp add: calm_def keeps_recover keeps_stop)

lemma matching_intent:
  assumes "intent_matches R i (sa_privilege a) (sa_parameters a) expected = Inr True"
  shows "entry_of a (ji_entry i)"
  using assms by (auto simp: intent_matches_def documented_def applied_entry_def checked_entry_def result_simps entry_of_def)
    (metis receipt_entry.select_convs(6), metis receipt_entry.select_convs(2))

text \<open>What the results of a run say of the receipt, for the actions of the plan.\<close>

definition plan_settled :: "receipt_world \<Rightarrow> receipt_store \<Rightarrow> setup_action list \<Rightarrow> run_state \<Rightarrow> disk \<Rightarrow> bool" where
  "plan_settled R s plan st d \<longleftrightarrow>
     (\<forall>a\<in>set plan.
        (rn_results st (sa_name a) = Some Status_applied \<longrightarrow> (\<exists>e\<in>set (receipt_entries R s d). entry_of a e)) \<and>
        (rn_results st (sa_name a) = Some Status_pending \<longrightarrow>
           (\<exists>e\<in>set (receipt_entries R s d). from_action_parameters (sa_parameters a) = Inr (en_action e))))"

lemma lasting_settled: "lasting R s (plan_settled R s plan st)"
  unfolding lasting_def plan_settled_def by blast

lemma settled_applied:
  assumes "plan_settled R s plan st d" "distinct (map sa_name plan)" "a \<in> set plan" "x \<in> set (receipt_entries R s d)" "entry_of a x"
  shows "plan_settled R s plan (applied_result a st) d"
proof -
  have "b = a" if "b \<in> set plan" "sa_name b = sa_name a" for b
    using assms(2,3) that by (auto simp: distinct_map inj_on_def)
  then show ?thesis using assms unfolding plan_settled_def applied_result_def by fastforce
qed

lemma careful_apply_prepared:
  assumes laws: "journal_laws R" "named_receipt s" "\<And>p. W p \<Longrightarrow> outside s p"
    and plan: "distinct (map sa_name plan)" "a \<in> set plan" and a: "accountable s T W a"
  shows "careful R s T W (\<lambda>d. (intent_there R s i d \<and> entry_of a (ji_entry i)) \<and> plan_settled R s plan st d)
    (bind_op (journaled_mutation R s a expected i) (\<lambda>_. ok_op (applied_result a st)))
    (\<lambda>st' d. st' = applied_result a st \<and> plan_settled R s plan st' d)"
proof (cases "entry_of a (ji_entry i)")
  case True
  have "careful R s T W (\<lambda>d. intent_there R s i d \<and> plan_settled R s plan st d)
      (bind_op (journaled_mutation R s a expected i) (\<lambda>_. ok_op (applied_result a st))) (\<lambda>st' d. st' = applied_result a st \<and> plan_settled R s plan st' d)"
    by (intro careful_bind[OF careful_frame[OF careful_journaled[OF laws a True] lasting_settled]] careful_ok)
      (auto intro: settled_applied[OF _ plan _ True])
  then show ?thesis by (rule careful_weaken) simp_all
qed (simp add: careful_def)

lemma careful_recover:
  assumes laws: "journal_laws R" "named_receipt s" "\<And>p. W p \<Longrightarrow> outside s p"
    and plan: "distinct (map sa_name plan)" "\<And>a. a \<in> set plan \<Longrightarrow> accountable s T W a"
    and retire: "accountable_evidence s W retire"
  shows "careful R s T W (\<lambda>d. intent_there R s i d \<and> plan_settled R s plan st d) (recover_intent R s retire plan i st)
    (\<lambda>st'. plan_settled R s plan st')"
proof (cases "ji_phase i")
  case Succeeded
  have append: "careful R s T W (intent_there R s i) (append_succeeded_intent R s i) (\<lambda>_. retirable R s i)"
  proof (rule carefulI)
    fix d r d' assume pre: "intent_there R s i d" and run: "append_succeeded_intent R s i d = (r, d')"
    from pre have sized: "sized_action (en_action (ji_entry i))" and tx: "in_transactions R s {ji_entry i} d"
      by (simp_all add: intent_there_def in_transactions_def)
    show "careful_step R s T W d d'" by (rule carefulD(1)[OF careful_append_succeeded[OF laws sized] tx run])
  next
    fix d r d' assume pre: "intent_there R s i d" and run: "append_succeeded_intent R s i d = (Inr r, d')"
    from pre have sized: "sized_action (en_action (ji_entry i))" and tx: "in_transactions R s {ji_entry i} d"
      by (simp_all add: intent_there_def in_transactions_def)
    from carefulD(2)[OF careful_append_succeeded[OF laws sized] tx run refl]
    show "retirable R s i d'" using pre
      by (simp add: entry_appended_def in_transactions_def retirable_def intent_there_def)
  qed
  have appended: "careful R s T W (\<lambda>d. intent_there R s i d \<and> plan_settled R s plan st d)
      (on_receipt (append_succeeded_intent R s i)) (\<lambda>_ d. retirable R s i d \<and> plan_settled R s plan st d)"
    unfolding on_receipt_def by (rule careful_frame[OF careful_wrap[OF append] lasting_settled])
  note finished = careful_frame[OF careful_finish_retire[OF laws(2,3)] lasting_settled]
  have evidence: "calm s W (on_action (retire_succeeded_evidence R s retire i))"
    unfolding on_action_def by (rule calm_wrap[OF calm_retire_evidence[OF retire]])
  have still: "(retirable R s i d' \<and> plan_settled R s plan st d') = (retirable R s i d \<and> plan_settled R s plan st d)"
    if "untouched s W d d'" for d d'
    using untouched_ledger[OF that] ledger_same[OF that] by (simp add: plan_settled_def)
  have named: "plan_settled R s plan (st\<lparr>rn_recovered := n, rn_recovered_order := ns,
      rn_results := (rn_results st)(x \<mapsto> Status_recovered)\<rparr>) d" if "plan_settled R s plan st d" for n ns x d
    using that by (auto simp: plan_settled_def)
  show ?thesis
    unfolding recover_intent_def Let_def Succeeded intent_phase.case
    by (intro careful_lift_then careful_bind[OF appended] careful_calm_then[OF evidence] still
        careful_bind[OF finished] careful_ok) (auto intro: named)
next
  case Prepared
  have again: "careful R s T W (\<lambda>d. intent_there R s i d \<and> plan_settled R s plan st d)
      (bind_op (on_action (sa_effect a)) (\<lambda>expected.
       bind_op (on_receipt (lift (intent_matches R i (sa_privilege a) (sa_parameters a) expected))) (\<lambda>same.
         if \<not> same then stop (Plan_receipt Store_intent_conflict)
         else bind_op (on_action (sa_check a)) (\<lambda>check.
              case check of
                Check_todo \<Rightarrow> bind_op (journaled_mutation R s a expected i) (\<lambda>_. ok_op (applied_result a st))
              | _ \<Rightarrow> stop (Plan_receipt Store_intent_conflict)))))
      (\<lambda>st'. plan_settled R s plan st')" if mem: "a \<in> set plan" for a
  proof -
    have calm: "calm s W (on_action (sa_effect a))" "calm s W (on_action (sa_check a))"
      using plan(2)[OF mem] by (simp_all add: accountable_def on_action_def calm_wrap)
    have matched: "careful R s T W (\<lambda>d. intent_there R s i d \<and> plan_settled R s plan st d)
        (on_receipt (lift (intent_matches R i (sa_privilege a) (sa_parameters a) expected)))
        (\<lambda>same d. (intent_there R s i d \<and> (same \<longrightarrow> entry_of a (ji_entry i))) \<and> plan_settled R s plan st d)" for expected
      unfolding on_receipt_def by (intro careful_wrap careful_lift) (auto intro: matching_intent)
    have run: "careful R s T W (\<lambda>d. (intent_there R s i d \<and> (same \<longrightarrow> entry_of a (ji_entry i))) \<and> plan_settled R s plan st d)
        (case check of
           Check_todo \<Rightarrow> bind_op (journaled_mutation R s a expected i) (\<lambda>_. ok_op (applied_result a st))
         | _ \<Rightarrow> stop (Plan_receipt Store_intent_conflict)) (\<lambda>st'. plan_settled R s plan st')" if same for same check expected
      using that
      by (cases check)
        (auto intro: careful_stop careful_weaken[OF careful_apply_prepared[OF laws plan(1) mem plan(2)[OF mem]]])
    have still: "((intent_there R s i d' \<and> A) \<and> plan_settled R s plan st d') = ((intent_there R s i d \<and> A) \<and> plan_settled R s plan st d)"
      "(intent_there R s i d' \<and> plan_settled R s plan st d') = (intent_there R s i d \<and> plan_settled R s plan st d)"
      if "untouched s W d d'" for d d' A
      using untouched_ledger[OF that] ledger_same[OF that] by (simp_all add: plan_settled_def)
    show ?thesis
      by (intro careful_calm_then[OF calm(1)] careful_bind[OF matched] careful_if careful_stop careful_calm_then[OF calm(2)]
          still run) simp_all
  qed
  show ?thesis
    unfolding recover_intent_def Let_def Prepared intent_phase.case
    by (intro careful_option careful_stop again) (auto dest: find_first_SomeD)
qed

definition covered :: "string set \<Rightarrow> run_state \<Rightarrow> bool" where
  "covered N st \<longleftrightarrow> N \<subseteq> dom (rn_results st)"

lemma careful_run_action:
  assumes laws: "journal_laws R" "named_receipt s" "\<And>p. W p \<Longrightarrow> outside s p"
    and plan: "distinct (map sa_name plan)" "a \<in> set plan" and a: "accountable s T W a" and N: "covered N st"
  shows "careful R s T W (plan_settled R s plan st) (run_action R s a st)
    (\<lambda>st' d. plan_settled R s plan st' d \<and> covered (insert (sa_name a) N) st')"
proof -
  have calm: "calm s W (on_action (sa_check a))" "calm s W (on_action (sa_effect a))"
    using a by (simp_all add: accountable_def on_action_def calm_wrap)
  have sized: "sized_action act" if "from_action_parameters (sa_parameters a) = Inr act" for act
    using a that by (simp add: accountable_def)
  have same: "b = a" if "b \<in> set plan" "sa_name b = sa_name a" for b
    using plan that by (auto simp: distinct_map inj_on_def)
  have still: "plan_settled R s plan st d' = plan_settled R s plan st d" if "untouched s W d d'" for d d'
    using untouched_ledger[OF that] by (simp add: plan_settled_def)
  have pending: "careful R s T W (plan_settled R s plan st) (on_receipt (record_pending R s (sa_parameters a)))
      (\<lambda>_ d. (\<exists>e\<in>set (receipt_entries R s d). from_action_parameters (sa_parameters a) = Inr (en_action e)) \<and>
         plan_settled R s plan st d)"
    unfolding on_receipt_def
    by (rule careful_weaken[OF careful_frame[OF careful_wrap[OF careful_record_pending[OF laws sized]] lasting_settled]])
      (simp_all add: in_transactions_def)
  have prepared: "careful R s T W (plan_settled R s plan st)
      (on_receipt (prepare_intent R s (sa_privilege a) (sa_parameters a) expected))
      (\<lambda>i d. (intent_there R s i d \<and> entry_of a (ji_entry i)) \<and> plan_settled R s plan st d)" for expected
    unfolding on_receipt_def
    by (rule careful_weaken[OF careful_frame[OF careful_wrap[OF careful_prepare[OF laws sized]] lasting_settled]])
      (simp_all add: entry_of_def)
  have todo: "careful R s T W (\<lambda>d. (intent_there R s i d \<and> entry_of a (ji_entry i)) \<and> plan_settled R s plan st d)
      (bind_op (journaled_mutation R s a expected i) (\<lambda>_. ok_op (applied_result a st)))
      (\<lambda>st' d. plan_settled R s plan st' d \<and> covered (insert (sa_name a) N) st')" for i expected
    by (rule careful_weaken[OF careful_apply_prepared[OF laws plan a]])
      (use N in \<open>auto simp: covered_def applied_result_def\<close>)
  have "careful R s T W (plan_settled R s plan st)
      (case check of
         Check_done \<Rightarrow>
           ok_op (st\<lparr>rn_noop := rn_noop st + 1,
                    rn_results := (case rn_results st (sa_name a) of
                                     None \<Rightarrow> (rn_results st)(sa_name a \<mapsto> Status_unchanged)
                                   | Some _ \<Rightarrow> rn_results st)\<rparr>)
       | Check_todo \<Rightarrow>
           bind_op (on_action (sa_effect a)) (\<lambda>expected.
           bind_op (on_receipt (prepare_intent R s (sa_privilege a) (sa_parameters a) expected)) (\<lambda>i.
           bind_op (journaled_mutation R s a expected i) (\<lambda>_. ok_op (applied_result a st))))
       | Check_needs_human h \<Rightarrow>
           bind_op (on_receipt (record_pending R s (sa_parameters a))) (\<lambda>occurrence.
             ok_op (st\<lparr>rn_pending := rn_pending st @ [(sa_parameters a, h)],
                      rn_occurrences := rn_occurrences st @ [occurrence],
                      rn_results := (rn_results st)(sa_name a \<mapsto> Status_pending)\<rparr>)))
      (\<lambda>st' d. plan_settled R s plan st' d \<and> covered (insert (sa_name a) N) st')" for check
  proof (cases check)
    case Check_done
    then show ?thesis
      using N by (auto simp: plan_settled_def covered_def split: option.split if_splits intro!: careful_ok)
  next
    case Check_todo
    then show ?thesis
      by (auto intro!: careful_calm_then[OF calm(2)] careful_bind[OF prepared] todo still)
  next
    case (Check_needs_human h)
    have "plan_settled R s plan (st\<lparr>rn_pending := ps, rn_occurrences := os,
        rn_results := (rn_results st)(sa_name a \<mapsto> Status_pending)\<rparr>) d"
      if "\<exists>e\<in>set (receipt_entries R s d). from_action_parameters (sa_parameters a) = Inr (en_action e)"
        "plan_settled R s plan st d" for ps os d
      using that same unfolding plan_settled_def by fastforce
    then show ?thesis
      using N Check_needs_human by (auto simp: covered_def intro!: careful_bind[OF pending] careful_ok)
  qed
  then show ?thesis
    unfolding run_action_def by (intro careful_calm_then[OF calm(1)] still)
qed

lemma careful_run_actions:
  assumes laws: "journal_laws R" "named_receipt s" "\<And>p. W p \<Longrightarrow> outside s p" and plan: "distinct (map sa_name plan)"
    and rest: "\<And>a. a \<in> set rest \<Longrightarrow> a \<in> set plan \<and> accountable s T W a" and N: "covered N st"
  shows "careful R s T W (plan_settled R s plan st) (run_actions R s rest st)
    (\<lambda>st' d. plan_settled R s plan st' d \<and> covered (sa_name ` set rest \<union> N) st')"
  using rest N
proof (induction rest arbitrary: st N)
  case (Cons a rest)
  have one: "careful R s T W (plan_settled R s plan st) (run_action R s a st)
      (\<lambda>st' d. plan_settled R s plan st' d \<and> covered (insert (sa_name a) N) st')"
    using Cons.prems by (intro careful_run_action[OF laws plan]) auto
  have more: "careful R s T W (\<lambda>d. plan_settled R s plan st' d \<and> covered (insert (sa_name a) N) st') (run_actions R s rest st')
      (\<lambda>st'' d. plan_settled R s plan st'' d \<and> covered (sa_name ` set (a # rest) \<union> N) st'')" for st'
  proof (cases "covered (insert (sa_name a) N) st'")
    case True
    then show ?thesis
      using Cons.IH[of "insert (sa_name a) N" st'] Cons.prems(1) by (auto elim: careful_weaken)
  qed (simp add: careful_def)
  show ?case unfolding run_actions.simps by (rule careful_bind[OF one more])
qed (simp add: careful_ok)

text \<open>The report lists each name once, with its result.\<close>

lemma ordered_results_exact:
  "set (ordered_results ns results) = {(n, t). n \<in> set ns \<and> results n = Some t} \<and>
     distinct (map fst (ordered_results ns results))"
proof (induction ns arbitrary: results)
  case (Cons n ns)
  show ?case
  proof (cases "results n")
    case None
    then show ?thesis using Cons.IH[of results] by auto
  next
    case (Some t)
    define rest where "rest = results(n := None)"
    have rest: "rest x = Some u \<longleftrightarrow> x \<noteq> n \<and> results x = Some u" for x u by (simp add: rest_def)
    have step: "ordered_results (n # ns) results = (n, t) # ordered_results ns rest" by (simp add: Some rest_def)
    show ?thesis using Cons.IH[of rest] Some unfolding step by (auto simp: rest)
  qed
qed simp

definition report_holds :: "receipt_world \<Rightarrow> receipt_store \<Rightarrow> setup_action list \<Rightarrow> apply_report \<Rightarrow> disk \<Rightarrow> bool" where
  "report_holds R s plan report d \<longleftrightarrow>
     distinct (map fst (ar_results report)) \<and>
     (\<forall>a\<in>set plan. \<exists>t. (sa_name a, t) \<in> set (ar_results report) \<and>
        (t = Status_applied \<longrightarrow> (\<exists>e\<in>set (receipt_entries R s d). entry_of a e)) \<and>
        (t = Status_pending \<longrightarrow>
           (\<exists>e\<in>set (receipt_entries R s d). from_action_parameters (sa_parameters a) = Inr (en_action e))))"

lemma settled_reported:
  assumes "plan_settled R s plan st d" "covered (sa_name ` set plan) st"
  shows "report_holds R s plan
    \<lparr>ar_applied = n, ar_recovered = r, ar_noop = k, ar_completion = c,
     ar_results = ordered_results (map sa_name plan @ rn_recovered_order st) (rn_results st)\<rparr> d"
  using assms ordered_results_exact[of "map sa_name plan @ rn_recovered_order st" "rn_results st"]
  by (auto simp: report_holds_def plan_settled_def covered_def)

lemma careful_apply_plan:
  assumes laws: "journal_laws R" "named_receipt s" "\<And>p. W p \<Longrightarrow> outside s p"
    and plan: "\<And>a. a \<in> set plan \<Longrightarrow> accountable s T W a" and retire: "accountable_evidence s W retire"
  shows "careful R s T W (\<lambda>_. True) (apply_plan R s retire plan) (report_holds R s plan)"
proof (cases "distinct (map sa_name plan)")
  case True
  have left: "careful R s T W (\<lambda>_. True) (on_receipt (pending_intents R s))
      (\<lambda>left d. \<forall>i. left = Some i \<longrightarrow> intent_there R s i d)"
    unfolding on_receipt_def by (rule careful_wrap[OF careful_pending_intents])
  have fresh: "plan_settled R s plan fresh_run d" for d by (simp add: plan_settled_def fresh_run_def)
  have recover: "careful R s T W (\<lambda>d. \<forall>i. left = Some i \<longrightarrow> intent_there R s i d)
      (case left of None \<Rightarrow> ok_op fresh_run | Some i \<Rightarrow> recover_intent R s retire plan i fresh_run)
      (\<lambda>st. plan_settled R s plan st)" for left
    by (cases left) (auto simp: fresh intro!: careful_ok careful_weaken[OF careful_recover[OF laws True plan retire]])
  have actions: "careful R s T W (plan_settled R s plan st) (run_actions R s plan st)
      (\<lambda>st' d. plan_settled R s plan st' d \<and> covered (sa_name ` set plan) st')" for st
    by (rule careful_weaken[OF careful_run_actions[OF laws True, where N = "{}"]]) (simp_all add: plan covered_def)
  have "calm s W (begin_apply R s)" "calm s W (complete_execution R s ls)" for ls
    by (rule calmI[OF _ laws(3)]; simp add: keeps_begin_apply keeps_complete laws(2))+
  then have calm: "calm s W (on_receipt (begin_apply R s))" "calm s W (on_receipt (complete_execution R s ls))" for ls
    by (simp_all add: on_receipt_def calm_wrap)
  have "calm s W (on_receipt (lift r))" for r :: "receipt_store_error + 'b"
    unfolding on_receipt_def by (rule calm_wrap) (simp add: calm_def keeps_lift)
  note calm = calm this
  have still: "(plan_settled R s plan st d' \<and> A) = (plan_settled R s plan st d \<and> A)" if "untouched s W d d'" for st d d' A
    using untouched_ledger[OF that] by (simp add: plan_settled_def)
  show ?thesis
    unfolding apply_plan_def run_under_lock_def
    by (intro careful_if careful_stop careful_calm_then[OF calm(3)] careful_calm_then[OF calm(1)] careful_bind[OF left]
        careful_bind[OF recover] careful_bind[OF actions] careful_calm_then[OF calm(2)] still careful_ok refl)
      (auto intro: settled_reported)
qed (simp add: apply_plan_def careful_stop)

text \<open>
  C1. Whatever the host does, and so also when every call fails from some moment on, a run of a setup plan leaves
  the entries of the receipt as they were and only adds to them, keeps every entry that was recorded (in the
  receipt or in a transaction file), and changes a watched file only if an entry of an applied action that may
  touch the file is recorded.
\<close>

theorem no_unrecorded_change:
  assumes "journal_laws R" "named_receipt s" "\<And>p. watched p \<Longrightarrow> outside s p"
    and "\<And>a. a \<in> set plan \<Longrightarrow> accountable s touches watched a" "accountable_evidence s watched retire"
    and "apply_plan R s retire plan d = (r, d')"
  shows "prefix (receipt_entries R s d) (receipt_entries R s d') \<and>
    (\<forall>e. recorded R s d e \<longrightarrow> recorded R s d' e) \<and>
    (\<forall>p. watched p \<longrightarrow> disk_files d' p \<noteq> disk_files d p \<longrightarrow>
       (\<exists>e. recorded R s d' e \<and> en_status e = Applied \<and> touches (en_action e) p))"
  using carefulD(1)[OF careful_apply_plan[OF assms(1-5)] TrueI assms(6)]
  by (simp add: careful_step_def loses_nothing_def accounted_def)

text \<open>
  C11. When a run returns a report, the report names every action of the plan once: an action reported as applied has
  its entry in the receipt, with the status applied and the parameters of the action, and an action reported as
  pending has an entry with its parameters there.
\<close>

theorem successful_run_settles:
  assumes "journal_laws R" "named_receipt s" "\<And>p. watched p \<Longrightarrow> outside s p"
    and "\<And>a. a \<in> set plan \<Longrightarrow> accountable s touches watched a" "accountable_evidence s watched retire"
    and "apply_plan R s retire plan d = (Inr report, d')"
  shows "distinct (map fst (ar_results report)) \<and>
    (\<forall>a\<in>set plan. \<exists>t. (sa_name a, t) \<in> set (ar_results report) \<and>
       (t = Status_applied \<longrightarrow>
          (\<exists>e\<in>set (receipt_entries R s d'). en_status e = Applied \<and>
             from_action_parameters (sa_parameters a) = Inr (en_action e))) \<and>
       (t = Status_pending \<longrightarrow>
          (\<exists>e\<in>set (receipt_entries R s d'). from_action_parameters (sa_parameters a) = Inr (en_action e))))"
  using carefulD(2)[OF careful_apply_plan[OF assms(1-5)] TrueI assms(6) refl]
  by (fastforce simp: report_holds_def entry_of_def)

end
