(* ===== verification/JournalDemo.thy ===== *)
theory JournalDemo
  imports JournalSafety StoreIdentity "HOL-Library.Countable"
begin

text \<open>
  Two runs on a concrete world, for the witnesses of the properties of the journal: an action that waits for a
  human, and an action that is applied. JSON trees are written as their number, in unary, which the parser reads
  back.
\<close>

instance json :: countable
  by countable_datatype

section \<open>The world\<close>

definition demo_journal_world :: receipt_world where
  "demo_journal_world =
     \<lparr>rw_world = demo_world
        \<lparr>w_crates := (re_crates demo_receipt_env)\<lparr>json_parse := \<lambda>s. Some (from_nat (length s - 1))\<rparr>,
         w_host := demo_user_host\<rparr>,
      rw_account_name = \<lambda>_. True, rw_pretty = \<lambda>v. replicate (to_nat v) (CHR ''x''), rw_now = \<lambda>_. ''00Z'',
      rw_same_file = \<lambda>_ _ _. True, rw_listing = \<lambda>_ _. []\<rparr>"

definition demo_journal_store :: receipt_store where
  "demo_journal_store =
     \<lparr>rs_scope = UserScope, rs_path_text = ''/home/styrn/.config/styrn/receipt.json'',
      rs_path = [''home'', ''styrn'', ''.config'', ''styrn'', ''receipt.json''],
      rs_trusted_root = [''home'', ''styrn'', ''.config''], rs_worker = demo_user\<rparr>"

definition demo_journal_disk :: disk where
  "demo_journal_disk =
     \<lparr>disk_files = Map.empty,
      disk_dirs = {[], [''home''], [''home'', ''styrn''], [''home'', ''styrn'', ''.config''],
        [''home'', ''styrn'', ''.config'', ''styrn'']},
      disk_clock = 0\<rparr>"

definition demo_target :: path where
  "demo_target = [''home'', ''styrn'', ''tools'']"

abbreviation demo_tools :: receipt_action where
  "demo_tools \<equiv> Act_foundation ''tools.install''"

definition demo_setup_action :: "action_check \<Rightarrow> setup_action" where
  "demo_setup_action check =
     \<lparr>sa_name = ''tools.install'', sa_privilege = No_privilege, sa_parameters = Par_foundation ''tools.install'',
      sa_check = ok_op check, sa_effect = ok_op no_effect,
      sa_mutate = (\<lambda>d. (Inr no_effect, put_file demo_target ''tools'' d)), sa_finish = (\<lambda>d. (Fully_applied, d))\<rparr>"

abbreviation journal_env :: receipt_env where
  "journal_env \<equiv> receipt_env_of demo_journal_world"

lemma demo_env_like: "demo_like journal_env"
  by (simp add: demo_like_def receipt_env_of_def demo_journal_world_def demo_receipt_env_def)

lemma demo_calls [simp]: "rw_calls demo_journal_world = (\<lambda>_ _. None)"
  by (simp add: demo_journal_world_def demo_world_def)

lemma demo_store_fields [simp]: "rs_scope demo_journal_store = UserScope" "rs_worker demo_journal_store = demo_user"
  by (simp_all add: demo_journal_store_def)

lemma journal_named: "named_receipt demo_journal_store"
  by (simp add: named_receipt_def demo_journal_store_def)

lemma hex_digit_plain: "d < 16 \<Longrightarrow> hex_digit d \<noteq> CHR ''t''"
  using hex_value_digit[of d] by (auto simp: hex_value_def byte_def split: if_splits)

lemma to_hex_plain: "CHR ''t'' \<notin> set (to_hex k n)"
proof (induction k arbitrary: n)
  case (Suc k)
  have "hex_digit (n mod 16) \<noteq> CHR ''t''" by (rule hex_digit_plain) simp
  then show ?case using Suc by (simp add: eq_commute)
qed simp

lemma demo_journal_laws: "journal_laws demo_journal_world"
  by (simp add: journal_laws_def demo_journal_world_def serialize_json_def pretty_line_def receipt_env_of_def to_hex_plain
      demo_receipt_env_def demo_world_def demo_crates_def)

lemma demo_target_apart: "ledger_file demo_journal_store p \<Longrightarrow> p \<noteq> demo_target" "p = demo_target \<Longrightarrow> outside demo_journal_store p"
  by (auto simp: ledger_file_def outside_def demo_journal_store_def demo_target_def receipt_directory_def)

lemma demo_accountable:
  "accountable demo_journal_store (\<lambda>a p. a = demo_tools) (\<lambda>p. p = demo_target) (demo_setup_action check)"
  using demo_target_apart
  by (auto simp: accountable_def demo_setup_action_def calm_def ok_op_def sized_action_def keeps_def put_file_def)

lemma demo_evidence: "accountable_evidence demo_journal_store (\<lambda>p. p = demo_target) (\<lambda>_ _. ok_op ())"
  by (simp add: accountable_evidence_def calm_def keeps_ok)

section \<open>Steps that find nothing\<close>

lemma later_later [simp]: "later n (later m d) = later (m + n) d"
  by (simp add: later_def)

lemma later_files [simp]: "disk_files (later n d) = disk_files d" "disk_dirs (later n d) = disk_dirs d"
  by (simp_all add: later_def)

lemma later_clock: "d\<lparr>disk_clock := Suc (disk_clock d)\<rparr> = later 1 d"
  by (simp add: later_def)

lemma later_changes:
  "later n (put_file p x d) = put_file p x (later n d)" "later n (move_file p q d) = move_file p q (later n d)"
  "later n (erase_file p d) = erase_file p (later n d)"
  by (simp_all add: later_def put_file_def move_file_def erase_file_def)

lemma changed_dirs [simp]:
  "disk_dirs (put_file p x d) = disk_dirs d" "disk_dirs (move_file p q d) = disk_dirs d"
  "disk_dirs (erase_file p d) = disk_dirs d"
  by (simp_all add: put_file_def move_file_def erase_file_def)

lemma changed_file [simp]:
  "disk_files (put_file p x d) p = Some x" "p \<noteq> q \<Longrightarrow> disk_files (move_file p q d) q = disk_files d p"
  by (simp_all add: put_file_def move_file_def)

lemmas plain_ops = bind_op_def ok_op_def stop_def lift_def Let_def at_moment_def at_clock_def recover_op_def

lemma journal_call: "receipt_call demo_journal_world wrap c change d = (Inr (), change (later 1 d))"
  by (simp add: receipt_call_def native_def later_def Let_def)

lemma demo_create: "disk_files d p = None \<Longrightarrow> p \<notin> disk_dirs d \<Longrightarrow>
    create_new (\<lambda>_ _. None) wrap p d = (Inr (), put_file p [] (later 1 d))"
  by (simp add: create_new_def exists_on_def native_def later_def Let_def)

lemma journal_policy:
  "receipt_destination_policy demo_journal_store = Inr [''home'', ''styrn'', ''.config'', ''styrn'']"
  by code_simp

lemma journal_bound: "receipt_bound_principal demo_journal_world demo_journal_store t = Inr ()"
  by (simp add: receipt_bound_principal_def demo_journal_world_def demo_user_host_def demo_host_def result_simps
      answered_def reject_if_def)

lemma demo_path_text: "receipt_path_text demo_journal_world demo_journal_store = Inr (rs_path_text demo_journal_store)"
proof -
  have "is_normalized_unix_path ''/home/styrn/.config/styrn/receipt.json''" by code_simp
  moreover have "utf8_valid ''/home/styrn/.config/styrn/receipt.json''" by code_simp
  ultimately show ?thesis
    by (simp add: receipt_path_text_def is_normalized_absolute_path_def demo_journal_world_def receipt_env_of_def
        demo_user_host_def demo_host_def demo_journal_store_def)
qed

lemma demo_prepared:
  assumes "disk_dirs d = disk_dirs demo_journal_disk"
  shows "prepare_receipt_destination demo_journal_world demo_journal_store [''home'', ''styrn'', ''.config'', ''styrn''] d =
    (Inr (), later 5 d)"
  using assms
  by (simp add: prepare_receipt_destination_def plain_ops native_def receipt_call_def demo_journal_store_def
      receipt_trusted_root_def stat_path_def exists_on_def demo_journal_disk_def verify_receipt_directory_def later_def)

lemma demo_empty_read:
  "disk_files d (rs_path demo_journal_store) = None \<Longrightarrow>
     read_locked demo_journal_world demo_journal_store d = (Inr (empty_receipt UserScope), later 1 d)"
  by (simp add: read_locked_def open_receipt_def plain_ops later_def)

lemma demo_no_publication:
  "disk_files d (publication_intent_path demo_journal_store) = None \<Longrightarrow>
     read_publication_intent demo_journal_world demo_journal_store x d = (Inr None, later 1 d)"
  by (simp add: read_publication_intent_def read_verified_publication_intent_def file_identity_def plain_ops later_def)

lemma demo_nothing_left:
  "pending_intents demo_journal_world demo_journal_store d = (Inr None, later 1 d)"
  by (simp add: pending_intents_def plain_ops journal_call transaction_names_def later_def)
    (simp add: demo_journal_world_def plain_ops)

lemma demo_fresh: "fresh_text demo_journal_world t = demo_entry_id"
  by (simp add: fresh_text_def demo_journal_world_def demo_user_host_def demo_host_def demo_receipt_env_def demo_entry_id_def)

definition demo_metadata :: receipt_metadata where
  "demo_metadata = \<lparr>md_entry_id = demo_entry_id, md_timestamp = ''00Z''\<rparr>"

lemma demo_next: "next_metadata demo_journal_world d = (Inr demo_metadata, later 1 d)"
  using demo_entry_ids(1)[OF demo_env_like] demo_timestamps(1)[OF demo_env_like]
  by (simp add: next_metadata_def plain_ops demo_fresh later_def documented_def result_simps map_err_def)
    (simp add: demo_journal_world_def demo_metadata_def)

lemma demo_metadata_fields: "md_entry_id demo_metadata = demo_entry_id" "md_timestamp demo_metadata = ''00Z''"
  by (simp_all add: demo_metadata_def)

section \<open>The files of the run\<close>

abbreviation journal_lock :: path where
  "journal_lock \<equiv> receipt_lock_path demo_journal_store"

definition demo_staged :: path where
  "demo_staged = receipt_temporary demo_journal_world demo_journal_store 0"

definition demo_marked :: path where
  "demo_marked = intent_temporary demo_journal_world (receipt_directory demo_journal_store) 0"

definition demo_transaction :: path where
  "demo_transaction = transaction_path demo_journal_store demo_entry_id"

lemma demo_temporaries:
  "receipt_temporary demo_journal_world demo_journal_store t = demo_staged"
  "intent_temporary demo_journal_world (receipt_directory demo_journal_store) t = demo_marked"
  by (simp_all add: receipt_temporary_def intent_temporary_def demo_fresh demo_staged_def demo_marked_def)

lemma demo_names:
  "rs_path demo_journal_store = receipt_directory demo_journal_store @ [''receipt.json'']"
  "demo_staged = receipt_directory demo_journal_store @ [''.receipt.json.'' @ demo_entry_id @ ''.tmp'']"
  "demo_marked = receipt_directory demo_journal_store @ [''.receipt.json.intent.'' @ demo_entry_id @ ''.tmp'']"
  "demo_transaction = receipt_directory demo_journal_store @ [''.receipt.json.transaction.'' @ demo_entry_id @ ''.json'']"
  "demo_target \<noteq> receipt_directory demo_journal_store @ [n]"
  by (simp_all add: receipt_directory_def demo_journal_store_def demo_staged_def demo_marked_def demo_transaction_def
      receipt_temporary_def intent_temporary_def transaction_path_def transaction_prefix_def demo_fresh demo_target_def)

lemma demo_sizes: "length demo_target = 3" "length (receipt_directory demo_journal_store) = 4"
  by (simp_all add: demo_target_def demo_journal_store_def receipt_directory_def)

lemma demo_apart:
  "distinct [rs_path demo_journal_store, journal_lock, publication_intent_path demo_journal_store, demo_staged, demo_marked,
     demo_transaction, demo_target]"
proof -
  have size: "length demo_entry_id = 32" by (simp add: demo_entry_id_def)
  have "length (''.receipt.json.'' @ demo_entry_id @ ''.tmp'') = 50"
    "length (''.receipt.json.intent.'' @ demo_entry_id @ ''.tmp'') = 57"
    "length (''.receipt.json.transaction.'' @ demo_entry_id @ ''.json'') = 63"
    by (simp_all add: size)
  moreover have "length ''receipt.json'' = 12" "length ''.receipt.json.lock'' = 18"
    "length ''.receipt.json.pending-publication.json'' = 38" by simp_all
  ultimately show ?thesis
    unfolding demo_names(1-4) receipt_lock_path_def publication_intent_path_def
    using demo_names(5)[of "''receipt.json''"] demo_sizes by (auto dest!: arg_cong[where f = length])
qed

lemma demo_no_dirs:
  "disk_dirs d = disk_dirs demo_journal_disk \<Longrightarrow> demo_staged \<notin> disk_dirs d"
  "disk_dirs d = disk_dirs demo_journal_disk \<Longrightarrow> demo_marked \<notin> disk_dirs d"
  "disk_dirs d = disk_dirs demo_journal_disk \<Longrightarrow> demo_transaction \<notin> disk_dirs d"
  "disk_dirs d = disk_dirs demo_journal_disk \<Longrightarrow> rs_path demo_journal_store \<notin> disk_dirs d"
  by (auto simp: demo_names(2-4) demo_journal_disk_def demo_journal_store_def receipt_directory_def)

section \<open>A receipt of one entry\<close>

text \<open>The receipt that a run writes: one entry of the action, waiting or applied.\<close>

definition journal_demo_entry :: "receipt_status \<Rightarrow> receipt_entry" where
  "journal_demo_entry t = demo_waiting\<lparr>en_status := t\<rparr>"

definition demo_document :: "receipt_status \<Rightarrow> receipt_document" where
  "demo_document t = append_entry (journal_demo_entry t) (empty_receipt UserScope)"

lemma demo_action_accepted:
  "validate_receipt_action journal_env demo_tools = Inr ()" "validate_action_scope UserScope demo_tools = Inr ()"
  "validate_action_principal journal_env w demo_tools = Inr ()"
  using demo_action_identifier by (simp_all add: validate_action_scope_def validate_action_principal_def)

lemma demo_entry_valid: "validate_entry journal_env (journal_demo_entry t) = Inr ()"
  using demo_action_identifier demo_entry_ids(1)[OF demo_env_like] demo_timestamps(1)[OF demo_env_like]
  by (cases t) (simp_all add: journal_demo_entry_def demo_waiting_def result_simps no_effect_def validate_entry_def
      validate_effect_def validate_action_effect_def claims_nothing_def optional_def reject_if_def)

lemma demo_entry_made:
  "pending_entry journal_env (Par_foundation ''tools.install'') demo_metadata = Inr (journal_demo_entry Pending)"
  "applied_entry journal_env (Par_foundation ''tools.install'') no_effect No_privilege demo_metadata = Inr (journal_demo_entry Applied)"
  using demo_entry_valid[of Pending] demo_entry_valid[of Applied]
  by (simp_all add: pending_entry_def applied_entry_def checked_entry_def result_simps journal_demo_entry_def demo_waiting_def
      demo_metadata_def)

lemma demo_document_fields:
  "rd_scope (demo_document t) = UserScope" "rd_entries (demo_document t) = [journal_demo_entry t]"
  "rd_publications (demo_document t) = []" "en_action (journal_demo_entry t) = demo_tools" "en_status (journal_demo_entry t) = t"
  "en_id (journal_demo_entry t) = demo_entry_id" "en_timestamp (journal_demo_entry t) = ''00Z''"
  by (simp_all add: demo_document_def append_entry_def empty_receipt_def journal_demo_entry_def demo_waiting_def)

lemma journal_document_valid:
  "validate_structure journal_env (demo_document t) = Inr ()" "validate_document journal_env (demo_document t) = Inr ()"
  "validate_with_intent journal_env None (demo_document t) = Inr ()" "sized_document (demo_document t)"
proof -
  have "en_privilege (journal_demo_entry t) = Used_none" by (simp add: journal_demo_entry_def demo_waiting_def)
  then show v: "validate_structure journal_env (demo_document t) = Inr ()"
    using demo_entry_valid[of t] demo_action_accepted(2)
    by (simp add: validate_structure_def demo_document_fields result_simps del: validate_action_scope.simps)
      (simp add: demo_document_def append_entry_def empty_receipt_def)
  show "validate_document journal_env (demo_document t) = Inr ()"
    "validate_with_intent journal_env None (demo_document t) = Inr ()" "sized_document (demo_document t)"
    using v by (simp_all add: validate_document_def validate_with_intent_def with_publication_def result_simps
        validate_pending_publication_epochs_def demo_document_fields sized_document_def sized_action_def Let_def)
qed

abbreviation demo_bytes :: "receipt_status \<Rightarrow> string" where
  "demo_bytes t \<equiv> serialize_json journal_env (demo_document t)"

lemma demo_parse_back: "from_json_without_epoch_validation journal_env (demo_bytes t) = Inr (demo_document t)"
proof -
  note v = journal_document_valid[of t]
  have parses: "json_parse (re_crates journal_env) (demo_bytes t) = Some (document_json (demo_document t))"
    using demo_journal_laws structure_version[OF v(1)] v(4) by (simp add: journal_laws_def receipt_env_of_def)
  have "\<lparr>rd_version = rd_version (demo_document t), rd_scope = rd_scope (demo_document t),
      rd_entries = rd_entries (demo_document t), rd_publications = rd_publications (demo_document t)\<rparr> = demo_document t"
    by simp
  then have "validate_structure journal_env
      \<lparr>rd_version = rd_version (demo_document t), rd_scope = rd_scope (demo_document t),
       rd_entries = rd_entries (demo_document t), rd_publications = rd_publications (demo_document t)\<rparr> = Inr ()"
    using v(1) by metis
  then show ?thesis
    using parses by (simp add: from_json_without_epoch_validation_def parsed_def document_read[OF v(1,4)] result_simps Let_def)
qed

lemma demo_read_back:
  assumes "disk_files d (rs_path demo_journal_store) = Some (demo_bytes t)"
    "disk_files d (publication_intent_path demo_journal_store) = None"
  shows "read_locked demo_journal_world demo_journal_store d = (Inr (demo_document t), later 3 d)"
proof -
  have "validate_document_principal journal_env w (demo_document t) = Inr ()"
    "validate_directory_document demo_journal_world demo_journal_store (demo_document t) d = (Inr (), d)" for w d
    by (simp_all add: validate_document_principal_def validate_directory_document_def has_worker_directory_action_def
        is_worker_directory_def demo_document_fields demo_action_accepted plain_ops)
  then show ?thesis
    by (simp add: read_locked_def open_receipt_def plain_ops read_bytes_def journal_call later_clock document_of_bytes_def
        documented_def demo_parse_back map_err_def assms demo_document_fields journal_document_valid demo_no_publication
        under_way_def numeral_3_eq_3)
qed

text \<open>The receipt after the write.\<close>

definition demo_replaced :: "receipt_status \<Rightarrow> disk \<Rightarrow> disk" where
  "demo_replaced t d =
     move_file demo_staged (rs_path demo_journal_store)
       (put_file demo_staged (demo_bytes t) (put_file demo_staged [] (later 8 d)))"

lemma demo_written:
  assumes "disk_files d demo_staged = None" "disk_dirs d = disk_dirs demo_journal_disk"
  shows "write_document demo_journal_world demo_journal_store (demo_document t) None d = (Inr (), demo_replaced t d)"
proof -
  have "to_json_with_intent journal_env None (demo_document t) = Inr (demo_bytes t)"
    by (simp add: to_json_with_intent_def journal_document_valid result_simps)
  then show ?thesis
    by (simp add: write_document_def under_way_def documented_def map_err_def plain_ops demo_temporaries with_cleanup_def
        replace_receipt_def demo_create assms demo_no_dirs journal_call later_clock later_changes demo_replaced_def del: One_nat_def)
qed

lemma demo_replaced_files:
  "disk_files (demo_replaced t d) (rs_path demo_journal_store) = Some (demo_bytes t)"
  "q \<noteq> demo_staged \<Longrightarrow> q \<noteq> rs_path demo_journal_store \<Longrightarrow> disk_files (demo_replaced t d) q = disk_files d q"
  "disk_dirs (demo_replaced t d) = disk_dirs d"
  using demo_apart by (auto simp: demo_replaced_def put_file_def move_file_def)

section \<open>The runs\<close>

abbreviation demo_link :: publication_link where
  "demo_link \<equiv> \<lparr>lk_action_id = ''tools.install'', lk_entry_id = demo_entry_id\<rparr>"

lemma demo_begun:
  "begin_apply demo_journal_world demo_journal_store demo_journal_disk = (Inr (), put_file journal_lock [] (later 10 demo_journal_disk))"
proof -
  have none: "disk_files demo_journal_disk p = None" for p by (simp add: demo_journal_disk_def)
  have "preflight_writer_state demo_journal_world demo_journal_store d = (Inr (), later 1 d)"
    if "disk_files d (rs_path demo_journal_store) = None" "disk_dirs d = disk_dirs demo_journal_disk" for d
    using that demo_no_dirs(4)[OF that(2)]
    by (simp add: preflight_writer_state_def plain_ops native_def stat_path_def exists_on_def later_def)
  moreover have "read_locked demo_journal_world demo_journal_store (put_file journal_lock [] d) =
      (Inr (empty_receipt UserScope), put_file journal_lock [] (later 1 d))"
    if "disk_files d (rs_path demo_journal_store) = None" for d
    using demo_empty_read[of "put_file journal_lock [] d"] that demo_apart by (simp add: later_changes)
  ultimately show ?thesis
    by (simp add: begin_apply_def plain_ops journal_policy demo_prepared journal_bound journal_call none later_clock later_changes
        del: One_nat_def)
qed

lemma demo_completed:
  assumes "disk_files d (rs_path demo_journal_store) = Some (demo_bytes t)"
    "disk_files d (publication_intent_path demo_journal_store) = None"
    and "check_occurrences (demo_document t) None {} {} ls = Inr ()"
  shows "\<exists>w. complete_execution demo_journal_world demo_journal_store ls d = (Inr w, later 4 d)"
  using assms(3)
  by (simp add: complete_execution_def plain_ops demo_read_back[OF assms(1,2)] demo_no_publication assms(2) under_way_def
      effective_document_def journal_document_valid with_publication_def documented_def map_err_def demo_path_text
      receipt_entries_digest_def receipt_document_digest_def receipt_to_json_def result_simps)

lemma demo_current: "current_pending_occurrence (demo_document Pending) ''tools.install'' None = Some demo_link"
  by (simp add: current_pending_occurrence_def latest_publication_def demo_document_fields pending_for_def)

lemma demo_none_current: "current_pending_occurrence (empty_receipt UserScope) a None = None"
  by (simp add: empty_receipt_def current_pending_occurrence_def latest_publication_def)

lemma demo_pending_recorded:
  assumes "disk_files d (rs_path demo_journal_store) = None" "disk_files d demo_staged = None"
    "disk_files d (publication_intent_path demo_journal_store) = None" "disk_dirs d = disk_dirs demo_journal_disk"
  shows "record_pending demo_journal_world demo_journal_store (Par_foundation ''tools.install'') d =
    (Inr demo_link, demo_replaced Pending (later 3 d))"
proof -
  have made: "append_entry (journal_demo_entry Pending) (empty_receipt UserScope) = demo_document Pending"
    by (simp add: demo_document_def)
  have candidate: "validate_pending_append_candidate journal_env (empty_receipt UserScope) (demo_document Pending) None = Inr ()"
    by (simp add: validate_pending_append_candidate_def under_way_def documented_def result_simps journal_document_valid
        validate_pending_intent_prefix_def last_status_def appended_only_def demo_document_fields demo_none_current
        reject_if_def) (simp add: empty_receipt_def)
  show ?thesis
    by (simp add: record_pending_def plain_ops demo_empty_read demo_no_publication assms documented_def result_simps
        map_err_def demo_action_identifier validate_directory_action_def under_way_def demo_none_current demo_next
        demo_entry_made candidate made demo_written is_worker_directory_def numeral_3_eq_3 demo_metadata_fields)
qed

lemma demo_waiting_run:
  "\<exists>report d. apply_plan demo_journal_world demo_journal_store (\<lambda>_ _. ok_op ())
       [demo_setup_action (Check_needs_human h)] demo_journal_disk = (Inr report, d) \<and>
     ar_results report = [(''tools.install'', Status_pending)]"
proof -
  let ?d = "put_file journal_lock [] (later 11 demo_journal_disk)"
  let ?e = "demo_replaced Pending (later 3 ?d)"
  have none: "disk_files ?d q = None" if "q \<noteq> journal_lock" for q
    using that by (simp add: put_file_def demo_journal_disk_def)
  have recorded: "record_pending demo_journal_world demo_journal_store (Par_foundation ''tools.install'') ?d = (Inr demo_link, ?e)"
    by (rule demo_pending_recorded) (use demo_apart none in auto)
  have "disk_files ?e (publication_intent_path demo_journal_store) = None"
    using demo_apart none by (auto simp: demo_replaced_files)
  from demo_completed[OF demo_replaced_files(1) this, of "[demo_link]"]
  obtain w where w: "complete_execution demo_journal_world demo_journal_store [demo_link] ?e = (Inr w, later 4 ?e)"
    by (auto simp: demo_current)
  have left: "pending_intents demo_journal_world demo_journal_store (put_file journal_lock [] (later 10 demo_journal_disk)) =
      (Inr None, ?d)"
    by (simp add: demo_nothing_left later_changes)
  show ?thesis
    by (simp add: apply_plan_def demo_setup_action_def plain_ops on_receipt_def validate_action_privilege_def
        reject_if_def run_under_lock_def demo_begun left run_action_def on_action_def recorded fresh_run_def w
        new_completed_execution_def)
qed

theorem successful_run_settles_witness:
  "\<exists>report d. apply_plan demo_journal_world demo_journal_store (\<lambda>_ _. ok_op ())
       [demo_setup_action (Check_needs_human \<lparr>nh_severity = Human_warning, nh_instructions = ''install the tools'',
          nh_fragment = None\<rparr>)] demo_journal_disk = (Inr report, d) \<and>
     (\<exists>e\<in>set (receipt_entries demo_journal_world demo_journal_store d). en_action e = demo_tools)"
proof -
  let ?a = "demo_setup_action (Check_needs_human \<lparr>nh_severity = Human_warning, nh_instructions = ''install the tools'',
    nh_fragment = None\<rparr>)"
  obtain report d where run: "apply_plan demo_journal_world demo_journal_store (\<lambda>_ _. ok_op ()) [?a] demo_journal_disk = (Inr report, d)"
    and results: "ar_results report = [(''tools.install'', Status_pending)]"
    using demo_waiting_run by blast
  have "\<exists>e\<in>set (receipt_entries demo_journal_world demo_journal_store d). en_action e = demo_tools"
    using successful_run_settles[OF demo_journal_laws journal_named demo_target_apart(2) _ demo_evidence run, of "\<lambda>a p. a = demo_tools"]
      demo_accountable results by (auto simp: demo_setup_action_def)
  then show ?thesis using run by blast
qed

text \<open>The steps of the transaction of an applied action.\<close>

definition demo_intent :: "intent_phase \<Rightarrow> action_intent" where
  "demo_intent p = \<lparr>in_version = receipt_schema_version, in_intent_scope = UserScope, in_phase = p, in_entry = journal_demo_entry Applied\<rparr>"

definition demo_journal_intent :: "intent_phase \<Rightarrow> journal_intent" where
  "demo_journal_intent p = \<lparr>ji_entry = journal_demo_entry Applied, ji_path = demo_transaction, ji_phase = p\<rparr>"

lemma demo_open: "disk_files d p \<noteq> None \<Longrightarrow> open_verified demo_journal_world p wrap d = (Inr (), later 1 d)"
  by (simp add: open_verified_def journal_call)

lemma demo_intent_written:
  "intent_to_json journal_env (demo_intent p) = Inr (pretty_line journal_env (intent_json (demo_intent p)))"
proof -
  have "en_privilege (journal_demo_entry Applied) = Used_none" by (simp add: journal_demo_entry_def demo_waiting_def)
  then show ?thesis
    by (simp add: intent_to_json_def validate_intent_def demo_intent_def demo_entry_valid demo_document_fields
        demo_action_accepted result_simps del: validate_action_scope.simps)
qed

lemma demo_prepared_intent:
  assumes "disk_files d demo_transaction = None" "disk_dirs d = disk_dirs demo_journal_disk"
  shows "prepare_intent demo_journal_world demo_journal_store No_privilege (Par_foundation ''tools.install'') no_effect d =
    (Inr (demo_journal_intent Prepared),
     put_file demo_transaction (pretty_line journal_env (intent_json (demo_intent Prepared)))
       (put_file demo_transaction [] (later 7 d)))"
proof -
  have path: "transaction_path demo_journal_store demo_entry_id = demo_transaction" by (simp add: demo_transaction_def)
  show ?thesis
    using demo_intent_written[of Prepared] demo_action_accepted
    by (simp add: prepare_intent_def plain_ops validate_action_privilege_def reject_if_def demo_next demo_entry_made
        documented_def result_simps demo_document_fields validate_directory_action_def is_worker_directory_def path
        demo_intent_def map_err_def demo_create assms demo_no_dirs journal_call write_transaction_def demo_open
        later_changes demo_journal_intent_def numeral_eq_Suc del: validate_action_scope.simps)
qed

lemma demo_marked_intent:
  assumes "disk_files d demo_marked = None" "disk_dirs d = disk_dirs demo_journal_disk"
  shows "mark_intent_succeeded demo_journal_world demo_journal_store (demo_journal_intent Prepared) d =
    (Inr (demo_journal_intent Succeeded),
     move_file demo_marked demo_transaction
       (put_file demo_marked (pretty_line journal_env (intent_json (demo_intent Succeeded)))
         (put_file demo_marked [] (later 8 d))))"
proof -
  have dir: "butlast demo_transaction = receipt_directory demo_journal_store" by (simp add: demo_names)
  show ?thesis
    using demo_intent_written[of Succeeded] demo_apart
    by (simp add: mark_intent_succeeded_def plain_ops demo_journal_intent_def demo_intent_def documented_def map_err_def
        replace_intent_def dir demo_temporaries with_cleanup_def demo_create assms demo_no_dirs journal_call demo_open
        later_changes later_clock del: One_nat_def)
qed

lemma demo_appended:
  assumes "disk_files d (rs_path demo_journal_store) = None" "disk_files d demo_staged = None"
    "disk_files d (publication_intent_path demo_journal_store) = None" "disk_dirs d = disk_dirs demo_journal_disk"
  shows "append_succeeded_intent demo_journal_world demo_journal_store (demo_journal_intent Succeeded) d =
    (Inr (), demo_replaced Applied (later 2 d))"
proof -
  have made: "append_entry (journal_demo_entry Applied) (empty_receipt UserScope) = demo_document Applied"
    by (simp add: demo_document_def)
  have candidate: "validate_append_candidate journal_env (empty_receipt UserScope) (demo_document Applied) None = Inr ()"
    by (simp add: validate_append_candidate_def under_way_def documented_def result_simps journal_document_valid
        validate_pending_intent_prefix_def last_status_def appended_only_def demo_document_fields reject_if_def)
      (simp add: empty_receipt_def)
  have empty: "rd_entries (empty_receipt UserScope) = []" by (simp add: empty_receipt_def)
  show ?thesis
    by (simp add: append_succeeded_intent_def demo_journal_intent_def plain_ops demo_empty_read demo_no_publication assms
        empty candidate made demo_written numeral_2_eq_2)
qed

lemma demo_applied_run:
  "\<exists>report d. apply_plan demo_journal_world demo_journal_store (\<lambda>_ _. ok_op ()) [demo_setup_action Check_todo]
       demo_journal_disk = (Inr report, d) \<and>
     disk_files d demo_target = Some ''tools''"
proof -
  let ?d = "put_file journal_lock [] (later 11 demo_journal_disk)"
  let ?e = "put_file demo_transaction (pretty_line journal_env (intent_json (demo_intent Prepared)))
    (put_file demo_transaction [] (later 7 ?d))"
  let ?f = "put_file demo_target ''tools'' ?e"
  let ?g = "move_file demo_marked demo_transaction
    (put_file demo_marked (pretty_line journal_env (intent_json (demo_intent Succeeded))) (put_file demo_marked [] (later 8 ?f)))"
  let ?h = "demo_replaced Applied (later 2 ?g)"
  let ?i = "erase_file demo_transaction (later 3 ?h)"
  have none: "disk_files ?d q = None" if "q \<noteq> journal_lock" for q
    using that by (simp add: put_file_def demo_journal_disk_def)
  have prepared: "prepare_intent demo_journal_world demo_journal_store No_privilege (Par_foundation ''tools.install'') no_effect ?d =
      (Inr (demo_journal_intent Prepared), ?e)"
    by (rule demo_prepared_intent) (use demo_apart none in auto)
  have marked: "mark_intent_succeeded demo_journal_world demo_journal_store (demo_journal_intent Prepared) ?f =
      (Inr (demo_journal_intent Succeeded), ?g)"
    by (rule demo_marked_intent) (use demo_apart none in \<open>auto simp: put_file_def\<close>)
  have appended: "append_succeeded_intent demo_journal_world demo_journal_store (demo_journal_intent Succeeded) ?g = (Inr (), ?h)"
    by (rule demo_appended) (use demo_apart none in \<open>auto simp: put_file_def move_file_def\<close>)
  have retired: "retire_finalized_intent demo_journal_world demo_journal_store (demo_journal_intent Succeeded) ?h = (Inr (), ?i)"
    by (simp add: retire_finalized_intent_def demo_journal_intent_def remove_transaction_def plain_ops journal_call
        later_changes numeral_3_eq_3)
  have files: "disk_files ?i (rs_path demo_journal_store) = Some (demo_bytes Applied)"
      "disk_files ?i (publication_intent_path demo_journal_store) = None" "disk_files ?i demo_target = Some ''tools''"
    using demo_apart none by (auto simp: erase_file_def demo_replaced_files put_file_def move_file_def)
  from demo_completed[OF files(1,2), of "[]"]
  obtain w where w: "complete_execution demo_journal_world demo_journal_store [] ?i = (Inr w, later 4 ?i)"
    by auto
  have left: "pending_intents demo_journal_world demo_journal_store (put_file journal_lock [] (later 10 demo_journal_disk)) =
      (Inr None, ?d)"
    by (simp add: demo_nothing_left later_changes)
  show ?thesis
    using files(3)
    by (simp add: apply_plan_def demo_setup_action_def plain_ops on_receipt_def validate_action_privilege_def
        reject_if_def run_under_lock_def demo_begun left run_action_def on_action_def prepared fresh_run_def
        journaled_mutation_def execute_and_bind_def marked appended finish_bound_mutation_def retired applied_result_def w
        new_completed_execution_def)
qed

theorem no_unrecorded_change_witness:
  "\<exists>report d. apply_plan demo_journal_world demo_journal_store (\<lambda>_ _. ok_op ()) [demo_setup_action Check_todo]
       demo_journal_disk = (Inr report, d) \<and>
     disk_files d demo_target \<noteq> disk_files demo_journal_disk demo_target \<and>
     (\<exists>e. recorded demo_journal_world demo_journal_store d e \<and> en_status e = Applied \<and> en_action e = demo_tools)"
proof -
  obtain report d where run: "apply_plan demo_journal_world demo_journal_store (\<lambda>_ _. ok_op ())
      [demo_setup_action Check_todo] demo_journal_disk = (Inr report, d)" and target: "disk_files d demo_target = Some ''tools''"
    using demo_applied_run by blast
  have changed: "disk_files d demo_target \<noteq> disk_files demo_journal_disk demo_target"
    by (simp add: target demo_journal_disk_def)
  have "\<exists>e. recorded demo_journal_world demo_journal_store d e \<and> en_status e = Applied \<and> en_action e = demo_tools"
    using no_unrecorded_change[OF demo_journal_laws journal_named demo_target_apart(2) _ demo_evidence run, of "\<lambda>a p. a = demo_tools"]
      demo_accountable changed by auto
  then show ?thesis using run changed by blast
qed

end
